(* ===== verification/Interfaces.thy ===== *)
theory Interfaces
  imports Prelude
begin

text \<open>
  The contracts between the components, as locales. A \<open>normalizer\<close> brings a value into a managed form
  and leaves a value that has it alone. A \<open>keyed_store\<close> is what the stores of profiles, subscriptions,
  rulesets and scheduled tasks offer to their clients: lookup, add, edit and delete by id, where the
  operation answers an error and takes its change back when writing the file fails. A
  \<open>durable_store\<close> promises in addition that memory and disk agree after every operation.
\<close>

subsection \<open>Normalisation\<close>

locale normalizer =
  fixes norm :: "'a \<Rightarrow> 'a"
  assumes idem: "norm (norm x) = norm x"
begin

lemma fixpoint_iff: "norm x = x \<longleftrightarrow> (\<exists>y. x = norm y)"
  using idem by metis

lemma iterate: "(norm ^^ Suc n) x = norm x"
  by (induction n) (simp_all add: idem)

text \<open>A pass over a collection that rewrites what differs from its normal form finds nothing to do
  the second time.\<close>

lemma second_pass_silent: "filter (\<lambda>x. norm x \<noteq> x) (map norm xs) = []"
  by (induction xs) (simp_all add: idem)

end

subsection \<open>Stores with a key\<close>

datatype ('a, 'w) command =
    CmdAdd 'w 'a
  | CmdEdit 'w string 'a
  | CmdDelete 'w string

text \<open>The abstract store: a partial map, changed by the commands whose write succeeds (\<open>ok\<close>).\<close>

fun spec_command ::
    "('a \<Rightarrow> string) \<Rightarrow> ('w \<Rightarrow> bool) \<Rightarrow> ('a, 'w) command \<Rightarrow> (string \<rightharpoonup> 'a) \<Rightarrow> (string \<rightharpoonup> 'a)" where
  "spec_command key ok (CmdAdd w x) m = (if ok w then m(key x \<mapsto> x) else m)"
| "spec_command key ok (CmdEdit w i x) m = (if ok w \<and> m i \<noteq> None then m(i \<mapsto> x) else m)"
| "spec_command key ok (CmdDelete w i) m = (if ok w then m(i := None) else m)"

text \<open>A command respects the keys when it adds a fresh one and edits without changing it.\<close>

fun keyed_command :: "('a \<Rightarrow> string) \<Rightarrow> ('a, 'w) command \<Rightarrow> (string \<rightharpoonup> 'a) \<Rightarrow> bool" where
  "keyed_command key (CmdAdd w x) m = (m (key x) = None)"
| "keyed_command key (CmdEdit w i x) m = (key x = i)"
| "keyed_command key (CmdDelete w i) m = True"

fun keyed_commands ::
    "('a \<Rightarrow> string) \<Rightarrow> ('w \<Rightarrow> bool) \<Rightarrow> ('a, 'w) command list \<Rightarrow> (string \<rightharpoonup> 'a) \<Rightarrow> bool" where
  "keyed_commands key ok [] m = True"
| "keyed_commands key ok (c # cs) m =
     (keyed_command key c m \<and> keyed_commands key ok cs (spec_command key ok c m))"

fun run_command ::
    "('w \<Rightarrow> 'a \<Rightarrow> 's \<Rightarrow> 's) \<Rightarrow> ('w \<Rightarrow> string \<Rightarrow> 'a \<Rightarrow> 's \<Rightarrow> 's) \<Rightarrow> ('w \<Rightarrow> string \<Rightarrow> 's \<Rightarrow> 's)
       \<Rightarrow> ('a, 'w) command \<Rightarrow> 's \<Rightarrow> 's" where
  "run_command add edit del (CmdAdd w x) s = add w x s"
| "run_command add edit del (CmdEdit w i x) s = edit w i x s"
| "run_command add edit del (CmdDelete w i) s = del w i s"

locale keyed_store =
  fixes key :: "'a \<Rightarrow> string"
    and ok :: "'w \<Rightarrow> bool"
    and uniq :: "'s \<Rightarrow> bool"
    and get :: "'s \<Rightarrow> string \<Rightarrow> 'a option"
    and add :: "'w \<Rightarrow> 'a \<Rightarrow> 's \<Rightarrow> 's"
    and edit :: "'w \<Rightarrow> string \<Rightarrow> 'a \<Rightarrow> 's \<Rightarrow> 's"
    and del :: "'w \<Rightarrow> string \<Rightarrow> 's \<Rightarrow> 's"
  assumes get_add: "ok w \<Longrightarrow> get s (key x) = None \<Longrightarrow> get (add w x s) = (get s)(key x \<mapsto> x)"
    and get_edit: "ok w \<Longrightarrow> key x = i \<Longrightarrow>
          get (edit w i x s) = (if get s i = None then get s else (get s)(i \<mapsto> x))"
    and get_del: "ok w \<Longrightarrow> uniq s \<Longrightarrow> get (del w i s) = (get s)(i := None)"
    and add_failed: "\<not> ok w \<Longrightarrow> get (add w x s) = get s"
    and edit_failed: "\<not> ok w \<Longrightarrow> get (edit w i x s) = get s"
    and del_failed: "\<not> ok w \<Longrightarrow> get (del w i s) = get s"
    and uniq_add: "uniq s \<Longrightarrow> get s (key x) = None \<Longrightarrow> uniq (add w x s)"
    and uniq_edit: "uniq s \<Longrightarrow> key x = i \<Longrightarrow> uniq (edit w i x s)"
    and uniq_del: "uniq s \<Longrightarrow> uniq (del w i s)"
begin

lemmas lookup_laws = get_add get_edit get_del add_failed edit_failed del_failed
lemmas uniq_laws = uniq_add uniq_edit uniq_del

lemma command_refines:
  assumes "uniq s" and "keyed_command key c (get s)"
  shows "get (run_command add edit del c s) = spec_command key ok c (get s)"
    and "uniq (run_command add edit del c s)"
proof -
  show "get (run_command add edit del c s) = spec_command key ok c (get s)"
  proof (cases c)
    case (CmdAdd w x)
    with assms show ?thesis by (cases "ok w") (auto simp: lookup_laws)
  next
    case (CmdEdit w i x)
    with assms show ?thesis by (cases "ok w") (auto simp: lookup_laws)
  next
    case (CmdDelete w i)
    with assms show ?thesis by (cases "ok w") (auto simp: lookup_laws)
  qed
  show "uniq (run_command add edit del c s)"
    using assms by (cases c) (auto intro: uniq_laws)
qed

text \<open>The functional refinement: any respectful sequence of commands acts on the lookups as on the
  abstract map.\<close>

lemma commands_refine:
  assumes "uniq s" and "keyed_commands key ok cs (get s)"
  shows "get (fold (run_command add edit del) cs s) = fold (spec_command key ok) cs (get s)"
    and "uniq (fold (run_command add edit del) cs s)"
proof -
  have "get (fold (run_command add edit del) cs s) = fold (spec_command key ok) cs (get s)
      \<and> uniq (fold (run_command add edit del) cs s)"
    using assms
  proof (induction cs arbitrary: s)
    case Nil
    then show ?case by simp
  next
    case (Cons c cs)
    then have step: "get (run_command add edit del c s) = spec_command key ok c (get s)"
      "uniq (run_command add edit del c s)"
      using command_refines [of s c] by simp_all
    with Cons.prems(2) have "keyed_commands key ok cs (get (run_command add edit del c s))" by simp
    with Cons.IH [OF step(2)] show ?case by (simp add: step(1))
  qed
  then show "get (fold (run_command add edit del) cs s) = fold (spec_command key ok) cs (get s)"
    and "uniq (fold (run_command add edit del) cs s)" by simp_all
qed

lemma add_then_del:
  assumes "uniq s" "ok w" "ok w'" "get s (key x) = None"
  shows "get (del w' (key x) (add w x s)) = get s"
  using assms by (simp add: get_del uniq_add get_add fun_upd_idem)

end

locale durable_store = keyed_store key ok uniq get add edit del
  for key :: "'a \<Rightarrow> string" and ok :: "'w \<Rightarrow> bool" and uniq :: "'s \<Rightarrow> bool"
    and get :: "'s \<Rightarrow> string \<Rightarrow> 'a option" and add :: "'w \<Rightarrow> 'a \<Rightarrow> 's \<Rightarrow> 's"
    and edit :: "'w \<Rightarrow> string \<Rightarrow> 'a \<Rightarrow> 's \<Rightarrow> 's" and del :: "'w \<Rightarrow> string \<Rightarrow> 's \<Rightarrow> 's" +
  fixes synced :: "'s \<Rightarrow> bool"
  assumes synced_add: "synced s \<Longrightarrow> synced (add w x s)"
    and synced_edit: "synced s \<Longrightarrow> synced (edit w i x s)"
    and synced_del: "synced s \<Longrightarrow> synced (del w i s)"
begin

lemma commands_durable: "synced s \<Longrightarrow> synced (fold (run_command add edit del) cs s)"
proof (induction cs arbitrary: s)
  case Nil
  then show ?case by simp
next
  case (Cons c cs)
  then have "synced (run_command add edit del c s)"
    by (cases c) (auto intro: synced_add synced_edit synced_del)
  with Cons.IH show ?case by simp
qed

end

end
