(* ===== verification/FileStore.thy ===== *)
theory FileStore
  imports Interfaces
begin

text \<open>
  The pattern shared by \<open>stores/profiles.ts\<close>, \<open>stores/subscribes.ts\<close> and \<open>stores/rulesets.ts\<close>: a
  list of objects in memory, saved as a whole to one file. Every operation changes the list first,
  then saves, and takes the change back when the save throws. The save is the argument \<open>w\<close>:
  \<^const>\<open>None\<close> when the write succeeds, the error otherwise. \<open>strip\<close> is what the file leaves out
  (\<open>omitArray(..., ['updating'])\<close>).
\<close>

record ('a, 'b) file_store =
  fs_items :: "'a list"
  fs_disk :: "'b list"

type_synonym write_outcome = "string option"

definition store_add ::
    "('a \<Rightarrow> 'b) \<Rightarrow> write_outcome \<Rightarrow> 'a \<Rightarrow> ('a, 'b) file_store \<Rightarrow> string option \<times> ('a, 'b) file_store" where
  "store_add strip w x s =
     (let items = fs_items s @ [x]
      in case w of
           None \<Rightarrow> (None, \<lparr>fs_items = items, fs_disk = map strip items\<rparr>)
         | Some e \<Rightarrow> (Some e, s\<lparr>fs_items := butlast items\<rparr>))"

definition store_delete ::
    "('a \<Rightarrow> string) \<Rightarrow> ('a \<Rightarrow> 'b) \<Rightarrow> write_outcome \<Rightarrow> string \<Rightarrow> ('a, 'b) file_store
       \<Rightarrow> string option \<times> ('a, 'b) file_store" where
  "store_delete key strip w i s = (case find_index (\<lambda>v. key v = i) (fs_items s) of
      None \<Rightarrow> (None, s)
    | Some k \<Rightarrow>
        (let backup = fs_items s ! k; items = remove_at k (fs_items s)
         in case w of
              None \<Rightarrow> (None, \<lparr>fs_items = items, fs_disk = map strip items\<rparr>)
            | Some e \<Rightarrow> (Some e, s\<lparr>fs_items := insert_at k backup items\<rparr>)))"

definition store_edit ::
    "('a \<Rightarrow> string) \<Rightarrow> ('a \<Rightarrow> 'b) \<Rightarrow> write_outcome \<Rightarrow> string \<Rightarrow> 'a \<Rightarrow> ('a, 'b) file_store
       \<Rightarrow> string option \<times> ('a, 'b) file_store" where
  "store_edit key strip w i x s = (case find_index (\<lambda>v. key v = i) (fs_items s) of
      None \<Rightarrow> (None, s)
    | Some k \<Rightarrow>
        (let backup = fs_items s ! k; items = (fs_items s)[k := x]
         in case w of
              None \<Rightarrow> (None, \<lparr>fs_items = items, fs_disk = map strip items\<rparr>)
            | Some e \<Rightarrow> (Some e, s\<lparr>fs_items := items[k := backup]\<rparr>)))"

definition store_get :: "('a \<Rightarrow> string) \<Rightarrow> ('a, 'b) file_store \<Rightarrow> string \<Rightarrow> 'a option" where
  "store_get key s i = List.find (\<lambda>v. key v = i) (fs_items s)"

subsection \<open>Laws of the pattern\<close>

definition store_uniq :: "('a \<Rightarrow> string) \<Rightarrow> ('a, 'b) file_store \<Rightarrow> bool" where
  "store_uniq key s \<longleftrightarrow> distinct (map key (fs_items s))"

definition store_synced :: "('a \<Rightarrow> 'b) \<Rightarrow> ('a, 'b) file_store \<Rightarrow> bool" where
  "store_synced strip s \<longleftrightarrow> fs_disk s = map strip (fs_items s)"

lemma find_list_update_first:
  "find_index (\<lambda>v. key v = i) xs = Some k \<Longrightarrow> key x = i \<Longrightarrow>
   List.find (\<lambda>v. key v = j) (xs[k := x]) = (if j = i then Some x else List.find (\<lambda>v. key v = j) xs)"
proof (induction xs arbitrary: k)
  case Nil
  then show ?case by simp
next
  case (Cons y ys)
  then show ?case by (cases "key y = i") auto
qed

lemma find_index_None_find: "find_index p xs = None \<longleftrightarrow> List.find p xs = None"
  by (simp add: find_index_None_iff find_eq_None_iff)

lemma find_remove_first:
  "find_index (\<lambda>v. key v = i) xs = Some k \<Longrightarrow> distinct (map key xs) \<Longrightarrow>
   List.find (\<lambda>v. key v = j) (remove_at k xs) = (if j = i then None else List.find (\<lambda>v. key v = j) xs)"
proof (induction xs arbitrary: k)
  case Nil
  then show ?case by simp
next
  case (Cons y ys)
  show ?case
  proof (cases "key y = i")
    case True
    with Cons.prems have "k = 0" by simp
    moreover have "\<forall>x \<in> set ys. key x \<noteq> i"
      using True Cons.prems(2) by (metis distinct.simps(2) image_eqI list.set_map list.simps(9))
    ultimately have "k = 0" "\<forall>x \<in> set ys. key x \<noteq> i" by simp_all
    then show ?thesis using True by (auto simp: remove_at_def find_eq_None_iff)
  next
    case False
    with Cons.prems obtain n where n: "find_index (\<lambda>v. key v = i) ys = Some n" "k = Suc n" by auto
    have "List.find (\<lambda>v. key v = j) (remove_at n ys)
        = (if j = i then None else List.find (\<lambda>v. key v = j) ys)"
      by (rule Cons.IH) (use n Cons.prems(2) in auto)
    moreover have "remove_at k (y # ys) = y # remove_at n ys"
      using n by (simp add: remove_at_def)
    ultimately show ?thesis using False by (cases "j = i") simp_all
  qed
qed

lemma insert_remove_at: "k < length xs \<Longrightarrow> insert_at k (xs ! k) (remove_at k xs) = xs"
  by (simp add: insert_at_def remove_at_def id_take_nth_drop [symmetric] min_def)

lemma distinct_remove_at: "distinct (map key xs) \<Longrightarrow> distinct (map key (remove_at k xs))"
proof -
  assume d: "distinct (map key xs)"
  have "distinct (take k (map key xs) @ drop (Suc k) (map key xs))"
    using d set_take_disj_set_drop_if_distinct [OF d, of k "Suc k"] by (simp add: distinct_drop distinct_take)
  then show ?thesis by (simp add: remove_at_def take_map drop_map)
qed

lemma distinct_list_update_key:
  assumes "distinct (map key xs)" "find_index (\<lambda>v. key v = i) xs = Some k" "key x = i"
  shows "distinct (map key (xs[k := x]))"
proof -
  have k: "k < length xs" "key (xs ! k) = i" using find_index_SomeD [OF assms(2)] by auto
  have "map key (xs[k := x]) = (map key xs)[k := key (xs ! k)]"
    using k assms(3) by (simp add: map_update)
  also have "\<dots> = map key xs" using k by (simp add: list_update_same_conv)
  finally show ?thesis using assms(1) by simp
qed

lemma store_add_laws:
  "store_get key s (key x) = None \<Longrightarrow>
     store_get key (snd (store_add strip None x s)) = (store_get key s)(key x \<mapsto> x)"
  "snd (store_add strip (Some e) x s) = s"
  "store_uniq key s \<Longrightarrow> store_get key s (key x) = None \<Longrightarrow>
     store_uniq key (snd (store_add strip w x s))"
  "store_synced strip s \<Longrightarrow> store_synced strip (snd (store_add strip w x s))"
proof -
  show "store_get key s (key x) = None \<Longrightarrow>
      store_get key (snd (store_add strip None x s)) = (store_get key s)(key x \<mapsto> x)"
    by (rule ext) (auto simp: store_get_def store_add_def find_append split: option.splits)
  show "snd (store_add strip (Some e) x s) = s"
    by (simp add: store_add_def)
  show "store_uniq key s \<Longrightarrow> store_get key s (key x) = None \<Longrightarrow>
      store_uniq key (snd (store_add strip w x s))"
    by (cases w) (auto simp: store_uniq_def store_get_def store_add_def find_eq_None_iff)
  show "store_synced strip s \<Longrightarrow> store_synced strip (snd (store_add strip w x s))"
    by (cases w) (auto simp: store_synced_def store_add_def)
qed

lemma store_edit_laws:
  "key x = i \<Longrightarrow> store_get key (snd (store_edit key strip None i x s)) =
     (if store_get key s i = None then store_get key s else (store_get key s)(i \<mapsto> x))"
  "snd (store_edit key strip (Some e) i x s) = s"
  "store_uniq key s \<Longrightarrow> key x = i \<Longrightarrow> store_uniq key (snd (store_edit key strip w i x s))"
  "store_synced strip s \<Longrightarrow> store_synced strip (snd (store_edit key strip w i x s))"
proof -
  show failed: "snd (store_edit key strip (Some e) i x s) = s" for e
    by (auto simp: store_edit_def list_update_same_conv dest: find_index_SomeD split: option.splits)
  show "key x = i \<Longrightarrow> store_get key (snd (store_edit key strip None i x s)) =
      (if store_get key s i = None then store_get key s else (store_get key s)(i \<mapsto> x))"
  proof (cases "find_index (\<lambda>v. key v = i) (fs_items s)")
    case None
    moreover from None have "store_get key s i = None" by (simp add: store_get_def find_index_None_find)
    ultimately show "key x = i \<Longrightarrow> ?thesis" by (simp add: store_edit_def)
  next
    case (Some k)
    moreover from Some have "store_get key s i \<noteq> None"
      by (metis find_index_None_find option.distinct(1) store_get_def)
    ultimately show "key x = i \<Longrightarrow> ?thesis"
      by (intro ext) (simp add: store_edit_def Let_def store_get_def find_list_update_first)
  qed
  show "store_uniq key s \<Longrightarrow> key x = i \<Longrightarrow> store_uniq key (snd (store_edit key strip w i x s))"
  proof (cases w)
    case None
    then show "store_uniq key s \<Longrightarrow> key x = i \<Longrightarrow> ?thesis"
      by (auto simp: store_uniq_def store_edit_def Let_def split: option.splits intro!: distinct_list_update_key)
  next
    case (Some e)
    then show "store_uniq key s \<Longrightarrow> key x = i \<Longrightarrow> ?thesis" by (simp add: failed)
  qed
  show "store_synced strip s \<Longrightarrow> store_synced strip (snd (store_edit key strip w i x s))"
  proof (cases w)
    case None
    then show "store_synced strip s \<Longrightarrow> ?thesis"
      by (auto simp: store_synced_def store_edit_def Let_def split: option.splits)
  next
    case (Some e)
    then show "store_synced strip s \<Longrightarrow> ?thesis" by (simp add: failed)
  qed
qed

lemma store_delete_laws:
  "store_uniq key s \<Longrightarrow>
     store_get key (snd (store_delete key strip None i s)) = (store_get key s)(i := None)"
  "snd (store_delete key strip (Some e) i s) = s"
  "store_uniq key s \<Longrightarrow> store_uniq key (snd (store_delete key strip w i s))"
  "store_synced strip s \<Longrightarrow> store_synced strip (snd (store_delete key strip w i s))"
proof -
  show failed: "snd (store_delete key strip (Some e) i s) = s" for e
    by (auto simp: store_delete_def insert_remove_at dest: find_index_SomeD split: option.splits)
  show "store_uniq key s \<Longrightarrow>
      store_get key (snd (store_delete key strip None i s)) = (store_get key s)(i := None)"
  proof (cases "find_index (\<lambda>v. key v = i) (fs_items s)")
    case None
    moreover from None have "store_get key s i = None" by (simp add: store_get_def find_index_None_find)
    ultimately show "store_uniq key s \<Longrightarrow> ?thesis" by (simp add: store_delete_def fun_upd_idem)
  next
    case (Some k)
    then show "store_uniq key s \<Longrightarrow> ?thesis"
      by (intro ext) (simp add: store_delete_def Let_def store_get_def store_uniq_def find_remove_first)
  qed
  show "store_uniq key s \<Longrightarrow> store_uniq key (snd (store_delete key strip w i s))"
  proof (cases w)
    case None
    then show "store_uniq key s \<Longrightarrow> ?thesis"
      by (auto simp: store_uniq_def store_delete_def Let_def distinct_remove_at split: option.splits)
  next
    case (Some e)
    then show "store_uniq key s \<Longrightarrow> ?thesis" by (simp add: failed)
  qed
  show "store_synced strip s \<Longrightarrow> store_synced strip (snd (store_delete key strip w i s))"
  proof (cases w)
    case None
    then show "store_synced strip s \<Longrightarrow> ?thesis"
      by (auto simp: store_synced_def store_delete_def Let_def split: option.splits)
  next
    case (Some e)
    then show "store_synced strip s \<Longrightarrow> ?thesis" by (simp add: failed)
  qed
qed

lemmas file_store_laws = store_add_laws store_edit_laws store_delete_laws

text \<open>Everything a keyed, durable store has to promise, for any key and any reduced form on disk.\<close>

lemma file_store_durable:
  "durable_store key (\<lambda>w :: write_outcome. w = None) (store_uniq key) (store_get key)
     (\<lambda>w x s. snd (store_add strip w x s)) (\<lambda>w i x s. snd (store_edit key strip w i x s))
     (\<lambda>w i s. snd (store_delete key strip w i s)) (store_synced strip)"
  by unfold_locales (auto simp: file_store_laws)

end
