(* ===== verification/JsValues.thy ===== *)
theory JsValues
  imports Prelude
begin

text \<open>
  The part of the JavaScript standard library the modelled code calls: strings (lists of code units
  below 256, so Latin-1 text), \<open>trim\<close>, \<open>toLowerCase\<close>, \<open>startsWith\<close>, \<open>includes\<close>, \<open>split\<close> and \<open>join\<close>,
  \<open>parseInt\<close> and the printing of integers, and the truthiness of strings and numbers.
\<close>

subsection \<open>Truthiness\<close>

text \<open>The empty string is falsy; a missing value is \<^const>\<open>None\<close> and falsy too.\<close>

definition truthy_s :: "string option \<Rightarrow> bool" where
  "truthy_s v = (case v of None \<Rightarrow> False | Some s \<Rightarrow> s \<noteq> '''')"

definition truthy_n :: "int option \<Rightarrow> bool" where
  "truthy_n v = (case v of None \<Rightarrow> False | Some n \<Rightarrow> n \<noteq> 0)"

text \<open>\<open>a || b\<close> on strings.\<close>

definition str_or :: "string \<Rightarrow> string \<Rightarrow> string" where
  "str_or a b = (if a = '''' then b else a)"

definition opt_or :: "string option \<Rightarrow> string \<Rightarrow> string" where
  "opt_or v b = (case v of None \<Rightarrow> b | Some s \<Rightarrow> str_or s b)"

text \<open>\<open>s || undefined\<close>.\<close>

definition nonempty :: "string \<Rightarrow> string option" where
  "nonempty s = (if s = '''' then None else Some s)"

lemma truthy_s_simps [simp]: "truthy_s None = False" "truthy_s (Some s) = (s \<noteq> '''')"
  by (simp_all add: truthy_s_def)

lemma truthy_n_simps [simp]: "truthy_n None = False" "truthy_n (Some n) = (n \<noteq> 0)"
  by (simp_all add: truthy_n_def)

lemma opt_or_simps [simp]:
  "opt_or None b = b" "opt_or (Some s) b = str_or s b"
  by (simp_all add: opt_or_def)

lemma str_or_empty [simp]: "str_or '''' b = b"
  by (simp add: str_or_def)

lemma str_or_nonempty_iff: "str_or a b = '''' \<longleftrightarrow> a = '''' \<and> b = ''''"
  by (simp add: str_or_def)

lemma nonempty_simps [simp]:
  "nonempty '''' = None" "truthy_s (nonempty s) = (s \<noteq> '''')"
  by (simp_all add: nonempty_def)

subsection \<open>Strings\<close>

text \<open>White space of \<open>trim\<close> below 256: tab, line feed, vertical tab, form feed, carriage return,
  space and no-break space.\<close>

definition js_ws :: "char \<Rightarrow> bool" where
  "js_ws c \<longleftrightarrow> of_char c \<in> {9, 10, 11, 12, 13, 32, 160 :: nat}"

definition trim_left :: "string \<Rightarrow> string" where
  "trim_left s = dropWhile js_ws s"

definition js_trim :: "string \<Rightarrow> string" where
  "js_trim s = rev (trim_left (rev (trim_left s)))"

definition lower_char :: "char \<Rightarrow> char" where
  "lower_char c = (let n = of_char c :: nat
     in if (65 \<le> n \<and> n \<le> 90) \<or> (192 \<le> n \<and> n \<le> 222 \<and> n \<noteq> 215) then char_of (n + 32) else c)"

definition js_lower :: "string \<Rightarrow> string" where
  "js_lower s = map lower_char s"

definition starts_with :: "string \<Rightarrow> string \<Rightarrow> bool" where
  "starts_with s p \<longleftrightarrow> take (length p) s = p"

definition ends_with :: "string \<Rightarrow> string \<Rightarrow> bool" where
  "ends_with s p \<longleftrightarrow> starts_with (rev s) (rev p)"

fun js_includes :: "string \<Rightarrow> string \<Rightarrow> bool" where
  "js_includes [] p = (p = [])"
| "js_includes (c # cs) p = (starts_with (c # cs) p \<or> js_includes cs p)"

text \<open>\<open>s.split(c)\<close> for a one-character separator; never the empty array.\<close>

fun js_split :: "char \<Rightarrow> string \<Rightarrow> string list" where
  "js_split c [] = [[]]"
| "js_split c (x # xs) =
     (if x = c then [] # js_split c xs
      else case js_split c xs of [] \<Rightarrow> [[x]] | w # ws \<Rightarrow> (x # w) # ws)"

fun js_join :: "string \<Rightarrow> string list \<Rightarrow> string" where
  "js_join sep [] = ''''"
| "js_join sep [x] = x"
| "js_join sep (x # y # xs) = x @ sep @ js_join sep (y # xs)"

lemma starts_with_append [simp]: "starts_with (p @ s) p"
  by (simp add: starts_with_def)

lemma starts_with_iff: "starts_with s p \<longleftrightarrow> (\<exists>r. s = p @ r)"
  unfolding starts_with_def by (metis append_eq_conv_conj append_take_drop_id)

lemma starts_with_append_same: "starts_with (p @ s) (p @ q) \<longleftrightarrow> starts_with s q"
  by (simp add: starts_with_iff)

lemma starts_with_trans: "starts_with s p \<Longrightarrow> starts_with p q \<Longrightarrow> starts_with s q"
  by (auto simp: starts_with_iff)

lemma starts_with_drop: "starts_with s p \<Longrightarrow> p @ drop (length p) s = s"
  by (auto simp: starts_with_iff)

lemma includes_iff: "js_includes s p \<longleftrightarrow> (\<exists>a b. s = a @ p @ b)"
proof (induction s)
  case Nil
  then show ?case by auto
next
  case (Cons c cs)
  show ?case
  proof
    assume "js_includes (c # cs) p"
    then consider r where "c # cs = p @ r" | a b where "cs = a @ p @ b"
      using Cons by (auto simp: starts_with_iff)
    then show "\<exists>a b. c # cs = a @ p @ b"
      by cases (metis append_Nil, metis append_Cons)
  next
    assume "\<exists>a b. c # cs = a @ p @ b"
    then obtain a b where ab: "c # cs = a @ p @ b" by blast
    show "js_includes (c # cs) p"
    proof (cases a)
      case Nil
      with ab have "starts_with (c # cs) p" by (auto simp: starts_with_iff)
      then show ?thesis by simp
    next
      case (Cons d ds)
      with ab have "cs = ds @ p @ b" by simp
      with Cons.IH show ?thesis by auto
    qed
  qed
qed

lemma js_split_nonempty [simp]: "js_split c s \<noteq> []"
  by (induction s) (auto split: list.splits)

lemma js_split_no_sep: "w \<in> set (js_split c s) \<Longrightarrow> c \<notin> set w"
proof (induction s arbitrary: w)
  case Nil
  then show ?case by simp
next
  case (Cons x xs)
  then show ?case
    by (cases "js_split c xs") (auto split: if_splits)
qed

lemma js_join_split: "js_join [c] (js_split c s) = s"
proof (induction s)
  case Nil
  then show ?case by simp
next
  case (Cons x xs)
  obtain w ws where s: "js_split c xs = w # ws" by (cases "js_split c xs") auto
  with Cons show ?case by (cases ws) auto
qed

lemma js_split_concat_sep:
  "c \<notin> set w \<Longrightarrow> js_split c (w @ c # s) = w # js_split c s"
  by (induction w) (auto split: list.splits)

lemma js_split_no_occurrence: "c \<notin> set w \<Longrightarrow> js_split c w = [w]"
  by (induction w) auto

lemma trim_left_idem: "trim_left (trim_left s) = trim_left s"
  unfolding trim_left_def by (induction s) auto

lemma trim_left_no_ws: "trim_left s \<noteq> [] \<Longrightarrow> \<not> js_ws (hd (trim_left s))"
  unfolding trim_left_def by (rule hd_dropWhile)


lemma trim_left_nonws: "s = [] \<or> \<not> js_ws (hd s) \<Longrightarrow> trim_left s = s"
  unfolding trim_left_def by (cases s) auto

lemma trim_left_suffix: "suffix (trim_left s) s"
  by (simp add: trim_left_def suffix_dropWhile)

lemma js_trim_idem [simp]: "js_trim (js_trim s) = js_trim s"
proof -
  let ?t = "trim_left s"
  let ?u = "trim_left (rev ?t)"
  have "suffix ?u (rev ?t)" by (rule trim_left_suffix)
  then obtain ws where "rev ?t = ws @ ?u" unfolding suffix_def by blast
  then have t: "?t = rev ?u @ rev ws" by (metis rev_append rev_rev_ident)
  have "rev ?u = [] \<or> \<not> js_ws (hd (rev ?u))"
  proof (cases "rev ?u")
    case (Cons c cs)
    then have "?t \<noteq> []" "hd ?t = c" using t by auto
    then show ?thesis using trim_left_no_ws [of s] Cons by simp
  qed simp
  then have "trim_left (rev ?u) = rev ?u" by (rule trim_left_nonws)
  then show ?thesis by (simp add: js_trim_def trim_left_idem)
qed

lemma set_js_trim: "set (js_trim s) \<subseteq> set s"
  using set_mono_suffix [OF trim_left_suffix [of "rev (trim_left s)"]]
    set_mono_suffix [OF trim_left_suffix [of s]] by (auto simp: js_trim_def)

lemma js_split_join:
  "(\<And>w. w \<in> set ws \<Longrightarrow> c \<notin> set w) \<Longrightarrow> ws \<noteq> [] \<Longrightarrow> js_split c (js_join [c] ws) = ws"
proof (induction ws)
  case Nil
  then show ?case by simp
next
  case (Cons w ws)
  show ?case
  proof (cases ws)
    case Nil
    with Cons.prems show ?thesis by (simp add: js_split_no_occurrence)
  next
    case (Cons v vs)
    with Cons.IH Cons.prems have "js_split c (js_join [c] ws) = ws" by simp
    with Cons Cons.prems show ?thesis by (simp add: js_split_concat_sep)
  qed
qed

subsection \<open>Numbers as text\<close>

definition is_digit :: "char \<Rightarrow> bool" where
  "is_digit c \<longleftrightarrow> 48 \<le> (of_char c :: nat) \<and> (of_char c :: nat) \<le> 57"

definition digit_value :: "char \<Rightarrow> int" where
  "digit_value c = int (of_char c) - 48"

definition digits_value :: "string \<Rightarrow> int" where
  "digits_value s = foldl (\<lambda>n c. 10 * n + digit_value c) 0 s"

text \<open>\<open>parseInt(s, 10)\<close>: leading white space, an optional sign, then the longest run of digits;
  \<^const>\<open>None\<close> is \<open>NaN\<close>.\<close>

definition parse_digits :: "string \<Rightarrow> int option" where
  "parse_digits s = (let ds = takeWhile is_digit s
     in if ds = [] then None else Some (digits_value ds))"

definition parse_int :: "string \<Rightarrow> int option" where
  "parse_int s = (case trim_left s of
      [] \<Rightarrow> None
    | c # cs \<Rightarrow> if c = CHR ''-'' then map_option uminus (parse_digits cs)
                else if c = CHR ''+'' then parse_digits cs
                else parse_digits (c # cs))"

text \<open>\<open>String(n)\<close> for an integer.\<close>

fun nat_text :: "nat \<Rightarrow> string" where
  "nat_text n = (if n < 10 then [char_of (48 + n)]
                 else nat_text (n div 10) @ [char_of (48 + n mod 10)])"

declare nat_text.simps [simp del]

definition int_text :: "int \<Rightarrow> string" where
  "int_text n = (if n < 0 then CHR ''-'' # nat_text (nat (- n)) else nat_text (nat n))"

lemma of_char_digit [simp]: "d < 10 \<Longrightarrow> of_char (char_of (48 + d) :: char) = (48 + d :: nat)"
  by simp

lemma nat_text_nonempty [simp]: "nat_text n \<noteq> []"
  by (subst nat_text.simps) simp

lemma nat_text_digits: "c \<in> set (nat_text n) \<Longrightarrow> is_digit c"
proof (induction n rule: nat_text.induct)
  case (1 n)
  show ?case
  proof (cases "n < 10")
    case True
    with "1.prems" show ?thesis by (simp add: nat_text.simps [of n] is_digit_def)
  next
    case False
    with "1.prems" "1.IH" show ?thesis
      by (auto simp: nat_text.simps [of n] is_digit_def)
  qed
qed

lemma digits_value_snoc: "digits_value (s @ [c]) = 10 * digits_value s + digit_value c"
  by (simp add: digits_value_def)

lemma digits_value_nat_text: "digits_value (nat_text n) = int n"
proof (induction n rule: nat_text.induct)
  case (1 n)
  show ?case
  proof (cases "n < 10")
    case True
    then show ?thesis
      by (simp add: nat_text.simps [of n] digits_value_def digit_value_def)
  next
    case False
    with "1.IH" have "digits_value (nat_text (n div 10)) = int (n div 10)" by simp
    moreover have "10 * int (n div 10) + int (n mod 10) = int n" by presburger
    ultimately show ?thesis using False
      by (simp add: nat_text.simps [of n] digits_value_snoc digit_value_def)
  qed
qed

lemma takeWhile_digits_nat_text: "takeWhile is_digit (nat_text n) = nat_text n"
  using nat_text_digits by (simp add: takeWhile_eq_all_conv)

lemma parse_digits_nat_text [simp]: "parse_digits (nat_text n) = Some (int n)"
  by (simp add: parse_digits_def takeWhile_digits_nat_text digits_value_nat_text)

lemma digit_not_ws: "is_digit c \<Longrightarrow> \<not> js_ws c"
  by (auto simp: is_digit_def js_ws_def)

lemma digit_not_sign: "is_digit c \<Longrightarrow> c \<noteq> CHR ''-'' \<and> c \<noteq> CHR ''+'' \<and> c \<noteq> CHR ''.''"
  by (auto simp: is_digit_def)

lemma parse_int_nat_text [simp]: "parse_int (nat_text n) = Some (int n)"
proof -
  obtain c cs where t: "nat_text n = c # cs" by (cases "nat_text n") auto
  then have d: "is_digit c" using nat_text_digits [of c n] by simp
  then have "trim_left (nat_text n) = c # cs"
    using digit_not_ws [OF d] by (simp add: t trim_left_def)
  then show ?thesis
    using digit_not_sign [OF d] parse_digits_nat_text [of n] by (simp add: parse_int_def t)
qed

text \<open>\<open>parseInt\<close> reads back what \<open>String\<close> prints.\<close>

lemma parse_int_int_text: "parse_int (int_text n) = Some n"
proof (cases "n < 0")
  case True
  then have "trim_left (int_text n) = CHR ''-'' # nat_text (nat (- n))"
    by (simp add: int_text_def trim_left_def js_ws_def)
  with True show ?thesis by (simp add: parse_int_def)
next
  case False
  then show ?thesis by (simp add: int_text_def)
qed

text \<open>\<open>Number(s)\<close> of a decimal integer, with \<^const>\<open>None\<close> for \<open>NaN\<close>; the empty string is 0. The hexadecimal,
  fractional and exponential forms, which no port has, are not numbers here.\<close>

definition js_number :: "string \<Rightarrow> int option" where
  "js_number s = (let t = js_trim s
     in if t = '''' then Some 0
        else if list_all is_digit t then Some (digits_value t)
        else if hd t = CHR ''-'' \<and> tl t \<noteq> '''' \<and> list_all is_digit (tl t) then Some (- digits_value (tl t))
        else if hd t = CHR ''+'' \<and> tl t \<noteq> '''' \<and> list_all is_digit (tl t) then Some (digits_value (tl t))
        else None)"

text \<open>\<open>s.indexOf(c)\<close> and \<open>s.lastIndexOf(c)\<close> of a character.\<close>

definition index_of :: "char \<Rightarrow> string \<Rightarrow> nat option" where
  "index_of c s = find_index (\<lambda>d. d = c) s"

definition last_index_of :: "char \<Rightarrow> string \<Rightarrow> nat option" where
  "last_index_of c s = map_option (\<lambda>k. length s - 1 - k) (find_index (\<lambda>d. d = c) (rev s))"

end
