(* ===== verification/Profile.thy ===== *)
theory Profile
  imports JsValues
begin

text \<open>
  The profile, the client's own configuration format: the interfaces of
  \<open>frontend/src/types/profile.d.ts\<close>, the enumerations of \<open>enums/kernel.ts\<close> and the default objects of
  \<open>constant/profile.ts\<close>. Where a default calls \<open>sampleID()\<close>, \<open>generateSecureKey()\<close> or the translation
  function, the result of the call is an argument.
\<close>

subsection \<open>Enumerations\<close>

datatype log_level = LogTrace | LogDebug | LogInfo | LogWarn | LogError | LogFatal | LogPanic

datatype clash_mode = ModeGlobal | ModeRule | ModeDirect

datatype inbound_type = InMixed | InSocks | InHttp | InTun

datatype outbound_type = OutDirect | OutSelector | OutUrltest | OutWireGuard

datatype tun_stack = StackSystem | StackGVisor | StackMixed

datatype ruleset_type = RsInline | RsLocal | RsRemote

datatype ruleset_format = FmtSource | FmtBinary

datatype rule_type =
    RtInbound | RtNetwork | RtProtocol | RtDomain | RtDomainSuffix | RtDomainKeyword | RtDomainRegex
  | RtSourceIPCidr | RtIPCidr | RtIpIsPrivate | RtSourcePort | RtSourcePortRange | RtPort
  | RtPortRange | RtProcessName | RtProcessPath | RtProcessPathRegex | RtClashMode | RtRuleSet
  | RtIpAcceptAny | RtInline

datatype strategy = StDefault | StPreferIPv4 | StPreferIPv6 | StIPv4Only | StIPv6Only

datatype dns_type =
  DnsLocal | DnsHosts | DnsTcp | DnsUdp | DnsTls | DnsHttps | DnsQuic | DnsH3 | DnsDhcp | DnsFakeIP

datatype rule_action =
  ActRoute | ActRouteOptions | ActReject | ActHijackDNS | ActSniff | ActResolve | ActPredefined

text \<open>The string each member of an enumeration stands for.\<close>

fun inbound_name :: "inbound_type \<Rightarrow> string" where
  "inbound_name InMixed = ''mixed''"
| "inbound_name InSocks = ''socks''"
| "inbound_name InHttp = ''http''"
| "inbound_name InTun = ''tun''"

fun clash_mode_name :: "clash_mode \<Rightarrow> string" where
  "clash_mode_name ModeGlobal = ''global''"
| "clash_mode_name ModeRule = ''rule''"
| "clash_mode_name ModeDirect = ''direct''"

fun dns_type_name :: "dns_type \<Rightarrow> string" where
  "dns_type_name DnsLocal = ''local''"
| "dns_type_name DnsHosts = ''hosts''"
| "dns_type_name DnsTcp = ''tcp''"
| "dns_type_name DnsUdp = ''udp''"
| "dns_type_name DnsTls = ''tls''"
| "dns_type_name DnsHttps = ''https''"
| "dns_type_name DnsQuic = ''quic''"
| "dns_type_name DnsH3 = ''h3''"
| "dns_type_name DnsDhcp = ''dhcp''"
| "dns_type_name DnsFakeIP = ''fakeip''"

subsection \<open>Interfaces\<close>

text \<open>
  An entry of a selector or urltest group. \<open>px_meta\<close> holds the two further fields (instance id and
  managed exclude pattern) that the copies of a \<open>CloudSubscriptionEntry\<close> carry.
\<close>

record proxy_ref =
  px_id :: string
  px_type :: string
  px_tag :: string
  px_meta :: "(string \<times> string) option"

record listen =
  ls_listen :: string
  ls_port :: int
  ls_tcp_fast_open :: bool
  ls_tcp_multi_path :: bool
  ls_udp_fragment :: bool

record listen_block =
  lb_listen :: listen
  lb_users :: "string list"

record tun_block =
  tn_interface_name :: string
  tn_address :: "string list"
  tn_mtu :: int
  tn_auto_route :: bool
  tn_strict_route :: bool
  tn_route_address :: "string list"
  tn_route_exclude_address :: "string list"
  tn_endpoint_independent_nat :: bool
  tn_stack :: tun_stack

record inbound =
  in_id :: string
  in_type :: inbound_type
  in_tag :: string
  in_enable :: bool
  in_mixed :: "listen_block option"
  in_socks :: "listen_block option"
  in_http :: "listen_block option"
  in_tun :: "tun_block option"

record outbound =
  ob_id :: string
  ob_tag :: string
  ob_type :: outbound_type
  ob_outbounds :: "proxy_ref list"
  ob_url :: string
  ob_interval :: string
  ob_tolerance :: int
  ob_interrupt :: bool
  ob_include :: string
  ob_exclude :: string
  ob_server :: string
  ob_server_port :: string
  ob_local_address :: "string list"
  ob_private_key :: string
  ob_peer_public_key :: string
  ob_pre_shared_key :: string
  ob_mtu :: string
  ob_keepalive :: string

record rule =
  rl_id :: string
  rl_type :: rule_type
  rl_payload :: string
  rl_invert :: bool
  rl_action :: rule_action
  rl_outbound :: string
  rl_sniffer :: "string list"
  rl_strategy :: strategy
  rl_server :: string

record rule_set =
  rs_id :: string
  rs_type :: ruleset_type
  rs_tag :: string
  rs_rules :: string
  rs_path :: string
  rs_url :: string
  rs_download_detour :: string
  rs_update_interval :: string
  rs_format :: ruleset_format

record route =
  rt_rules :: "rule list"
  rt_rule_set :: "rule_set list"
  rt_final :: string
  rt_auto_detect_interface :: bool
  rt_default_interface :: string
  rt_find_process :: bool
  rt_resolver_server :: string
  rt_resolver_subnet :: string

record dns_server =
  ds_id :: string
  ds_tag :: string
  ds_type :: dns_type
  ds_detour :: string
  ds_domain_resolver :: string
  ds_hosts_path :: "string list"
  ds_predefined :: "string dict"
  ds_server :: string
  ds_server_port :: string
  ds_path :: string
  ds_interface :: string
  ds_inet4_range :: string
  ds_inet6_range :: string

record dns_rule =
  dr_id :: string
  dr_type :: rule_type
  dr_payload :: string
  dr_action :: rule_action
  dr_invert :: bool
  dr_server :: string
  dr_strategy :: strategy
  dr_disable_cache :: bool
  dr_client_subnet :: string

record dns =
  dn_servers :: "dns_server list"
  dn_rules :: "dns_rule list"
  dn_disable_cache :: bool
  dn_disable_expire :: bool
  dn_independent_cache :: bool
  dn_client_subnet :: string
  dn_final :: string
  dn_strategy :: strategy

record log_cfg =
  lg_disabled :: bool
  lg_level :: log_level
  lg_output :: string
  lg_timestamp :: bool

record experimental =
  ex_external_controller :: string
  ex_external_ui :: string
  ex_external_ui_download_url :: string
  ex_external_ui_download_detour :: string
  ex_secret :: string
  ex_default_mode :: string
  ex_cache_enabled :: bool
  ex_cache_path :: string
  ex_cache_id :: string
  ex_store_fakeip :: bool
  ex_store_rdrc :: bool
  ex_rdrc_timeout :: string

datatype mixin_priority = PrioMixin | PrioGui

record profile =
  pf_id :: string
  pf_name :: string
  pf_log :: log_cfg
  pf_experimental :: experimental
  pf_inbounds :: "inbound list"
  pf_outbounds :: "outbound list"
  pf_route :: route
  pf_dns :: dns
  pf_mixin_priority :: mixin_priority
  pf_mixin_config :: string
  pf_script :: string

text \<open>\<open>inbound[inbound.type]\<close>, where that block has a \<open>listen\<close> part (a tun block has none).\<close>

fun in_block :: "inbound \<Rightarrow> listen_block option" where
  "in_block ib = (case in_type ib of
      InMixed \<Rightarrow> in_mixed ib
    | InSocks \<Rightarrow> in_socks ib
    | InHttp \<Rightarrow> in_http ib
    | InTun \<Rightarrow> None)"

text \<open>Assignment to a field of that block.\<close>

fun in_block_update :: "(listen_block \<Rightarrow> listen_block) \<Rightarrow> inbound \<Rightarrow> inbound" where
  "in_block_update f ib = (case in_type ib of
      InMixed \<Rightarrow> ib\<lparr>in_mixed := map_option f (in_mixed ib)\<rparr>
    | InSocks \<Rightarrow> ib\<lparr>in_socks := map_option f (in_socks ib)\<rparr>
    | InHttp \<Rightarrow> ib\<lparr>in_http := map_option f (in_http ib)\<rparr>
    | InTun \<Rightarrow> ib)"

lemma in_block_in_block_update: "in_block (in_block_update f ib) = map_option f (in_block ib)"
  by (cases "in_type ib") auto

lemma in_block_update_frame [simp]:
  "in_id (in_block_update f ib) = in_id ib" "in_type (in_block_update f ib) = in_type ib"
  "in_tag (in_block_update f ib) = in_tag ib" "in_enable (in_block_update f ib) = in_enable ib"
  by (cases "in_type ib"; simp)+

lemma in_block_update_comp:
  "in_block_update f (in_block_update g ib) = in_block_update (f \<circ> g) ib"
  by (cases "in_type ib") (simp_all add: option.map_comp)

subsection \<open>Default objects\<close>

definition id_select :: string where "id_select = ''outbound-select''"
definition id_urltest :: string where "id_urltest = ''outbound-urlte''"
definition id_direct :: string where "id_direct = ''outbound-direct''"
definition id_fallback :: string where "id_fallback = ''outbound-fallback''"
definition id_global :: string where "id_global = ''outbound-global''"

definition id_mixed_in :: string where "id_mixed_in = ''mixed-in''"
definition id_tun_in :: string where "id_tun_in = ''tun-in''"

definition id_local_dns :: string where "id_local_dns = ''Local-DNS''"
definition id_remote_dns :: string where "id_remote_dns = ''Remote-DNS''"
definition id_local_dns_resolver :: string where "id_local_dns_resolver = ''Local-DNS-Resolver''"
definition id_remote_dns_resolver :: string where "id_remote_dns_resolver = ''Remote-DNS-Resolver''"

definition default_test_url :: string where
  "default_test_url = ''https://www.gstatic.com/generate_204''"

definition default_log :: log_cfg where
  "default_log = \<lparr>lg_disabled = False, lg_level = LogInfo, lg_output = '''', lg_timestamp = False\<rparr>"

definition default_experimental :: "string \<Rightarrow> experimental" where
  "default_experimental secret =
     \<lparr>ex_external_controller = ''127.0.0.1:20123'', ex_external_ui = '''',
      ex_external_ui_download_url = '''', ex_external_ui_download_detour = id_direct,
      ex_secret = secret, ex_default_mode = clash_mode_name ModeRule, ex_cache_enabled = True,
      ex_cache_path = ''cache.db'', ex_cache_id = '''', ex_store_fakeip = True,
      ex_store_rdrc = True, ex_rdrc_timeout = ''7d''\<rparr>"

definition default_listen :: "int \<Rightarrow> listen_block" where
  "default_listen port =
     \<lparr>lb_listen = \<lparr>ls_listen = ''127.0.0.1'', ls_port = port, ls_tcp_fast_open = False,
                     ls_tcp_multi_path = False, ls_udp_fragment = False\<rparr>,
      lb_users = []\<rparr>"

definition default_inbound_socks :: listen_block where
  "default_inbound_socks = default_listen 20120"

definition default_inbound_http :: listen_block where
  "default_inbound_http = default_listen 20121"

definition default_inbound_mixed :: listen_block where
  "default_inbound_mixed = default_listen 20122"

definition default_inbound_tun :: tun_block where
  "default_inbound_tun =
     \<lparr>tn_interface_name = '''', tn_address = [''172.18.0.1/30'', ''fdfe:dcba:9876::1/126''],
      tn_mtu = 9000, tn_auto_route = True, tn_strict_route = True, tn_route_address = [],
      tn_route_exclude_address = [], tn_endpoint_independent_nat = False,
      tn_stack = StackMixed\<rparr>"

definition default_inbounds :: "inbound list" where
  "default_inbounds =
     [\<lparr>in_id = id_mixed_in, in_type = InMixed, in_tag = ''mixed-in'', in_enable = True,
       in_mixed = Some default_inbound_mixed, in_socks = None, in_http = None, in_tun = None\<rparr>,
      \<lparr>in_id = id_tun_in, in_type = InTun, in_tag = ''tun-in'', in_enable = False,
       in_mixed = None, in_socks = None, in_http = None, in_tun = Some default_inbound_tun\<rparr>]"

definition default_outbound :: "string \<Rightarrow> outbound" where
  "default_outbound new_id =
     \<lparr>ob_id = new_id, ob_tag = '''', ob_type = OutSelector, ob_outbounds = [],
      ob_url = default_test_url, ob_interval = ''3m'', ob_tolerance = 150, ob_interrupt = True,
      ob_include = '''', ob_exclude = '''', ob_server = '''', ob_server_port = '''',
      ob_local_address = [], ob_private_key = '''', ob_peer_public_key = '''',
      ob_pre_shared_key = '''', ob_mtu = '''', ob_keepalive = ''''\<rparr>"

definition built_in :: "string \<Rightarrow> string \<Rightarrow> proxy_ref" where
  "built_in i t = \<lparr>px_id = i, px_type = ''Built-in'', px_tag = t, px_meta = None\<rparr>"

definition default_outbounds :: "(string \<Rightarrow> string) \<Rightarrow> outbound list" where
  "default_outbounds tr =
     [(default_outbound id_select)\<lparr>ob_tag := tr ''outbound.select'', ob_type := OutSelector,
        ob_outbounds := [built_in id_urltest (tr ''outbound.urltest'')], ob_url := ''''\<rparr>,
      (default_outbound id_urltest)\<lparr>ob_tag := tr ''outbound.urltest'', ob_type := OutUrltest,
        ob_outbounds := [], ob_url := default_test_url\<rparr>,
      (default_outbound id_direct)\<lparr>ob_tag := tr ''outbound.direct'', ob_type := OutDirect,
        ob_outbounds := [], ob_url := ''''\<rparr>,
      (default_outbound id_fallback)\<lparr>ob_tag := tr ''outbound.fallback'', ob_type := OutSelector,
        ob_outbounds := [built_in id_select (tr ''outbound.select''),
                         built_in id_direct (tr ''outbound.direct'')], ob_url := ''''\<rparr>,
      (default_outbound id_global)\<lparr>ob_tag := ''GLOBAL'', ob_type := OutSelector,
        ob_outbounds := [built_in id_select (tr ''outbound.select''),
                         built_in id_urltest (tr ''outbound.urltest''),
                         built_in id_direct (tr ''outbound.direct''),
                         built_in id_fallback (tr ''outbound.fallback'')], ob_url := ''''\<rparr>]"

definition route_rule ::
    "string \<Rightarrow> rule_type \<Rightarrow> string \<Rightarrow> rule_action \<Rightarrow> string \<Rightarrow> rule" where
  "route_rule i ty pl act out =
     \<lparr>rl_id = i, rl_type = ty, rl_payload = pl, rl_invert = False, rl_action = act,
      rl_outbound = out, rl_sniffer = [], rl_strategy = StDefault, rl_server = ''''\<rparr>"

text \<open>\<open>DefaultRoute()\<close>: six rules, each with an identifier of its own from \<open>sampleID\<close>.\<close>

definition default_route :: "(nat \<Rightarrow> string) \<Rightarrow> route" where
  "default_route ids =
     \<lparr>rt_rules =
        [route_rule (ids 0) RtInbound id_tun_in ActSniff '''',
         route_rule (ids 1) RtProtocol ''dns'' ActHijackDNS '''',
         route_rule (ids 2) RtClashMode (clash_mode_name ModeDirect) ActRoute id_direct,
         route_rule (ids 3) RtClashMode (clash_mode_name ModeGlobal) ActRoute id_global,
         route_rule (ids 4) RtNetwork ''icmp'' ActRoute id_direct,
         route_rule (ids 5) RtProtocol ''quic'' ActReject ''''],
      rt_rule_set = [], rt_final = id_fallback, rt_auto_detect_interface = False,
      rt_default_interface = '''', rt_find_process = False,
      rt_resolver_server = id_local_dns, rt_resolver_subnet = ''''\<rparr>"

definition mk_dns_server ::
    "string \<Rightarrow> string \<Rightarrow> dns_type \<Rightarrow> string \<Rightarrow> string \<Rightarrow> string \<Rightarrow> string \<Rightarrow> dns_server" where
  "mk_dns_server i detour ty resolver srv port path =
     \<lparr>ds_id = i, ds_tag = i, ds_type = ty, ds_detour = detour, ds_domain_resolver = resolver,
      ds_hosts_path = [], ds_predefined = [],
      ds_server = srv, ds_server_port = port, ds_path = path, ds_interface = '''',
      ds_inet4_range = '''', ds_inet6_range = ''''\<rparr>"

definition default_dns_servers :: "dns_server list" where
  "default_dns_servers =
     [mk_dns_server id_local_dns '''' DnsHttps id_local_dns_resolver ''223.5.5.5'' ''443'' ''/dns-query'',
      mk_dns_server id_local_dns_resolver '''' DnsUdp '''' ''223.5.5.5'' ''53'' '''',
      mk_dns_server id_remote_dns id_select DnsTls id_remote_dns_resolver ''8.8.8.8'' ''853'' '''',
      mk_dns_server id_remote_dns_resolver id_select DnsUdp '''' ''8.8.8.8'' ''53'' '''']"

definition mk_dns_rule :: "string \<Rightarrow> string \<Rightarrow> string \<Rightarrow> dns_rule" where
  "mk_dns_rule i pl srv =
     \<lparr>dr_id = i, dr_type = RtClashMode, dr_payload = pl, dr_action = ActRoute, dr_invert = False,
      dr_server = srv, dr_strategy = StDefault, dr_disable_cache = False, dr_client_subnet = ''''\<rparr>"

definition default_dns_rules :: "(nat \<Rightarrow> string) \<Rightarrow> dns_rule list" where
  "default_dns_rules ids =
     [mk_dns_rule (ids 0) (clash_mode_name ModeDirect) id_local_dns,
      mk_dns_rule (ids 1) (clash_mode_name ModeGlobal) id_remote_dns]"

definition default_dns :: "(nat \<Rightarrow> string) \<Rightarrow> dns" where
  "default_dns ids =
     \<lparr>dn_servers = default_dns_servers, dn_rules = default_dns_rules ids, dn_disable_cache = False,
      dn_disable_expire = False, dn_independent_cache = False, dn_client_subnet = '''',
      dn_final = id_remote_dns, dn_strategy = StDefault\<rparr>"

definition default_script :: string where
  "default_script = ''const onGenerate = async (config) => {'' @ [CHR 10] @ ''  return config'' @ [CHR 10] @ ''}''"

text \<open>The blank objects that the editors start from.\<close>

definition default_route_rule :: "string \<Rightarrow> rule" where
  "default_route_rule new_id = route_rule new_id RtRuleSet '''' ActRoute ''''"

definition default_route_ruleset :: "string \<Rightarrow> rule_set" where
  "default_route_ruleset new_id =
     \<lparr>rs_id = new_id, rs_type = RsLocal, rs_tag = '''', rs_rules = '''', rs_path = '''',
      rs_url = '''', rs_download_detour = '''', rs_update_interval = '''', rs_format = FmtBinary\<rparr>"

definition default_dns_server :: "string \<Rightarrow> dns_server" where
  "default_dns_server new_id = (mk_dns_server new_id '''' DnsLocal '''' '''' '''' '''')\<lparr>ds_tag := ''''\<rparr>"

definition default_dns_rule :: "string \<Rightarrow> dns_rule" where
  "default_dns_rule new_id = (mk_dns_rule new_id '''' '''')\<lparr>dr_type := RtRuleSet\<rparr>"

text \<open>The new profile that \<open>applyNodeToProfile\<close> builds from the defaults.\<close>

definition default_profile ::
    "string \<Rightarrow> string \<Rightarrow> string \<Rightarrow> (string \<Rightarrow> string) \<Rightarrow> (nat \<Rightarrow> string) \<Rightarrow> profile" where
  "default_profile new_id name secret tr ids =
     \<lparr>pf_id = new_id, pf_name = name, pf_log = default_log,
      pf_experimental = default_experimental secret, pf_inbounds = default_inbounds,
      pf_outbounds = default_outbounds tr, pf_route = default_route ids,
      pf_dns = default_dns (\<lambda>n. ids (n + 6)), pf_mixin_priority = PrioMixin,
      pf_mixin_config = ''{}'', pf_script = default_script\<rparr>"

end
