(* ===== verification/ProfileStore.thy ===== *)
theory ProfileStore
  imports FileStore Profile
begin

text \<open>
  \<open>stores/profiles.ts\<close>: the list of profiles and its file \<open>data/profiles.yaml\<close>. The four operations
  on the list follow the pattern of \<open>FileStore\<close>; loading the file upgrades old formats and prunes
  references to rulesets that no longer exist.
\<close>

subsection \<open>The operations\<close>

type_synonym profile_store = "(profile, profile) file_store"

definition add_profile :: "write_outcome \<Rightarrow> profile \<Rightarrow> profile_store \<Rightarrow> string option \<times> profile_store" where
  "add_profile = store_add (\<lambda>p. p)"

definition delete_profile :: "write_outcome \<Rightarrow> string \<Rightarrow> profile_store \<Rightarrow> string option \<times> profile_store" where
  "delete_profile = store_delete pf_id (\<lambda>p. p)"

definition edit_profile ::
    "write_outcome \<Rightarrow> string \<Rightarrow> profile \<Rightarrow> profile_store \<Rightarrow> string option \<times> profile_store" where
  "edit_profile = store_edit pf_id (\<lambda>p. p)"

definition get_profile_by_id :: "profile_store \<Rightarrow> string \<Rightarrow> profile option" where
  "get_profile_by_id = store_get pf_id"

interpretation profiles: durable_store pf_id "\<lambda>w :: write_outcome. w = None" "store_uniq pf_id"
    get_profile_by_id "\<lambda>w x s. snd (add_profile w x s)" "\<lambda>w i x s. snd (edit_profile w i x s)"
    "\<lambda>w i s. snd (delete_profile w i s)" "store_synced (\<lambda>p. p)"
  unfolding add_profile_def edit_profile_def delete_profile_def get_profile_by_id_def
  by (rule file_store_durable)

subsection \<open>Pruning references to rulesets\<close>

text \<open>The items of a comma separated payload that are kept.\<close>

definition kept_payload :: "string list \<Rightarrow> string \<Rightarrow> string list" where
  "kept_payload valid payload =
     filter (\<lambda>i. i \<in> set valid)
       (filter (\<lambda>i. i \<noteq> '''') (map js_trim (js_split CHR '','' payload)))"

text \<open>
  \<open>normalizeRulesetPayload\<close>, used for the route rules and for the DNS rules: \<open>ty\<close>, \<open>pl\<close> and \<open>upd\<close> are
  the type, the payload and its replacement in the kind of rule at hand. One rule gives a list of at
  most one rule and whether it was changed.
\<close>

definition normalize_rule ::
    "('r \<Rightarrow> rule_type) \<Rightarrow> ('r \<Rightarrow> string) \<Rightarrow> (string \<Rightarrow> 'r \<Rightarrow> 'r) \<Rightarrow> bool \<Rightarrow> string list \<Rightarrow> 'r \<Rightarrow> 'r list \<times> bool" where
  "normalize_rule ty pl upd can_validate valid r =
     (if ty r \<noteq> RtRuleSet \<or> \<not> can_validate then ([r], False)
      else let payload = kept_payload valid (pl r)
        in if payload = [] then ([], True)
           else if js_join '','' payload \<noteq> pl r then ([upd (js_join '','' payload) r], True)
           else ([r], False))"

definition normalize_ruleset_payload ::
    "('r \<Rightarrow> rule_type) \<Rightarrow> ('r \<Rightarrow> string) \<Rightarrow> (string \<Rightarrow> 'r \<Rightarrow> 'r) \<Rightarrow> bool \<Rightarrow> string list \<Rightarrow> 'r list \<Rightarrow> 'r list \<times> bool" where
  "normalize_ruleset_payload ty pl upd can_validate valid rs =
     (let step = normalize_rule ty pl upd can_validate valid
      in (concat (map (\<lambda>r. fst (step r)) rs), list_ex (\<lambda>r. snd (step r)) rs))"

abbreviation normalize_route_rules :: "bool \<Rightarrow> string list \<Rightarrow> rule list \<Rightarrow> rule list \<times> bool" where
  "normalize_route_rules \<equiv> normalize_ruleset_payload rl_type rl_payload (\<lambda>s r. r\<lparr>rl_payload := s\<rparr>)"

abbreviation normalize_dns_rules :: "bool \<Rightarrow> string list \<Rightarrow> dns_rule list \<Rightarrow> dns_rule list \<times> bool" where
  "normalize_dns_rules \<equiv> normalize_ruleset_payload dr_type dr_payload (\<lambda>s r. r\<lparr>dr_payload := s\<rparr>)"

text \<open>\<open>local_ids\<close> are the ids of the rulesets the client knows. With none of them loaded, nothing is
  validated against them.\<close>

definition keep_ruleset :: "string list \<Rightarrow> rule_set \<Rightarrow> bool" where
  "keep_ruleset local_ids rs \<longleftrightarrow>
     rs_type rs = RsLocal \<and> (local_ids = [] \<or> rs_path rs \<in> set local_ids)"

definition prune_invalid_ruleset_refs :: "string list \<Rightarrow> profile \<Rightarrow> profile \<times> bool" where
  "prune_invalid_ruleset_refs local_ids p =
     (let can_validate = (local_ids \<noteq> []);
          kept = filter (keep_ruleset local_ids) (rt_rule_set (pf_route p));
          changed = list_ex (\<lambda>rs. \<not> keep_ruleset local_ids rs) (rt_rule_set (pf_route p));
          valid = map rs_id kept;
          (route_rules, c1) = normalize_route_rules can_validate valid (rt_rules (pf_route p));
          (dns_rules, c2) = normalize_dns_rules can_validate valid (dn_rules (pf_dns p))
      in (p\<lparr>pf_route := (pf_route p)\<lparr>rt_rule_set := kept, rt_rules := route_rules\<rparr>,
            pf_dns := (pf_dns p)\<lparr>dn_rules := dns_rules\<rparr>\<rparr>,
          changed \<or> c1 \<or> c2))"

subsection \<open>Loading\<close>

text \<open>
  What the file holds: a profile in the format before 1.9 (no \<open>route\<close>), or a profile with a \<open>route\<close>,
  which may still carry the \<open>dns.fakeip\<close> block of 1.9.3 and a tun inbound without
  \<open>route_exclude_address\<close>. The two conversions of \<open>utils/profilesUpgrader.ts\<close> are arguments; a missing
  \<open>invert\<close> or \<open>route_exclude_address\<close> is read as the default it is given.
\<close>

datatype 'o saved_profile =
    SavedOld 'o
  | SavedNew (saved_fakeip: bool) (saved_tun_incomplete: bool) (saved_value: profile)

definition upgrade_old :: "('o \<Rightarrow> 'o saved_profile) \<Rightarrow> 'o saved_profile \<Rightarrow> 'o saved_profile" where
  "upgrade_old up s = (case s of SavedOld old \<Rightarrow> up old | SavedNew f t p \<Rightarrow> SavedNew f t p)"

fun is_old :: "'o saved_profile \<Rightarrow> bool" where
  "is_old (SavedOld old) = True"
| "is_old (SavedNew f t p) = False"

text \<open>The first profile with an id wins.\<close>

definition dedup_by_id :: "('a \<Rightarrow> string) \<Rightarrow> 'a list \<Rightarrow> 'a list" where
  "dedup_by_id key xs =
     fold (\<lambda>c p. if List.find (\<lambda>item. key item = key c) p = None then p @ [c] else p) xs []"

definition saved_id :: "('o \<Rightarrow> string) \<Rightarrow> 'o saved_profile \<Rightarrow> string" where
  "saved_id old_id s = (case s of SavedOld old \<Rightarrow> old_id old | SavedNew _ _ p \<Rightarrow> pf_id p)"

text \<open>The second pass over one profile: the result and whether the file has to be written.\<close>

definition second_pass ::
    "(profile \<Rightarrow> profile) \<Rightarrow> string list \<Rightarrow> 'o saved_profile \<Rightarrow> profile \<Rightarrow> profile \<times> bool" where
  "second_pass up194 local_ids s p =
     (let p' = (if saved_fakeip s then up194 p else p);
          (q, pruned) = prune_invalid_ruleset_refs local_ids p'
      in (q, saved_fakeip s \<or> saved_tun_incomplete s \<or> pruned))"

text \<open>\<open>setupProfiles\<close>: the profiles in memory and the number of times the file is saved.\<close>

definition setup_profiles ::
    "('o \<Rightarrow> 'o saved_profile) \<Rightarrow> (profile \<Rightarrow> profile) \<Rightarrow> ('o \<Rightarrow> string) \<Rightarrow> string list
       \<Rightarrow> 'o saved_profile list option \<Rightarrow> 'o list option \<Rightarrow> profile list \<times> nat" where
  "setup_profiles up189 up194 old_id local_ids data backup =
     (let loaded = or_else data [];
          upgraded = map (upgrade_old up189) loaded;
          all = upgraded @ map up189 (or_else backup []);
          sync1 = (list_ex is_old loaded \<or> or_else backup [] \<noteq> []);
          unique = (if sync1 then dedup_by_id (saved_id old_id) all else all);
          done = map (\<lambda>s. second_pass up194 local_ids s (saved_value s)) unique
      in (map fst done, (if sync1 then 1 else 0) + (if list_ex snd done then 1 else 0)))"

subsection \<open>Facts about pruning\<close>

lemma kept_payload_no_comma: "w \<in> set (kept_payload valid pl) \<Longrightarrow> CHR '','' \<notin> set w"
  using set_js_trim js_split_no_sep unfolding kept_payload_def by fastforce

lemma kept_payload_trimmed: "w \<in> set (kept_payload valid pl) \<Longrightarrow> js_trim w = w"
  by (auto simp: kept_payload_def)

lemma kept_payload_valid:
  "w \<in> set (kept_payload valid pl) \<Longrightarrow> w \<in> set valid \<and> w \<noteq> ''''"
  by (auto simp: kept_payload_def)

lemma kept_payload_fixed:
  assumes "kept_payload valid pl \<noteq> []"
  shows "kept_payload valid (js_join '','' (kept_payload valid pl)) = kept_payload valid pl"
proof -
  let ?ws = "kept_payload valid pl"
  have "js_split CHR '','' (js_join '','' ?ws) = ?ws"
    using js_split_join [of ?ws "CHR '',''"] kept_payload_no_comma assms by blast
  then have "kept_payload valid (js_join '','' ?ws)
      = filter (\<lambda>i. i \<in> set valid) (filter (\<lambda>i. i \<noteq> '''') (map js_trim ?ws))"
    by (simp add: kept_payload_def)
  also have "map js_trim ?ws = ?ws" by (simp add: kept_payload_trimmed map_idI)
  also have "filter (\<lambda>i. i \<in> set valid) (filter (\<lambda>i. i \<noteq> '''') ?ws) = ?ws"
    using kept_payload_valid by (auto intro!: filter_True)
  finally show ?thesis .
qed

text \<open>The kind of rule is a parameter of the pass; what it needs of the three accessors.\<close>

locale ruleset_rules =
  fixes ty :: "'r \<Rightarrow> rule_type" and pl :: "'r \<Rightarrow> string" and upd :: "string \<Rightarrow> 'r \<Rightarrow> 'r"
  assumes ty_upd: "ty (upd s r) = ty r" and pl_upd: "pl (upd s r) = s"
begin

lemma step_fixed:
  "r' \<in> set (fst (normalize_rule ty pl upd cv valid r)) \<Longrightarrow>
   normalize_rule ty pl upd cv valid r' = ([r'], False)"
  by (auto simp: normalize_rule_def Let_def ty_upd pl_upd kept_payload_fixed split: if_splits)

lemma step_reports: "snd (normalize_rule ty pl upd cv valid r) \<longleftrightarrow>
    fst (normalize_rule ty pl upd cv valid r) \<noteq> [r]"
  using pl_upd by (auto simp: normalize_rule_def Let_def) metis

lemma step_length: "length (fst (normalize_rule ty pl upd cv valid r)) \<le> 1"
  by (simp add: normalize_rule_def Let_def)

lemma step_valid:
  "r' \<in> set (fst (normalize_rule ty pl upd True valid r)) \<Longrightarrow> ty r' = RtRuleSet \<Longrightarrow>
   pl r' \<noteq> '''' \<and> set (js_split CHR '','' (pl r')) \<subseteq> set valid"
proof -
  assume r': "r' \<in> set (fst (normalize_rule ty pl upd True valid r))" and t: "ty r' = RtRuleSet"
  let ?ws = "kept_payload valid (pl r)"
  from r' t have ne: "?ws \<noteq> []" and p: "pl r' = js_join '','' ?ws"
    by (auto simp: normalize_rule_def Let_def ty_upd pl_upd split: if_splits)
  have split: "js_split CHR '','' (pl r') = ?ws"
    unfolding p using js_split_join [of ?ws "CHR '',''"] kept_payload_no_comma ne by blast
  have "pl r' \<noteq> ''''"
  proof
    assume "pl r' = ''''"
    then have "?ws = [[]]" using split by simp
    then have "'''' \<in> set ?ws" by simp
    then show False using kept_payload_valid by blast
  qed
  moreover have "set (js_split CHR '','' (pl r')) \<subseteq> set valid"
    unfolding split using kept_payload_valid by blast
  ultimately show ?thesis by simp
qed

lemma rules_fixed:
  "normalize_ruleset_payload ty pl upd cv valid (fst (normalize_ruleset_payload ty pl upd cv valid rs))
     = (fst (normalize_ruleset_payload ty pl upd cv valid rs), False)"
proof -
  let ?out = "concat (map (\<lambda>r. fst (normalize_rule ty pl upd cv valid r)) rs)"
  have fixed: "concat (map (\<lambda>r. fst (normalize_rule ty pl upd cv valid r)) ys) = ys
      \<and> \<not> list_ex (\<lambda>r. snd (normalize_rule ty pl upd cv valid r)) ys"
    if "\<And>y. y \<in> set ys \<Longrightarrow> normalize_rule ty pl upd cv valid y = ([y], False)" for ys
    using that by (induction ys) auto
  have "\<And>y. y \<in> set ?out \<Longrightarrow> normalize_rule ty pl upd cv valid y = ([y], False)"
    using step_fixed by auto
  note out = fixed [of ?out, OF this]
  then show ?thesis
    unfolding normalize_ruleset_payload_def Let_def fst_conv by (simp only: simp_thms)
qed

lemma rules_report:
  "snd (normalize_ruleset_payload ty pl upd cv valid rs) \<longleftrightarrow>
     fst (normalize_ruleset_payload ty pl upd cv valid rs) \<noteq> rs"
proof (induction rs)
  case Nil
  then show ?case by (simp add: normalize_ruleset_payload_def)
next
  case (Cons r rs)
  let ?f = "\<lambda>r. fst (normalize_rule ty pl upd cv valid r)"
  have len: "length (concat (map ?f xs)) \<le> length xs" for xs
    using step_length by (induction xs) (auto simp: add_le_mono [of _ 1, simplified])
  have "(?f r @ concat (map ?f rs) = r # rs) = (?f r = [r] \<and> concat (map ?f rs) = rs)"
  proof (cases "?f r")
    case Nil
    then show ?thesis using len [of rs] by auto
  next
    case (Cons a as)
    then show ?thesis using step_length [of cv valid r] by auto
  qed
  with Cons show ?case
    using step_reports [of cv valid r] by (auto simp: normalize_ruleset_payload_def Let_def)
qed

end

interpretation route_rules: ruleset_rules rl_type rl_payload "\<lambda>s r. r\<lparr>rl_payload := s\<rparr>"
  by unfold_locales simp_all

interpretation dns_rules: ruleset_rules dr_type dr_payload "\<lambda>s r. r\<lparr>dr_payload := s\<rparr>"
  by unfold_locales simp_all

lemma filter_reports: "list_ex (\<lambda>x. \<not> p x) xs \<longleftrightarrow> filter p xs \<noteq> xs"
  by (induction xs) (auto simp: list_ex_iff filter_id_conv, metis impossible_Cons length_filter_le)

lemma prune_split:
  "prune_invalid_ruleset_refs ids p =
     (let kept = filter (keep_ruleset ids) (rt_rule_set (pf_route p));
          rr = normalize_route_rules (ids \<noteq> []) (map rs_id kept) (rt_rules (pf_route p));
          dr = normalize_dns_rules (ids \<noteq> []) (map rs_id kept) (dn_rules (pf_dns p))
      in (p\<lparr>pf_route := (pf_route p)\<lparr>rt_rule_set := kept, rt_rules := fst rr\<rparr>,
            pf_dns := (pf_dns p)\<lparr>dn_rules := fst dr\<rparr>\<rparr>,
          list_ex (\<lambda>rs. \<not> keep_ruleset ids rs) (rt_rule_set (pf_route p)) \<or> snd rr \<or> snd dr))"
  by (simp add: prune_invalid_ruleset_refs_def Let_def case_prod_beta)

text \<open>
  Pruning reports exactly its own changes: the flag that makes \<open>setupProfiles\<close> write the file is
  raised when, and only when, the pruned profile differs from the one that was loaded.
\<close>

theorem prune_reports_change:
  "snd (prune_invalid_ruleset_refs ids p) \<longleftrightarrow> fst (prune_invalid_ruleset_refs ids p) \<noteq> p"
proof -
  let ?kept = "filter (keep_ruleset ids) (rt_rule_set (pf_route p))"
  have eq: "p\<lparr>pf_route := (pf_route p)\<lparr>rt_rule_set := k, rt_rules := r\<rparr>,
      pf_dns := (pf_dns p)\<lparr>dn_rules := d\<rparr>\<rparr> = p
    \<longleftrightarrow> k = rt_rule_set (pf_route p) \<and> r = rt_rules (pf_route p) \<and> d = dn_rules (pf_dns p)" for k r d
    by (cases p; cases "pf_route p"; cases "pf_dns p") auto
  show ?thesis
    unfolding prune_split Let_def fst_conv snd_conv eq filter_reports
      route_rules.rules_report dns_rules.rules_report by blast
qed

lemma prune_idem:
  "prune_invalid_ruleset_refs ids (fst (prune_invalid_ruleset_refs ids p))
     = (fst (prune_invalid_ruleset_refs ids p), False)"
  by (simp add: prune_split Let_def route_rules.rules_fixed dns_rules.rules_fixed list_ex_iff)

interpretation pruning: normalizer "\<lambda>p. fst (prune_invalid_ruleset_refs ids p)"
  by unfold_locales (simp add: prune_idem)

text \<open>A ruleset reference of a rule resolves when it is one of the ids of the profile's rulesets.\<close>

definition payload_resolves :: "string list \<Rightarrow> string \<Rightarrow> bool" where
  "payload_resolves valid payload \<longleftrightarrow>
     payload \<noteq> '''' \<and> list_all (\<lambda>i. i \<in> set valid) (js_split CHR '','' payload)"

text \<open>
  C20. With at least one ruleset known to the client, every ruleset of a pruned profile is a local one
  whose file belongs to a known ruleset, and every rule of type \<open>rule_set\<close>, of the routing and of the
  DNS part, has a payload whose comma separated items all name rulesets of the profile.
\<close>

theorem prune_resolves:
  assumes "ids \<noteq> []" and "q = fst (prune_invalid_ruleset_refs ids p)"
  shows "(\<forall>rs \<in> set (rt_rule_set (pf_route q)). rs_type rs = RsLocal \<and> rs_path rs \<in> set ids)
    \<and> (\<forall>r \<in> set (rt_rules (pf_route q)). rl_type r = RtRuleSet \<longrightarrow>
          payload_resolves (map rs_id (rt_rule_set (pf_route q))) (rl_payload r))
    \<and> (\<forall>r \<in> set (dn_rules (pf_dns q)). dr_type r = RtRuleSet \<longrightarrow>
          payload_resolves (map rs_id (rt_rule_set (pf_route q))) (dr_payload r))"
proof -
  let ?kept = "filter (keep_ruleset ids) (rt_rule_set (pf_route p))"
  have parts: "rt_rule_set (pf_route q) = ?kept"
    "rt_rules (pf_route q) = fst (normalize_route_rules True (map rs_id ?kept) (rt_rules (pf_route p)))"
    "dn_rules (pf_dns q) = fst (normalize_dns_rules True (map rs_id ?kept) (dn_rules (pf_dns p)))"
    using assms by (simp_all add: prune_split Let_def)
  have "\<forall>rs \<in> set ?kept. rs_type rs = RsLocal \<and> rs_path rs \<in> set ids"
    using assms(1) by (auto simp: keep_ruleset_def)
  moreover have "\<forall>r \<in> set (rt_rules (pf_route q)). rl_type r = RtRuleSet \<longrightarrow>
      payload_resolves (map rs_id ?kept) (rl_payload r)"
    unfolding parts payload_resolves_def normalize_ruleset_payload_def Let_def list_all_iff
    using route_rules.step_valid by fastforce
  moreover have "\<forall>r \<in> set (dn_rules (pf_dns q)). dr_type r = RtRuleSet \<longrightarrow>
      payload_resolves (map rs_id ?kept) (dr_payload r)"
    unfolding parts payload_resolves_def normalize_ruleset_payload_def Let_def list_all_iff
    using dns_rules.step_valid by fastforce
  ultimately show ?thesis unfolding parts(1) by blast
qed

text \<open>A profile with a known and a stale ruleset, and a rule that names both.\<close>

definition stale_profile :: profile where
  "stale_profile =
     (let mk = (\<lambda>i path. \<lparr>rs_id = i, rs_type = RsLocal, rs_tag = i, rs_rules = '''', rs_path = path,
                  rs_url = '''', rs_download_detour = '''', rs_update_interval = '''',
                  rs_format = FmtSource\<rparr>);
          p = default_profile ''P'' ''demo'' '''' (\<lambda>s. s) nat_text
      in p\<lparr>pf_route := (pf_route p)
            \<lparr>rt_rule_set := [mk ''A'' ''R1'', mk ''B'' ''gone''],
             rt_rules := [route_rule ''r1'' RtRuleSet ''A, B'' ActRoute id_direct,
                          route_rule ''r2'' RtRuleSet ''B'' ActRoute id_direct]\<rparr>,
           pf_dns := (pf_dns p)\<lparr>dn_rules := []\<rparr>\<rparr>)"

lemma stale_profile_pruned:
  "rt_rules (pf_route (fst (prune_invalid_ruleset_refs [''R1''] stale_profile))) =
     [route_rule ''r1'' RtRuleSet ''A'' ActRoute id_direct]"
  by code_simp

theorem prune_resolves_witness:
  "\<exists>r \<in> set (rt_rules (pf_route (fst (prune_invalid_ruleset_refs [''R1''] stale_profile)))).
     rl_type r = RtRuleSet \<and>
     payload_resolves (map rs_id (rt_rule_set (pf_route (fst (prune_invalid_ruleset_refs [''R1''] stale_profile)))))
       (rl_payload r)"
proof -
  let ?q = "fst (prune_invalid_ruleset_refs [''R1''] stale_profile)"
  let ?r = "route_rule ''r1'' RtRuleSet ''A'' ActRoute id_direct"
  have mem: "?r \<in> set (rt_rules (pf_route ?q))" and ty: "rl_type ?r = RtRuleSet"
    unfolding stale_profile_pruned by (simp_all add: route_rule_def)
  have "[''R1''] \<noteq> []" by simp
  from prune_resolves [OF this refl, of stale_profile] mem ty show ?thesis by blast
qed

subsection \<open>Loading twice\<close>

lemma second_pass_pruned: "fst (second_pass up194 ids s p) = fst (prune_invalid_ruleset_refs ids
    (if saved_fakeip s then up194 p else p))"
  by (simp add: second_pass_def case_prod_beta)

lemma upgrade_new [simp]: "upgrade_old up (SavedNew f t p) = SavedNew f t p"
  by (simp add: upgrade_old_def)

lemma second_pass_fixed:
  "prune_invalid_ruleset_refs ids q = (q, False) \<Longrightarrow>
   second_pass up194 ids (SavedNew False False q) q = (q, False)"
  by (simp add: second_pass_def)

lemma setup_profiles_pruned:
  "q \<in> set (fst (setup_profiles up189 up194 old_id ids data backup)) \<Longrightarrow>
   prune_invalid_ruleset_refs ids q = (q, False)"
  by (auto simp: setup_profiles_def Let_def second_pass_pruned prune_idem)

text \<open>
  Loading is stable: whatever upgrades the first start had to make, a start that finds the profiles
  the first one ended with (and no backup of an old version) keeps them as they are and writes nothing.
\<close>

theorem setup_profiles_stable:
  fixes up189 :: "'o \<Rightarrow> 'o saved_profile"
  shows "setup_profiles up189 up194 old_id ids
     (Some (map (SavedNew False False) (fst (setup_profiles up189 up194 old_id ids data backup)))) None
   = (fst (setup_profiles up189 up194 old_id ids data backup), 0)"
proof -
  let ?ps = "fst (setup_profiles up189 up194 old_id ids data backup)"
  have "map (\<lambda>s :: 'o saved_profile. second_pass up194 ids s (saved_value s))
        (map (SavedNew False False) ?ps) = map (\<lambda>q. (q, False)) ?ps"
    by (simp add: second_pass_fixed [OF setup_profiles_pruned])
  moreover have "\<not> list_ex is_old (map (SavedNew False False) ps)" for ps :: "profile list"
    by (simp add: list_ex_iff)
  ultimately show ?thesis
    unfolding setup_profiles_def [of up189 up194 old_id ids "Some _"] Let_def
    by (simp add: comp_def list_ex_iff map_idI)
qed

subsection \<open>The store against its specification\<close>

text \<open>
  C27. The list of profiles implements a map: whatever sequence of additions, edits and deletions is run on
  it, each with a save that may fail, looking up a profile gives what the abstract map gives that takes
  over exactly the commands whose save succeeded. The ids stay distinct, and if file and memory agreed
  before, they agree afterwards. (The commands add ids that are not in the store and edit a profile without
  changing its id.)
\<close>

theorem profile_store_refines_map:
  assumes "store_uniq pf_id s" "keyed_commands pf_id (\<lambda>w. w = None) cs (get_profile_by_id s)"
  defines "t \<equiv> fold (run_command (\<lambda>w x s. snd (add_profile w x s)) (\<lambda>w i x s. snd (edit_profile w i x s))
     (\<lambda>w i s. snd (delete_profile w i s))) cs s"
  shows "get_profile_by_id t = fold (spec_command pf_id (\<lambda>w. w = None)) cs (get_profile_by_id s)
     \<and> store_uniq pf_id t \<and> (fs_disk s = fs_items s \<longrightarrow> fs_disk t = fs_items t)"
proof -
  have "fs_disk s = fs_items s \<longleftrightarrow> store_synced (\<lambda>p. p) s" for s :: profile_store
    by (simp add: store_synced_def)
  then show ?thesis
    unfolding t_def using profiles.commands_refine [OF assms(1,2)] profiles.commands_durable by simp
qed

definition named_profile :: "string \<Rightarrow> string \<Rightarrow> profile" where
  "named_profile i name = default_profile i name ''s'' (\<lambda>t. t) (\<lambda>_. ''r'')"

definition some_commands :: "(profile, write_outcome) command list" where
  "some_commands = [CmdAdd None (named_profile ''A'' ''a''), CmdAdd (Some ''full'') (named_profile ''B'' ''b''),
     CmdEdit None ''A'' (named_profile ''A'' ''a2''), CmdDelete (Some ''full'') ''A'']"

lemma profile_store_refines_map_witness:
  "map_option pf_name (get_profile_by_id (fold (run_command (\<lambda>w x s. snd (add_profile w x s))
       (\<lambda>w i x s. snd (edit_profile w i x s)) (\<lambda>w i s. snd (delete_profile w i s))) some_commands
     \<lparr>fs_items = [], fs_disk = []\<rparr>) ''A'') = Some ''a2''"
proof -
  let ?s = "\<lparr>fs_items = [], fs_disk = []\<rparr> :: profile_store"
  have empty: "get_profile_by_id ?s = (\<lambda>_. None)" by (rule ext) (simp add: get_profile_by_id_def store_get_def)
  have ids: "pf_id (named_profile i n) = i" "pf_name (named_profile i n) = n" for i n
    by (simp_all add: named_profile_def default_profile_def)
  have "store_uniq pf_id ?s" by (simp add: store_uniq_def)
  moreover have "keyed_commands pf_id (\<lambda>w. w = None) some_commands (get_profile_by_id ?s)"
    by (simp add: some_commands_def empty ids)
  ultimately show ?thesis
    using profile_store_refines_map [of ?s some_commands] by (simp add: some_commands_def empty ids)
qed

end
