(* ===== verification/SubscribeStore.thy ===== *)
theory SubscribeStore
  imports FileStore JsValues
begin

text \<open>
  \<open>stores/subscribes.ts\<close>: subscriptions, their file, and the update of one subscription from its source.
  What lies outside the program is gathered in a record of functions, \<open>sub_env\<close>: files, requests, the
  recognition and parsing of subscription formats, regular expressions, plugins, the user's script and
  the random part of \<open>sampleID\<close>. The text of the error that asks for a plugin is shortened. An exception is the error branch of a sum, or an error next to the state it leaves.
\<close>

subsection \<open>Data\<close>

datatype sub_type = SubHttp | SubFile | SubManual

record sub_proxy =
  sp_id :: string
  sp_tag :: string
  sp_type :: string

text \<open>\<open>sb_expire\<close> is \<^const>\<open>None\<close> when the code computes \<open>NaN\<close>.\<close>

record subscription =
  sb_id :: string
  sb_name :: string
  sb_upload :: int
  sb_download :: int
  sb_total :: int
  sb_expire :: "int option"
  sb_updateTime :: int
  sb_type :: sub_type
  sb_url :: string
  sb_website :: string
  sb_path :: string
  sb_include :: string
  sb_exclude :: string
  sb_includeProtocol :: string
  sb_excludeProtocol :: string
  sb_proxyPrefix :: string
  sb_disabled :: bool
  sb_inSecure :: bool
  sb_proxies :: "sub_proxy list"
  sb_requestMethod :: string
  sb_header_request :: "string dict"
  sb_header_response :: "string dict"
  sb_script :: string
  sb_updating :: "bool option"

text \<open>A proxy as the source delivers it: the fields the store looks at and the rest as text.\<close>

record raw_proxy =
  rp_tag :: "string option"
  rp_name :: "string option"
  rp_type :: string
  rp_base64 :: bool
  rp_rest :: string

record sub_env =
  ev_readFile :: "string \<Rightarrow> string + string"
  ev_request :: "subscription \<Rightarrow> string + string dict \<times> string"
  ev_jsonOutbounds :: "string \<Rightarrow> raw_proxy list option"
  ev_yamlProxies :: "string \<Rightarrow> raw_proxy list option"
  ev_isBase64 :: "string \<Rightarrow> bool"
  ev_jsonList :: "string \<Rightarrow> string + raw_proxy list"
  ev_plugin :: "raw_proxy list \<Rightarrow> subscription \<Rightarrow> string + raw_proxy list"
  ev_regex :: "string \<Rightarrow> string + (string \<Rightarrow> bool)"
  ev_script :: "raw_proxy list \<Rightarrow> subscription \<Rightarrow> string + raw_proxy list \<times> subscription"
  ev_write :: "string \<Rightarrow> raw_proxy list \<Rightarrow> string option"
  ev_random :: "nat \<Rightarrow> nat \<Rightarrow> string"

definition default_subscribe_script :: string where
  "default_subscribe_script =
     ''const onSubscribe = async (proxies, subscription) => {'' @ [CHR 0x0A] @
     ''  return { proxies, subscription }'' @ [CHR 0x0A] @ ''}''"

definition default_exclude_protocols :: string where
  "default_exclude_protocols = ''direct|reject|selector|urltest|block|dns|shadowsocksr''"

subsection \<open>The list\<close>

type_synonym subscribe_store = "(subscription, subscription) file_store"

definition omit_updating :: "subscription \<Rightarrow> subscription" where
  "omit_updating s = s\<lparr>sb_updating := None\<rparr>"

definition add_subscribe ::
    "write_outcome \<Rightarrow> subscription \<Rightarrow> subscribe_store \<Rightarrow> string option \<times> subscribe_store" where
  "add_subscribe = store_add omit_updating"

definition delete_subscribe ::
    "write_outcome \<Rightarrow> string \<Rightarrow> subscribe_store \<Rightarrow> string option \<times> subscribe_store" where
  "delete_subscribe = store_delete sb_id omit_updating"

definition edit_subscribe ::
    "write_outcome \<Rightarrow> string \<Rightarrow> subscription \<Rightarrow> subscribe_store \<Rightarrow> string option \<times> subscribe_store" where
  "edit_subscribe = store_edit sb_id omit_updating"

definition get_subscribe_by_id :: "subscribe_store \<Rightarrow> string \<Rightarrow> subscription option" where
  "get_subscribe_by_id = store_get sb_id"

interpretation subscribes: durable_store sb_id "\<lambda>w :: write_outcome. w = None" "store_uniq sb_id"
    get_subscribe_by_id "\<lambda>w x s. snd (add_subscribe w x s)" "\<lambda>w i x s. snd (edit_subscribe w i x s)"
    "\<lambda>w i s. snd (delete_subscribe w i s)" "store_synced omit_updating"
  unfolding add_subscribe_def edit_subscribe_def delete_subscribe_def get_subscribe_by_id_def
  by (rule file_store_durable)

definition new_subscription :: "string \<Rightarrow> string \<Rightarrow> string \<Rightarrow> subscription" where
  "new_subscription i name url =
     \<lparr>sb_id = i, sb_name = name, sb_upload = 0, sb_download = 0, sb_total = 0, sb_expire = Some 0,
      sb_updateTime = 0, sb_type = SubHttp, sb_url = url, sb_website = '''',
      sb_path = ''data/subscribes/'' @ i @ ''.json'', sb_include = '''', sb_exclude = '''',
      sb_includeProtocol = '''', sb_excludeProtocol = default_exclude_protocols,
      sb_proxyPrefix = '''', sb_disabled = False, sb_inSecure = False, sb_proxies = [],
      sb_requestMethod = ''GET'', sb_header_request = [], sb_header_response = [],
      sb_script = default_subscribe_script, sb_updating = None\<rparr>"

definition import_subscribe ::
    "write_outcome \<Rightarrow> string \<Rightarrow> string \<Rightarrow> string \<Rightarrow> subscribe_store \<Rightarrow> string option \<times> subscribe_store" where
  "import_subscribe w i name url = add_subscribe w (new_subscription i name url)"

text \<open>What the file may lack: the header block (with a user agent of older versions), the script and
  the request method (empty).\<close>

record saved_subscription =
  sv_sub :: subscription
  sv_has_header :: bool
  sv_userAgent :: "string option"

definition setup_subscription :: "saved_subscription \<Rightarrow> subscription \<times> bool" where
  "setup_subscription sv =
     (let s = sv_sub sv;
          s1 = (if sb_script s = '''' then s\<lparr>sb_script := default_subscribe_script\<rparr> else s);
          s2 = (if sb_requestMethod s1 = '''' then s1\<lparr>sb_requestMethod := ''GET''\<rparr> else s1);
          s3 = (if sv_has_header sv then s2
                else s2\<lparr>sb_header_request := (if truthy_s (sv_userAgent sv)
                             then [(''User-Agent'', or_else (sv_userAgent sv) '''')] else []),
                        sb_header_response := []\<rparr>)
      in (s3, sb_script s = '''' \<or> \<not> sv_has_header sv))"

definition setup_subscribes :: "write_outcome \<Rightarrow> saved_subscription list \<Rightarrow> subscribe_store \<Rightarrow> subscribe_store" where
  "setup_subscribes w loaded s =
     (let items = map (\<lambda>sv. fst (setup_subscription sv)) loaded
      in if list_ex (\<lambda>sv. snd (setup_subscription sv)) loaded \<and> w = None
         then \<lparr>fs_items = items, fs_disk = map omit_updating items\<rparr>
         else s\<lparr>fs_items := items\<rparr>)"

subsection \<open>One update\<close>

text \<open>\<open>split(/\s*;\s*/)\<close>: white space is dropped on both sides of every semicolon, but not at the ends.\<close>

definition trim_right :: "string \<Rightarrow> string" where
  "trim_right s = rev (trim_left (rev s))"

fun semicolon_parts_from :: "string list \<Rightarrow> string list" where
  "semicolon_parts_from [] = []"
| "semicolon_parts_from [p] = [trim_left p]"
| "semicolon_parts_from (p # q # ps) = js_trim p # semicolon_parts_from (q # ps)"

definition semicolon_parts :: "string \<Rightarrow> string list" where
  "semicolon_parts s = (case js_split CHR '';'' s of
      [] \<Rightarrow> []
    | [p] \<Rightarrow> [p]
    | p # q # ps \<Rightarrow> trim_right p # semicolon_parts_from (q # ps))"

definition user_info_entry :: "string \<Rightarrow> string \<times> int" where
  "user_info_entry part = (case js_split CHR ''='' part of
      key # value # _ \<Rightarrow> (key, or_else (parse_int value) 0)
    | key # _ \<Rightarrow> (key, 0)
    | [] \<Rightarrow> ('''', 0))"

definition parse_user_info :: "string dict \<Rightarrow> int dict" where
  "parse_user_info h =
     (let info = opt_or (map_of h ''Subscription-Userinfo'') ''''
      in if info = '''' then []
         else fold (\<lambda>part. case user_info_entry part of (k, v) \<Rightarrow> AList.update k v) (semicolon_parts info) [])"

text \<open>The body and the traffic information, by the type of the subscription.\<close>

definition fetch_source :: "sub_env \<Rightarrow> subscription \<Rightarrow> string + int dict \<times> string" where
  "fetch_source env s = (case sb_type s of
      SubManual \<Rightarrow> map_sum id (Pair []) (ev_readFile env (sb_path s))
    | SubFile \<Rightarrow> map_sum id (Pair []) (ev_readFile env (sb_url s))
    | SubHttp \<Rightarrow> map_sum id
        (\<lambda>(h, b). (parse_user_info (fold (\<lambda>(k, v). AList.update k v) (sb_header_response s) h), b))
        (ev_request env s))"

definition base64_proxy :: "string \<Rightarrow> raw_proxy" where
  "base64_proxy body =
     \<lparr>rp_tag = None, rp_name = None, rp_type = '''', rp_base64 = True, rp_rest = body\<rparr>"

definition parse_body :: "sub_env \<Rightarrow> subscription \<Rightarrow> string \<Rightarrow> string + raw_proxy list" where
  "parse_body env s body = (case ev_jsonOutbounds env body of
      Some ps \<Rightarrow> Inr ps
    | None \<Rightarrow> (case ev_yamlProxies env body of
        Some ps \<Rightarrow> Inr ps
      | None \<Rightarrow>
          if ev_isBase64 env body then Inr [base64_proxy body]
          else if sb_type s = SubManual then ev_jsonList env body
          else Inl ''Not a valid subscription data''))"

definition unconverted :: "raw_proxy list \<Rightarrow> bool" where
  "unconverted ps \<longleftrightarrow>
     list_ex (\<lambda>p. truthy_s (rp_name p) \<and> \<not> truthy_s (rp_tag p)) ps \<or> (case ps of [] \<Rightarrow> False | p # _ \<Rightarrow> rp_base64 p)"

text \<open>One of the four flags; a missing tag is tested as the text \<open>undefined\<close>.\<close>

definition regex_flag :: "sub_env \<Rightarrow> string \<Rightarrow> bool \<Rightarrow> string \<Rightarrow> string + bool" where
  "regex_flag env pattern positive v =
     (if pattern = '''' then Inr True
      else map_sum id (\<lambda>test. test v = positive) (ev_regex env pattern))"

definition both :: "string + bool \<Rightarrow> string + bool \<Rightarrow> string + bool" where
  "both a b = (case a of Inl e \<Rightarrow> Inl e | Inr x \<Rightarrow> map_sum id (\<lambda>y. x \<and> y) b)"

definition keep_proxy :: "sub_env \<Rightarrow> subscription \<Rightarrow> raw_proxy \<Rightarrow> string + bool" where
  "keep_proxy env s p =
     (let tag = or_else (rp_tag p) ''undefined''
      in both (both (both (regex_flag env (sb_include s) True tag) (regex_flag env (sb_exclude s) False tag))
           (regex_flag env (sb_includeProtocol s) True (rp_type p)))
           (regex_flag env (sb_excludeProtocol s) False (rp_type p)))"

fun filter_proxies :: "sub_env \<Rightarrow> subscription \<Rightarrow> raw_proxy list \<Rightarrow> string + raw_proxy list" where
  "filter_proxies env s [] = Inr []"
| "filter_proxies env s (p # ps) = (case keep_proxy env s p of
      Inl e \<Rightarrow> Inl e
    | Inr keep \<Rightarrow> map_sum id (\<lambda>qs. if keep then p # qs else qs) (filter_proxies env s ps))"

fun prefix_proxies :: "string \<Rightarrow> raw_proxy list \<Rightarrow> string + raw_proxy list" where
  "prefix_proxies pre [] = Inr []"
| "prefix_proxies pre (p # ps) = (case rp_tag p of
      None \<Rightarrow> Inl ''TypeError''
    | Some t \<Rightarrow> map_sum id
        (\<lambda>qs. p\<lparr>rp_tag := Some (if starts_with t pre then t else pre @ t)\<rparr> # qs) (prefix_proxies pre ps))"

definition select_proxies :: "sub_env \<Rightarrow> subscription \<Rightarrow> raw_proxy list \<Rightarrow> string + raw_proxy list" where
  "select_proxies env s ps =
     (if sb_type s = SubManual then Inr ps
      else case filter_proxies env s ps of
             Inl e \<Rightarrow> Inl e
           | Inr qs \<Rightarrow> if sb_proxyPrefix s = '''' then Inr qs else prefix_proxies (sb_proxyPrefix s) qs)"

definition sample_id :: "sub_env \<Rightarrow> nat \<Rightarrow> nat \<Rightarrow> string" where
  "sample_id env pass k = ''ID_'' @ ev_random env pass k"

text \<open>The \<open>map\<close> that keeps the id of a proxy whose tag is known. \<open>pass\<close> numbers the two places. A proxy
  without a tag gets the empty one.\<close>

definition keep_ids :: "sub_env \<Rightarrow> nat \<Rightarrow> sub_proxy list \<Rightarrow> raw_proxy list \<Rightarrow> sub_proxy list" where
  "keep_ids env pass old ps =
     map (\<lambda>(k, p). let tag = or_else (rp_tag p) '''' in
            \<lparr>sp_id = opt_or (map_option sp_id (List.find (\<lambda>v. sp_tag v = tag) old)) (sample_id env pass k),
             sp_tag = tag, sp_type = rp_type p\<rparr>)
       (enumerate 0 ps)"

definition apply_source :: "sub_env \<Rightarrow> int \<Rightarrow> int dict \<Rightarrow> raw_proxy list \<Rightarrow> subscription \<Rightarrow> subscription" where
  "apply_source env now info ps s =
     s\<lparr>sb_upload := or_else (map_of info ''upload'') 0,
       sb_download := or_else (map_of info ''download'') 0,
       sb_total := or_else (map_of info ''total'') 0,
       sb_expire := map_option (\<lambda>e. e * 1000) (map_of info ''expire''),
       sb_updateTime := now,
       sb_proxies := keep_ids env 0 (sb_proxies s) ps\<rparr>"

text \<open>
  \<open>_doUpdateSub\<close>: the error, if any, with the subscription object as it is left, and the proxies written
  to its file, if it came to that.
\<close>

definition do_update_sub ::
    "sub_env \<Rightarrow> int \<Rightarrow> subscription \<Rightarrow> string option \<times> subscription \<times> raw_proxy list option" where
  "do_update_sub env now s = (case fetch_source env s of
      Inl e \<Rightarrow> (Some e, s, None)
    | Inr (info, body) \<Rightarrow> (case parse_body env s body of
        Inl e \<Rightarrow> (Some e, s, None)
      | Inr ps0 \<Rightarrow> (case ev_plugin env ps0 s of
          Inl e \<Rightarrow> (Some e, s, None)
        | Inr ps1 \<Rightarrow>
            if unconverted ps1 then (Some ''You need to install the plugin first'', s, None)
            else (case select_proxies env s ps1 of
              Inl e \<Rightarrow> (Some e, s, None)
            | Inr ps2 \<Rightarrow>
                let s1 = apply_source env now info ps2 s
                in (case ev_script env ps2 s1 of
                  Inl e \<Rightarrow> (Some e, s1, None)
                | Inr (ps3, sub) \<Rightarrow>
                    let s2 = sub\<lparr>sb_proxies := keep_ids env 1 (sb_proxies sub) ps3\<rparr>
                    in (case ev_write env (sb_path s2) ps3 of
                      Some e \<Rightarrow> (Some e, s2, None)
                    | None \<Rightarrow> (None, s2, Some ps3)))))))"

subsection \<open>Updating stored subscriptions\<close>

text \<open>The object is changed in place: the first with the id.\<close>

definition put_subscription :: "string \<Rightarrow> subscription \<Rightarrow> subscribe_store \<Rightarrow> subscribe_store" where
  "put_subscription i s st = st\<lparr>fs_items := map_first (\<lambda>v. sb_id v = i) (\<lambda>_. s) (fs_items st)\<rparr>"

definition update_subscribe ::
    "sub_env \<Rightarrow> int \<Rightarrow> write_outcome \<Rightarrow> string \<Rightarrow> subscribe_store \<Rightarrow> (string + string) \<times> subscribe_store" where
  "update_subscribe env now w i st = (case get_subscribe_by_id st i of
      None \<Rightarrow> (Inl (i @ '' Not Found''), st)
    | Some s \<Rightarrow>
        if sb_disabled s then (Inl (sb_name s @ '' Disabled''), st)
        else (case do_update_sub env now (s\<lparr>sb_updating := Some True\<rparr>) of
            (Some e, s', _) \<Rightarrow> (Inl e, put_subscription i (s'\<lparr>sb_updating := Some False\<rparr>) st)
          | (None, s', _) \<Rightarrow>
              (let st' = put_subscription i (s'\<lparr>sb_updating := Some False\<rparr>) st
               in case w of
                    Some e \<Rightarrow> (Inl e, st')
                  | None \<Rightarrow> (Inr (''Subscription ['' @ sb_name s' @ ''] updated successfully.''),
                             st'\<lparr>fs_disk := map omit_updating (fs_items st')\<rparr>))))"

text \<open>
  \<open>updateSubscribes\<close>: the pool of five runs the updates independently, each on its own object, and
  drops their errors; the list is saved when one of them succeeded.
\<close>

definition update_one :: "sub_env \<Rightarrow> int \<Rightarrow> subscription \<Rightarrow> subscription \<times> bool" where
  "update_one env now s =
     (if sb_disabled s then (s, False)
      else case do_update_sub env now (s\<lparr>sb_updating := Some True\<rparr>) of
             (err, s', _) \<Rightarrow> (s'\<lparr>sb_updating := Some False\<rparr>, err = None))"

definition update_subscribes :: "sub_env \<Rightarrow> int \<Rightarrow> write_outcome \<Rightarrow> subscribe_store \<Rightarrow> subscribe_store" where
  "update_subscribes env now w st =
     (let items = map (\<lambda>s. fst (update_one env now s)) (fs_items st);
          need_save = list_ex (\<lambda>s. snd (update_one env now s)) (fs_items st)
      in if need_save \<and> w = None then \<lparr>fs_items = items, fs_disk = map omit_updating items\<rparr>
         else st\<lparr>fs_items := items\<rparr>)"

subsection \<open>Identity of proxies\<close>

lemma sample_id_nonempty [simp]: "sample_id env pass k \<noteq> ''''"
  by (simp add: sample_id_def)

lemma keep_ids_tags: "map sp_tag (keep_ids env pass old ps) = map (\<lambda>p. or_else (rp_tag p) '''') ps"
  by (intro nth_equalityI) (simp_all add: keep_ids_def Let_def nth_enumerate_eq)

lemma opt_or_nonempty: "b \<noteq> '''' \<Longrightarrow> opt_or v b \<noteq> ''''"
  by (cases v) (auto simp: str_or_def)

lemma keep_ids_id:
  assumes "p \<in> set (keep_ids env pass old ps)"
  shows "sp_id p \<noteq> '''' \<and>
    (\<forall>q. List.find (\<lambda>v. sp_tag v = sp_tag p) old = Some q \<longrightarrow> sp_id q \<noteq> '''' \<longrightarrow> sp_id p = sp_id q)"
proof -
  from assms obtain x where "x \<in> set (enumerate 0 ps)" and p: "p = (\<lambda>(k, p). let tag = or_else (rp_tag p) '''' in
            \<lparr>sp_id = opt_or (map_option sp_id (List.find (\<lambda>v. sp_tag v = tag) old)) (sample_id env pass k),
             sp_tag = tag, sp_type = rp_type p\<rparr>) x"
    unfolding keep_ids_def set_map by (elim imageE)
  show ?thesis unfolding p by (cases x) (auto simp: opt_or_nonempty str_or_def Let_def)
qed

lemma find_keep_ids:
  "p \<in> set (keep_ids env pass old ps) \<Longrightarrow>
   \<exists>q \<in> set (keep_ids env pass' old' ps). List.find (\<lambda>v. sp_tag v = sp_tag p) (keep_ids env pass' old' ps) = Some q"
proof -
  assume "p \<in> set (keep_ids env pass old ps)"
  moreover have "map sp_tag (keep_ids env pass' old' ps) = map sp_tag (keep_ids env pass old ps)"
    by (simp only: keep_ids_tags)
  ultimately have "sp_tag p \<in> set (map sp_tag (keep_ids env pass' old' ps))"
    by (metis image_eqI list.set_map)
  then have "List.find (\<lambda>v. sp_tag v = sp_tag p) (keep_ids env pass' old' ps) \<noteq> None"
    by (auto simp: find_eq_None_iff)
  then show ?thesis using find_SomeD by fastforce
qed

text \<open>
  Updating a subscription keeps the identity of its proxies, when its script passes them on (as the
  default script does): a proxy whose tag was there before has the id it had; and two proxies with the
  same tag always end up with the same id, even when both are new.
\<close>

theorem update_keeps_proxy_ids:
  assumes "\<And>ps s. ev_script env ps s = Inr (ps, s)" and "do_update_sub env now s = (None, s', written)"
    and "p \<in> set (sb_proxies s')"
  shows "(\<forall>q. List.find (\<lambda>v. sp_tag v = sp_tag p) (sb_proxies s) = Some q \<longrightarrow> sp_id q \<noteq> '''' \<longrightarrow> sp_id p = sp_id q)
    \<and> (\<forall>q \<in> set (sb_proxies s'). sp_tag q = sp_tag p \<longrightarrow> sp_id q = sp_id p)"
proof -
  obtain ps where proxies: "sb_proxies s' = keep_ids env 1 (keep_ids env 0 (sb_proxies s) ps) ps"
    using assms(1,2)
    by (auto simp: do_update_sub_def Let_def apply_source_def split: sum.splits prod.splits if_splits option.splits)
  let ?mid = "keep_ids env 0 (sb_proxies s) ps"
  have via: "\<exists>m \<in> set ?mid. List.find (\<lambda>v. sp_tag v = sp_tag q) ?mid = Some m \<and> sp_id q = sp_id m"
    if "q \<in> set (sb_proxies s')" for q
  proof -
    from that proxies obtain m where m: "m \<in> set ?mid" "List.find (\<lambda>v. sp_tag v = sp_tag q) ?mid = Some m"
      using find_keep_ids by metis
    with that proxies have "sp_id q = sp_id m" using keep_ids_id by metis
    with m show ?thesis by blast
  qed
  from via [OF assms(3)] obtain m where m: "m \<in> set ?mid"
    "List.find (\<lambda>v. sp_tag v = sp_tag p) ?mid = Some m" "sp_id p = sp_id m" by blast
  then have "sp_tag m = sp_tag p" using find_SomeD by force
  with keep_ids_id [OF m(1)] m(3)
  have "\<forall>q. List.find (\<lambda>v. sp_tag v = sp_tag p) (sb_proxies s) = Some q \<longrightarrow> sp_id q \<noteq> '''' \<longrightarrow> sp_id p = sp_id q"
    by simp
  moreover have "sp_id q = sp_id p" if "q \<in> set (sb_proxies s')" "sp_tag q = sp_tag p" for q
    using via [OF that(1)] m that(2) by simp
  ultimately show ?thesis by blast
qed

text \<open>A source that answers every request with two proxies of the same tag and one known one.\<close>

definition demo_raw :: "string \<Rightarrow> raw_proxy" where
  "demo_raw t = \<lparr>rp_tag = Some t, rp_name = None, rp_type = ''vless'', rp_base64 = False, rp_rest = ''''\<rparr>"

definition demo_env :: sub_env where
  "demo_env =
     \<lparr>ev_readFile = (\<lambda>_. Inl ''no file''),
      ev_request = (\<lambda>_. Inr ([(''Subscription-Userinfo'', ''upload=1; download=2'')], ''body'')),
      ev_jsonOutbounds = (\<lambda>_. Some [demo_raw ''a'', demo_raw ''b'', demo_raw ''b'']),
      ev_yamlProxies = (\<lambda>_. None), ev_isBase64 = (\<lambda>_. False), ev_jsonList = (\<lambda>_. Inl ''no json''),
      ev_plugin = (\<lambda>ps _. Inr ps), ev_regex = (\<lambda>_. Inr (\<lambda>_. False)),
      ev_script = (\<lambda>ps s. Inr (ps, s)), ev_write = (\<lambda>_ _. None),
      ev_random = (\<lambda>m k. nat_text m @ nat_text k)\<rparr>"

definition demo_subscription :: subscription where
  "demo_subscription = (new_subscription ''S'' ''demo'' ''https://x'')
     \<lparr>sb_proxies := [\<lparr>sp_id = ''old'', sp_tag = ''a'', sp_type = ''vless''\<rparr>]\<rparr>"

text \<open>In this answer the traffic header lacks \<open>expire\<close>, so that the expiry becomes \<open>NaN\<close>.\<close>

lemma demo_update:
  "fst (do_update_sub demo_env 7 demo_subscription) = None"
  "sb_proxies (fst (snd (do_update_sub demo_env 7 demo_subscription))) =
     [\<lparr>sp_id = ''old'', sp_tag = ''a'', sp_type = ''vless''\<rparr>,
      \<lparr>sp_id = ''ID_01'', sp_tag = ''b'', sp_type = ''vless''\<rparr>,
      \<lparr>sp_id = ''ID_01'', sp_tag = ''b'', sp_type = ''vless''\<rparr>]"
  "sb_expire (fst (snd (do_update_sub demo_env 7 demo_subscription))) = None"
  by code_simp+

theorem update_keeps_proxy_ids_witness:
  "list_all (\<lambda>p. sp_id p = ''old'') (filter (\<lambda>p. sp_tag p = ''a'')
     (sb_proxies (fst (snd (do_update_sub demo_env 7 demo_subscription)))))"
proof (unfold list_all_iff set_filter, intro ballI, elim CollectE conjE)
  let ?r = "do_update_sub demo_env 7 demo_subscription"
  fix p assume mem: "p \<in> set (sb_proxies (fst (snd ?r)))" and tag: "sp_tag p = ''a''"
  have script: "\<And>ps s. ev_script demo_env ps s = Inr (ps, s)" by (simp add: demo_env_def)
  have run: "do_update_sub demo_env 7 demo_subscription = (None, fst (snd ?r), snd (snd ?r))"
    using demo_update(1) by (metis prod.collapse)
  have "List.find (\<lambda>v. sp_tag v = ''a'') (sb_proxies demo_subscription)
      = Some \<lparr>sp_id = ''old'', sp_tag = ''a'', sp_type = ''vless''\<rparr>"
    by (simp add: demo_subscription_def)
  with update_keeps_proxy_ids [OF script run mem] tag show "sp_id p = ''old''" by simp
qed

lemma find_index_of_find: "List.find p xs = Some x \<Longrightarrow> \<exists>k. find_index p xs = Some k \<and> xs ! k = x"
  by (induction xs) (auto split: if_splits)

lemma map_first_index: "find_index p xs = Some k \<Longrightarrow> map_first p (\<lambda>_. v) xs = xs[k := v]"
  by (induction xs arbitrary: k) (auto split: if_splits)

text \<open>
  What a single update leaves behind: on success the file holds the list as it is in memory; on an
  error the file is what it was. Either way no subscription but the first one with the id is touched,
  and a disabled or unknown one is not even fetched.
\<close>

theorem update_subscribe_effect:
  "(case fst (update_subscribe env now w i st) of
      Inr _ \<Rightarrow> store_synced omit_updating (snd (update_subscribe env now w i st))
    | Inl _ \<Rightarrow> fs_disk (snd (update_subscribe env now w i st)) = fs_disk st)
   \<and> (fs_items (snd (update_subscribe env now w i st)) = fs_items st
      \<or> (\<exists>k s'. find_index (\<lambda>v. sb_id v = i) (fs_items st) = Some k \<and> \<not> sb_disabled (fs_items st ! k)
           \<and> fs_items (snd (update_subscribe env now w i st)) = (fs_items st)[k := s']))"
proof (cases "get_subscribe_by_id st i")
  case None
  then show ?thesis by (simp add: update_subscribe_def)
next
  case (Some s)
  then obtain k where k: "find_index (\<lambda>v. sb_id v = i) (fs_items st) = Some k" "fs_items st ! k = s"
    using find_index_of_find by (metis get_subscribe_by_id_def store_get_def)
  show ?thesis
  proof (cases "sb_disabled s")
    case True
    with Some show ?thesis by (simp add: update_subscribe_def)
  next
    case False
    obtain err s' wr where d: "do_update_sub env now (s\<lparr>sb_updating := Some True\<rparr>) = (err, s', wr)"
      by (metis prod_cases3)
    have put: "fs_items (put_subscription i v st) = (fs_items st)[k := v]" for v
      by (simp add: put_subscription_def map_first_index [OF k(1)])
    from Some False d k show ?thesis
      by (cases err; cases w) (auto simp: update_subscribe_def store_synced_def Let_def put
          intro!: exI [of _ k] exI [of _ "s'\<lparr>sb_updating := Some False\<rparr>"],
        auto simp: put_subscription_def)
  qed
qed

end
