(* ===== verification/RulesetStore.thy ===== *)
theory RulesetStore
  imports FileStore Profile
begin

text \<open>
  \<open>stores/rulesets.ts\<close>: the rulesets of the client, their file, and the update of one ruleset. Files,
  requests and the parser of rulesets are the functions of a record; what a parsed ruleset holds is
  reduced to what is counted: for each rule the lengths of its array fields, and \<^const>\<open>None\<close> for a field
  that is not an array.
\<close>

datatype ruleset_source = SrcHttp | SrcFile | SrcManual

record ruleset =
  ru_id :: string
  ru_tag :: string
  ru_updateTime :: int
  ru_disabled :: bool
  ru_type :: ruleset_source
  ru_format :: ruleset_format
  ru_path :: string
  ru_url :: string
  ru_count :: nat
  ru_updating :: "bool option"

type_synonym parsed_rules = "nat option list list"

record ruleset_env =
  re_readFile :: "string \<Rightarrow> string + string"
  re_httpGet :: "string \<Rightarrow> string + string"
  re_fileExists :: "string \<Rightarrow> bool"
  re_rules :: "string \<Rightarrow> parsed_rules option"
  re_write :: "string \<Rightarrow> string option"
  re_copy :: "string \<Rightarrow> string \<Rightarrow> string option"
  re_download :: "string \<Rightarrow> string \<Rightarrow> string option"

type_synonym ruleset_store = "(ruleset, ruleset) file_store"

definition omit_ru_updating :: "ruleset \<Rightarrow> ruleset" where
  "omit_ru_updating r = r\<lparr>ru_updating := None\<rparr>"

definition add_ruleset :: "write_outcome \<Rightarrow> ruleset \<Rightarrow> ruleset_store \<Rightarrow> string option \<times> ruleset_store" where
  "add_ruleset = store_add omit_ru_updating"

definition delete_ruleset :: "write_outcome \<Rightarrow> string \<Rightarrow> ruleset_store \<Rightarrow> string option \<times> ruleset_store" where
  "delete_ruleset = store_delete ru_id omit_ru_updating"

definition edit_ruleset ::
    "write_outcome \<Rightarrow> string \<Rightarrow> ruleset \<Rightarrow> ruleset_store \<Rightarrow> string option \<times> ruleset_store" where
  "edit_ruleset = store_edit ru_id omit_ru_updating"

definition get_ruleset_by_id :: "ruleset_store \<Rightarrow> string \<Rightarrow> ruleset option" where
  "get_ruleset_by_id = store_get ru_id"

interpretation rulesets: durable_store ru_id "\<lambda>w :: write_outcome. w = None" "store_uniq ru_id"
    get_ruleset_by_id "\<lambda>w x s. snd (add_ruleset w x s)" "\<lambda>w i x s. snd (edit_ruleset w i x s)"
    "\<lambda>w i s. snd (delete_ruleset w i s)" "store_synced omit_ru_updating"
  unfolding add_ruleset_def edit_ruleset_def delete_ruleset_def get_ruleset_by_id_def
  by (rule file_store_durable)

subsection \<open>One update\<close>

definition count_rules :: "parsed_rules \<Rightarrow> nat" where
  "count_rules rules =
     foldl (\<lambda>p c. foldl (\<lambda>p f. case f of Some n \<Rightarrow> p + n | None \<Rightarrow> p + 1) 0 c + p) 0 rules"

definition empty_ruleset_text :: string where
  "empty_ruleset_text = [CHR ''{'', CHR 0x22] @ ''version'' @ [CHR 0x22] @ '':1,'' @ [CHR 0x22] @ ''rules''
     @ [CHR 0x22] @ '':[]}''"

text \<open>The body of a source ruleset, with whether the file of a manual one exists.\<close>

definition ruleset_body :: "ruleset_env \<Rightarrow> ruleset \<Rightarrow> string + string \<times> bool" where
  "ruleset_body env r = (case ru_type r of
      SrcFile \<Rightarrow> map_sum id (\<lambda>b. (b, True)) (re_readFile env (ru_url r))
    | SrcHttp \<Rightarrow> map_sum id (\<lambda>b. (b, True)) (re_httpGet env (ru_url r))
    | SrcManual \<Rightarrow>
        if re_fileExists env (ru_path r) then map_sum id (\<lambda>b. (b, True)) (re_readFile env (ru_path r))
        else Inr (empty_ruleset_text, False))"

definition update_source_ruleset :: "ruleset_env \<Rightarrow> ruleset \<Rightarrow> string option \<times> ruleset" where
  "update_source_ruleset env r = (case ruleset_body env r of
      Inl e \<Rightarrow> (Some e, r)
    | Inr (body, exists) \<Rightarrow> (case re_rules env body of
        None \<Rightarrow> (Some ''Not a valid ruleset data'', r)
      | Some rules \<Rightarrow>
          let r' = r\<lparr>ru_count := count_rules rules\<rparr>;
              to_write = (ru_type r \<in> {SrcHttp, SrcFile} \<and> ru_url r \<noteq> ru_path r)
                         \<or> (ru_type r = SrcManual \<and> \<not> exists)
          in (if to_write then re_write env (ru_path r) else None, r')))"

definition update_binary_ruleset :: "ruleset_env \<Rightarrow> ruleset \<Rightarrow> string option" where
  "update_binary_ruleset env r =
     (if ru_type r = SrcFile \<and> ru_url r \<noteq> ru_path r then re_copy env (ru_url r) (ru_path r)
      else if ru_type r = SrcHttp then re_download env (ru_url r) (ru_path r)
      else None)"

definition do_update_ruleset :: "ruleset_env \<Rightarrow> int \<Rightarrow> ruleset \<Rightarrow> string option \<times> ruleset" where
  "do_update_ruleset env now r =
     (let (err, r') = (case ru_format r of
            FmtSource \<Rightarrow> update_source_ruleset env r
          | FmtBinary \<Rightarrow> (update_binary_ruleset env r, r))
      in case err of
           Some e \<Rightarrow> (Some e, r')
         | None \<Rightarrow> (None, r'\<lparr>ru_updateTime := now\<rparr>))"

subsection \<open>Updating stored rulesets\<close>

definition put_ruleset :: "string \<Rightarrow> ruleset \<Rightarrow> ruleset_store \<Rightarrow> ruleset_store" where
  "put_ruleset i r st = st\<lparr>fs_items := map_first (\<lambda>v. ru_id v = i) (\<lambda>_. r) (fs_items st)\<rparr>"

definition update_ruleset ::
    "ruleset_env \<Rightarrow> int \<Rightarrow> write_outcome \<Rightarrow> string \<Rightarrow> ruleset_store \<Rightarrow> (string + string) \<times> ruleset_store" where
  "update_ruleset env now w i st = (case get_ruleset_by_id st i of
      None \<Rightarrow> (Inl (i @ '' Not Found''), st)
    | Some r \<Rightarrow>
        if ru_disabled r then (Inl (ru_tag r @ '' Disabled''), st)
        else (case do_update_ruleset env now (r\<lparr>ru_updating := Some True\<rparr>) of
            (Some e, r') \<Rightarrow> (Inl e, put_ruleset i (r'\<lparr>ru_updating := Some False\<rparr>) st)
          | (None, r') \<Rightarrow>
              (let st' = put_ruleset i (r'\<lparr>ru_updating := Some False\<rparr>) st
               in case w of
                    Some e \<Rightarrow> (Inl e, st')
                  | None \<Rightarrow> (Inr (''Ruleset ['' @ ru_tag r' @ ''] updated successfully.''),
                             st'\<lparr>fs_disk := map omit_ru_updating (fs_items st')\<rparr>))))"

definition update_one_ruleset :: "ruleset_env \<Rightarrow> int \<Rightarrow> ruleset \<Rightarrow> ruleset \<times> bool" where
  "update_one_ruleset env now r =
     (if ru_disabled r then (r, False)
      else case do_update_ruleset env now (r\<lparr>ru_updating := Some True\<rparr>) of
             (err, r') \<Rightarrow> (r'\<lparr>ru_updating := Some False\<rparr>, err = None))"

definition update_rulesets :: "ruleset_env \<Rightarrow> int \<Rightarrow> write_outcome \<Rightarrow> ruleset_store \<Rightarrow> ruleset_store" where
  "update_rulesets env now w st =
     (let items = map (\<lambda>r. fst (update_one_ruleset env now r)) (fs_items st);
          need_save = list_ex (\<lambda>r. snd (update_one_ruleset env now r)) (fs_items st)
      in if need_save \<and> w = None then \<lparr>fs_items = items, fs_disk = map omit_ru_updating items\<rparr>
         else st\<lparr>fs_items := items\<rparr>)"

subsection \<open>Facts\<close>

lemma count_rules_sum:
  "count_rules rules = sum_list (map (\<lambda>f. case f of Some n \<Rightarrow> n | None \<Rightarrow> 1) (concat rules))"
proof -
  have inner: "foldl (\<lambda>p. case_option (Suc p) ((+) p)) a c
      = a + sum_list (map (case_option (Suc 0) (\<lambda>n. n)) c)" for a :: nat and c :: "nat option list"
    by (induction c arbitrary: a) (auto split: option.splits)
  have "foldl (\<lambda>p c. foldl (\<lambda>p f. case f of Some n \<Rightarrow> p + n | None \<Rightarrow> p + 1) 0 c + p) a rs
      = a + sum_list (map (\<lambda>f. case f of Some n \<Rightarrow> n | None \<Rightarrow> 1) (concat rs))" for a :: nat and rs :: parsed_rules
    by (induction rs arbitrary: a) (simp_all add: inner)
  then show ?thesis by (simp add: count_rules_def)
qed

lemma do_update_ruleset_frame:
  "ru_id (snd (do_update_ruleset env now r)) = ru_id r"
  "ru_path (snd (do_update_ruleset env now r)) = ru_path r"
  by (auto simp: do_update_ruleset_def update_source_ruleset_def Let_def
      split: ruleset_format.splits sum.splits prod.splits option.splits)

text \<open>
  Updates never rename or lose a ruleset: whatever the sources answer and whether the save succeeds,
  the list keeps its ids and paths in order, so every reference a profile makes by path still resolves;
  and a ruleset whose update failed keeps the time of its last successful one.
\<close>

theorem update_rulesets_keeps_references:
  "list_all2 (\<lambda>r r'. ru_id r' = ru_id r \<and> ru_path r' = ru_path r
       \<and> (snd (update_one_ruleset env now r) \<or> ru_updateTime r' = ru_updateTime r))
     (fs_items st) (fs_items (update_rulesets env now w st))"
proof -
  have one: "ru_id (fst (update_one_ruleset env now r)) = ru_id r"
    "ru_path (fst (update_one_ruleset env now r)) = ru_path r" for r
    using do_update_ruleset_frame [of env now "r\<lparr>ru_updating := Some True\<rparr>"]
    by (auto simp: update_one_ruleset_def split: prod.splits)
  have failed: "ru_updateTime (fst (update_one_ruleset env now r)) = ru_updateTime r"
    if "\<not> snd (update_one_ruleset env now r)" for r
    using that
    by (auto simp: update_one_ruleset_def do_update_ruleset_def update_source_ruleset_def Let_def
        split: ruleset_format.splits sum.splits prod.splits option.splits if_splits)
  have items: "fs_items (update_rulesets env now w st) = map (\<lambda>r. fst (update_one_ruleset env now r)) (fs_items st)"
    by (simp add: update_rulesets_def Let_def)
  show ?thesis unfolding items using failed one by (auto simp: list_all2_conv_all_nth)
qed

end
