(* ===== verification/ScheduledTasks.thy ===== *)
theory ScheduledTasks
  imports FileStore
begin

text \<open>
  \<open>stores/scheduledtasks.ts\<close>: tasks that run on a cron schedule. Beside the list and its file the store
  keeps a map from task ids to \<open>Cron\<close> jobs. A job is a number here; \<open>sc_live\<close> holds the jobs that
  have been constructed and not stopped, with the task id and the pattern they run. Whether \<open>new Cron\<close>
  accepts a pattern is the argument \<open>valid\<close> (it throws for the others), and \<open>w\<close> is the outcome of the
  write. A failed construction after a successful write leaves memory and disk apart, so this store is
  not an instance of the durable store of \<open>Interfaces\<close>.
\<close>

datatype task_type = UpdateSubscription | UpdateRuleset | UpdatePlugin | RunPlugin | RunScript

record task =
  tk_id :: string
  tk_name :: string
  tk_type :: task_type
  tk_subscriptions :: "string list"
  tk_rulesets :: "string list"
  tk_plugins :: "string list"
  tk_script :: string
  tk_cron :: string
  tk_notification :: bool
  tk_disabled :: bool
  tk_lastTime :: int

record scheduler =
  sc_tasks :: "task list"
  sc_disk :: "task list"
  sc_jobs :: "string \<rightharpoonup> nat"
  sc_live :: "(nat \<times> string \<times> string) list"
  sc_next :: nat

definition sc_init :: "task list \<Rightarrow> scheduler" where
  "sc_init ts = \<lparr>sc_tasks = ts, sc_disk = ts, sc_jobs = Map.empty, sc_live = [], sc_next = 0\<rparr>"

subsection \<open>Jobs\<close>

text \<open>\<open>cronJobsMap[id] = new Cron(cron, ...)\<close>, for an accepted pattern.\<close>

definition start_job :: "string \<Rightarrow> string \<Rightarrow> scheduler \<Rightarrow> scheduler" where
  "start_job i cron s =
     s\<lparr>sc_jobs := (sc_jobs s)(i \<mapsto> sc_next s), sc_live := (sc_next s, i, cron) # sc_live s,
       sc_next := Suc (sc_next s)\<rparr>"

text \<open>\<open>cronJobsMap[id]?.stop()\<close>, and with \<open>delete cronJobsMap[id]\<close>.\<close>

definition stop_job :: "string \<Rightarrow> scheduler \<Rightarrow> scheduler" where
  "stop_job i s = (case sc_jobs s i of
      None \<Rightarrow> s
    | Some n \<Rightarrow> s\<lparr>sc_live := filter (\<lambda>(m, _). m \<noteq> n) (sc_live s)\<rparr>)"

definition drop_job :: "string \<Rightarrow> scheduler \<Rightarrow> scheduler" where
  "drop_job i s = (stop_job i s)\<lparr>sc_jobs := (sc_jobs s)(i := None)\<rparr>"

definition cron_error :: string where "cron_error = ''CronPattern: invalid''"

subsection \<open>Operations\<close>

text \<open>The start of the application: one job per enabled task whose pattern is accepted.\<close>

definition setup_scheduled_tasks :: "(string \<Rightarrow> bool) \<Rightarrow> task list \<Rightarrow> scheduler" where
  "setup_scheduled_tasks valid ts =
     fold (\<lambda>t s. if \<not> tk_disabled t \<and> valid (tk_cron t) then start_job (tk_id t) (tk_cron t) s else s)
       ts (sc_init ts)"

definition get_scheduled_task_by_id :: "scheduler \<Rightarrow> string \<Rightarrow> task option" where
  "get_scheduled_task_by_id s i = List.find (\<lambda>t. tk_id t = i) (sc_tasks s)"

definition add_scheduled_task ::
    "(string \<Rightarrow> bool) \<Rightarrow> write_outcome \<Rightarrow> task \<Rightarrow> scheduler \<Rightarrow> string option \<times> scheduler" where
  "add_scheduled_task valid w t s =
     (let pushed = s\<lparr>sc_tasks := sc_tasks s @ [t]\<rparr>;
          roll_back = (\<lambda>u. (drop_job (tk_id t) u)\<lparr>sc_tasks := butlast (sc_tasks u)\<rparr>)
      in if valid (tk_cron t)
         then let started = start_job (tk_id t) (tk_cron t) pushed
           in case w of
                None \<Rightarrow> (None, started\<lparr>sc_disk := sc_tasks started\<rparr>)
              | Some e \<Rightarrow> (Some e, roll_back started)
         else (Some cron_error, roll_back pushed))"

definition delete_scheduled_task ::
    "write_outcome \<Rightarrow> string \<Rightarrow> scheduler \<Rightarrow> string option \<times> scheduler" where
  "delete_scheduled_task w i s = (case find_index (\<lambda>t. tk_id t = i) (sc_tasks s) of
      None \<Rightarrow> (None, s)
    | Some k \<Rightarrow>
        (let backup = sc_tasks s ! k; removed = s\<lparr>sc_tasks := remove_at k (sc_tasks s)\<rparr>
         in case w of
              None \<Rightarrow> (None, drop_job i (removed\<lparr>sc_disk := sc_tasks removed\<rparr>))
            | Some e \<Rightarrow> (Some e, removed\<lparr>sc_tasks := insert_at k backup (sc_tasks removed)\<rparr>)))"

definition edit_scheduled_task ::
    "(string \<Rightarrow> bool) \<Rightarrow> write_outcome \<Rightarrow> string \<Rightarrow> task \<Rightarrow> scheduler \<Rightarrow> string option \<times> scheduler" where
  "edit_scheduled_task valid w i t s = (case find_index (\<lambda>t. tk_id t = i) (sc_tasks s) of
      None \<Rightarrow> (None, s)
    | Some k \<Rightarrow>
        (let backup = sc_tasks s ! k; edited = s\<lparr>sc_tasks := (sc_tasks s)[k := t]\<rparr>;
             roll_back = (\<lambda>u. u\<lparr>sc_tasks := (sc_tasks u)[k := backup]\<rparr>)
         in case w of
              Some e \<Rightarrow> (Some e, roll_back edited)
            | None \<Rightarrow>
                let stopped = stop_job i (edited\<lparr>sc_disk := sc_tasks edited\<rparr>)
                in if tk_disabled t then (None, stopped\<lparr>sc_jobs := (sc_jobs stopped)(i := None)\<rparr>)
                   else if valid (tk_cron t) then (None, start_job i (tk_cron t) stopped)
                   else (Some cron_error, roll_back stopped)))"

text \<open>
  \<open>withOutput\<close> runs the function on the ids in order; an error becomes an output line and does not
  stop the rest. \<open>getTaskFn\<close> chooses list and function by the type of the task; the functions of the
  other stores are the argument \<open>actions\<close>.
\<close>

type_synonym task_action = "string \<Rightarrow> string + string"

record task_actions =
  ta_updateSubscribe :: task_action
  ta_updateRuleset :: task_action
  ta_updatePlugin :: task_action
  ta_manualTrigger :: task_action
  ta_runScript :: task_action

fun with_output :: "string list \<Rightarrow> task_action \<Rightarrow> string list" where
  "with_output [] fn = []"
| "with_output (i # is) fn = (case fn i of Inl e \<Rightarrow> e | Inr r \<Rightarrow> r) # with_output is fn"

definition get_task_fn :: "task_actions \<Rightarrow> task \<Rightarrow> string list" where
  "get_task_fn acts t = (case tk_type t of
      UpdateSubscription \<Rightarrow> with_output (tk_subscriptions t) (ta_updateSubscribe acts)
    | UpdateRuleset \<Rightarrow> with_output (tk_rulesets t) (ta_updateRuleset acts)
    | UpdatePlugin \<Rightarrow> with_output (tk_plugins t) (ta_updatePlugin acts)
    | RunPlugin \<Rightarrow> with_output (tk_plugins t) (ta_manualTrigger acts)
    | RunScript \<Rightarrow> with_output [tk_script t] (ta_runScript acts))"

record task_log =
  tl_name :: string
  tl_startTime :: int
  tl_endTime :: int
  tl_result :: "string list"

text \<open>
  \<open>runScheduledTask\<close>: the time of the run is saved through \<open>editScheduledTask\<close>, which also renews the
  job; then the action runs and is logged. \<open>now\<close> and \<open>later\<close> are the two readings of the clock.
\<close>

definition run_scheduled_task ::
    "(string \<Rightarrow> bool) \<Rightarrow> write_outcome \<Rightarrow> task_actions \<Rightarrow> int \<Rightarrow> int \<Rightarrow> string \<Rightarrow> scheduler
       \<Rightarrow> task_log option \<times> scheduler" where
  "run_scheduled_task valid w acts now later i s = (case get_scheduled_task_by_id s i of
      None \<Rightarrow> (None, s)
    | Some t \<Rightarrow>
        (let t' = t\<lparr>tk_lastTime := now\<rparr>;
             touched = s\<lparr>sc_tasks := map_first (\<lambda>u. tk_id u = i) (\<lambda>_. t') (sc_tasks s)\<rparr>;
             saved = snd (edit_scheduled_task valid w i t' touched)
         in (Some \<lparr>tl_name = tk_name t, tl_startTime = now, tl_endTime = later,
                   tl_result = get_task_fn acts t'\<rparr>, saved)))"

subsection \<open>Which jobs are alive\<close>

text \<open>Every live job is the one the map knows for an enabled task, and runs that task's pattern.\<close>

definition sc_inv :: "scheduler \<Rightarrow> bool" where
  "sc_inv s \<longleftrightarrow> distinct (map tk_id (sc_tasks s))
     \<and> (\<forall>(n, i, c) \<in> set (sc_live s). sc_jobs s i = Some n \<and> n < sc_next s
          \<and> (\<exists>t \<in> set (sc_tasks s). tk_id t = i \<and> tk_cron t = c \<and> \<not> tk_disabled t))
     \<and> (\<forall>i n. sc_jobs s i = Some n \<longrightarrow> n < sc_next s)
     \<and> (\<forall>i j n. sc_jobs s i = Some n \<longrightarrow> sc_jobs s j = Some n \<longrightarrow> i = j)"

lemma sc_inv_live:
  assumes "sc_inv s" "(n, i, c) \<in> set (sc_live s)"
  shows "sc_jobs s i = Some n" "n < sc_next s"
    "\<exists>t \<in> set (sc_tasks s). tk_id t = i \<and> tk_cron t = c \<and> \<not> tk_disabled t"
proof -
  from assms(1) have "\<forall>x \<in> set (sc_live s). case x of (n, i, c) \<Rightarrow> sc_jobs s i = Some n \<and> n < sc_next s
      \<and> (\<exists>t \<in> set (sc_tasks s). tk_id t = i \<and> tk_cron t = c \<and> \<not> tk_disabled t)"
    unfolding sc_inv_def by (elim conjE)
  from bspec [OF this assms(2)]
  show "sc_jobs s i = Some n" "n < sc_next s"
    "\<exists>t \<in> set (sc_tasks s). tk_id t = i \<and> tk_cron t = c \<and> \<not> tk_disabled t" by simp_all
qed

definition live_for :: "string \<Rightarrow> scheduler \<Rightarrow> (nat \<times> string \<times> string) list" where
  "live_for i s = filter (\<lambda>(_, j, _). j = i) (sc_live s)"

lemma job_fields [simp]:
  "sc_tasks (start_job i c s) = sc_tasks s" "sc_disk (start_job i c s) = sc_disk s"
  "sc_tasks (stop_job i s) = sc_tasks s" "sc_disk (stop_job i s) = sc_disk s"
  "sc_jobs (stop_job i s) = sc_jobs s" "sc_next (stop_job i s) = sc_next s"
  "sc_tasks (drop_job i s) = sc_tasks s" "sc_disk (drop_job i s) = sc_disk s"
  "sc_jobs (drop_job i s) = (sc_jobs s)(i := None)" "sc_next (drop_job i s) = sc_next s"
  "sc_live (drop_job i s) = sc_live (stop_job i s)"
  by (simp_all add: start_job_def stop_job_def drop_job_def split: option.splits)

lemma stop_live:
  "sc_inv s \<Longrightarrow> set (sc_live (stop_job i s)) = {(n, j, c) \<in> set (sc_live s). j \<noteq> i}"
  by (auto simp: sc_inv_def stop_job_def split: option.splits)

lemma stop_live_update [simp]:
  "sc_live (stop_job i (s\<lparr>sc_tasks := ts\<rparr>)) = sc_live (stop_job i s)"
  "sc_live (stop_job i (s\<lparr>sc_tasks := ts, sc_disk := ds\<rparr>)) = sc_live (stop_job i s)"
  "sc_live (stop_job i (s\<lparr>sc_disk := ds\<rparr>)) = sc_live (stop_job i s)"
  by (simp_all add: stop_job_def split: option.splits)

lemma sc_inv_delete: "sc_inv s \<Longrightarrow> sc_inv (snd (delete_scheduled_task w i s))"
proof (cases "find_index (\<lambda>t. tk_id t = i) (sc_tasks s)")
  case None
  then show "sc_inv s \<Longrightarrow> ?thesis" by (simp add: delete_scheduled_task_def)
next
  case (Some k)
  then have k: "k < length (sc_tasks s)" "tk_id (sc_tasks s ! k) = i"
    using find_index_SomeD by force+
  assume inv: "sc_inv s"
  show ?thesis
  proof (cases w)
    case (Some e)
    with \<open>find_index _ _ = _\<close> k show ?thesis
      using inv by (simp add: delete_scheduled_task_def Let_def insert_remove_at)
  next
    case None
    have keep: "t \<in> set (remove_at k (sc_tasks s))" if "t \<in> set (sc_tasks s)" "tk_id t \<noteq> i" for t
      using that k insert_remove_at [OF k(1)] by (metis insertE set_insert_at)
    have "distinct (map tk_id (remove_at k (sc_tasks s)))"
      using inv by (auto simp: sc_inv_def intro: distinct_remove_at)
    moreover have "\<forall>(n, j, c) \<in> set (sc_live (stop_job i s)). ((sc_jobs s)(i := None)) j = Some n \<and> n < sc_next s
        \<and> (\<exists>t \<in> set (remove_at k (sc_tasks s)). tk_id t = j \<and> tk_cron t = c \<and> \<not> tk_disabled t)"
      unfolding stop_live [OF inv] using inv keep by (fastforce simp: sc_inv_def)
    ultimately show ?thesis
      using None \<open>find_index _ _ = _\<close> inv
      by (auto simp: delete_scheduled_task_def Let_def sc_inv_def [of "drop_job _ _"] )
        (auto simp: sc_inv_def split: if_splits)
  qed
qed

lemma sc_inv_start:
  assumes inv: "sc_inv s" and free: "\<forall>(n, j, c) \<in> set (sc_live s). j \<noteq> i"
    and t: "t \<in> set (sc_tasks s)" "tk_id t = i" "\<not> tk_disabled t"
  shows "sc_inv (start_job i (tk_cron t) s)"
proof -
  have "\<forall>(n, j, c) \<in> set (sc_live (start_job i (tk_cron t) s)).
      sc_jobs (start_job i (tk_cron t) s) j = Some n \<and> n < Suc (sc_next s)
      \<and> (\<exists>u \<in> set (sc_tasks s). tk_id u = j \<and> tk_cron u = c \<and> \<not> tk_disabled u)"
    using inv free t by (fastforce simp: sc_inv_def start_job_def)
  moreover have "\<forall>j n. sc_jobs (start_job i (tk_cron t) s) j = Some n \<longrightarrow> n < Suc (sc_next s)"
    using inv by (auto simp: sc_inv_def start_job_def less_SucI)
  moreover have "\<forall>j k n. sc_jobs (start_job i (tk_cron t) s) j = Some n \<longrightarrow>
      sc_jobs (start_job i (tk_cron t) s) k = Some n \<longrightarrow> j = k"
  proof (intro allI impI)
    fix j k n
    assume *: "sc_jobs (start_job i (tk_cron t) s) j = Some n" "sc_jobs (start_job i (tk_cron t) s) k = Some n"
    have below: "sc_jobs s m \<noteq> Some (sc_next s)" for m using inv by (auto simp: sc_inv_def)
    show "j = k"
      using * inv below [of j] below [of k]
      by (simp add: start_job_def sc_inv_def split: if_splits)
  qed
  moreover have "sc_next (start_job i (tk_cron t) s) = Suc (sc_next s)" by (simp add: start_job_def)
  ultimately show ?thesis using inv unfolding sc_inv_def by simp
qed

lemma sc_inv_edit:
  assumes inv: "sc_inv s" and key: "tk_id t = i"
    and pat: "w \<noteq> None \<or> tk_disabled t \<or> valid (tk_cron t)"
  shows "sc_inv (snd (edit_scheduled_task valid w i t s))"
proof (cases "find_index (\<lambda>t. tk_id t = i) (sc_tasks s)")
  case None
  with inv show ?thesis by (simp add: edit_scheduled_task_def)
next
  case (Some k)
  then have k: "k < length (sc_tasks s)" "tk_id (sc_tasks s ! k) = i"
    using find_index_SomeD by force+
  show ?thesis
  proof (cases w)
    case (Some e)
    with \<open>find_index _ _ = _\<close> inv show ?thesis by (simp add: edit_scheduled_task_def Let_def)
  next
    case None
    let ?ts = "(sc_tasks s)[k := t]"
    have keep: "u \<in> set ?ts" if "u \<in> set (sc_tasks s)" "tk_id u \<noteq> i" for u
      using that k by (metis in_set_conv_nth length_list_update nth_list_update_neq)
    have dist: "distinct (map tk_id ?ts)"
      using inv Some key by (auto simp: sc_inv_def intro: distinct_list_update_key)
    have others: "\<forall>(n, j, c) \<in> set (sc_live (stop_job i s)). j \<noteq> i \<and> sc_jobs s j = Some n \<and> n < sc_next s
        \<and> (\<exists>t \<in> set ?ts. tk_id t = j \<and> tk_cron t = c \<and> \<not> tk_disabled t)"
      unfolding stop_live [OF inv] using inv keep by (fastforce simp: sc_inv_def)
    have nums: "\<And>j n. sc_jobs s j = Some n \<Longrightarrow> n < sc_next s"
      "\<And>j j' n. sc_jobs s j = Some n \<Longrightarrow> sc_jobs s j' = Some n \<Longrightarrow> j = j'"
      using inv by (auto simp: sc_inv_def)
    have mem: "t \<in> set ?ts" using k set_update_memI by fast
    let ?u = "stop_job i (s\<lparr>sc_tasks := ?ts, sc_disk := ?ts\<rparr>)"
    show ?thesis
    proof (cases "tk_disabled t")
      case True
      have "edit_scheduled_task valid w i t s = (None, ?u\<lparr>sc_jobs := (sc_jobs s)(i := None)\<rparr>)"
        using None \<open>find_index _ _ = _\<close> True by (simp add: edit_scheduled_task_def Let_def)
      then show ?thesis
        using dist others nums by (fastforce simp: sc_inv_def)
    next
      case False
      with pat None have "valid (tk_cron t)" by simp
      then have eq: "edit_scheduled_task valid w i t s = (None, start_job i (tk_cron t) ?u)"
        using None \<open>find_index _ _ = _\<close> False by (simp add: edit_scheduled_task_def Let_def)
      have "sc_inv ?u" using dist others nums by (fastforce simp: sc_inv_def)
      moreover have "\<forall>(n, j, c) \<in> set (sc_live ?u). j \<noteq> i" using others by auto
      ultimately show ?thesis using sc_inv_start [of ?u i t] mem key False eq by simp
    qed
  qed
qed

lemma sc_inv_dropped:
  assumes inv: "sc_inv s" and tasks: "sc_tasks u = sc_tasks s"
    and live: "set (sc_live u) = set (sc_live s)" "\<forall>(n, j, c) \<in> set (sc_live s). j \<noteq> i"
    and jobs: "sc_jobs u = (sc_jobs s)(i := None)" and bound: "sc_next s \<le> sc_next u"
  shows "sc_inv u"
proof -
  have "\<forall>(n, j, c) \<in> set (sc_live u). sc_jobs u j = Some n \<and> n < sc_next u
      \<and> (\<exists>t \<in> set (sc_tasks u). tk_id t = j \<and> tk_cron t = c \<and> \<not> tk_disabled t)"
    unfolding live(1) jobs tasks
  proof (clarify)
    fix n j c assume mem: "(n, j, c) \<in> set (sc_live s)"
    with live(2) have "j \<noteq> i" by blast
    moreover from mem inv have "sc_jobs s j = Some n" "n < sc_next s"
      "\<exists>t \<in> set (sc_tasks s). tk_id t = j \<and> tk_cron t = c \<and> \<not> tk_disabled t"
      using sc_inv_live by blast+
    ultimately show "((sc_jobs s)(i := None)) j = Some n \<and> n < sc_next u
        \<and> (\<exists>t \<in> set (sc_tasks s). tk_id t = j \<and> tk_cron t = c \<and> \<not> tk_disabled t)"
      using bound by simp
  qed
  moreover have "\<forall>j n. sc_jobs u j = Some n \<longrightarrow> n < sc_next u"
    unfolding jobs using inv bound by (auto simp: sc_inv_def intro: less_le_trans)
  moreover have "\<forall>j k n. sc_jobs u j = Some n \<longrightarrow> sc_jobs u k = Some n \<longrightarrow> j = k"
    unfolding jobs using inv by (auto simp: sc_inv_def split: if_splits)
  ultimately show ?thesis using inv tasks unfolding sc_inv_def by simp
qed

lemma sc_inv_add:
  assumes inv: "sc_inv s" and fresh: "tk_id t \<notin> tk_id ` set (sc_tasks s)"
    and enabled: "w \<noteq> None \<or> \<not> valid (tk_cron t) \<or> \<not> tk_disabled t"
  shows "sc_inv (snd (add_scheduled_task valid w t s))"
proof -
  let ?i = "tk_id t"
  let ?pushed = "s\<lparr>sc_tasks := sc_tasks s @ [t]\<rparr>"
  have free: "\<forall>(n, j, c) \<in> set (sc_live s). j \<noteq> ?i"
  proof (clarify)
    fix n j c assume "(n, tk_id t, c) \<in> set (sc_live s)"
    from sc_inv_live(3) [OF inv this] fresh show False by (metis image_eqI)
  qed
  have pushed: "sc_inv ?pushed" using inv fresh by (fastforce simp: sc_inv_def)
  have nums: "\<And>j n. sc_jobs s j = Some n \<Longrightarrow> n < sc_next s" using inv by (auto simp: sc_inv_def)
  have live_pushed: "set (sc_live (stop_job ?i ?pushed)) = set (sc_live s)"
    unfolding stop_live [OF pushed] using free by fastforce
  consider (rejected) "\<not> valid (tk_cron t)" | (failed) e where "valid (tk_cron t)" "w = Some e"
    | (saved) "valid (tk_cron t)" "w = None" by blast
  then show ?thesis
  proof cases
    case rejected
    have "sc_inv ((drop_job ?i ?pushed)\<lparr>sc_tasks := sc_tasks s\<rparr>)"
      by (rule sc_inv_dropped [OF inv _ _ free]) (use live_pushed in simp_all)
    with rejected show ?thesis by (simp add: add_scheduled_task_def Let_def)
  next
    case failed
    let ?st = "start_job ?i (tk_cron t) ?pushed"
    have "set (sc_live (stop_job ?i ?st)) = set (sc_live s)"
      using inv by (fastforce simp: stop_job_def start_job_def sc_inv_def)
    then have "sc_inv ((drop_job ?i ?st)\<lparr>sc_tasks := sc_tasks s\<rparr>)"
      by (intro sc_inv_dropped [OF inv _ _ free]) (simp_all add: start_job_def)
    with failed show ?thesis by (simp add: add_scheduled_task_def Let_def)
  next
    case saved
    have "sc_inv (start_job ?i (tk_cron t) ?pushed)"
      using sc_inv_start [OF pushed, of ?i t] free saved enabled by simp
    then have "sc_inv ((start_job ?i (tk_cron t) ?pushed)\<lparr>sc_disk := sc_tasks s @ [t]\<rparr>)"
      unfolding sc_inv_def by simp
    with saved show ?thesis by (simp add: add_scheduled_task_def Let_def)
  qed
qed

lemma map_first_find: "List.find p xs = Some x \<Longrightarrow> map_first p (\<lambda>_. g x) xs = map_first p g xs"
  by (induction xs) (auto split: if_splits)

lemma sc_inv_touch:
  assumes "sc_inv s" "List.find (\<lambda>u. tk_id u = i) (sc_tasks s) = Some t"
  shows "sc_inv (s\<lparr>sc_tasks := map_first (\<lambda>u. tk_id u = i) (\<lambda>_. t\<lparr>tk_lastTime := now\<rparr>) (sc_tasks s)\<rparr>)"
proof -
  let ?ts = "map_first (\<lambda>u. tk_id u = i) (\<lambda>_. t\<lparr>tk_lastTime := now\<rparr>) (sc_tasks s)"
  let ?key = "\<lambda>u. (tk_id u, tk_cron u, tk_disabled u)"
  have same: "map ?key ?ts = map ?key (sc_tasks s)"
    unfolding map_first_find [OF assms(2), of "\<lambda>t. t\<lparr>tk_lastTime := now\<rparr>"]
    by (rule map_map_first) simp
  have ids: "map tk_id ?ts = map tk_id (sc_tasks s)"
    using arg_cong [OF same, of "map fst"] by (simp add: comp_def)
  have "\<exists>u \<in> set ?ts. ?key u = ?key v" if "v \<in> set (sc_tasks s)" for v
    using that same by (metis (no_types, lifting) image_iff list.set_map)
  then show ?thesis
    using assms(1) ids unfolding sc_inv_def by simp (fastforce)
qed

subsection \<open>Runs of the scheduler\<close>

text \<open>What the views do: tasks are added enabled, edited under their own id, deleted and run.\<close>

inductive sc_step :: "(string \<Rightarrow> bool) \<Rightarrow> scheduler \<Rightarrow> scheduler \<Rightarrow> bool" for valid where
  sc_add: "tk_id t \<notin> tk_id ` set (sc_tasks s) \<Longrightarrow> \<not> tk_disabled t \<Longrightarrow>
     sc_step valid s (snd (add_scheduled_task valid w t s))"
| sc_delete: "sc_step valid s (snd (delete_scheduled_task w i s))"
| sc_edit: "tk_id t = i \<Longrightarrow> tk_disabled t \<or> valid (tk_cron t) \<Longrightarrow>
     sc_step valid s (snd (edit_scheduled_task valid w i t s))"
| sc_run: "(\<And>t. get_scheduled_task_by_id s i = Some t \<Longrightarrow> tk_disabled t \<or> valid (tk_cron t)) \<Longrightarrow>
     sc_step valid s (snd (run_scheduled_task valid w acts now later i s))"

inductive_cases sc_stepE: "sc_step valid s t"

lemma sc_inv_run:
  assumes "sc_inv s" "\<And>t. get_scheduled_task_by_id s i = Some t \<Longrightarrow> tk_disabled t \<or> valid (tk_cron t)"
  shows "sc_inv (snd (run_scheduled_task valid w acts now later i s))"
proof (cases "get_scheduled_task_by_id s i")
  case None
  with assms show ?thesis by (simp add: run_scheduled_task_def)
next
  case (Some t)
  then have f: "List.find (\<lambda>u. tk_id u = i) (sc_tasks s) = Some t" and "tk_id t = i"
    by (auto simp: get_scheduled_task_by_id_def dest: find_SomeD)
  with sc_inv_edit [OF sc_inv_touch [OF assms(1) f, of now], of "t\<lparr>tk_lastTime := now\<rparr>"] assms(2) [OF Some] Some
  show ?thesis by (simp add: run_scheduled_task_def Let_def)
qed

lemma sc_inv_step: "sc_step valid s t \<Longrightarrow> sc_inv s \<Longrightarrow> sc_inv t"
  by (erule sc_stepE) (auto intro!: sc_inv_add sc_inv_delete sc_inv_edit sc_inv_run)

lemma sc_inv_steps: "(sc_step valid)\<^sup>*\<^sup>* s t \<Longrightarrow> sc_inv s \<Longrightarrow> sc_inv t"
  by (induction rule: rtranclp_induct) (auto intro: sc_inv_step)

lemma sc_inv_setup:
  assumes "distinct (map tk_id ts)"
  shows "sc_inv (setup_scheduled_tasks valid ts)"
proof -
  let ?f = "\<lambda>t s. if \<not> tk_disabled t \<and> valid (tk_cron t) then start_job (tk_id t) (tk_cron t) s else s"
  have "sc_inv (fold ?f us s)"
    if "sc_inv s" "set us \<subseteq> set (sc_tasks s)" "distinct (map tk_id us)"
      "\<forall>(n, j, c) \<in> set (sc_live s). j \<notin> tk_id ` set us" for us s
    using that
  proof (induction us arbitrary: s)
    case Nil
    then show ?case by simp
  next
    case (Cons u us)
    have "sc_inv (?f u s)" using Cons.prems by (auto intro!: sc_inv_start)
    moreover have "set us \<subseteq> set (sc_tasks (?f u s))" using Cons.prems by simp
    moreover have "\<forall>(n, j, c) \<in> set (sc_live (?f u s)). j \<notin> tk_id ` set us"
      using Cons.prems(3,4) by (auto simp: start_job_def)
    ultimately show ?case using Cons.IH [of "?f u s"] Cons.prems(3) by simp
  qed
  moreover have "sc_inv (sc_init ts)" using assms by (simp add: sc_inv_def sc_init_def)
  ultimately show ?thesis
    using assms by (simp add: setup_scheduled_tasks_def sc_init_def)
qed


definition daily_task :: "string \<Rightarrow> bool \<Rightarrow> task" where
  "daily_task i off = \<lparr>tk_id = i, tk_name = i, tk_type = UpdateRuleset, tk_subscriptions = [],
     tk_rulesets = [''R1'', ''R2''], tk_plugins = [], tk_script = '''', tk_cron = ''0 4 * * *'',
     tk_notification = False, tk_disabled = off, tk_lastTime = 0\<rparr>"


text \<open>
  A task can be added disabled and still run: when the write succeeds and the pattern is accepted,
  adding a task leaves a live job for it, whether the task is disabled or not.
\<close>

theorem added_task_always_runs:
  assumes "valid (tk_cron t)"
  shows "fst (add_scheduled_task valid None t s) = None
    \<and> last (sc_tasks (snd (add_scheduled_task valid None t s))) = t
    \<and> (sc_next s, tk_id t, tk_cron t) \<in> set (sc_live (snd (add_scheduled_task valid None t s)))"
  using assms by (simp add: add_scheduled_task_def Let_def start_job_def)

theorem added_task_always_runs_witness:
  "tk_disabled (daily_task ''A'' True)
   \<and> (0, ''A'', ''0 4 * * *'')
       \<in> set (sc_live (snd (add_scheduled_task (\<lambda>_. True) None (daily_task ''A'' True) (sc_init []))))"
  using added_task_always_runs [of "\<lambda>_. True" "daily_task ''A'' True" "sc_init []"]
  by (simp add: daily_task_def sc_init_def)

text \<open>
  An edit with a rejected pattern is torn: the edit reports the error and memory shows the old task
  again, but the file already holds the new one, and no job of the task is left alive.
\<close>

theorem rejected_edit_is_torn:
  assumes inv: "sc_inv s" and at: "k < length (sc_tasks s)" "tk_id (sc_tasks s ! k) = i"
    and new: "\<not> tk_disabled t" "\<not> valid (tk_cron t)"
  shows "fst (edit_scheduled_task valid None i t s) = Some cron_error
    \<and> sc_tasks (snd (edit_scheduled_task valid None i t s)) = sc_tasks s
    \<and> sc_disk (snd (edit_scheduled_task valid None i t s)) = (sc_tasks s)[k := t]
    \<and> live_for i (snd (edit_scheduled_task valid None i t s)) = []"
proof -
  have idx: "find_index (\<lambda>t. tk_id t = i) (sc_tasks s) = Some k"
  proof (cases "find_index (\<lambda>t. tk_id t = i) (sc_tasks s)")
    case None
    with at show ?thesis by (auto simp: find_index_None_iff)
  next
    case (Some m)
    then have "m < length (sc_tasks s)" "tk_id (sc_tasks s ! m) = i" using find_index_SomeD by force+
    with at inv Some show ?thesis
      by (metis (no_types, lifting) distinct_conv_nth length_map nth_map sc_inv_def)
  qed
  have "live_for i (stop_job i s) = []"
    using stop_live [OF inv, of i] by (auto simp: live_for_def filter_empty_conv)
  with idx new at show ?thesis
    by (simp add: edit_scheduled_task_def Let_def live_for_def)
qed

theorem rejected_edit_is_torn_witness:
  "sc_disk (snd (edit_scheduled_task (\<lambda>c. c \<noteq> ''never'') None ''A'' ((daily_task ''A'' False)\<lparr>tk_cron := ''never''\<rparr>)
      (setup_scheduled_tasks (\<lambda>c. c \<noteq> ''never'') [daily_task ''A'' False])))
    = [(daily_task ''A'' False)\<lparr>tk_cron := ''never''\<rparr>]"
proof -
  let ?s = "setup_scheduled_tasks (\<lambda>c. c \<noteq> ''never'') [daily_task ''A'' False]"
  have inv: "sc_inv ?s" by (rule sc_inv_setup) simp
  have tasks: "sc_tasks ?s = [daily_task ''A'' False]"
    by (simp add: setup_scheduled_tasks_def sc_init_def)
  from rejected_edit_is_torn [OF inv, of 0 "''A''" "(daily_task ''A'' False)\<lparr>tk_cron := ''never''\<rparr>" "\<lambda>c. c \<noteq> ''never''"]
  show ?thesis unfolding tasks by (simp add: daily_task_def)
qed

end
