(* ===== verification/Debounce.thy ===== *)
theory Debounce
  imports Prelude
begin

text \<open>
  \<open>debounce\<close> of \<open>utils/others.ts\<close>, which every store wraps around its save function, as a state
  machine. A call answers a promise and arms the single timer anew; the timer runs the wrapped
  function, and only then is the promise of that call settled. Calls are numbered in order; \<open>db_calls\<close>
  lists for each the time it was made and what became of its promise.
\<close>

datatype promise_state = PromisePending | PromiseResolved | PromiseRejected

record debouncer =
  db_now :: int
  db_calls :: "(int \<times> promise_state) list"
  db_armed :: "(nat \<times> int) option"
  db_running :: "nat list"

definition db_init :: debouncer where
  "db_init = \<lparr>db_now = 0, db_calls = [], db_armed = None, db_running = []\<rparr>"

subsection \<open>Operations\<close>

text \<open>The debounced function: \<open>clearTimeout\<close> of the previous timer, then \<open>setTimeout\<close>.\<close>

definition db_call :: "int \<Rightarrow> debouncer \<Rightarrow> debouncer" where
  "db_call wait s =
     s\<lparr>db_calls := db_calls s @ [(db_now s, PromisePending)],
       db_armed := Some (length (db_calls s), db_now s + wait)\<rparr>"

text \<open>The timer callback starts: \<open>await fn(...args)\<close>.\<close>

definition db_fire :: "debouncer \<Rightarrow> debouncer" where
  "db_fire s = (case db_armed s of
      None \<Rightarrow> s
    | Some (n, due) \<Rightarrow>
        if due \<le> db_now s then s\<lparr>db_armed := None, db_running := n # db_running s\<rparr> else s)"

text \<open>The wrapped function returns or throws.\<close>

definition db_settle :: "nat \<Rightarrow> bool \<Rightarrow> debouncer \<Rightarrow> debouncer" where
  "db_settle n success s =
     (if n \<in> set (db_running s)
      then s\<lparr>db_running := remove1 n (db_running s),
             db_calls := (db_calls s)[n := (fst (db_calls s ! n),
                           if success then PromiseResolved else PromiseRejected)]\<rparr>
      else s)"

definition db_cancel :: "debouncer \<Rightarrow> debouncer" where
  "db_cancel s = s\<lparr>db_armed := None\<rparr>"

definition db_tick :: "nat \<Rightarrow> debouncer \<Rightarrow> debouncer" where
  "db_tick d s = s\<lparr>db_now := db_now s + int d\<rparr>"

inductive db_step :: "int \<Rightarrow> debouncer \<Rightarrow> debouncer \<Rightarrow> bool" for wait where
  step_call: "db_step wait s (db_call wait s)"
| step_fire: "db_step wait s (db_fire s)"
| step_settle: "db_step wait s (db_settle n success s)"
| step_cancel: "db_step wait s (db_cancel s)"
| step_tick: "db_step wait s (db_tick d s)"

inductive_cases db_stepE: "db_step wait s t"

abbreviation db_steps :: "int \<Rightarrow> debouncer \<Rightarrow> debouncer \<Rightarrow> bool" where
  "db_steps wait \<equiv> (db_step wait)\<^sup>*\<^sup>*"

text \<open>Extending a run at its end, one step of each kind.\<close>

lemma db_extend:
  "db_steps wait s t \<Longrightarrow> db_steps wait s (db_call wait t)"
  "db_steps wait s t \<Longrightarrow> db_steps wait s (db_fire t)"
  "db_steps wait s t \<Longrightarrow> db_steps wait s (db_settle n success t)"
  "db_steps wait s t \<Longrightarrow> db_steps wait s (db_cancel t)"
  "db_steps wait s t \<Longrightarrow> db_steps wait s (db_tick d t)"
  by (auto intro: rtranclp.rtrancl_into_rtrancl db_step.intros)

subsection \<open>Invariant\<close>

definition db_inv :: "int \<Rightarrow> debouncer \<Rightarrow> bool" where
  "db_inv wait s \<longleftrightarrow>
     (\<forall>c \<in> set (db_calls s). fst c \<le> db_now s)
     \<and> sorted (map fst (db_calls s))
     \<and> (\<forall>n due. db_armed s = Some (n, due) \<longrightarrow>
          Suc n = length (db_calls s) \<and> due = fst (db_calls s ! n) + wait
          \<and> snd (db_calls s ! n) = PromisePending \<and> n \<notin> set (db_running s))
     \<and> distinct (db_running s)
     \<and> (\<forall>n \<in> set (db_running s). n < length (db_calls s) \<and> snd (db_calls s ! n) = PromisePending)"

lemma db_inv_init: "db_inv wait db_init"
  by (simp add: db_inv_def db_init_def)

lemma db_inv_call: "db_inv wait s \<Longrightarrow> db_inv wait (db_call wait s)"
  by (auto simp: db_inv_def db_call_def sorted_append nth_append)

lemma db_inv_fire: "db_inv wait s \<Longrightarrow> db_inv wait (db_fire s)"
  by (auto simp: db_inv_def db_fire_def split: option.splits)

lemma db_inv_settle: "db_inv wait s \<Longrightarrow> db_inv wait (db_settle n success s)"
proof -
  assume inv: "db_inv wait s"
  let ?calls = "(db_calls s)[n := (fst (db_calls s ! n), if success then PromiseResolved else PromiseRejected)]"
  have fst_same: "map fst ?calls = map fst (db_calls s)"
    by (cases "n < length (db_calls s)")
      (simp_all add: map_update list_update_same_conv list_update_beyond)
  have "\<forall>c \<in> set ?calls. fst c \<le> db_now s"
    using inv fst_same unfolding db_inv_def by (metis (no_types, lifting) imageE image_eqI list.set_map)
  then show ?thesis
    using inv fst_same by (auto simp: db_inv_def db_settle_def nth_list_update)
qed

lemma db_inv_cancel: "db_inv wait s \<Longrightarrow> db_inv wait (db_cancel s)"
  by (auto simp: db_inv_def db_cancel_def)

lemma db_inv_tick: "db_inv wait s \<Longrightarrow> db_inv wait (db_tick d s)"
  by (force simp: db_inv_def db_tick_def)

lemma db_inv_step: "db_step wait s t \<Longrightarrow> db_inv wait s \<Longrightarrow> db_inv wait t"
  by (auto elim!: db_stepE intro: db_inv_call db_inv_fire db_inv_settle db_inv_cancel db_inv_tick)

lemma db_inv_steps: "db_steps wait s t \<Longrightarrow> db_inv wait s \<Longrightarrow> db_inv wait t"
  by (induction rule: rtranclp_induct) (auto intro: db_inv_step)

lemma db_inv_reachable: "db_steps wait db_init s \<Longrightarrow> db_inv wait s"
  using db_inv_steps db_inv_init by blast

subsection \<open>Lost calls\<close>

text \<open>A call whose promise is pending while nothing is left that could settle it.\<close>

definition db_lost :: "nat \<Rightarrow> debouncer \<Rightarrow> bool" where
  "db_lost n s \<longleftrightarrow> n < length (db_calls s) \<and> snd (db_calls s ! n) = PromisePending
     \<and> n \<notin> set (db_running s) \<and> (\<forall>due. db_armed s \<noteq> Some (n, due))"

lemma db_lost_settle: "db_lost n s \<Longrightarrow> db_lost n (db_settle k success s)"
  by (cases "k = n") (auto simp: db_lost_def db_settle_def dest: notin_set_remove1)

lemma db_lost_step: "db_step wait s t \<Longrightarrow> db_lost n s \<Longrightarrow> db_lost n t"
  by (erule db_stepE)
    (auto simp: db_lost_settle, auto simp: db_lost_def db_call_def db_fire_def db_cancel_def db_tick_def
      nth_append split: option.splits)

lemma db_lost_steps: "db_steps wait s t \<Longrightarrow> db_lost n s \<Longrightarrow> db_lost n t"
  by (induction rule: rtranclp_induct) (auto intro: db_lost_step)

lemma call_loses_armed:
  "db_inv wait s \<Longrightarrow> db_armed s = Some (n, due) \<Longrightarrow> db_lost n (db_call wait s)"
  by (auto simp: db_inv_def db_lost_def db_call_def nth_append)

text \<open>
  A superseded save is lost: when the debounced function is called while the timer of an earlier
  call is armed, the promise of that earlier call stays pending in every later state. The saver that
  awaits it never continues, neither with success nor with an error.
\<close>

theorem superseded_call_never_settles:
  assumes "db_steps wait db_init s" and "db_armed s = Some (n, due)"
    and "db_steps wait (db_call wait s) t"
  shows "snd (db_calls t ! n) = PromisePending \<and> n < length (db_calls t)"
proof -
  have "db_lost n (db_call wait s)"
    using call_loses_armed db_inv_reachable [OF assms(1)] assms(2) by blast
  from db_lost_steps [OF assms(3) this] show ?thesis by (simp add: db_lost_def)
qed

theorem superseded_call_never_settles_witness:
  "snd (db_calls (db_settle 1 True (db_fire (db_tick 100 (db_call 100 (db_call 100 db_init))))) ! 0)
     = PromisePending
   \<and> snd (db_calls (db_settle 1 True (db_fire (db_tick 100 (db_call 100 (db_call 100 db_init))))) ! 1)
     = PromiseResolved"
proof -
  let ?t = "db_settle 1 True (db_fire (db_tick 100 (db_call 100 (db_call 100 db_init))))"
  have first: "db_steps 100 db_init (db_call 100 db_init)"
    by (intro db_extend rtranclp.rtrancl_refl)
  have armed: "db_armed (db_call 100 db_init) = Some (0, 100)"
    by (simp add: db_call_def db_init_def)
  have rest: "db_steps 100 (db_call 100 (db_call 100 db_init)) ?t"
    by (intro db_extend rtranclp.rtrancl_refl)
  have "snd (db_calls ?t ! 1) = PromiseResolved"
    by (simp add: db_settle_def db_fire_def db_tick_def db_call_def db_init_def)
  with superseded_call_never_settles [OF first armed rest] show ?thesis by simp
qed

subsection \<open>Quiet time\<close>

text \<open>
  C18. The wrapped function runs only after \<open>wait\<close> milliseconds without a call: when the timer moves a call
  to running, that call is the last one, it is still pending, and every call was made at least \<open>wait\<close>
  milliseconds ago.
\<close>

theorem debounce_waits_for_quiet:
  assumes "db_steps wait db_init s" and "db_running (db_fire s) \<noteq> db_running s"
  shows "\<exists>n. db_running (db_fire s) = n # db_running s \<and> Suc n = length (db_calls s)
    \<and> snd (db_calls s ! n) = PromisePending \<and> (\<forall>c \<in> set (db_calls s). fst c + wait \<le> db_now s)"
proof -
  obtain n due where armed: "db_armed s = Some (n, due)" "due \<le> db_now s"
    "db_running (db_fire s) = n # db_running s"
    using assms(2) by (auto simp: db_fire_def split: option.splits if_splits)
  have inv: "db_inv wait s" by (rule db_inv_reachable [OF assms(1)])
  with armed(1) have last: "Suc n = length (db_calls s)" "due = fst (db_calls s ! n) + wait"
    "snd (db_calls s ! n) = PromisePending" "sorted (map fst (db_calls s))"
    by (auto simp: db_inv_def)
  have "fst c + wait \<le> db_now s" if c: "c \<in> set (db_calls s)" for c
  proof -
    from c obtain k where k: "k < length (db_calls s)" "c = db_calls s ! k" by (metis in_set_conv_nth)
    with last have "fst c \<le> fst (db_calls s ! n)"
      using sorted_nth_mono [OF last(4), of k n] by simp
    with last(2) armed(2) show ?thesis by simp
  qed
  with armed(3) last show ?thesis by blast
qed

theorem debounce_waits_for_quiet_witness:
  "\<exists>n. db_running (db_fire (db_tick 100 (db_call 100 db_init))) = n # db_running (db_tick 100 (db_call 100 db_init))
    \<and> Suc n = length (db_calls (db_tick 100 (db_call 100 db_init)))"
proof -
  let ?s = "db_tick 100 (db_call 100 db_init)"
  have "db_steps 100 db_init ?s"
    by (intro db_extend rtranclp.rtrancl_refl)
  moreover have "db_running (db_fire ?s) \<noteq> db_running ?s"
    by (simp add: db_fire_def db_tick_def db_call_def db_init_def)
  ultimately show ?thesis using debounce_waits_for_quiet by blast
qed

end
