(* ===== verification/AsyncPool.thy ===== *)
theory AsyncPool
  imports Prelude
begin

text \<open>
  \<open>runPool\<close> and \<open>createAsyncPool\<close> of \<open>utils/others.ts\<close>: run an asynchronous function over an array with
  at most \<open>poolLimit\<close> calls in flight, with a controller that can pause, resume and cancel. The loop is
  a state machine whose phases are the points at which it gives up control; the calls that have been
  started are recorded in the order of the array.
\<close>

datatype 'b run_state = Running | Fulfilled 'b | Rejected

text \<open>
  Where the loop stands: at the top of an iteration; inside \<open>await shouldPause()\<close>, still waiting for
  \<open>resumeResolve\<close> or already let through; in \<open>await Promise.race\<close>; or behind the loop.
\<close>

datatype loop_phase = AtTop | Waiting | Passed | Racing | LoopDone

record 'b pool =
  pl_phase :: loop_phase
  pl_runs :: "'b run_state list"
  pl_paused :: bool
  pl_cancelled :: bool

definition pool_init :: "'b pool" where
  "pool_init = \<lparr>pl_phase = AtTop, pl_runs = [], pl_paused = False, pl_cancelled = False\<rparr>"

definition active_runs :: "'b pool \<Rightarrow> nat" where
  "active_runs s = length (filter (\<lambda>r. r = Running) (pl_runs s))"

subsection \<open>The loop\<close>

text \<open>One move of the loop over \<open>n\<close> items with the given limit; it stays put where it has to wait.\<close>

definition pool_loop :: "nat \<Rightarrow> nat \<Rightarrow> 'b pool \<Rightarrow> 'b pool" where
  "pool_loop limit n s = (case pl_phase s of
      AtTop \<Rightarrow>
        if length (pl_runs s) = n \<or> pl_cancelled s then s\<lparr>pl_phase := LoopDone\<rparr>
        else if pl_paused s then s\<lparr>pl_phase := Waiting\<rparr>
        else s\<lparr>pl_phase := Passed\<rparr>
    | Waiting \<Rightarrow> s
    | Passed \<Rightarrow>
        if pl_cancelled s then s\<lparr>pl_phase := LoopDone\<rparr>
        else let t = s\<lparr>pl_runs := pl_runs s @ [Running]\<rparr>
          in if limit < n \<and> limit \<le> active_runs t then t\<lparr>pl_phase := Racing\<rparr>
             else t\<lparr>pl_phase := AtTop\<rparr>
    | Racing \<Rightarrow> if active_runs s < limit then s\<lparr>pl_phase := AtTop\<rparr> else s
    | LoopDone \<Rightarrow> s)"

text \<open>The call for item \<open>k\<close> settles: with a value, or with an error (\<^const>\<open>None\<close>).\<close>

definition pool_finish :: "nat \<Rightarrow> 'b option \<Rightarrow> 'b pool \<Rightarrow> 'b pool" where
  "pool_finish k v s =
     (if k < length (pl_runs s) \<and> pl_runs s ! k = Running
      then s\<lparr>pl_runs := (pl_runs s)[k := (case v of None \<Rightarrow> Rejected | Some x \<Rightarrow> Fulfilled x)]\<rparr>
      else s)"

subsection \<open>The controller\<close>

text \<open>\<open>resumeResolve?.()\<close>.\<close>

definition release :: "'b pool \<Rightarrow> 'b pool" where
  "release s = (if pl_phase s = Waiting then s\<lparr>pl_phase := Passed\<rparr> else s)"

definition pool_pause :: "'b pool \<Rightarrow> 'b pool" where
  "pool_pause s = s\<lparr>pl_paused := True\<rparr>"

definition pool_resume :: "'b pool \<Rightarrow> 'b pool" where
  "pool_resume s = release (s\<lparr>pl_paused := False\<rparr>)"

definition pool_cancel :: "'b pool \<Rightarrow> 'b pool" where
  "pool_cancel s = release (s\<lparr>pl_cancelled := True\<rparr>)"

text \<open>\<open>Promise.allSettled(results)\<close> has an answer once the loop is left and every call has settled:
  the values of the fulfilled ones, in the order of the array.\<close>

definition pool_complete :: "'b pool \<Rightarrow> bool" where
  "pool_complete s \<longleftrightarrow> pl_phase s = LoopDone \<and> active_runs s = 0"

fun fulfilled_values :: "'b run_state list \<Rightarrow> 'b list" where
  "fulfilled_values [] = []"
| "fulfilled_values (Fulfilled x # rs) = x # fulfilled_values rs"
| "fulfilled_values (Running # rs) = fulfilled_values rs"
| "fulfilled_values (Rejected # rs) = fulfilled_values rs"

definition pool_result :: "'b pool \<Rightarrow> 'b list option" where
  "pool_result s = (if pool_complete s then Some (fulfilled_values (pl_runs s)) else None)"

inductive pool_step :: "nat \<Rightarrow> nat \<Rightarrow> 'b pool \<Rightarrow> 'b pool \<Rightarrow> bool" for limit n where
  st_loop: "pool_step limit n s (pool_loop limit n s)"
| st_finish: "pool_step limit n s (pool_finish k v s)"
| st_pause: "pool_step limit n s (pool_pause s)"
| st_resume: "pool_step limit n s (pool_resume s)"
| st_cancel: "pool_step limit n s (pool_cancel s)"

inductive_cases pool_stepE: "pool_step limit n s t"

abbreviation pool_steps :: "nat \<Rightarrow> nat \<Rightarrow> 'b pool \<Rightarrow> 'b pool \<Rightarrow> bool" where
  "pool_steps limit n \<equiv> (pool_step limit n)\<^sup>*\<^sup>*"

subsection \<open>Invariant\<close>

definition pool_inv :: "nat \<Rightarrow> nat \<Rightarrow> 'b pool \<Rightarrow> bool" where
  "pool_inv limit n s \<longleftrightarrow> length (pl_runs s) \<le> n
     \<and> (pl_phase s \<in> {Waiting, Passed} \<longrightarrow> length (pl_runs s) < n)
     \<and> (limit < n \<longrightarrow> active_runs s \<le> limit)
     \<and> (limit < n \<longrightarrow> pl_phase s \<in> {AtTop, Waiting, Passed} \<longrightarrow> active_runs s < limit)
     \<and> (pl_phase s = LoopDone \<longrightarrow> length (pl_runs s) = n \<or> pl_cancelled s)
     \<and> (pl_phase s = Racing \<longrightarrow> limit < n)
     \<and> (pl_phase s = Waiting \<longrightarrow> pl_paused s \<and> \<not> pl_cancelled s)"

lemma active_le: "active_runs s \<le> length (pl_runs s)"
  by (simp add: active_runs_def)

lemma active_snoc [simp]: "active_runs (s\<lparr>pl_runs := pl_runs s @ [Running]\<rparr>) = Suc (active_runs s)"
  by (simp add: active_runs_def)

lemma active_fields [simp]:
  "active_runs (s\<lparr>pl_phase := ph\<rparr>) = active_runs s"
  "active_runs (s\<lparr>pl_paused := b\<rparr>) = active_runs s"
  "active_runs (s\<lparr>pl_cancelled := b\<rparr>) = active_runs s"
  "active_runs (s\<lparr>pl_runs := rs, pl_phase := ph\<rparr>) = active_runs (s\<lparr>pl_runs := rs\<rparr>)"
  by (simp_all add: active_runs_def)

lemma finish_active: "active_runs (pool_finish k v s) \<le> active_runs s"
proof -
  have "length (filter P (xs[k := y])) \<le> length (filter P xs)" if "\<not> P y" for P xs and y :: "'a run_state"
    using that by (induction xs arbitrary: k) (auto split: nat.splits)
  then show ?thesis by (auto simp: pool_finish_def active_runs_def split: option.splits)
qed

lemma pool_inv_init: "0 < limit \<Longrightarrow> pool_inv limit n pool_init"
  by (simp add: pool_inv_def pool_init_def active_runs_def)

lemma pool_inv_loop: "0 < limit \<Longrightarrow> pool_inv limit n s \<Longrightarrow> pool_inv limit n (pool_loop limit n s)"
proof -
  assume "0 < limit" and inv: "pool_inv limit n s"
  show ?thesis
  proof (cases "pl_phase s")
    case Passed
    then show ?thesis using inv \<open>0 < limit\<close>
      by (cases "limit < n"; cases "limit \<le> Suc (active_runs s)") (simp_all add: pool_inv_def pool_loop_def)
  next
    case AtTop
    then show ?thesis using inv by (simp add: pool_inv_def pool_loop_def)
  next
    case Racing
    then show ?thesis using inv by (simp add: pool_inv_def pool_loop_def)
  qed (use inv in \<open>simp_all add: pool_loop_def\<close>)
qed

lemma pool_inv_finish: "pool_inv limit n s \<Longrightarrow> pool_inv limit n (pool_finish k v s)"
proof -
  assume "pool_inv limit n s"
  moreover have "pl_phase (pool_finish k v s) = pl_phase s" "pl_cancelled (pool_finish k v s) = pl_cancelled s"
    "pl_paused (pool_finish k v s) = pl_paused s" "length (pl_runs (pool_finish k v s)) = length (pl_runs s)"
    by (simp_all add: pool_finish_def)
  ultimately show ?thesis
    using finish_active [of k v s]
    by (cases "limit < n"; cases "pl_phase s"; simp add: pool_inv_def)
qed

lemma pool_inv_control:
  assumes "pool_inv limit n s"
  shows "pool_inv limit n (pool_pause s)" "pool_inv limit n (pool_resume s)" "pool_inv limit n (pool_cancel s)"
  using assms by (auto simp: pool_inv_def pool_pause_def pool_resume_def pool_cancel_def release_def)

lemma pool_inv_step: "pool_step limit n s t \<Longrightarrow> 0 < limit \<Longrightarrow> pool_inv limit n s \<Longrightarrow> pool_inv limit n t"
  by (auto elim!: pool_stepE intro: pool_inv_loop pool_inv_finish pool_inv_control)

lemma pool_inv_reachable: "pool_steps limit n pool_init s \<Longrightarrow> 0 < limit \<Longrightarrow> pool_inv limit n s"
  by (induction rule: rtranclp_induct) (auto intro: pool_inv_init pool_inv_step)

subsection \<open>Properties\<close>


text \<open>A run of three items with two in flight, the second of which fails.\<close>

definition pool_demo :: "nat pool" where
  "pool_demo = (let loop = pool_loop 2 3; s = (loop ^^ 4) pool_init;
                    t = loop (pool_finish 1 None s); u = loop (loop t);
                    v = pool_finish 0 (Some 10) (pool_finish 2 (Some 30) u)
                in loop (loop v))"

lemma pool_extend:
  "pool_steps limit n s t \<Longrightarrow> pool_steps limit n s (pool_loop limit n t)"
  "pool_steps limit n s t \<Longrightarrow> pool_steps limit n s (pool_finish k v t)"
  by (auto intro: rtranclp.rtrancl_into_rtrancl pool_step.intros)

lemma loop_steps: "pool_steps limit n s t \<Longrightarrow> pool_steps limit n s ((pool_loop limit n ^^ k) t)"
  by (induction k) (auto intro: pool_extend)

lemma pool_demo_reachable: "pool_steps 2 3 pool_init pool_demo"
  unfolding pool_demo_def Let_def by (intro pool_extend loop_steps rtranclp.rtrancl_refl)


lemma cancelled_step:
  "pool_step limit n s t \<Longrightarrow> pl_cancelled s \<Longrightarrow> pl_cancelled t \<and> length (pl_runs t) = length (pl_runs s)"
  by (erule pool_stepE; cases "pl_phase s")
    (auto simp: pool_loop_def pool_finish_def pool_pause_def pool_resume_def pool_cancel_def release_def)

text \<open>
  After \<open>cancel\<close> no further item is started, however the loop, the running calls and the controller
  go on: the calls that exist are the ones that existed when the pool was cancelled.
\<close>

theorem cancel_starts_nothing:
  assumes "pool_steps limit n (pool_cancel s) t"
  shows "length (pl_runs t) = length (pl_runs s)"
proof -
  have "pl_cancelled t \<and> length (pl_runs t) = length (pl_runs (pool_cancel s))"
    using assms
  proof (induction rule: rtranclp_induct)
    case base
    show ?case by (simp add: pool_cancel_def release_def)
  next
    case (step u v)
    then show ?case using cancelled_step by metis
  qed
  then show ?thesis by (simp add: pool_cancel_def release_def)
qed

theorem cancel_starts_nothing_witness:
  "length (pl_runs (pool_loop 2 3 (pool_cancel ((pool_loop 2 3 ^^ 2) pool_init)))) = (1::nat)"
proof -
  have "pool_steps 2 3 (pool_cancel ((pool_loop 2 3 ^^ 2) pool_init))
      (pool_loop 2 3 (pool_cancel ((pool_loop 2 3 ^^ 2) pool_init)))"
    by (intro pool_extend rtranclp.rtrancl_refl)
  from cancel_starts_nothing [OF this]
  show ?thesis by (simp add: pool_loop_def pool_init_def active_runs_def numeral_2_eq_2)
qed

subsection \<open>Progress without the controller\<close>

text \<open>A run of the pool itself, where the call for item \<open>k\<close> ends with the outcome \<open>f k\<close>.\<close>

inductive pool_run :: "(nat \<Rightarrow> 'b option) \<Rightarrow> nat \<Rightarrow> nat \<Rightarrow> 'b pool \<Rightarrow> 'b pool \<Rightarrow> bool" for f limit n where
  run_loop: "pool_run f limit n s (pool_loop limit n s)"
| run_finish: "pool_run f limit n s (pool_finish k (f k) s)"

fun phase_rank :: "loop_phase \<Rightarrow> nat" where
  "phase_rank AtTop = 2"
| "phase_rank Waiting = 2"
| "phase_rank Passed = 1"
| "phase_rank Racing = 3"
| "phase_rank LoopDone = 0"

definition pool_measure :: "nat \<Rightarrow> 'b pool \<Rightarrow> nat" where
  "pool_measure n s = 5 * (n - length (pl_runs s)) + phase_rank (pl_phase s) + active_runs s"

definition run_inv :: "(nat \<Rightarrow> 'b option) \<Rightarrow> nat \<Rightarrow> nat \<Rightarrow> 'b pool \<Rightarrow> bool" where
  "run_inv f limit n s \<longleftrightarrow> pool_inv limit n s \<and> \<not> pl_paused s \<and> \<not> pl_cancelled s
     \<and> (\<forall>k < length (pl_runs s). pl_runs s ! k \<in>
          {Running, (case f k of None \<Rightarrow> Rejected | Some x \<Rightarrow> Fulfilled x)})"

lemma pool_loop_frame [simp]:
  "pl_paused (pool_loop limit n s) = pl_paused s" "pl_cancelled (pool_loop limit n s) = pl_cancelled s"
  by (cases "pl_phase s"; simp add: pool_loop_def Let_def)+

lemma pool_loop_runs: "pl_runs (pool_loop limit n s) = pl_runs s \<or> pl_runs (pool_loop limit n s) = pl_runs s @ [Running]"
  by (cases "pl_phase s"; simp add: pool_loop_def Let_def)

lemma run_inv_step: "pool_run f limit n s t \<Longrightarrow> 0 < limit \<Longrightarrow> run_inv f limit n s \<Longrightarrow> run_inv f limit n t"
proof (induction rule: pool_run.induct)
  case (run_loop s)
  then show ?case
    using pool_loop_runs [of limit n s] by (fastforce simp: run_inv_def pool_inv_loop nth_append)
next
  case (run_finish s k)
  then have "pool_inv limit n (pool_finish k (f k) s)" by (simp add: run_inv_def pool_inv_finish)
  then show ?case
    using run_finish by (auto simp: run_inv_def pool_finish_def nth_list_update)
qed

lemma run_inv_reachable: "(pool_run f limit n)\<^sup>*\<^sup>* pool_init s \<Longrightarrow> 0 < limit \<Longrightarrow> run_inv f limit n s"
proof (induction rule: rtranclp_induct)
  case base
  then show ?case using pool_inv_init by (simp add: run_inv_def pool_init_def)
next
  case (step t u)
  then show ?case using run_inv_step by blast
qed

lemma values_of_outcomes:
  assumes "\<And>k. k < length rs \<Longrightarrow> rs ! k = (case f (i + k) of None \<Rightarrow> Rejected | Some x \<Rightarrow> Fulfilled x)"
  shows "fulfilled_values rs = List.map_filter f [i..<i + length rs]"
  using assms
proof (induction rs arbitrary: i)
  case Nil
  then show ?case by (simp add: List.map_filter_def)
next
  case (Cons r rs)
  have head: "r = (case f i of None \<Rightarrow> Rejected | Some x \<Rightarrow> Fulfilled x)"
    using Cons.prems [of 0] by simp
  have "fulfilled_values rs = List.map_filter f [Suc i..<Suc i + length rs]"
    using Cons.prems [of "Suc _"] by (intro Cons.IH) simp
  moreover have "[i..<i + length (r # rs)] = i # [Suc i..<Suc i + length rs]"
    by (simp add: upt_conv_Cons del: upt_Suc)
  ultimately show ?case
    unfolding head by (cases "f i") (simp_all add: List.map_filter_simps del: upt_Suc)
qed

lemma finish_decreases:
  assumes "k < length (pl_runs s)" "pl_runs s ! k = Running"
  shows "pool_measure n (pool_finish k v s) < pool_measure n s"
proof -
  have "length (filter P (xs[k := y])) < length (filter P xs)"
    if "k < length xs" "P (xs ! k)" "\<not> P y" for P and xs :: "'a run_state list" and y k
    using that by (induction xs arbitrary: k) (auto split: nat.splits simp: nth_Cons')
  then have "active_runs (pool_finish k v s) < active_runs s"
    using assms by (auto simp: pool_finish_def active_runs_def split: option.splits)
  then show ?thesis using assms by (simp add: pool_measure_def pool_finish_def)
qed

lemma loop_decreases:
  assumes "pool_inv limit n s" "\<not> pl_paused s" "pool_loop limit n s \<noteq> s"
  shows "pool_measure n (pool_loop limit n s) < pool_measure n s"
  using assms by (cases "pl_phase s")
    (auto simp: pool_measure_def pool_loop_def pool_inv_def Let_def split: if_splits)

lemma loop_stuck:
  assumes "pool_inv limit n s" "\<not> pl_paused s" "pool_loop limit n s = s"
  shows "pl_phase s = LoopDone \<or> pl_phase s = Racing \<and> limit \<le> active_runs s"
proof -
  have ph: "pl_phase (pool_loop limit n s) = pl_phase s" using assms(3) by simp
  show ?thesis
    using assms(1,2) ph by (cases "pl_phase s") (auto simp: pool_loop_def pool_inv_def Let_def split: if_splits)
qed

text \<open>
  The answer does not depend on the order in which the calls end: a pool left to itself answers with
  the values of the calls that succeeded, in the order of the array; and until it has an answer it always
  has a move that brings it nearer, so that it reaches the answer after finitely many moves.
\<close>

theorem pool_answers_in_order:
  assumes "0 < limit" and "(pool_run f limit n)\<^sup>*\<^sup>* pool_init s"
  shows "(\<forall>vs. pool_result s = Some vs \<longrightarrow> vs = List.map_filter f [0..<n])
    \<and> (pool_result s = None \<longrightarrow> (\<exists>t. pool_run f limit n s t \<and> pool_measure n t < pool_measure n s))"
proof -
  have inv: "run_inv f limit n s" by (rule run_inv_reachable [OF assms(2,1)])
  then have pinv: "pool_inv limit n s" "\<not> pl_paused s" "\<not> pl_cancelled s" by (simp_all add: run_inv_def)
  have "vs = List.map_filter f [0..<n]" if "pool_result s = Some vs" for vs
  proof -
    from that have c: "pl_phase s = LoopDone" "active_runs s = 0" "vs = fulfilled_values (pl_runs s)"
      by (simp_all add: pool_result_def pool_complete_def split: if_splits)
    then have len: "length (pl_runs s) = n" using pinv by (simp add: pool_inv_def)
    have "Running \<notin> set (pl_runs s)" using c by (auto simp: active_runs_def filter_empty_conv)
    then have "pl_runs s ! k = (case f (0 + k) of None \<Rightarrow> Rejected | Some x \<Rightarrow> Fulfilled x)"
      if "k < length (pl_runs s)" for k
      using that inv nth_mem [OF that] unfolding run_inv_def by fastforce
    from values_of_outcomes [OF this] c len show ?thesis by simp
  qed
  moreover have "\<exists>t. pool_run f limit n s t \<and> pool_measure n t < pool_measure n s" if none: "pool_result s = None"
  proof (cases "pool_loop limit n s = s")
    case False
    then show ?thesis using loop_decreases [OF pinv(1,2) False] run_loop by blast
  next
    case True
    have "active_runs s \<noteq> 0"
      using loop_stuck [OF pinv(1,2) True] none assms(1)
      by (auto simp: pool_result_def pool_complete_def split: if_splits)
    then obtain k where "k < length (pl_runs s)" "pl_runs s ! k = Running"
      by (auto simp: active_runs_def filter_empty_conv in_set_conv_nth)
    from finish_decreases [OF this] run_finish show ?thesis by blast
  qed
  ultimately show ?thesis by blast
qed

theorem pool_answers_in_order_witness:
  "pool_result ((pool_loop 2 0) pool_init :: nat pool) = Some []
   \<and> (\<exists>t. pool_run Some 2 3 (pool_init :: nat pool) t \<and> pool_measure 3 t < pool_measure 3 (pool_init :: nat pool))"
proof -
  have two: "0 < (2::nat)" by simp
  have none: "pool_result (pool_init :: nat pool) = None"
    by (simp add: pool_result_def pool_complete_def pool_init_def)
  have some: "pool_result ((pool_loop 2 0) pool_init :: nat pool) = Some []" by code_simp
  from pool_answers_in_order [OF two rtranclp.rtrancl_refl, of Some 3] none some show ?thesis by blast
qed

end
