(* ===== verification/CloudNode.thy ===== *)
theory CloudNode
  imports Profile Complex_Main
begin

text \<open>
  The vocabulary of the cloud module: \<open>CloudNode\<close> and \<open>ConnectivityResult\<close> of \<open>types/cloud.d.ts\<close>,
  \<open>ManagedCloudNode\<close> of \<open>stores/cloud/types.ts\<close>, the constants of \<open>stores/cloud/constants.ts\<close> and the
  pure helpers of \<open>stores/cloud/helpers.ts\<close>.
\<close>

subsection \<open>Types\<close>

datatype node_status = NsUnknown | NsPending | NsApplying | NsConnected | NsError

datatype conn_status = CsReachable | CsIcmpBlocked | CsBlocked | CsTesting | CsUnknown

datatype protocol = Shadowsocks | Hysteria2 | Vless | Trojan

datatype health_state = Healthy | Degraded

datatype health_reason = UdpUnreachable | TcpUnreachable | ManualOverride

record health_entry =
  he_state :: health_state
  he_reason :: health_reason
  he_updatedAt :: int

type_synonym protocol_health = "(protocol \<times> health_entry) list"
type_synonym health_map = "protocol_health dict"

record conn_result =
  cr_status :: conn_status
  cr_targetStatus :: "string dict option"
  cr_portsOpen :: "bool dict option"

record node =
  cn_instanceId :: string
  cn_replacedInstanceId :: "string option"
  cn_lastDeployWarning :: "string option"
  cn_provider :: "string option"
  cn_label :: string
  cn_status :: "string option"
  cn_region :: "string option"
  cn_plan :: "string option"
  cn_ipv4 :: "string option"
  cn_ipv6 :: "string option"
  cn_port :: "int option"
  cn_password :: "string option"
  cn_createdAt :: "string option"
  cn_ssPort :: "int option"
  cn_ssPassword :: "string option"
  cn_hysteriaPort :: "int option"
  cn_hysteriaPassword :: "string option"
  cn_hysteriaServerName :: "string option"
  cn_hysteriaInsecure :: "bool option"
  cn_vlessPort :: "int option"
  cn_vlessUUID :: "string option"
  cn_vlessPublicKey :: "string option"
  cn_vlessShortId :: "string option"
  cn_vlessServerName :: "string option"
  cn_trojanPort :: "int option"
  cn_trojanPassword :: "string option"
  cn_trojanServerName :: "string option"
  cn_trojanInsecure :: "bool option"
  cn_vlessRelayPort :: "int option"
  cn_statusText :: "node_status option"
  cn_connectivityStatus :: "conn_status option"
  cn_connectivityTesting :: "bool option"
  cn_lastConnectivityResult :: "conn_result option"
  cn_speedMs :: "rat option"
  cn_speedMbps :: "rat option"
  cn_speedError :: "string option"
  cn_speedTesting :: "bool option"

text \<open>A node of which only the id and the label are known.\<close>

definition bare_node :: "string \<Rightarrow> string \<Rightarrow> node" where
  "bare_node i l =
     \<lparr>cn_instanceId = i, cn_replacedInstanceId = None, cn_lastDeployWarning = None,
      cn_provider = None, cn_label = l, cn_status = None, cn_region = None, cn_plan = None,
      cn_ipv4 = None, cn_ipv6 = None, cn_port = None, cn_password = None, cn_createdAt = None,
      cn_ssPort = None, cn_ssPassword = None, cn_hysteriaPort = None, cn_hysteriaPassword = None,
      cn_hysteriaServerName = None, cn_hysteriaInsecure = None, cn_vlessPort = None,
      cn_vlessUUID = None, cn_vlessPublicKey = None, cn_vlessShortId = None,
      cn_vlessServerName = None, cn_trojanPort = None, cn_trojanPassword = None,
      cn_trojanServerName = None, cn_trojanInsecure = None, cn_vlessRelayPort = None,
      cn_statusText = None, cn_connectivityStatus = None, cn_connectivityTesting = None,
      cn_lastConnectivityResult = None, cn_speedMs = None, cn_speedMbps = None,
      cn_speedError = None, cn_speedTesting = None\<rparr>"

subsection \<open>Constants\<close>

definition cloud_prefix :: string where "cloud_prefix = ''cloud-''"
definition smart_node_prefix :: string where "smart_node_prefix = ''outbound-smart-node-''"

definition smart_auto :: string where "smart_auto = ''outbound-smart-auto''"
definition smart_tcp_primary :: string where "smart_tcp_primary = ''outbound-smart-tcp-primary''"
definition smart_tcp_secondary :: string where "smart_tcp_secondary = ''outbound-smart-tcp-secondary''"
definition smart_udp_auto :: string where "smart_udp_auto = ''outbound-smart-udp-auto''"
definition smart_hysteria_auto :: string where "smart_hysteria_auto = ''outbound-smart-hysteria-auto''"

definition smart_outbound_ids :: "string list" where
  "smart_outbound_ids =
     [smart_auto, smart_tcp_primary, smart_tcp_secondary, smart_udp_auto, smart_hysteria_auto]"

definition rule_tcp443 :: string where "rule_tcp443 = ''rule-smart-tcp-443-route''"
definition rule_tcp_web :: string where "rule_tcp_web = ''rule-smart-tcp-web-route''"
definition rule_udp :: string where "rule_udp = ''rule-smart-udp-route''"

definition smart_rule_ids :: "string list" where
  "smart_rule_ids = [rule_tcp443, rule_tcp_web, rule_udp]"

definition legacy_outbound_ids :: "string list" where
  "legacy_outbound_ids =
     [''cloud-smart-tcp-auto'', ''cloud-smart-udp-auto'', ''cloud-smart-hysteria-auto'',
      ''outbound-smart-tcp-primary'', ''outbound-smart-tcp-secondary'']"

definition legacy_rule_ids :: "string list" where
  "legacy_rule_ids =
     [''cloud-smart-udp-route'', ''rule-smart-tcp-443-route'', ''rule-smart-tcp-web-route'']"

definition tag_suffix_pattern :: string where
  "tag_suffix_pattern = ''(?:-(?:v4|v6|ipv4|ipv6))?$''"

fun protocol_tag_pattern :: "protocol \<Rightarrow> string" where
  "protocol_tag_pattern Shadowsocks = ''-(?:ss|shadowsocks)'' @ tag_suffix_pattern"
| "protocol_tag_pattern Hysteria2 = ''-(?:hysteria2?|hy2)'' @ tag_suffix_pattern"
| "protocol_tag_pattern Vless = ''-(?:vless)'' @ tag_suffix_pattern"
| "protocol_tag_pattern Trojan = ''-(?:trojan)'' @ tag_suffix_pattern"

definition include_node_best :: string where
  "include_node_best = ''-(?:ss|shadowsocks|hysteria2?|hy2|vless|trojan)'' @ tag_suffix_pattern"
definition include_udp :: string where "include_udp = protocol_tag_pattern Shadowsocks"
definition include_hysteria :: string where "include_hysteria = protocol_tag_pattern Hysteria2"

fun protocol_exclude_pattern :: "protocol \<Rightarrow> string" where
  "protocol_exclude_pattern p = protocol_tag_pattern p"

definition default_hysteria_server_name :: string where
  "default_hysteria_server_name = ''www.bing.com''"
definition default_vless_server_name :: string where
  "default_vless_server_name = ''www.microsoft.com''"
definition default_trojan_server_name :: string where
  "default_trojan_server_name = ''www.microsoft.com''"

definition probe_url_primary :: string where "probe_url_primary = default_test_url"
definition probe_url_secondary :: string where
  "probe_url_secondary = ''https://www.cloudflare.com/cdn-cgi/trace''"

text \<open>Life times in milliseconds, and the bounds of the node history.\<close>

definition ttl_regions :: int where "ttl_regions = 30 * 60 * 1000"
definition ttl_plans :: int where "ttl_plans = 30 * 60 * 1000"
definition ttl_instances :: int where "ttl_instances = 2 * 60 * 1000"
definition ttl_instances_background :: int where "ttl_instances_background = 5 * 60 * 1000"
definition ttl_latency :: int where "ttl_latency = 24 * 60 * 60 * 1000"

definition history_retention_ms :: int where "history_retention_ms = 7 * 24 * 60 * 60 * 1000"
definition history_max_samples :: nat where "history_max_samples = 512"

subsection \<open>Helpers: JSON files\<close>

text \<open>\<open>parseJSON\<close>: missing, empty or malformed text (\<open>parse\<close> answers \<^const>\<open>None\<close>) gives the fallback.\<close>

definition parse_json :: "(string \<Rightarrow> 'a option) \<Rightarrow> string option \<Rightarrow> 'a \<Rightarrow> 'a" where
  "parse_json parse data fallback = (case data of
      None \<Rightarrow> fallback
    | Some s \<Rightarrow> if s = '''' then fallback else or_else (parse s) fallback)"

subsection \<open>Helpers: identifiers\<close>

definition subscription_id :: "string \<Rightarrow> string" where
  "subscription_id instance_id =
     (if starts_with instance_id ''cloud-'' then instance_id else ''cloud-'' @ instance_id)"

definition subscription_path :: "string \<Rightarrow> string" where
  "subscription_path instance_id = ''data/subscribes/'' @ subscription_id instance_id @ ''.json''"

definition cloud_instance_id_from_subscription_ref :: "string \<Rightarrow> string" where
  "cloud_instance_id_from_subscription_ref i =
     (if starts_with i ''cloud-do-'' then i
      else if starts_with i cloud_prefix then drop (length cloud_prefix) i
      else i)"

definition node_smart_outbound_id :: "string \<Rightarrow> string" where
  "node_smart_outbound_id instance_id =
     smart_node_prefix @ ''auto-'' @ subscription_id instance_id"

definition is_managed_outbound_id :: "string \<Rightarrow> bool" where
  "is_managed_outbound_id i \<longleftrightarrow>
     i \<in> set smart_outbound_ids \<or> i \<in> set legacy_outbound_ids \<or> starts_with i smart_node_prefix"

subsection \<open>Helpers: protocol health\<close>

definition join_regex_alternatives :: "string option list \<Rightarrow> string" where
  "join_regex_alternatives patterns =
     js_join ''|'' (map (\<lambda>p. ''(?:'' @ p @ '')'')
       (filter (\<lambda>p. p \<noteq> '''') (map js_trim (List.map_filter (\<lambda>p. p) patterns))))"

definition derive_managed_exclude :: "protocol_health option \<Rightarrow> string" where
  "derive_managed_exclude entry = (case entry of
      None \<Rightarrow> ''''
    | Some e \<Rightarrow> join_regex_alternatives
        (map (\<lambda>(pr, _). Some (protocol_exclude_pattern pr))
          (filter (\<lambda>(_, v). he_state v = Degraded) e)))"

subsection \<open>Helpers: TLS, ports, addresses\<close>

text \<open>A value that is not a string is \<^const>\<open>None\<close>.\<close>

definition normalize_server_name :: "string option \<Rightarrow> string \<Rightarrow> string" where
  "normalize_server_name v fallback = (case v of
      None \<Rightarrow> fallback
    | Some s \<Rightarrow> str_or (js_trim s) fallback)"

definition resolve_tls_insecure :: "bool option \<Rightarrow> bool" where
  "resolve_tls_insecure flag = (case flag of Some b \<Rightarrow> b | None \<Rightarrow> False)"

definition is_reachable_target_status :: "string option \<Rightarrow> bool" where
  "is_reachable_target_status st \<longleftrightarrow> st = Some ''open'' \<or> st = Some ''open_or_filtered''"

definition add_unique_port :: "int list \<Rightarrow> int option \<Rightarrow> int list" where
  "add_unique_port target port = (case port of
      None \<Rightarrow> target
    | Some p \<Rightarrow> if p \<le> 0 then target else add_new p target)"

text \<open>Comparisons with \<open>NaN\<close> (\<^const>\<open>None\<close>) are false.\<close>

definition num_eq :: "int option \<Rightarrow> int \<Rightarrow> bool" where
  "num_eq x n \<longleftrightarrow> x = Some n"

definition num_between :: "int \<Rightarrow> int option \<Rightarrow> int \<Rightarrow> bool" where
  "num_between lo x hi = (case x of None \<Rightarrow> False | Some n \<Rightarrow> lo \<le> n \<and> n \<le> hi)"

definition is_public_ipv4 :: "string option \<Rightarrow> bool" where
  "is_public_ipv4 ip = (case ip of
      None \<Rightarrow> False
    | Some s \<Rightarrow>
        if s = '''' then False
        else let octets = js_split CHR ''.'' s in
          if length octets \<noteq> 4 then False
          else let first = parse_int (octets ! 0); second = parse_int (octets ! 1) in
            if num_eq first 100 \<and> num_between 64 second 127 then False
            else if num_eq first 10 then False
            else if num_eq first 192 \<and> num_eq second 168 then False
            else if num_eq first 172 \<and> num_between 16 second 31 then False
            else if s = ''0.0.0.0'' then False
            else True)"

definition has_usable_address :: "node \<Rightarrow> bool" where
  "has_usable_address n \<longleftrightarrow>
     (is_public_ipv4 (cn_ipv4 n) \<or> truthy_s (cn_ipv6 n) \<and> cn_ipv6 n \<noteq> Some ''::'')
     \<and> cn_instanceId n \<noteq> ''''"

subsection \<open>Helpers: provider responses\<close>

text \<open>
  A raw node is the typed part together with the untyped aliases that some providers answer with
  (\<open>InstanceID\<close>, \<open>replaced_instance_id\<close> and the like), and a creation time that is not a string, for
  which the text of \<open>toISOString()\<close> (or of \<open>String\<close>, for an invalid date) is given.
\<close>

record raw_node =
  rw_node :: node
  rw_alias :: "string dict"
  rw_createdAt :: "string option"

definition first_alias :: "string dict \<Rightarrow> string list \<Rightarrow> string" where
  "first_alias d ks = foldr (\<lambda>k r. opt_or (map_of d k) r) ks ''''"

definition normalize_cloud_node :: "raw_node \<Rightarrow> string \<Rightarrow> node" where
  "normalize_cloud_node raw provider_fallback =
     (let n = rw_node raw; al = rw_alias raw;
          iid = str_or (cn_instanceId n) (first_alias al [''InstanceID'', ''id'', ''ID'']);
          repl = opt_or (cn_replacedInstanceId n)
            (first_alias al [''replacedInstanceID'', ''ReplacedInstanceID'', ''replaced_instance_id'']);
          warn = opt_or (cn_lastDeployWarning n)
            (first_alias al [''LastDeployWarning'', ''last_deploy_warning'']);
          lbl = str_or (cn_label n) (str_or (first_alias al [''name'', ''Label'']) iid);
          prov = opt_or (cn_provider n) provider_fallback;
          created = (case rw_createdAt raw of Some t \<Rightarrow> Some t | None \<Rightarrow> cn_createdAt n)
      in n\<lparr>cn_instanceId := iid, cn_replacedInstanceId := Some repl,
           cn_lastDeployWarning := Some warn, cn_label := lbl, cn_provider := Some prov,
           cn_createdAt := created\<rparr>)"

definition provider_status_to_node_status :: "string option \<Rightarrow> node_status" where
  "provider_status_to_node_status st = (case st of
      None \<Rightarrow> NsUnknown
    | Some s \<Rightarrow>
        if s = '''' then NsUnknown
        else let n = js_lower s in
          if n \<in> set [''active'', ''running'', ''ok'', ''online'', ''started''] then NsConnected
          else if n \<in> set [''pending'', ''installing'', ''starting'', ''booting'', ''provisioning'']
            then NsPending
          else if n \<in> set [''applying'', ''deploying'', ''configuring''] then NsApplying
          else if n \<in> set [''failed'', ''error'', ''stopped'', ''poweroff'', ''locked'', ''blocked'']
            then NsError
          else NsUnknown)"


subsection \<open>Facts\<close>

lemma subscription_id_prefix [simp]: "starts_with (subscription_id i) ''cloud-''"
  by (simp add: subscription_id_def) (simp add: starts_with_def)

lemma subscription_id_idem [simp]: "subscription_id (subscription_id i) = subscription_id i"
  unfolding subscription_id_def [of "subscription_id i"] by simp

lemma drop_cloud: "starts_with i ''cloud-'' \<Longrightarrow> drop (length cloud_prefix) i \<noteq> i"
proof -
  assume "starts_with i ''cloud-''"
  then have "i \<noteq> []" by (auto simp: starts_with_def)
  then have "length (drop (length cloud_prefix) i) < length i" by (simp add: cloud_prefix_def)
  then show ?thesis by fastforce
qed

lemma starts_with_cloud_do: "starts_with i ''cloud-do-'' \<Longrightarrow> starts_with i ''cloud-''"
proof -
  have "starts_with ''cloud-do-'' ''cloud-''" by (simp add: starts_with_def)
  then show "starts_with i ''cloud-do-'' \<Longrightarrow> ?thesis" using starts_with_trans by blast
qed

text \<open>
  When the way back is the inverse: \<open>cloudInstanceIdFromSubscriptionRef\<close> recovers the instance id
  from its subscription id exactly for the DigitalOcean ids and for the ids that carry neither prefix.
  An id that already starts with \<open>cloud-\<close> (every manual node has one) comes back shortened.
\<close>

theorem subscription_ref_roundtrip:
  "cloud_instance_id_from_subscription_ref (subscription_id i) = i \<longleftrightarrow>
     starts_with i ''cloud-do-'' \<or> \<not> starts_with i ''cloud-'' \<and> \<not> starts_with i ''do-''"
proof (cases "starts_with i ''cloud-''")
  case True
  then show ?thesis
    using drop_cloud [OF True]
    by (simp only: cloud_instance_id_from_subscription_ref_def subscription_id_def cloud_prefix_def) auto
next
  case False
  then have no_do: "\<not> starts_with i ''cloud-do-''"
    using starts_with_cloud_do by blast
  have sub: "subscription_id i = ''cloud-'' @ i"
    using False by (simp only: subscription_id_def if_False)
  have "starts_with (''cloud-'' @ i) ''cloud-do-'' \<longleftrightarrow> starts_with i ''do-''"
    using starts_with_append_same [of "''cloud-''" i "''do-''"] by simp
  moreover have "starts_with (''cloud-'' @ i) ''cloud-''" by (rule starts_with_append)
  moreover have "drop (length ''cloud-'') (''cloud-'' @ i) = i" by simp
  moreover have "''cloud-'' @ i \<noteq> i" by simp
  ultimately show ?thesis
    using False no_do
    unfolding cloud_instance_id_from_subscription_ref_def sub cloud_prefix_def by (simp only: if_True if_False split: if_splits) metis
qed

text \<open>The dotted form of four numbers.\<close>

definition dotted :: "nat \<Rightarrow> nat \<Rightarrow> nat \<Rightarrow> nat \<Rightarrow> string" where
  "dotted a b c d = js_join ''.'' [nat_text a, nat_text b, nat_text c, nat_text d]"

lemma split_dotted: "js_split CHR ''.'' (dotted a b c d) = [nat_text a, nat_text b, nat_text c, nat_text d]"
proof -
  have dot: "CHR ''.'' \<notin> set (nat_text n)" for n
    using nat_text_digits digit_not_sign by blast
  show ?thesis
    by (simp add: dotted_def js_split_concat_sep [OF dot] js_split_no_occurrence [OF dot])
qed

lemma nat_text_inj [simp]: "nat_text m = nat_text n \<longleftrightarrow> m = n"
  using digits_value_nat_text [of m] digits_value_nat_text [of n] by (metis of_nat_eq_iff)

lemma nat_text_0: "nat_text 0 = ''0''"
  by (subst nat_text.simps) (simp add: char_of_def bit_iff_odd)

lemma dotted_inj: "dotted a b c d = dotted a' b' c' d' \<longleftrightarrow> a = a' \<and> b = b' \<and> c = c' \<and> d = d'"
  using split_dotted [of a b c d] split_dotted [of a' b' c' d']
  by (metis list.inject nat_text_inj)

text \<open>
  What counts as a public address: a dotted quad is accepted exactly when it lies outside
  10.0.0.0/8, 172.16.0.0/12, 192.168.0.0/16 and 100.64.0.0/10 and is not 0.0.0.0. In particular the
  loopback and link-local ranges, and octets above 255, are accepted.
\<close>

theorem public_ipv4_ranges:
  "is_public_ipv4 (Some (dotted a b c d)) \<longleftrightarrow>
     \<not> (a = 10 \<or> a = 172 \<and> 16 \<le> b \<and> b \<le> 31 \<or> a = 192 \<and> b = 168 \<or> a = 100 \<and> 64 \<le> b \<and> b \<le> 127
        \<or> a = 0 \<and> b = 0 \<and> c = 0 \<and> d = 0)"
proof -
  have zero: "dotted a b c d = ''0.0.0.0'' \<longleftrightarrow> a = 0 \<and> b = 0 \<and> c = 0 \<and> d = 0"
    using dotted_inj [of a b c d 0 0 0 0] by (simp add: dotted_def nat_text_0)
  have ne: "dotted a b c d \<noteq> ''''" by (simp add: dotted_def)
  show ?thesis
    by (simp add: is_public_ipv4_def Let_def split_dotted ne zero num_eq_def num_between_def)
qed

end
