(* ===== verification/KernelStart.thy ===== *)
theory KernelStart
  imports Interfaces CloudNode
begin

text \<open>
  Starting the core: \<open>stores/kernelApiRuntime.ts\<close> (moving the listening ports of a profile, removing cloud
  subscriptions whose file is gone) and \<open>stores/kernelApiStartRunner.ts\<close> (up to five attempts, each of
  which must repair something before the next one).
\<close>

subsection \<open>Ports\<close>

text \<open>The ports in use and the number of the next answer of \<open>GetAvailablePort\<close>, whose answers are the
  sequence \<open>avail\<close>.\<close>

record port_state =
  po_used :: "int list"
  po_next :: nat

definition collect_port :: "int option \<Rightarrow> int list \<Rightarrow> int list" where
  "collect_port v used = (case v of None \<Rightarrow> used | Some p \<Rightarrow> if p > 0 then add_new p used else used)"

definition inbound_port :: "inbound \<Rightarrow> int option" where
  "inbound_port ib = map_option (\<lambda>b. ls_port (lb_listen b)) (in_block ib)"

definition initial_used_ports :: "inbound list \<Rightarrow> int list" where
  "initial_used_ports ibs = fold (\<lambda>ib. collect_port (inbound_port ib)) ibs []"

text \<open>\<open>allocatePort\<close>: ten tries, then whatever comes.\<close>

fun allocate_tries :: "(nat \<Rightarrow> int) \<Rightarrow> nat \<Rightarrow> port_state \<Rightarrow> int \<times> port_state" where
  "allocate_tries avail 0 st =
     (avail (po_next st), st\<lparr>po_used := add_new (avail (po_next st)) (po_used st), po_next := Suc (po_next st)\<rparr>)"
| "allocate_tries avail (Suc n) st =
     (let port = avail (po_next st); st' = st\<lparr>po_next := Suc (po_next st)\<rparr>
      in if port \<notin> set (po_used st) then (port, st'\<lparr>po_used := add_new port (po_used st)\<rparr>)
         else allocate_tries avail n st')"

definition allocate_port :: "(nat \<Rightarrow> int) \<Rightarrow> port_state \<Rightarrow> int \<times> port_state" where
  "allocate_port avail = allocate_tries avail 10"

definition type_block :: "inbound_type \<Rightarrow> inbound \<Rightarrow> listen_block option" where
  "type_block ty ib = in_block (ib\<lparr>in_type := ty\<rparr>)"

definition default_block :: "inbound_type \<Rightarrow> listen_block" where
  "default_block ty = (case ty of
      InHttp \<Rightarrow> default_inbound_http | InSocks \<Rightarrow> default_inbound_socks | _ \<Rightarrow> default_inbound_mixed)"

definition auto_inbound :: "inbound_type \<Rightarrow> inbound" where
  "auto_inbound ty =
     \<lparr>in_id = inbound_name ty @ ''-auto'', in_type = ty, in_tag = inbound_name ty @ ''-in'',
      in_enable = True,
      in_mixed = (if ty = InMixed then Some (default_block ty) else None),
      in_socks = (if ty = InSocks then Some (default_block ty) else None),
      in_http = (if ty = InHttp then Some (default_block ty) else None),
      in_tun = None\<rparr>"

definition ensure_inbound :: "inbound_type \<Rightarrow> inbound list \<Rightarrow> inbound list" where
  "ensure_inbound ty ibs =
     (if List.find (\<lambda>ib. in_type ib = ty) ibs = None then ibs @ [auto_inbound ty] else ibs)"

text \<open>Assignments to the block of the first inbound of a type, and to its \<open>enable\<close> flag.\<close>

definition fill_host :: "listen_block \<Rightarrow> listen_block" where
  "fill_host b = b\<lparr>lb_listen := (lb_listen b)\<lparr>ls_listen := str_or (ls_listen (lb_listen b)) ''127.0.0.1''\<rparr>\<rparr>"

definition set_port :: "int \<Rightarrow> listen_block \<Rightarrow> listen_block" where
  "set_port port b = b\<lparr>lb_listen := (lb_listen b)\<lparr>ls_port := port\<rparr>\<rparr>"

definition update_first :: "inbound_type \<Rightarrow> (listen_block \<Rightarrow> listen_block) \<Rightarrow> inbound list \<Rightarrow> inbound list" where
  "update_first ty f ibs =
     map_first (\<lambda>ib. in_type ib = ty) (\<lambda>ib. (in_block_update f ib)\<lparr>in_enable := True\<rparr>) ibs"

type_synonym port_changes = "int dict"

definition update_inbound_port ::
    "(nat \<Rightarrow> int) \<Rightarrow> inbound_type \<Rightarrow> inbound list \<times> port_state \<times> port_changes
       \<Rightarrow> inbound list \<times> port_state \<times> port_changes" where
  "update_inbound_port avail ty = (\<lambda>(ibs, st, changes).
     let ibs1 = ensure_inbound ty ibs
     in (case Option.bind (List.find (\<lambda>ib. in_type ib = ty) ibs1) in_block of
          None \<Rightarrow> (ibs1, st, changes)
        | Some b \<Rightarrow>
            let current = ls_port (lb_listen b)
            in if current > 0 \<and> current \<notin> set (po_used st)
               then (update_first ty fill_host ibs1, st\<lparr>po_used := add_new current (po_used st)\<rparr>, changes)
               else let (port, st') = allocate_port avail st
                 in (update_first ty (\<lambda>b. set_port port (fill_host b)) ibs1, st',
                     AList.update (inbound_name ty) port changes)))"

subsection \<open>The controller address\<close>

text \<open>Host and port text of \<open>external_controller\<close>; \<open>parse_url\<close> answers host name and port of a URL.\<close>

definition split_controller :: "(string \<Rightarrow> (string \<times> string) option) \<Rightarrow> string \<Rightarrow> string \<times> string" where
  "split_controller parse_url c =
     (if js_includes c ''://'' then
        (case parse_url c of
           None \<Rightarrow> (''127.0.0.1'', '''')
         | Some (host, port) \<Rightarrow> (str_or host ''127.0.0.1'', port))
      else if starts_with c ''['' then
        (case index_of CHR '']'' c of
           None \<Rightarrow> (''127.0.0.1'', '''')
         | Some k \<Rightarrow> (take (Suc k) c, drop (Suc k) c))
      else
        (case last_index_of CHR '':'' c of
           None \<Rightarrow> (c, '''')
         | Some k \<Rightarrow> (take k c, drop (Suc k) c)))"

definition reassign_controller ::
    "(string \<Rightarrow> (string \<times> string) option) \<Rightarrow> (nat \<Rightarrow> int) \<Rightarrow> string \<times> port_state \<times> port_changes
       \<Rightarrow> string \<times> port_state \<times> port_changes" where
  "reassign_controller parse_url avail = (\<lambda>(controller, st, changes).
     if controller = '''' then (controller, st, changes)
     else let (host, raw) = split_controller parse_url controller; existing = js_number raw
       in (case existing of
             Some p \<Rightarrow>
               if p > 0 \<and> p \<notin> set (po_used st)
               then (controller, st\<lparr>po_used := add_new p (po_used st)\<rparr>, changes)
               else let (port, st') = allocate_port avail (st\<lparr>po_used := collect_port existing (po_used st)\<rparr>)
                 in (str_or (js_trim host) ''127.0.0.1'' @ '':'' @ int_text port, st',
                     AList.update ''controller'' port changes)
           | None \<Rightarrow>
               let (port, st') = allocate_port avail st
               in (str_or (js_trim host) ''127.0.0.1'' @ '':'' @ int_text port, st',
                   AList.update ''controller'' port changes)))"

definition reassign_inbounds ::
    "(nat \<Rightarrow> int) \<Rightarrow> nat \<Rightarrow> inbound list \<Rightarrow> inbound list \<times> port_state \<times> port_changes" where
  "reassign_inbounds avail k ibs =
     update_inbound_port avail InSocks (update_inbound_port avail InHttp (update_inbound_port avail InMixed
       (ibs, \<lparr>po_used = initial_used_ports ibs, po_next = k\<rparr>, [])))"

text \<open>The changed profile, the changes, and the number of the next answer of the port source.\<close>

definition reassign_kernel_profile_ports ::
    "(string \<Rightarrow> (string \<times> string) option) \<Rightarrow> (nat \<Rightarrow> int) \<Rightarrow> nat \<Rightarrow> profile \<Rightarrow> profile \<times> port_changes \<times> nat" where
  "reassign_kernel_profile_ports parse_url avail k p =
     (let (ibs, st, ch) = reassign_inbounds avail k (pf_inbounds p);
          (ctl, st', ch') = reassign_controller parse_url avail (ex_external_controller (pf_experimental p), st, ch)
      in (p\<lparr>pf_inbounds := ibs, pf_experimental := (pf_experimental p)\<lparr>ex_external_controller := ctl\<rparr>\<rparr>,
          ch', po_next st'))"

subsection \<open>Cloud subscriptions without a file\<close>

definition add_cloud_id :: "string \<Rightarrow> string list \<Rightarrow> string list" where
  "add_cloud_id i ids = (if starts_with i ''cloud-'' then add_new i ids else ids)"

definition cloud_subscription_ids :: "outbound list \<Rightarrow> string list" where
  "cloud_subscription_ids obs =
     fold (\<lambda>ob ids. fold add_cloud_id (map px_id (ob_outbounds ob)) (add_cloud_id (ob_id ob) ids)) obs []"

text \<open>\<open>exists\<close> is \<open>FileExists\<close> of the subscription's file, with an error taken as absence. The result is
  the profile, the flag \<open>changed\<close> and the removed ids.\<close>

definition prune_missing_cloud_subscriptions ::
    "(string \<Rightarrow> bool) \<Rightarrow> profile \<Rightarrow> profile \<times> bool \<times> string list" where
  "prune_missing_cloud_subscriptions exists p =
     (let ids = cloud_subscription_ids (pf_outbounds p);
          removed = filter (\<lambda>i. \<not> exists (''data/subscribes/'' @ i @ ''.json'')) ids
      in if ids = [] then (p, False, [])
         else if removed = [] then (p, False, removed)
         else let kept = filter (\<lambda>ob. ob_id ob \<notin> set removed) (pf_outbounds p);
                  next = map (\<lambda>ob. ob\<lparr>ob_outbounds := filter (\<lambda>c. px_id c \<notin> set removed) (ob_outbounds ob)\<rparr>) kept;
                  changed = (list_ex (\<lambda>ob. ob_id ob \<in> set removed) (pf_outbounds p)
                    \<or> list_ex (\<lambda>ob. length (filter (\<lambda>c. px_id c \<notin> set removed) (ob_outbounds ob))
                                      \<noteq> length (ob_outbounds ob)) kept)
           in (if changed then p\<lparr>pf_outbounds := next\<rparr> else p, changed, removed))"

subsection \<open>Attempts\<close>

datatype repair = CacheReset | PortsReassigned port_changes | Pruned "string list"

text \<open>
  What one start does is the argument \<open>start\<close>: for the number of the attempt and the profile it answers
  the error of \<open>writeConfig\<close>, \<open>runCoreProcess\<close> or \<open>onCoreStarted\<close>, or the process id. The result lists the
  repairs that were made, one before every further attempt.
\<close>

record start_result =
  sr_outcome :: "string + int option"
  sr_profile :: profile
  sr_attempts :: nat
  sr_repairs :: "repair list"

definition max_attempts :: nat where "max_attempts = 5"

definition backoff_delay :: "nat \<Rightarrow> nat" where
  "backoff_delay attempt = [0, 500, 1000, 2000, 3000] ! (attempt - 1)"

definition is_cache_error :: "string \<Rightarrow> bool" where
  "is_cache_error m \<longleftrightarrow> js_includes m ''initialize cache-file'' \<or> js_includes m ''cache-file''"

definition is_port_conflict :: "string \<Rightarrow> bool" where
  "is_port_conflict m \<longleftrightarrow>
     js_includes m ''address already in use'' \<or> js_includes m ''bind: address already in use''"

definition is_missing_subscription_file :: "string \<Rightarrow> bool" where
  "is_missing_subscription_file m \<longleftrightarrow>
     (js_includes m ''no such file or directory''
      \<or> js_includes m ''the system cannot find the file specified''
      \<or> js_includes m ''the system cannot find the path specified'')
     \<and> js_includes m ''data/subscribes/cloud-''"

record start_env =
  st_start :: "nat \<Rightarrow> profile \<Rightarrow> string + int option"
  st_parse_url :: "string \<Rightarrow> (string \<times> string) option"
  st_avail :: "nat \<Rightarrow> int"
  st_exists :: "string \<Rightarrow> bool"

text \<open>The repair an error calls for, with the profile and the position in the port source after it;
  \<^const>\<open>None\<close> when nothing could be repaired.\<close>

definition attempt_repair ::
    "start_env \<Rightarrow> nat \<Rightarrow> string \<Rightarrow> profile \<Rightarrow> (repair \<times> profile \<times> nat) option" where
  "attempt_repair env k err p =
     (let m = js_lower err;
          (p1, ports, k1) = reassign_kernel_profile_ports (st_parse_url env) (st_avail env) k p;
          tried = is_port_conflict m;
          p' = (if tried then p1 else p); k' = (if tried then k1 else k);
          (p2, changed, removed) = prune_missing_cloud_subscriptions (st_exists env) p'
      in if is_cache_error m then Some (CacheReset, p, k)
         else if tried \<and> ports \<noteq> [] then Some (PortsReassigned ports, p1, k1)
         else if is_missing_subscription_file m \<and> changed then Some (Pruned removed, p2, k')
         else None)"

fun attempt_loop ::
    "start_env \<Rightarrow> nat \<Rightarrow> nat \<Rightarrow> nat \<Rightarrow> repair list \<Rightarrow> profile \<Rightarrow> start_result" where
  "attempt_loop env 0 attempt k reps p =
     \<lparr>sr_outcome = Inl ''kernel-start-unreachable'', sr_profile = p, sr_attempts = attempt - 1, sr_repairs = reps\<rparr>"
| "attempt_loop env (Suc left) attempt k reps p =
     (case st_start env attempt p of
        Inr pid \<Rightarrow> \<lparr>sr_outcome = Inr pid, sr_profile = p, sr_attempts = attempt, sr_repairs = reps\<rparr>
      | Inl err \<Rightarrow>
          let fail = \<lparr>sr_outcome = Inl err, sr_profile = p, sr_attempts = attempt, sr_repairs = reps\<rparr>
          in if left = 0 then fail
             else (case attempt_repair env k err p of
                     None \<Rightarrow> fail
                   | Some (r, p', k') \<Rightarrow> attempt_loop env left (Suc attempt) k' (reps @ [r]) p'))"

definition run_kernel_start_attempts :: "start_env \<Rightarrow> profile \<Rightarrow> start_result" where
  "run_kernel_start_attempts env p = attempt_loop env max_attempts 1 0 [] p"

subsection \<open>Attempts are bounded and each follows a repair\<close>

lemma attempt_loop_facts:
  assumes "length reps = attempt - 1" "1 \<le> attempt" "attempt + left = 6" "1 \<le> left"
  shows "1 \<le> sr_attempts (attempt_loop env left attempt k reps p)
    \<and> sr_attempts (attempt_loop env left attempt k reps p) \<le> 5
    \<and> Suc (length (sr_repairs (attempt_loop env left attempt k reps p)))
        = sr_attempts (attempt_loop env left attempt k reps p)
    \<and> sr_outcome (attempt_loop env left attempt k reps p)
        = st_start env (sr_attempts (attempt_loop env left attempt k reps p))
            (sr_profile (attempt_loop env left attempt k reps p))"
  using assms
proof (induction left arbitrary: attempt k reps p)
  case 0
  then show ?case by simp
next
  case (Suc left)
  show ?case
  proof (cases "st_start env attempt p")
    case (Inr pid)
    with Suc.prems show ?thesis by simp
  next
    case (Inl err)
    show ?thesis
    proof (cases "left = 0 \<or> attempt_repair env k err p = None")
      case True
      with Inl Suc.prems show ?thesis by (auto simp: Let_def)
    next
      case False
      then obtain r p' k' where r: "attempt_repair env k err p = Some (r, p', k')" "left \<noteq> 0" by auto
      have "1 \<le> left" using r(2) by simp
      with Suc.IH [of "reps @ [r]" "Suc attempt" k' p'] Suc.prems Inl r show ?thesis by (simp add: Let_def)
    qed
  qed
qed


subsection \<open>New ports are fresh\<close>

lemma set_collect_port: "set used \<subseteq> set (collect_port v used)"
  by (auto simp: collect_port_def split: option.splits)

lemma distinct_snd_update:
  "distinct (map snd d) \<Longrightarrow> v \<notin> snd ` set d \<Longrightarrow> distinct (map snd (AList.update k v d))"
proof (induction d)
  case Nil
  then show ?case by simp
next
  case (Cons kv d)
  have "snd ` set (AList.update k v d) \<subseteq> insert v (snd ` set d)"
    by (induction d) auto
  with Cons show ?case by (cases kv) auto
qed

lemma snd_update_subset: "snd ` set (AList.update k v d) \<subseteq> insert v (snd ` set d)"
  by (induction d) auto

definition fresh_source :: "(nat \<Rightarrow> int) \<Rightarrow> int list \<Rightarrow> bool" where
  "fresh_source avail old \<longleftrightarrow> inj avail \<and> (\<forall>k. avail k \<notin> set old \<union> {20120, 20121, 20122})"

text \<open>What the reassignment keeps: every change is a port that was handed out, and every port in use or
  in a block is an old one, a default one, or was handed out.\<close>

definition known_ports :: "(nat \<Rightarrow> int) \<Rightarrow> int list \<Rightarrow> port_state \<Rightarrow> int set" where
  "known_ports avail old st = set old \<union> {20120, 20121, 20122} \<union> avail ` {..<po_next st}"

definition known_inbound :: "int set \<Rightarrow> inbound \<Rightarrow> bool" where
  "known_inbound ps ib \<longleftrightarrow> (\<forall>q. inbound_port ib = Some q \<longrightarrow> 0 < q \<longrightarrow> q \<in> ps)"

fun ports_inv :: "(nat \<Rightarrow> int) \<Rightarrow> int list \<Rightarrow> inbound list \<times> port_state \<times> port_changes \<Rightarrow> bool" where
  "ports_inv avail old (ibs, st, ch) \<longleftrightarrow> distinct (map snd ch)
     \<and> snd ` set ch \<subseteq> avail ` {..<po_next st} \<and> set (po_used st) \<subseteq> known_ports avail old st
     \<and> (\<forall>ib \<in> set ibs. known_inbound (known_ports avail old st) ib)"

lemma allocate_fresh:
  assumes "fresh_source avail old" "set (po_used st) \<subseteq> known_ports avail old st"
  shows "allocate_port avail st =
    (avail (po_next st), st\<lparr>po_used := po_used st @ [avail (po_next st)], po_next := Suc (po_next st)\<rparr>)"
proof -
  have "avail (po_next st) \<notin> avail ` {..<po_next st}"
    using assms(1) by (auto simp: fresh_source_def inj_def)
  then have new: "avail (po_next st) \<notin> set (po_used st)"
    using assms by (auto simp: known_ports_def fresh_source_def)
  have ten: "(10 :: nat) = Suc 9" by simp
  show ?thesis
    unfolding allocate_port_def ten using new
    by (subst allocate_tries.simps(2)) (simp add: add_new_def Let_def)
qed

lemma known_mono: "known_ports avail old st \<subseteq>
    known_ports avail old (st\<lparr>po_used := us, po_next := Suc (po_next st)\<rparr>)"
  by (auto simp: known_ports_def)

lemma known_used [simp]: "known_ports avail old (st\<lparr>po_used := us\<rparr>) = known_ports avail old st"
  by (simp add: known_ports_def)

lemma ports_inv_allocated:
  assumes "fresh_source avail old" "ports_inv avail old (ibs, st, ch)"
    and "\<forall>ib \<in> set ibs'. known_inbound (insert (avail (po_next st)) (known_ports avail old st)) ib"
  shows "ports_inv avail old (ibs', st\<lparr>po_used := po_used st @ [avail (po_next st)], po_next := Suc (po_next st)\<rparr>,
    AList.update key (avail (po_next st)) ch)"
proof -
  let ?st = "st\<lparr>po_used := po_used st @ [avail (po_next st)], po_next := Suc (po_next st)\<rparr>"
  have known: "known_ports avail old ?st = insert (avail (po_next st)) (known_ports avail old st)"
    by (auto simp: known_ports_def lessThan_Suc)
  have "avail (po_next st) \<notin> avail ` {..<po_next st}"
    using assms(1) by (auto simp: fresh_source_def inj_def)
  then have "avail (po_next st) \<notin> snd ` set ch" using assms(2) by auto
  moreover have "snd ` set (AList.update key (avail (po_next st)) ch) \<subseteq> avail ` {..<Suc (po_next st)}"
    using assms(2) snd_update_subset [of key "avail (po_next st)" ch] by (auto simp: lessThan_Suc)
  ultimately show ?thesis
    using assms(2,3) unfolding ports_inv.simps known by (auto simp: distinct_snd_update)
qed

lemma inbound_port_update:
  "inbound_port ((in_block_update f ib)\<lparr>in_enable := True\<rparr>)
     = map_option (\<lambda>b. ls_port (lb_listen (f b))) (in_block ib)"
proof -
  have "in_block ((in_block_update f ib)\<lparr>in_enable := True\<rparr>) = in_block (in_block_update f ib)"
    by (simp split: inbound_type.splits)
  then show ?thesis
    by (simp only: inbound_port_def in_block_in_block_update option.map_comp comp_def)
qed

lemma set_map_first_subset: "set (map_first p f xs) \<subseteq> set xs \<union> f ` {x \<in> set xs. p x}"
  by (induction xs) auto

lemma known_update_first:
  assumes "\<forall>ib \<in> set ibs. known_inbound ps ib"
    and "\<And>b. ls_port (lb_listen (f b)) = ls_port (lb_listen b) \<or> ls_port (lb_listen (f b)) \<in> ps'"
    and "ps \<subseteq> ps'"
  shows "\<forall>ib \<in> set (update_first ty f ibs). known_inbound ps' ib"
proof
  fix ib assume "ib \<in> set (update_first ty f ibs)"
  then consider "ib \<in> set ibs" | ib' where "ib' \<in> set ibs" "ib = (in_block_update f ib')\<lparr>in_enable := True\<rparr>"
    using set_map_first_subset unfolding update_first_def by fastforce
  then show "known_inbound ps' ib"
  proof cases
    case 1
    then show ?thesis using assms(1,3) by (auto simp: known_inbound_def)
  next
    case 2
    show ?thesis
      unfolding known_inbound_def 2(2) inbound_port_update
    proof (intro allI impI)
      fix q assume q: "map_option (\<lambda>b. ls_port (lb_listen (f b))) (in_block ib') = Some q" "0 < q"
      then obtain b where b: "in_block ib' = Some b" "q = ls_port (lb_listen (f b))" by auto
      then have "ls_port (lb_listen b) \<in> ps" if "0 < ls_port (lb_listen b)"
        using assms(1) 2(1) that by (auto simp: known_inbound_def inbound_port_def)
      with assms(2) [of b] assms(3) b q(2) show "q \<in> ps'" by auto
    qed
  qed
qed

lemma fill_host_port [simp]: "ls_port (lb_listen (fill_host b)) = ls_port (lb_listen b)"
  by (simp add: fill_host_def)

lemma set_port_port [simp]: "ls_port (lb_listen (set_port q b)) = q"
  by (simp add: set_port_def)

lemma known_ensure_inbound:
  assumes "\<forall>ib \<in> set ibs. known_inbound (known_ports avail old st) ib"
  shows "\<forall>ib \<in> set (ensure_inbound ty ibs). known_inbound (known_ports avail old st) ib"
proof -
  have "inbound_port (auto_inbound ty) \<in> {None, Some 20120, Some 20121, Some 20122}"
    by (cases ty) (simp_all add: inbound_port_def auto_inbound_def default_block_def default_listen_def
        default_inbound_mixed_def default_inbound_http_def default_inbound_socks_def)
  then have "known_inbound (known_ports avail old st) (auto_inbound ty)"
    by (auto simp: known_inbound_def known_ports_def)
  with assms show ?thesis by (auto simp: ensure_inbound_def)
qed

lemma ports_inv_update:
  assumes fresh: "fresh_source avail old" and inv: "ports_inv avail old (ibs, st, ch)"
  shows "ports_inv avail old (update_inbound_port avail ty (ibs, st, ch))"
proof -
  let ?ibs = "ensure_inbound ty ibs"
  have known: "\<forall>ib \<in> set ?ibs. known_inbound (known_ports avail old st) ib"
    using inv known_ensure_inbound by auto
  show ?thesis
  proof (cases "Option.bind (List.find (\<lambda>ib. in_type ib = ty) ?ibs) in_block")
    case None
    then show ?thesis using inv known by (simp add: update_inbound_port_def del: in_block.simps)
  next
    case (Some b)
    then obtain ib where ib: "ib \<in> set ?ibs" "in_block ib = Some b"
      by (auto simp: bind_eq_Some_conv simp del: in_block.simps dest: find_SomeD)
    let ?cur = "ls_port (lb_listen b)"
    show ?thesis
    proof (cases "?cur > 0 \<and> ?cur \<notin> set (po_used st)")
      case True
      have "?cur \<in> known_ports avail old st"
        using known ib True by (auto simp: known_inbound_def inbound_port_def simp del: in_block.simps)
      moreover have "\<forall>ib \<in> set (update_first ty fill_host ?ibs). known_inbound (known_ports avail old st) ib"
        by (rule known_update_first [OF known]) auto
      ultimately show ?thesis
        using Some True inv by (simp add: update_inbound_port_def del: in_block.simps)
    next
      case False
      have alloc: "allocate_port avail st = (avail (po_next st),
          st\<lparr>po_used := po_used st @ [avail (po_next st)], po_next := Suc (po_next st)\<rparr>)"
        using allocate_fresh [OF fresh] inv by auto
      have "\<forall>ib \<in> set (update_first ty (\<lambda>b. set_port (avail (po_next st)) (fill_host b)) ?ibs).
          known_inbound (insert (avail (po_next st)) (known_ports avail old st)) ib"
        by (rule known_update_first [OF known]) auto
      note res = ports_inv_allocated [OF fresh inv this]
      have "update_inbound_port avail ty (ibs, st, ch) =
          (update_first ty (\<lambda>b. set_port (avail (po_next st)) (fill_host b)) ?ibs,
           st\<lparr>po_used := po_used st @ [avail (po_next st)], po_next := Suc (po_next st)\<rparr>,
           AList.update (inbound_name ty) (avail (po_next st)) ch)"
        using Some False alloc by (auto simp: update_inbound_port_def Let_def simp del: in_block.simps)
      then show ?thesis by (simp only: res)
    qed
  qed
qed

lemma initial_used_subset:
  "set (fold (\<lambda>ib. collect_port (inbound_port ib)) ibs us) =
     set us \<union> {q. 0 < q \<and> (\<exists>ib \<in> set ibs. inbound_port ib = Some q)}"
  by (induction ibs arbitrary: us) (auto simp: collect_port_def split: option.splits)

lemma reassign_inbounds_inv:
  assumes "fresh_source avail (initial_used_ports ibs)"
  shows "ports_inv avail (initial_used_ports ibs) (reassign_inbounds avail k ibs)"
proof -
  have "ports_inv avail (initial_used_ports ibs) (ibs, \<lparr>po_used = initial_used_ports ibs, po_next = k\<rparr>, [])"
    by (auto simp: known_ports_def known_inbound_def initial_used_ports_def initial_used_subset)
  then show ?thesis
    unfolding reassign_inbounds_def by (metis assms ports_inv_update prod_cases3)
qed

lemma ports_inv_controller:
  assumes fresh: "fresh_source avail old" and inv: "ports_inv avail old (ibs, st, ch)"
    and r: "reassign_controller parse_url avail (ctl, st, ch) = (ctl', st', ch')"
  shows "distinct (map snd ch') \<and> snd ` set ch' \<subseteq> range avail"
proof -
  have used: "set (po_used st) \<subseteq> known_ports avail old st" using inv by simp
  note alloc = allocate_fresh [OF fresh used]
  have keep: "distinct (map snd ch) \<and> snd ` set ch \<subseteq> range avail" using inv by auto
  have "\<forall>ib \<in> set ibs. known_inbound (insert (avail (po_next st)) (known_ports avail old st)) ib"
    using inv by (auto simp: known_inbound_def)
  from ports_inv_allocated [OF fresh inv this, of "''controller''"]
  have moved: "distinct (map snd (AList.update ''controller'' (avail (po_next st)) ch))
      \<and> snd ` set (AList.update ''controller'' (avail (po_next st)) ch) \<subseteq> range avail" by auto
  obtain host raw where sc: "split_controller parse_url ctl = (host, raw)" by (metis surj_pair)
  consider (empty) "ctl = ''''" | (none) "ctl \<noteq> ''''" "js_number raw = None"
    | (kept) q where "ctl \<noteq> ''''" "js_number raw = Some q" "0 < q \<and> q \<notin> set (po_used st)"
    | (clash) q where "ctl \<noteq> ''''" "js_number raw = Some q" "\<not> (0 < q \<and> q \<notin> set (po_used st))"
    by blast
  then show ?thesis
  proof cases
    case empty
    with r have "ch' = ch" by (simp add: reassign_controller_def)
    with keep show ?thesis by simp
  next
    case none
    with r sc alloc have "ch' = AList.update ''controller'' (avail (po_next st)) ch"
      by (simp add: reassign_controller_def)
    with moved show ?thesis by simp
  next
    case kept
    with r sc have "ch' = ch" by (simp add: reassign_controller_def)
    with keep show ?thesis by simp
  next
    case clash
    then have "st\<lparr>po_used := collect_port (Some q) (po_used st)\<rparr> = st"
      by (auto simp: collect_port_def add_new_def)
    with clash r sc alloc have "ch' = AList.update ''controller'' (avail (po_next st)) ch"
      by (auto simp: reassign_controller_def)
    with moved show ?thesis by simp
  qed
qed

text \<open>
  After a port conflict the changed ports are really new: when the port source never repeats an answer
  and never answers a port that the profile already uses (nor one of the three default ports), the ports
  the profile is moved to are pairwise different and none of them was in use before.
\<close>

theorem reassigned_ports_are_new:
  assumes "fresh_source avail (initial_used_ports (pf_inbounds p))"
    and "reassign_kernel_profile_ports parse_url avail k p = (q, changes, k')"
  shows "distinct (map snd changes) \<and> set (map snd changes) \<inter> set (initial_used_ports (pf_inbounds p)) = {}"
proof -
  obtain ibs st ch where i: "reassign_inbounds avail k (pf_inbounds p) = (ibs, st, ch)" by (metis prod_cases3)
  obtain ctl st' ch' where c: "reassign_controller parse_url avail
      (ex_external_controller (pf_experimental p), st, ch) = (ctl, st', ch')" by (metis prod_cases3)
  have "changes = ch'" using assms(2) i c by (simp add: reassign_kernel_profile_ports_def)
  with ports_inv_controller [OF assms(1) _ c, of ibs] reassign_inbounds_inv [OF assms(1), of k] i
  have "distinct (map snd changes)" "snd ` set changes \<subseteq> range avail" by simp_all
  with assms(1) show ?thesis by (auto simp: fresh_source_def)
qed

text \<open>A profile with a mixed and a socks inbound on clashing ports, and a source that counts from 30000.\<close>

definition clash_profile :: profile where
  "clash_profile = (default_profile ''P'' ''demo'' '''' (\<lambda>s. s) nat_text)
     \<lparr>pf_inbounds := default_inbounds @ [auto_inbound InSocks]\<rparr>"

definition counting_source :: "nat \<Rightarrow> int" where
  "counting_source k = 30000 + int k"

lemma clash_ports:
  "fst (snd (reassign_kernel_profile_ports (\<lambda>_. None) counting_source 0 clash_profile))
     = [(''mixed'', 30000), (''socks'', 30001)]"
  by code_simp

theorem reassigned_ports_are_new_witness:
  "set (map snd (fst (snd (reassign_kernel_profile_ports (\<lambda>_. None) counting_source 0 clash_profile))))
     \<inter> set (initial_used_ports (pf_inbounds clash_profile)) = {}"
proof -
  let ?r = "reassign_kernel_profile_ports (\<lambda>_. None) counting_source 0 clash_profile"
  have "initial_used_ports (pf_inbounds clash_profile) = [20122, 20120]" by code_simp
  then have fresh: "fresh_source counting_source (initial_used_ports (pf_inbounds clash_profile))"
    by (auto simp: fresh_source_def counting_source_def inj_def)
  have "?r = (fst ?r, fst (snd ?r), snd (snd ?r))" by simp
  from reassigned_ports_are_new [OF fresh this] show ?thesis by blast
qed

subsection \<open>Pruning is complete\<close>

lemma fold_add_cloud: "set (fold add_cloud_id is ids) = set ids \<union> {i \<in> set is. starts_with i ''cloud-''}"
  by (induction "is" arbitrary: ids) (auto simp: add_cloud_id_def)

lemma set_cloud_subscription_ids:
  "set (cloud_subscription_ids obs) =
     {i. starts_with i ''cloud-'' \<and> (\<exists>ob \<in> set obs. i = ob_id ob \<or> i \<in> px_id ` set (ob_outbounds ob))}"
proof -
  have "set (fold (\<lambda>ob ids. fold add_cloud_id (map px_id (ob_outbounds ob)) (add_cloud_id (ob_id ob) ids)) obs ids)
      = set ids \<union> {i. starts_with i ''cloud-'' \<and> (\<exists>ob \<in> set obs. i = ob_id ob \<or> i \<in> px_id ` set (ob_outbounds ob))}"
    for ids
    by (induction obs arbitrary: ids) (auto simp: fold_add_cloud add_cloud_id_def)
  then show ?thesis by (simp add: cloud_subscription_ids_def)
qed

definition drop_children :: "string list \<Rightarrow> outbound \<Rightarrow> outbound" where
  "drop_children removed ob = ob\<lparr>ob_outbounds := filter (\<lambda>c. px_id c \<notin> set removed) (ob_outbounds ob)\<rparr>"

definition without_subscriptions :: "string list \<Rightarrow> outbound list \<Rightarrow> outbound list" where
  "without_subscriptions removed obs =
     map (drop_children removed) (filter (\<lambda>ob. ob_id ob \<notin> set removed) obs)"

lemma without_changed:
  "(list_ex (\<lambda>ob. ob_id ob \<in> set rs) obs
    \<or> list_ex (\<lambda>ob. length (filter (\<lambda>c. px_id c \<notin> set rs) (ob_outbounds ob)) \<noteq> length (ob_outbounds ob))
        (filter (\<lambda>ob. ob_id ob \<notin> set rs) obs))
   \<longleftrightarrow> without_subscriptions rs obs \<noteq> obs"
proof (induction obs)
  case Nil
  then show ?case by (simp add: without_subscriptions_def)
next
  case (Cons ob obs)
  have len: "length (without_subscriptions rs os) \<le> length os" for os
    by (simp add: without_subscriptions_def)
  have same: "drop_children rs ob = ob \<longleftrightarrow>
      length (filter (\<lambda>c. px_id c \<notin> set rs) (ob_outbounds ob)) = length (ob_outbounds ob)"
  proof
    assume "drop_children rs ob = ob"
    then have "ob_outbounds (drop_children rs ob) = ob_outbounds ob" by simp
    then show "length (filter (\<lambda>c. px_id c \<notin> set rs) (ob_outbounds ob)) = length (ob_outbounds ob)"
      by (simp add: drop_children_def)
  next
    assume "length (filter (\<lambda>c. px_id c \<notin> set rs) (ob_outbounds ob)) = length (ob_outbounds ob)"
    then have "filter (\<lambda>c. px_id c \<notin> set rs) (ob_outbounds ob) = ob_outbounds ob"
      by (metis filter_id_conv length_filter_less order_less_irrefl)
    then show "drop_children rs ob = ob" by (simp add: drop_children_def)
  qed
  show ?case
  proof (cases "ob_id ob \<in> set rs")
    case True
    then have "length (without_subscriptions rs (ob # obs)) < length (ob # obs)"
      by (simp add: without_subscriptions_def le_imp_less_Suc)
    with True show ?thesis by auto
  next
    case False
    then have "without_subscriptions rs (ob # obs) = drop_children rs ob # without_subscriptions rs obs"
      by (simp add: without_subscriptions_def)
    with False Cons same show ?thesis by auto
  qed
qed

lemma prune_cases:
  defines "gone exists p \<equiv> filter (\<lambda>i. \<not> exists (''data/subscribes/'' @ i @ ''.json''))
      (cloud_subscription_ids (pf_outbounds p))"
  shows "fst (prune_missing_cloud_subscriptions exists p)
      = p\<lparr>pf_outbounds := without_subscriptions (gone exists p) (pf_outbounds p)\<rparr>"
    "fst (snd (prune_missing_cloud_subscriptions exists p))
      \<longleftrightarrow> without_subscriptions (gone exists p) (pf_outbounds p) \<noteq> pf_outbounds p"
    "snd (snd (prune_missing_cloud_subscriptions exists p)) = gone exists p"
proof -
  have none: "without_subscriptions [] obs = obs" for obs
  proof -
    have "drop_children [] ob = ob" for ob by (simp add: drop_children_def)
    then show ?thesis by (simp add: without_subscriptions_def map_idI)
  qed
  have next_eq: "map (\<lambda>ob. ob\<lparr>ob_outbounds := filter (\<lambda>c. px_id c \<notin> set rs) (ob_outbounds ob)\<rparr>)
      (filter (\<lambda>ob. ob_id ob \<notin> set rs) obs) = without_subscriptions rs obs" for rs obs
    by (simp add: without_subscriptions_def drop_children_def)
  show "fst (prune_missing_cloud_subscriptions exists p)
      = p\<lparr>pf_outbounds := without_subscriptions (gone exists p) (pf_outbounds p)\<rparr>"
    "fst (snd (prune_missing_cloud_subscriptions exists p))
      \<longleftrightarrow> without_subscriptions (gone exists p) (pf_outbounds p) \<noteq> pf_outbounds p"
    "snd (snd (prune_missing_cloud_subscriptions exists p)) = gone exists p"
    unfolding prune_missing_cloud_subscriptions_def Let_def next_eq without_changed gone_def
    by (auto simp: none)
qed

lemma prune_missing_again:
  "prune_missing_cloud_subscriptions exists (fst (prune_missing_cloud_subscriptions exists p))
     = (fst (prune_missing_cloud_subscriptions exists p), False, [])"
  "list_all (\<lambda>i. exists (''data/subscribes/'' @ i @ ''.json''))
     (cloud_subscription_ids (pf_outbounds (fst (prune_missing_cloud_subscriptions exists p))))"
proof -
  let ?gone = "filter (\<lambda>i. \<not> exists (''data/subscribes/'' @ i @ ''.json'')) (cloud_subscription_ids (pf_outbounds p))"
  let ?q = "fst (prune_missing_cloud_subscriptions exists p)"
  have q: "?q = p\<lparr>pf_outbounds := without_subscriptions ?gone (pf_outbounds p)\<rparr>"
    by (rule prune_cases(1))
  have ids: "set (cloud_subscription_ids (pf_outbounds ?q)) \<subseteq> set (cloud_subscription_ids (pf_outbounds p)) - set ?gone"
    unfolding q by (auto simp: set_cloud_subscription_ids without_subscriptions_def drop_children_def)
  then show all: "list_all (\<lambda>i. exists (''data/subscribes/'' @ i @ ''.json'')) (cloud_subscription_ids (pf_outbounds ?q))"
    by (auto simp: list_all_iff)
  then have "filter (\<lambda>i. \<not> exists (''data/subscribes/'' @ i @ ''.json'')) (cloud_subscription_ids (pf_outbounds ?q)) = []"
    by (auto simp: list_all_iff filter_empty_conv)
  then show "prune_missing_cloud_subscriptions exists ?q = (?q, False, [])"
    by (simp add: prune_missing_cloud_subscriptions_def Let_def)
qed

interpretation missing_pruning: normalizer "\<lambda>p. fst (prune_missing_cloud_subscriptions exists p)"
  by unfold_locales (simp add: prune_missing_again)

text \<open>
  Removing missing cloud subscriptions is complete and reported: afterwards every cloud subscription
  that an outbound is or refers to has its file, the flag \<open>changed\<close> is raised exactly when the profile
  changed, and nothing is left for a second pass.
\<close>

theorem prune_missing_complete:
  "list_all (\<lambda>i. exists (''data/subscribes/'' @ i @ ''.json''))
     (cloud_subscription_ids (pf_outbounds (fst (prune_missing_cloud_subscriptions exists p))))
   \<and> (fst (snd (prune_missing_cloud_subscriptions exists p))
       \<longleftrightarrow> fst (prune_missing_cloud_subscriptions exists p) \<noteq> p)
   \<and> prune_missing_cloud_subscriptions exists (fst (prune_missing_cloud_subscriptions exists p))
       = (fst (prune_missing_cloud_subscriptions exists p), False, [])"
proof -
  have "p\<lparr>pf_outbounds := obs\<rparr> = p \<longleftrightarrow> obs = pf_outbounds p" for obs
    by (cases p) auto
  then show ?thesis
    using prune_missing_again [of exists p] prune_cases(1,2) [of exists p] by simp
qed

end
