(* ===== verification/KernelLifecycle.thy ===== *)
theory KernelLifecycle
  imports JsValues
begin

text \<open>
  \<open>stores/kernelApiLifecycle.ts\<close>: what the client believes about the core process, and how that belief
  follows starts, stops, exits and the periodic health check. The functions await several things; the
  steps below are the stretches between two points at which something else can happen. The promise
  \<open>coreStoppedPromise\<close>, which every start replaces, is a number, and \<open>kl_resolved\<close> lists the promises that
  have been resolved. The operating system is part of the state: the running processes by id, and the
  children of this instance whose exit callback is still to come.
\<close>

datatype kernel_event = EvRefresh | EvSetProxy | EvRestoreProxy | EvStarted | EvBeforeStop | EvStopped

record lifecycle =
  kl_pid :: int
  kl_running :: bool
  kl_stopping :: bool
  kl_restarting :: bool
  kl_loading :: bool
  kl_mine :: bool
  kl_promise :: nat
  kl_resolved :: "nat list"
  kl_wait :: "nat option"
  kl_file :: "int option"
  kl_sockets :: bool
  kl_events :: "kernel_event list"
  kl_procs :: "int \<rightharpoonup> string"
  kl_exits :: "int list"

definition kl_init :: lifecycle where
  "kl_init = \<lparr>kl_pid = -1, kl_running = False, kl_stopping = False, kl_restarting = False,
     kl_loading = False, kl_mine = False, kl_promise = 0, kl_resolved = [], kl_wait = None,
     kl_file = None, kl_sockets = False, kl_events = [], kl_procs = Map.empty, kl_exits = []\<rparr>"

subsection \<open>Callbacks\<close>

text \<open>\<open>onCoreStarted\<close> and \<open>onCoreStopped\<close>; \<open>auto_proxy\<close> is the setting \<open>autoSetSystemProxy\<close>.\<close>

definition on_core_started :: "bool \<Rightarrow> int \<Rightarrow> lifecycle \<Rightarrow> lifecycle" where
  "on_core_started auto_proxy pid s =
     s\<lparr>kl_file := Some pid, kl_pid := pid, kl_running := True, kl_mine := True,
       kl_promise := Suc (kl_promise s), kl_sockets := True,
       kl_events := kl_events s @ [EvRefresh] @ (if auto_proxy then [EvSetProxy] else []) @ [EvStarted]\<rparr>"

definition on_core_stopped :: "bool \<Rightarrow> lifecycle \<Rightarrow> lifecycle" where
  "on_core_stopped auto_proxy s =
     s\<lparr>kl_file := None, kl_pid := -1, kl_running := False,
       kl_resolved := kl_promise s # kl_resolved s, kl_sockets := False,
       kl_events := kl_events s @ (if auto_proxy then [EvRestoreProxy] else []) @ [EvStopped]\<rparr>"

subsection \<open>Starting and exiting\<close>

definition is_core :: "string option \<Rightarrow> bool" where
  "is_core name = (case name of None \<Rightarrow> False | Some n \<Rightarrow> starts_with n ''sing-box'')"

text \<open>A successful start: the child process, then the callback. \<open>startCore\<close> refuses a running core.\<close>

definition start_core :: "bool \<Rightarrow> int \<Rightarrow> lifecycle \<Rightarrow> lifecycle" where
  "start_core auto_proxy pid s =
     (if kl_running s then s
      else on_core_started auto_proxy pid (s\<lparr>kl_procs := (kl_procs s)(pid \<mapsto> ''sing-box'')\<rparr>))"

text \<open>A process ends; if it is the child of this instance, its exit callback is on its way.\<close>

definition process_ends :: "bool \<Rightarrow> int \<Rightarrow> lifecycle \<Rightarrow> lifecycle" where
  "process_ends child pid s =
     s\<lparr>kl_procs := (kl_procs s)(pid := None), kl_exits := (if child then [pid] else []) @ kl_exits s\<rparr>"

text \<open>The exit callback of \<open>runCoreProcess\<close>, which does not look at the process id.\<close>

definition exit_callback :: "bool \<Rightarrow> int \<Rightarrow> lifecycle \<Rightarrow> lifecycle" where
  "exit_callback auto_proxy pid s =
     (if pid \<in> set (kl_exits s) then on_core_stopped auto_proxy (s\<lparr>kl_exits := remove1 pid (kl_exits s)\<rparr>)
      else s)"

text \<open>A core started outside of this client, which leaves its process id in the file.\<close>

definition external_start :: "int \<Rightarrow> lifecycle \<Rightarrow> lifecycle" where
  "external_start pid s =
     s\<lparr>kl_file := Some pid, kl_procs := (kl_procs s)(pid \<mapsto> ''sing-box'')\<rparr>"

subsection \<open>Stopping\<close>

text \<open>
  \<open>stopCore\<close> up to the \<open>await\<close>: the process is killed (\<open>child\<close>: it is one of ours), and the promise to wait
  for is chosen. \<open>Inl\<close> is the exception for a core that is not running.
\<close>

definition stop_begin :: "bool \<Rightarrow> bool \<Rightarrow> lifecycle \<Rightarrow> string + lifecycle" where
  "stop_begin auto_proxy child s =
     (if \<not> kl_running s then Inl ''The core is not running''
      else let killed = process_ends child (kl_pid s)
                 (s\<lparr>kl_stopping := True, kl_events := kl_events s @ [EvBeforeStop]\<rparr>)
        in Inr (if kl_mine killed then killed\<lparr>kl_wait := Some (kl_promise killed)\<rparr>
                else (on_core_stopped auto_proxy killed)\<lparr>kl_stopping := False\<rparr>))"

text \<open>The rest of \<open>stopCore\<close>, once the awaited promise is resolved.\<close>

definition stop_end :: "lifecycle \<Rightarrow> lifecycle" where
  "stop_end s = (case kl_wait s of
      None \<Rightarrow> s
    | Some n \<Rightarrow> if n \<in> set (kl_resolved s) then s\<lparr>kl_wait := None, kl_stopping := False\<rparr> else s)"

subsection \<open>Observing\<close>

definition disk_pid :: "lifecycle \<Rightarrow> int" where
  "disk_pid s = or_else (kl_file s) (-1)"

definition observed_running :: "lifecycle \<Rightarrow> bool" where
  "observed_running s \<longleftrightarrow> disk_pid s \<noteq> -1 \<and> is_core (kl_procs s (disk_pid s))"

text \<open>\<open>checkCoreHealth\<close>, without the restart of a lost core, which is a step of its own.\<close>

definition check_core_health :: "bool \<Rightarrow> lifecycle \<Rightarrow> lifecycle" where
  "check_core_health auto_proxy s =
     (if kl_loading s \<or> kl_stopping s \<or> kl_restarting s then s
      else if kl_running s = observed_running s \<and> kl_pid s = disk_pid s then s
      else if kl_running s \<and> \<not> observed_running s then on_core_stopped auto_proxy s
      else if \<not> kl_running s \<and> observed_running s
        then s\<lparr>kl_pid := disk_pid s, kl_running := True, kl_sockets := True,
               kl_events := kl_events s @ [EvRefresh]\<rparr>
      else if kl_running s \<and> observed_running s \<and> kl_pid s \<noteq> disk_pid s
        then s\<lparr>kl_pid := disk_pid s, kl_sockets := True, kl_events := kl_events s @ [EvRefresh]\<rparr>
      else s)"

text \<open>\<open>updateCoreState\<close> at the start of the application, up to the automatic start.\<close>

definition update_core_state :: "bool \<Rightarrow> lifecycle \<Rightarrow> lifecycle" where
  "update_core_state auto_proxy s =
     (let s' = s\<lparr>kl_pid := disk_pid s, kl_running := observed_running s, kl_loading := False\<rparr>
      in if kl_running s' then s'\<lparr>kl_sockets := True, kl_events := kl_events s' @ [EvRefresh]\<rparr>
         else s'\<lparr>kl_events := kl_events s' @ [EvRestoreProxy]\<rparr>)"

subsection \<open>Runs\<close>

text \<open>Runs in which the client is alone with its own children.\<close>

inductive own_step :: "bool \<Rightarrow> lifecycle \<Rightarrow> lifecycle \<Rightarrow> bool" for ap where
  own_start: "0 < pid \<Longrightarrow> kl_procs s pid = None \<Longrightarrow> pid \<notin> set (kl_exits s) \<Longrightarrow> own_step ap s (start_core ap pid s)"
| own_crash: "kl_running s \<Longrightarrow> kl_procs s (kl_pid s) \<noteq> None \<Longrightarrow> own_step ap s (process_ends True (kl_pid s) s)"
| own_exit: "own_step ap s (exit_callback ap pid s)"
| own_stop: "kl_wait s = None \<Longrightarrow> kl_procs s (kl_pid s) \<noteq> None \<Longrightarrow> stop_begin ap True s = Inr t \<Longrightarrow> own_step ap s t"
| own_stopped: "own_step ap s (stop_end s)"

inductive_cases own_stepE: "own_step ap s t"

text \<open>All runs: also cores of other programs, and the health check at any time.\<close>

inductive kl_step :: "bool \<Rightarrow> lifecycle \<Rightarrow> lifecycle \<Rightarrow> bool" for ap where
  step_own: "own_step ap s t \<Longrightarrow> kl_step ap s t"
| step_external: "kl_procs s pid = None \<Longrightarrow> kl_step ap s (external_start pid s)"
| step_external_stop: "kl_running s \<Longrightarrow> stop_begin ap False s = Inr t \<Longrightarrow> kl_step ap s t"
| step_health: "kl_step ap s (check_core_health ap s)"

subsection \<open>The health check\<close>

text \<open>
  A health check repairs the client's view: unless the client is loading, stopping or restarting, the
  core counts as running afterwards exactly when the process in the pid file was observed to be one, and
  then it is that process the client follows.
\<close>

theorem health_check_repairs_view:
  assumes "\<not> kl_loading s" "\<not> kl_stopping s" "\<not> kl_restarting s"
  shows "kl_running (check_core_health ap s) = observed_running s
    \<and> (observed_running s \<longrightarrow> kl_pid (check_core_health ap s) = disk_pid s)"
  using assms by (auto simp: check_core_health_def on_core_stopped_def)

theorem health_check_repairs_view_witness:
  "kl_running (check_core_health True (external_start 7 kl_init))
   \<and> kl_pid (check_core_health True (external_start 7 kl_init)) = 7"
proof -
  let ?s = "external_start 7 kl_init"
  have o: "observed_running ?s" "disk_pid ?s = 7"
    by (simp_all add: observed_running_def disk_pid_def external_start_def is_core_def starts_with_def)
  have "\<not> kl_loading ?s" "\<not> kl_stopping ?s" "\<not> kl_restarting ?s"
    by (simp_all add: external_start_def kl_init_def)
  from health_check_repairs_view [OF this, of True] o show ?thesis by simp
qed

subsection \<open>Stopping one's own core\<close>

definition own_inv :: "lifecycle \<Rightarrow> bool" where
  "own_inv s \<longleftrightarrow>
     (kl_running s \<longrightarrow> kl_mine s \<and> kl_promise s \<notin> set (kl_resolved s) \<and> kl_file s = Some (kl_pid s)
        \<and> kl_sockets s \<and> (kl_procs s (kl_pid s) \<noteq> None \<and> kl_exits s = [] \<or> kl_procs s (kl_pid s) = None \<and> kl_exits s = [kl_pid s]))
     \<and> (\<not> kl_running s \<longrightarrow> kl_pid s = -1 \<and> kl_file s = None \<and> \<not> kl_sockets s \<and> kl_exits s = [])
     \<and> (\<forall>n \<in> set (kl_resolved s). n \<le> kl_promise s)
     \<and> (\<forall>n. kl_wait s = Some n \<longrightarrow> n = kl_promise s \<and> kl_running s \<or> n \<in> set (kl_resolved s))
     \<and> (kl_stopping s \<longleftrightarrow> kl_wait s \<noteq> None)"

lemma own_inv_init: "own_inv kl_init"
  by (simp add: own_inv_def kl_init_def)

lemma own_inv_step: "own_step ap s t \<Longrightarrow> own_inv s \<Longrightarrow> own_inv t"
proof (induction rule: own_step.induct)
  case (own_start pid s)
  then show ?case
    by (auto simp: own_inv_def start_core_def on_core_started_def le_Suc_eq)
next
  case (own_crash s)
  then show ?case by (auto simp: own_inv_def process_ends_def)
next
  case (own_exit s pid)
  then show ?case
    by (auto simp: own_inv_def exit_callback_def on_core_stopped_def)
next
  case (own_stop s t)
  then show ?case
    by (auto simp: own_inv_def stop_begin_def process_ends_def Let_def split: if_splits)
next
  case (own_stopped s)
  then show ?case by (auto simp: own_inv_def stop_end_def split: option.splits)
qed

lemma own_inv_reachable: "(own_step ap)\<^sup>*\<^sup>* kl_init s \<Longrightarrow> own_inv s"
  by (induction rule: rtranclp_induct) (auto intro: own_inv_init own_inv_step)


definition stopped_run :: lifecycle where
  "stopped_run = exit_callback True 5 (projr (stop_begin True True (start_core True 5 kl_init)))"

lemma stopped_run_reachable: "(own_step True)\<^sup>*\<^sup>* kl_init stopped_run"
proof -
  let ?a = "start_core True 5 kl_init"
  have "own_step True kl_init ?a" by (rule own_start) (simp_all add: kl_init_def)
  moreover have "own_step True ?a (projr (stop_begin True True ?a))"
    by (rule own_stop) (simp_all add: start_core_def kl_init_def on_core_started_def stop_begin_def Let_def)
  moreover have "own_step True (projr (stop_begin True True ?a)) stopped_run"
    unfolding stopped_run_def by (rule own_exit)
  ultimately show ?thesis by (meson r_into_rtranclp rtranclp_trans)
qed

lemmas run_defs = start_core_def kl_init_def on_core_started_def stop_begin_def Let_def process_ends_def
  exit_callback_def on_core_stopped_def external_start_def check_core_health_def observed_running_def
  disk_pid_def is_core_def starts_with_def stop_end_def


subsection \<open>Two ways to lose track\<close>

lemma kl_extend:
  "(kl_step ap)\<^sup>*\<^sup>* s t \<Longrightarrow> kl_step ap t u \<Longrightarrow> (kl_step ap)\<^sup>*\<^sup>* s u"
  by (rule rtranclp.rtrancl_into_rtrancl)

lemma own_in_all: "(own_step ap)\<^sup>*\<^sup>* s t \<Longrightarrow> (kl_step ap)\<^sup>*\<^sup>* s t"
  by (rule rtranclp_mono [THEN predicate2D]) (auto intro: step_own)

text \<open>
  Stopping an adopted core can end at once and leave the client believing it still runs: the client
  once started and stopped a core of its own, so \<open>isCoreStartedByThisInstance\<close> is set and its old promise
  is resolved; a core of another program is then adopted by the health check. Stopping that core kills
  the process, finds the promise resolved and returns, while the client still counts it as running.
\<close>

theorem stop_of_adopted_core_is_lost:
  "\<exists>s t. (kl_step ap)\<^sup>*\<^sup>* kl_init s \<and> kl_running s \<and> stop_begin ap False s = Inr t
     \<and> kl_wait (stop_end t) = None \<and> \<not> kl_stopping (stop_end t)
     \<and> kl_running (stop_end t) \<and> kl_procs (stop_end t) (kl_pid (stop_end t)) = None"
proof -
  let ?a = "start_core ap 5 kl_init"
  let ?b = "projr (stop_begin ap True ?a)"
  let ?c = "exit_callback ap 5 ?b"
  let ?d = "stop_end ?c"
  let ?e = "external_start 7 ?d"
  let ?s = "check_core_health ap ?e"
  have "own_step ap kl_init ?a" by (rule own_start) (simp_all add: kl_init_def)
  moreover have "own_step ap ?a ?b" by (rule own_stop) (simp_all add: run_defs)
  moreover have "own_step ap ?b ?c" by (rule own_exit)
  moreover have "own_step ap ?c ?d" by (rule own_stopped)
  ultimately have "(kl_step ap)\<^sup>*\<^sup>* kl_init ?d" by (meson own_in_all r_into_rtranclp rtranclp_trans)
  then have "(kl_step ap)\<^sup>*\<^sup>* kl_init ?e" by (rule kl_extend) (rule step_external, simp add: run_defs)
  then have reach: "(kl_step ap)\<^sup>*\<^sup>* kl_init ?s" by (rule kl_extend) (rule step_health)
  have "kl_running ?s" by (simp add: run_defs)
  moreover have "stop_begin ap False ?s = Inr (projr (stop_begin ap False ?s))" by (simp add: run_defs)
  moreover have "kl_wait (stop_end (projr (stop_begin ap False ?s))) = None
      \<and> \<not> kl_stopping (stop_end (projr (stop_begin ap False ?s)))
      \<and> kl_running (stop_end (projr (stop_begin ap False ?s)))
      \<and> kl_procs (stop_end (projr (stop_begin ap False ?s))) (kl_pid (stop_end (projr (stop_begin ap False ?s)))) = None"
    by (simp add: run_defs)
  ultimately show ?thesis using reach by blast
qed

text \<open>
  A late exit callback can disown a healthy core: the core of the client crashes, the health check
  notices first, and a new core is started; then the exit callback of the crashed one arrives, and the
  client forgets the new core, which goes on running without pid file.
\<close>

theorem late_exit_disowns_new_core:
  "\<exists>s pid. (kl_step ap)\<^sup>*\<^sup>* kl_init s \<and> \<not> kl_running s \<and> kl_file s = None \<and> is_core (kl_procs s pid)"
proof -
  let ?a = "start_core ap 5 kl_init"
  let ?b = "process_ends True (kl_pid ?a) ?a"
  let ?c = "check_core_health ap ?b"
  let ?d = "start_core ap 6 ?c"
  let ?e = "exit_callback ap 5 ?d"
  have "own_step ap kl_init ?a" by (rule own_start) (simp_all add: kl_init_def)
  moreover have "own_step ap ?a ?b" by (rule own_crash) (simp_all add: run_defs)
  ultimately have "(kl_step ap)\<^sup>*\<^sup>* kl_init ?b" by (meson own_in_all r_into_rtranclp rtranclp_trans)
  then have "(kl_step ap)\<^sup>*\<^sup>* kl_init ?c" by (rule kl_extend) (rule step_health)
  then have "(kl_step ap)\<^sup>*\<^sup>* kl_init ?d"
    by (rule kl_extend) (rule step_own, rule own_start, simp_all add: run_defs)
  then have "(kl_step ap)\<^sup>*\<^sup>* kl_init ?e" by (rule kl_extend) (rule step_own, rule own_exit)
  moreover have "\<not> kl_running ?e \<and> kl_file ?e = None \<and> is_core (kl_procs ?e 6)"
    by (simp add: run_defs)
  ultimately show ?thesis by blast
qed

end
