(* ===== verification/ProxyGroups.thy ===== *)
theory ProxyGroups
  imports Interfaces CloudNode
begin

text \<open>
  \<open>stores/kernelApiProxyGroups.ts\<close>: the optimistic updates of the proxy groups shown to the user, before
  the core has been restarted. The groups are a dictionary from names to entries; \<open>deepClone\<close> makes the
  update a function of its argument.
\<close>

record core_proxy =
  cp_name :: string
  cp_type :: string
  cp_now :: string
  cp_all :: "string list option"
  cp_history :: "int list"
  cp_alive :: bool
  cp_udp :: bool

type_synonym proxy_map = "core_proxy dict"

text \<open>\<open>Number(part)\<close> of the first two parts; \<open>undefined\<close> and \<open>NaN\<close> compare as false.\<close>

definition ip_part :: "string \<Rightarrow> nat \<Rightarrow> int option" where
  "ip_part ip k = (let parts = js_split CHR ''.'' ip in if k < length parts then js_number (parts ! k) else None)"

definition group_public_ipv4 :: "string option \<Rightarrow> bool" where
  "group_public_ipv4 ip = (case ip of
      None \<Rightarrow> False
    | Some s \<Rightarrow>
        if s = '''' then False
        else if num_eq (ip_part s 0) 10 then False
        else if num_eq (ip_part s 0) 172 \<and> num_between 16 (ip_part s 1) 31 then False
        else if num_eq (ip_part s 0) 192 \<and> num_eq (ip_part s 1) 168 then False
        else if num_eq (ip_part s 0) 100 \<and> num_between 64 (ip_part s 1) 127 then False
        else True)"

definition without_name :: "string \<Rightarrow> core_proxy \<Rightarrow> core_proxy" where
  "without_name sid g = (case cp_all g of
      None \<Rightarrow> g
    | Some names \<Rightarrow>
        let rest = filter (\<lambda>n. n \<noteq> sid) names; g' = g\<lparr>cp_all := Some rest\<rparr>
        in if cp_now g = sid \<and> rest \<noteq> [] then g'\<lparr>cp_now := hd rest\<rparr> else g')"

definition remove_proxy_from_groups :: "proxy_map \<Rightarrow> string \<Rightarrow> proxy_map" where
  "remove_proxy_from_groups m sid = AList.delete sid (map (\<lambda>(k, g). (k, without_name sid g)) m)"

definition placeholder :: "string \<Rightarrow> string \<Rightarrow> core_proxy" where
  "placeholder name ty = \<lparr>cp_name = name, cp_type = ty, cp_now = '''', cp_all = Some [], cp_history = [],
     cp_alive = False, cp_udp = False\<rparr>"

text \<open>Appending the names that a selector or urltest group does not have yet.\<close>

definition with_names :: "string list \<Rightarrow> core_proxy \<Rightarrow> core_proxy" where
  "with_names tags g = (case cp_all g of
      None \<Rightarrow> g
    | Some names \<Rightarrow>
        if cp_type g = ''Selector'' \<or> cp_type g = ''URLTest''
        then g\<lparr>cp_all := Some (names @ filter (\<lambda>t. t \<notin> set names) tags)\<rparr>
        else g)"

definition add_proxy_to_groups :: "proxy_map \<Rightarrow> string \<Rightarrow> proxy_map" where
  "add_proxy_to_groups m sid =
     map (\<lambda>(k, g). (k, with_names [sid] g)) (AList.update sid (placeholder sid ''Subscription'') m)"

definition node_suffixes :: "node \<Rightarrow> string list" where
  "node_suffixes n = (if group_public_ipv4 (cn_ipv4 n) then [''-v4''] else [])
     @ (if truthy_s (cn_ipv6 n) then [''-v6''] else [])"

definition protocol_tags :: "bool \<Rightarrow> string \<Rightarrow> node \<Rightarrow> string list" where
  "protocol_tags present infix_text n =
     (if present then map (\<lambda>suf. cn_label n @ infix_text @ suf) (node_suffixes n) else [])"

definition node_proxy_tags :: "node \<Rightarrow> string list" where
  "node_proxy_tags n =
     protocol_tags (truthy_n (cn_ssPort n) \<and> truthy_s (cn_ssPassword n)) ''-ss'' n
     @ protocol_tags (truthy_n (cn_hysteriaPort n) \<and> truthy_s (cn_hysteriaPassword n)) ''-hysteria2'' n
     @ protocol_tags (truthy_n (cn_vlessPort n) \<and> truthy_s (cn_vlessUUID n)
         \<and> truthy_s (cn_vlessPublicKey n) \<and> truthy_s (cn_vlessShortId n)) ''-vless'' n
     @ protocol_tags (truthy_n (cn_trojanPort n) \<and> truthy_s (cn_trojanPassword n)) ''-trojan'' n"

definition add_cloud_node_to_groups :: "proxy_map \<Rightarrow> node \<Rightarrow> proxy_map" where
  "add_cloud_node_to_groups m n =
     (if node_suffixes n = [] then m
      else let tags = node_proxy_tags n
        in map (\<lambda>(k, g). (k, with_names tags g))
             (fold (\<lambda>t. AList.update t (placeholder t ''Proxy'')) tags m))"

subsection \<open>Adding and removing\<close>

lemma with_names_idem: "set tags' \<subseteq> set tags \<Longrightarrow> with_names tags' (with_names tags g) = with_names tags g"
proof -
  assume "set tags' \<subseteq> set tags"
  then have "filter (\<lambda>t. t \<notin> set names \<and> \<not> (t \<in> set tags \<and> t \<notin> set names)) tags' = []" for names
    by (auto simp: filter_empty_conv)
  then show ?thesis by (auto simp: with_names_def split: option.splits)
qed

lemma with_names_placeholder [simp]:
  "with_names tags (placeholder name ''Subscription'') = placeholder name ''Subscription''"
  "with_names tags (placeholder name ''Proxy'') = placeholder name ''Proxy''"
  by (simp_all add: with_names_def placeholder_def)

lemma update_map_values:
  "(\<And>k. f k v = v) \<Longrightarrow>
   AList.update i v (map (\<lambda>(k, g). (k, f k g)) m) = map (\<lambda>(k, g). (k, f k g)) (AList.update i v m)"
  by (induction m) auto

lemma update_update_same: "AList.update i v (AList.update i v m) = AList.update i v m"
  by (induction m) auto

lemma add_proxy_idem: "add_proxy_to_groups (add_proxy_to_groups m sid) sid = add_proxy_to_groups m sid"
proof -
  have "AList.update sid (placeholder sid ''Subscription'') (add_proxy_to_groups m sid) = add_proxy_to_groups m sid"
    unfolding add_proxy_to_groups_def
    by (subst update_map_values [of "\<lambda>_. with_names [sid]"]) (simp_all add: update_update_same)
  moreover have "map (\<lambda>(k, g). (k, with_names [sid] g)) (add_proxy_to_groups m sid) = add_proxy_to_groups m sid"
    unfolding add_proxy_to_groups_def by (simp add: case_prod_beta comp_def with_names_idem)
  ultimately show ?thesis by (simp add: add_proxy_to_groups_def [of "add_proxy_to_groups m sid"])
qed

interpretation adding_proxy: normalizer "\<lambda>m. add_proxy_to_groups m sid"
  by unfold_locales (rule add_proxy_idem)

lemma without_with_names:
  assumes "\<And>names. cp_all g = Some names \<Longrightarrow> sid \<notin> set names" "cp_now g \<noteq> sid"
  shows "without_name sid (with_names [sid] g) = g"
proof (cases "cp_all g")
  case None
  then show ?thesis by (simp add: without_name_def with_names_def)
next
  case (Some names)
  then have "filter (\<lambda>n. n \<noteq> sid) names = names" "sid \<notin> set names"
    using assms(1) by (auto intro: filter_True)
  with Some assms(2) show ?thesis by (auto simp: without_name_def with_names_def Let_def)
qed

text \<open>
  Adding a subscription to the groups and removing it again gives the groups back as they were, when
  it was not there before: it had no entry, was in no group and selected in none.
\<close>

theorem add_remove_proxy_roundtrip:
  assumes "sid \<notin> fst ` set m"
    and "\<And>k g names. (k, g) \<in> set m \<Longrightarrow> cp_all g = Some names \<Longrightarrow> sid \<notin> set names"
    and "\<And>k g. (k, g) \<in> set m \<Longrightarrow> cp_now g \<noteq> sid"
  shows "remove_proxy_from_groups (add_proxy_to_groups m sid) sid = m"
proof -
  have upd: "AList.update sid v m = m @ [(sid, v)]" for v
    using assms(1) by (induction m) auto
  have "map (\<lambda>x. (fst x, without_name sid (with_names [sid] (snd x)))) m = m"
    by (rule map_idI) (use assms(2,3) without_with_names in auto)
  moreover have "remove_proxy_from_groups (add_proxy_to_groups m sid) sid
      = AList.delete sid (map (\<lambda>x. (fst x, without_name sid (with_names [sid] (snd x)))) m
          @ [(sid, without_name sid (placeholder sid ''Subscription''))])"
    by (simp add: remove_proxy_from_groups_def add_proxy_to_groups_def upd case_prod_beta comp_def)
  moreover have "AList.delete sid (m @ [(sid, v)]) = m" for v
    using assms(1) by (induction m) auto
  ultimately show ?thesis by simp
qed

definition demo_groups :: proxy_map where
  "demo_groups = [(''Select'', \<lparr>cp_name = ''Select'', cp_type = ''Selector'', cp_now = ''a'',
     cp_all = Some [''a'', ''b''], cp_history = [], cp_alive = True, cp_udp = True\<rparr>)]"

theorem add_remove_proxy_roundtrip_witness:
  "remove_proxy_from_groups (add_proxy_to_groups demo_groups ''cloud-1'') ''cloud-1'' = demo_groups
   \<and> cp_all (snd (hd (add_proxy_to_groups demo_groups ''cloud-1''))) = Some [''a'', ''b'', ''cloud-1'']"
proof -
  have "remove_proxy_from_groups (add_proxy_to_groups demo_groups ''cloud-1'') ''cloud-1'' = demo_groups"
    by (rule add_remove_proxy_roundtrip) (auto simp: demo_groups_def)
  then show ?thesis by (simp add: demo_groups_def add_proxy_to_groups_def with_names_def)
qed

text \<open>
  Removing a subscription leaves no trace and no broken selection: it has no entry and is in no group
  any more, and a group whose selection was one of its members still selects one of them, unless it has
  become empty.
\<close>

theorem remove_proxy_is_complete:
  "sid \<notin> fst ` set (remove_proxy_from_groups m sid)
   \<and> list_all (\<lambda>(k, g). sid \<notin> set (or_else (cp_all g) [])) (remove_proxy_from_groups m sid)
   \<and> list_all (\<lambda>(k, g). cp_all g = Some [] \<or> cp_now g \<in> set (or_else (cp_all g) []))
        (map (\<lambda>(k, g). (k, without_name sid g)) (filter (\<lambda>(k, g). cp_now g \<in> set (or_else (cp_all g) [])) m))"
proof -
  have "sid \<notin> set (or_else (cp_all (without_name sid g)) [])" for g
    by (auto simp: without_name_def Let_def split: option.splits)
  then have "list_all (\<lambda>(k, g). sid \<notin> set (or_else (cp_all g) [])) (remove_proxy_from_groups m sid)"
    by (auto simp: list_all_iff remove_proxy_from_groups_def AList.delete_eq)
  moreover have "cp_now g \<notin> set (or_else (cp_all g) []) \<or> cp_all (without_name sid g) = Some []
        \<or> cp_now (without_name sid g) \<in> set (or_else (cp_all (without_name sid g)) [])" for g
  proof (cases "cp_all g")
    case None
    then show ?thesis by simp
  next
    case (Some names)
    show ?thesis
    proof (cases "cp_now g = sid")
      case True
      with Some show ?thesis
        by (cases "filter (\<lambda>n. n \<noteq> sid) names") (auto simp: without_name_def Let_def)
    next
      case False
      with Some show ?thesis by (simp add: without_name_def Let_def)
    qed
  qed
  ultimately show ?thesis
    by (auto simp: list_all_iff remove_proxy_from_groups_def AList.delete_eq)
qed

end
