(* ===== verification/Resilience.thy ===== *)
theory Resilience
  imports JsValues "HOL-Library.Multiset"
begin

text \<open>
  \<open>utils/errorRecovery.ts\<close> (retries with exponential backoff) and the queue of \<open>utils/offline.ts\<close>
  (operations postponed until the client is online again).
\<close>

subsection \<open>Retries\<close>

record retry_options =
  ro_maxAttempts :: nat
  ro_baseDelay :: int
  ro_maxDelay :: int
  ro_exponential :: bool
  ro_shouldRetry :: "string \<Rightarrow> nat \<Rightarrow> bool"

definition default_retry_options :: retry_options where
  "default_retry_options = \<lparr>ro_maxAttempts = 3, ro_baseDelay = 1000, ro_maxDelay = 30000,
     ro_exponential = True, ro_shouldRetry = (\<lambda>_ _. True)\<rparr>"

definition retry_delay :: "retry_options \<Rightarrow> nat \<Rightarrow> int" where
  "retry_delay opts attempt =
     (if ro_exponential opts then min (ro_baseDelay opts * 2 ^ (attempt - 1)) (ro_maxDelay opts)
      else ro_baseDelay opts)"

text \<open>
  The loop from \<open>attempt\<close> with \<open>left\<close> attempts to go: \<open>fn n\<close> is what the \<open>n\<close>-th call answers. The result is
  the value or the error that is thrown, the number of calls, and the delays slept.
\<close>

fun retry_loop ::
    "retry_options \<Rightarrow> (nat \<Rightarrow> string + 'a) \<Rightarrow> nat \<Rightarrow> nat \<Rightarrow> string \<Rightarrow> (string + 'a) \<times> nat \<times> int list" where
  "retry_loop opts fn attempt 0 last_error = (Inl last_error, attempt - 1, [])"
| "retry_loop opts fn attempt (Suc left) last_error = (case fn attempt of
      Inr v \<Rightarrow> (Inr v, attempt, [])
    | Inl e \<Rightarrow>
        if \<not> ro_shouldRetry opts e attempt then (Inl e, attempt, [])
        else if left = 0 then (Inl e, attempt, [])
        else case retry_loop opts fn (Suc attempt) left e of
               (r, n, ds) \<Rightarrow> (r, n, retry_delay opts attempt # ds))"

definition retry_with_backoff ::
    "retry_options \<Rightarrow> (nat \<Rightarrow> string + 'a) \<Rightarrow> (string + 'a) \<times> nat \<times> int list" where
  "retry_with_backoff opts fn = retry_loop opts fn 1 (ro_maxAttempts opts) ''undefined''"

definition mentions :: "string list \<Rightarrow> string \<Rightarrow> bool" where
  "mentions keywords e = list_ex (\<lambda>k. js_includes (js_lower e) k) keywords"

definition is_network_error :: "string \<Rightarrow> bool" where
  "is_network_error = mentions [''network'', ''timeout'', ''connection'', ''fetch'', ''econnrefused'']"

definition is_rate_limit_error :: "string \<Rightarrow> bool" where
  "is_rate_limit_error = mentions [''rate limit'', ''429'', ''too many requests'']"

definition is_auth_error :: "string \<Rightarrow> bool" where
  "is_auth_error =
     mentions [''unauthorized'', ''401'', ''403'', ''forbidden'', ''invalid api key'', ''authentication'']"

definition api_should_retry :: "string \<Rightarrow> nat \<Rightarrow> bool" where
  "api_should_retry e attempt =
     (if is_auth_error e then False
      else if is_network_error e then True
      else if is_rate_limit_error e then attempt < 3
      else attempt < 2)"

text \<open>\<open>apiRetryStrategy\<close>, completed with the default maximal delay.\<close>

definition api_retry_strategy :: retry_options where
  "api_retry_strategy = \<lparr>ro_maxAttempts = 3, ro_baseDelay = 2000, ro_maxDelay = 30000,
     ro_exponential = True, ro_shouldRetry = api_should_retry\<rparr>"

subsection \<open>The retry queue\<close>

record 'a retry_item =
  ri_id :: string
  ri_fn :: "nat \<Rightarrow> string + 'a"
  ri_options :: retry_options
  ri_createdAt :: int

definition queue_add :: "int \<Rightarrow> string \<Rightarrow> (nat \<Rightarrow> string + 'a) \<Rightarrow> retry_options \<Rightarrow> 'a retry_item list \<Rightarrow> 'a retry_item list" where
  "queue_add now i fn opts q = q @ [\<lparr>ri_id = i, ri_fn = fn, ri_options = opts, ri_createdAt = now\<rparr>]"

text \<open>\<open>processAll\<close> empties the queue first; what is added while it runs (\<open>added\<close>) stays for the next time.\<close>

definition process_all :: "'a retry_item list \<Rightarrow> 'a retry_item list \<Rightarrow> (string \<times> (string + 'a)) list \<times> 'a retry_item list" where
  "process_all added q =
     (map (\<lambda>it. (ri_id it, fst (retry_with_backoff (ri_options it) (ri_fn it)))) q, added)"

subsection \<open>What the retries do\<close>

lemma retry_loop_spec:
  assumes "retry_loop opts fn attempt left err = (r, n, ds)" "1 \<le> attempt" "1 \<le> left"
  shows "attempt \<le> n \<and> n < attempt + left \<and> r = fn n
    \<and> length ds = n - attempt \<and> ds = map (retry_delay opts) [attempt..<n]
    \<and> (\<forall>k. attempt \<le> k \<longrightarrow> k < n \<longrightarrow> (\<exists>e. fn k = Inl e \<and> ro_shouldRetry opts e k))
    \<and> (\<forall>e. r = Inl e \<longrightarrow> \<not> ro_shouldRetry opts e n \<or> Suc n = attempt + left)"
  using assms
proof (induction left arbitrary: attempt err r n ds)
  case 0
  then show ?case by simp
next
  case (Suc left)
  show ?case
  proof (cases "fn attempt")
    case (Inr v)
    with Suc.prems show ?thesis by auto
  next
    case (Inl e)
    show ?thesis
    proof (cases "ro_shouldRetry opts e attempt \<and> left \<noteq> 0")
      case False
      with Inl Suc.prems show ?thesis by (auto split: if_splits)
    next
      case True
      then obtain ds' where rec: "retry_loop opts fn (Suc attempt) left e = (r, n, ds')"
        "ds = retry_delay opts attempt # ds'"
        using Suc.prems Inl by (auto split: prod.splits)
      have left: "1 \<le> left" using True by simp
      note ih = Suc.IH [OF rec(1) _ left]
      have "\<exists>e. fn k = Inl e \<and> ro_shouldRetry opts e k" if "attempt \<le> k" "k < n" for k
        using that ih Inl True by (cases "k = attempt") auto
      moreover have "ds = map (retry_delay opts) [attempt..<n]"
        using ih rec(2) by (simp add: upt_conv_Cons)
      ultimately show ?thesis using ih by auto
    qed
  qed
qed

text \<open>
  C24. What an API call with retries costs: under \<open>apiRetryStrategy\<close> the function is called at most three
  times and the client waits at most six seconds in total; the answer is that of the last call, every
  earlier call failed with an error that is not an authentication error, and an authentication error of
  any call is the last word.
\<close>

theorem api_retry_bounded:
  assumes "retry_with_backoff api_retry_strategy fn = (r, n, ds)"
  shows "1 \<le> n \<and> n \<le> 3 \<and> sum_list ds \<le> 6000 \<and> r = fn n
    \<and> (\<forall>k. 1 \<le> k \<longrightarrow> k < n \<longrightarrow> (\<exists>e. fn k = Inl e \<and> \<not> is_auth_error e))
    \<and> (\<forall>e. r = Inl e \<longrightarrow> is_auth_error e \<or> 2 \<le> n)"
proof -
  have spec: "1 \<le> n \<and> n < 4 \<and> r = fn n \<and> ds = map (retry_delay api_retry_strategy) [1..<n]
    \<and> (\<forall>k. 1 \<le> k \<longrightarrow> k < n \<longrightarrow> (\<exists>e. fn k = Inl e \<and> api_should_retry e k))
    \<and> (\<forall>e. r = Inl e \<longrightarrow> \<not> api_should_retry e n \<or> Suc n = 4)"
    using retry_loop_spec [of api_retry_strategy fn 1 3 "''undefined''" r n ds] assms
    by (simp add: retry_with_backoff_def api_retry_strategy_def)
  have "list_all (\<lambda>n. sum_list (map (retry_delay api_retry_strategy) [1..<n]) \<le> 6000) [1..<4]" by code_simp
  then have "sum_list ds \<le> 6000" using spec by (simp add: list_all_iff)
  moreover have "\<exists>e. fn k = Inl e \<and> \<not> is_auth_error e" if k: "1 \<le> k" "k < n" for k
  proof -
    from spec k obtain e where "fn k = Inl e" "api_should_retry e k" by blast
    then show ?thesis by (auto simp: api_should_retry_def split: if_splits)
  qed
  moreover have "is_auth_error e \<or> 2 \<le> n" if "r = Inl e" for e
  proof (cases "n = 1")
    case True
    with spec that have "\<not> api_should_retry e 1" by auto
    then show ?thesis by (auto simp: api_should_retry_def split: if_splits)
  next
    case False
    with spec show ?thesis by auto
  qed
  ultimately show ?thesis using spec by auto
qed

theorem api_retry_bounded_witness:
  "retry_with_backoff api_retry_strategy (\<lambda>n. if n = 3 then Inr True else Inl ''Network down'') = (Inr True, 3, [2000, 4000])
   \<and> sum_list [2000, 4000 :: int] \<le> 6000"
proof -
  have r: "retry_with_backoff api_retry_strategy (\<lambda>n. if n = 3 then Inr True else Inl ''Network down'')
      = (Inr True, 3, [2000, 4000])"
    by code_simp
  from api_retry_bounded [OF r] r show ?thesis by blast
qed

subsection \<open>Operations while offline\<close>

text \<open>
  The queue, the operations a running \<open>syncPendingOperations\<close> has taken out (one per call in progress), and
  those that have completed. Operations are numbers.
\<close>

record offline =
  of_online :: bool
  of_pending :: "nat list"
  of_taken :: "nat list"
  of_done :: "nat list"

definition of_init :: offline where
  "of_init = \<lparr>of_online = False, of_pending = [], of_taken = [], of_done = []\<rparr>"

definition queue_operation :: "nat \<Rightarrow> offline \<Rightarrow> offline" where
  "queue_operation x s = s\<lparr>of_pending := of_pending s @ [x]\<rparr>"

text \<open>One turn of the loop: \<open>shift\<close>; then either the operation completes, or it is put back in front.\<close>

definition sync_take :: "offline \<Rightarrow> offline" where
  "sync_take s = (case of_pending s of
      [] \<Rightarrow> s
    | x # xs \<Rightarrow> s\<lparr>of_pending := xs, of_taken := x # of_taken s\<rparr>)"

definition sync_done :: "nat \<Rightarrow> offline \<Rightarrow> offline" where
  "sync_done x s = (if x \<in> set (of_taken s)
     then s\<lparr>of_taken := remove1 x (of_taken s), of_done := of_done s @ [x]\<rparr> else s)"

definition sync_failed :: "nat \<Rightarrow> offline \<Rightarrow> offline" where
  "sync_failed x s = (if x \<in> set (of_taken s)
     then s\<lparr>of_taken := remove1 x (of_taken s), of_pending := x # of_pending s\<rparr> else s)"

text \<open>One undisturbed call of \<open>syncPendingOperations\<close>; \<open>works\<close> tells which operations succeed.\<close>

fun sync_loop :: "(nat \<Rightarrow> bool) \<Rightarrow> nat list \<Rightarrow> nat list \<times> nat list" where
  "sync_loop works [] = ([], [])"
| "sync_loop works (x # xs) =
     (if works x then (case sync_loop works xs of (ds, rest) \<Rightarrow> (x # ds, rest)) else ([], x # xs))"

definition sync_pending_operations :: "(nat \<Rightarrow> bool) \<Rightarrow> offline \<Rightarrow> offline" where
  "sync_pending_operations works s =
     (if \<not> of_online s \<or> of_pending s = [] then s
      else case sync_loop works (of_pending s) of
             (ds, rest) \<Rightarrow> s\<lparr>of_pending := rest, of_done := of_done s @ ds\<rparr>)"

inductive of_step :: "nat option \<Rightarrow> offline \<Rightarrow> offline \<Rightarrow> bool" where
  of_queue: "of_step (Some x) s (queue_operation x s)"
| of_take: "of_online s \<Longrightarrow> of_step None s (sync_take s)"
| of_ok: "of_step None s (sync_done x s)"
| of_failed: "of_step None s (sync_failed x s)"
| of_switch: "of_step None s (s\<lparr>of_online := b\<rparr>)"

inductive_cases of_stepE: "of_step q s t"

text \<open>A run with the operations that were queued in it.\<close>

inductive of_run :: "nat list \<Rightarrow> offline \<Rightarrow> offline \<Rightarrow> bool" where
  of_refl: "of_run [] s s"
| of_trans: "of_run qs s t \<Longrightarrow> of_step q t u \<Longrightarrow>
    of_run (qs @ (case q of None \<Rightarrow> [] | Some x \<Rightarrow> [x])) s u"

definition of_all :: "offline \<Rightarrow> nat multiset" where
  "of_all s = mset (of_pending s) + mset (of_taken s) + mset (of_done s)"

lemma of_step_all: "of_step q s t \<Longrightarrow> of_all t = of_all s + mset (case q of None \<Rightarrow> [] | Some x \<Rightarrow> [x])"
  by (erule of_stepE)
    (auto simp: of_all_def queue_operation_def sync_take_def sync_done_def sync_failed_def split: list.splits)

text \<open>
  C25. No postponed operation is lost or run twice: however calls of \<open>syncPendingOperations\<close> interleave with
  each other, with failures and with changes of the connection, the operations still queued, those in
  progress and those completed are together exactly the ones that were ever queued.
\<close>

theorem offline_operations_conserved:
  assumes "of_run qs of_init s"
  shows "mset (of_pending s) + mset (of_taken s) + mset (of_done s) = mset qs"
proof -
  have "of_all s = of_all t + mset qs" if "of_run qs t s" for t
    using that by (induction rule: of_run.induct) (auto simp: of_step_all)
  from this [OF assms] show ?thesis by (simp add: of_all_def of_init_def)
qed

theorem offline_operations_conserved_witness:
  "mset (of_pending (sync_failed 4 (sync_take (queue_operation 4 (of_init\<lparr>of_online := True\<rparr>)))))
   + mset (of_taken (sync_failed 4 (sync_take (queue_operation 4 (of_init\<lparr>of_online := True\<rparr>)))))
   + mset (of_done (sync_failed 4 (sync_take (queue_operation 4 (of_init\<lparr>of_online := True\<rparr>))))) = {#4#}"
proof -
  let ?a = "of_init\<lparr>of_online := True\<rparr>"
  let ?b = "queue_operation 4 ?a"
  let ?c = "sync_take ?b"
  have "of_run [] of_init ?a" using of_trans [OF of_refl of_switch] by simp
  then have "of_run [4] of_init ?b" using of_trans [OF _ of_queue] by force
  moreover have "of_online ?b" by (simp add: queue_operation_def)
  ultimately have "of_run [4] of_init ?c" using of_trans [OF _ of_take] by force
  then have "of_run [4] of_init (sync_failed 4 ?c)" using of_trans [OF _ of_failed] by force
  from offline_operations_conserved [OF this] show ?thesis by simp
qed

lemma sync_loop_split:
  "sync_loop works xs = (ds, rest) \<Longrightarrow> xs = ds @ rest \<and> list_all works ds \<and> (rest = [] \<or> \<not> works (hd rest))"
  by (induction xs arbitrary: ds) (auto split: if_splits prod.splits)

lemma sync_pending_in_order:
  "of_online s \<Longrightarrow> sync_pending_operations works s =
     s\<lparr>of_pending := dropWhile works (of_pending s), of_done := of_done s @ takeWhile works (of_pending s)\<rparr>"
proof -
  have "sync_loop works xs = (takeWhile works xs, dropWhile works xs)" for xs
    by (induction xs) auto
  then show "of_online s \<Longrightarrow> ?thesis"
    by (cases "of_pending s = []") (simp_all add: sync_pending_operations_def)
qed

end
