(* ===== verification/CloudStore.thy ===== *)
theory CloudStore
  imports CloudNode
begin

text \<open>
  \<open>stores/cloud.ts\<close>: the reload of the core that the cloud operations ask for. Requests join a reload that
  is in progress, and are dropped within three seconds of the last one that ended without an error. The
  rest of the file wires the modules together.
\<close>

subsection \<open>One reload\<close>

datatype core_action = RestartCore | StartCore | NoAction

record reload_env =
  rv_running :: bool
  rv_autoStart :: bool
  rv_profile :: "string"
  rv_profileExists :: bool

text \<open>What the task of a reload does.\<close>

definition reload_action :: "bool \<Rightarrow> reload_env \<Rightarrow> core_action" where
  "reload_action allow_start env =
     (if rv_running env then RestartCore
      else if \<not> allow_start then NoAction
      else if \<not> rv_autoStart env then NoAction
      else if rv_profile env = '''' \<or> \<not> rv_profileExists env then NoAction
      else StartCore)"

datatype reload_answer = Joined | Throttled | Started core_action

record reload_state =
  kr_now :: int
  kr_task :: "core_action option"
  kr_lastReload :: int
  kr_log :: "(int \<times> core_action) list"

definition reload_init :: reload_state where
  "reload_init = \<lparr>kr_now = 3000, kr_task = None, kr_lastReload = 0, kr_log = []\<rparr>"

text \<open>\<open>reloadKernel\<close> up to the end of its synchronous part; the log lists the tasks with their times.\<close>

definition reload_kernel :: "bool \<Rightarrow> reload_env \<Rightarrow> reload_state \<Rightarrow> reload_answer \<times> reload_state" where
  "reload_kernel allow_start env s =
     (if kr_task s \<noteq> None then (Joined, s)
      else if kr_now s - kr_lastReload s < 3000 then (Throttled, s)
      else let act = reload_action allow_start env
        in (Started act, s\<lparr>kr_task := Some act, kr_log := kr_log s @ [(kr_now s, act)]\<rparr>))"

text \<open>The task ends; only without an error is the time of the reload kept.\<close>

definition reload_finished :: "bool \<Rightarrow> reload_state \<Rightarrow> reload_state" where
  "reload_finished success s =
     (if kr_task s = None then s
      else s\<lparr>kr_task := None, kr_lastReload := (if success then kr_now s else kr_lastReload s)\<rparr>)"

definition reload_wait :: "nat \<Rightarrow> reload_state \<Rightarrow> reload_state" where
  "reload_wait d s = s\<lparr>kr_now := kr_now s + int d\<rparr>"

inductive reload_step :: "reload_state \<Rightarrow> reload_state \<Rightarrow> bool" where
  rs_request: "reload_step s (snd (reload_kernel allow_start env s))"
| rs_finish: "reload_step s (reload_finished True s)"
| rs_wait: "reload_step s (reload_wait d s)"

inductive_cases reload_stepE: "reload_step s t"

text \<open>Consecutive entries of a log are three seconds apart.\<close>

definition spaced :: "(int \<times> core_action) list \<Rightarrow> bool" where
  "spaced xs \<longleftrightarrow> (\<forall>k. Suc k < length xs \<longrightarrow> fst (xs ! k) + 3000 \<le> fst (xs ! Suc k))"

definition reload_inv :: "reload_state \<Rightarrow> bool" where
  "reload_inv s \<longleftrightarrow> spaced (kr_log s) \<and> kr_lastReload s \<le> kr_now s
     \<and> (kr_log s \<noteq> [] \<longrightarrow> fst (last (kr_log s)) \<le> kr_now s
          \<and> (kr_task s = None \<longrightarrow> fst (last (kr_log s)) \<le> kr_lastReload s))"

lemma spaced_snoc:
  "spaced xs \<Longrightarrow> (xs \<noteq> [] \<Longrightarrow> fst (last xs) + 3000 \<le> fst x) \<Longrightarrow> spaced (xs @ [x])"
proof -
  assume s: "spaced xs" and l: "xs \<noteq> [] \<Longrightarrow> fst (last xs) + 3000 \<le> fst x"
  show "spaced (xs @ [x])"
    unfolding spaced_def
  proof (intro allI impI)
    fix k assume k: "Suc k < length (xs @ [x])"
    show "fst ((xs @ [x]) ! k) + 3000 \<le> fst ((xs @ [x]) ! Suc k)"
    proof (cases "Suc k < length xs")
      case True
      with s show ?thesis by (simp add: spaced_def nth_append)
    next
      case False
      with k have "xs \<noteq> []" "k = length xs - 1" by auto
      with l show ?thesis by (simp add: nth_append last_conv_nth)
    qed
  qed
qed

lemma reload_inv_step: "reload_step s t \<Longrightarrow> reload_inv s \<Longrightarrow> reload_inv t"
  by (erule reload_stepE)
    (auto simp: reload_inv_def reload_kernel_def reload_finished_def reload_wait_def Let_def intro!: spaced_snoc)


definition core_up :: reload_env where
  "core_up = \<lparr>rv_running = True, rv_autoStart = True, rv_profile = ''P'', rv_profileExists = True\<rparr>"

definition two_reloads :: reload_state where
  "two_reloads = snd (reload_kernel True core_up (reload_wait 3000 (reload_finished True
     (reload_wait 50 (snd (reload_kernel True core_up reload_init))))))"


text \<open>
  A reload that did nothing still holds the next one back: a request that may not start a stopped core
  takes no action, but its end counts as a reload, and a request within three seconds that would have
  started the core is dropped.
\<close>

theorem idle_reload_throttles:
  assumes "\<not> rv_running env" "kr_task s = None" "3000 \<le> kr_now s - kr_lastReload s" "d < 3000"
  shows "fst (reload_kernel False env s) = Started NoAction
    \<and> fst (reload_kernel True env' (reload_wait d (reload_finished True (snd (reload_kernel False env s))))) = Throttled"
  using assms by (simp add: reload_kernel_def reload_action_def reload_finished_def reload_wait_def Let_def)

theorem idle_reload_throttles_witness:
  "reload_action True (core_up\<lparr>rv_running := False\<rparr>) = StartCore
   \<and> fst (reload_kernel True (core_up\<lparr>rv_running := False\<rparr>)
       (reload_wait 10 (reload_finished True (snd (reload_kernel False (core_up\<lparr>rv_running := False\<rparr>) reload_init)))))
     = Throttled"
proof -
  have "\<not> rv_running (core_up\<lparr>rv_running := False\<rparr>)" "kr_task reload_init = None"
    "3000 \<le> kr_now reload_init - kr_lastReload reload_init" "(10::nat) < 3000"
    by (simp_all add: reload_init_def)
  from idle_reload_throttles [OF this, of "core_up\<lparr>rv_running := False\<rparr>"]
  show ?thesis by (simp add: reload_action_def core_up_def)
qed

subsection \<open>Node status\<close>

definition mark_node_status :: "string \<Rightarrow> node_status \<Rightarrow> node list \<times> node list \<Rightarrow> node list \<times> node list" where
  "mark_node_status i st = (\<lambda>(instances, manual).
     if List.find (\<lambda>n. cn_instanceId n = i) instances \<noteq> None
     then (map_first (\<lambda>n. cn_instanceId n = i) (\<lambda>n. n\<lparr>cn_statusText := Some st\<rparr>) instances, manual)
     else (instances, map_first (\<lambda>n. cn_instanceId n = i) (\<lambda>n. n\<lparr>cn_statusText := Some st\<rparr>) manual))"

definition has_ready_instances :: "node list \<Rightarrow> bool" where
  "has_ready_instances = list_ex has_usable_address"

end
