(* ===== verification/NodeHistory.thy ===== *)
theory NodeHistory
  imports Interfaces CloudNode
begin

text \<open>
  \<open>stores/cloud/history.ts\<close>: per node the samples of connectivity and speed tests, kept for seven days and
  at most 512 of each kind. The file is read once, on first use; the flag that says so is set before the
  read has ended, so loading is two steps here. The normalisation of a file of unknown shape is outside
  of the model: \<open>hi_disk\<close> is the well-typed content.
\<close>

record conn_sample =
  ct_timestamp :: int
  ct_status :: conn_status
  ct_targetStatus :: "string dict option"
  ct_portsOpen :: "bool dict option"

record speed_sample =
  sd_timestamp :: int
  sd_mbps :: "rat option"
  sd_status :: string
  sd_error :: "string option"

record history_record =
  hr_connectivity :: "conn_sample list"
  hr_speed :: "speed_sample list"

type_synonym history_map = "history_record dict"

definition empty_history_record :: history_record where
  "empty_history_record = \<lparr>hr_connectivity = [], hr_speed = []\<rparr>"

subsection \<open>Pruning and merging\<close>

text \<open>\<open>Array.prototype.sort\<close> is stable, as is \<^const>\<open>sort_key\<close>.\<close>

definition prune_entries :: "('a \<Rightarrow> int) \<Rightarrow> int \<Rightarrow> 'a list \<Rightarrow> 'a list" where
  "prune_entries ts now entries =
     take_last history_max_samples (sort_key ts (filter (\<lambda>e. now - ts e \<le> history_retention_ms) entries))"

definition prune_record :: "int \<Rightarrow> history_record \<Rightarrow> history_record" where
  "prune_record now r =
     \<lparr>hr_connectivity = prune_entries ct_timestamp now (hr_connectivity r),
      hr_speed = prune_entries sd_timestamp now (hr_speed r)\<rparr>"

definition prune_node_history_map :: "int \<Rightarrow> history_map \<Rightarrow> history_map" where
  "prune_node_history_map now h =
     filter (\<lambda>(_, r). r \<noteq> empty_history_record) (map (\<lambda>(i, r). (i, prune_record now r)) h)"

definition merge_node_history_records ::
    "int \<Rightarrow> history_record option \<Rightarrow> history_record option \<Rightarrow> history_record" where
  "merge_node_history_records now primary secondary =
     (let p = or_else primary empty_history_record; s = or_else secondary empty_history_record;
          merged = \<lparr>hr_connectivity = hr_connectivity p @ hr_connectivity s, hr_speed = hr_speed p @ hr_speed s\<rparr>
      in or_else (map_of (prune_node_history_map now [(''merged'', merged)]) ''merged'') empty_history_record)"

subsection \<open>The store\<close>

record history_state =
  hi_map :: history_map
  hi_loaded :: bool
  hi_reading :: bool
  hi_disk :: history_map

text \<open>\<open>loadNodeHistory\<close> up to the \<open>await\<close>, and from there on.\<close>

definition load_begin :: "history_state \<Rightarrow> history_state" where
  "load_begin s = (if hi_loaded s then s else s\<lparr>hi_loaded := True, hi_reading := True\<rparr>)"

definition load_end :: "int \<Rightarrow> history_state \<Rightarrow> history_state" where
  "load_end now s = (if hi_reading s
     then s\<lparr>hi_map := prune_node_history_map now (hi_disk s), hi_reading := False\<rparr> else s)"

text \<open>\<open>await loadNodeHistory()\<close> of a caller: it waits for its own read, but not for one that an earlier
  caller has begun.\<close>

definition load_node_history :: "int \<Rightarrow> history_state \<Rightarrow> history_state" where
  "load_node_history now s = (if hi_loaded s then s else load_end now (load_begin s))"

definition save_node_history_immediate :: "int \<Rightarrow> history_state \<Rightarrow> history_state" where
  "save_node_history_immediate now s =
     (let pruned = prune_node_history_map now (hi_map s) in s\<lparr>hi_map := pruned, hi_disk := pruned\<rparr>)"

definition update_node_history ::
    "int \<Rightarrow> string \<Rightarrow> (history_record \<Rightarrow> history_record) \<Rightarrow> history_state \<Rightarrow> history_state" where
  "update_node_history now i updater s =
     (let s' = load_node_history now s; current = or_else (map_of (hi_map s') i) empty_history_record
      in s'\<lparr>hi_map := AList.update i (updater current) (hi_map s')\<rparr>)"

definition clear_node_history :: "int \<Rightarrow> string option \<Rightarrow> history_state \<Rightarrow> history_state" where
  "clear_node_history now i s =
     (let s' = load_node_history now s
      in save_node_history_immediate now
           (s'\<lparr>hi_map := (if truthy_s i then AList.delete (or_else i '''') (hi_map s') else [])\<rparr>))"

definition migrate_node_history :: "int \<Rightarrow> string \<Rightarrow> string \<Rightarrow> history_state \<Rightarrow> bool \<times> history_state" where
  "migrate_node_history now src dst s =
     (if src = '''' \<or> dst = '''' \<or> src = dst then (False, s)
      else let s' = load_node_history now s
        in (case map_of (hi_map s') src of
             None \<Rightarrow> (False, s')
           | Some source \<Rightarrow>
               let merged = merge_node_history_records now (Some source) (map_of (hi_map s') dst)
               in (True, save_node_history_immediate now
                     (s'\<lparr>hi_map := AList.update dst merged (AList.delete src (hi_map s'))\<rparr>))))"

definition record_connectivity_sample ::
    "int \<Rightarrow> string \<Rightarrow> conn_status \<Rightarrow> conn_result option \<Rightarrow> history_state \<Rightarrow> history_state" where
  "record_connectivity_sample now i st res =
     update_node_history now i (\<lambda>r. r\<lparr>hr_connectivity := hr_connectivity r @
       [\<lparr>ct_timestamp = now, ct_status = st, ct_targetStatus = Option.bind res cr_targetStatus,
         ct_portsOpen = Option.bind res cr_portsOpen\<rparr>]\<rparr>)"

definition record_speed_sample ::
    "int \<Rightarrow> string \<Rightarrow> rat option \<Rightarrow> string \<Rightarrow> string option \<Rightarrow> history_state \<Rightarrow> history_state" where
  "record_speed_sample now i mbps st err =
     update_node_history now i (\<lambda>r. r\<lparr>hr_speed := hr_speed r @
       [\<lparr>sd_timestamp = now, sd_mbps = mbps, sd_status = st, sd_error = err\<rparr>]\<rparr>)"

subsection \<open>Bounds\<close>

definition entries_ok :: "('a \<Rightarrow> int) \<Rightarrow> int \<Rightarrow> 'a list \<Rightarrow> bool" where
  "entries_ok ts now es \<longleftrightarrow> length es \<le> history_max_samples \<and> sorted (map ts es)
     \<and> list_all (\<lambda>e. now - ts e \<le> history_retention_ms) es"

lemma sorted_take_last: "sorted xs \<Longrightarrow> sorted (take_last n xs)"
  by (simp add: take_last_def sorted_wrt_drop)

lemma map_take_last: "map f (take_last n xs) = take_last n (map f xs)"
  by (simp add: take_last_def drop_map)

lemma prune_entries_ok: "entries_ok ts now (prune_entries ts now es)"
  unfolding entries_ok_def prune_entries_def list_all_iff
  by (auto simp: map_take_last sorted_take_last dest: subsetD [OF set_take_last_subset])

lemma prune_entries_fixed: "entries_ok ts now es \<Longrightarrow> prune_entries ts now es = es"
proof -
  assume ok: "entries_ok ts now es"
  then have "filter (\<lambda>e. now - ts e \<le> history_retention_ms) es = es"
    by (auto simp: entries_ok_def list_all_iff intro: filter_True)
  moreover have "sort_key ts es = es" using ok by (simp add: entries_ok_def sorted_sort_id sort_key_id_if_sorted)
  ultimately show ?thesis using ok by (simp add: prune_entries_def entries_ok_def take_last_all)
qed

definition record_ok :: "int \<Rightarrow> history_record \<Rightarrow> bool" where
  "record_ok now r \<longleftrightarrow> entries_ok ct_timestamp now (hr_connectivity r)
     \<and> entries_ok sd_timestamp now (hr_speed r) \<and> r \<noteq> empty_history_record"

lemma prune_map_ok: "list_all (\<lambda>(i, r). record_ok now r) (prune_node_history_map now h)"
  by (auto simp: prune_node_history_map_def list_all_iff record_ok_def prune_record_def prune_entries_ok)

lemma prune_map_fixed:
  "list_all (\<lambda>(i, r). record_ok now r) h \<Longrightarrow> prune_node_history_map now h = h"
proof (induction h)
  case Nil
  then show ?case by (simp add: prune_node_history_map_def)
next
  case (Cons ir h)
  obtain i r where ir: "ir = (i, r)" by (cases ir)
  with Cons.prems have "record_ok now r" by simp
  then have "prune_record now r = r" "r \<noteq> empty_history_record"
    by (simp_all add: prune_record_def record_ok_def prune_entries_fixed)
  with Cons ir show ?case by (simp add: prune_node_history_map_def)
qed

interpretation history_pruning: normalizer "prune_node_history_map now"
  by unfold_locales (rule prune_map_fixed [OF prune_map_ok])

text \<open>
  A saved history is bounded: whatever the state, what a save leaves in memory and in the file is the
  same, every node in it has a sample, at most 512 of each kind, none older than seven days, in the order
  of time; and saving again at the same time changes nothing.
\<close>

theorem saved_history_bounded:
  "list_all (\<lambda>(i, r). record_ok now r) (hi_disk (save_node_history_immediate now s))
   \<and> hi_map (save_node_history_immediate now s) = hi_disk (save_node_history_immediate now s)
   \<and> save_node_history_immediate now (save_node_history_immediate now s) = save_node_history_immediate now s"
  using prune_map_ok [of now "hi_map s"] prune_map_fixed [OF prune_map_ok, of now "hi_map s"]
  by (simp add: save_node_history_immediate_def Let_def)

subsection \<open>Migration\<close>

lemma map_of_prune:
  "distinct (map fst h) \<Longrightarrow> map_of (prune_node_history_map now h) i =
     (case map_of h i of None \<Rightarrow> None
      | Some r \<Rightarrow> if prune_record now r = empty_history_record then None else Some (prune_record now r))"
proof (induction h)
  case Nil
  then show ?case by (simp add: prune_node_history_map_def)
next
  case (Cons ir h)
  obtain j r where ir: "ir = (j, r)" by (cases ir)
  have not: "j \<notin> fst ` set h" using Cons.prems ir by simp
  then have none: "map_of h j = None" by (simp add: map_of_eq_None_iff)
  have step: "prune_node_history_map now (ir # h) =
      (if prune_record now r = empty_history_record then [] else [(j, prune_record now r)]) @ prune_node_history_map now h"
    using ir by (simp add: prune_node_history_map_def)
  show ?case
  proof (cases "i = j")
    case True
    with Cons none step ir show ?thesis by simp
  next
    case False
    with Cons step ir show ?thesis by simp
  qed
qed

lemma take_last_long: "length xs \<le> history_max_samples \<Longrightarrow>
    set (take_last history_max_samples xs) = set xs"
  by (simp add: take_last_all)

definition recent :: "int \<Rightarrow> history_record \<Rightarrow> conn_sample set \<times> speed_sample set" where
  "recent now r = ({e \<in> set (hr_connectivity r). now - ct_timestamp e \<le> history_retention_ms},
                   {e \<in> set (hr_speed r). now - sd_timestamp e \<le> history_retention_ms})"

text \<open>
  When a node gets a new instance id, its recent history moves with it: after a migration the old id
  has no history, the new one has exactly the samples of the last seven days of both (as long as they are
  at most 512 of each kind), and every other node keeps its own.
\<close>

theorem migration_moves_history:
  assumes "distinct (map fst (hi_map s))" and "hi_loaded s"
    and "src \<noteq> ''''" "dst \<noteq> ''''" "src \<noteq> dst" and "map_of (hi_map s) src = Some r"
    and "length (hr_connectivity r) + length (hr_connectivity (or_else (map_of (hi_map s) dst) empty_history_record))
          \<le> history_max_samples"
    and "length (hr_speed r) + length (hr_speed (or_else (map_of (hi_map s) dst) empty_history_record))
          \<le> history_max_samples"
    and "migrate_node_history now src dst s = (moved, t)"
  shows "moved \<and> map_of (hi_map t) src = None
    \<and> set (hr_connectivity (or_else (map_of (hi_map t) dst) empty_history_record))
        = fst (recent now r) \<union> fst (recent now (or_else (map_of (hi_map s) dst) empty_history_record))
    \<and> set (hr_speed (or_else (map_of (hi_map t) dst) empty_history_record))
        = snd (recent now r) \<union> snd (recent now (or_else (map_of (hi_map s) dst) empty_history_record))
    \<and> (\<forall>i. i \<noteq> src \<longrightarrow> i \<noteq> dst \<longrightarrow>
         map_of (hi_map t) i = map_of (prune_node_history_map now (hi_map s)) i)"
proof -
  let ?d = "or_else (map_of (hi_map s) dst) empty_history_record"
  let ?both = "\<lparr>hr_connectivity = hr_connectivity r @ hr_connectivity ?d, hr_speed = hr_speed r @ hr_speed ?d\<rparr>"
  let ?m = "prune_record now ?both"
  have merged: "merge_node_history_records now (Some r) (map_of (hi_map s) dst) = ?m"
    by (simp add: merge_node_history_records_def Let_def prune_node_history_map_def)
  let ?next = "AList.update dst ?m (AList.delete src (hi_map s))"
  have t: "moved" "hi_map t = prune_node_history_map now ?next"
    using assms(2-6,9) merged
    by (auto simp: migrate_node_history_def load_node_history_def save_node_history_immediate_def Let_def)
  have dist: "distinct (map fst ?next)"
    using assms(1) by (simp add: distinct_update distinct_delete)
  have mfix: "prune_record now ?m = ?m"
    by (simp add: prune_record_def prune_entries_fixed prune_entries_ok)
  have get: "map_of ?next i = (if i = dst then Some ?m else if i = src then None else map_of (hi_map s) i)" for i
    by (auto simp: dict_get_update dict_get_delete)
  have dst: "or_else (map_of (hi_map t) dst) empty_history_record = ?m"
    unfolding t(2) map_of_prune [OF dist] get by (simp add: mfix)
  have all: "set (prune_entries ts now es) = {e \<in> set es. now - ts e \<le> history_retention_ms}"
    if "length es \<le> history_max_samples" for ts :: "'b \<Rightarrow> int" and es
    unfolding prune_entries_def
    by (subst take_last_long) (use that le_trans [OF length_filter_le] in auto)
  have "set (hr_connectivity ?m) = fst (recent now r) \<union> fst (recent now ?d)"
    using all [of "hr_connectivity r @ hr_connectivity ?d" ct_timestamp] assms(7)
    by (auto simp: prune_record_def recent_def)
  moreover have "set (hr_speed ?m) = snd (recent now r) \<union> snd (recent now ?d)"
    using all [of "hr_speed r @ hr_speed ?d" sd_timestamp] assms(8)
    by (auto simp: prune_record_def recent_def)
  moreover have "map_of (hi_map t) src = None"
    unfolding t(2) map_of_prune [OF dist] get using assms(5) by simp
  moreover have "map_of (hi_map t) i = map_of (prune_node_history_map now (hi_map s)) i" if "i \<noteq> src" "i \<noteq> dst" for i
    unfolding t(2) map_of_prune [OF dist] map_of_prune [OF assms(1)] get using that by simp
  ultimately show ?thesis using t(1) dst by simp
qed

definition sample_at :: "int \<Rightarrow> conn_sample" where
  "sample_at t = \<lparr>ct_timestamp = t, ct_status = CsReachable, ct_targetStatus = None, ct_portsOpen = None\<rparr>"

definition two_nodes :: history_state where
  "two_nodes = \<lparr>hi_map = [(''old'', \<lparr>hr_connectivity = [sample_at 5], hr_speed = []\<rparr>),
                          (''new'', \<lparr>hr_connectivity = [sample_at 9], hr_speed = []\<rparr>)],
     hi_loaded = True, hi_reading = False, hi_disk = []\<rparr>"

theorem migration_moves_history_witness:
  "map_of (hi_map (snd (migrate_node_history 10 ''old'' ''new'' two_nodes))) ''old'' = None
   \<and> set (hr_connectivity (or_else (map_of (hi_map (snd (migrate_node_history 10 ''old'' ''new'' two_nodes))) ''new'')
         empty_history_record)) = {sample_at 5, sample_at 9}"
proof -
  let ?r = "\<lparr>hr_connectivity = [sample_at 5], hr_speed = []\<rparr>"
  let ?d = "\<lparr>hr_connectivity = [sample_at 9], hr_speed = []\<rparr>"
  have hyps: "distinct (map fst (hi_map two_nodes))" "hi_loaded two_nodes" "''old'' \<noteq> ''''" "''new'' \<noteq> ''''"
    "''old'' \<noteq> ''new''" "map_of (hi_map two_nodes) ''old'' = Some ?r"
    by (simp_all add: two_nodes_def)
  have dst: "or_else (map_of (hi_map two_nodes) ''new'') empty_history_record = ?d" by (simp add: two_nodes_def)
  have len: "length (hr_connectivity ?r) + length (hr_connectivity (or_else (map_of (hi_map two_nodes) ''new'')
      empty_history_record)) \<le> history_max_samples"
    "length (hr_speed ?r) + length (hr_speed (or_else (map_of (hi_map two_nodes) ''new'')
      empty_history_record)) \<le> history_max_samples"
    unfolding dst by (simp_all add: history_max_samples_def)
  have "migrate_node_history 10 ''old'' ''new'' two_nodes = (fst (migrate_node_history 10 ''old'' ''new'' two_nodes),
      snd (migrate_node_history 10 ''old'' ''new'' two_nodes))" by simp
  note m = migration_moves_history [OF hyps len this, unfolded dst]
  have "fst (recent 10 ?r) = {sample_at 5}" "fst (recent 10 ?d) = {sample_at 9}"
    by (auto simp: recent_def sample_at_def history_retention_ms_def)
  then have "fst (recent 10 ?r) \<union> fst (recent 10 ?d) = {sample_at 5, sample_at 9}" by (simp only:) blast
  with m show ?thesis by (elim conjE) (intro conjI; simp only:)
qed

subsection \<open>The race of loading\<close>

text \<open>
  A sample recorded while the file is still being read is lost: a first caller has begun to read, so
  the history counts as loaded; a sample that is recorded then goes into the empty map, and the end of
  the read replaces the map by the content of the file.
\<close>

theorem sample_during_load_is_lost:
  assumes "\<not> hi_loaded s"
  shows "hi_map (load_end later (record_connectivity_sample now i st res (load_begin s)))
      = prune_node_history_map later (hi_disk s)
    \<and> i \<in> fst ` set (hi_map (record_connectivity_sample now i st res (load_begin s)))"
proof -
  let ?b = "load_begin s"
  have b: "hi_loaded ?b" "hi_reading ?b" "hi_disk ?b = hi_disk s"
    using assms by (simp_all add: load_begin_def)
  define upd :: "history_record \<Rightarrow> history_record" where "upd = (\<lambda>r. r\<lparr>hr_connectivity := hr_connectivity r @
       [\<lparr>ct_timestamp = now, ct_status = st, ct_targetStatus = Option.bind res cr_targetStatus,
         ct_portsOpen = Option.bind res cr_portsOpen\<rparr>]\<rparr>)"
  have rec: "record_connectivity_sample now i st res ?b = ?b\<lparr>hi_map :=
      AList.update i (upd (or_else (map_of (hi_map ?b) i) empty_history_record)) (hi_map ?b)\<rparr>"
    using b(1) by (simp add: record_connectivity_sample_def update_node_history_def load_node_history_def upd_def Let_def)
  have "i \<in> fst ` set (AList.update i v d)" for v and d :: history_map
    by (induction d) auto
  then show ?thesis using b unfolding rec by (simp add: load_end_def)
qed

definition unread :: history_state where
  "unread = \<lparr>hi_map = [], hi_loaded = False, hi_reading = False, hi_disk = []\<rparr>"

theorem sample_during_load_is_lost_witness:
  "hi_map (load_end 11 (record_connectivity_sample 10 ''n'' CsReachable None (load_begin unread))) = []"
proof -
  have "\<not> hi_loaded unread" by (simp add: unread_def)
  from sample_during_load_is_lost [OF this, of 11 10 "''n''" CsReachable None]
  show ?thesis by (simp add: unread_def prune_node_history_map_def)
qed

end
