(* ===== verification/SmartRouting.thy ===== *)
theory SmartRouting
  imports CloudNode
begin

text \<open>
  \<open>stores/cloud/smartRouting.ts\<close>: the managed ("smart") outbounds and rules that are derived from the
  cloud subscriptions of a profile. The code changes the profile object in place; here every
  operation returns the changed profile. The component has one entry point, \<open>ensureSmartAutoRouting\<close>,
  which first removes everything it manages and then rebuilds it from what is left.
\<close>

subsection \<open>Outbound helpers\<close>

text \<open>The first outbound with the id, as \<open>profile.outbounds.find\<close> returns it.\<close>

definition find_outbound :: "outbound list \<Rightarrow> string \<Rightarrow> outbound option" where
  "find_outbound obs i = List.find (\<lambda>ob. ob_id ob = i) obs"

text \<open>
  \<open>ensureOutbound\<close> returns a reference to an outbound of the profile, whose further fields the caller
  then assigns. The assignments are the argument \<open>conf\<close>, applied to that outbound.
\<close>

definition ensure_outbound ::
    "string \<Rightarrow> string \<Rightarrow> outbound_type \<Rightarrow> (outbound \<Rightarrow> outbound) \<Rightarrow> outbound list \<Rightarrow> outbound list" where
  "ensure_outbound i tag ty conf obs =
     (let obs' = (if find_outbound obs i = None then obs @ [default_outbound i] else obs)
      in map_first (\<lambda>ob. ob_id ob = i)
           (\<lambda>ob. conf (ob\<lparr>ob_id := i, ob_tag := tag, ob_type := ty, ob_interrupt := True\<rparr>)) obs')"

record sub_entry =
  se_id :: string
  se_tag :: string
  se_instanceId :: string
  se_managedExclude :: string

definition entry_ref :: "sub_entry \<Rightarrow> proxy_ref" where
  "entry_ref e = \<lparr>px_id = se_id e, px_type = ''Subscription'', px_tag = se_tag e,
                  px_meta = Some (se_instanceId e, se_managedExclude e)\<rparr>"

definition sync_subscription_entries :: "sub_entry list \<Rightarrow> outbound \<Rightarrow> outbound" where
  "sync_subscription_entries entries ob =
     ob\<lparr>ob_outbounds := filter (\<lambda>c. px_type c \<noteq> ''Subscription'') (ob_outbounds ob)
                        @ map entry_ref entries\<rparr>"

definition sync_built_in_entries :: "(string \<times> string) list \<Rightarrow> outbound \<Rightarrow> outbound" where
  "sync_built_in_entries entries ob =
     ob\<lparr>ob_outbounds := filter (\<lambda>c. px_type c \<noteq> ''Built-in'') (ob_outbounds ob)
                        @ map (\<lambda>(i, t). built_in i t) entries\<rparr>"

text \<open>\<open>find(...)?.tag || id\<close>.\<close>

definition find_outbound_tag :: "outbound list \<Rightarrow> string \<Rightarrow> string" where
  "find_outbound_tag obs i = opt_or (map_option ob_tag (find_outbound obs i)) i"

definition upsert_built_in_child :: "proxy_ref \<Rightarrow> nat \<Rightarrow> outbound \<Rightarrow> outbound" where
  "upsert_built_in_child child index ob =
     (let cur = ob_outbounds ob;
          cur' = (case find_index (\<lambda>c. px_id c = px_id child \<and> px_type c = ''Built-in'') cur of
                    Some k \<Rightarrow> remove_at k cur
                  | None \<Rightarrow> cur)
      in ob\<lparr>ob_outbounds := (if index \<le> length cur' then insert_at index child cur'
                             else cur' @ [child])\<rparr>)"

subsection \<open>Subscriptions of a profile\<close>

definition is_cloud_child :: "proxy_ref \<Rightarrow> bool" where
  "is_cloud_child c \<longleftrightarrow>
     px_type c = ''Subscription'' \<and> px_id c \<noteq> '''' \<and> starts_with (px_id c) cloud_prefix"

definition child_entry :: "health_map \<Rightarrow> proxy_ref \<Rightarrow> sub_entry" where
  "child_entry hm c =
     (let iid = cloud_instance_id_from_subscription_ref (px_id c)
      in \<lparr>se_id = px_id c, se_tag = str_or (px_tag c) (px_id c), se_instanceId = iid,
          se_managedExclude = derive_managed_exclude (map_of hm iid)\<rparr>)"

text \<open>The children a managed group is built from: those of the user's selector and urltest outbounds.\<close>

definition source_children :: "outbound list \<Rightarrow> proxy_ref list" where
  "source_children obs =
     concat (map (\<lambda>ob. filter is_cloud_child (ob_outbounds ob))
       (filter (\<lambda>ob. \<not> is_managed_outbound_id (ob_id ob) \<and> ob_type ob \<in> {OutSelector, OutUrltest}) obs))"

definition collect_subscription_entries :: "outbound list \<Rightarrow> health_map \<Rightarrow> sub_entry list" where
  "collect_subscription_entries obs hm =
     map snd (fold (\<lambda>c. AList.update (px_id c) (child_entry hm c)) (source_children obs) [])"

subsection \<open>Link aggregation\<close>

definition multi_path_block :: "bool \<Rightarrow> listen_block \<Rightarrow> listen_block" where
  "multi_path_block on b = b\<lparr>lb_listen := (lb_listen b)\<lparr>ls_tcp_multi_path := on\<rparr>\<rparr>"

definition set_multi_path :: "bool \<Rightarrow> inbound \<Rightarrow> inbound" where
  "set_multi_path on ib =
     (if in_type ib \<in> {InMixed, InSocks, InHttp} then in_block_update (multi_path_block on) ib
      else ib)"

definition ensure_link_aggregation :: "nat \<Rightarrow> profile \<Rightarrow> profile" where
  "ensure_link_aggregation count p =
     p\<lparr>pf_inbounds := map (set_multi_path (2 \<le> count)) (pf_inbounds p),
       pf_route := (pf_route p)\<lparr>rt_auto_detect_interface := False\<rparr>\<rparr>"

subsection \<open>The managed outbounds\<close>

definition node_auto_tag :: "sub_entry \<Rightarrow> string" where
  "node_auto_tag e = ''Cloud Node '' @ se_tag e @ '' Best Auto''"

definition node_auto_ref :: "sub_entry \<Rightarrow> string \<times> string" where
  "node_auto_ref e = (node_smart_outbound_id (se_instanceId e), node_auto_tag e)"

definition ensure_node_auto :: "sub_entry \<Rightarrow> outbound list \<Rightarrow> outbound list" where
  "ensure_node_auto e = ensure_outbound (node_smart_outbound_id (se_instanceId e)) (node_auto_tag e)
     OutUrltest
     (\<lambda>ob. (sync_subscription_entries [e] ob)
        \<lparr>ob_url := probe_url_primary, ob_include := include_node_best,
         ob_exclude := se_managedExclude e, ob_interval := str_or (ob_interval ob) ''75s'',
         ob_tolerance := max 65 (ob_tolerance ob)\<rparr>)"

definition conf_global ::
    "(outbound \<Rightarrow> outbound) \<Rightarrow> string \<Rightarrow> string \<Rightarrow> string \<Rightarrow> int \<Rightarrow> outbound \<Rightarrow> outbound" where
  "conf_global sync url incl interval tol ob =
     (sync ob)\<lparr>ob_url := url, ob_include := incl, ob_exclude := '''',
               ob_interval := str_or (ob_interval ob) interval,
               ob_tolerance := max tol (ob_tolerance ob)\<rparr>"

definition ensure_auto :: "(string \<times> string) list \<Rightarrow> outbound list \<Rightarrow> outbound list" where
  "ensure_auto refs = ensure_outbound smart_auto ''Cloud Smart Best Auto'' OutUrltest
     (conf_global (sync_built_in_entries refs) probe_url_primary '''' ''2m'' 80)"

definition ensure_tcp_primary :: "(string \<times> string) list \<Rightarrow> outbound list \<Rightarrow> outbound list" where
  "ensure_tcp_primary refs = ensure_outbound smart_tcp_primary ''Cloud Smart Best TCP Auto'' OutUrltest
     (conf_global (sync_built_in_entries refs) probe_url_primary '''' ''90s'' 70)"

definition ensure_tcp_secondary :: "(string \<times> string) list \<Rightarrow> outbound list \<Rightarrow> outbound list" where
  "ensure_tcp_secondary refs = ensure_outbound smart_tcp_secondary ''Cloud Smart Best Web Auto'' OutUrltest
     (conf_global (sync_built_in_entries refs) probe_url_secondary '''' ''90s'' 85)"

definition ensure_udp_auto :: "sub_entry list \<Rightarrow> outbound list \<Rightarrow> outbound list" where
  "ensure_udp_auto subs = ensure_outbound smart_udp_auto ''Cloud Smart SS UDP Auto'' OutUrltest
     (conf_global (sync_subscription_entries subs) probe_url_secondary include_udp ''2m'' 100)"

definition ensure_hysteria_auto :: "sub_entry list \<Rightarrow> outbound list \<Rightarrow> outbound list" where
  "ensure_hysteria_auto subs = ensure_outbound smart_hysteria_auto ''Cloud Smart Hysteria Backup'' OutUrltest
     (conf_global (sync_subscription_entries subs) probe_url_secondary include_hysteria ''2m'' 120)"

text \<open>The outbounds in the order of the code: one per subscription, then the five global ones.\<close>

definition build_managed_outbounds :: "sub_entry list \<Rightarrow> outbound list \<Rightarrow> outbound list" where
  "build_managed_outbounds subs obs =
     (let refs = map node_auto_ref subs
      in ensure_hysteria_auto subs (ensure_udp_auto subs (ensure_tcp_secondary refs
           (ensure_tcp_primary refs (ensure_auto refs (fold ensure_node_auto subs obs))))))"

subsection \<open>The managed rules\<close>

definition managed_rules :: "rule list" where
  "managed_rules =
     [route_rule rule_tcp443 RtPort ''443'' ActRoute smart_tcp_primary,
      route_rule rule_tcp_web RtPort ''80,8080'' ActRoute smart_tcp_secondary,
      route_rule rule_udp RtNetwork ''udp'' ActRoute smart_udp_auto]"

text \<open>The loop from the end of the rules: the index of the last rule that goes to direct.\<close>

fun last_index :: "('a \<Rightarrow> bool) \<Rightarrow> 'a list \<Rightarrow> nat option" where
  "last_index p [] = None"
| "last_index p (x # xs) = (case last_index p xs of
     Some k \<Rightarrow> Some (Suc k)
   | None \<Rightarrow> if p x then Some 0 else None)"

definition is_direct_rule :: "rule \<Rightarrow> bool" where
  "is_direct_rule r \<longleftrightarrow> rl_outbound r = id_direct"

definition insert_managed_rules :: "rule list \<Rightarrow> rule list" where
  "insert_managed_rules rs = (case last_index is_direct_rule rs of
      Some k \<Rightarrow> take (Suc k) rs @ managed_rules @ drop (Suc k) rs
    | None \<Rightarrow> rs @ managed_rules)"

subsection \<open>Final outbound and fallback group\<close>

definition auto_managed_final_ids :: "string list" where
  "auto_managed_final_ids =
     ['''', id_fallback, ''outbound-urlte'', ''outbound-select'', smart_auto] @ legacy_outbound_ids"

definition smart_final :: "string \<Rightarrow> string" where
  "smart_final f = (if f \<in> set auto_managed_final_ids then smart_auto else f)"

text \<open>The loop over \<open>smartOutboundRefs\<close>: the five global outbounds become the first children of the
  fallback group, in this order.\<close>

definition wire_fallback_children :: "outbound list \<Rightarrow> outbound \<Rightarrow> outbound" where
  "wire_fallback_children obs ob =
     fold (\<lambda>(k, i). upsert_built_in_child (built_in i (find_outbound_tag obs i)) k)
       (enumerate 0 smart_outbound_ids) ob"

definition wire_fallback :: "outbound list \<Rightarrow> outbound list" where
  "wire_fallback obs = (case find_outbound obs id_fallback of
      None \<Rightarrow> obs
    | Some fb \<Rightarrow> if ob_type fb = OutSelector
        then map_first (\<lambda>ob. ob_id ob = id_fallback) (wire_fallback_children obs) obs
        else obs)"

subsection \<open>The entry point\<close>

definition is_managed_rule :: "rule \<Rightarrow> bool" where
  "is_managed_rule r \<longleftrightarrow> rl_id r \<in> set (smart_rule_ids @ legacy_rule_ids)
     \<or> is_managed_outbound_id (rl_outbound r)"

definition clean_children :: "outbound \<Rightarrow> outbound" where
  "clean_children ob =
     ob\<lparr>ob_outbounds := filter (\<lambda>c. \<not> is_managed_outbound_id (px_id c)) (ob_outbounds ob)\<rparr>"

definition clean_outbounds :: "outbound list \<Rightarrow> outbound list" where
  "clean_outbounds obs =
     map clean_children (filter (\<lambda>ob. \<not> is_managed_outbound_id (ob_id ob)) obs)"

definition clean_profile :: "profile \<Rightarrow> profile" where
  "clean_profile p =
     p\<lparr>pf_outbounds := clean_outbounds (pf_outbounds p),
       pf_route := (pf_route p)\<lparr>rt_rules := filter (\<lambda>r. \<not> is_managed_rule r) (rt_rules (pf_route p))\<rparr>\<rparr>"

definition add_smart_routing :: "sub_entry list \<Rightarrow> profile \<Rightarrow> profile" where
  "add_smart_routing subs p =
     p\<lparr>pf_outbounds := wire_fallback (build_managed_outbounds subs (pf_outbounds p)),
       pf_route := (pf_route p)
         \<lparr>rt_rules := insert_managed_rules (rt_rules (pf_route p)),
          rt_final := smart_final (rt_final (pf_route p))\<rparr>\<rparr>"

definition ensure_smart_auto_routing :: "health_map \<Rightarrow> profile \<Rightarrow> profile" where
  "ensure_smart_auto_routing hm p =
     (let q = clean_profile p;
          subs = collect_subscription_entries (pf_outbounds q) hm;
          q' = ensure_link_aggregation (length subs) q
      in if subs = [] then q' else add_smart_routing subs q')"


subsection \<open>Which identifiers are managed\<close>

lemma managed_ids [route_simps]:
  "is_managed_outbound_id smart_auto" "is_managed_outbound_id smart_tcp_primary"
  "is_managed_outbound_id smart_tcp_secondary" "is_managed_outbound_id smart_udp_auto"
  "is_managed_outbound_id smart_hysteria_auto"
  by (simp_all add: is_managed_outbound_id_def smart_outbound_ids_def)

lemma managed_node_id [route_simps]: "is_managed_outbound_id (node_smart_outbound_id i)"
  by (simp add: is_managed_outbound_id_def node_smart_outbound_id_def)

lemma unmanaged_ids [route_simps]:
  "\<not> is_managed_outbound_id id_fallback" "\<not> is_managed_outbound_id id_direct"
  by code_simp+

lemma managed_rules_managed: "r \<in> set managed_rules \<Longrightarrow> is_managed_rule r"
  by (auto simp: managed_rules_def is_managed_rule_def route_rule_def smart_rule_ids_def)

lemma managed_rules_not_direct: "r \<in> set managed_rules \<Longrightarrow> \<not> is_direct_rule r"
proof -
  have "smart_tcp_primary \<noteq> id_direct" "smart_tcp_secondary \<noteq> id_direct" "smart_udp_auto \<noteq> id_direct"
    by code_simp+
  then show "r \<in> set managed_rules \<Longrightarrow> \<not> is_direct_rule r"
    by (auto simp: managed_rules_def is_direct_rule_def route_rule_def)
qed

subsection \<open>Building the outbounds next to unmanaged ones\<close>

definition unmanaged :: "outbound list \<Rightarrow> bool" where
  "unmanaged obs \<longleftrightarrow> (\<forall>ob \<in> set obs. \<not> is_managed_outbound_id (ob_id ob))"

lemma map_first_append:
  "(\<And>x. x \<in> set xs \<Longrightarrow> \<not> p x) \<Longrightarrow> map_first p f (xs @ ys) = xs @ map_first p f ys"
  by (induction xs) auto

lemma map_first_append_left:
  "x \<in> set xs \<Longrightarrow> p x \<Longrightarrow> map_first p f (xs @ ys) = map_first p f xs @ ys"
  by (induction xs) auto

lemma find_outbound_append:
  "(\<And>ob. ob \<in> set xs \<Longrightarrow> ob_id ob \<noteq> i) \<Longrightarrow> find_outbound (xs @ ys) i = find_outbound ys i"
  unfolding find_outbound_def by (induction xs) auto

lemma ensure_outbound_append:
  assumes "\<And>ob. ob \<in> set xs \<Longrightarrow> ob_id ob \<noteq> i"
  shows "ensure_outbound i tag ty conf (xs @ ms) = xs @ ensure_outbound i tag ty conf ms"
  using assms by (simp add: ensure_outbound_def Let_def find_outbound_append map_first_append)

lemma ensure_managed_append:
  assumes "unmanaged xs" and "is_managed_outbound_id i"
  shows "ensure_outbound i tag ty conf (xs @ ms) = xs @ ensure_outbound i tag ty conf ms"
  using assms by (intro ensure_outbound_append) (auto simp: unmanaged_def)

lemmas ensure_defs = ensure_node_auto_def ensure_auto_def ensure_tcp_primary_def
  ensure_tcp_secondary_def ensure_udp_auto_def ensure_hysteria_auto_def

lemma fold_node_auto_append:
  "unmanaged xs \<Longrightarrow> fold ensure_node_auto subs (xs @ ms) = xs @ fold ensure_node_auto subs ms"
proof (induction subs arbitrary: ms)
  case Nil
  then show ?case by simp
next
  case (Cons e subs)
  have "ensure_node_auto e (xs @ ms) = xs @ ensure_node_auto e ms"
    using Cons.prems by (simp add: ensure_defs ensure_managed_append route_simps)
  with Cons show ?case by simp
qed

lemma build_append:
  assumes "unmanaged xs"
  shows "build_managed_outbounds subs (xs @ ms) = xs @ build_managed_outbounds subs ms"
  using assms
  by (simp add: build_managed_outbounds_def Let_def fold_node_auto_append ensure_defs
      ensure_managed_append route_simps)

definition smart_outbounds :: "sub_entry list \<Rightarrow> outbound list" where
  "smart_outbounds subs = build_managed_outbounds subs []"

lemma build_eq: "unmanaged xs \<Longrightarrow> build_managed_outbounds subs xs = xs @ smart_outbounds subs"
  using build_append [of xs subs "[]"] by (simp add: smart_outbounds_def)

lemma map_first_id:
  "(\<And>x. p x \<Longrightarrow> g (f x) = g x) \<Longrightarrow> g ` set (map_first p f xs) = g ` set xs"
  by (metis list.set_map map_map_first)

lemma ensure_outbound_ids:
  assumes "\<And>ob. ob_id (conf ob) = ob_id ob"
  shows "ob_id ` set (ensure_outbound i tag ty conf obs) = insert i (ob_id ` set obs)"
proof -
  let ?obs = "if find_outbound obs i = None then obs @ [default_outbound i] else obs"
  have "ob_id ` set (ensure_outbound i tag ty conf obs) = ob_id ` set ?obs"
    unfolding ensure_outbound_def Let_def by (rule map_first_id) (simp add: assms)
  also have "\<dots> = insert i (ob_id ` set obs)"
    by (cases "find_outbound obs i")
      (auto simp: find_outbound_def default_outbound_def dest!: find_SomeD)
  finally show ?thesis .
qed

lemma conf_global_id: "(\<And>ob. ob_id (sync ob) = ob_id ob) \<Longrightarrow> ob_id (conf_global sync u i iv t ob) = ob_id ob"
  by (simp add: conf_global_def)

lemma sync_ids [simp]:
  "ob_id (sync_subscription_entries es ob) = ob_id ob"
  "ob_id (sync_built_in_entries rs ob) = ob_id ob"
  by (simp_all add: sync_subscription_entries_def sync_built_in_entries_def)

lemma ensure_ids:
  "ob_id ` set (ensure_node_auto e obs) = insert (node_smart_outbound_id (se_instanceId e)) (ob_id ` set obs)"
  "ob_id ` set (ensure_auto refs obs) = insert smart_auto (ob_id ` set obs)"
  "ob_id ` set (ensure_tcp_primary refs obs) = insert smart_tcp_primary (ob_id ` set obs)"
  "ob_id ` set (ensure_tcp_secondary refs obs) = insert smart_tcp_secondary (ob_id ` set obs)"
  "ob_id ` set (ensure_udp_auto subs obs) = insert smart_udp_auto (ob_id ` set obs)"
  "ob_id ` set (ensure_hysteria_auto subs obs) = insert smart_hysteria_auto (ob_id ` set obs)"
  unfolding ensure_defs by (rule ensure_outbound_ids; simp add: conf_global_id)+

lemma fold_node_auto_ids:
  "ob_id ` set (fold ensure_node_auto subs obs) =
     (\<lambda>e. node_smart_outbound_id (se_instanceId e)) ` set subs \<union> ob_id ` set obs"
  by (induction subs arbitrary: obs) (auto simp: ensure_ids)

lemma build_ids:
  "ob_id ` set (build_managed_outbounds subs obs) =
     set smart_outbound_ids \<union> (\<lambda>e. node_smart_outbound_id (se_instanceId e)) ` set subs
       \<union> ob_id ` set obs"
  unfolding build_managed_outbounds_def Let_def ensure_ids fold_node_auto_ids
  by (auto simp: smart_outbound_ids_def)

lemma smart_outbounds_managed: "ob \<in> set (smart_outbounds subs) \<Longrightarrow> is_managed_outbound_id (ob_id ob)"
proof -
  assume "ob \<in> set (smart_outbounds subs)"
  then have "ob_id ob \<in> ob_id ` set (build_managed_outbounds subs [])"
    by (simp add: smart_outbounds_def)
  then show ?thesis
    unfolding build_ids by (auto simp: smart_outbound_ids_def route_simps)
qed

subsection \<open>The fallback group\<close>

lemma filter_remove_at:
  "find_index q xs = Some k \<Longrightarrow> (\<And>x. q x \<Longrightarrow> \<not> p x) \<Longrightarrow> filter p (remove_at k xs) = filter p xs"
proof (induction xs arbitrary: k)
  case Nil
  then show ?case by simp
next
  case (Cons x xs)
  then show ?case by (cases "q x") (auto simp: remove_at_def)
qed

lemma clean_upsert:
  assumes "is_managed_outbound_id (px_id c)"
  shows "clean_children (upsert_built_in_child c k ob) = clean_children ob"
proof -
  let ?p = "\<lambda>c. \<not> is_managed_outbound_id (px_id c)"
  let ?q = "\<lambda>d. px_id d = px_id c \<and> px_type d = ''Built-in''"
  let ?cur = "case find_index ?q (ob_outbounds ob) of
      Some k \<Rightarrow> remove_at k (ob_outbounds ob) | None \<Rightarrow> ob_outbounds ob"
  have "filter ?p ?cur = filter ?p (ob_outbounds ob)"
    by (cases "find_index ?q (ob_outbounds ob)")
      (auto intro!: filter_remove_at [where q = ?q] simp: assms)
  then show ?thesis
    using assms
    by (simp add: clean_children_def upsert_built_in_child_def Let_def filter_insert_at)
qed

lemma built_in_id [simp]: "px_id (built_in i t) = i" "px_type (built_in i t) = ''Built-in''"
  by (simp_all add: built_in_def)

lemma clean_fold_upsert:
  "(\<And>k i. (k, i) \<in> set xs \<Longrightarrow> is_managed_outbound_id i) \<Longrightarrow>
   clean_children (fold (\<lambda>(k, i). upsert_built_in_child (built_in i (t i)) k) xs ob) = clean_children ob"
proof (induction xs arbitrary: ob)
  case Nil
  then show ?case by simp
next
  case (Cons x xs)
  obtain k i where x: "x = (k, i)" by (cases x)
  with Cons.prems have "is_managed_outbound_id i" by auto
  then have "clean_children (upsert_built_in_child (built_in i (t i)) k ob) = clean_children ob"
    by (simp add: clean_upsert)
  moreover have "clean_children (fold (\<lambda>(k, i). upsert_built_in_child (built_in i (t i)) k) xs
      (upsert_built_in_child (built_in i (t i)) k ob))
    = clean_children (upsert_built_in_child (built_in i (t i)) k ob)"
    using Cons.prems by (intro Cons.IH) auto
  ultimately show ?case using x by simp
qed

lemma smart_ids_managed: "i \<in> set smart_outbound_ids \<Longrightarrow> is_managed_outbound_id i"
  by (simp add: is_managed_outbound_id_def)

lemma clean_wire_children: "clean_children (wire_fallback_children obs ob) = clean_children ob"
  unfolding wire_fallback_children_def
  by (rule clean_fold_upsert) (auto simp: smart_outbound_ids_def route_simps)


subsection \<open>Cleaning what was built\<close>

lemma clean_outbounds_unmanaged [simp]: "unmanaged (clean_outbounds obs)"
  by (auto simp: unmanaged_def clean_outbounds_def clean_children_def)

lemma clean_children_idem [simp]: "clean_children (clean_children ob) = clean_children ob"
  by (simp add: clean_children_def)

lemma clean_children_frame [simp]:
  "ob_id (clean_children ob) = ob_id ob" "ob_type (clean_children ob) = ob_type ob"
  "ob_tag (clean_children ob) = ob_tag ob"
  by (simp_all add: clean_children_def)

definition cleaned :: "outbound list \<Rightarrow> bool" where
  "cleaned obs \<longleftrightarrow> unmanaged obs \<and> map clean_children obs = obs"

lemma cleaned_clean_outbounds [simp]: "cleaned (clean_outbounds obs)"
proof -
  have "map clean_children (clean_outbounds obs) = clean_outbounds obs"
    by (simp add: clean_outbounds_def)
  then show ?thesis by (simp add: cleaned_def)
qed

lemma wire_append:
  assumes "unmanaged xs" and "\<And>m. m \<in> set ms \<Longrightarrow> ob_id m \<noteq> id_fallback"
  obtains xs' where "wire_fallback (xs @ ms) = xs' @ ms"
    and "map clean_children xs' = map clean_children xs" and "map ob_id xs' = map ob_id xs"
proof (cases "find_outbound xs id_fallback")
  case None
  then have "\<And>ob. ob \<in> set xs \<Longrightarrow> ob_id ob \<noteq> id_fallback"
    by (auto simp: find_outbound_def find_eq_None_iff)
  moreover have "find_outbound ms id_fallback = None"
    using assms(2) by (auto simp: find_outbound_def find_eq_None_iff)
  ultimately have "wire_fallback (xs @ ms) = xs @ ms"
    by (simp add: wire_fallback_def find_outbound_append)
  then show ?thesis by (rule that) simp_all
next
  case (Some fb)
  let ?p = "\<lambda>ob. ob_id ob = id_fallback"
  let ?f = "wire_fallback_children (xs @ ms)"
  have in_xs: "fb \<in> set xs" "?p fb" and find: "find_outbound (xs @ ms) id_fallback = Some fb"
    using Some find_SomeD [of ?p xs fb] by (auto simp: find_outbound_def find_append)
  show ?thesis
  proof (cases "ob_type fb = OutSelector")
    case False
    then have "wire_fallback (xs @ ms) = xs @ ms" by (simp add: wire_fallback_def find)
    then show ?thesis by (rule that) simp_all
  next
    case True
    then have "wire_fallback (xs @ ms) = map_first ?p ?f xs @ ms"
      using map_first_append_left [of fb xs ?p ?f ms] in_xs by (simp add: wire_fallback_def find)
    moreover have "map clean_children (map_first ?p ?f xs) = map clean_children xs"
      by (rule map_map_first) (rule clean_wire_children)
    moreover have "map ob_id (map_first ?p ?f xs) = map ob_id xs"
      by (rule map_map_first) (metis clean_children_frame(1) clean_wire_children)
    ultimately show ?thesis by (rule that)
  qed
qed

lemma smart_outbounds_not_fallback: "m \<in> set (smart_outbounds subs) \<Longrightarrow> ob_id m \<noteq> id_fallback"
  using smart_outbounds_managed unmanaged_ids(1) by metis

lemma clean_wired:
  assumes "cleaned xs"
  shows "clean_outbounds (wire_fallback (build_managed_outbounds subs xs)) = xs"
proof -
  have un: "unmanaged xs" using assms by (simp add: cleaned_def)
  obtain xs' where w: "wire_fallback (xs @ smart_outbounds subs) = xs' @ smart_outbounds subs"
    and c: "map clean_children xs' = map clean_children xs" and i: "map ob_id xs' = map ob_id xs"
    by (rule wire_append [OF un smart_outbounds_not_fallback])
  have ids: "ob_id ` set xs' = ob_id ` set xs" using i by (metis list.set_map)
  have "\<forall>i \<in> ob_id ` set xs. \<not> is_managed_outbound_id i" using un by (simp add: unmanaged_def)
  then have "\<forall>ob \<in> set xs'. \<not> is_managed_outbound_id (ob_id ob)"
    unfolding ids [symmetric] by simp
  then have "filter (\<lambda>ob. \<not> is_managed_outbound_id (ob_id ob)) xs' = xs'" by simp
  moreover have "filter (\<lambda>ob. \<not> is_managed_outbound_id (ob_id ob)) (smart_outbounds subs) = []"
    using smart_outbounds_managed by (simp add: filter_empty_conv)
  ultimately have "clean_outbounds (xs' @ smart_outbounds subs) = map clean_children xs'"
    by (simp add: clean_outbounds_def)
  also have "\<dots> = xs" using c assms by (simp add: cleaned_def)
  finally show ?thesis by (simp only: build_eq [OF un] w)
qed

lemma last_index_SomeD:
  "last_index p xs = Some k \<Longrightarrow> k < length xs \<and> p (xs ! k) \<and> (\<forall>x \<in> set (drop (Suc k) xs). \<not> p x)"
proof (induction xs arbitrary: k)
  case Nil
  then show ?case by simp
next
  case (Cons x xs)
  have none: "last_index p ys = None \<Longrightarrow> \<forall>y \<in> set ys. \<not> p y" for ys
    by (induction ys) (auto split: option.splits if_splits)
  show ?case
  proof (cases "last_index p xs")
    case None
    with Cons.prems none [OF None] show ?thesis by (auto split: if_splits)
  next
    case (Some j)
    with Cons.prems Cons.IH [OF Some] show ?thesis by auto
  qed
qed

lemma last_index_None: "last_index p xs = None \<Longrightarrow> \<forall>x \<in> set xs. \<not> p x"
  by (induction xs) (auto split: option.splits if_splits)

lemma insert_managed_rules_split:
  obtains pre post where "rs = pre @ post" and "insert_managed_rules rs = pre @ managed_rules @ post"
    and "\<forall>r \<in> set post. \<not> is_direct_rule r"
    and "pre = rs \<or> (\<exists>ys r. pre = ys @ [r] \<and> is_direct_rule r)"
proof (cases "last_index is_direct_rule rs")
  case None
  then have "insert_managed_rules rs = rs @ managed_rules @ []"
    by (simp add: insert_managed_rules_def)
  then show ?thesis by (intro that [of rs "[]"]) auto
next
  case (Some k)
  note k = last_index_SomeD [OF Some]
  have "take (Suc k) rs = take k rs @ [rs ! k]" using k by (simp add: take_Suc_conv_app_nth)
  then have "take (Suc k) rs = rs \<or> (\<exists>ys r. take (Suc k) rs = ys @ [r] \<and> is_direct_rule r)"
    using k by blast
  moreover have "insert_managed_rules rs = take (Suc k) rs @ managed_rules @ drop (Suc k) rs"
    using Some by (simp add: insert_managed_rules_def)
  moreover have "\<forall>r \<in> set (drop (Suc k) rs). \<not> is_direct_rule r" using k by blast
  ultimately show ?thesis using append_take_drop_id [symmetric, of rs "Suc k"]
    by (intro that [of "take (Suc k) rs" "drop (Suc k) rs"])
qed

lemma clean_inserted_rules:
  assumes "\<forall>r \<in> set rs. \<not> is_managed_rule r"
  shows "filter (\<lambda>r. \<not> is_managed_rule r) (insert_managed_rules rs) = rs"
proof -
  obtain pre post where rs: "rs = pre @ post" and ins: "insert_managed_rules rs = pre @ managed_rules @ post"
    by (rule insert_managed_rules_split)
  have "filter (\<lambda>r. \<not> is_managed_rule r) managed_rules = []"
    using managed_rules_managed by (simp add: filter_empty_conv)
  then show ?thesis using assms unfolding ins by (simp add: rs)
qed

lemma smart_final_idem [simp]: "smart_final (smart_final f) = smart_final f"
  by (simp add: smart_final_def auto_managed_final_ids_def)

lemma set_multi_path_idem [simp]: "set_multi_path on (set_multi_path on ib) = set_multi_path on ib"
proof -
  have "multi_path_block on \<circ> multi_path_block on = multi_path_block on"
    by (rule ext) (simp add: multi_path_block_def)
  then show ?thesis by (simp add: set_multi_path_def in_block_update_comp del: in_block_update.simps)
qed

lemma clean_profile_parts:
  "cleaned (pf_outbounds (clean_profile p))"
  "\<forall>r \<in> set (rt_rules (pf_route (clean_profile p))). \<not> is_managed_rule r"
  by (simp_all add: clean_profile_def)

lemma link_parts [simp]:
  "pf_outbounds (ensure_link_aggregation n p) = pf_outbounds p"
  "rt_rules (pf_route (ensure_link_aggregation n p)) = rt_rules (pf_route p)"
  "rt_final (pf_route (ensure_link_aggregation n p)) = rt_final (pf_route p)"
  "rt_auto_detect_interface (pf_route (ensure_link_aggregation n p)) = False"
  "pf_inbounds (ensure_link_aggregation n p) = map (set_multi_path (2 \<le> n)) (pf_inbounds p)"
  by (simp_all add: ensure_link_aggregation_def)

definition linked :: "nat \<Rightarrow> profile \<Rightarrow> bool" where
  "linked n p \<longleftrightarrow> map (set_multi_path (2 \<le> n)) (pf_inbounds p) = pf_inbounds p
     \<and> \<not> rt_auto_detect_interface (pf_route p)"

lemma linked_link: "linked n (ensure_link_aggregation n p)"
  by (simp add: linked_def)

lemma link_id: "linked n p \<Longrightarrow> ensure_link_aggregation n p = p"
  by (simp add: linked_def ensure_link_aggregation_def)

lemma clean_id:
  assumes "cleaned (pf_outbounds p)" and "\<forall>r \<in> set (rt_rules (pf_route p)). \<not> is_managed_rule r"
  shows "clean_profile p = p"
proof -
  have "clean_outbounds (pf_outbounds p) = pf_outbounds p"
    using assms(1) by (simp add: clean_outbounds_def cleaned_def unmanaged_def)
  moreover have "filter (\<lambda>r. \<not> is_managed_rule r) (rt_rules (pf_route p)) = rt_rules (pf_route p)"
    using assms(2) by simp
  ultimately show ?thesis by (simp add: clean_profile_def)
qed

text \<open>Cleaning undoes the managed outbounds and rules; what stays is the final outbound.\<close>

lemma clean_add_smart:
  assumes "cleaned (pf_outbounds p)" and "\<forall>r \<in> set (rt_rules (pf_route p)). \<not> is_managed_rule r"
  shows "clean_profile (add_smart_routing subs p) =
    p\<lparr>pf_route := (pf_route p)\<lparr>rt_final := smart_final (rt_final (pf_route p))\<rparr>\<rparr>"
  using clean_wired [OF assms(1), of subs] clean_inserted_rules [OF assms(2)]
  by (simp add: add_smart_routing_def clean_profile_def)

text \<open>The subscriptions and the profile that the rebuilding starts from.\<close>

definition smart_subs :: "health_map \<Rightarrow> profile \<Rightarrow> sub_entry list" where
  "smart_subs hm p = collect_subscription_entries (clean_outbounds (pf_outbounds p)) hm"

definition smart_base :: "health_map \<Rightarrow> profile \<Rightarrow> profile" where
  "smart_base hm p = ensure_link_aggregation (length (smart_subs hm p)) (clean_profile p)"

lemma ensure_eq:
  "ensure_smart_auto_routing hm p =
    (if smart_subs hm p = [] then smart_base hm p
     else add_smart_routing (smart_subs hm p) (smart_base hm p))"
  by (simp add: ensure_smart_auto_routing_def Let_def smart_base_def smart_subs_def clean_profile_def)

lemma smart_base_parts:
  "cleaned (pf_outbounds (smart_base hm p))"
  "\<forall>r \<in> set (rt_rules (pf_route (smart_base hm p))). \<not> is_managed_rule r"
  "linked (length (smart_subs hm p)) (smart_base hm p)"
  "pf_outbounds (smart_base hm p) = clean_outbounds (pf_outbounds p)"
  "rt_rules (pf_route (smart_base hm p)) = filter (\<lambda>r. \<not> is_managed_rule r) (rt_rules (pf_route p))"
  "rt_final (pf_route (smart_base hm p)) = rt_final (pf_route p)"
  by (simp_all add: smart_base_def linked_link, simp_all add: clean_profile_def)

lemma smart_again:
  assumes "clean_profile r = q" and "pf_outbounds q = clean_outbounds (pf_outbounds p)"
    and "linked (length (smart_subs hm p)) q"
  shows "smart_subs hm r = smart_subs hm p" and "smart_base hm r = q"
proof -
  have "clean_outbounds (pf_outbounds r) = pf_outbounds q"
    using assms(1) by (auto simp: clean_profile_def)
  then show subs: "smart_subs hm r = smart_subs hm p"
    by (simp add: smart_subs_def assms(2))
  show "smart_base hm r = q"
    unfolding smart_base_def subs assms(1) using assms(3) by (rule link_id)
qed

subsection \<open>What the managed parts refer to\<close>

lemma set_map_first: "x \<in> set (map_first p f xs) \<Longrightarrow> x \<in> set xs \<or> (\<exists>y \<in> set xs. p y \<and> x = f y)"
  by (induction xs) (auto split: if_splits)

lemma ensure_outbound_all:
  assumes "\<forall>ob \<in> set obs. P ob" and "P (default_outbound i)"
    and "\<And>ob. P ob \<Longrightarrow> P (conf (ob\<lparr>ob_id := i, ob_tag := tag, ob_type := ty, ob_interrupt := True\<rparr>))"
  shows "\<forall>ob \<in> set (ensure_outbound i tag ty conf obs). P ob"
proof
  fix ob assume "ob \<in> set (ensure_outbound i tag ty conf obs)"
  moreover have "\<forall>ob \<in> set (if find_outbound obs i = None then obs @ [default_outbound i] else obs). P ob"
    using assms(1,2) by simp
  ultimately show "P ob"
    unfolding ensure_outbound_def Let_def using assms(3) by (blast dest: set_map_first)
qed

text \<open>The group entries ("Built-in") of an outbound.\<close>

definition group_refs :: "outbound \<Rightarrow> string set" where
  "group_refs ob = {px_id c | c. c \<in> set (ob_outbounds ob) \<and> px_type c = ''Built-in''}"

definition node_outbound_ids :: "sub_entry list \<Rightarrow> string set" where
  "node_outbound_ids subs = (\<lambda>e. node_smart_outbound_id (se_instanceId e)) ` set subs"

lemma group_refs_default [simp]: "group_refs (default_outbound i) = {}"
  by (simp add: group_refs_def default_outbound_def)

lemma group_refs_sync_sub: "group_refs (sync_subscription_entries es ob) \<subseteq> group_refs ob"
  by (auto simp: group_refs_def sync_subscription_entries_def entry_ref_def)

lemma group_refs_sync_built_in: "group_refs (sync_built_in_entries refs ob) = fst ` set refs"
  by (force simp: group_refs_def sync_built_in_entries_def)

lemma group_refs_frame [simp]:
  "group_refs (ob\<lparr>ob_id := i, ob_tag := t, ob_type := ty, ob_interrupt := b\<rparr>) = group_refs ob"
  by (simp add: group_refs_def)

lemma group_refs_conf_global [simp]: "group_refs (conf_global sync u i iv t ob) = group_refs (sync ob)"
  by (simp add: group_refs_def conf_global_def)

lemma smart_outbounds_refs:
  "ob \<in> set (smart_outbounds subs) \<Longrightarrow> group_refs ob \<subseteq> node_outbound_ids subs"
proof -
  let ?P = "\<lambda>ob. group_refs ob \<subseteq> node_outbound_ids subs"
  have node: "\<forall>ob \<in> set obs. ?P ob \<Longrightarrow> \<forall>ob \<in> set (ensure_node_auto e obs). ?P ob" for e obs
    unfolding ensure_node_auto_def
    by (rule ensure_outbound_all) (auto simp: group_refs_def sync_subscription_entries_def entry_ref_def default_outbound_def)
  have nodes: "\<forall>ob \<in> set obs. ?P ob \<Longrightarrow> \<forall>ob \<in> set (fold ensure_node_auto es obs). ?P ob" for es obs
  proof (induction es arbitrary: obs)
    case Nil
    then show ?case by simp
  next
    case (Cons e es)
    from Cons.IH [OF node [OF Cons.prems]] show ?case by simp
  qed
  have grp: "\<forall>ob \<in> set obs. ?P ob \<Longrightarrow>
      \<forall>ob \<in> set (ensure_outbound i tag ty (conf_global (sync_built_in_entries (map node_auto_ref subs)) u inc iv t) obs). ?P ob"
    for i tag ty u inc iv t obs
    by (rule ensure_outbound_all)
      (auto simp: group_refs_sync_built_in node_auto_ref_def node_outbound_ids_def)
  have sub: "\<forall>ob \<in> set obs. ?P ob \<Longrightarrow>
      \<forall>ob \<in> set (ensure_outbound i tag ty (conf_global (sync_subscription_entries subs) u inc iv t) obs). ?P ob"
    for i tag ty u inc iv t obs
    by (rule ensure_outbound_all) (use group_refs_sync_sub in \<open>fastforce\<close>)+
  have "\<forall>ob \<in> set (smart_outbounds subs). ?P ob"
    unfolding smart_outbounds_def build_managed_outbounds_def Let_def ensure_hysteria_auto_def
      ensure_udp_auto_def ensure_tcp_secondary_def ensure_tcp_primary_def ensure_auto_def
    by (intro sub grp nodes) simp
  then show "ob \<in> set (smart_outbounds subs) \<Longrightarrow> ?P ob" by blast
qed

lemma upsert_children:
  "c \<in> set (ob_outbounds (upsert_built_in_child d k ob)) \<Longrightarrow> c = d \<or> c \<in> set (ob_outbounds ob)"
  by (auto simp: upsert_built_in_child_def Let_def split: option.splits if_splits
      dest: set_remove_at_subset [THEN subsetD])

lemma fold_upsert_children:
  "c \<in> set (ob_outbounds (fold (\<lambda>(k, i). upsert_built_in_child (built_in i (t i)) k) xs ob)) \<Longrightarrow>
   px_id c \<in> snd ` set xs \<or> c \<in> set (ob_outbounds ob)"
proof (induction xs arbitrary: ob)
  case Nil
  then show ?case by simp
next
  case (Cons x xs)
  obtain k i where x: "x = (k, i)" by (cases x)
  from Cons.prems have "c \<in> set (ob_outbounds (fold (\<lambda>(k, i). upsert_built_in_child (built_in i (t i)) k) xs
      (upsert_built_in_child (built_in i (t i)) k ob)))"
    by (simp add: x)
  from Cons.IH [OF this] show ?case
    by (auto simp: x dest: upsert_children)
qed

lemma wire_fallback_all:
  assumes "ob \<in> set (wire_fallback obs)" and "c \<in> set (ob_outbounds ob)"
  shows "px_id c \<in> set smart_outbound_ids \<or> (\<exists>ob' \<in> set obs. ob_id ob' = ob_id ob \<and> c \<in> set (ob_outbounds ob'))"
proof -
  have wired: "px_id c \<in> set smart_outbound_ids \<or> c \<in> set (ob_outbounds y)"
    if "c \<in> set (ob_outbounds (wire_fallback_children obs y))" for y
    using that fold_upsert_children [of c "find_outbound_tag obs" "enumerate 0 smart_outbound_ids" y]
    by (auto simp: wire_fallback_children_def set_zip enumerate_eq_zip)
  have ids: "ob_id (wire_fallback_children obs y) = ob_id y" for y
    by (metis clean_children_frame(1) clean_wire_children)
  show ?thesis
    using assms wired ids
    by (auto simp: wire_fallback_def split: option.splits if_splits dest!: set_map_first)
qed

lemma wire_fallback_ids: "ob_id ` set (wire_fallback obs) = ob_id ` set obs"
proof -
  have "ob_id (wire_fallback_children obs y) = ob_id y" for y
    by (metis clean_children_frame(1) clean_wire_children)
  then show ?thesis
    by (auto simp: wire_fallback_def map_first_id split: option.splits)
qed

definition outbound_ids :: "profile \<Rightarrow> string set" where
  "outbound_ids p = ob_id ` set (pf_outbounds p)"

lemma outbound_ids_add_smart:
  "outbound_ids (add_smart_routing subs q) =
     set smart_outbound_ids \<union> node_outbound_ids subs \<union> outbound_ids q"
  by (simp add: outbound_ids_def add_smart_routing_def wire_fallback_ids build_ids node_outbound_ids_def)

lemma map_eq_self: "map f xs = xs \<Longrightarrow> x \<in> set xs \<Longrightarrow> f x = x"
  by (induction xs) auto

lemma cleaned_children:
  assumes "cleaned obs" and "ob \<in> set obs" and "c \<in> set (ob_outbounds ob)"
  shows "\<not> is_managed_outbound_id (px_id c)"
proof -
  have "clean_children ob = ob" using assms(1,2) map_eq_self unfolding cleaned_def by metis
  then have "filter (\<lambda>c. \<not> is_managed_outbound_id (px_id c)) (ob_outbounds ob) = ob_outbounds ob"
    unfolding clean_children_def by (metis outbound.select_convs(4) outbound.surjective outbound.update_convs(4))
  with assms(3) show ?thesis by (simp add: filter_id_conv)
qed

subsection \<open>Properties\<close>

text \<open>
  C1. Rebuilding is a no-op: running the smart routing a second time over its own result, with the
  same protocol health, changes nothing (neither outbounds, nor rules, nor their order).
\<close>

theorem smart_routing_idempotent:
  "ensure_smart_auto_routing hm (ensure_smart_auto_routing hm p) = ensure_smart_auto_routing hm p"
proof (cases "smart_subs hm p = []")
  case True
  let ?q = "smart_base hm p"
  have "clean_profile ?q = ?q" using smart_base_parts(1,2) by (rule clean_id)
  note again = smart_again [OF this smart_base_parts(4,3)]
  from True show ?thesis by (simp add: ensure_eq [of hm p] ensure_eq [of hm ?q] again)
next
  case False
  let ?b = "smart_base hm p" and ?subs = "smart_subs hm p"
  let ?q = "?b\<lparr>pf_route := (pf_route ?b)\<lparr>rt_final := smart_final (rt_final (pf_route ?b))\<rparr>\<rparr>"
  let ?r = "add_smart_routing ?subs ?b"
  have clean: "clean_profile ?r = ?q" using smart_base_parts(1,2) by (rule clean_add_smart)
  have "linked (length ?subs) ?q" using smart_base_parts(3) [of hm p] by (simp add: linked_def)
  moreover have "pf_outbounds ?q = clean_outbounds (pf_outbounds p)"
    using smart_base_parts(4) [of hm p] by simp
  ultimately have again: "smart_subs hm ?r = ?subs" "smart_base hm ?r = ?q"
    using smart_again [OF clean] by blast+
  have "add_smart_routing ?subs ?q = ?r" by (simp add: add_smart_routing_def)
  with False show ?thesis by (simp add: ensure_eq [of hm p] ensure_eq [of hm ?r] again)
qed

text \<open>
  C2. The managed rules stand together, in their fixed order, after every rule that sends traffic to
  direct, and the user's own rules keep their order around them: no bypass rule (a Mainland domain
  sent to direct) is shadowed by the TCP/443 rule.
\<close>

theorem smart_routing_rule_order:
  assumes "smart_subs hm p \<noteq> []"
  shows "\<exists>pre post. rt_rules (pf_route (ensure_smart_auto_routing hm p)) = pre @ managed_rules @ post
    \<and> filter (\<lambda>r. \<not> is_managed_rule r) (rt_rules (pf_route p)) = pre @ post
    \<and> (\<forall>r \<in> set (managed_rules @ post). rl_outbound r \<noteq> id_direct)"
proof -
  let ?rs = "rt_rules (pf_route (smart_base hm p))"
  obtain pre post where "?rs = pre @ post" and "insert_managed_rules ?rs = pre @ managed_rules @ post"
    and "\<forall>r \<in> set post. \<not> is_direct_rule r"
    by (rule insert_managed_rules_split)
  then show ?thesis
    using assms managed_rules_not_direct smart_base_parts(5) [of hm p]
    by (auto simp: ensure_eq add_smart_routing_def is_direct_rule_def)
qed

text \<open>A profile with two cloud subscriptions in its selector, one of them with a rule of its own.\<close>

definition demo_child :: "string \<Rightarrow> proxy_ref" where
  "demo_child i = \<lparr>px_id = i, px_type = ''Subscription'', px_tag = i, px_meta = None\<rparr>"

definition demo_profile :: "string list \<Rightarrow> profile" where
  "demo_profile subs =
     (default_profile ''p1'' ''home'' ''key'' (\<lambda>k. k) (\<lambda>n. ''ID_'' @ nat_text n))
       \<lparr>pf_outbounds := [(default_outbound id_select)\<lparr>ob_outbounds := map demo_child subs\<rparr>,
                        (default_outbound id_direct)\<lparr>ob_type := OutDirect\<rparr>,
                        default_outbound id_fallback]\<rparr>"

lemma demo_subs: "smart_subs [] (demo_profile [''cloud-a'', ''cloud-b'']) \<noteq> []"
  by code_simp

lemma smart_routing_rule_order_witness:
  "\<exists>pre post. rt_rules (pf_route (ensure_smart_auto_routing [] (demo_profile [''cloud-a'', ''cloud-b''])))
      = pre @ managed_rules @ post
    \<and> filter (\<lambda>r. \<not> is_managed_rule r) (rt_rules (pf_route (demo_profile [''cloud-a'', ''cloud-b''])))
      = pre @ post
    \<and> (\<forall>r \<in> set (managed_rules @ post). rl_outbound r \<noteq> id_direct)"
  by (rule smart_routing_rule_order [OF demo_subs])



text \<open>
  What the early return leaves behind: once the last cloud subscription is gone, the managed
  outbounds are removed, but a final outbound that an earlier run set to the smart group still names
  it, so the route ends in an outbound that does not exist.
\<close>

theorem smart_routing_dangling_final:
  assumes "smart_subs hm p = []" and "rt_final (pf_route p) = smart_auto"
  shows "rt_final (pf_route (ensure_smart_auto_routing hm p)) = smart_auto
    \<and> smart_auto \<notin> outbound_ids (ensure_smart_auto_routing hm p)"
proof -
  have "\<forall>ob \<in> set (pf_outbounds (smart_base hm p)). \<not> is_managed_outbound_id (ob_id ob)"
    using smart_base_parts(1) [of hm p] by (simp add: cleaned_def unmanaged_def)
  then have "smart_auto \<notin> outbound_ids (smart_base hm p)"
    using managed_ids(1) by (auto simp: outbound_ids_def)
  with assms show ?thesis by (simp add: ensure_eq smart_base_parts(6))
qed

definition demo_emptied :: profile where
  "demo_emptied = (let r = ensure_smart_auto_routing [] (demo_profile [''cloud-a''])
     in r\<lparr>pf_outbounds := filter (\<lambda>ob. ob_id ob \<noteq> id_select) (pf_outbounds r)\<rparr>)"

lemma smart_routing_dangling_final_witness:
  "rt_final (pf_route (ensure_smart_auto_routing [] demo_emptied)) = smart_auto
    \<and> smart_auto \<notin> outbound_ids (ensure_smart_auto_routing [] demo_emptied)"
proof -
  have "smart_subs [] demo_emptied = []" "rt_final (pf_route demo_emptied) = smart_auto"
    by code_simp+
  then show ?thesis by (rule smart_routing_dangling_final)
qed

text \<open>Cleaning a rebuilt profile gives the user's outbounds and rules.\<close>

lemma clean_ensure:
  "clean_outbounds (pf_outbounds (ensure_smart_auto_routing hm p)) = clean_outbounds (pf_outbounds p)"
  "filter (\<lambda>r. \<not> is_managed_rule r) (rt_rules (pf_route (ensure_smart_auto_routing hm p)))
     = filter (\<lambda>r. \<not> is_managed_rule r) (rt_rules (pf_route p))"
proof -
  let ?b = "smart_base hm p"
  have "clean_profile (ensure_smart_auto_routing hm p) = ?b
      \<or> clean_profile (ensure_smart_auto_routing hm p)
        = ?b\<lparr>pf_route := (pf_route ?b)\<lparr>rt_final := smart_final (rt_final (pf_route ?b))\<rparr>\<rparr>"
    using clean_id [OF smart_base_parts(1,2)] clean_add_smart [OF smart_base_parts(1,2)] by (simp add: ensure_eq)
  then have "pf_outbounds (clean_profile (ensure_smart_auto_routing hm p)) = pf_outbounds ?b
      \<and> rt_rules (pf_route (clean_profile (ensure_smart_auto_routing hm p))) = rt_rules (pf_route ?b)"
    by auto
  then show "clean_outbounds (pf_outbounds (ensure_smart_auto_routing hm p)) = clean_outbounds (pf_outbounds p)"
    and "filter (\<lambda>r. \<not> is_managed_rule r) (rt_rules (pf_route (ensure_smart_auto_routing hm p)))
     = filter (\<lambda>r. \<not> is_managed_rule r) (rt_rules (pf_route p))"
    by (simp_all add: smart_base_parts(4,5), simp_all add: clean_profile_def)
qed


subsection \<open>The collected subscriptions\<close>

lemma fold_update_keys:
  "distinct (map fst d) \<Longrightarrow> distinct (map fst (fold (\<lambda>c. AList.update (k c) (v c)) cs d))
    \<and> set (map fst (fold (\<lambda>c. AList.update (k c) (v c)) cs d)) = k ` set cs \<union> set (map fst d)"
proof (induction cs arbitrary: d)
  case Nil
  then show ?case by simp
next
  case (Cons c cs)
  then have "distinct (map fst (AList.update (k c) (v c) d))" by (simp add: distinct_update)
  from Cons.IH [OF this] show ?case by (auto simp: dom_update)
qed

lemma fold_update_value:
  "(\<And>c. f (v c) = k c) \<Longrightarrow> (\<forall>(key, e) \<in> set d. f e = key) \<Longrightarrow>
   \<forall>(key, e) \<in> set (fold (\<lambda>c. AList.update (k c) (v c)) cs d). f e = key"
proof (induction cs arbitrary: d)
  case Nil
  then show ?case by simp
next
  case (Cons c cs)
  have "\<forall>(key, e) \<in> set (AList.update (k c) (v c) d). f e = key"
    using Cons.prems by (induction d) auto
  from Cons.IH [OF Cons.prems(1) this] show ?case by simp
qed

lemma collect_ids:
  "distinct (map se_id (collect_subscription_entries obs hm))
   \<and> set (map se_id (collect_subscription_entries obs hm)) = px_id ` set (source_children obs)"
proof -
  let ?d = "fold (\<lambda>c. AList.update (px_id c) (child_entry hm c)) (source_children obs) []"
  have "\<forall>(key, e) \<in> set ?d. se_id e = key"
    by (rule fold_update_value) (auto simp: child_entry_def Let_def)
  then have eq: "map se_id (map snd ?d) = map fst ?d"
    by (auto simp: case_prod_beta)
  show ?thesis
    unfolding collect_subscription_entries_def eq
    using fold_update_keys [of "[]" px_id "child_entry hm" "source_children obs"] by simp
qed

end
