(* ===== verification/Json.thy ===== *)
theory Json
  imports JsValues
begin

text \<open>
  JSON values as the code handles them (\<open>Recordable\<close>): an object is a dictionary in the order of
  insertion, and \<open>undefined\<close> is a value of its own, which \<open>JSON.stringify\<close> leaves out of objects and turns
  into \<open>null\<close> in arrays. The operations are \<open>deepClone\<close> and \<open>deepAssign\<close> of \<open>utils/others.ts\<close> and the
  reading and writing of fields. Numbers are integers, which is all the configurations contain.
\<close>

datatype json =
    JUndef | JNull | JBool bool | JNum int | JStr string
  | JArr "json list" | JObj "(string \<times> json) list"

subsection \<open>Fields\<close>

text \<open>The own fields of a plain object; anything else has none.\<close>

fun obj_fields :: "json \<Rightarrow> json dict" where
  "obj_fields (JObj fs) = fs"
| "obj_fields _ = []"

fun is_plain_object :: "json \<Rightarrow> bool" where
  "is_plain_object (JObj fs) = True"
| "is_plain_object _ = False"

definition json_get :: "string \<Rightarrow> json \<Rightarrow> json" where
  "json_get k j = or_else (map_of (obj_fields j) k) JUndef"

text \<open>Assignment to a field; on anything but an object it is a \<open>TypeError\<close>.\<close>

fun json_set :: "string \<Rightarrow> json \<Rightarrow> json \<Rightarrow> string + json" where
  "json_set k v (JObj fs) = Inr (JObj (AList.update k v fs))"
| "json_set k v _ = Inl ''TypeError''"

definition json_update :: "string \<Rightarrow> (json \<Rightarrow> string + json) \<Rightarrow> json \<Rightarrow> string + json" where
  "json_update k f j = (case f (json_get k j) of Inl e \<Rightarrow> Inl e | Inr v \<Rightarrow> json_set k v j)"

fun json_truthy :: "json \<Rightarrow> bool" where
  "json_truthy JUndef = False"
| "json_truthy JNull = False"
| "json_truthy (JBool b) = b"
| "json_truthy (JNum n) = (n \<noteq> 0)"
| "json_truthy (JStr s) = (s \<noteq> '''')"
| "json_truthy _ = True"

text \<open>\<open>String(v)\<close>; the text of an array joins that of its items.\<close>

fun json_text :: "json \<Rightarrow> string" where
  "json_text JUndef = ''undefined''"
| "json_text JNull = ''null''"
| "json_text (JBool b) = (if b then ''true'' else ''false'')"
| "json_text (JNum n) = int_text n"
| "json_text (JStr s) = s"
| "json_text (JArr js) =
     js_join '','' (map (\<lambda>j. case j of JUndef \<Rightarrow> '''' | JNull \<Rightarrow> '''' | _ \<Rightarrow> json_text j) js)"
| "json_text (JObj fs) = ''[object Object]''"

text \<open>A string that may be missing.\<close>

definition json_opt :: "string option \<Rightarrow> json" where
  "json_opt v = (case v of None \<Rightarrow> JUndef | Some s \<Rightarrow> JStr s)"

subsection \<open>Copies\<close>

text \<open>\<open>JSON.parse(JSON.stringify(v))\<close>.\<close>

fun json_clone :: "json \<Rightarrow> json" where
  "json_clone (JArr js) = JArr (map (\<lambda>j. case j of JUndef \<Rightarrow> JNull | _ \<Rightarrow> json_clone j) js)"
| "json_clone (JObj fs) = JObj (map (\<lambda>(k, v). (k, json_clone v)) (filter (\<lambda>(k, v). v \<noteq> JUndef) fs))"
| "json_clone j = j"

subsection \<open>Deep assignment\<close>

function assign_fields :: "json dict \<Rightarrow> json dict \<Rightarrow> json dict" where
  "assign_fields t [] = t"
| "assign_fields t ((k, v) # fs) = assign_fields
     (if k = ''__proto__'' then t
      else AList.update k
        (case v of
           JObj gs \<Rightarrow> JObj (assign_fields (obj_fields (or_else (map_of t k) JUndef)) gs)
         | _ \<Rightarrow> v) t)
     fs"
  by pat_completeness auto

termination
  by (relation "measure (\<lambda>(t, fs). size_list (size_prod (\<lambda>_. 0) size) fs)") auto

definition deep_assign :: "json \<Rightarrow> json \<Rightarrow> json" where
  "deep_assign target source = JObj (assign_fields (obj_fields target) (obj_fields source))"

subsection \<open>What a deep assignment does at a path\<close>

fun json_at :: "string list \<Rightarrow> json \<Rightarrow> json" where
  "json_at [] j = j"
| "json_at (k # ks) j = json_at ks (json_get k j)"

text \<open>Objects as \<open>JSON.parse\<close> builds them: no key twice, and no key \<open>__proto__\<close>.\<close>

fun json_keys_ok :: "json \<Rightarrow> bool" where
  "json_keys_ok (JObj fs) \<longleftrightarrow>
     distinct (map fst fs) \<and> ''__proto__'' \<notin> fst ` set fs \<and> list_all (\<lambda>(k, v). json_keys_ok v) fs"
| "json_keys_ok _ \<longleftrightarrow> True"

text \<open>The path leaves the object at a key it does not have: nothing is said about what is there.\<close>

fun json_silent :: "string list \<Rightarrow> json \<Rightarrow> bool" where
  "json_silent (k # ks) (JObj fs) = (case map_of fs k of None \<Rightarrow> True | Some v \<Rightarrow> json_silent ks v)"
| "json_silent _ _ = False"

lemma map_of_assign_fields:
  assumes "distinct (map fst gs)" and "''__proto__'' \<notin> fst ` set gs"
  shows "map_of (assign_fields t gs) k = (case map_of gs k of
      None \<Rightarrow> map_of t k
    | Some v \<Rightarrow> Some (if is_plain_object v then deep_assign (or_else (map_of t k) JUndef) v else v))"
  using assms
proof (induction gs arbitrary: t)
  case Nil
  then show ?case by simp
next
  case (Cons g gs)
  obtain h v where g: "g = (h, v)" by force
  let ?w = "if is_plain_object v then deep_assign (or_else (map_of t h) JUndef) v else v"
  have step: "assign_fields t (g # gs) = assign_fields (AList.update h ?w t) gs"
    using Cons.prems(2) by (cases v) (auto simp: g deep_assign_def)
  have "h \<notin> fst ` set gs" using Cons.prems(1) by (simp add: g)
  then have absent: "map_of gs h = None" by (simp add: map_of_eq_None_iff)
  have "map_of (assign_fields (AList.update h ?w t) gs) k = (case map_of gs k of
      None \<Rightarrow> map_of (AList.update h ?w t) k
    | Some v \<Rightarrow> Some (if is_plain_object v
        then deep_assign (or_else (map_of (AList.update h ?w t) k) JUndef) v else v))"
    using Cons.IH Cons.prems by simp
  then show ?case
    unfolding step using absent by (cases "k = h") (auto simp: g update_conv' split: option.splits)
qed

lemma json_get_deep_assign:
  assumes "json_keys_ok s"
  shows "json_get k (deep_assign t s) = (case map_of (obj_fields s) k of
      None \<Rightarrow> json_get k t
    | Some v \<Rightarrow> if is_plain_object v then deep_assign (json_get k t) v else v)"
proof (cases s)
  case (JObj fs)
  with assms show ?thesis
    by (simp add: json_get_def deep_assign_def map_of_assign_fields split: option.splits)
qed (simp_all add: json_get_def deep_assign_def)

lemma json_keys_ok_field:
  assumes "json_keys_ok s" and "map_of (obj_fields s) k = Some v"
  shows "json_keys_ok v"
proof (cases s)
  case (JObj fs)
  with assms have "(k, v) \<in> set fs" by (auto dest: map_of_SomeD)
  with assms(1) JObj show ?thesis by (auto simp: list_all_iff)
qed (use assms in simp_all)

text \<open>Every value of the source that is not an object is found in the result, and where the source is
  silent the target shows.\<close>

lemma deep_assign_leaf:
  "json_keys_ok s \<Longrightarrow> \<not> is_plain_object (json_at ks s) \<Longrightarrow> json_at ks s \<noteq> JUndef \<Longrightarrow> ks \<noteq> [] \<Longrightarrow>
   json_at ks (deep_assign t s) = json_at ks s"
proof (induction ks arbitrary: s t)
  case Nil
  then show ?case by simp
next
  case (Cons k ks)
  have undef: "json_at ks JUndef = JUndef" for ks
    by (induction ks) (simp_all add: json_get_def)
  obtain v where v: "map_of (obj_fields s) k = Some v"
    using Cons.prems(3) undef by (cases "map_of (obj_fields s) k") (auto simp: json_get_def)
  have get: "json_get k s = v" using v by (simp add: json_get_def)
  show ?case
  proof (cases "is_plain_object v")
    case True
    then have "ks \<noteq> []" using Cons.prems(2) get by auto
    then show ?thesis
      using Cons.IH [of v] json_keys_ok_field [OF Cons.prems(1) v] Cons.prems get v True
      by (simp add: json_get_deep_assign)
  next
    case False
    then show ?thesis using Cons.prems(1) get v by (simp add: json_get_deep_assign)
  qed
qed

lemma deep_assign_silent:
  "json_keys_ok s \<Longrightarrow> json_silent ks s \<Longrightarrow> json_at ks (deep_assign t s) = json_at ks t"
proof (induction ks arbitrary: s t)
  case Nil
  then show ?case by simp
next
  case (Cons k ks)
  then obtain fs where s: "s = JObj fs" by (cases s) auto
  show ?case
  proof (cases "map_of fs k")
    case None
    then show ?thesis using Cons.prems(1) by (simp add: json_get_deep_assign s)
  next
    case (Some v)
    then have ok: "json_keys_ok v" using json_keys_ok_field [OF Cons.prems(1)] by (simp add: s)
    have sil: "json_silent ks v" using Cons.prems(2) by (simp add: s Some)
    then have "is_plain_object v" by (cases ks; cases v) auto
    then show ?thesis using Cons.IH [OF ok sil] Cons.prems(1) Some by (simp add: json_get_deep_assign s)
  qed
qed

lemma json_get_clone: "json_keys_ok j \<Longrightarrow> json_get k (json_clone j) = json_clone (json_get k j)"
proof (cases j)
  case (JObj fs)
  assume "json_keys_ok j"
  with JObj have d: "distinct (map fst fs)" by simp
  have "map_of (map (\<lambda>(k, v). (k, json_clone v)) (filter (\<lambda>(k, v). v \<noteq> JUndef) fs)) k
      = (case map_of fs k of None \<Rightarrow> None | Some v \<Rightarrow> if v = JUndef then None else Some (json_clone v))"
    using d
  proof (induction fs)
    case Nil
    then show ?case by simp
  next
    case (Cons x fs)
    have "fst x \<notin> fst ` set fs" using Cons.prems by simp
    then have "map_of fs (fst x) = None" by (simp add: map_of_eq_None_iff)
    then show ?case using Cons by (cases x) auto
  qed
  then show ?thesis by (simp add: JObj json_get_def split: option.splits)
qed (simp_all add: json_get_def)

end
