(* ===== verification/Generator.thy ===== *)
theory Generator
  imports Json SmartRouting
begin

text \<open>
  \<open>utils/generator.ts\<close>: the configuration of the core, built from a profile. The result is a JSON value
  whose fields stand in the order of the code. Reading and parsing a subscription file, regular
  expressions, the list of rulesets, plugins and the script of the profile are the fields of a record of
  functions; every exception is the error branch of a sum.
\<close>

record gen_env =
  ge_subscription :: "string \<Rightarrow> string option"
  ge_readJson :: "string \<Rightarrow> string + json"
  ge_regex :: "string \<Rightarrow> string + (string \<Rightarrow> bool)"
  ge_parse :: "string \<Rightarrow> string + json"
  ge_rulesetPath :: "string \<Rightarrow> string option"
  ge_plugins :: "json \<Rightarrow> string + json"
  ge_script :: "string \<Rightarrow> json \<Rightarrow> string + json"

subsection \<open>Names of the enumerations\<close>

fun log_level_name :: "log_level \<Rightarrow> string" where
  "log_level_name LogTrace = ''trace''"
| "log_level_name LogDebug = ''debug''"
| "log_level_name LogInfo = ''info''"
| "log_level_name LogWarn = ''warn''"
| "log_level_name LogError = ''error''"
| "log_level_name LogFatal = ''fatal''"
| "log_level_name LogPanic = ''panic''"

fun outbound_type_name :: "outbound_type \<Rightarrow> string" where
  "outbound_type_name OutDirect = ''direct''"
| "outbound_type_name OutSelector = ''selector''"
| "outbound_type_name OutUrltest = ''urltest''"
| "outbound_type_name OutWireGuard = ''wireguard''"

fun tun_stack_name :: "tun_stack \<Rightarrow> string" where
  "tun_stack_name StackSystem = ''system''"
| "tun_stack_name StackGVisor = ''gvisor''"
| "tun_stack_name StackMixed = ''mixed''"

fun ruleset_type_name :: "ruleset_type \<Rightarrow> string" where
  "ruleset_type_name RsInline = ''inline''"
| "ruleset_type_name RsLocal = ''local''"
| "ruleset_type_name RsRemote = ''remote''"

fun ruleset_format_name :: "ruleset_format \<Rightarrow> string" where
  "ruleset_format_name FmtSource = ''source''"
| "ruleset_format_name FmtBinary = ''binary''"

fun rule_type_name :: "rule_type \<Rightarrow> string" where
  "rule_type_name RtInbound = ''inbound''"
| "rule_type_name RtNetwork = ''network''"
| "rule_type_name RtProtocol = ''protocol''"
| "rule_type_name RtDomain = ''domain''"
| "rule_type_name RtDomainSuffix = ''domain_suffix''"
| "rule_type_name RtDomainKeyword = ''domain_keyword''"
| "rule_type_name RtDomainRegex = ''domain_regex''"
| "rule_type_name RtSourceIPCidr = ''source_ip_cidr''"
| "rule_type_name RtIPCidr = ''ip_cidr''"
| "rule_type_name RtIpIsPrivate = ''ip_is_private''"
| "rule_type_name RtSourcePort = ''source_port''"
| "rule_type_name RtSourcePortRange = ''source_port_range''"
| "rule_type_name RtPort = ''port''"
| "rule_type_name RtPortRange = ''port_range''"
| "rule_type_name RtProcessName = ''process_name''"
| "rule_type_name RtProcessPath = ''process_path''"
| "rule_type_name RtProcessPathRegex = ''process_path_regex''"
| "rule_type_name RtClashMode = ''clash_mode''"
| "rule_type_name RtRuleSet = ''rule_set''"
| "rule_type_name RtIpAcceptAny = ''ip_accept_any''"
| "rule_type_name RtInline = ''inline''"

fun strategy_name :: "strategy \<Rightarrow> string" where
  "strategy_name StDefault = ''default''"
| "strategy_name StPreferIPv4 = ''prefer_ipv4''"
| "strategy_name StPreferIPv6 = ''prefer_ipv6''"
| "strategy_name StIPv4Only = ''ipv4_only''"
| "strategy_name StIPv6Only = ''ipv6_only''"

fun rule_action_name :: "rule_action \<Rightarrow> string" where
  "rule_action_name ActRoute = ''route''"
| "rule_action_name ActRouteOptions = ''route-options''"
| "rule_action_name ActReject = ''reject''"
| "rule_action_name ActHijackDNS = ''hijack-dns''"
| "rule_action_name ActSniff = ''sniff''"
| "rule_action_name ActResolve = ''resolve''"
| "rule_action_name ActPredefined = ''predefined''"

subsection \<open>Helpers\<close>

text \<open>\<open>Number(v)\<close>; \<open>NaN\<close> is written as \<open>null\<close>.\<close>

definition json_number :: "string \<Rightarrow> json" where
  "json_number s = (case js_number s of None \<Rightarrow> JNull | Some n \<Rightarrow> JNum n)"

definition json_strings :: "string list \<Rightarrow> json" where
  "json_strings xs = JArr (map JStr xs)"

text \<open>A field that is written only under a condition.\<close>

definition field_if :: "bool \<Rightarrow> string \<Rightarrow> json \<Rightarrow> json dict" where
  "field_if b k v = (if b then [(k, v)] else [])"

text \<open>Results of the items of an array, the first error first.\<close>

fun traverse :: "('a \<Rightarrow> string + 'b) \<Rightarrow> 'a list \<Rightarrow> string + 'b list" where
  "traverse f [] = Inr []"
| "traverse f (x # xs) = (case f x of
      Inl e \<Rightarrow> Inl e
    | Inr y \<Rightarrow> (case traverse f xs of Inl e \<Rightarrow> Inl e | Inr ys \<Rightarrow> Inr (y # ys)))"

definition and_then :: "string + 'a \<Rightarrow> ('a \<Rightarrow> string + 'b) \<Rightarrow> string + 'b" where
  "and_then x f = (case x of Inl e \<Rightarrow> Inl e | Inr v \<Rightarrow> f v)"

text \<open>\<open>find((v) => v.id === id)?.tag\<close> for the four kinds of objects.\<close>

definition outbound_tag :: "outbound list \<Rightarrow> string \<Rightarrow> string option" where
  "outbound_tag obs i = map_option ob_tag (find_outbound obs i)"

definition inbound_tag :: "inbound list \<Rightarrow> string \<Rightarrow> string option" where
  "inbound_tag ibs i = map_option in_tag (List.find (\<lambda>v. in_id v = i) ibs)"

definition ruleset_tag :: "rule_set list \<Rightarrow> string \<Rightarrow> string option" where
  "ruleset_tag rss i = map_option rs_tag (List.find (\<lambda>v. rs_id v = i) rss)"

definition dns_server_tag :: "dns \<Rightarrow> string \<Rightarrow> string option" where
  "dns_server_tag d i = map_option ds_tag (List.find (\<lambda>v. ds_id v = i) (dn_servers d))"

subsection \<open>Rules\<close>

text \<open>\<open>_generateRule\<close>, for a route rule or a DNS rule with the given type, payload and \<open>invert\<close>.\<close>

definition generate_rule ::
    "gen_env \<Rightarrow> rule_set list \<Rightarrow> inbound list \<Rightarrow> rule_type \<Rightarrow> string \<Rightarrow> bool \<Rightarrow> string + json dict" where
  "generate_rule env rss ibs ty payload negated =
     (let extra = [(''invert'', if negated then JBool True else JUndef)];
          parts = js_split CHR '','' payload;
          put = (\<lambda>v. Inr (AList.update (rule_type_name ty) v extra))
      in case ty of
           RtInline \<Rightarrow> map_sum id (\<lambda>j. obj_fields (deep_assign (JObj extra) j)) (ge_parse env payload)
         | RtRuleSet \<Rightarrow> put (JArr (map (\<lambda>i. json_opt (ruleset_tag rss i)) parts))
         | RtInbound \<Rightarrow> put (json_opt (inbound_tag ibs payload))
         | RtIpIsPrivate \<Rightarrow> put (JBool (payload = ''true''))
         | RtIpAcceptAny \<Rightarrow> put (JBool (payload = ''true''))
         | RtClashMode \<Rightarrow> put (JStr payload)
         | _ \<Rightarrow>
             (let vals = map (if ty \<in> {RtPort, RtSourcePort} then json_number else JStr) parts
              in put (case vals of [v] \<Rightarrow> v | _ \<Rightarrow> JArr vals)))"

subsection \<open>Experimental and inbounds\<close>

definition generate_experimental :: "experimental \<Rightarrow> outbound list \<Rightarrow> json" where
  "generate_experimental ex obs =
     JObj [(''clash_api'', JObj
              [(''external_controller'', JStr (ex_external_controller ex)),
               (''external_ui'', JStr (ex_external_ui ex)),
               (''external_ui_download_url'', JStr (ex_external_ui_download_url ex)),
               (''external_ui_download_detour'', json_opt (outbound_tag obs (ex_external_ui_download_detour ex))),
               (''secret'', JStr (ex_secret ex)),
               (''default_mode'', JStr (ex_default_mode ex))]),
           (''cache_file'', JObj
              [(''enabled'', JBool (ex_cache_enabled ex)), (''path'', JStr (ex_cache_path ex)),
               (''cache_id'', JStr (ex_cache_id ex)), (''store_fakeip'', JBool (ex_store_fakeip ex)),
               (''store_rdrc'', JBool (ex_store_rdrc ex)), (''rdrc_timeout'', JStr (ex_rdrc_timeout ex))])]"

text \<open>One user: what stands before the first colon and between the first and the second.\<close>

definition generate_user :: "string \<Rightarrow> json" where
  "generate_user user = (let parts = js_split CHR '':'' user in
     JObj [(''username'', JStr (parts ! 0)),
           (''password'', if 1 < length parts then JStr (parts ! 1) else JUndef)])"

definition generate_listen :: "listen \<Rightarrow> json dict" where
  "generate_listen l =
     [(''listen'', JStr (ls_listen l)), (''listen_port'', JNum (ls_port l)),
      (''tcp_fast_open'', JBool (ls_tcp_fast_open l)), (''tcp_multi_path'', JBool (ls_tcp_multi_path l)),
      (''udp_fragment'', JBool (ls_udp_fragment l))]"

definition strings_or_undef :: "string list \<Rightarrow> json" where
  "strings_or_undef xs = (if xs = [] then JUndef else json_strings xs)"

definition generate_tun :: "tun_block \<Rightarrow> json dict" where
  "generate_tun t =
     [(''interface_name'', JStr (tn_interface_name t)), (''address'', json_strings (tn_address t)),
      (''mtu'', JNum (tn_mtu t)), (''auto_route'', JBool (tn_auto_route t)),
      (''strict_route'', JBool (tn_strict_route t)),
      (''route_address'', strings_or_undef (tn_route_address t)),
      (''route_exclude_address'', strings_or_undef (tn_route_exclude_address t)),
      (''endpoint_independent_nat'', JBool (tn_endpoint_independent_nat t)),
      (''stack'', JStr (tun_stack_name (tn_stack t)))]"

text \<open>An enabled inbound without the block of its type throws.\<close>

definition generate_inbound :: "inbound \<Rightarrow> string + json list" where
  "generate_inbound ib =
     (if \<not> in_enable ib then Inr []
      else let base = [(''type'', JStr (inbound_name (in_type ib))), (''tag'', JStr (in_tag ib))]
        in case in_type ib of
             InTun \<Rightarrow> (case in_tun ib of
                 None \<Rightarrow> Inl ''TypeError''
               | Some t \<Rightarrow> Inr [JObj (base @ generate_tun t)])
           | _ \<Rightarrow> (case in_block ib of
                 None \<Rightarrow> Inl ''TypeError''
               | Some b \<Rightarrow> Inr [JObj (base @ generate_listen (lb_listen b) @
                   [(''users'', if lb_users b = [] then JUndef else JArr (map generate_user (lb_users b)))])]))"

definition generate_inbounds :: "inbound list \<Rightarrow> string + json" where
  "generate_inbounds ibs = map_sum id (\<lambda>js. JArr (concat js)) (traverse generate_inbound ibs)"

subsection \<open>Outbounds\<close>

text \<open>
  What the loop over the outbounds keeps: the proxies of the subscription files read so far, the proxies
  used (by subscription and position, which stand for the object in the cache), and the number of
  fallback names given out.
\<close>

record gen_state =
  gn_cache :: "json list dict"
  gn_used :: "(string \<times> nat) list"
  gn_count :: nat

definition gn_init :: gen_state where
  "gn_init = \<lparr>gn_cache = [], gn_used = [], gn_count = 0\<rparr>"

definition ensure_tag :: "string \<Rightarrow> string \<Rightarrow> string" where
  "ensure_tag tag fallback = str_or (js_trim tag) fallback"

text \<open>\<open>normalizeProxy\<close>: the name that stands in for a missing tag comes first, and may count one up even
  when it is not needed.\<close>

definition proxy_fallback :: "string \<Rightarrow> string \<Rightarrow> nat \<Rightarrow> string \<times> nat" where
  "proxy_fallback i ty n =
     (if js_trim i \<noteq> '''' then (js_trim i, n)
      else if js_trim ty \<noteq> '''' then (js_trim ty, n)
      else (''proxy-'' @ nat_text (Suc n), Suc n))"

definition normalize_proxy :: "string \<Rightarrow> string \<Rightarrow> string \<Rightarrow> nat \<Rightarrow> string \<times> nat" where
  "normalize_proxy i ty tag n =
     (case proxy_fallback i ty n of (fb, n') \<Rightarrow> (if js_trim tag = '''' then fb else tag, n'))"

text \<open>The same for a proxy of a file. An entry that is not an object throws.\<close>

definition truthy_text :: "json \<Rightarrow> string" where
  "truthy_text j = (if json_truthy j then json_text j else '''')"

definition entry_tag :: "json \<Rightarrow> string" where
  "entry_tag j = (case json_get ''tag'' j of JStr t \<Rightarrow> t | _ \<Rightarrow> '''')"

fun normalize_entries :: "nat \<Rightarrow> json list \<Rightarrow> string + json list \<times> nat" where
  "normalize_entries n [] = Inr ([], n)"
| "normalize_entries n (j # js) =
     (if \<not> is_plain_object j then Inl ''TypeError''
      else case normalize_proxy (truthy_text (json_get ''id'' j)) (truthy_text (json_get ''type'' j)) (entry_tag j) n of
        (tag, n') \<Rightarrow> (case normalize_entries n' js of
           Inl e \<Rightarrow> Inl e
         | Inr (js', m) \<Rightarrow> Inr (JObj (AList.update ''tag'' (JStr tag) (obj_fields j)) # js', m)))"

definition file_entries :: "json \<Rightarrow> json list" where
  "file_entries parsed = (case parsed of
      JArr js \<Rightarrow> js
    | _ \<Rightarrow> (case json_get ''outbounds'' parsed of JArr js \<Rightarrow> js | _ \<Rightarrow> []))"

definition load_subscription :: "gen_env \<Rightarrow> string \<Rightarrow> gen_state \<Rightarrow> string + gen_state" where
  "load_subscription env sub st =
     (if map_of (gn_cache st) sub \<noteq> None then Inr st
      else case ge_subscription env sub of
             None \<Rightarrow> Inr st
           | Some path \<Rightarrow> (case ge_readJson env path of
               Inl e \<Rightarrow> Inl e
             | Inr parsed \<Rightarrow> (case normalize_entries (gn_count st) (file_entries parsed) of
                 Inl e \<Rightarrow> Inl e
               | Inr (js, n) \<Rightarrow> Inr (st\<lparr>gn_cache := AList.update sub js (gn_cache st), gn_count := n\<rparr>))))"

definition cached_entries :: "gen_state \<Rightarrow> string \<Rightarrow> json list" where
  "cached_entries st sub = or_else (map_of (gn_cache st) sub) []"

text \<open>\<open>createTagMatcher\<close>; the first pattern that is not a regular expression throws.\<close>

definition tag_matcher :: "gen_env \<Rightarrow> string \<Rightarrow> string \<Rightarrow> string + (string \<Rightarrow> bool)" where
  "tag_matcher env incl excl =
     and_then (if incl = '''' then Inr (\<lambda>_. True) else ge_regex env incl) (\<lambda>test_in.
     and_then (if excl = '''' then Inr (\<lambda>_. False) else ge_regex env excl) (\<lambda>test_ex.
     Inr (\<lambda>tag. test_in tag \<and> \<not> test_ex tag)))"

text \<open>One child of a group: the subscription it stands for or is taken from, and the members it adds.\<close>

definition child_source :: "proxy_ref \<Rightarrow> string" where
  "child_source c = (if px_type c = ''Subscription'' then px_id c else px_type c)"

definition add_child ::
    "gen_env \<Rightarrow> (string \<Rightarrow> bool) \<Rightarrow> proxy_ref \<Rightarrow> gen_state \<Rightarrow> string + string list \<times> gen_state" where
  "add_child env matches c st =
     (if px_type c = ''Built-in'' then
        (case normalize_proxy (px_id c) (px_type c) (px_tag c) (gn_count st) of
           (tag, n) \<Rightarrow> Inr ([tag], st\<lparr>gn_count := n\<rparr>))
      else let sub = child_source c
        in case load_subscription env sub st of
             Inl e \<Rightarrow> Inl e
           | Inr st' \<Rightarrow>
               let entries = cached_entries st' sub
               in if px_type c = ''Subscription'' then
                    Inr (filter matches (map entry_tag entries),
                      st'\<lparr>gn_used := fold (\<lambda>k. add_new (sub, k)) [0..<length entries] (gn_used st')\<rparr>)
                  else (case normalize_proxy (px_id c) (px_type c) (px_tag c) (gn_count st') of
                    (tag, n) \<Rightarrow> (case find_index (\<lambda>v. entry_tag v = tag) entries of
                        None \<Rightarrow> Inr ([], st'\<lparr>gn_count := n\<rparr>)
                      | Some k \<Rightarrow>
                          if matches (entry_tag (entries ! k))
                          then Inr ([entry_tag (entries ! k)],
                                 st'\<lparr>gn_count := n, gn_used := add_new (sub, k) (gn_used st')\<rparr>)
                          else Inr ([], st'\<lparr>gn_count := n\<rparr>))))"

fun add_children ::
    "gen_env \<Rightarrow> (string \<Rightarrow> bool) \<Rightarrow> proxy_ref list \<Rightarrow> gen_state \<Rightarrow> string + string list \<times> gen_state" where
  "add_children env matches [] st = Inr ([], st)"
| "add_children env matches (c # cs) st = (case add_child env matches c st of
      Inl e \<Rightarrow> Inl e
    | Inr (tags, st') \<Rightarrow> (case add_children env matches cs st' of
        Inl e \<Rightarrow> Inl e
      | Inr (tags', st'') \<Rightarrow> Inr (tags @ tags', st'')))"

definition direct_tag :: "outbound list \<Rightarrow> string" where
  "direct_tag obs = (case List.find (\<lambda>v. ob_type v = OutDirect) obs of
      None \<Rightarrow> ''direct''
    | Some d \<Rightarrow> ensure_tag (ob_tag d) (str_or (ob_id d) ''direct''))"

text \<open>An outbound of the profile as it is written; a group without members gets the direct outbound.\<close>

record core_group =
  cg_type :: outbound_type
  cg_tag :: string
  cg_test :: "(string \<times> string \<times> int) option"
  cg_interrupt :: "bool option"
  cg_members :: "string list option"

definition generate_outbound ::
    "gen_env \<Rightarrow> outbound list \<Rightarrow> outbound \<Rightarrow> gen_state \<Rightarrow> string + core_group \<times> gen_state" where
  "generate_outbound env obs ob st =
     (let base = \<lparr>cg_type = ob_type ob, cg_tag = ob_tag ob,
            cg_test = (if ob_type ob = OutUrltest then Some (ob_url ob, ob_interval ob, ob_tolerance ob) else None),
            cg_interrupt = None, cg_members = None\<rparr>
      in if ob_type ob = OutSelector \<or> ob_type ob = OutUrltest then
           and_then (tag_matcher env (ob_include ob) (ob_exclude ob)) (\<lambda>matches.
           and_then (add_children env matches (ob_outbounds ob) st) (\<lambda>(tags, st').
           Inr (base\<lparr>cg_interrupt := Some (ob_interrupt ob),
                     cg_members := Some (if tags = [] then [direct_tag obs] else tags)\<rparr>, st')))
         else Inr (base, st))"

definition fallback_name :: "string \<Rightarrow> nat \<Rightarrow> string \<times> nat" where
  "fallback_name i n = (if js_trim i \<noteq> '''' then (js_trim i, n)
     else (''outbound-'' @ nat_text (Suc n), Suc n))"

definition normalize_outbound :: "outbound \<Rightarrow> nat \<Rightarrow> outbound \<times> nat" where
  "normalize_outbound ob n = (case fallback_name (ob_id ob) n of
      (fb, n') \<Rightarrow> (ob\<lparr>ob_tag := ensure_tag (ob_tag ob) fb\<rparr>, n'))"

text \<open>The loop: \<open>pre\<close> are the outbounds already visited, whose tags have been normalised. The answer is
  what is written for the profile's own outbounds, the outbounds with their new tags and the state.\<close>

fun generate_loop ::
    "gen_env \<Rightarrow> outbound list \<Rightarrow> outbound list \<Rightarrow> nat \<Rightarrow> gen_state
       \<Rightarrow> string + core_group list \<times> outbound list \<times> gen_state" where
  "generate_loop env pre [] n st = Inr ([], pre, st)"
| "generate_loop env pre (ob # rest) n st = (case normalize_outbound ob n of
      (ob', n') \<Rightarrow>
        if ob_type ob' = OutWireGuard then generate_loop env (pre @ [ob']) rest n' st
        else case generate_outbound env (pre @ ob' # rest) ob' st of
               Inl e \<Rightarrow> Inl e
             | Inr (g, st') \<Rightarrow> (case generate_loop env (pre @ [ob']) rest n' st' of
                 Inl e \<Rightarrow> Inl e
               | Inr (gs, obs, st'') \<Rightarrow> Inr (g # gs, obs, st'')))"

record generated =
  gd_groups :: "core_group list"
  gd_proxies :: "json list"
  gd_outbounds :: "outbound list"

definition generate_outbounds :: "gen_env \<Rightarrow> outbound list \<Rightarrow> string + generated" where
  "generate_outbounds env obs = map_sum id
     (\<lambda>(gs, obs', st). \<lparr>gd_groups = gs,
        gd_proxies = filter (\<lambda>j. entry_tag j \<noteq> '''') (map (\<lambda>(sub, k). cached_entries st sub ! k) (gn_used st)),
        gd_outbounds = obs'\<rparr>)
     (generate_loop env [] obs 0 gn_init)"

definition group_json :: "core_group \<Rightarrow> json" where
  "group_json g = JObj
     ([(''type'', JStr (outbound_type_name (cg_type g))), (''tag'', JStr (cg_tag g))]
      @ (case cg_test g of None \<Rightarrow> []
         | Some (url, interval, tolerance) \<Rightarrow>
             [(''url'', JStr url), (''interval'', JStr interval), (''tolerance'', JNum tolerance)])
      @ (case cg_interrupt g of None \<Rightarrow> [] | Some b \<Rightarrow> [(''interrupt_exist_connections'', JBool b)])
      @ (case cg_members g of None \<Rightarrow> [] | Some ts \<Rightarrow> [(''outbounds'', json_strings ts)]))"

definition outbounds_json :: "generated \<Rightarrow> json" where
  "outbounds_json g = JArr (map group_json (gd_groups g) @ gd_proxies g)"

subsection \<open>Endpoints\<close>

definition generate_endpoint :: "outbound \<Rightarrow> json" where
  "generate_endpoint ob = JObj
     ([(''type'', JStr ''wireguard''), (''tag'', JStr (ob_tag ob)),
       (''address'', json_strings (filter (\<lambda>v. v \<noteq> '''') (map js_trim (ob_local_address ob)))),
       (''private_key'', JStr (ob_private_key ob)),
       (''peers'', JArr [JObj
          ([(''address'', JStr (ob_server ob)), (''port'', json_number (ob_server_port ob)),
            (''public_key'', JStr (ob_peer_public_key ob)),
            (''allowed_ips'', json_strings [''0.0.0.0/0'', ''::/0''])]
           @ field_if (ob_pre_shared_key ob \<noteq> '''') ''pre_shared_key'' (JStr (ob_pre_shared_key ob))
           @ field_if (ob_keepalive ob \<noteq> '''') ''persistent_keepalive_interval''
               (json_number (ob_keepalive ob)))])]
      @ field_if (ob_mtu ob \<noteq> '''') ''mtu'' (json_number (ob_mtu ob)))"

definition generate_endpoints :: "outbound list \<Rightarrow> json list" where
  "generate_endpoints obs = map generate_endpoint (filter (\<lambda>ob. ob_type ob = OutWireGuard) obs)"

subsection \<open>Route\<close>

definition inbound_enabled :: "inbound list \<Rightarrow> string \<Rightarrow> bool" where
  "inbound_enabled ibs i = (case List.find (\<lambda>v. in_id v = i) ibs of None \<Rightarrow> False | Some v \<Rightarrow> in_enable v)"

definition set_if :: "bool \<Rightarrow> string \<Rightarrow> json \<Rightarrow> json dict \<Rightarrow> json dict" where
  "set_if b k v d = (if b then AList.update k v d else d)"

text \<open>A rule is left out (the empty list) when its inbound is disabled or the core no longer knows its action.\<close>

definition generate_route_rule ::
    "gen_env \<Rightarrow> rule_set list \<Rightarrow> inbound list \<Rightarrow> outbound list \<Rightarrow> dns \<Rightarrow> rule \<Rightarrow> string + json list" where
  "generate_route_rule env rss ibs obs d r =
     (if rl_type r = RtInbound \<and> \<not> inbound_enabled ibs (rl_payload r) then Inr []
      else and_then (generate_rule env rss ibs (rl_type r) (rl_payload r) (rl_invert r)) (\<lambda>extra.
        let out = (\<lambda>e. Inr [JObj (set_if (rl_invert r) ''invert'' (JBool True) e)])
        in case rl_action r of
             ActRouteOptions \<Rightarrow> and_then (ge_parse env (rl_outbound r))
               (\<lambda>j. out (obj_fields (deep_assign (JObj extra) j)))
           | ActSniff \<Rightarrow> out (set_if (rl_sniffer r \<noteq> []) ''sniffer'' (json_strings (rl_sniffer r)) extra)
           | ActResolve \<Rightarrow> out (AList.update ''server'' (json_opt (dns_server_tag d (rl_server r)))
               (set_if (rl_strategy r \<noteq> StDefault) ''strategy'' (JStr (strategy_name (rl_strategy r))) extra))
           | ActReject \<Rightarrow> Inr []
           | ActHijackDNS \<Rightarrow> Inr []
           | _ \<Rightarrow> out (AList.update ''outbound'' (json_opt (outbound_tag obs (rl_outbound r))) extra)))"

text \<open>\<open>path.replace('data/', '../')\<close>: the first occurrence.\<close>

fun replace_data :: "string \<Rightarrow> string" where
  "replace_data [] = []"
| "replace_data (c # cs) =
     (if starts_with (c # cs) ''data/'' then ''../'' @ drop 4 cs else c # replace_data cs)"

definition generate_ruleset :: "gen_env \<Rightarrow> outbound list \<Rightarrow> rule_set \<Rightarrow> string + json" where
  "generate_ruleset env obs rs =
     (let base = [(''tag'', JStr (rs_tag rs)), (''type'', JStr (ruleset_type_name (rs_type rs)))]
      in case rs_type rs of
           RsInline \<Rightarrow> map_sum id (\<lambda>j. JObj (base @ [(''rules'', j)])) (ge_parse env (rs_rules rs))
         | RsLocal \<Rightarrow> Inr (JObj (base @
             [(''path'', json_opt (map_option replace_data (ge_rulesetPath env (rs_path rs)))),
              (''format'', JStr (ruleset_format_name (rs_format rs)))]))
         | RsRemote \<Rightarrow> Inr (JObj (base @
             [(''url'', JStr (rs_url rs)), (''format'', JStr (ruleset_format_name (rs_format rs))),
              (''download_detour'', json_opt (outbound_tag obs (rs_download_detour rs)))]
             @ field_if (rs_update_interval rs \<noteq> '''') ''update_interval'' (JStr (rs_update_interval rs)))))"

definition generate_route ::
    "gen_env \<Rightarrow> route \<Rightarrow> inbound list \<Rightarrow> outbound list \<Rightarrow> dns \<Rightarrow> string + json" where
  "generate_route env rt ibs obs d =
     and_then (traverse (generate_route_rule env (rt_rule_set rt) ibs obs d) (rt_rules rt)) (\<lambda>rules.
     and_then (traverse (generate_ruleset env obs) (rt_rule_set rt)) (\<lambda>sets.
     Inr (JObj
       ([(''rules'', JArr (concat rules)), (''rule_set'', JArr sets),
         (''auto_detect_interface'', JBool (rt_auto_detect_interface rt)),
         (''find_process'', if rt_find_process rt then JBool True else JUndef),
         (''final'', json_opt (outbound_tag obs (rt_final rt)))]
        @ field_if (\<not> rt_auto_detect_interface rt \<and> rt_default_interface rt \<noteq> '''')
            ''default_interface'' (JStr (rt_default_interface rt))))))"

subsection \<open>DNS\<close>

definition port_suffix :: "dns_server \<Rightarrow> string" where
  "port_suffix sv = (if ds_server_port sv = '''' then '''' else '':'' @ ds_server_port sv)"

definition generate_dns_server_url :: "dns_server \<Rightarrow> string" where
  "generate_dns_server_url sv = (case ds_type sv of
      DnsHttps \<Rightarrow> ''https://'' @ ds_server sv @ port_suffix sv @ ds_path sv
    | DnsH3 \<Rightarrow> ''h3://'' @ ds_server sv @ port_suffix sv @ ds_path sv
    | DnsDhcp \<Rightarrow> ''dhcp://'' @ ds_interface sv
    | DnsFakeIP \<Rightarrow> ''fake-ip://'' @ ds_inet4_range sv @
        (if ds_inet6_range sv = '''' then ''''
         else (if ds_inet4_range sv = '''' then '''' else '','') @ ds_inet6_range sv)
    | DnsHosts \<Rightarrow> ''hosts''
    | DnsLocal \<Rightarrow> ''local''
    | ty \<Rightarrow> dns_type_name ty @ ''://'' @ ds_server sv @ port_suffix sv)"

definition generate_dns_server :: "outbound list \<Rightarrow> dns_server \<Rightarrow> json" where
  "generate_dns_server obs sv = JObj
     ([(''tag'', JStr (ds_tag sv)), (''address'', JStr (generate_dns_server_url sv))]
      @ (if ds_detour sv = '''' then []
         else case find_outbound obs (ds_detour sv) of
                None \<Rightarrow> [(''detour'', JUndef)]
              | Some ob \<Rightarrow> field_if (ob_type ob \<noteq> OutDirect) ''detour'' (JStr (ob_tag ob))))"

definition is_fake_ip_rule :: "dns_rule \<Rightarrow> bool" where
  "is_fake_ip_rule r \<longleftrightarrow> dr_type r = RtInline \<and> js_includes (dr_payload r) ''__is_fake_ip''"

definition generate_dns_rule ::
    "gen_env \<Rightarrow> rule_set list \<Rightarrow> inbound list \<Rightarrow> dns \<Rightarrow> dns_rule \<Rightarrow> string + json list" where
  "generate_dns_rule env rss ibs d r =
     and_then (generate_rule env rss ibs (dr_type r) (dr_payload r) (dr_invert r)) (\<lambda>e0.
     let e1 = AList.update ''action'' (JStr (rule_action_name (dr_action r))) e0
     in if is_fake_ip_rule r \<and> \<not> list_ex (\<lambda>v. ds_type v = DnsFakeIP) (dn_servers d) then Inr []
        else
          let e2 = (if is_fake_ip_rule r then AList.delete ''__is_fake_ip'' e1 else e1);
              e3 = (if dr_action r = ActRoute \<or> dr_action r = ActRouteOptions
                    then set_if (dr_client_subnet r \<noteq> '''') ''client_subnet'' (JStr (dr_client_subnet r))
                           (set_if (dr_disable_cache r) ''disable_cache'' (JBool True) e2)
                    else e2)
          in case dr_action r of
               ActRoute \<Rightarrow> Inr [JObj
                 (set_if (dr_strategy r \<noteq> StDefault) ''strategy'' (JStr (strategy_name (dr_strategy r)))
                   (AList.update ''server'' (json_opt (dns_server_tag d (dr_server r))) e3))]
             | ActRouteOptions \<Rightarrow> and_then (ge_parse env (dr_server r))
                 (\<lambda>j. Inr [deep_assign (JObj e3) j])
             | ActReject \<Rightarrow> Inr [JObj (AList.update ''method'' (JStr (dr_server r)) e3)]
             | _ \<Rightarrow> Inr [JObj e3])"

definition generate_dns ::
    "gen_env \<Rightarrow> dns \<Rightarrow> rule_set list \<Rightarrow> inbound list \<Rightarrow> outbound list \<Rightarrow> string + json" where
  "generate_dns env d rss ibs obs =
     and_then (traverse (generate_dns_rule env rss ibs d) (dn_rules d)) (\<lambda>rules.
     Inr (JObj
       ([(''servers'', JArr (map (generate_dns_server obs) (dn_servers d))), (''rules'', JArr (concat rules)),
         (''disable_cache'', JBool (dn_disable_cache d)), (''disable_expire'', JBool (dn_disable_expire d)),
         (''independent_cache'', JBool (dn_independent_cache d)),
         (''final'', json_opt (dns_server_tag d (dn_final d)))]
        @ field_if (dn_strategy d \<noteq> StDefault) ''strategy'' (JStr (strategy_name (dn_strategy d)))
        @ field_if (dn_client_subnet d \<noteq> '''') ''client_subnet'' (JStr (dn_client_subnet d)))))"

subsection \<open>The configuration\<close>

definition log_json :: "log_cfg \<Rightarrow> json" where
  "log_json l = JObj
     [(''disabled'', JBool (lg_disabled l)), (''level'', JStr (log_level_name (lg_level l))),
      (''output'', JStr (lg_output l)), (''timestamp'', JBool (lg_timestamp l))]"

text \<open>Step 1. The detour of the web interface is looked up before the tags are normalised, the outbounds of
  the rules afterwards. The adaption to the stable branch is an empty function.\<close>

definition generate_base :: "gen_env \<Rightarrow> profile \<Rightarrow> string + json" where
  "generate_base env p =
     and_then (generate_inbounds (pf_inbounds p)) (\<lambda>ibs.
     and_then (generate_outbounds env (pf_outbounds p)) (\<lambda>g.
     and_then (generate_route env (pf_route p) (pf_inbounds p) (gd_outbounds g) (pf_dns p)) (\<lambda>rt.
     and_then (generate_dns env (pf_dns p) (rt_rule_set (pf_route p)) (pf_inbounds p) (gd_outbounds g)) (\<lambda>d.
     let ends = generate_endpoints (gd_outbounds g)
     in Inr (JObj
       ([(''log'', log_json (pf_log p)),
         (''experimental'', generate_experimental (pf_experimental p) (pf_outbounds p)),
         (''inbounds'', ibs), (''outbounds'', outbounds_json g), (''route'', rt), (''dns'', d)]
        @ field_if (ends \<noteq> []) ''endpoints'' (JArr ends)))))))"

text \<open>Step 3: which of the two wins where both the generated configuration and the mixin have a value.\<close>

definition apply_mixin :: "mixin_priority \<Rightarrow> json \<Rightarrow> json \<Rightarrow> json" where
  "apply_mixin prio mixin config = (case prio of
      PrioMixin \<Rightarrow> deep_assign config mixin
    | PrioGui \<Rightarrow> deep_assign config (deep_assign mixin config))"

text \<open>Step 4: the script answers an object, an array or \<open>null\<close>, or the answer is refused.\<close>

definition is_object_type :: "json \<Rightarrow> bool" where
  "is_object_type j = (case j of JObj _ \<Rightarrow> True | JArr _ \<Rightarrow> True | JNull \<Rightarrow> True | _ \<Rightarrow> False)"

definition generate_config :: "gen_env \<Rightarrow> profile \<Rightarrow> string + json" where
  "generate_config env p =
     and_then (generate_base env p) (\<lambda>base.
     and_then (ge_plugins env base) (\<lambda>config.
     and_then (ge_parse env (pf_mixin_config p)) (\<lambda>mixin.
     and_then (ge_script env (pf_script p) (json_clone (apply_mixin (pf_mixin_priority p) mixin config))) (\<lambda>result.
     if is_object_type result then Inr result else Inl ''Wrong result''))))"

subsection \<open>The file\<close>

definition invalid_server :: "json \<Rightarrow> bool" where
  "invalid_server j = (let server = json_get ''server'' j
     in json_truthy server \<and> js_trim (json_text server) \<in> {''0.0.0.0'', '''', ''::''})"

definition drop_invalid :: "json \<Rightarrow> string + json" where
  "drop_invalid config = (case json_get ''outbounds'' config of
      JArr js \<Rightarrow>
        if list_ex (\<lambda>j. j = JNull \<or> j = JUndef) js then Inl ''TypeError''
        else json_set ''outbounds'' (JArr (filter (\<lambda>j. \<not> invalid_server j) js)) config
    | _ \<Rightarrow> Inr config)"

definition fix_log :: "json \<Rightarrow> string + json" where
  "fix_log l =
     and_then (json_set ''disabled'' (JBool False) l) (\<lambda>l1.
     and_then (json_set ''output'' (JStr '''') l1) (\<lambda>l2.
     if json_get ''level'' l2 \<in> set (map JStr [''trace'', ''debug'', ''info'']) then Inr l2
     else json_set ''level'' (JStr ''info'') l2))"

text \<open>\<open>generateConfigFile\<close>: the configuration whose text is written to \<open>CoreConfigFilePath\<close>.\<close>

definition generate_config_file :: "gen_env \<Rightarrow> (json \<Rightarrow> string + json) \<Rightarrow> profile \<Rightarrow> string + json" where
  "generate_config_file env before_write p =
     and_then (generate_config env p) (\<lambda>config0.
     and_then (before_write config0) (\<lambda>config1.
     and_then (json_update ''log'' fix_log config1) (\<lambda>config2.
     and_then (json_update ''experimental'' (json_update ''cache_file'' (json_set ''path'' (JStr ''cache.db'')))
       config2) (\<lambda>config3.
     drop_invalid config3))))"

subsection \<open>Every reference of a group resolves\<close>

text \<open>
  The state of the loop only grows: a file that has been read stays read, a proxy that is used stays
  used. A tag is available when some used proxy carries it.
\<close>

definition gen_inv :: "gen_state \<Rightarrow> bool" where
  "gen_inv st \<longleftrightarrow> (\<forall>(sub, k) \<in> set (gn_used st). k < length (cached_entries st sub))
     \<and> (\<forall>es \<in> ran (map_of (gn_cache st)). \<forall>j \<in> set es. entry_tag j \<noteq> '''')"

definition gen_grows :: "gen_state \<Rightarrow> gen_state \<Rightarrow> bool" where
  "gen_grows st st' \<longleftrightarrow> map_of (gn_cache st) \<subseteq>\<^sub>m map_of (gn_cache st') \<and> set (gn_used st) \<subseteq> set (gn_used st')"

definition tag_available :: "gen_state \<Rightarrow> string \<Rightarrow> bool" where
  "tag_available st t \<longleftrightarrow> (\<exists>(sub, k) \<in> set (gn_used st). entry_tag (cached_entries st sub ! k) = t)"

lemma gen_grows_refl [simp]: "gen_grows st st"
  by (simp add: gen_grows_def)

lemma gen_grows_trans: "gen_grows a b \<Longrightarrow> gen_grows b c \<Longrightarrow> gen_grows a c"
  unfolding gen_grows_def using map_le_trans by blast

lemma cached_entries_grows:
  "gen_grows st st' \<Longrightarrow> k < length (cached_entries st sub) \<Longrightarrow> cached_entries st' sub = cached_entries st sub"
  by (auto simp: gen_grows_def cached_entries_def map_le_def or_else_def dom_def split: option.splits)

lemma tag_available_grows:
  assumes "gen_inv st" "gen_grows st st'" "tag_available st t"
  shows "tag_available st' t"
proof -
  from assms(3) obtain sub k where k: "(sub, k) \<in> set (gn_used st)" "entry_tag (cached_entries st sub ! k) = t"
    unfolding tag_available_def by blast
  from k(1) assms(1) have "k < length (cached_entries st sub)" unfolding gen_inv_def by blast
  then have "cached_entries st' sub = cached_entries st sub" by (rule cached_entries_grows [OF assms(2)])
  moreover have "(sub, k) \<in> set (gn_used st')" using assms(2) k(1) unfolding gen_grows_def by blast
  ultimately show ?thesis using k(2) unfolding tag_available_def by (intro bexI [of _ "(sub, k)"]) simp_all
qed

lemma normalize_proxy_nonempty [simp]: "normalize_proxy i ty tag n = ('''', n') \<longleftrightarrow> False"
proof -
  have blank: "js_trim '''' = ''''" by (simp add: js_trim_def trim_left_def)
  have "fst (proxy_fallback i ty n) \<noteq> ''''" by (simp add: proxy_fallback_def)
  then have "fst (normalize_proxy i ty tag n) \<noteq> ''''"
    using blank by (cases "tag = ''''") (auto simp: normalize_proxy_def split: prod.splits)
  then show ?thesis by (metis fst_conv)
qed

lemma normalize_proxy_keep: "js_trim tag \<noteq> '''' \<Longrightarrow> fst (normalize_proxy i ty tag n) = tag"
  by (simp add: normalize_proxy_def split: prod.splits)

lemma entry_tag_update [simp]: "entry_tag (JObj (AList.update ''tag'' (JStr t) fs)) = t"
  by (simp add: entry_tag_def json_get_def update_conv')

lemma normalize_entries_tags:
  "normalize_entries n js = Inr (js', m) \<Longrightarrow> j \<in> set js' \<Longrightarrow> entry_tag j \<noteq> ''''"
proof (induction js arbitrary: n js' m)
  case Nil
  then show ?case by simp
next
  case (Cons j0 js)
  then show ?case
    by (auto split: if_splits prod.splits sum.splits)
qed

lemma load_subscription_facts:
  assumes "load_subscription env sub st = Inr st'" "gen_inv st"
  shows "gen_inv st' \<and> gen_grows st st' \<and> gn_used st' = gn_used st"
proof (cases "map_of (gn_cache st) sub = None \<and> ge_subscription env sub \<noteq> None")
  case False
  with assms show ?thesis by (auto simp: load_subscription_def split: option.splits if_splits)
next
  case True
  with assms(1) obtain js js' n n' where n: "normalize_entries n js = Inr (js', n')"
      "st' = st\<lparr>gn_cache := AList.update sub js' (gn_cache st), gn_count := n'\<rparr>"
    by (auto simp: load_subscription_def split: option.splits if_splits sum.splits)
  have grows: "gen_grows st st'"
    using True by (auto simp: gen_grows_def n(2) map_le_def update_conv')
  have "gen_inv st'"
    unfolding gen_inv_def
  proof (intro conjI ballI)
    fix x assume x: "x \<in> set (gn_used st')"
    obtain s k where sk: "x = (s, k)" by force
    with x assms(2) have "k < length (cached_entries st s)" by (auto simp: n(2) gen_inv_def)
    with cached_entries_grows [OF grows this] show "case x of (sub, k) \<Rightarrow> k < length (cached_entries st' sub)"
      by (simp add: sk)
  next
    fix es j assume es: "es \<in> ran (map_of (gn_cache st'))" and j: "j \<in> set es"
    from es have "es = js' \<or> es \<in> ran (map_of (gn_cache st))"
      by (auto simp: n(2) update_conv' ran_def split: if_splits)
    with j n(1) assms(2) normalize_entries_tags show "entry_tag j \<noteq> ''''" unfolding gen_inv_def by blast
  qed
  with grows show ?thesis by (simp add: n(2))
qed

lemma use_entries:
  assumes "gen_inv st" "\<And>x. x \<in> set used \<Longrightarrow> x \<notin> set (gn_used st) \<Longrightarrow> snd x < length (cached_entries st (fst x))"
    and "set (gn_used st) \<subseteq> set used"
  shows "gen_inv (st\<lparr>gn_count := n, gn_used := used\<rparr>) \<and> gen_grows st (st\<lparr>gn_count := n, gn_used := used\<rparr>)"
  using assms by (fastforce simp: gen_inv_def gen_grows_def cached_entries_def)

lemma add_child_facts:
  assumes "add_child env matches c st = Inr (tags, st')" "gen_inv st"
  shows "gen_inv st' \<and> gen_grows st st' \<and> list_all (\<lambda>t. tag_available st' t
      \<or> px_type c = ''Built-in'' \<and> t = fst (normalize_proxy (px_id c) (px_type c) (px_tag c) (gn_count st))) tags"
proof (cases "px_type c = ''Built-in''")
  case True
  with assms show ?thesis
    using use_entries [OF assms(2), of "gn_used st"]
    by (auto simp: add_child_def gen_inv_def gen_grows_def cached_entries_def split: prod.splits)
next
  case False
  define sub where "sub = child_source c"
  from assms(1) False obtain s1 where s1: "load_subscription env sub st = Inr s1"
    by (auto simp: add_child_def sub_def [symmetric] split: sum.splits)
  note f = load_subscription_facts [OF s1 assms(2)]
  let ?es = "cached_entries s1 sub"
  show ?thesis
  proof (cases "px_type c = ''Subscription''")
    case True
    let ?used = "fold (\<lambda>k. add_new (sub, k)) [0..<length ?es] (gn_used s1)"
    have r: "tags = filter matches (map entry_tag ?es)" "st' = s1\<lparr>gn_used := ?used\<rparr>"
      using assms(1) False True s1 by (simp_all add: add_child_def sub_def [symmetric] Let_def)
    have fold_map: "?used = fold add_new (map (Pair sub) [0..<length ?es]) (gn_used s1)"
      by (simp add: fold_map comp_def)
    have used: "set ?used = set (gn_used s1) \<union> Pair sub ` {0..<length ?es}"
      by (simp only: fold_map set_fold_add_new set_map set_upt)
    have "gen_inv (s1\<lparr>gn_count := gn_count s1, gn_used := ?used\<rparr>)
        \<and> gen_grows s1 (s1\<lparr>gn_count := gn_count s1, gn_used := ?used\<rparr>)"
      by (rule use_entries) (use f used in auto)
    then have inv: "gen_inv st' \<and> gen_grows s1 st'" by (simp add: r(2))
    have "tag_available st' t" if t: "t \<in> set tags" for t
    proof -
      from t obtain k where "k < length ?es" "entry_tag (?es ! k) = t"
        by (auto simp: r(1) in_set_conv_nth)
      then show ?thesis using used unfolding tag_available_def by (force simp: r(2) cached_entries_def)
    qed
    with inv f show ?thesis using gen_grows_trans by (auto simp: list_all_iff)
  next
    case nosub: False
    obtain tag n where tn: "normalize_proxy (px_id c) (px_type c) (px_tag c) (gn_count s1) = (tag, n)" by force
    show ?thesis
    proof (cases "tags = []")
      case True
      then have "st' = s1\<lparr>gn_count := n\<rparr>"
        using assms(1) False nosub s1
        by (auto simp: add_child_def sub_def [symmetric] Let_def tn split: option.splits if_splits)
      then show ?thesis using f True by (simp add: gen_inv_def gen_grows_def cached_entries_def)
    next
      case ne: False
      then obtain k where k: "find_index (\<lambda>v. entry_tag v = tag) ?es = Some k" "tags = [entry_tag (?es ! k)]"
          "st' = s1\<lparr>gn_count := n, gn_used := add_new (sub, k) (gn_used s1)\<rparr>"
        using assms(1) False nosub s1
        by (auto simp: add_child_def sub_def [symmetric] Let_def tn split: option.splits if_splits)
      have len: "k < length ?es" using find_index_SomeD [OF k(1)] by simp
      have "gen_inv st' \<and> gen_grows s1 st'"
        unfolding k(3) by (rule use_entries) (use f len in auto)
      moreover have "tag_available st' (entry_tag (?es ! k))"
        unfolding tag_available_def by (force simp: k(3) cached_entries_def)
      ultimately show ?thesis using f gen_grows_trans by (auto simp: k(2))
    qed
  qed
qed

lemma add_children_facts:
  "add_children env matches cs st = Inr (tags, st') \<Longrightarrow> gen_inv st \<Longrightarrow>
   gen_inv st' \<and> gen_grows st st' \<and> list_all (\<lambda>t. tag_available st' t
      \<or> (\<exists>c \<in> set cs. \<exists>n. px_type c = ''Built-in'' \<and> t = fst (normalize_proxy (px_id c) (px_type c) (px_tag c) n))) tags"
proof (induction cs arbitrary: st tags)
  case Nil
  then show ?case by simp
next
  case (Cons c cs)
  from Cons.prems(1) obtain t1 s1 t2 where s: "add_child env matches c st = Inr (t1, s1)"
      "add_children env matches cs s1 = Inr (t2, st')" "tags = t1 @ t2"
    by (auto split: sum.splits)
  note a = add_child_facts [OF s(1) Cons.prems(2)]
  note b = Cons.IH [OF s(2)]
  have g: "gen_inv s1" "gen_grows s1 st'" using a b by auto
  have "gen_inv st' \<and> gen_grows st st'" using a b gen_grows_trans by blast
  moreover have "list_all (\<lambda>t. tag_available st' t \<or> (\<exists>d \<in> set (c # cs). \<exists>n. px_type d = ''Built-in''
      \<and> t = fst (normalize_proxy (px_id d) (px_type d) (px_tag d) n))) t1"
    using a tag_available_grows [OF g] by (auto simp: list_all_iff)
  moreover have "list_all (\<lambda>t. tag_available st' t \<or> (\<exists>d \<in> set (c # cs). \<exists>n. px_type d = ''Built-in''
      \<and> t = fst (normalize_proxy (px_id d) (px_type d) (px_tag d) n))) t2"
    using b g by (auto simp: list_all_iff)
  ultimately show ?case by (simp only: s(3) list_all_append)
qed

text \<open>Normalising the tags changes nothing else, and keeps a tag that is not blank.\<close>

definition retagged :: "outbound \<Rightarrow> outbound \<Rightarrow> bool" where
  "retagged ob ob' \<longleftrightarrow> ob_type ob' = ob_type ob \<and> ob_id ob' = ob_id ob \<and> ob_outbounds ob' = ob_outbounds ob
     \<and> (js_trim (ob_tag ob) = '''' \<or> ob_tag ob' = js_trim (ob_tag ob))"

lemma normalize_outbound_retagged: "normalize_outbound ob n = (ob', n') \<Longrightarrow> retagged ob ob'"
  by (auto simp: normalize_outbound_def retagged_def ensure_tag_def str_or_def split: prod.splits if_splits)

lemma retagged_refl: "js_trim (ob_tag ob) = ob_tag ob \<Longrightarrow> retagged ob ob"
  by (simp add: retagged_def)

definition names_direct :: "outbound list \<Rightarrow> string \<Rightarrow> bool" where
  "names_direct obs t \<longleftrightarrow>
     (\<exists>d. List.find (\<lambda>v. ob_type v = OutDirect) obs = Some d \<and> js_trim (ob_tag d) = t \<and> t \<noteq> '''')"

lemma names_direct_tag: "names_direct obs t \<Longrightarrow> direct_tag obs = t"
  by (auto simp: names_direct_def direct_tag_def ensure_tag_def str_or_def)

lemma names_direct_retagged:
  "names_direct (pre @ ob # rest) t \<Longrightarrow> retagged ob ob' \<Longrightarrow> names_direct (pre @ ob' # rest) t"
  by (auto simp: names_direct_def retagged_def find_append split: option.splits)

text \<open>What a member of a group may name.\<close>

definition member_ok :: "gen_state \<Rightarrow> outbound list \<Rightarrow> string \<Rightarrow> string \<Rightarrow> bool" where
  "member_ok st all d t \<longleftrightarrow> tag_available st t \<or> t = d
     \<or> (\<exists>ob \<in> set all. \<exists>c \<in> set (ob_outbounds ob). \<exists>n.
          px_type c = ''Built-in'' \<and> t = fst (normalize_proxy (px_id c) (px_type c) (px_tag c) n))"

definition group_ok :: "gen_state \<Rightarrow> outbound list \<Rightarrow> string \<Rightarrow> core_group \<Rightarrow> bool" where
  "group_ok st all d g \<longleftrightarrow> cg_members g \<noteq> Some [] \<and> list_all (member_ok st all d) (or_else (cg_members g) [])"

lemma group_ok_grows:
  "gen_inv st \<Longrightarrow> gen_grows st st' \<Longrightarrow> group_ok st all d g \<Longrightarrow> group_ok st' all d g"
  using tag_available_grows by (auto simp: group_ok_def member_ok_def list_all_iff)

lemma generate_outbound_facts:
  assumes "generate_outbound env obs ob st = Inr (g, st')" "gen_inv st" "ob \<in> set all" "direct_tag obs = d"
  shows "gen_inv st' \<and> gen_grows st st' \<and> group_ok st' all d g \<and> cg_tag g = ob_tag ob"
proof (cases "ob_type ob = OutSelector \<or> ob_type ob = OutUrltest")
  case False
  with assms show ?thesis by (auto simp: generate_outbound_def Let_def group_ok_def)
next
  case True
  with assms(1) obtain matches tags where t: "add_children env matches (ob_outbounds ob) st = Inr (tags, st')"
      "cg_members g = Some (if tags = [] then [direct_tag obs] else tags)" "cg_tag g = ob_tag ob"
    by (auto simp: generate_outbound_def Let_def and_then_def split: sum.splits)
  note f = add_children_facts [OF t(1) assms(2)]
  have "list_all (member_ok st' all d) tags"
    using f assms(3) unfolding list_all_iff member_ok_def by blast
  then show ?thesis using f t(2,3) assms(4) by (auto simp: group_ok_def member_ok_def)
qed

lemma generate_loop_facts:
  "generate_loop env pre rest n st = Inr (gs, obs', st') \<Longrightarrow> gen_inv st \<Longrightarrow> names_direct (pre @ rest) d \<Longrightarrow>
   ob_outbounds ` set rest \<subseteq> ob_outbounds ` set all \<Longrightarrow>
   gen_inv st' \<and> gen_grows st st' \<and> list_all (group_ok st' all d) gs
   \<and> (\<exists>rest'. obs' = pre @ rest' \<and> list_all2 retagged rest rest'
        \<and> map cg_tag gs = map ob_tag (filter (\<lambda>ob. ob_type ob \<noteq> OutWireGuard) rest'))"
proof (induction rest arbitrary: pre n st gs)
  case Nil
  then show ?case by auto
next
  case (Cons ob rest)
  obtain ob' n' where norm: "normalize_outbound ob n = (ob', n')" by force
  note re = normalize_outbound_retagged [OF norm]
  have dir: "names_direct ((pre @ [ob']) @ rest) d" using names_direct_retagged [OF Cons.prems(3) re] by simp
  have sub: "ob_outbounds ` set rest \<subseteq> ob_outbounds ` set all" using Cons.prems(4) by auto
  show ?case
  proof (cases "ob_type ob' = OutWireGuard")
    case True
    then have l: "generate_loop env (pre @ [ob']) rest n' st = Inr (gs, obs', st')"
      using Cons.prems(1) norm by simp
    from Cons.IH [OF l Cons.prems(2) dir sub] obtain rest' where r: "gen_inv st'" "gen_grows st st'"
        "list_all (group_ok st' all d) gs" "obs' = (pre @ [ob']) @ rest'" "list_all2 retagged rest rest'"
        "map cg_tag gs = map ob_tag (filter (\<lambda>ob. ob_type ob \<noteq> OutWireGuard) rest')" by blast
    then show ?thesis using re True by (intro conjI exI [of _ "ob' # rest'"]) simp_all
  next
    case False
    from Cons.prems(1) norm False obtain g s1 gs' where g: "generate_outbound env (pre @ ob' # rest) ob' st = Inr (g, s1)"
        "generate_loop env (pre @ [ob']) rest n' s1 = Inr (gs', obs', st')" "gs = g # gs'"
      by (auto split: sum.splits)
    from Cons.prems(4) obtain a where a: "a \<in> set all" "ob_outbounds a = ob_outbounds ob" by auto
    have dt: "direct_tag (pre @ ob' # rest) = d" using names_direct_tag [OF dir] by simp
    have f: "gen_inv s1 \<and> gen_grows st s1 \<and> group_ok s1 [ob'] d g \<and> cg_tag g = ob_tag ob'"
      by (rule generate_outbound_facts [OF g(1) Cons.prems(2) _ dt]) simp
    then have ok: "group_ok s1 all d g"
      using a re unfolding group_ok_def member_ok_def list_all_iff retagged_def by fastforce
    have inv1: "gen_inv s1" using f by blast
    from Cons.IH [OF g(2) inv1 dir sub] obtain rest' where r: "gen_inv st'" "gen_grows s1 st'"
        "list_all (group_ok st' all d) gs'" "obs' = (pre @ [ob']) @ rest'" "list_all2 retagged rest rest'"
        "map cg_tag gs' = map ob_tag (filter (\<lambda>ob. ob_type ob \<noteq> OutWireGuard) rest')" by blast
    have "group_ok st' all d g" using group_ok_grows [OF inv1 r(2) ok] .
    moreover have "gen_grows st st'" using f r(2) gen_grows_trans by blast
    ultimately show ?thesis
      using r f re False g(3) by (intro conjI exI [of _ "ob' # rest'"]) simp_all
  qed
qed


text \<open>An environment in which nothing can be read and every pattern is searched as a plain text.\<close>

definition plain_env :: gen_env where
  "plain_env = \<lparr>ge_subscription = (\<lambda>i. if i = ''cloud-a'' then Some ''a.json'' else None),
     ge_readJson = (\<lambda>_. Inr (JObj [(''outbounds'', JArr [JObj [(''tag'', JStr ''A-ss-v4'')]])])),
     ge_regex = (\<lambda>p. Inr (\<lambda>t. js_includes t p)), ge_parse = (\<lambda>_. Inr (JObj [])), ge_rulesetPath = (\<lambda>_. None),
     ge_plugins = Inr, ge_script = (\<lambda>_. Inr)\<rparr>"

definition small_outbounds :: "outbound list" where
  "small_outbounds =
     [(default_outbound ''out-d'')\<lparr>ob_tag := ''direct'', ob_type := OutDirect\<rparr>,
      (default_outbound ''out-g'')\<lparr>ob_tag := ''group'', ob_type := OutSelector,
        ob_outbounds := [built_in ''out-d'' ''direct'',
          \<lparr>px_id = ''cloud-a'', px_type = ''Subscription'', px_tag = ''A'', px_meta = None\<rparr>]\<rparr>]"


subsection \<open>Mixins\<close>

lemma in_set_update: "x \<in> set (AList.update k v d) \<Longrightarrow> x = (k, v) \<or> x \<in> set d"
  by (induction d) (auto split: if_splits)
lemma json_keys_ok_assign:
  "json_keys_ok (JObj t) \<Longrightarrow> json_keys_ok (JObj s) \<Longrightarrow> json_keys_ok (JObj (assign_fields t s))"
proof (induction t s rule: assign_fields.induct)
  case (1 t)
  then show ?case by simp
next
  case (2 t k v fs)
  have k: "k \<noteq> ''__proto__''" and v: "json_keys_ok v" and fs: "json_keys_ok (JObj fs)"
    using "2.prems"(2) by auto
  let ?old = "obj_fields (or_else (map_of t k) JUndef)"
  have old: "json_keys_ok (JObj ?old)"
  proof (cases "map_of t k")
    case (Some w)
    then have "json_keys_ok w" using "2.prems"(1) by (auto simp: list_all_iff dest: map_of_SomeD)
    then show ?thesis using Some by (cases w) simp_all
  qed simp
  let ?w = "case v of JObj gs \<Rightarrow> JObj (assign_fields ?old gs) | _ \<Rightarrow> v"
  have w: "json_keys_ok ?w"
  proof (cases v)
    case (JObj gs)
    then show ?thesis using "2.IH"(1) [OF k JObj old] v by simp
  qed (use v in simp_all)
  have "json_keys_ok (JObj (AList.update k ?w t))"
    using "2.prems"(1) k w
    by (auto simp: distinct_update dom_update list_all_iff dest!: in_set_update)
  then show ?case using "2.IH"(2) fs k by simp
qed

lemma json_keys_ok_deep_assign:
  "json_keys_ok t \<Longrightarrow> json_keys_ok s \<Longrightarrow> json_keys_ok (deep_assign t s)"
  unfolding deep_assign_def by (rule json_keys_ok_assign) (cases t; cases s; simp)+

definition json_leaf :: "json \<Rightarrow> bool" where
  "json_leaf j \<longleftrightarrow> \<not> is_plain_object j \<and> j \<noteq> JUndef"

text \<open>
  C6. Who wins when the mixin and the generated configuration disagree: with the priority \<open>mixin\<close> every
  plain value of the mixin is found in the result and the generated value shows where the mixin is
  silent; with the priority \<open>gui\<close> every plain value of the generated configuration is found in the
  result and the values of the mixin show where the generated configuration is silent.
\<close>

theorem mixin_priority_respected:
  assumes "json_keys_ok mixin" "json_keys_ok config" "ks \<noteq> []"
  shows "(json_leaf (json_at ks mixin) \<longrightarrow> json_at ks (apply_mixin PrioMixin mixin config) = json_at ks mixin)
    \<and> (json_silent ks mixin \<longrightarrow> json_at ks (apply_mixin PrioMixin mixin config) = json_at ks config)
    \<and> (json_leaf (json_at ks config) \<longrightarrow> json_at ks (apply_mixin PrioGui mixin config) = json_at ks config)
    \<and> (json_silent ks config \<and> json_leaf (json_at ks mixin)
        \<longrightarrow> json_at ks (apply_mixin PrioGui mixin config) = json_at ks mixin)"
proof -
  have ok: "json_keys_ok (deep_assign mixin config)" using assms(1,2) by (rule json_keys_ok_deep_assign)
  note leaf = deep_assign_leaf [OF _ _ _ assms(3)]
  have gui: "json_at ks (apply_mixin PrioGui mixin config) = json_at ks config" if "json_leaf (json_at ks config)"
    using leaf [of config mixin] leaf [OF ok, of config] that assms(2)
    by (simp add: apply_mixin_def json_leaf_def)
  have "json_at ks (apply_mixin PrioGui mixin config) = json_at ks mixin"
    if "json_silent ks config" "json_leaf (json_at ks mixin)"
    using deep_assign_silent [OF assms(2) that(1), of mixin] leaf [OF ok, of config] that(2)
    by (simp add: apply_mixin_def json_leaf_def)
  with gui show ?thesis
    using leaf [OF assms(1), of config] deep_assign_silent [OF assms(1), of ks config]
    by (simp add: apply_mixin_def json_leaf_def)
qed

theorem mixin_priority_respected_witness:
  "json_at [''dns'', ''final''] (apply_mixin PrioGui
      (JObj [(''dns'', JObj [(''final'', JStr ''x''), (''cache'', JNum 7)])])
      (JObj [(''dns'', JObj [(''final'', JStr ''y'')])])) = JStr ''y''"
proof -
  let ?m = "JObj [(''dns'', JObj [(''final'', JStr ''x''), (''cache'', JNum 7)])]"
  let ?c = "JObj [(''dns'', JObj [(''final'', JStr ''y'')])]"
  have "json_keys_ok ?m" "json_keys_ok ?c" "[''dns'', ''final''] \<noteq> []" by simp_all
  from mixin_priority_respected [OF this] show ?thesis by (simp add: json_leaf_def json_get_def)
qed

subsection \<open>The written file\<close>

lemma json_get_set: "json_set k v j = Inr j' \<Longrightarrow> json_get h j' = (if h = k then v else json_get h j)"
  by (cases j) (auto simp: json_get_def update_conv')

lemma json_get_update: "json_update k f j = Inr j' \<Longrightarrow>
   \<exists>v. f (json_get k j) = Inr v \<and> (\<forall>h. json_get h j' = (if h = k then v else json_get h j))"
  by (auto simp: json_update_def json_get_set split: sum.splits)

lemma and_then_Inr: "and_then x f = Inr y \<longleftrightarrow> (\<exists>v. x = Inr v \<and> f v = Inr y)"
  by (cases x) (auto simp: and_then_def)

lemma fix_log_facts:
  "fix_log l = Inr l' \<Longrightarrow> json_get ''disabled'' l' = JBool False \<and> json_get ''output'' l' = JStr ''''
     \<and> json_get ''level'' l' \<in> set (map JStr [''trace'', ''debug'', ''info''])"
proof -
  assume "fix_log l = Inr l'"
  then obtain l1 l2 where l: "json_set ''disabled'' (JBool False) l = Inr l1" "json_set ''output'' (JStr '''') l1 = Inr l2"
    and l': "(if json_get ''level'' l2 \<in> set (map JStr [''trace'', ''debug'', ''info'']) then Inr l2
      else json_set ''level'' (JStr ''info'') l2) = Inr l'"
    by (auto simp: fix_log_def and_then_Inr)
  have "json_get ''disabled'' l2 = JBool False" "json_get ''output'' l2 = JStr ''''"
    using json_get_set [OF l(1)] json_get_set [OF l(2)] by simp_all
  then show ?thesis
    using l' json_get_set [of "''level''" "JStr ''info''" l2 l'] by (auto split: if_splits)
qed

lemma drop_invalid_facts:
  "drop_invalid c = Inr c' \<Longrightarrow> (\<forall>h. h \<noteq> ''outbounds'' \<longrightarrow> json_get h c' = json_get h c)
     \<and> (\<forall>js. json_get ''outbounds'' c' = JArr js \<longrightarrow> list_all (\<lambda>j. \<not> invalid_server j) js)"
  by (auto simp: drop_invalid_def json_get_set list_all_iff split: json.splits if_splits)


text \<open>A profile of one selector group whose only proxy has the server address \<open>server\<close>.\<close>

definition one_proxy_env :: "string \<Rightarrow> gen_env" where
  "one_proxy_env server = plain_env\<lparr>ge_readJson := (\<lambda>_. Inr (JArr
     [JObj [(''type'', JStr ''trojan''), (''tag'', JStr ''A''), (''server'', JStr server)]]))\<rparr>"

definition one_proxy_profile :: profile where
  "one_proxy_profile = (default_profile ''p'' ''P'' ''secret'' (\<lambda>s. s) (\<lambda>n. nat_text n))
     \<lparr>pf_inbounds := [],
      pf_outbounds := [(default_outbound ''g'')\<lparr>ob_tag := ''G'', ob_outbounds :=
        [\<lparr>px_id = ''cloud-a'', px_type = ''Subscription'', px_tag = ''A'', px_meta = None\<rparr>]\<rparr>]\<rparr>"

definition emitted_tags :: "json \<Rightarrow> string list" where
  "emitted_tags config = (case json_get ''outbounds'' config of JArr js \<Rightarrow> map entry_tag js | _ \<Rightarrow> [])"

definition first_members :: "json \<Rightarrow> json" where
  "first_members config = (case json_get ''outbounds'' config of JArr (j # _) \<Rightarrow> json_get ''outbounds'' j | _ \<Rightarrow> JUndef)"

text \<open>Dropping an outbound leaves the groups that name it as they are: the reference dangles.\<close>

lemma dropped_outbound_is_still_named:
  "map_sum id (\<lambda>c. (emitted_tags c, first_members c))
     (generate_config_file (one_proxy_env ''0.0.0.0'') Inr one_proxy_profile)
   = Inr ([''G''], JArr [JStr ''A''])"
  by code_simp


subsection \<open>The shape of the configuration\<close>

lemma normalize_outbound_tag: "ob_tag (fst (normalize_outbound ob n)) \<noteq> ''''" "ob_type (fst (normalize_outbound ob n)) = ob_type ob"
  by (auto simp: normalize_outbound_def fallback_name_def ensure_tag_def str_or_def)

lemma generate_outbound_tag: "generate_outbound env obs ob st = Inr (g, st') \<Longrightarrow> cg_tag g = ob_tag ob"
  by (auto simp: generate_outbound_def Let_def and_then_def split: if_splits sum.splits)

lemma generate_loop_tags:
  "generate_loop env pre rest n st = Inr (gs, obs', st') \<Longrightarrow> list_all (\<lambda>ob. ob_tag ob \<noteq> '''') pre \<Longrightarrow>
   list_all (\<lambda>ob. ob_tag ob \<noteq> '''') obs' \<and> map ob_type obs' = map ob_type (pre @ rest)
   \<and> list_all (\<lambda>g. cg_tag g \<noteq> '''') gs"
proof (induction rest arbitrary: pre n st gs)
  case Nil
  then show ?case by simp
next
  case (Cons ob rest)
  obtain ob' n' where norm: "normalize_outbound ob n = (ob', n')" by force
  have ob': "ob_tag ob' \<noteq> ''''" "ob_type ob' = ob_type ob" using normalize_outbound_tag [of ob n] norm by simp_all
  then have pre: "list_all (\<lambda>ob. ob_tag ob \<noteq> '''') (pre @ [ob'])" using Cons.prems(2) by simp
  show ?case
  proof (cases "ob_type ob' = OutWireGuard")
    case True
    then have "generate_loop env (pre @ [ob']) rest n' st = Inr (gs, obs', st')" using Cons.prems(1) norm by simp
    from Cons.IH [OF this pre] show ?thesis using ob' by simp
  next
    case False
    from Cons.prems(1) norm False obtain g s1 gs' where g: "generate_outbound env (pre @ ob' # rest) ob' st = Inr (g, s1)"
        "generate_loop env (pre @ [ob']) rest n' s1 = Inr (gs', obs', st')" "gs = g # gs'"
      by (auto split: sum.splits)
    from Cons.IH [OF g(2) pre] generate_outbound_tag [OF g(1)] show ?thesis using ob' g(3) by simp
  qed
qed

lemma generate_outbounds_tags:
  assumes "generate_outbounds env obs = Inr g"
  shows "list_all (\<lambda>ob. ob_tag ob \<noteq> '''') (gd_outbounds g)" "map ob_type (gd_outbounds g) = map ob_type obs"
    "list_all (\<lambda>j. entry_tag j \<noteq> '''') (map group_json (gd_groups g) @ gd_proxies g)"
proof -
  from assms obtain gs st where l: "generate_loop env [] obs 0 gn_init = Inr (gs, gd_outbounds g, st)" "gd_groups g = gs"
    and px: "gd_proxies g = filter (\<lambda>j. entry_tag j \<noteq> '''') (map (\<lambda>(sub, k). cached_entries st sub ! k) (gn_used st))"
    by (cases "generate_loop env [] obs 0 gn_init") (auto simp: generate_outbounds_def)
  have "entry_tag (group_json h) = cg_tag h" for h
    by (simp add: entry_tag_def group_json_def json_get_def)
  with generate_loop_tags [OF l(1)] l(2) px
  show "list_all (\<lambda>ob. ob_tag ob \<noteq> '''') (gd_outbounds g)" "map ob_type (gd_outbounds g) = map ob_type obs"
    "list_all (\<lambda>j. entry_tag j \<noteq> '''') (map group_json (gd_groups g) @ gd_proxies g)"
    by (auto simp: list_all_iff)
qed

text \<open>
  C8. The type of the configuration that step 1 builds: an object with its six fields in this order, and
  \<open>endpoints\<close> behind them exactly when the profile has a WireGuard outbound; the log, the experimental
  block, the route and the DNS are objects, inbounds and outbounds are arrays, and every outbound and every
  endpoint has a tag that is a nonempty string.
\<close>

theorem base_config_is_typed:
  assumes "generate_base env p = Inr j"
  shows "map fst (obj_fields j) = [''log'', ''experimental'', ''inbounds'', ''outbounds'', ''route'', ''dns'']
       @ (if list_ex (\<lambda>ob. ob_type ob = OutWireGuard) (pf_outbounds p) then [''endpoints''] else [])
    \<and> list_all (\<lambda>k. is_plain_object (json_get k j)) [''log'', ''experimental'', ''route'', ''dns'']
    \<and> (\<exists>ibs. json_get ''inbounds'' j = JArr ibs)
    \<and> (\<exists>obs. json_get ''outbounds'' j = JArr obs \<and> list_all (\<lambda>ob. entry_tag ob \<noteq> '''') obs)
    \<and> (\<exists>es. json_get ''endpoints'' j = (if es = [] then JUndef else JArr es) \<and> list_all (\<lambda>e. entry_tag e \<noteq> '''') es)"
proof -
  from assms obtain ibs g rt d where
      ibs: "generate_inbounds (pf_inbounds p) = Inr ibs" and g: "generate_outbounds env (pf_outbounds p) = Inr g"
    and rt: "generate_route env (pf_route p) (pf_inbounds p) (gd_outbounds g) (pf_dns p) = Inr rt"
    and d: "generate_dns env (pf_dns p) (rt_rule_set (pf_route p)) (pf_inbounds p) (gd_outbounds g) = Inr d"
    and j: "j = JObj ([(''log'', log_json (pf_log p)),
         (''experimental'', generate_experimental (pf_experimental p) (pf_outbounds p)),
         (''inbounds'', ibs), (''outbounds'', outbounds_json g), (''route'', rt), (''dns'', d)]
        @ field_if (generate_endpoints (gd_outbounds g) \<noteq> []) ''endpoints'' (JArr (generate_endpoints (gd_outbounds g))))"
    by (auto simp: generate_base_def and_then_def Let_def split: sum.splits)
  note tags = generate_outbounds_tags [OF g]
  have arr: "\<exists>js. ibs = JArr js" using ibs by (cases "traverse generate_inbound (pf_inbounds p)") (auto simp: generate_inbounds_def)
  have objs: "is_plain_object rt" "is_plain_object d" "is_plain_object (log_json (pf_log p))"
      "is_plain_object (generate_experimental (pf_experimental p) (pf_outbounds p))"
    using rt d by (auto simp: generate_route_def generate_dns_def and_then_def log_json_def generate_experimental_def split: sum.splits)
  have wg: "generate_endpoints (gd_outbounds g) \<noteq> [] \<longleftrightarrow> list_ex (\<lambda>ob. ob_type ob = OutWireGuard) (pf_outbounds p)"
  proof -
    have "OutWireGuard \<in> ob_type ` set (gd_outbounds g) \<longleftrightarrow> OutWireGuard \<in> ob_type ` set (pf_outbounds p)"
      using tags(2) by (metis list.set_map)
    moreover have "generate_endpoints obs \<noteq> [] \<longleftrightarrow> OutWireGuard \<in> ob_type ` set obs" for obs
      by (force simp: generate_endpoints_def filter_empty_conv)
    moreover have "list_ex (\<lambda>ob. ob_type ob = OutWireGuard) obs \<longleftrightarrow> OutWireGuard \<in> ob_type ` set obs" for obs :: "outbound list"
      by (force simp: list_ex_iff)
    ultimately show ?thesis by simp
  qed
  have ends: "list_all (\<lambda>e. entry_tag e \<noteq> '''') (generate_endpoints (gd_outbounds g))"
    using tags(1) by (auto simp: generate_endpoints_def list_all_iff generate_endpoint_def entry_tag_def json_get_def)
  have "\<exists>es. json_get ''endpoints'' j = (if es = [] then JUndef else JArr es) \<and> list_all (\<lambda>e. entry_tag e \<noteq> '''') es"
    using ends by (intro exI [of _ "generate_endpoints (gd_outbounds g)"]) (simp add: j json_get_def field_if_def)
  moreover have "\<exists>obs. json_get ''outbounds'' j = JArr obs \<and> list_all (\<lambda>ob. entry_tag ob \<noteq> '''') obs"
    using tags(3) by (simp add: j json_get_def field_if_def outbounds_json_def)
  ultimately show ?thesis
    using arr objs wg by (simp add: j json_get_def field_if_def)
qed

lemma base_config_is_typed_witness:
  "\<exists>j. generate_base (one_proxy_env ''198.51.100.7'') one_proxy_profile = Inr j \<and> is_plain_object (json_get ''route'' j)
     \<and> emitted_tags j = [''G'', ''A'']"
proof -
  have "map_sum id emitted_tags (generate_base (one_proxy_env ''198.51.100.7'') one_proxy_profile) = Inr [''G'', ''A'']"
    by code_simp
  then obtain j where j: "generate_base (one_proxy_env ''198.51.100.7'') one_proxy_profile = Inr j" "emitted_tags j = [''G'', ''A'']"
    by (cases "generate_base (one_proxy_env ''198.51.100.7'') one_proxy_profile") auto
  with base_config_is_typed [OF j(1)] show ?thesis by simp
qed

end
