(* ===== verification/KernelConfig.thy ===== *)
theory KernelConfig
  imports Generator
begin

text \<open>
  The way back from the configuration of the core: \<open>restoreProfile\<close> of \<open>utils/restorer.ts\<close>, and
  \<open>stores/kernelApiConfig.ts\<close>, which keeps the runtime profile and the view of its ports. The values in
  a configuration file have the types the core gives them; what is missing is \<^const>\<open>JUndef\<close>. The results
  of \<open>sampleID()\<close> are the argument \<open>ids\<close>, by the kind and the position of the object.
\<close>

subsection \<open>Reading fields\<close>

fun read_string :: "json \<Rightarrow> string" where
  "read_string (JStr s) = s"
| "read_string _ = ''''"

fun read_int :: "json \<Rightarrow> int" where
  "read_int (JNum n) = n"
| "read_int _ = 0"

fun read_items :: "json \<Rightarrow> json list" where
  "read_items (JArr js) = js"
| "read_items _ = []"

definition read_strings :: "json \<Rightarrow> string list" where
  "read_strings j = map read_string (read_items j)"

definition stack_of_name :: "string \<Rightarrow> tun_stack" where
  "stack_of_name s = (if s = ''system'' then StackSystem else if s = ''gvisor'' then StackGVisor else StackMixed)"

subsection \<open>Restoring a profile\<close>

text \<open>\<open>reduce\<close> to a dictionary from tags to new ids; of equal tags the last one counts.\<close>

definition tag_ids :: "(nat \<Rightarrow> string) \<Rightarrow> json list \<Rightarrow> string dict" where
  "tag_ids fresh js =
     fold (\<lambda>(k, j). AList.update (json_text (json_get ''tag'' j)) (fresh k)) (enumerate 0 js) []"

definition id_of_tag :: "string dict \<Rightarrow> json \<Rightarrow> string" where
  "id_of_tag d j = or_else (map_of d (json_text (json_get ''tag'' j))) ''''"

definition restore_listen :: "json \<Rightarrow> listen_block" where
  "restore_listen j =
     \<lparr>lb_listen = \<lparr>ls_listen = read_string (json_get ''listen'' j), ls_port = read_int (json_get ''listen_port'' j),
        ls_tcp_fast_open = json_truthy (json_get ''tcp_fast_open'' j),
        ls_tcp_multi_path = json_truthy (json_get ''tcp_multi_path'' j),
        ls_udp_fragment = json_truthy (json_get ''udp_fragment'' j)\<rparr>,
      lb_users = map (\<lambda>u. json_text (json_get ''username'' u) @ '':'' @ json_text (json_get ''password'' u))
        (read_items (json_get ''users'' j))\<rparr>"

definition restore_tun :: "json \<Rightarrow> tun_block" where
  "restore_tun j =
     \<lparr>tn_interface_name = read_string (json_get ''interface_name'' j),
      tn_address = (if json_truthy (json_get ''address'' j) then read_strings (json_get ''address'' j)
        else [''172.18.0.1/30'', ''fdfe:dcba:9876::1/126'']),
      tn_mtu = (if json_truthy (json_get ''mtu'' j) then read_int (json_get ''mtu'' j) else 9000),
      tn_auto_route = json_truthy (json_get ''auto_route'' j),
      tn_strict_route = json_truthy (json_get ''strict_route'' j),
      tn_route_address = read_strings (json_get ''route_address'' j),
      tn_route_exclude_address = read_strings (json_get ''route_exclude_address'' j),
      tn_endpoint_independent_nat = json_truthy (json_get ''endpoint_independent_nat'' j),
      tn_stack = stack_of_name (read_string (json_get ''stack'' j))\<rparr>"

definition inbound_type_of_name :: "string \<Rightarrow> inbound_type option" where
  "inbound_type_of_name s = (if s = ''http'' then Some InHttp else if s = ''mixed'' then Some InMixed
     else if s = ''socks'' then Some InSocks else if s = ''tun'' then Some InTun else None)"

definition restore_inbound :: "string dict \<Rightarrow> json \<Rightarrow> inbound list" where
  "restore_inbound ids j = (case inbound_type_of_name (read_string (json_get ''type'' j)) of
      None \<Rightarrow> []
    | Some ty \<Rightarrow>
        [\<lparr>in_id = id_of_tag ids j, in_type = ty, in_tag = read_string (json_get ''tag'' j), in_enable = True,
          in_mixed = (if ty = InMixed then Some (restore_listen j) else None),
          in_socks = (if ty = InSocks then Some (restore_listen j) else None),
          in_http = (if ty = InHttp then Some (restore_listen j) else None),
          in_tun = (if ty = InTun then Some (restore_tun j) else None)\<rparr>])"

definition restore_inbounds :: "(nat \<Rightarrow> string) \<Rightarrow> json list \<Rightarrow> inbound list" where
  "restore_inbounds fresh js = concat (map (restore_inbound (tag_ids fresh js)) js)"

text \<open>An outbound keeps its id, tag and members, but the type of \<open>DefaultOutbound()\<close>.\<close>

definition restore_outbound :: "string dict \<Rightarrow> json \<Rightarrow> outbound list" where
  "restore_outbound ids j =
     (if read_string (json_get ''type'' j) \<notin> {''selector'', ''direct'', ''urltest''} then []
      else [(default_outbound (id_of_tag ids j))
        \<lparr>ob_tag := read_string (json_get ''tag'' j),
         ob_outbounds := concat (map
           (\<lambda>t. case map_of ids t of
                  Some i \<Rightarrow> if i = '''' then [] else [built_in i t]
                | None \<Rightarrow> [])
           (read_strings (json_get ''outbounds'' j)))\<rparr>])"

definition restore_outbounds :: "(nat \<Rightarrow> string) \<Rightarrow> json list \<Rightarrow> outbound list" where
  "restore_outbounds fresh js = concat (map (restore_outbound (tag_ids fresh js)) js)"

text \<open>What is restored of the route: nothing.\<close>

definition blank_route :: route where
  "blank_route = \<lparr>rt_rules = [], rt_rule_set = [], rt_final = '''', rt_auto_detect_interface = False,
     rt_default_interface = '''', rt_find_process = False, rt_resolver_server = '''', rt_resolver_subnet = ''''\<rparr>"

text \<open>
  The runtime profile. Of its parts that the client never reads (log, experimental, DNS, mixin and
  script) it is kept where they come from: the selected profile, or \<^const>\<open>None\<close> for the restored ones.
\<close>

record runtime_profile =
  ru_id :: string
  ru_inbounds :: "inbound list"
  ru_outbounds :: "outbound list"
  ru_route :: route
  ru_rest :: "profile option"

definition restore_profile :: "(string \<Rightarrow> nat \<Rightarrow> string) \<Rightarrow> json \<Rightarrow> runtime_profile" where
  "restore_profile ids config =
     \<lparr>ru_id = ids ''profile'' 0,
      ru_inbounds = restore_inbounds (ids ''inbound'') (read_items (json_get ''inbounds'' config)),
      ru_outbounds = restore_outbounds (ids ''outbound'') (read_items (json_get ''outbounds'' config)),
      ru_route = blank_route, ru_rest = None\<rparr>"

subsection \<open>The view of the configuration\<close>

record core_config =
  cc_port :: int
  cc_socks_port :: int
  cc_mixed_port :: int
  cc_interface_name :: string
  cc_allow_lan :: bool
  cc_mode :: string
  cc_tun_enable :: bool
  cc_tun_stack :: string
  cc_tun_device :: string

definition initial_config :: core_config where
  "initial_config = \<lparr>cc_port = 0, cc_socks_port = 0, cc_mixed_port = 0, cc_interface_name = '''',
     cc_allow_lan = False, cc_mode = '''', cc_tun_enable = False, cc_tun_stack = ''System'', cc_tun_device = ''''\<rparr>"

text \<open>The runtime profile is rebuilt from the file of the core and the selected profile, when there is none.\<close>

definition rename_inbound :: "inbound list \<Rightarrow> inbound \<Rightarrow> inbound" where
  "rename_inbound selected ib = (case List.find (\<lambda>v. in_tag v = in_tag ib) selected of
      None \<Rightarrow> ib | Some m \<Rightarrow> ib\<lparr>in_id := in_id m\<rparr>)"

definition merge_selected :: "profile \<Rightarrow> runtime_profile \<Rightarrow> runtime_profile" where
  "merge_selected sel r =
     (let ibs = map (rename_inbound (pf_inbounds sel)) (ru_inbounds r)
      in \<lparr>ru_id = pf_id sel,
          ru_inbounds = (case List.find (\<lambda>v. in_type v = InTun) (pf_inbounds sel) of
             None \<Rightarrow> ibs
           | Some t \<Rightarrow> if List.find (\<lambda>v. in_type v = InTun) ibs = None then ibs @ [t\<lparr>in_enable := False\<rparr>] else ibs),
          ru_outbounds = pf_outbounds sel, ru_route = pf_route sel, ru_rest = Some sel\<rparr>)"

definition rebuild_runtime :: "(string \<Rightarrow> nat \<Rightarrow> string) \<Rightarrow> json \<Rightarrow> profile option \<Rightarrow> runtime_profile" where
  "rebuild_runtime ids file selected = (case selected of
      None \<Rightarrow> restore_profile ids file
    | Some sel \<Rightarrow> merge_selected sel (restore_profile ids file))"

definition first_block :: "(inbound \<Rightarrow> listen_block option) \<Rightarrow> inbound list \<Rightarrow> listen option" where
  "first_block sel ibs = map_option lb_listen (case List.find (\<lambda>v. sel v \<noteq> None) ibs of None \<Rightarrow> None | Some v \<Rightarrow> sel v)"

definition block_port :: "listen option \<Rightarrow> int" where
  "block_port l = (case l of None \<Rightarrow> 0 | Some b \<Rightarrow> ls_port b)"

definition is_any_address :: "listen option \<Rightarrow> bool" where
  "is_any_address l = (case l of None \<Rightarrow> False | Some b \<Rightarrow> ls_listen b = ''0.0.0.0'' \<or> ls_listen b = ''::'')"

definition runtime_view :: "runtime_profile \<Rightarrow> core_config \<Rightarrow> core_config" where
  "runtime_view r cc =
     (let mixed = first_block in_mixed (ru_inbounds r); http = first_block in_http (ru_inbounds r);
          socks = first_block in_socks (ru_inbounds r);
          tun = List.find (\<lambda>v. in_tun v \<noteq> None) (ru_inbounds r);
          block = (case tun of None \<Rightarrow> None | Some v \<Rightarrow> in_tun v)
      in cc\<lparr>cc_mixed_port := block_port mixed, cc_port := block_port http, cc_socks_port := block_port socks,
            cc_allow_lan := list_ex is_any_address [mixed, http, socks],
            cc_tun_enable := (case tun of None \<Rightarrow> False | Some v \<Rightarrow> in_enable v),
            cc_tun_device := (case block of None \<Rightarrow> '''' | Some t \<Rightarrow> tn_interface_name t),
            cc_tun_stack := (case block of None \<Rightarrow> '''' | Some t \<Rightarrow> tun_stack_name (tn_stack t)),
            cc_interface_name := rt_default_interface (ru_route r)\<rparr>)"

text \<open>\<open>refreshConfig\<close>: \<open>next\<close> is the answer of the core, \<open>file\<close> its parsed configuration file.\<close>

record config_state =
  cs_config :: core_config
  cs_runtime :: "runtime_profile option"

definition refresh_config ::
    "(string \<Rightarrow> nat \<Rightarrow> string) \<Rightarrow> string + core_config \<Rightarrow> string + json \<Rightarrow> profile option \<Rightarrow> config_state
       \<Rightarrow> string option \<times> config_state" where
  "refresh_config ids answer file selected s = (case answer of
      Inl e \<Rightarrow> (Some e, s)
    | Inr new \<Rightarrow>
        let cc = new\<lparr>cc_tun_enable := cc_tun_enable (cs_config s), cc_tun_stack := cc_tun_stack (cs_config s),
                 cc_tun_device := cc_tun_device (cs_config s)\<rparr>;
            done = (\<lambda>r. (None, \<lparr>cs_config = runtime_view r cc, cs_runtime = Some r\<rparr>))
        in case cs_runtime s of
             Some r \<Rightarrow> done r
           | None \<Rightarrow> (case file of
               Inl e \<Rightarrow> (Some e, s\<lparr>cs_config := cc\<rparr>)
             | Inr j \<Rightarrow> done (rebuild_runtime ids j selected)))"

subsection \<open>Changing the configuration\<close>

text \<open>The fields that have a handler; \<open>mode\<close> goes to the core directly, any other field only restarts it.
  The options of a tun patch overwrite those of the current view.\<close>

record tun_patch =
  tp_enable :: "bool option"
  tp_stack :: "string option"
  tp_device :: "string option"
  tp_interface :: "string option"

datatype config_change =
    SetPort inbound_type int
  | SetAllowLan bool
  | SetTun tun_patch
  | OtherField

definition empty_inbound :: "inbound_type \<Rightarrow> inbound" where
  "empty_inbound ty = (let name = inbound_name ty @ ''-in'' in
     \<lparr>in_id = name, in_type = ty, in_tag = name, in_enable = True,
      in_mixed = (if ty = InMixed then Some default_inbound_mixed else None),
      in_socks = (if ty = InSocks then Some default_inbound_mixed else None),
      in_http = (if ty = InHttp then Some default_inbound_mixed else None), in_tun = None\<rparr>)"

definition put_port :: "int \<Rightarrow> inbound \<Rightarrow> inbound" where
  "put_port port ib = (in_block_update (\<lambda>b. b\<lparr>lb_listen := (lb_listen b)\<lparr>ls_port := port\<rparr>\<rparr>) ib)\<lparr>in_enable := port \<noteq> 0\<rparr>"

text \<open>An inbound of the type without its block throws.\<close>

definition patch_inbound_port :: "inbound_type \<Rightarrow> int \<Rightarrow> inbound list \<Rightarrow> string + inbound list" where
  "patch_inbound_port ty port ibs = (case List.find (\<lambda>v. in_type v = ty) ibs of
      None \<Rightarrow> Inr (ibs @ [put_port port (empty_inbound ty)])
    | Some ib \<Rightarrow> if in_block ib = None then Inl ''TypeError''
        else Inr (map_first (\<lambda>v. in_type v = ty) (put_port port) ibs))"

definition put_address :: "bool \<Rightarrow> inbound \<Rightarrow> inbound" where
  "put_address allow = in_block_update (\<lambda>b. b\<lparr>lb_listen := (lb_listen b)
     \<lparr>ls_listen := if allow then ''0.0.0.0'' else ''127.0.0.1''\<rparr>\<rparr>)"

text \<open>Here the inbounds before the one that throws have been changed already.\<close>

fun patch_inbound_address :: "bool \<Rightarrow> inbound list \<Rightarrow> string option \<times> inbound list" where
  "patch_inbound_address allow [] = (None, [])"
| "patch_inbound_address allow (v # vs) =
     (if in_type v \<noteq> InTun \<and> in_block v = None then (Some ''TypeError'', v # vs)
      else case patch_inbound_address allow vs of
             (e, vs') \<Rightarrow> (e, (if in_type v = InTun then v else put_address allow v) # vs'))"

definition patch_inbound_tun :: "core_config \<Rightarrow> tun_patch \<Rightarrow> runtime_profile \<Rightarrow> string + runtime_profile" where
  "patch_inbound_tun cc patch r =
     (let enable = or_else (tp_enable patch) (cc_tun_enable cc); stack = or_else (tp_stack patch) (cc_tun_stack cc);
          device = or_else (tp_device patch) (cc_tun_device cc); face = or_else (tp_interface patch) '''';
          upd = (\<lambda>t. t\<lparr>tn_stack := stack_of_name (str_or stack ''mixed''), tn_interface_name := device\<rparr>)
      in case List.find (\<lambda>v. in_type v = InTun) (ru_inbounds r) of
           None \<Rightarrow> Inl ''home.overview.needTun''
         | Some ib \<Rightarrow>
             if in_tun ib = None then Inl ''TypeError''
             else Inr (r\<lparr>ru_inbounds := map_first (\<lambda>v. in_type v = InTun)
                           (\<lambda>v. v\<lparr>in_enable := enable, in_tun := map_option upd (in_tun v)\<rparr>) (ru_inbounds r),
                         ru_route := (ru_route r)
                           \<lparr>rt_default_interface := (if face = '''' then rt_default_interface (ru_route r) else face),
                            rt_auto_detect_interface := (face = '''')\<rparr>\<rparr>))"

text \<open>The handler; without a runtime profile every handler returns at once.\<close>

definition patch_runtime :: "config_change \<Rightarrow> config_state \<Rightarrow> string option \<times> config_state" where
  "patch_runtime ch s = (case cs_runtime s of
      None \<Rightarrow> (None, s)
    | Some r \<Rightarrow>
        (case ch of
           SetPort ty port \<Rightarrow> (case patch_inbound_port ty port (ru_inbounds r) of
               Inl e \<Rightarrow> (Some e, s)
             | Inr ibs \<Rightarrow> (None, s\<lparr>cs_runtime := Some (r\<lparr>ru_inbounds := ibs\<rparr>)\<rparr>))
         | SetAllowLan allow \<Rightarrow> (case patch_inbound_address allow (ru_inbounds r) of
               (e, ibs) \<Rightarrow> (e, s\<lparr>cs_runtime := Some (r\<lparr>ru_inbounds := ibs\<rparr>)\<rparr>))
         | SetTun patch \<Rightarrow> (case patch_inbound_tun (cs_config s) patch r of
               Inl e \<Rightarrow> (Some e, s)
             | Inr r' \<Rightarrow> (None, s\<lparr>cs_runtime := Some r'\<rparr>))
         | OtherField \<Rightarrow> (None, s)))"

text \<open>\<open>updateConfig\<close> for a field that is not \<open>mode\<close>, with the outcome of the restart, whose refresh sees
  the answer \<open>answer\<close> of the core.\<close>

definition update_config ::
    "(string \<Rightarrow> nat \<Rightarrow> string) \<Rightarrow> string option \<Rightarrow> string + core_config \<Rightarrow> string + json \<Rightarrow> profile option
       \<Rightarrow> config_change \<Rightarrow> config_state \<Rightarrow> string option \<times> config_state" where
  "update_config ids restart answer file selected ch s = (case patch_runtime ch s of
      (Some e, s') \<Rightarrow> (Some e, s')
    | (None, s') \<Rightarrow> (case restart of Some e \<Rightarrow> (Some e, s') | None \<Rightarrow> refresh_config ids answer file selected s'))"

datatype proxy_type = ProxyMixed | ProxyHttp | ProxySocks

definition get_proxy_port :: "core_config \<Rightarrow> (int \<times> proxy_type) option" where
  "get_proxy_port cc =
     (if cc_mixed_port cc \<noteq> 0 then Some (cc_mixed_port cc, ProxyMixed)
      else if cc_port cc \<noteq> 0 then Some (cc_port cc, ProxyHttp)
      else if cc_socks_port cc \<noteq> 0 then Some (cc_socks_port cc, ProxySocks)
      else None)"

subsection \<open>The inbounds survive the way to the core and back\<close>

text \<open>A user name and a password, with the one colon between them.\<close>

definition user_ok :: "string \<Rightarrow> bool" where
  "user_ok u \<longleftrightarrow> length (js_split CHR '':'' u) = 2"

definition inbound_restorable :: "inbound \<Rightarrow> bool" where
  "inbound_restorable ib = (case in_type ib of
      InTun \<Rightarrow> (case in_tun ib of None \<Rightarrow> False | Some t \<Rightarrow> tn_mtu t \<noteq> 0)
    | _ \<Rightarrow> (case in_block ib of None \<Rightarrow> False | Some b \<Rightarrow> list_all user_ok (lb_users b)))"

text \<open>What an enabled inbound comes back as: itself, with a new id and without the blocks of other types.\<close>

definition restored :: "string \<Rightarrow> inbound \<Rightarrow> inbound" where
  "restored i ib = ib\<lparr>in_id := i, in_enable := True,
     in_mixed := (if in_type ib = InMixed then in_mixed ib else None),
     in_socks := (if in_type ib = InSocks then in_socks ib else None),
     in_http := (if in_type ib = InHttp then in_http ib else None),
     in_tun := (if in_type ib = InTun then in_tun ib else None)\<rparr>"

lemma user_roundtrip:
  assumes "user_ok u"
  shows "json_text (json_get ''username'' (json_clone (generate_user u))) @ '':''
     @ json_text (json_get ''password'' (json_clone (generate_user u))) = u"
proof -
  from assms obtain a b where ab: "js_split CHR '':'' u = [a, b]"
    by (auto simp: user_ok_def length_Suc_conv numeral_2_eq_2)
  have "a @ '':'' @ b = u" using js_join_split [of "CHR '':''" u] by (simp add: ab)
  then show ?thesis by (simp add: generate_user_def ab json_get_def)
qed

lemma clone_strings [simp]: "json_clone (json_strings xs) = json_strings xs"
  by (simp add: json_strings_def comp_def)

lemma read_strings_clone [simp]: "read_strings (json_strings xs) = xs"
  by (simp add: json_strings_def read_strings_def comp_def)

lemma stack_of_name [simp]: "stack_of_name (tun_stack_name s) = s"
  by (cases s) (simp_all add: stack_of_name_def)

lemma inbound_type_of_name [simp]: "inbound_type_of_name (inbound_name ty) = Some ty"
  by (cases ty) (simp_all add: inbound_type_of_name_def)

lemma restore_listen_clone:
  assumes "list_all user_ok (lb_users b)" and that: "base = [(''type'', JStr ty), (''tag'', JStr tag)]"
  shows "restore_listen (json_clone (JObj (base @ generate_listen (lb_listen b) @
      [(''users'', if lb_users b = [] then JUndef else JArr (map generate_user (lb_users b)))]))) = b"
proof -
  have users: "map (\<lambda>u. json_text (json_get ''username'' u) @ '':'' @ json_text (json_get ''password'' u))
      (map (\<lambda>u. json_clone (generate_user u)) (lb_users b)) = lb_users b"
    using assms by (auto simp: list_all_iff intro!: map_idI user_roundtrip [simplified])
  have obj: "(case generate_user u of JUndef \<Rightarrow> JNull | _ \<Rightarrow> json_clone (generate_user u)) = json_clone (generate_user u)" for u
    by (simp add: generate_user_def Let_def)
  show ?thesis
  proof (cases "lb_users b = []")
    case True
    then show ?thesis by (simp add: that restore_listen_def generate_listen_def json_get_def)
  next
    case False
    have clone: "json_clone (JArr (map generate_user (lb_users b)))
        = JArr (map (\<lambda>u. json_clone (generate_user u)) (lb_users b))"
      by (simp add: obj comp_def)
    show ?thesis using False users
      by (simp add: that restore_listen_def generate_listen_def json_get_def clone comp_def del: json_clone.simps(1))
  qed
qed

lemma restore_tun_clone:
  assumes "tn_mtu t \<noteq> 0" and base: "base = [(''type'', JStr ty), (''tag'', JStr tag)]"
  shows "restore_tun (json_clone (JObj (base @ generate_tun t))) = t"
proof -
  let ?j = "JObj (base @ generate_tun t)"
  have opt: "json_clone (strings_or_undef xs) = strings_or_undef xs" "read_strings (strings_or_undef xs) = xs"
      "json_keys_ok (strings_or_undef xs)" "json_keys_ok (json_strings xs)" "json_truthy (json_strings xs)" for xs
    by (simp_all add: strings_or_undef_def read_strings_def json_strings_def comp_def)
  have keys: "json_keys_ok ?j" by (simp add: base generate_tun_def opt)
  have get: "json_get k (json_clone ?j) = json_clone (json_get k ?j)" for k by (rule json_get_clone [OF keys])
  have fields: "json_get ''interface_name'' ?j = JStr (tn_interface_name t)"
      "json_get ''address'' ?j = json_strings (tn_address t)" "json_get ''mtu'' ?j = JNum (tn_mtu t)"
      "json_get ''auto_route'' ?j = JBool (tn_auto_route t)" "json_get ''strict_route'' ?j = JBool (tn_strict_route t)"
      "json_get ''route_address'' ?j = strings_or_undef (tn_route_address t)"
      "json_get ''route_exclude_address'' ?j = strings_or_undef (tn_route_exclude_address t)"
      "json_get ''endpoint_independent_nat'' ?j = JBool (tn_endpoint_independent_nat t)"
      "json_get ''stack'' ?j = JStr (tun_stack_name (tn_stack t))"
    by (simp_all add: base generate_tun_def json_get_def)
  show ?thesis by (simp add: restore_tun_def get fields opt assms(1) del: json_clone.simps(2))
qed

lemma generate_restorable:
  assumes "in_enable ib" "inbound_restorable ib"
  shows "\<exists>j. generate_inbound ib = Inr [j] \<and> json_text (json_get ''tag'' (json_clone j)) = in_tag ib
    \<and> restore_inbound ids (json_clone j) = [restored (or_else (map_of ids (in_tag ib)) '''') ib]"
proof -
  let ?base = "[(''type'', JStr (inbound_name (in_type ib))), (''tag'', JStr (in_tag ib))]"
  show ?thesis
  proof (cases "in_type ib = InTun")
    case True
    with assms(2) obtain t where t: "in_tun ib = Some t" "tn_mtu t \<noteq> 0"
      by (auto simp: inbound_restorable_def split: option.splits)
    let ?j = "JObj (?base @ generate_tun t)"
    have "json_get ''type'' (json_clone ?j) = JStr ''tun''" "json_get ''tag'' (json_clone ?j) = JStr (in_tag ib)"
      using True by (simp_all add: json_get_def)
    moreover have "restore_tun (json_clone ?j) = t" by (rule restore_tun_clone [OF t(2) refl])
    moreover have "generate_inbound ib = Inr [?j]" using True assms(1) t(1) by (simp add: generate_inbound_def)
    ultimately show ?thesis using True t(1)
      by (intro exI [of _ ?j]) (simp add: restore_inbound_def restored_def id_of_tag_def inbound_type_of_name_def)
  next
    case False
    with assms(2) obtain b where b: "in_block ib = Some b" "list_all user_ok (lb_users b)"
      by (cases "in_type ib") (auto simp: inbound_restorable_def split: option.splits)
    let ?j = "JObj (?base @ generate_listen (lb_listen b) @
      [(''users'', if lb_users b = [] then JUndef else JArr (map generate_user (lb_users b)))])"
    have "json_get ''type'' (json_clone ?j) = JStr (inbound_name (in_type ib))"
        "json_get ''tag'' (json_clone ?j) = JStr (in_tag ib)"
      by (simp_all add: json_get_def)
    moreover have "restore_listen (json_clone ?j) = b" by (rule restore_listen_clone [OF b(2) refl])
    moreover have "generate_inbound ib = Inr [?j]"
      using False assms(1) b(1) by (cases "in_type ib") (simp_all add: generate_inbound_def)
    ultimately obtain j where j: "json_get ''type'' (json_clone j) = JStr (inbound_name (in_type ib))"
        "json_get ''tag'' (json_clone j) = JStr (in_tag ib)" "restore_listen (json_clone j) = b"
        "generate_inbound ib = Inr [j]" by blast
    then have "restore_inbound ids (json_clone j) = [restored (or_else (map_of ids (in_tag ib)) '''') ib]"
      using False b(1) by (cases "in_type ib") (simp_all add: restore_inbound_def restored_def id_of_tag_def inbound_type_of_name_def)
    then show ?thesis using j by auto
  qed
qed

text \<open>
  C17. The inbounds survive the way to the core and back: reading the inbounds of the generated
  configuration again gives the enabled inbounds of the profile in their order, each with its listen
  block or tun block as it was and a new id, provided that every user is a name and a password with
  exactly one colon and no tun block has the MTU 0.
\<close>

theorem inbounds_roundtrip:
  assumes "list_all inbound_restorable (filter in_enable ibs)"
  shows "\<exists>js. generate_inbounds ibs = Inr (JArr js)
    \<and> restore_inbounds fresh (read_items (json_clone (JArr js)))
      = map (\<lambda>ib. restored (or_else (map_of (tag_ids fresh (read_items (json_clone (JArr js)))) (in_tag ib)) '''') ib)
          (filter in_enable ibs)"
proof -
  have ex: "\<exists>js. traverse generate_inbound ibs = Inr js
      \<and> (\<forall>ids. concat (map (restore_inbound ids) (map json_clone (concat js)))
          = map (\<lambda>ib. restored (or_else (map_of ids (in_tag ib)) '''') ib) (filter in_enable ibs))
      \<and> list_all (\<lambda>j. j \<noteq> JUndef) (concat js)"
    using assms
  proof (induction ibs)
    case Nil
    then show ?case by simp
  next
    case (Cons ib ibs)
    then obtain js where js: "traverse generate_inbound ibs = Inr js"
        "\<forall>ids. concat (map (restore_inbound ids) (map json_clone (concat js)))
          = map (\<lambda>ib. restored (or_else (map_of ids (in_tag ib)) '''') ib) (filter in_enable ibs)"
        "list_all (\<lambda>j. j \<noteq> JUndef) (concat js)"
      by (cases "in_enable ib") auto
    show ?case
    proof (cases "in_enable ib")
      case False
      then have "generate_inbound ib = Inr []" by (simp add: generate_inbound_def)
      then show ?thesis using js False by (intro exI [of _ "[] # js"]) simp
    next
      case True
      with Cons.prems have "inbound_restorable ib" by simp
      from generate_restorable [OF True this]
      have g: "\<exists>j. generate_inbound ib = Inr [j] \<and> restore_inbound ids (json_clone j)
          = [restored (or_else (map_of ids (in_tag ib)) '''') ib]" for ids by blast
      then obtain j where j: "generate_inbound ib = Inr [j]" by blast
      with g have r: "restore_inbound ids (json_clone j) = [restored (or_else (map_of ids (in_tag ib)) '''') ib]" for ids
        by (metis list.inject sum.inject(2))
      have "restore_inbound [] (json_clone JUndef) = []"
        by (simp add: restore_inbound_def json_get_def inbound_type_of_name_def)
      with r have "j \<noteq> JUndef" by (metis list.distinct(1))
      then show ?thesis using js j r True by (intro exI [of _ "[j] # js"]) simp
    qed
  qed
  then obtain js where js: "traverse generate_inbound ibs = Inr js"
      "\<And>ids. concat (map (restore_inbound ids) (map json_clone (concat js)))
          = map (\<lambda>ib. restored (or_else (map_of ids (in_tag ib)) '''') ib) (filter in_enable ibs)"
      "list_all (\<lambda>j. j \<noteq> JUndef) (concat js)" by blast
  have clone: "read_items (json_clone (JArr (concat js))) = map json_clone (concat js)"
    using js(3) by (auto simp: list_all_iff split: json.splits)
  show ?thesis
    unfolding restore_inbounds_def clone
    using js(1,2) by (intro exI [of _ "concat js"]) (simp add: generate_inbounds_def clone del: json_clone.simps)
qed

theorem inbounds_roundtrip_witness:
  "\<exists>js. generate_inbounds default_inbounds = Inr (JArr js)
     \<and> restore_inbounds (\<lambda>_. ''n'') (read_items (json_clone (JArr js))) = [restored ''n'' (hd default_inbounds)]"
proof -
  have "list_all inbound_restorable (filter in_enable default_inbounds)" by code_simp
  from inbounds_roundtrip [OF this, of "\<lambda>_. ''n''"] obtain js where js: "generate_inbounds default_inbounds = Inr (JArr js)"
      "restore_inbounds (\<lambda>_. ''n'') (read_items (json_clone (JArr js)))
       = map (\<lambda>ib. restored (or_else (map_of (tag_ids (\<lambda>_. ''n'') (read_items (json_clone (JArr js)))) (in_tag ib)) '''') ib)
          (filter in_enable default_inbounds)" by blast
  have "map_sum id (\<lambda>j. tag_ids (\<lambda>_. ''n'') (read_items (json_clone j))) (generate_inbounds default_inbounds)
      = Inr [(''mixed-in'', ''n'')]" by code_simp
  then show ?thesis using js by (simp add: default_inbounds_def)
qed

subsection \<open>A changed port is the one that is shown\<close>

text \<open>An inbound has the block of its type and no other, as the editors and the defaults build it.\<close>

definition block_typed :: "inbound \<Rightarrow> bool" where
  "block_typed v \<longleftrightarrow> (in_mixed v \<noteq> None \<longleftrightarrow> in_type v = InMixed) \<and> (in_socks v \<noteq> None \<longleftrightarrow> in_type v = InSocks)
     \<and> (in_http v \<noteq> None \<longleftrightarrow> in_type v = InHttp) \<and> (in_tun v \<noteq> None \<longleftrightarrow> in_type v = InTun)"

definition typed_block :: "inbound_type \<Rightarrow> inbound list \<Rightarrow> listen option" where
  "typed_block ty ibs = map_option lb_listen (Option.bind (List.find (\<lambda>v. in_type v = ty) ibs) in_block)"

fun view_port :: "inbound_type \<Rightarrow> core_config \<Rightarrow> int" where
  "view_port InMixed cc = cc_mixed_port cc"
| "view_port InSocks cc = cc_socks_port cc"
| "view_port InHttp cc = cc_port cc"
| "view_port InTun cc = 0"

lemma find_cong_all: "list_all (\<lambda>x. p x = q x) xs \<Longrightarrow> List.find p xs = List.find q xs"
  by (induction xs) auto

lemma first_block_typed:
  assumes "list_all block_typed ibs"
  shows "first_block in_mixed ibs = typed_block InMixed ibs" "first_block in_socks ibs = typed_block InSocks ibs"
    "first_block in_http ibs = typed_block InHttp ibs"
proof -
  have f: "List.find (\<lambda>v. in_mixed v \<noteq> None) ibs = List.find (\<lambda>v. in_type v = InMixed) ibs"
      "List.find (\<lambda>v. in_socks v \<noteq> None) ibs = List.find (\<lambda>v. in_type v = InSocks) ibs"
      "List.find (\<lambda>v. in_http v \<noteq> None) ibs = List.find (\<lambda>v. in_type v = InHttp) ibs"
    using assms by (auto intro!: find_cong_all simp: list_all_iff block_typed_def)
  show "first_block in_mixed ibs = typed_block InMixed ibs" "first_block in_socks ibs = typed_block InSocks ibs"
      "first_block in_http ibs = typed_block InHttp ibs"
    unfolding first_block_def typed_block_def f by (auto split: option.splits dest!: find_SomeD)
qed

lemma view_port_typed:
  assumes "list_all block_typed (ru_inbounds r)" "ty \<noteq> InTun"
  shows "view_port ty (runtime_view r cc) = block_port (typed_block ty (ru_inbounds r))"
  using first_block_typed [OF assms(1)] assms(2) by (cases ty) (simp_all add: runtime_view_def Let_def)

lemma find_map_first_same:
  "(\<And>x. p x \<Longrightarrow> p (f x)) \<Longrightarrow> List.find p (map_first p f xs) = map_option f (List.find p xs)"
  by (induction xs) auto

lemma find_map_first_other:
  "(\<And>x. q x \<Longrightarrow> \<not> p x) \<Longrightarrow> (\<And>x. p x \<Longrightarrow> \<not> q (f x)) \<Longrightarrow> List.find q (map_first p f xs) = List.find q xs"
  by (induction xs) auto

lemma list_all_map_first: "list_all P xs \<Longrightarrow> (\<And>x. P x \<Longrightarrow> P (f x)) \<Longrightarrow> list_all P (map_first p f xs)"
  by (induction xs) auto

lemma put_port_facts:
  "in_type (put_port port v) = in_type v"
  "in_block (put_port port v) = map_option (\<lambda>b. b\<lparr>lb_listen := (lb_listen b)\<lparr>ls_port := port\<rparr>\<rparr>) (in_block v)"
  "block_typed v \<Longrightarrow> block_typed (put_port port v)"
  by (cases "in_type v"; simp add: put_port_def block_typed_def)+

lemma block_typed_in_block: "block_typed v \<Longrightarrow> in_type v \<noteq> InTun \<Longrightarrow> in_block v \<noteq> None"
  by (cases "in_type v") (auto simp: block_typed_def)

lemma patch_inbound_port_facts:
  assumes "list_all block_typed ibs" "ty \<noteq> InTun"
  shows "\<exists>ibs'. patch_inbound_port ty port ibs = Inr ibs' \<and> list_all block_typed ibs'
    \<and> map_option ls_port (typed_block ty ibs') = Some port
    \<and> (\<forall>ty'. ty' \<noteq> ty \<longrightarrow> typed_block ty' ibs' = typed_block ty' ibs)"
proof (cases "List.find (\<lambda>v. in_type v = ty) ibs")
  case None
  have "block_typed (put_port port (empty_inbound ty)) \<and> in_type (put_port port (empty_inbound ty)) = ty
      \<and> map_option (\<lambda>b. ls_port (lb_listen b)) (in_block (put_port port (empty_inbound ty))) = Some port"
    using assms(2)
    by (cases ty) (simp_all add: put_port_def empty_inbound_def block_typed_def Let_def default_inbound_mixed_def
        default_listen_def)
  then show ?thesis
    using assms(1) None
    by (auto simp: patch_inbound_port_def typed_block_def find_append option.map_comp comp_def split: option.splits)
next
  case (Some ib)
  then have ib: "block_typed ib" "in_type ib = ty"
    using assms(1) by (auto simp: list_all_iff dest!: find_SomeD)
  then have ne: "in_block ib \<noteq> None" using block_typed_in_block assms(2) by blast
  let ?ibs = "map_first (\<lambda>v. in_type v = ty) (put_port port) ibs"
  have same: "List.find (\<lambda>v. in_type v = ty) ?ibs = Some (put_port port ib)"
    using Some by (subst find_map_first_same) (simp_all add: put_port_facts(1))
  have other: "List.find (\<lambda>v. in_type v = ty') ?ibs = List.find (\<lambda>v. in_type v = ty') ibs" if "ty' \<noteq> ty" for ty'
    using that by (intro find_map_first_other) (auto simp: put_port_facts(1))
  have "map_option ls_port (typed_block ty ?ibs) = Some port"
    using ne by (auto simp: typed_block_def same put_port_facts(2) simp del: in_block.simps)
  moreover have "list_all block_typed ?ibs"
    using assms(1) by (rule list_all_map_first) (rule put_port_facts(3))
  ultimately show ?thesis using Some ne by (auto simp: patch_inbound_port_def typed_block_def other simp del: in_block.simps)
qed

text \<open>
  A changed port is the one that is shown: after \<open>updateConfig\<close> has set the port of the mixed, HTTP or
  SOCKS inbound and the core has restarted, the view shows that port, creating the inbound when the
  runtime profile had none; the two other ports are those of the runtime profile before.
\<close>

theorem port_change_is_visible:
  assumes "cs_runtime s = Some r" "list_all block_typed (ru_inbounds r)" "ty \<noteq> InTun"
  shows "fst (update_config ids None (Inr answer) file selected (SetPort ty port) s) = None
    \<and> view_port ty (cs_config (snd (update_config ids None (Inr answer) file selected (SetPort ty port) s))) = port
    \<and> list_all (\<lambda>ty'. view_port ty' (cs_config (snd (update_config ids None (Inr answer) file selected (SetPort ty port) s)))
          = view_port ty' (runtime_view r answer)) (filter (\<lambda>ty'. ty' \<noteq> ty) [InMixed, InSocks, InHttp])"
proof -
  from patch_inbound_port_facts [OF assms(2,3), of port] obtain ibs' where
      p: "patch_inbound_port ty port (ru_inbounds r) = Inr ibs'" "list_all block_typed ibs'"
        "map_option ls_port (typed_block ty ibs') = Some port"
        "\<forall>ty'. ty' \<noteq> ty \<longrightarrow> typed_block ty' ibs' = typed_block ty' (ru_inbounds r)" by blast
  let ?r = "r\<lparr>ru_inbounds := ibs'\<rparr>"
  obtain cc where u: "update_config ids None (Inr answer) file selected (SetPort ty port) s
      = (None, \<lparr>cs_config = runtime_view ?r cc, cs_runtime = Some ?r\<rparr>)"
    using assms(1) p(1) by (simp add: update_config_def patch_runtime_def refresh_config_def Let_def)
  have typed: "list_all block_typed (ru_inbounds ?r)" using p(2) by simp
  have "view_port ty (runtime_view ?r cc) = port"
    using view_port_typed [OF typed assms(3)] p(3) by (auto simp: block_port_def split: option.splits)
  moreover have "view_port ty' (runtime_view ?r cc) = view_port ty' (runtime_view r answer)"
    if "ty' \<noteq> ty" "ty' \<noteq> InTun" for ty'
    using view_port_typed [OF typed that(2)] view_port_typed [OF assms(2) that(2)] p(4) that(1) by simp
  ultimately show ?thesis by (auto simp: u list_all_iff simp del: view_port.simps)
qed

definition default_runtime :: config_state where
  "default_runtime = \<lparr>cs_config = initial_config,
     cs_runtime = Some \<lparr>ru_id = ''p'', ru_inbounds = default_inbounds, ru_outbounds = [],
       ru_route = blank_route, ru_rest = None\<rparr>\<rparr>"

theorem port_change_is_visible_witness:
  "view_port InHttp (cs_config (snd (update_config (\<lambda>_ _. '''') None (Inr initial_config) (Inl ''x'') None
     (SetPort InHttp 8118) default_runtime))) = 8118"
proof -
  have "list_all block_typed default_inbounds" by code_simp
  then show ?thesis
    using port_change_is_visible [of default_runtime _ InHttp "\<lambda>_ _. ''''" initial_config "Inl ''x''" None 8118]
    by (simp add: default_runtime_def)
qed

text \<open>
  The port a proxy client is told does not depend on whether its inbound is enabled: a disabled mixed
  inbound hides the enabled HTTP inbound behind it.
\<close>

lemma disabled_port_is_advertised:
  "get_proxy_port (runtime_view \<lparr>ru_id = ''p'',
      ru_inbounds = [(hd default_inbounds)\<lparr>in_enable := False\<rparr>,
        \<lparr>in_id = ''h'', in_type = InHttp, in_tag = ''h'', in_enable = True, in_mixed = None, in_socks = None,
         in_http = Some default_inbound_http, in_tun = None\<rparr>],
      ru_outbounds = [], ru_route = blank_route, ru_rest = None\<rparr> initial_config) = Some (20122, ProxyMixed)"
  by code_simp

end
