(* ===== verification/LoadBalance.thy ===== *)
theory LoadBalance
  imports Generator
begin

text \<open>
  \<open>stores/cloud/loadBalance.ts\<close>, the configuration hooks of \<open>stores/kernelApi.ts\<close> and
  \<open>injectLoadBalanceConfig\<close> of \<open>stores/cloud/smartRouting.ts\<close>: one local SOCKS port per cloud node, each
  routed to the group of its node, and a balancer of the bridge in front of them.
\<close>

subsection \<open>Injection into a configuration\<close>

text \<open>\<open>v || []\<close>, used as an array.\<close>

definition array_or_empty :: "json \<Rightarrow> string + json list" where
  "array_or_empty v = (if \<not> json_truthy v then Inr []
     else case v of JArr js \<Rightarrow> Inr js | _ \<Rightarrow> Inl ''TypeError'')"

definition on_array :: "(json list \<Rightarrow> json list) \<Rightarrow> json \<Rightarrow> string + json" where
  "on_array f v = map_sum id (\<lambda>js. JArr (f js)) (array_or_empty v)"

definition is_node_group_tag :: "string \<Rightarrow> bool" where
  "is_node_group_tag t \<longleftrightarrow> starts_with t ''Cloud Node '' \<and> ends_with t '' Best Auto''"

text \<open>The tag of an outbound that is no object, and a truthy tag that is no string, throw.\<close>

definition node_group_tag :: "json \<Rightarrow> string + string list" where
  "node_group_tag ob =
     (if ob = JNull \<or> ob = JUndef then Inl ''TypeError''
      else let tag = json_get ''tag'' ob
        in if \<not> json_truthy tag then Inr []
           else case tag of
                  JStr t \<Rightarrow> Inr (if is_node_group_tag t then [t] else [])
                | _ \<Rightarrow> Inl ''TypeError'')"

definition node_group_tags :: "json \<Rightarrow> string + string list" where
  "node_group_tags config = and_then (array_or_empty (json_get ''outbounds'' config))
     (\<lambda>obs. map_sum id concat (traverse node_group_tag obs))"

definition lb_inbound_tag :: "nat \<Rightarrow> string" where
  "lb_inbound_tag i = ''lb-node-'' @ nat_text i"

definition lb_inbound :: "int \<Rightarrow> nat \<Rightarrow> json" where
  "lb_inbound base i = JObj [(''type'', JStr ''socks''), (''tag'', JStr (lb_inbound_tag i)),
     (''listen'', JStr ''127.0.0.1''), (''listen_port'', JNum (base + int i))]"

definition lb_rule :: "nat \<Rightarrow> string \<Rightarrow> json" where
  "lb_rule i tag = JObj [(''inbound'', JArr [JStr (lb_inbound_tag i)]), (''outbound'', JStr tag)]"

definition object_or_empty :: "json \<Rightarrow> json" where
  "object_or_empty v = (if json_truthy v then v else JObj [])"

definition add_lb_node :: "int \<Rightarrow> nat \<Rightarrow> string \<Rightarrow> json \<Rightarrow> string + json" where
  "add_lb_node base i tag config =
     and_then (json_update ''inbounds'' (on_array (\<lambda>js. js @ [lb_inbound base i])) config)
       (json_update ''route'' (\<lambda>r. json_update ''rules'' (on_array (\<lambda>js. lb_rule i tag # js)) (object_or_empty r)))"

fun add_lb_nodes :: "int \<Rightarrow> nat \<Rightarrow> string list \<Rightarrow> json \<Rightarrow> string + json" where
  "add_lb_nodes base i [] config = Inr config"
| "add_lb_nodes base i (t # ts) config = and_then (add_lb_node base i t config) (add_lb_nodes base (Suc i) ts)"

definition inject_load_balance_config :: "json \<Rightarrow> int \<Rightarrow> string + json \<times> int list" where
  "inject_load_balance_config config base = and_then (node_group_tags config) (\<lambda>tags.
     if length tags < 2 then Inr (config, [])
     else map_sum id (\<lambda>c. (c, map (\<lambda>i. base + int i) [0..<length tags])) (add_lb_nodes base 0 tags config))"

subsection \<open>The balancer\<close>

text \<open>\<open>ln_hooks\<close> counts how often \<open>lbConfigHook\<close> stands in the list of hooks; \<open>ln_written\<close> is the
  configuration last given to the core.\<close>

record balancer =
  ln_enabled :: bool
  ln_ports :: "int list"
  ln_listenPort :: int
  ln_hooks :: nat
  ln_written :: json

definition ln_init :: balancer where
  "ln_init = \<lparr>ln_enabled = False, ln_ports = [], ln_listenPort = 0, ln_hooks = 0, ln_written = JUndef\<rparr>"

definition register_hook :: "balancer \<Rightarrow> balancer" where
  "register_hook s = s\<lparr>ln_hooks := Suc (ln_hooks s)\<rparr>"

definition unregister_hook :: "balancer \<Rightarrow> balancer" where
  "unregister_hook s = s\<lparr>ln_hooks := ln_hooks s - 1\<rparr>"

text \<open>
  What is outside: the configuration the core is about to get, the answers of \<open>GetAvailablePort\<close> (the
  first for the hook, by the number of the call, the second for the balancer), the outcome of starting
  or restarting the core and of \<open>StartLoadBalancer\<close> (an exception or its flag).
\<close>

record lb_env =
  le_config :: json
  le_basePort :: "nat \<Rightarrow> int"
  le_core :: "string option"
  le_port :: "string + int"
  le_balancer :: "string + bool"

definition lb_config_hook :: "int \<Rightarrow> json \<Rightarrow> balancer \<Rightarrow> string + json \<times> balancer" where
  "lb_config_hook base config s =
     (if \<not> ln_enabled s then Inr (config, s)
      else map_sum id (\<lambda>(c, ports). (c, s\<lparr>ln_ports := ports\<rparr>)) (inject_load_balance_config config base))"

text \<open>The loop over the registered hooks before the configuration is written; a call of \<open>GetAvailablePort\<close>
  is numbered by the hooks that are still to come.\<close>

fun run_hooks :: "(nat \<Rightarrow> int) \<Rightarrow> nat \<Rightarrow> json \<Rightarrow> balancer \<Rightarrow> string + json \<times> balancer" where
  "run_hooks base 0 config s = Inr (config, s)"
| "run_hooks base (Suc n) config s = (case lb_config_hook (base n) config s of
      Inl e \<Rightarrow> Inl e
    | Inr (c, s') \<Rightarrow> run_hooks base n c s')"

definition start_core_with_hooks :: "lb_env \<Rightarrow> balancer \<Rightarrow> string option \<times> balancer" where
  "start_core_with_hooks env s = (case run_hooks (le_basePort env) (ln_hooks s) (le_config env) s of
      Inl e \<Rightarrow> (Some e, s)
    | Inr (c, s') \<Rightarrow> (le_core env, s'\<lparr>ln_written := c\<rparr>))"

definition disable :: "balancer \<Rightarrow> balancer" where
  "disable s = unregister_hook (s\<lparr>ln_enabled := False\<rparr>)"

definition start_load_balance :: "lb_env \<Rightarrow> balancer \<Rightarrow> string option \<times> balancer" where
  "start_load_balance env s = (case start_core_with_hooks env (register_hook (s\<lparr>ln_enabled := True\<rparr>)) of
      (Some e, s1) \<Rightarrow> (Some e, s1)
    | (None, s1) \<Rightarrow>
        if length (ln_ports s1) < 2 then (None, disable s1)
        else (case le_port env of
           Inl e \<Rightarrow> (Some e, s1)
         | Inr port \<Rightarrow> (case le_balancer env of
             Inl e \<Rightarrow> (Some e, s1)
           | Inr flag \<Rightarrow> if flag then (None, s1\<lparr>ln_listenPort := port\<rparr>) else (None, disable s1))))"

text \<open>\<open>stop\<close> is the error of \<open>StopLoadBalancer\<close>, if any.\<close>

definition stop_load_balance :: "string option \<Rightarrow> balancer \<Rightarrow> string option \<times> balancer" where
  "stop_load_balance stop s = (case stop of
      Some e \<Rightarrow> (Some e, disable s)
    | None \<Rightarrow> (None, (disable s)\<lparr>ln_listenPort := 0, ln_ports := []\<rparr>))"

subsection \<open>What the injection adds\<close>

fun lb_inbounds :: "int \<Rightarrow> nat \<Rightarrow> nat \<Rightarrow> json list" where
  "lb_inbounds base i 0 = []"
| "lb_inbounds base i (Suc n) = lb_inbound base i # lb_inbounds base (Suc i) n"

fun lb_rules :: "nat \<Rightarrow> string list \<Rightarrow> json list" where
  "lb_rules i [] = []"
| "lb_rules i (t # ts) = lb_rules (Suc i) ts @ [lb_rule i t]"

text \<open>A configuration whose inbounds and rules are arrays.\<close>

definition config_shape :: "json list \<Rightarrow> json list \<Rightarrow> json \<Rightarrow> bool" where
  "config_shape ibs rules c \<longleftrightarrow> is_plain_object c \<and> is_plain_object (json_get ''route'' c)
     \<and> json_get ''inbounds'' c = JArr ibs \<and> json_at [''route'', ''rules''] c = JArr rules"

lemma json_set_object: "is_plain_object j \<Longrightarrow> \<exists>j'. json_set k v j = Inr j' \<and> is_plain_object j'"
  by (cases j) auto

lemma json_update_object:
  assumes "is_plain_object j" "f (json_get k j) = Inr v"
  shows "\<exists>j'. json_update k f j = Inr j' \<and> is_plain_object j'
    \<and> (\<forall>h. json_get h j' = (if h = k then v else json_get h j))"
proof -
  from json_set_object [OF assms(1)] obtain j' where j: "json_set k v j = Inr j'" "is_plain_object j'" by blast
  then show ?thesis using assms(2) json_get_set [OF j(1)] by (auto simp: json_update_def)
qed

lemma on_array_JArr [simp]: "on_array f (JArr js) = Inr (JArr (f js))"
  by (simp add: on_array_def array_or_empty_def)

lemma add_lb_node_shape:
  assumes "config_shape ibs rules c"
  shows "\<exists>c'. add_lb_node base i t c = Inr c' \<and> config_shape (ibs @ [lb_inbound base i]) (lb_rule i t # rules) c'
    \<and> json_get ''outbounds'' c' = json_get ''outbounds'' c"
proof -
  have o: "is_plain_object c" and r: "is_plain_object (json_get ''route'' c)"
    and a: "json_get ''inbounds'' c = JArr ibs" "json_get ''rules'' (json_get ''route'' c) = JArr rules"
    using assms by (simp_all add: config_shape_def)
  have "on_array (\<lambda>js. js @ [lb_inbound base i]) (json_get ''inbounds'' c) = Inr (JArr (ibs @ [lb_inbound base i]))"
    by (simp add: a)
  from json_update_object [where k = "''inbounds''" and f = "on_array (\<lambda>js. js @ [lb_inbound base i])", OF o this]
  obtain c1 where c1: "is_plain_object c1"
      "json_update ''inbounds'' (on_array (\<lambda>js. js @ [lb_inbound base i])) c = Inr c1"
      "\<forall>h. json_get h c1 = (if h = ''inbounds'' then JArr (ibs @ [lb_inbound base i]) else json_get h c)" by blast
  have truthy: "object_or_empty (json_get ''route'' c) = json_get ''route'' c"
    using r by (cases "json_get ''route'' c") (simp_all add: object_or_empty_def)
  have "on_array (\<lambda>js. lb_rule i t # js) (json_get ''rules'' (json_get ''route'' c)) = Inr (JArr (lb_rule i t # rules))"
    by (simp add: a)
  from json_update_object [where k = "''rules''" and f = "on_array (\<lambda>js. lb_rule i t # js)", OF r this] obtain rt where rt: "is_plain_object rt"
      "json_update ''rules'' (on_array (\<lambda>js. lb_rule i t # js)) (json_get ''route'' c) = Inr rt"
      "json_get ''rules'' rt = JArr (lb_rule i t # rules)" by auto
  let ?f = "\<lambda>r. json_update ''rules'' (on_array (\<lambda>js. lb_rule i t # js)) (object_or_empty r)"
  have "?f (json_get ''route'' c1) = Inr rt" using rt(2) c1(3) truthy by simp
  from json_update_object [of c1 ?f, OF c1(1) this] obtain c2 where c2: "is_plain_object c2" "json_update ''route'' ?f c1 = Inr c2"
      "\<forall>h. json_get h c2 = (if h = ''route'' then rt else json_get h c1)" by blast
  then show ?thesis
    using c1 rt by (intro exI [of _ c2]) (simp add: add_lb_node_def and_then_def config_shape_def)
qed

lemma add_lb_nodes_shape:
  "config_shape ibs rules c \<Longrightarrow> \<exists>c'. add_lb_nodes base i ts c = Inr c'
     \<and> config_shape (ibs @ lb_inbounds base i (length ts)) (lb_rules i ts @ rules) c'
     \<and> json_get ''outbounds'' c' = json_get ''outbounds'' c"
proof (induction ts arbitrary: i ibs rules c)
  case Nil
  then show ?case by simp
next
  case (Cons t ts)
  from add_lb_node_shape [OF Cons.prems, of base i t] obtain c1 where c1: "add_lb_node base i t c = Inr c1"
      "config_shape (ibs @ [lb_inbound base i]) (lb_rule i t # rules) c1"
      "json_get ''outbounds'' c1 = json_get ''outbounds'' c" by blast
  with Cons.IH [OF c1(2)] c1 show ?case by (simp add: and_then_def)
qed

lemma inject_shape:
  assumes "config_shape ibs rules c" "node_group_tags c = Inr tags" "2 \<le> length tags"
  shows "\<exists>c'. inject_load_balance_config c base = Inr (c', map (\<lambda>i. base + int i) [0..<length tags])
    \<and> config_shape (ibs @ lb_inbounds base 0 (length tags)) (lb_rules 0 tags @ rules) c' \<and> node_group_tags c' = Inr tags"
proof -
  from add_lb_nodes_shape [OF assms(1), of base 0 tags] obtain c' where c': "add_lb_nodes base 0 tags c = Inr c'"
      "config_shape (ibs @ lb_inbounds base 0 (length tags)) (lb_rules 0 tags @ rules) c'"
      "json_get ''outbounds'' c' = json_get ''outbounds'' c" by blast
  then have "node_group_tags c' = Inr tags" using assms(2) by (simp add: node_group_tags_def)
  with c' assms(2,3) show ?thesis
    by (intro exI [of _ c']) (simp add: inject_load_balance_config_def and_then_def)
qed

text \<open>The first rule that applies to the traffic of an inbound: one that names it, or one without inbounds.\<close>

definition rule_applies :: "string \<Rightarrow> json \<Rightarrow> bool" where
  "rule_applies inb r = (case json_get ''inbound'' r of JArr js \<Rightarrow> JStr inb \<in> set js | _ \<Rightarrow> True)"

lemma rule_applies_lb_rule [simp]: "rule_applies (lb_inbound_tag k) (lb_rule i t) \<longleftrightarrow> i = k"
  by (auto simp: rule_applies_def lb_rule_def json_get_def lb_inbound_tag_def)

lemma find_lb_rules:
  "List.find (rule_applies (lb_inbound_tag k)) (lb_rules i ts) =
     (if i \<le> k \<and> k < i + length ts then Some (lb_rule k (ts ! (k - i))) else None)"
proof (induction ts arbitrary: i)
  case Nil
  then show ?case by simp
next
  case (Cons t ts)
  then show ?case by (auto simp: find_append nth_Cons' split: option.splits)
qed

lemma lb_inbounds_nth: "k < n \<Longrightarrow> lb_inbounds base i n ! k = lb_inbound base (i + k)"
proof (induction n arbitrary: i k)
  case 0
  then show ?case by simp
next
  case (Suc n)
  then show ?case by (cases k) auto
qed

lemma length_lb_inbounds [simp]: "length (lb_inbounds base i n) = n"
  by (induction n arbitrary: i) auto

text \<open>
  C16. Every port of the balancer leads to its own node: when the configuration has at least two node
  groups, the answer is one port per group, counted up from the base port; behind the inbounds of the
  configuration stands a local SOCKS inbound for each of these ports; and, whatever rules the profile
  has, the first rule that applies to such an inbound sends it to the group of that node. With fewer
  groups the configuration is left alone.
\<close>

theorem balancer_ports_reach_their_nodes:
  assumes "config_shape ibs rules c" "node_group_tags c = Inr tags"
  shows "if length tags < 2 then inject_load_balance_config c base = Inr (c, [])
    else \<exists>c' ports ibs' rules'. inject_load_balance_config c base = Inr (c', ports) \<and> config_shape (ibs @ ibs') rules' c'
      \<and> ports = map (\<lambda>i. base + int i) [0..<length tags] \<and> length ibs' = length tags
      \<and> list_all (\<lambda>k. json_get ''listen_port'' (ibs' ! k) = JNum (ports ! k)
            \<and> json_get ''listen'' (ibs' ! k) = JStr ''127.0.0.1'' \<and> json_get ''tag'' (ibs' ! k) = JStr (lb_inbound_tag k)
            \<and> map_option (json_get ''outbound'') (List.find (rule_applies (lb_inbound_tag k)) rules') = Some (JStr (tags ! k)))
          [0..<length tags]"
proof (cases "length tags < 2")
  case True
  then show ?thesis using assms(2) by (simp add: inject_load_balance_config_def and_then_def)
next
  case False
  then have two: "2 \<le> length tags" by simp
  from inject_shape [OF assms two, of base] obtain c' where c': "inject_load_balance_config c base
        = Inr (c', map (\<lambda>i. base + int i) [0..<length tags])"
      "config_shape (ibs @ lb_inbounds base 0 (length tags)) (lb_rules 0 tags @ rules) c'" by blast
  have "json_get ''outbound'' (lb_rule k t) = JStr t" for k t by (simp add: lb_rule_def json_get_def)
  moreover have "json_get ''listen_port'' (lb_inbound base k) = JNum (base + int k)"
      "json_get ''listen'' (lb_inbound base k) = JStr ''127.0.0.1''"
      "json_get ''tag'' (lb_inbound base k) = JStr (lb_inbound_tag k)" for k
    by (simp_all add: lb_inbound_def json_get_def)
  ultimately show ?thesis
    using c' False
    by (simp, intro exI conjI) (auto simp: list_all_iff lb_inbounds_nth find_append find_lb_rules)
qed

subsection \<open>A start that fails\<close>

lemma run_hooks_enabled:
  assumes "config_shape ibs rules c" "node_group_tags c = Inr tags" "2 \<le> length tags" "ln_enabled s"
  shows "\<exists>c'. run_hooks base 1 c s = Inr (c', s\<lparr>ln_ports := map (\<lambda>i. base 0 + int i) [0..<length tags]\<rparr>)
      \<and> config_shape (ibs @ lb_inbounds (base 0) 0 (length tags)) (lb_rules 0 tags @ rules) c' \<and> node_group_tags c' = Inr tags"
proof -
  from inject_shape [OF assms(1-3), of "base 0"] obtain c' where
      "inject_load_balance_config c (base 0) = Inr (c', map (\<lambda>i. base 0 + int i) [0..<length tags])"
      "config_shape (ibs @ lb_inbounds (base 0) 0 (length tags)) (lb_rules 0 tags @ rules) c'" "node_group_tags c' = Inr tags"
    by blast
  then show ?thesis using assms(4) by (simp add: lb_config_hook_def)
qed

lemma run_hooks_twice:
  assumes "config_shape ibs rules c" "node_group_tags c = Inr tags" "2 \<le> length tags" "ln_enabled s"
  shows "\<exists>c' rules'. run_hooks base 2 c s = Inr (c', s\<lparr>ln_ports := map (\<lambda>i. base 0 + int i) [0..<length tags]\<rparr>)
      \<and> config_shape (ibs @ lb_inbounds (base 1) 0 (length tags) @ lb_inbounds (base 0) 0 (length tags)) rules' c'"
proof -
  from inject_shape [OF assms(1-3), of "base 1"] obtain c1 where c1:
      "inject_load_balance_config c (base 1) = Inr (c1, map (\<lambda>i. base 1 + int i) [0..<length tags])"
      "config_shape (ibs @ lb_inbounds (base 1) 0 (length tags)) (lb_rules 0 tags @ rules) c1" "node_group_tags c1 = Inr tags"
    by blast
  let ?s = "s\<lparr>ln_ports := map (\<lambda>i. base 1 + int i) [0..<length tags]\<rparr>"
  have "ln_enabled ?s" using assms(4) by simp
  from run_hooks_enabled [OF c1(2,3) assms(3) this] obtain c2 where c2: "run_hooks base 1 c1 ?s
        = Inr (c2, ?s\<lparr>ln_ports := map (\<lambda>i. base 0 + int i) [0..<length tags]\<rparr>)"
      "config_shape ((ibs @ lb_inbounds (base 1) 0 (length tags)) @ lb_inbounds (base 0) 0 (length tags))
        (lb_rules 0 tags @ lb_rules 0 tags @ rules) c2" by blast
  have "run_hooks base 2 c s = run_hooks base 1 c1 ?s"
    using c1(1) assms(4) by (simp add: numeral_2_eq_2 lb_config_hook_def)
  then show ?thesis using c2 by auto
qed

text \<open>
  A start of the balancer whose core does not come up leaves the balancer switched on with its hook in
  the list; the next start registers the hook again, both run, and the configuration that is written has
  the inbounds of every node twice, under the same tags.
\<close>

theorem failed_start_duplicates_inbounds:
  assumes "config_shape ibs rules c" "node_group_tags c = Inr tags" "2 \<le> length tags" "ln_hooks s = 0"
    and "le_config env1 = c" "le_core env1 = Some e"
    and "le_config env2 = c" "le_core env2 = None" "le_port env2 = Inr port" "le_balancer env2 = Inr True"
    and "s1 = snd (start_load_balance env1 s)"
  shows "fst (start_load_balance env1 s) = Some e \<and> ln_enabled s1 \<and> ln_hooks s1 = 1
    \<and> fst (start_load_balance env2 s1) = None
    \<and> (\<exists>ibs'. json_get ''inbounds'' (ln_written (snd (start_load_balance env2 s1))) = JArr (ibs @ ibs')
        \<and> \<not> distinct (map (json_get ''tag'') ibs'))"
proof -
  let ?on = "register_hook (s\<lparr>ln_enabled := True\<rparr>)"
  have on: "ln_enabled ?on" "ln_hooks ?on = 1" using assms(4) by (simp_all add: register_hook_def)
  from run_hooks_enabled [OF assms(1-3) on(1), of "le_basePort env1"] obtain c1 where
      r1: "run_hooks (le_basePort env1) 1 c ?on
        = Inr (c1, ?on\<lparr>ln_ports := map (\<lambda>i. le_basePort env1 0 + int i) [0..<length tags]\<rparr>)" by blast
  then have st1: "start_load_balance env1 s = (Some e,
      ?on\<lparr>ln_ports := map (\<lambda>i. le_basePort env1 0 + int i) [0..<length tags], ln_written := c1\<rparr>)"
    using on assms(5,6) by (simp add: start_load_balance_def start_core_with_hooks_def)
  then have s1: "ln_enabled s1" "ln_hooks s1 = 1" using assms(11) on by simp_all
  let ?on2 = "register_hook (s1\<lparr>ln_enabled := True\<rparr>)"
  have on2: "ln_enabled ?on2" "ln_hooks ?on2 = 2" using s1 by (simp_all add: register_hook_def)
  from run_hooks_twice [OF assms(1-3) on2(1), of "le_basePort env2"] obtain c2 rules2 where
      r2: "run_hooks (le_basePort env2) 2 c ?on2
        = Inr (c2, ?on2\<lparr>ln_ports := map (\<lambda>i. le_basePort env2 0 + int i) [0..<length tags]\<rparr>)"
      "config_shape (ibs @ lb_inbounds (le_basePort env2 1) 0 (length tags) @ lb_inbounds (le_basePort env2 0) 0 (length tags))
        rules2 c2" by blast
  then have st2: "start_load_balance env2 s1 = (None,
      ?on2\<lparr>ln_ports := map (\<lambda>i. le_basePort env2 0 + int i) [0..<length tags], ln_written := c2, ln_listenPort := port\<rparr>)"
    using on2(2) assms(3,7-10) by (simp add: start_load_balance_def start_core_with_hooks_def)
  obtain n where n: "length tags = Suc n" using assms(3) by (cases "length tags") auto
  have "json_get ''tag'' (lb_inbound b i) = JStr (lb_inbound_tag i)" for b i by (simp add: lb_inbound_def json_get_def)
  then have "\<not> distinct (map (json_get ''tag'')
      (lb_inbounds (le_basePort env2 1) 0 (length tags) @ lb_inbounds (le_basePort env2 0) 0 (length tags)))"
    by (simp add: n)
  then show ?thesis using st1 st2 s1 r2(2) by (auto simp: config_shape_def)
qed

definition two_groups :: json where
  "two_groups = JObj
     [(''outbounds'', JArr [JObj [(''tag'', JStr ''Cloud Node a Best Auto'')], JObj [(''tag'', JStr ''Cloud Node b Best Auto'')]]),
      (''inbounds'', JArr []), (''route'', JObj [(''rules'', JArr [])])]"

definition lb_try :: "string option \<Rightarrow> lb_env" where
  "lb_try core = \<lparr>le_config = two_groups, le_basePort = (\<lambda>n. 30000 + 100 * int n), le_core = core, le_port = Inr 9, le_balancer = Inr True\<rparr>"

lemma two_groups_shape: "config_shape [] [] two_groups"
    "node_group_tags two_groups = Inr [''Cloud Node a Best Auto'', ''Cloud Node b Best Auto'']"
  by code_simp+

theorem failed_start_duplicates_inbounds_witness:
  "fst (start_load_balance (lb_try (Some ''e'')) ln_init) = Some ''e''
   \<and> fst (start_load_balance (lb_try None) (snd (start_load_balance (lb_try (Some ''e'')) ln_init))) = None"
  using failed_start_duplicates_inbounds [OF two_groups_shape _ _ _ _ _ _ _ _ refl,
      of ln_init "lb_try (Some ''e'')" "''e''" "lb_try None" 9]
  by (simp add: lb_try_def ln_init_def)

theorem balancer_ports_reach_their_nodes_witness:
  "\<exists>c'. inject_load_balance_config two_groups 30000 = Inr (c', [30000, 30001])"
  using balancer_ports_reach_their_nodes [OF two_groups_shape, of 30000]
  by (auto simp: numeral_2_eq_2)

end
