(* ===== verification/NodeProxies.thy ===== *)
theory NodeProxies
  imports Generator
begin

text \<open>
  The proxies that \<open>ensureSubscriptionForNode\<close> of \<open>stores/cloud/subscriptionApply.ts\<close> writes for a cloud
  node: one per protocol and address, the path through the CDN, and the form of older nodes. They are JSON
  objects with the fields in the order of the code.
\<close>

subsection \<open>Parts\<close>

text \<open>What is known of the CDN worker of a node (\<open>CdnDeployment\<close>).\<close>

record cdn_deployment =
  cd_workerHost :: "string option"
  cd_customHost :: "string option"
  cd_pathSecret :: "string option"

text \<open>The public addresses with the suffix of their tags. An IPv6 address is taken as it is.\<close>

definition ip_versions :: "node \<Rightarrow> (string \<times> string) list" where
  "ip_versions n =
     (case cn_ipv4 n of Some ip \<Rightarrow> if ip \<noteq> '''' \<and> is_public_ipv4 (Some ip) then [(ip, ''-v4'')] else [] | None \<Rightarrow> [])
     @ (case cn_ipv6 n of Some ip \<Rightarrow> if ip \<noteq> '''' then [(ip, ''-v6'')] else [] | None \<Rightarrow> [])"

definition str_value :: "string option \<Rightarrow> json" where
  "str_value v = json_opt v"

definition int_value :: "int option \<Rightarrow> json" where
  "int_value v = (case v of None \<Rightarrow> JUndef | Some n \<Rightarrow> JNum n)"

text \<open>\<open>.replace(/\+/g, '-').replace(/\//g, '_').replace(/=+$/, '')\<close>.\<close>

definition url_safe_key :: "string \<Rightarrow> string" where
  "url_safe_key key = rev (dropWhile (\<lambda>c. c = CHR ''='')
     (rev (map (\<lambda>c. if c = CHR ''+'' then CHR ''-'' else if c = CHR ''/'' then CHR ''_'' else c) key)))"

definition tls_json :: "bool \<Rightarrow> string \<Rightarrow> json" where
  "tls_json insecure name = JObj
     [(''enabled'', JBool True), (''insecure'', JBool insecure), (''server_name'', JStr name)]"

definition utls_json :: json where
  "utls_json = JObj [(''enabled'', JBool True), (''fingerprint'', JStr ''chrome'')]"

definition proxy_head :: "string \<Rightarrow> string \<Rightarrow> string \<Rightarrow> json \<Rightarrow> json dict" where
  "proxy_head ty tag server port =
     [(''type'', JStr ty), (''tag'', JStr tag), (''server'', JStr server), (''server_port'', port)]"

subsection \<open>One protocol at one address\<close>

definition ss_proxy :: "node \<Rightarrow> string \<times> string \<Rightarrow> json" where
  "ss_proxy n v = JObj (proxy_head ''shadowsocks'' (cn_label n @ ''-ss'' @ snd v) (fst v) (int_value (cn_ssPort n))
     @ [(''method'', JStr ''aes-256-gcm''), (''password'', str_value (cn_ssPassword n))])"

definition hysteria_proxy :: "node \<Rightarrow> string \<times> string \<Rightarrow> json" where
  "hysteria_proxy n v = JObj
     (proxy_head ''hysteria2'' (cn_label n @ ''-hysteria2'' @ snd v) (fst v) (int_value (cn_hysteriaPort n))
      @ [(''up_mbps'', JNum 100), (''down_mbps'', JNum 100), (''password'', str_value (cn_hysteriaPassword n)),
         (''tls'', tls_json (resolve_tls_insecure (cn_hysteriaInsecure n))
            (normalize_server_name (cn_hysteriaServerName n) default_hysteria_server_name))])"

definition vless_proxy :: "node \<Rightarrow> string \<times> string \<Rightarrow> json" where
  "vless_proxy n v = JObj
     (proxy_head ''vless'' (cn_label n @ ''-vless'' @ snd v) (fst v) (int_value (cn_vlessPort n))
      @ [(''uuid'', str_value (cn_vlessUUID n)), (''flow'', JStr ''xtls-rprx-vision''),
         (''tls'', JObj
            [(''enabled'', JBool True),
             (''server_name'', JStr (normalize_server_name (cn_vlessServerName n) default_vless_server_name)),
             (''utls'', utls_json),
             (''reality'', JObj [(''enabled'', JBool True),
                (''public_key'', JStr (url_safe_key (opt_or (cn_vlessPublicKey n) ''''))),
                (''short_id'', str_value (cn_vlessShortId n))])])])"

definition trojan_proxy :: "node \<Rightarrow> string \<times> string \<Rightarrow> json" where
  "trojan_proxy n v = JObj
     (proxy_head ''trojan'' (cn_label n @ ''-trojan'' @ snd v) (fst v) (int_value (cn_trojanPort n))
      @ [(''password'', str_value (cn_trojanPassword n)),
         (''tls'', tls_json (resolve_tls_insecure (cn_trojanInsecure n))
            (normalize_server_name (cn_trojanServerName n) default_trojan_server_name))])"

subsection \<open>The path through the CDN\<close>

text \<open>The host the CDN proxy talks to, empty without one: the custom host goes before that of the worker.\<close>

definition trimmed :: "string option \<Rightarrow> string" where
  "trimmed v = (case v of None \<Rightarrow> '''' | Some s \<Rightarrow> js_trim s)"

definition cdn_host :: "cdn_deployment option \<Rightarrow> node \<Rightarrow> string" where
  "cdn_host d n = (case d of
      None \<Rightarrow> ''''
    | Some dep \<Rightarrow>
        if (case cn_vlessRelayPort n of None \<Rightarrow> False | Some p \<Rightarrow> p > 0) \<and> truthy_s (cn_vlessUUID n)
        then str_or (trimmed (cd_customHost dep)) (trimmed (cd_workerHost dep)) else '''')"

definition cdn_path :: "cdn_deployment option \<Rightarrow> string" where
  "cdn_path d = (let secret = (case d of None \<Rightarrow> '''' | Some dep \<Rightarrow> trimmed (cd_pathSecret dep))
     in if secret = '''' then ''/?ed=2560'' else ''/?ed=2560&k='' @ secret)"

definition cdn_proxies :: "cdn_deployment option \<Rightarrow> node \<Rightarrow> json list" where
  "cdn_proxies d n = (let host = cdn_host d n in
     if host = '''' then []
     else [JObj (proxy_head ''vless'' (cn_label n @ ''-cdn'') host (JNum 443)
        @ [(''uuid'', str_value (cn_vlessUUID n)),
           (''transport'', JObj [(''type'', JStr ''ws''), (''path'', JStr (cdn_path d)),
              (''headers'', JObj [(''Host'', JStr host)])]),
           (''tls'', JObj [(''enabled'', JBool True), (''server_name'', JStr host), (''utls'', utls_json)])])])"

subsection \<open>All of them\<close>

definition has_ss :: "node \<Rightarrow> bool" where
  "has_ss n \<longleftrightarrow> truthy_n (cn_ssPort n) \<and> truthy_s (cn_ssPassword n)"

definition has_hysteria :: "node \<Rightarrow> bool" where
  "has_hysteria n \<longleftrightarrow> truthy_n (cn_hysteriaPort n) \<and> truthy_s (cn_hysteriaPassword n)"

definition has_vless :: "node \<Rightarrow> bool" where
  "has_vless n \<longleftrightarrow> truthy_n (cn_vlessPort n) \<and> truthy_s (cn_vlessUUID n) \<and> truthy_s (cn_vlessPublicKey n)
     \<and> truthy_s (cn_vlessShortId n)"

definition has_trojan :: "node \<Rightarrow> bool" where
  "has_trojan n \<longleftrightarrow> truthy_n (cn_trojanPort n) \<and> truthy_s (cn_trojanPassword n)"

definition per_address :: "bool \<Rightarrow> (node \<Rightarrow> string \<times> string \<Rightarrow> json) \<Rightarrow> node \<Rightarrow> json list" where
  "per_address b mk n = (if b then map (mk n) (ip_versions n) else [])"

definition protocol_proxies :: "cdn_deployment option \<Rightarrow> node \<Rightarrow> json list" where
  "protocol_proxies d n =
     per_address (has_ss n) ss_proxy n @ per_address (has_hysteria n) hysteria_proxy n
     @ per_address (has_vless n) vless_proxy n @ cdn_proxies d n @ per_address (has_trojan n) trojan_proxy n"

text \<open>A node without any protocol: the port and the password of older versions.\<close>

definition legacy_proxies :: "node \<Rightarrow> json list" where
  "legacy_proxies n =
     (let port = (if truthy_n (cn_port n) then cn_port n else cn_ssPort n);
          password = (if truthy_s (cn_password n) then cn_password n else cn_ssPassword n)
      in if truthy_n port \<and> truthy_s password
         then map (\<lambda>v. JObj (proxy_head ''shadowsocks'' (cn_label n @ snd v) (fst v) (int_value port)
                @ [(''method'', JStr ''aes-256-gcm''), (''password'', str_value password)])) (ip_versions n)
         else [])"

definition node_proxies :: "cdn_deployment option \<Rightarrow> node \<Rightarrow> json list" where
  "node_proxies d n = (let ps = protocol_proxies d n in if ps = [] then legacy_proxies n else ps)"

definition subscription_payload :: "cdn_deployment option \<Rightarrow> node \<Rightarrow> json" where
  "subscription_payload d n = JObj [(''outbounds'', JArr (node_proxies d n))]"

subsection \<open>Which proxies the patterns of the smart groups select\<close>

text \<open>
  What the patterns of \<open>stores/cloud/constants.ts\<close> mean, a dash and one of the names of the protocol,
  perhaps an address suffix, at the end of the tag: \<open>-(?:ss|shadowsocks)(?:-(?:v4|v6|ipv4|ipv6))?$\<close> and so on.
\<close>

fun protocol_words :: "protocol \<Rightarrow> string list" where
  "protocol_words Shadowsocks = [''-ss'', ''-shadowsocks'']"
| "protocol_words Hysteria2 = [''-hysteria'', ''-hysteria2'', ''-hy2'']"
| "protocol_words Vless = [''-vless'']"
| "protocol_words Trojan = [''-trojan'']"

definition address_suffixes :: "string list" where
  "address_suffixes = ['''', ''-v4'', ''-v6'', ''-ipv4'', ''-ipv6'']"

definition matches_protocol :: "protocol \<Rightarrow> string \<Rightarrow> bool" where
  "matches_protocol p tag \<longleftrightarrow>
     list_ex (\<lambda>w. list_ex (\<lambda>s. ends_with tag (w @ s)) address_suffixes) (protocol_words p)"

definition all_protocols :: "protocol list" where
  "all_protocols = [Shadowsocks, Hysteria2, Vless, Trojan]"

definition matches_node_best :: "string \<Rightarrow> bool" where
  "matches_node_best tag \<longleftrightarrow> list_ex (\<lambda>p. matches_protocol p tag) all_protocols"

lemma ends_with_append:
  "ends_with (a @ x) y \<longleftrightarrow> (if length y \<le> length x then ends_with x y
     else ends_with y x \<and> ends_with a (take (length y - length x) y))"
proof -
  have e: "ends_with s p \<longleftrightarrow> (\<exists>r. s = r @ p)" for s p :: string
    unfolding ends_with_def starts_with_iff by (metis rev_append rev_rev_ident)
  show ?thesis
  proof (cases "length y \<le> length x")
    case True
    then show ?thesis unfolding e by (auto simp: append_eq_append_conv2)
  next
    case False
    have "(\<exists>r. a @ x = r @ y) \<longleftrightarrow> (\<exists>r z. y = z @ x \<and> a = r @ z)"
    proof
      assume "\<exists>r. a @ x = r @ y"
      then obtain r where r: "a @ x = r @ y" by blast
      then obtain u where "a = r @ u \<and> u @ x = y \<or> a @ u = r \<and> x = u @ y" by (auto simp: append_eq_append_conv2)
      with False show "\<exists>r z. y = z @ x \<and> a = r @ z" by auto
    qed auto
    also have "\<dots> \<longleftrightarrow> (\<exists>z. y = z @ x) \<and> (\<exists>r. a = r @ take (length y - length x) y)" by auto
    finally show ?thesis using False unfolding e by simp
  qed
qed

text \<open>The tags of a protocol are matched by its own pattern and no other; that of the CDN path by none.\<close>

lemma protocol_tag_classes:
  assumes "v \<in> {''-v4'', ''-v6''}"
  shows "matches_protocol q (l @ ''-ss'' @ v) \<longleftrightarrow> q = Shadowsocks"
    and "matches_protocol q (l @ ''-hysteria2'' @ v) \<longleftrightarrow> q = Hysteria2"
    and "matches_protocol q (l @ ''-vless'' @ v) \<longleftrightarrow> q = Vless"
    and "matches_protocol q (l @ ''-trojan'' @ v) \<longleftrightarrow> q = Trojan"
    and "\<not> matches_protocol q (l @ ''-cdn'')"
  using assms
  by (cases q; auto simp: matches_protocol_def address_suffixes_def ends_with_append ends_with_def starts_with_def)+

subsection \<open>What the group of a node selects\<close>

lemma js_trim_nonblank: "c \<in> set s \<Longrightarrow> \<not> js_ws c \<Longrightarrow> js_trim s \<noteq> ''''"
proof -
  assume c: "c \<in> set s" "\<not> js_ws c"
  have left: "c \<in> set (trim_left t)" if "c \<in> set t" for t
    using that c(2) unfolding trim_left_def by (metis in_set_conv_decomp dropWhile_append3 UnCI list.set_intros(1) set_append)
  have "c \<in> set (trim_left (rev (trim_left s)))" using left [OF c(1)] left by simp
  then show ?thesis unfolding js_trim_def by (metis empty_iff list.set(1) set_rev)
qed

lemma update_same: "map_of d k = Some v \<Longrightarrow> AList.update k v d = d"
  by (induction d) (auto split: if_splits)

text \<open>Entries that have a type and a tag are left as they are.\<close>

definition entry_named :: "json \<Rightarrow> bool" where
  "entry_named j \<longleftrightarrow> is_plain_object j
     \<and> (case json_get ''type'' j of JStr t \<Rightarrow> js_trim t \<noteq> '''' | _ \<Rightarrow> False)
     \<and> (case json_get ''tag'' j of JStr t \<Rightarrow> js_trim t \<noteq> '''' | _ \<Rightarrow> False)"

lemma normalize_entries_named:
  "list_all entry_named js \<Longrightarrow> normalize_entries k js = Inr (js, k)"
proof (induction js)
  case Nil
  then show ?case by simp
next
  case (Cons j js)
  from Cons.prems obtain fs ty t where j: "j = JObj fs" "json_get ''type'' j = JStr ty" "js_trim ty \<noteq> ''''"
      "json_get ''tag'' j = JStr t" "js_trim t \<noteq> ''''"
    by (cases j) (auto simp: entry_named_def split: json.splits)
  have "map_of fs ''tag'' = Some (JStr t)"
    using j(1,4) by (cases "map_of fs ''tag''") (simp_all add: json_get_def)
  then have upd: "AList.update ''tag'' (JStr t) fs = fs" by (rule update_same)
  have blank: "js_trim '''' = ''''" by (simp add: js_trim_def trim_left_def)
  have ty: "truthy_text (JStr ty) = ty" using j(3) blank by (auto simp: truthy_text_def)
  have tag: "entry_tag j = t" using j(4) by (simp add: entry_tag_def)
  have "normalize_proxy (truthy_text (json_get ''id'' j)) (truthy_text (json_get ''type'' j)) (entry_tag j) k = (t, k)"
    using j(3,5) by (simp add: j(2) ty tag normalize_proxy_def proxy_fallback_def)
  then show ?case using Cons upd by (simp add: j(1))
qed

lemma ip_versions_suffix: "v \<in> set (ip_versions n) \<Longrightarrow> snd v \<in> {''-v4'', ''-v6''}"
  by (auto simp: ip_versions_def split: option.splits if_splits)

lemma proxy_tags [simp]:
  "entry_tag (ss_proxy n v) = cn_label n @ ''-ss'' @ snd v"
  "entry_tag (hysteria_proxy n v) = cn_label n @ ''-hysteria2'' @ snd v"
  "entry_tag (vless_proxy n v) = cn_label n @ ''-vless'' @ snd v"
  "entry_tag (trojan_proxy n v) = cn_label n @ ''-trojan'' @ snd v"
  by (simp_all add: entry_tag_def json_get_def ss_proxy_def hysteria_proxy_def vless_proxy_def trojan_proxy_def proxy_head_def)

lemma cdn_tags: "j \<in> set (cdn_proxies d n) \<Longrightarrow> entry_tag j = cn_label n @ ''-cdn''"
  by (auto simp: cdn_proxies_def Let_def entry_tag_def json_get_def proxy_head_def split: if_splits)

lemma head_named: "js_trim ty \<noteq> '''' \<Longrightarrow> CHR ''-'' \<in> set tag \<Longrightarrow> entry_named (JObj (proxy_head ty tag server port @ rest))"
  using js_trim_nonblank [of "CHR ''-''" tag]
  by (simp add: entry_named_def json_get_def proxy_head_def js_ws_def)

lemma protocol_proxies_named: "list_all entry_named (protocol_proxies d n)"
proof -
  have ty: "js_trim ''shadowsocks'' \<noteq> ''''" "js_trim ''hysteria2'' \<noteq> ''''" "js_trim ''vless'' \<noteq> ''''" "js_trim ''trojan'' \<noteq> ''''"
    by code_simp+
  show ?thesis
    by (auto simp: protocol_proxies_def per_address_def cdn_proxies_def Let_def list_all_iff ss_proxy_def hysteria_proxy_def
        vless_proxy_def trojan_proxy_def ty intro!: head_named)
qed

text \<open>The tags of the proxies that reach the node directly, in the order of the file.\<close>

definition direct_proxy_tags :: "node \<Rightarrow> string list" where
  "direct_proxy_tags n = concat (map (\<lambda>(b, w). if b then map (\<lambda>v. cn_label n @ w @ snd v) (ip_versions n) else [])
     [(has_ss n, ''-ss''), (has_hysteria n, ''-hysteria2''), (has_vless n, ''-vless''), (has_trojan n, ''-trojan'')])"

lemma node_best_selects:
  "filter matches_node_best (map entry_tag (protocol_proxies d n)) = direct_proxy_tags n"
proof -
  have sel: "filter matches_node_best (map (\<lambda>v. cn_label n @ w @ snd v) (ip_versions n)) = map (\<lambda>v. cn_label n @ w @ snd v) (ip_versions n)"
    if "w \<in> {''-ss'', ''-hysteria2'', ''-vless'', ''-trojan''}" for w
    using that ip_versions_suffix [of _ n]
    by (auto simp: filter_id_conv matches_node_best_def all_protocols_def protocol_tag_classes simp del: append.simps)
  have no: "\<not> matches_protocol q (cn_label n @ ''-cdn'')" for q
    using protocol_tag_classes(5) [of "''-v4''"] by blast
  have cdn: "filter matches_node_best (map entry_tag (cdn_proxies d n)) = []"
    by (auto simp: filter_empty_conv cdn_tags matches_node_best_def all_protocols_def no)
  show ?thesis
    using sel [of "''-ss''"] sel [of "''-hysteria2''"] sel [of "''-vless''"] sel [of "''-trojan''"] cdn
    by (simp add: protocol_proxies_def per_address_def direct_proxy_tags_def comp_def)
qed

subsection \<open>A smart group over the node alone\<close>

text \<open>
  A fetch of the file of the node gives the proxies the application wrote there, the pattern of the smart
  groups means what \<^const>\<open>matches_node_best\<close> says, and the group has that one subscription.
\<close>

definition reads_node_file :: "gen_env \<Rightarrow> cdn_deployment option \<Rightarrow> node \<Rightarrow> string \<Rightarrow> bool" where
  "reads_node_file env d n sub \<longleftrightarrow>
     (case ge_subscription env sub of
        None \<Rightarrow> False
      | Some path \<Rightarrow> ge_readJson env path = Inr (subscription_payload d n))"

lemma add_node_subscription:
  assumes "reads_node_file env d n (px_id c)" "px_type c = ''Subscription''" "protocol_proxies d n \<noteq> []"
  shows "\<exists>st. add_child env matches_node_best c gn_init = Inr (direct_proxy_tags n, st)"
proof -
  from assms(1) obtain path where path: "ge_subscription env (px_id c) = Some path"
      "ge_readJson env path = Inr (subscription_payload d n)"
    by (auto simp: reads_node_file_def split: option.splits)
  have entries: "file_entries (subscription_payload d n) = protocol_proxies d n"
    using assms(3) by (simp add: file_entries_def subscription_payload_def json_get_def node_proxies_def Let_def)
  show ?thesis
    using assms(2) path
    by (simp add: add_child_def child_source_def load_subscription_def gn_init_def entries
        normalize_entries_named [OF protocol_proxies_named] cached_entries_def or_else_def node_best_selects Let_def)
qed

text \<open>
  A smart group over a node (type urltest, the pattern of the node groups, the subscription of that
  node) gets exactly the proxies that reach the node at one of its addresses. The proxy through the CDN,
  written to let the traffic through where the address is blocked, is matched by no pattern and so is never
  a member; a node of which only the CDN proxy exists leaves the group to the direct outbound.
\<close>

theorem node_group_members:
  assumes "reads_node_file env d n (px_id c)"
    and "ge_regex env include_node_best = Inr matches_node_best"
    and "ob_type ob = OutUrltest" "ob_include ob = include_node_best" "ob_exclude ob = ''''"
    and "ob_outbounds ob = [c]" "px_type c = ''Subscription''" "protocol_proxies d n \<noteq> []"
  shows "map_sum id (cg_members \<circ> fst) (generate_outbound env obs ob gn_init)
     = Inr (Some (if direct_proxy_tags n = [] then [direct_tag obs] else direct_proxy_tags n))"
proof -
  from add_node_subscription [OF assms(1,7,8)] obtain st where
    "add_child env matches_node_best c gn_init = Inr (direct_proxy_tags n, st)" by blast
  moreover have "include_node_best \<noteq> ''''" by (simp add: include_node_best_def)
  ultimately show ?thesis
    using assms(2-6) by (simp add: generate_outbound_def tag_matcher_def and_then_def Let_def)
qed

text \<open>A node with a Trojan port and a CDN worker, reached by IPv4.\<close>

definition sample_node :: node where
  "sample_node = (bare_node ''i1'' ''tokyo'')
     \<lparr>cn_ipv4 := Some ''8.8.4.4'', cn_trojanPort := Some 8443, cn_trojanPassword := Some ''pw'',
      cn_vlessRelayPort := Some 9000, cn_vlessUUID := Some ''u''\<rparr>"

definition sample_worker :: cdn_deployment where
  "sample_worker = \<lparr>cd_workerHost = Some ''w.workers.dev'', cd_customHost = None, cd_pathSecret = None\<rparr>"

definition sample_node_env :: gen_env where
  "sample_node_env = \<lparr>ge_subscription = (\<lambda>s. if s = ''cloud-i1'' then Some ''f'' else None),
     ge_readJson = (\<lambda>_. Inr (subscription_payload (Some sample_worker) sample_node)),
     ge_regex = (\<lambda>_. Inr matches_node_best), ge_parse = (\<lambda>_. Inr JNull), ge_rulesetPath = (\<lambda>_. None),
     ge_plugins = Inr, ge_script = (\<lambda>_. Inr)\<rparr>"

definition sample_node_group :: outbound where
  "sample_node_group = (default_outbound ''g'')\<lparr>ob_type := OutUrltest, ob_include := include_node_best, ob_exclude := '''',
     ob_outbounds := [\<lparr>px_id = ''cloud-i1'', px_type = ''Subscription'', px_tag = ''tokyo'', px_meta = None\<rparr>]\<rparr>"

lemma node_group_members_witness:
  "map entry_tag (protocol_proxies (Some sample_worker) sample_node) = [''tokyo-cdn'', ''tokyo-trojan-v4'']
   \<and> map_sum id (cg_members \<circ> fst) (generate_outbound sample_node_env [] sample_node_group gn_init)
     = Inr (Some [''tokyo-trojan-v4''])"
proof -
  have tags: "map entry_tag (protocol_proxies (Some sample_worker) sample_node) = [''tokyo-cdn'', ''tokyo-trojan-v4'']"
    by code_simp
  then have some: "protocol_proxies (Some sample_worker) sample_node \<noteq> []" by auto
  have direct: "direct_proxy_tags sample_node = [''tokyo-trojan-v4'']" by code_simp
  have "map_sum id (cg_members \<circ> fst) (generate_outbound sample_node_env [] sample_node_group gn_init)
     = Inr (Some [''tokyo-trojan-v4''])"
    using node_group_members [of sample_node_env "Some sample_worker" sample_node
        "\<lparr>px_id = ''cloud-i1'', px_type = ''Subscription'', px_tag = ''tokyo'', px_meta = None\<rparr>" sample_node_group "[]"] some
    by (simp add: direct reads_node_file_def sample_node_env_def sample_node_group_def)
  with tags show ?thesis by simp
qed

text \<open>
  The unspecified IPv6 address counts as an address here, while the generator drops the proxy it gives: the
  group keeps a name that no outbound of the written configuration has.
\<close>

lemma unspecified_address_leaves_a_name:
  assumes "cn_ipv6 n = Some ''::''" "has_trojan n"
  shows "cn_label n @ ''-trojan-v6'' \<in> set (direct_proxy_tags n)
    \<and> invalid_server (trojan_proxy n (''::'', ''-v6'')) \<and> trojan_proxy n (''::'', ''-v6'') \<in> set (protocol_proxies d n)"
proof -
  have "invalid_server (trojan_proxy n (''::'', ''-v6''))"
    by (simp add: invalid_server_def trojan_proxy_def json_get_def proxy_head_def js_trim_def trim_left_def js_ws_def)
  then show ?thesis
    using assms by (auto simp: direct_proxy_tags_def ip_versions_def protocol_proxies_def per_address_def)
qed

end
