(* ===== verification/Flow.thy ===== *)
theory Flow
  imports Prelude
begin

text \<open>
  How an asynchronous operation ends: with a value, with an exception, or not at all, because it awaits a
  promise that is never settled. An operation is a function of the state that answers an outcome and the
  state it leaves; \<open>flow_then\<close> is \<open>await\<close> followed by the rest, \<open>flow_catch\<close> a \<open>try\<close> that swallows the
  exception.
\<close>

datatype 'a flow = Done 'a | Throws string | Hangs

definition flow_then :: "'a flow \<times> 's \<Rightarrow> ('a \<Rightarrow> 's \<Rightarrow> 'b flow \<times> 's) \<Rightarrow> 'b flow \<times> 's" where
  "flow_then r f = (case r of
      (Done v, s) \<Rightarrow> f v s
    | (Throws e, s) \<Rightarrow> (Throws e, s)
    | (Hangs, s) \<Rightarrow> (Hangs, s))"

definition flow_catch :: "'a flow \<times> 's \<Rightarrow> 'a \<Rightarrow> 'a flow \<times> 's" where
  "flow_catch r v = (case r of (Throws e, s) \<Rightarrow> (Done v, s) | _ \<Rightarrow> r)"

text \<open>\<open>finally\<close>: runs unless the operation never ends.\<close>

definition flow_finally :: "'a flow \<times> 's \<Rightarrow> ('s \<Rightarrow> 's) \<Rightarrow> 'a flow \<times> 's" where
  "flow_finally r f = (case r of (Hangs, s) \<Rightarrow> (Hangs, s) | (v, s) \<Rightarrow> (v, f s))"

text \<open>\<open>try\<close> with a handler that goes on.\<close>

definition flow_handle :: "'a flow \<times> 's \<Rightarrow> (string \<Rightarrow> 's \<Rightarrow> 'a flow \<times> 's) \<Rightarrow> 'a flow \<times> 's" where
  "flow_handle r f = (case r of (Throws e, s) \<Rightarrow> f e s | _ \<Rightarrow> r)"

text \<open>The outcome of a write that may fail.\<close>

definition flow_of :: "string option \<Rightarrow> unit flow" where
  "flow_of w = (case w of None \<Rightarrow> Done () | Some e \<Rightarrow> Throws e)"

fun flow_for :: "('a \<Rightarrow> 's \<Rightarrow> unit flow \<times> 's) \<Rightarrow> 'a list \<Rightarrow> 's \<Rightarrow> unit flow \<times> 's" where
  "flow_for f [] s = (Done (), s)"
| "flow_for f (x # xs) s = flow_then (f x s) (\<lambda>_. flow_for f xs)"

lemma flow_then_simps [simp]:
  "flow_then (Done v, s) f = f v s" "flow_then (Throws e, s) f = (Throws e, s)" "flow_then (Hangs, s) f = (Hangs, s)"
  by (simp_all add: flow_then_def)

lemma flow_of_simps [simp]: "flow_of None = Done ()" "flow_of (Some e) = Throws e"
  by (simp_all add: flow_of_def)

lemma flow_then_assoc: "flow_then (flow_then r f) g = flow_then r (\<lambda>v s. flow_then (f v s) g)"
  by (cases r; cases "fst r") auto

lemma flow_then_Done: "flow_then r f = (Done v, t) \<longleftrightarrow> (\<exists>u s. r = (Done u, s) \<and> f u s = (Done v, t))"
  by (cases r; cases "fst r") auto

text \<open>An invariant that the first part establishes or keeps and the rest keeps.\<close>

lemma flow_then_inv: "P (snd r) \<Longrightarrow> (\<And>v s. P s \<Longrightarrow> P (snd (f v s))) \<Longrightarrow> P (snd (flow_then r f))"
  by (cases r; cases "fst r") auto

lemma flow_for_inv: "P s \<Longrightarrow> (\<And>x s. x \<in> set xs \<Longrightarrow> P s \<Longrightarrow> P (snd (f x s))) \<Longrightarrow> P (snd (flow_for f xs s))"
proof (induction xs arbitrary: s)
  case Nil
  then show ?case by simp
next
  case (Cons x xs)
  show ?case unfolding flow_for.simps by (rule flow_then_inv) (use Cons in auto)
qed

end
