(* ===== verification/NodeSubscriptions.thy ===== *)
theory NodeSubscriptions
  imports NodeProxies ProfileStore SubscribeStore ProxyGroups CloudStore Flow
begin

text \<open>
  \<open>stores/cloud/subscriptionApply.ts\<close>: what the cloud module does with a node. Its operations change the
  protocol health of the nodes, the subscriptions and their files, the profiles, the groups shown to the
  user and the selected profile, and ask for reloads of the core. Each is a function of the environment and
  the state, with an outcome of \<^typ>\<open>'a flow\<close>: the code awaits saves that are debounced, and a save that is
  superseded by another one never ends.
\<close>

subsection \<open>State and environment\<close>

text \<open>
  Every answer of the outside (a write, the clock, a removal, a reload) is asked for at a step; the step
  counts up with each of them, so the answers may differ. \<open>av_sample\<close> are the identifiers drawn at a step, and
  \<open>av_superseded\<close> tells whether a call from elsewhere supersedes the debounced save requested at a step.
\<close>

datatype saved_list = SubsList | ProfileList

record apply_env =
  av_write :: "nat \<Rightarrow> string option"
  av_superseded :: "saved_list \<Rightarrow> nat \<Rightarrow> bool"
  av_now :: "nat \<Rightarrow> int"
  av_removed :: "nat \<Rightarrow> bool"
  av_reload :: "nat \<Rightarrow> string option"
  av_running :: "nat \<Rightarrow> bool"
  av_cdn :: "string \<Rightarrow> cdn_deployment option"
  av_sample :: "nat \<Rightarrow> nat \<Rightarrow> string"
  av_secret :: string
  av_tr :: "string \<Rightarrow> string"

text \<open>\<open>as_healthDisk\<close> is the content of the health file, when it can be read and parsed; \<open>as_reloads\<close> lists
  the reloads that were asked for, \<open>as_refreshed\<close> counts the refreshes of the proxies.\<close>

record apply_state =
  as_health :: health_map
  as_healthLoaded :: bool
  as_healthDisk :: "health_map option"
  as_subs :: subscribe_store
  as_profiles :: profile_store
  as_selected :: string
  as_files :: "json dict"
  as_groups :: proxy_map
  as_reloads :: "(string \<times> bool) list"
  as_refreshed :: nat
  as_nodes :: "node list \<times> node list"
  as_step :: nat

definition next_step :: "apply_state \<Rightarrow> apply_state" where
  "next_step s = s\<lparr>as_step := Suc (as_step s)\<rparr>"

subsection \<open>Protocol health\<close>

definition load_protocol_health :: "apply_state \<Rightarrow> apply_state" where
  "load_protocol_health s = (if as_healthLoaded s then s
     else s\<lparr>as_healthLoaded := True, as_health := or_else (as_healthDisk s) []\<rparr>)"

definition save_protocol_health :: "apply_env \<Rightarrow> apply_state \<Rightarrow> unit flow \<times> apply_state" where
  "save_protocol_health env s = (case av_write env (as_step s) of
      None \<Rightarrow> (Done (), (next_step s)\<lparr>as_healthDisk := Some (as_health s)\<rparr>)
    | Some e \<Rightarrow> (Throws e, next_step s))"

definition protocol_health_entry :: "health_map \<Rightarrow> string \<Rightarrow> protocol_health" where
  "protocol_health_entry hm i = or_else (map_of hm i) []"

text \<open>The answer is whether anything changed; a failed save leaves the change in memory.\<close>

definition set_protocol_health_entry ::
    "apply_env \<Rightarrow> string \<Rightarrow> protocol \<times> health_state \<times> health_reason \<Rightarrow> apply_state \<Rightarrow> bool flow \<times> apply_state" where
  "set_protocol_health_entry env i change s = (case change of (p, st, reason) \<Rightarrow>
     let s1 = load_protocol_health s; current = protocol_health_entry (as_health s1) i
     in if (case map_of current p of None \<Rightarrow> False | Some e \<Rightarrow> he_state e = st \<and> he_reason e = reason)
        then (Done False, s1)
        else
          let entry = \<lparr>he_state = st, he_reason = reason, he_updatedAt = av_now env (as_step s1)\<rparr>
          in flow_then
               (save_protocol_health env
                 (s1\<lparr>as_health := AList.update i (AList.update p entry current) (as_health s1)\<rparr>))
               (\<lambda>_ s2. (Done True, s2)))"

text \<open>\<open>{ ...source, ...target }\<close>.\<close>

definition spread_over :: "('k \<times> 'v) list \<Rightarrow> ('k \<times> 'v) list \<Rightarrow> ('k \<times> 'v) list" where
  "spread_over target source = fold (\<lambda>(k, v). AList.update k v) target source"

definition migrate_protocol_health_entry ::
    "apply_env \<Rightarrow> string \<Rightarrow> string \<Rightarrow> apply_state \<Rightarrow> bool flow \<times> apply_state" where
  "migrate_protocol_health_entry env from to_id s =
     (if from = '''' \<or> to_id = '''' \<or> from = to_id then (Done False, s)
      else let s1 = load_protocol_health s
        in case map_of (as_health s1) from of
             None \<Rightarrow> (Done False, s1)
           | Some source \<Rightarrow>
               let merged = spread_over (protocol_health_entry (as_health s1) to_id) source
               in flow_then
                    (save_protocol_health env
                      (s1\<lparr>as_health := AList.delete from (AList.update to_id merged (as_health s1))\<rparr>))
                    (\<lambda>_ s2. (Done True, s2)))"

subsection \<open>The filter of a subscription\<close>

definition user_exclude_key :: string where "user_exclude_key = ''x-privatedeploy-user-exclude''"
definition managed_exclude_key :: string where "managed_exclude_key = ''x-privatedeploy-managed-exclude''"

definition preserved_user_exclude :: "subscription \<Rightarrow> string" where
  "preserved_user_exclude sub =
     (if map_of (sb_header_response sub) managed_exclude_key \<noteq> None
      then or_else (map_of (sb_header_response sub) user_exclude_key) ''''
      else sb_exclude sub)"

definition apply_managed_exclude :: "health_map \<Rightarrow> string \<Rightarrow> subscription \<Rightarrow> subscription" where
  "apply_managed_exclude hm i sub =
     (let managed = derive_managed_exclude (Some (protocol_health_entry hm i));
          user = preserved_user_exclude sub
      in sub\<lparr>sb_header_response := AList.update managed_exclude_key managed
               (AList.update user_exclude_key user (sb_header_response sub)),
             sb_exclude := join_regex_alternatives [Some user, Some managed]\<rparr>)"

subsection \<open>Calls of the other stores\<close>

text \<open>The change is made in memory at once. A save that is superseded neither writes nor ends.\<close>

definition unsaved :: "('a, 'b) file_store \<Rightarrow> string option \<times> ('a, 'b) file_store \<Rightarrow> ('a, 'b) file_store" where
  "unsaved old r = (snd r)\<lparr>fs_disk := fs_disk old\<rparr>"

definition with_subs ::
    "(write_outcome \<Rightarrow> subscribe_store \<Rightarrow> string option \<times> subscribe_store) \<Rightarrow> apply_env \<Rightarrow> apply_state
       \<Rightarrow> unit flow \<times> apply_state" where
  "with_subs op env s =
     (if av_superseded env SubsList (as_step s)
      then (Hangs, (next_step s)\<lparr>as_subs := unsaved (as_subs s) (op None (as_subs s))\<rparr>)
      else case op (av_write env (as_step s)) (as_subs s) of
        (err, subs) \<Rightarrow> (flow_of err, (next_step s)\<lparr>as_subs := subs\<rparr>))"

definition with_profiles ::
    "(write_outcome \<Rightarrow> profile_store \<Rightarrow> string option \<times> profile_store) \<Rightarrow> apply_env \<Rightarrow> apply_state
       \<Rightarrow> unit flow \<times> apply_state" where
  "with_profiles op env s =
     (if av_superseded env ProfileList (as_step s)
      then (Hangs, (next_step s)\<lparr>as_profiles := unsaved (as_profiles s) (op None (as_profiles s))\<rparr>)
      else case op (av_write env (as_step s)) (as_profiles s) of
        (err, profs) \<Rightarrow> (flow_of err, (next_step s)\<lparr>as_profiles := profs\<rparr>))"

definition write_subscription_file ::
    "apply_env \<Rightarrow> string \<Rightarrow> json \<Rightarrow> apply_state \<Rightarrow> unit flow \<times> apply_state" where
  "write_subscription_file env path content s = (case av_write env (as_step s) of
      None \<Rightarrow> (Done (), (next_step s)\<lparr>as_files := AList.update path content (as_files s)\<rparr>)
    | Some e \<Rightarrow> (Throws e, next_step s))"

text \<open>\<open>RemoveFile(path).catch(() => undefined)\<close>.\<close>

definition remove_subscription_file :: "apply_env \<Rightarrow> string \<Rightarrow> apply_state \<Rightarrow> apply_state" where
  "remove_subscription_file env path s = (next_step s)\<lparr>as_files :=
     (if av_removed env (as_step s) then AList.delete path (as_files s) else as_files s)\<rparr>"

definition request_reload :: "apply_env \<Rightarrow> string \<Rightarrow> bool \<Rightarrow> apply_state \<Rightarrow> unit flow \<times> apply_state" where
  "request_reload env reason allow s =
     (flow_of (av_reload env (as_step s)), (next_step s)\<lparr>as_reloads := as_reloads s @ [(reason, allow)]\<rparr>)"

text \<open>
  \<open>Promise.all\<close> over \<open>editProfile\<close> calls. All profiles are replaced at once in memory; each call waits for
  the debounced save, and each cancels the save of the one before. The last save writes all of them or
  takes the last replacement back; with more than one call the others stay pending, so the whole either
  throws or never ends.
\<close>

definition put_profile :: "string \<times> profile \<Rightarrow> profile_store \<Rightarrow> profile_store" where
  "put_profile u st = (case find_index (\<lambda>v. pf_id v = fst u) (fs_items st) of
      None \<Rightarrow> st
    | Some k \<Rightarrow> st\<lparr>fs_items := (fs_items st)[k := snd u]\<rparr>)"

definition edit_profiles :: "apply_env \<Rightarrow> (string \<times> profile) list \<Rightarrow> apply_state \<Rightarrow> unit flow \<times> apply_state" where
  "edit_profiles env ups s =
     (if ups = [] then (Done (), s)
      else case with_profiles (\<lambda>w. edit_profile w (fst (last ups)) (snd (last ups))) env
             (s\<lparr>as_profiles := fold put_profile (butlast ups) (as_profiles s)\<rparr>) of
        (Done _, t) \<Rightarrow> (if length ups = 1 then Done () else Hangs, t)
      | r \<Rightarrow> r)"

definition profile_updates :: "(profile \<Rightarrow> profile option) \<Rightarrow> apply_state \<Rightarrow> (string \<times> profile) list" where
  "profile_updates f s = List.map_filter (\<lambda>p. map_option (Pair (pf_id p)) (f p)) (fs_items (as_profiles s))"

definition resynced_profile :: "health_map \<Rightarrow> profile \<Rightarrow> profile option" where
  "resynced_profile hm p = (let q = ensure_smart_auto_routing hm p in if q = p then None else Some q)"

definition sync_managed_cloud_profiles ::
    "apply_env \<Rightarrow> string \<Rightarrow> bool \<Rightarrow> apply_state \<Rightarrow> bool flow \<times> apply_state" where
  "sync_managed_cloud_profiles env reason allow s =
     (let ups = profile_updates (resynced_profile (as_health s)) s
      in if ups = [] then (Done False, s)
         else flow_then (edit_profiles env ups s)
                (\<lambda>_ s1. flow_then (request_reload env reason allow s1) (\<lambda>_ s2. (Done True, s2))))"

subsection \<open>Removing a node\<close>

definition prune_children :: "string \<Rightarrow> outbound \<Rightarrow> outbound" where
  "prune_children i ob = ob\<lparr>ob_outbounds := filter (\<lambda>c. px_id c \<noteq> i) (ob_outbounds ob)\<rparr>"

definition prune_outbounds :: "string \<Rightarrow> outbound list \<Rightarrow> outbound list" where
  "prune_outbounds i obs = filter (\<lambda>ob. ob_id ob \<noteq> i) (map (prune_children i) obs)"

definition prune_changes :: "string \<Rightarrow> outbound list \<Rightarrow> bool" where
  "prune_changes i obs \<longleftrightarrow>
     list_ex (\<lambda>ob. length (ob_outbounds ob) \<noteq> length (ob_outbounds (prune_children i ob))) obs
     \<or> length obs \<noteq> length (prune_outbounds i obs)"

definition pruned_profile :: "health_map \<Rightarrow> string \<Rightarrow> profile \<Rightarrow> profile option" where
  "pruned_profile hm i p =
     (if prune_changes i (pf_outbounds p)
      then Some (ensure_smart_auto_routing hm (p\<lparr>pf_outbounds := prune_outbounds i (pf_outbounds p)\<rparr>))
      else None)"

text \<open>A reload that fails is only logged.\<close>

definition reload_if_running :: "apply_env \<Rightarrow> string \<Rightarrow> apply_state \<Rightarrow> unit flow \<times> apply_state" where
  "reload_if_running env reason s =
     (if av_running env (as_step s) then flow_catch (request_reload env reason False s) () else (Done (), s))"

definition remove_subscription_for_node :: "apply_env \<Rightarrow> string \<Rightarrow> apply_state \<Rightarrow> unit flow \<times> apply_state" where
  "remove_subscription_for_node env instance_id s =
     (let i = subscription_id instance_id
      in flow_then
           (if get_subscribe_by_id (as_subs s) i = None then (Done (), s)
            else with_subs (\<lambda>w. delete_subscribe w i) env s)
           (\<lambda>_ s1.
              let s2 = remove_subscription_file env (subscription_path instance_id) s1;
                  s3 = s2\<lparr>as_groups := remove_proxy_from_groups (as_groups s2) i\<rparr>;
                  ups = profile_updates (pruned_profile (as_health s3) i) s3
              in if ups = [] then (Done (), s3)
                 else flow_then (edit_profiles env ups s3)
                        (\<lambda>_. reload_if_running env ''remove-subscription'')))"

subsection \<open>The subscription of a node\<close>

text \<open>The object is a shallow copy of the stored one, so the header it changes is that of the store.\<close>

definition share_header :: "string \<Rightarrow> string dict \<Rightarrow> apply_state \<Rightarrow> apply_state" where
  "share_header i response s = s\<lparr>as_subs := (as_subs s)
     \<lparr>fs_items := map_first (\<lambda>v. sb_id v = i) (\<lambda>v. v\<lparr>sb_header_response := response\<rparr>) (fs_items (as_subs s))\<rparr>\<rparr>"

definition node_subscription :: "node \<Rightarrow> int \<Rightarrow> subscription" where
  "node_subscription n now = (new_subscription (subscription_id (cn_instanceId n)) (cn_label n) '''')
     \<lparr>sb_updateTime := now, sb_type := SubManual, sb_path := subscription_path (cn_instanceId n)\<rparr>"

definition refreshed_subscription :: "node \<Rightarrow> int \<Rightarrow> subscription \<Rightarrow> subscription" where
  "refreshed_subscription n now sub = sub
     \<lparr>sb_name := cn_label n, sb_type := SubManual, sb_path := subscription_path (cn_instanceId n),
      sb_updateTime := now, sb_script := str_or (sb_script sub) default_subscribe_script,
      sb_requestMethod := str_or (sb_requestMethod sub) ''GET'',
      sb_excludeProtocol := str_or (sb_excludeProtocol sub) default_exclude_protocols\<rparr>"

definition rewrite_after :: int where "rewrite_after = 5 * 60 * 1000"

definition must_write :: "apply_env \<Rightarrow> apply_state \<Rightarrow> subscription option \<Rightarrow> bool" where
  "must_write env s existing = (case existing of
      None \<Rightarrow> True
    | Some sub \<Rightarrow> rewrite_after < av_now env (as_step s) - sb_updateTime sub)"

definition put_node_subscription ::
    "apply_env \<Rightarrow> node \<Rightarrow> subscription option \<Rightarrow> apply_state \<Rightarrow> unit flow \<times> apply_state" where
  "put_node_subscription env n existing s =
     (let now = av_now env (as_step s);
          base = (case existing of None \<Rightarrow> node_subscription n now | Some sub \<Rightarrow> sub);
          sub = apply_managed_exclude (as_health s) (cn_instanceId n) (refreshed_subscription n now base);
          i = subscription_id (cn_instanceId n)
      in case existing of
           None \<Rightarrow> with_subs (\<lambda>w. add_subscribe w sub) env s
         | Some _ \<Rightarrow> with_subs (\<lambda>w. edit_subscribe w i sub) env (share_header i (sb_header_response sub) s))"

definition ensure_subscription_for_node :: "apply_env \<Rightarrow> node \<Rightarrow> apply_state \<Rightarrow> unit flow \<times> apply_state" where
  "ensure_subscription_for_node env n s =
     (let s1 = load_protocol_health s
      in if \<not> has_usable_address n then remove_subscription_for_node env (cn_instanceId n) s1
         else if ip_versions n = [] then remove_subscription_for_node env (cn_instanceId n) s1
         else
           let existing = get_subscribe_by_id (as_subs s1) (subscription_id (cn_instanceId n))
           in flow_then
                (if must_write env s1 existing
                 then write_subscription_file env (subscription_path (cn_instanceId n))
                   (subscription_payload (av_cdn env (cn_instanceId n)) n) s1
                 else (Done (), s1))
                (\<lambda>_. put_node_subscription env n existing))"

subsection \<open>A node gets a new identity\<close>

fun replace_items :: "string \<Rightarrow> string \<Rightarrow> string \<Rightarrow> string list \<Rightarrow> proxy_ref list \<Rightarrow> proxy_ref list \<times> bool" where
  "replace_items old new tag seen [] = ([], False)"
| "replace_items old new tag seen (c # cs) =
     (let hit = px_id c = old;
          c' = (if hit then c\<lparr>px_id := new, px_tag := str_or tag (px_tag c)\<rparr> else c);
          key = px_id c'
      in if key \<noteq> '''' \<and> key \<in> set seen then (fst (replace_items old new tag seen cs), True)
         else case replace_items old new tag (if key = '''' then seen else key # seen) cs of
           (rest, changed) \<Rightarrow> (c' # rest, hit \<or> changed))"

definition replace_in_outbound :: "string \<Rightarrow> string \<Rightarrow> string \<Rightarrow> outbound \<Rightarrow> outbound \<times> bool" where
  "replace_in_outbound old new tag ob =
     (let hit = ob_id ob = old;
          ob' = (if hit then ob\<lparr>ob_id := new, ob_tag := str_or tag (ob_tag ob)\<rparr> else ob)
      in case replace_items old new tag [] (ob_outbounds ob) of
           (items, changed) \<Rightarrow> (ob'\<lparr>ob_outbounds := items\<rparr>, hit \<or> changed))"

definition replaced_profile :: "health_map \<Rightarrow> string \<Rightarrow> string \<Rightarrow> string \<Rightarrow> profile \<Rightarrow> profile option" where
  "replaced_profile hm old new tag p =
     (let res = map (replace_in_outbound old new tag) (pf_outbounds p)
      in if list_ex snd res
         then Some (ensure_smart_auto_routing hm (p\<lparr>pf_outbounds := map fst res\<rparr>)) else None)"

definition replace_subscription_references ::
    "apply_env \<Rightarrow> string \<Rightarrow> string \<Rightarrow> string \<Rightarrow> apply_state \<Rightarrow> bool flow \<times> apply_state" where
  "replace_subscription_references env old new tag s =
     (if old = '''' \<or> new = '''' \<or> old = new then (Done False, s)
      else let ups = profile_updates (replaced_profile (as_health s) old new tag) s
        in flow_then (edit_profiles env ups s) (\<lambda>_ s1. (Done (ups \<noteq> []), s1)))"

definition migrated_subscription :: "health_map \<Rightarrow> node \<Rightarrow> int \<Rightarrow> subscription \<Rightarrow> subscription \<Rightarrow> subscription" where
  "migrated_subscription hm n now old_sub new_sub =
     apply_managed_exclude hm (cn_instanceId n) (old_sub
       \<lparr>sb_id := subscription_id (cn_instanceId n), sb_name := cn_label n,
        sb_path := subscription_path (cn_instanceId n), sb_updateTime := now,
        sb_script := str_or (sb_script new_sub) (str_or (sb_script old_sub) default_subscribe_script),
        sb_proxies := sb_proxies new_sub\<rparr>)"

definition migrate_managed_node_identity :: "apply_env \<Rightarrow> string \<Rightarrow> node \<Rightarrow> apply_state \<Rightarrow> bool flow \<times> apply_state" where
  "migrate_managed_node_identity env from n s =
     (if from = '''' \<or> from = cn_instanceId n then (Done False, s)
      else
        let old = subscription_id from; new = subscription_id (cn_instanceId n);
            old_sub = get_subscribe_by_id (as_subs s) old
        in flow_then (migrate_protocol_health_entry env from (cn_instanceId n) s) (\<lambda>changed0 s1.
           flow_then (ensure_subscription_for_node env n s1) (\<lambda>_ s2.
           let new_sub = get_subscribe_by_id (as_subs s2) new
           in flow_then
                (case (new_sub, old_sub) of
                   (Some nu, Some ol) \<Rightarrow> with_subs (\<lambda>w. edit_subscribe w new
                     (migrated_subscription (as_health s2) n (av_now env (as_step s2)) ol nu)) env s2
                 | _ \<Rightarrow> (Done (), s2)) (\<lambda>_ s3.
              flow_then
                (replace_subscription_references env old new
                  (case new_sub of None \<Rightarrow> cn_label n | Some nu \<Rightarrow> str_or (sb_name nu) (cn_label n)) s3)
                (\<lambda>changed1 s4.
              flow_then
                (if old_sub = None then (Done (), s4) else with_subs (\<lambda>w. delete_subscribe w old) env s4)
                (\<lambda>_ s5.
              let s6 = remove_subscription_file env (subscription_path from) s5
              in (Done (changed0 \<or> changed1 \<or> old_sub \<noteq> None),
                  s6\<lparr>as_groups := remove_proxy_from_groups (as_groups s6) old\<rparr>)))))))"

subsection \<open>Health from a connectivity test\<close>

definition target_open :: "conn_result \<Rightarrow> string \<Rightarrow> bool" where
  "target_open r target = is_reachable_target_status (map_of (or_else (cr_targetStatus r) []) target)"

definition tcp_open :: "conn_result \<Rightarrow> protocol \<Rightarrow> bool" where
  "tcp_open r p = (case p of
      Shadowsocks \<Rightarrow> target_open r ''shadowsocks-tcp''
    | Vless \<Rightarrow> target_open r ''vless-reality''
    | Trojan \<Rightarrow> target_open r ''trojan''
    | Hysteria2 \<Rightarrow> False)"

definition degraded_if :: "bool \<Rightarrow> health_state" where
  "degraded_if b = (if b then Degraded else Healthy)"

definition next_health :: "node \<Rightarrow> conn_result \<Rightarrow> (protocol \<times> health_state \<times> health_reason) list" where
  "next_health n r =
     (if truthy_n (cn_hysteriaPort n)
      then [(Hysteria2, degraded_if (list_ex (tcp_open r) [Shadowsocks, Vless, Trojan]
              \<and> \<not> target_open r ''hysteria2''), UdpUnreachable)] else [])
     @ (if truthy_n (cn_ssPort n)
        then [(Shadowsocks, degraded_if (list_ex (tcp_open r) [Vless, Trojan] \<and> \<not> tcp_open r Shadowsocks),
               TcpUnreachable)] else [])
     @ (if truthy_n (cn_vlessPort n)
        then [(Vless, degraded_if (list_ex (tcp_open r) [Shadowsocks, Trojan] \<and> \<not> tcp_open r Vless),
               TcpUnreachable)] else [])
     @ (if truthy_n (cn_trojanPort n)
        then [(Trojan, degraded_if (list_ex (tcp_open r) [Shadowsocks, Vless] \<and> \<not> tcp_open r Trojan),
               TcpUnreachable)] else [])"

fun set_health_entries ::
    "apply_env \<Rightarrow> string \<Rightarrow> (protocol \<times> health_state \<times> health_reason) list \<Rightarrow> bool \<Rightarrow> apply_state
       \<Rightarrow> bool flow \<times> apply_state" where
  "set_health_entries env i [] changed s = (Done changed, s)"
| "set_health_entries env i (c # cs) changed s =
     flow_then (set_protocol_health_entry env i c s) (\<lambda>b. set_health_entries env i cs (b \<or> changed))"

text \<open>The refresh of the proxies may fail; that is only logged.\<close>

definition apply_protocol_health_to_node :: "apply_env \<Rightarrow> node \<Rightarrow> apply_state \<Rightarrow> unit flow \<times> apply_state" where
  "apply_protocol_health_to_node env n s =
     (let s1 = load_protocol_health s
      in if get_subscribe_by_id (as_subs s1) (subscription_id (cn_instanceId n)) = None then (Done (), s1)
         else flow_then (ensure_subscription_for_node env n s1) (\<lambda>_ s2.
              flow_then (sync_managed_cloud_profiles env ''protocol-health-update'' False s2) (\<lambda>changed s3.
              (Done (), if \<not> changed \<and> av_running env (as_step s3)
                        then (next_step s3)\<lparr>as_refreshed := Suc (as_refreshed s3)\<rparr> else s3))))"

definition update_protocol_health_from_connectivity ::
    "apply_env \<Rightarrow> node \<Rightarrow> conn_result \<Rightarrow> apply_state \<Rightarrow> unit flow \<times> apply_state" where
  "update_protocol_health_from_connectivity env n r s =
     flow_then (set_health_entries env (cn_instanceId n) (next_health n r) False (load_protocol_health s))
       (\<lambda>changed s1. if changed then apply_protocol_health_to_node env n s1 else (Done (), s1))"

subsection \<open>Applying a node to a profile\<close>

definition add_entry :: "proxy_ref \<Rightarrow> outbound \<Rightarrow> outbound" where
  "add_entry entry ob = (if list_ex (\<lambda>c. px_id c = px_id entry) (ob_outbounds ob) then ob
     else ob\<lparr>ob_outbounds := ob_outbounds ob @ [entry]\<rparr>)"

text \<open>Every group of a type gets the entry; without one, a new group is appended.\<close>

definition connect_groups ::
    "outbound_type \<Rightarrow> string \<Rightarrow> string \<Rightarrow> proxy_ref \<Rightarrow> outbound list \<Rightarrow> outbound list" where
  "connect_groups ty new_id tag entry obs =
     (if list_ex (\<lambda>ob. ob_type ob = ty) obs
      then map (\<lambda>ob. if ob_type ob = ty then add_entry entry ob else ob) obs
      else obs @ [(default_outbound new_id)\<lparr>ob_tag := tag, ob_type := ty, ob_outbounds := [entry]\<rparr>])"

definition subscription_entry :: "node \<Rightarrow> subscription \<Rightarrow> proxy_ref" where
  "subscription_entry n sub = \<lparr>px_id = sb_id sub, px_type = ''Subscription'',
     px_tag = str_or (sb_name sub) (cn_label n), px_meta = None\<rparr>"

definition with_node :: "(nat \<Rightarrow> string) \<Rightarrow> health_map \<Rightarrow> proxy_ref \<Rightarrow> profile \<Rightarrow> profile" where
  "with_node ids hm entry p =
     ensure_smart_auto_routing hm (p
       \<lparr>pf_outbounds := connect_groups OutUrltest (ids 1) (px_tag entry @ ''-urltest'') entry
          (connect_groups OutSelector (ids 0) (px_tag entry) entry (pf_outbounds p)),
        pf_route := (pf_route p)\<lparr>rt_final := str_or (rt_final (pf_route p)) id_fallback\<rparr>\<rparr>)"

definition base_profile ::
    "apply_env \<Rightarrow> string \<Rightarrow> node \<Rightarrow> apply_state \<Rightarrow> profile \<times> bool" where
  "base_profile env target n s =
     (let ids = av_sample env (as_step s);
          fresh = (default_profile (ids 0) (cn_label n) (av_secret env) (av_tr env) (\<lambda>k. ids (k + 3)), True)
      in case (if target = '''' then None else get_profile_by_id (as_profiles s) target) of
           None \<Rightarrow> fresh
         | Some p \<Rightarrow> if list_all (\<lambda>ob. ob_type ob \<noteq> OutSelector) (pf_outbounds p) then fresh else (p, False))"

definition apply_node_to_profile :: "apply_env \<Rightarrow> node \<Rightarrow> string \<Rightarrow> apply_state \<Rightarrow> string flow \<times> apply_state" where
  "apply_node_to_profile env n profile_id s =
     flow_then (ensure_subscription_for_node env n s) (\<lambda>_ s1.
       case get_subscribe_by_id (as_subs s1) (subscription_id (cn_instanceId n)) of
         None \<Rightarrow> (Throws (''Subscription for '' @ cn_label n @ '' is missing''), s1)
       | Some sub \<Rightarrow>
           (case base_profile env (str_or profile_id (as_selected s1)) n s1 of (base, created) \<Rightarrow>
              let p = with_node (\<lambda>k. av_sample env (as_step s1) (k + 1)) (as_health s1) (subscription_entry n sub) base
              in flow_then
                   (with_profiles (\<lambda>w. if created then add_profile w p else edit_profile w (pf_id p) p) env s1)
                   (\<lambda>_ s2. (Done (pf_id p), s2\<lparr>as_selected := pf_id p\<rparr>))))"

subsection \<open>Applying all nodes\<close>

definition children_ids :: "profile option \<Rightarrow> string list" where
  "children_ids p = (case p of
      None \<Rightarrow> []
    | Some q \<Rightarrow> filter (\<lambda>i. i \<noteq> '''') (concat (map (\<lambda>ob. map px_id (ob_outbounds ob)) (pf_outbounds q))))"

fun apply_nodes :: "apply_env \<Rightarrow> string list \<Rightarrow> node list \<Rightarrow> apply_state \<Rightarrow> string list flow \<times> apply_state" where
  "apply_nodes env seen [] s = (Done [], s)"
| "apply_nodes env seen (n # ns) s =
     (let i = subscription_id (cn_instanceId n)
      in if i \<in> set seen then apply_nodes env seen ns s
         else case apply_node_to_profile env n '''' s of
           (Hangs, s1) \<Rightarrow> (Hangs, s1)
         | (Throws _, s1) \<Rightarrow> apply_nodes env seen ns s1
         | (Done _, s1) \<Rightarrow>
             flow_then (apply_nodes env (i # seen) ns
                 (s1\<lparr>as_nodes := mark_node_status (cn_instanceId n) NsConnected (as_nodes s1)\<rparr>))
               (\<lambda>applied s2. (Done (cn_instanceId n # applied), s2)))"

text \<open>\<open>loaded\<close> is the outcome of \<open>loadManualNodes\<close>, which with the merge that follows it has put the
  nodes into \<open>as_nodes\<close>.\<close>

definition apply_all_nodes_to_profile ::
    "apply_env \<Rightarrow> unit flow \<Rightarrow> apply_state \<Rightarrow> string list flow \<times> apply_state" where
  "apply_all_nodes_to_profile env loaded s =
     flow_then (loaded, s) (\<lambda>_ s0.
       let seen = children_ids (if as_selected s0 = '''' then None
             else get_profile_by_id (as_profiles s0) (as_selected s0));
           candidates = filter has_usable_address (fst (as_nodes s0))
       in flow_then (apply_nodes env seen candidates s0) (\<lambda>applied s1.
          flow_then (flow_catch (sync_managed_cloud_profiles env ''apply-all-nodes-repair'' False s1) False)
            (\<lambda>repaired s2.
          flow_then
            (if applied \<noteq> [] then
               (if repaired then (Done (), s2) else flow_catch (request_reload env ''apply-all-nodes'' True s2) ())
             else if \<not> repaired \<and> \<not> av_running env (as_step s2) \<and> candidates \<noteq> [] then
               flow_catch (request_reload env ''apply-existing-ready-nodes'' True s2) ()
             else (Done (), s2))
            (\<lambda>_ s3. (Done applied, s3)))))"

end
