(* ===== verification/NodeApply.thy ===== *)
theory NodeApply
  imports NodeSubscriptions
begin

text \<open>
  What the operations of \<open>stores/cloud/subscriptionApply.ts\<close> guarantee: profiles that change together, the
  removal of a node, the file and the filter of a subscription, the health after a connectivity test, and
  the profile a node is applied to.
\<close>

subsection \<open>Where the references of a normalised profile come from\<close>

definition profile_names :: "string \<Rightarrow> profile \<Rightarrow> bool" where
  "profile_names i p \<longleftrightarrow> list_ex (\<lambda>ob. ob_id ob = i \<or> list_ex (\<lambda>c. px_id c = i) (ob_outbounds ob)) (pf_outbounds p)"

definition built_id :: "string \<Rightarrow> bool" where
  "built_id i \<longleftrightarrow> i \<in> set smart_outbound_ids \<or> starts_with i smart_node_prefix"

lemma subscription_id_not_built: "\<not> built_id (subscription_id i)"
proof -
  have e: "\<exists>r. subscription_id i = ''cloud-'' @ r" by (auto simp: subscription_id_def starts_with_iff)
  then show ?thesis
    by (auto simp: built_id_def smart_outbound_ids_def smart_auto_def smart_tcp_primary_def smart_tcp_secondary_def
        smart_udp_auto_def smart_hysteria_auto_def smart_node_prefix_def starts_with_def)
qed

lemma node_smart_id_built [simp]: "built_id (node_smart_outbound_id i)"
  by (simp add: built_id_def node_smart_outbound_id_def)

definition children_from :: "string set \<Rightarrow> outbound \<Rightarrow> bool" where
  "children_from S ob \<longleftrightarrow> (\<forall>c \<in> set (ob_outbounds ob). built_id (px_id c) \<or> px_id c \<in> S)"

lemma children_from_sync:
  "children_from S ob \<Longrightarrow> se_id ` set es \<subseteq> S \<Longrightarrow> children_from S (sync_subscription_entries es ob)"
  "children_from S ob \<Longrightarrow> children_from S (sync_built_in_entries (map node_auto_ref es) ob)"
  by (auto simp: children_from_def sync_subscription_entries_def sync_built_in_entries_def entry_ref_def node_auto_ref_def)

lemma children_from_frame [simp]:
  "children_from S (ob\<lparr>ob_id := i, ob_tag := t, ob_type := ty, ob_interrupt := b\<rparr>) = children_from S ob"
  "children_from S (ob\<lparr>ob_url := u, ob_include := inc, ob_exclude := ex, ob_interval := iv, ob_tolerance := tol\<rparr>)
     = children_from S ob"
  "children_from S (conf_global sync u inc iv' tol ob) = children_from S (sync ob)"
  "children_from S (default_outbound i)"
  by (simp_all add: children_from_def conf_global_def default_outbound_def)

lemma smart_outbounds_children:
  "ob \<in> set (smart_outbounds subs) \<Longrightarrow> children_from (se_id ` set subs) ob"
proof -
  let ?P = "children_from (se_id ` set subs)"
  have node: "\<forall>ob \<in> set obs. ?P ob \<Longrightarrow> \<forall>ob \<in> set (ensure_node_auto e obs). ?P ob" if "e \<in> set subs" for e obs
    unfolding ensure_node_auto_def
    by (rule ensure_outbound_all) (use that in \<open>auto intro!: children_from_sync\<close>)
  have nodes: "set es \<subseteq> set subs \<Longrightarrow> \<forall>ob \<in> set obs. ?P ob \<Longrightarrow> \<forall>ob \<in> set (fold ensure_node_auto es obs). ?P ob" for es obs
  proof (induction es arbitrary: obs)
    case Nil
    then show ?case by simp
  next
    case (Cons e es)
    then have "\<forall>ob \<in> set (ensure_node_auto e obs). ?P ob" by (intro node) simp_all
    with Cons show ?case by simp
  qed
  have grp: "\<forall>ob \<in> set obs. ?P ob \<Longrightarrow>
      \<forall>ob \<in> set (ensure_outbound i tag ty (conf_global (sync_built_in_entries (map node_auto_ref subs)) u inc iv t) obs). ?P ob"
    for i tag ty u inc iv t obs
    by (rule ensure_outbound_all) (auto intro!: children_from_sync)
  have sub: "\<forall>ob \<in> set obs. ?P ob \<Longrightarrow>
      \<forall>ob \<in> set (ensure_outbound i tag ty (conf_global (sync_subscription_entries subs) u inc iv t) obs). ?P ob"
    for i tag ty u inc iv t obs
    by (rule ensure_outbound_all) (auto intro!: children_from_sync)
  have "\<forall>ob \<in> set (smart_outbounds subs). ?P ob"
    unfolding smart_outbounds_def build_managed_outbounds_def Let_def ensure_hysteria_auto_def
      ensure_udp_auto_def ensure_tcp_secondary_def ensure_tcp_primary_def ensure_auto_def
    by (intro sub grp nodes) simp_all
  then show "ob \<in> set (smart_outbounds subs) \<Longrightarrow> ?P ob" by blast
qed

lemma profile_names_clean: "profile_names i (p\<lparr>pf_outbounds := clean_outbounds (pf_outbounds p)\<rparr>) \<Longrightarrow> profile_names i p"
  by (auto simp: profile_names_def clean_outbounds_def clean_children_def list_ex_iff)

lemma ensure_profile_names:
  assumes "profile_names i (ensure_smart_auto_routing hm p)"
  shows "built_id i \<or> profile_names i p"
proof (cases "smart_subs hm p = []")
  case True
  with assms show ?thesis
    using profile_names_clean [of i p] by (simp add: ensure_eq smart_base_parts(4) profile_names_def)
next
  case False
  let ?base = "clean_outbounds (pf_outbounds p)" and ?subs = "smart_subs hm p"
  have obs: "pf_outbounds (ensure_smart_auto_routing hm p) = wire_fallback (?base @ smart_outbounds ?subs)"
    using False by (simp add: ensure_eq add_smart_routing_def smart_base_parts(4) build_eq)
  have base: "profile_names i p" if "ob \<in> set ?base" "ob_id ob = i \<or> (\<exists>c \<in> set (ob_outbounds ob). px_id c = i)" for ob
    using that profile_names_clean [of i p] by (auto simp: profile_names_def list_ex_iff)
  have ids: "outbound_ids (ensure_smart_auto_routing hm p) =
      set smart_outbound_ids \<union> node_outbound_ids ?subs \<union> outbound_ids (smart_base hm p)"
    using False by (simp add: ensure_eq outbound_ids_add_smart)
  have subs: "se_id ` set ?subs = px_id ` set (source_children ?base)"
    using collect_ids [of ?base hm] by (simp add: smart_subs_def)
  from assms obtain ob where ob: "ob \<in> set (pf_outbounds (ensure_smart_auto_routing hm p))"
      "ob_id ob = i \<or> (\<exists>c \<in> set (ob_outbounds ob). px_id c = i)"
    by (auto simp: profile_names_def list_ex_iff)
  from ob(2) show ?thesis
  proof
    assume "ob_id ob = i"
    with ob(1) have "i \<in> outbound_ids (ensure_smart_auto_routing hm p)" by (auto simp: outbound_ids_def)
    then consider "i \<in> set smart_outbound_ids" | "i \<in> node_outbound_ids ?subs" | "i \<in> ob_id ` set ?base"
      unfolding ids by (auto simp: outbound_ids_def smart_base_parts(4))
    then show ?thesis
    proof cases
      case 1
      then show ?thesis by (simp add: built_id_def)
    next
      case 2
      then show ?thesis by (auto simp: node_outbound_ids_def)
    next
      case 3
      then show ?thesis using base by blast
    qed
  next
    assume "\<exists>c \<in> set (ob_outbounds ob). px_id c = i"
    then obtain c where c: "c \<in> set (ob_outbounds ob)" "px_id c = i" by blast
    from wire_fallback_all [OF ob(1) [unfolded obs] c(1)] consider (smart) "px_id c \<in> set smart_outbound_ids"
      | (old) ob' where "ob' \<in> set ?base" "c \<in> set (ob_outbounds ob')"
      | (new) ob' where "ob' \<in> set (smart_outbounds ?subs)" "c \<in> set (ob_outbounds ob')" by auto
    then show ?thesis
    proof cases
      case smart
      with c show ?thesis by (simp add: built_id_def)
    next
      case old
      with c base show ?thesis by blast
    next
      case new
      with smart_outbounds_children [OF new(1)] subs c have "built_id i \<or> i \<in> px_id ` set (source_children ?base)"
        by (auto simp: children_from_def)
      then show ?thesis using base by (auto simp: source_children_def)
    qed
  qed
qed

subsection \<open>Editing several profiles at once\<close>

definition replaced_by :: "(profile \<Rightarrow> profile option) \<Rightarrow> profile \<Rightarrow> profile" where
  "replaced_by f p = or_else (f p) p"

definition keeps_id :: "(profile \<Rightarrow> profile option) \<Rightarrow> bool" where
  "keeps_id f \<longleftrightarrow> (\<forall>p q. f p = Some q \<longrightarrow> pf_id q = pf_id p)"

lemma ensure_keeps_id [simp]: "pf_id (ensure_smart_auto_routing hm p) = pf_id p"
  by (simp add: ensure_eq add_smart_routing_def smart_base_def ensure_link_aggregation_def clean_profile_def)

lemma updates_keep_id [simp]:
  "keeps_id (resynced_profile hm)" "keeps_id (pruned_profile hm i)" "keeps_id (replaced_profile hm old new tag)"
  by (auto simp: keeps_id_def resynced_profile_def pruned_profile_def replaced_profile_def Let_def split: if_splits)

lemma put_profile_items:
  "distinct (map pf_id (fs_items st)) \<Longrightarrow> pf_id (snd u) = fst u \<Longrightarrow>
   fs_items (put_profile u st) = map (\<lambda>v. if pf_id v = fst u then snd u else v) (fs_items st)"
proof -
  have "(case find_index (\<lambda>v. pf_id v = i) xs of None \<Rightarrow> xs | Some k \<Rightarrow> xs[k := q])
      = map (\<lambda>v. if pf_id v = i then q else v) xs" if "distinct (map pf_id xs)" for i q xs
    using that
  proof (induction xs)
    case Nil
    then show ?case by simp
  next
    case (Cons x xs)
    then have "i = pf_id x \<Longrightarrow> pf_id y \<noteq> i" if "y \<in> set xs" for y using that by (auto simp: image_iff)
    with Cons show ?case by (cases "pf_id x = i") (auto intro!: map_idI [symmetric] split: option.splits)
  qed
  from this [of "fs_items st" "snd u" "fst u"] show "distinct (map pf_id (fs_items st)) \<Longrightarrow> pf_id (snd u) = fst u \<Longrightarrow> ?thesis"
    by (cases "find_index (\<lambda>v. pf_id v = fst u) (fs_items st)") (simp_all add: put_profile_def)
qed

lemma fold_put_items:
  "distinct (map pf_id (fs_items st)) \<Longrightarrow> distinct (map fst us) \<Longrightarrow> list_all (\<lambda>u. pf_id (snd u) = fst u) us \<Longrightarrow>
   fs_items (fold put_profile us st) = map (\<lambda>v. or_else (map_of us (pf_id v)) v) (fs_items st)"
proof (induction us arbitrary: st)
  case Nil
  then show ?case by simp
next
  case (Cons u us)
  have items: "fs_items (put_profile u st) = map (\<lambda>v. if pf_id v = fst u then snd u else v) (fs_items st)"
    using Cons.prems by (intro put_profile_items) simp_all
  have ids: "map pf_id (fs_items (put_profile u st)) = map pf_id (fs_items st)"
    using Cons.prems(3) by (simp add: items comp_def if_distrib cong: if_cong)
  have "map_of us (fst u) = None" using Cons.prems(2) by (auto simp: map_of_eq_None_iff)
  have "fs_items (fold put_profile (u # us) st) = map (\<lambda>v. or_else (map_of us (pf_id v)) v) (fs_items (put_profile u st))"
    using Cons.IH [of "put_profile u st"] Cons.prems ids by simp
  also have "\<dots> = map (\<lambda>v. or_else (map_of (u # us) (pf_id v)) v) (fs_items st)"
    unfolding items using \<open>map_of us (fst u) = None\<close> Cons.prems(3) by (cases u) auto
  finally show ?case .
qed

lemma updates_facts:
  assumes "distinct (map pf_id xs)" "keeps_id f"
  defines "us \<equiv> List.map_filter (\<lambda>p. map_option (Pair (pf_id p)) (f p)) xs"
  shows "distinct (map fst us)" "list_all (\<lambda>u. pf_id (snd u) = fst u) us" "set (map fst us) \<subseteq> pf_id ` set xs"
    and "p \<in> set xs \<Longrightarrow> map_of us (pf_id p) = f p"
proof -
  show ids: "set (map fst us) \<subseteq> pf_id ` set xs"
    by (auto simp: us_def map_filter_def)
  show "list_all (\<lambda>u. pf_id (snd u) = fst u) us"
    using assms(2) by (auto simp: us_def map_filter_def list_all_iff keeps_id_def)
  show "distinct (map fst us)"
    using assms(1) unfolding us_def
    by (induction xs) (auto simp: List.map_filter_simps map_filter_def split: option.splits)
  have sub: "set (map fst (List.map_filter (\<lambda>p. map_option (Pair (pf_id p)) (f p)) ys)) \<subseteq> pf_id ` set ys" for ys
    by (auto simp: map_filter_def)
  show "p \<in> set xs \<Longrightarrow> map_of us (pf_id p) = f p"
    using assms(1) unfolding us_def
  proof (induction xs)
    case Nil
    then show ?case by simp
  next
    case (Cons x xs)
    have "map_of (List.map_filter (\<lambda>p. map_option (Pair (pf_id p)) (f p)) xs) (pf_id x) = None"
      using sub [of xs] Cons.prems(2) by (auto simp: map_of_eq_None_iff)
    with Cons show ?case
      by (cases "f x") (auto simp: List.map_filter_simps image_iff)
  qed
qed

lemma edit_profile_put:
  "edit_profile None (fst u) (snd u) st
     = (None, if fst u \<in> pf_id ` set (fs_items st)
              then \<lparr>fs_items = fs_items (put_profile u st), fs_disk = fs_items (put_profile u st)\<rparr> else st)"
proof (cases "find_index (\<lambda>v. pf_id v = fst u) (fs_items st)")
  case None
  then have "fst u \<notin> pf_id ` set (fs_items st)" by (auto simp: find_index_None_iff)
  with None show ?thesis by (simp add: edit_profile_def store_edit_def)
next
  case (Some k)
  from find_index_SomeD [OF Some] have "k < length (fs_items st)" "fst u = pf_id (fs_items st ! k)" by simp_all
  then have "fst u \<in> pf_id ` set (fs_items st)" by simp
  with Some show ?thesis by (simp add: edit_profile_def store_edit_def put_profile_def Let_def)
qed

text \<open>The last of the edits writes them all; what is left open is only how the call ends.\<close>

lemma edit_profiles_written:
  assumes "distinct (map pf_id (fs_items (as_profiles s)))" "keeps_id f"
  defines "us \<equiv> profile_updates f s" and "items \<equiv> map (replaced_by f) (fs_items (as_profiles s))"
  assumes "us \<noteq> []" "av_write env (as_step s) = None" "\<not> av_superseded env ProfileList (as_step s)"
  shows "edit_profiles env us s = (if length us = 1 then Done () else Hangs,
     (next_step s)\<lparr>as_profiles := \<lparr>fs_items = items, fs_disk = items\<rparr>\<rparr>)"
proof -
  let ?xs = "fs_items (as_profiles s)"
  note facts = updates_facts [OF assms(1,2), folded profile_updates_def]
  let ?st = "fold put_profile (butlast us) (as_profiles s)"
  have split: "us = butlast us @ [last us]" using assms(5) by simp
  have good: "distinct (map fst us)" "list_all (\<lambda>u. pf_id (snd u) = fst u) us"
    using facts(1,2) by (simp_all add: us_def)
  have parts: "distinct (map fst (butlast us))" "list_all (\<lambda>u. pf_id (snd u) = fst u) (butlast us)"
      "pf_id (snd (last us)) = fst (last us)"
    using good assms(5) by (simp_all add: map_butlast distinct_butlast list_all_iff in_set_butlastD)
  have all: "fs_items (fold put_profile us (as_profiles s)) = items"
  proof -
    have "map_of us (pf_id p) = f p" if "p \<in> set ?xs" for p using facts(4) [OF that] by (simp add: us_def)
    then show ?thesis unfolding fold_put_items [OF assms(1) good] items_def replaced_by_def by (auto intro: map_cong)
  qed
  have before: "fs_items ?st = map (\<lambda>v. or_else (map_of (butlast us) (pf_id v)) v) ?xs"
    by (rule fold_put_items [OF assms(1) parts(1,2)])
  have ids: "map pf_id (fs_items ?st) = map pf_id ?xs"
    unfolding before map_map using parts(2)
    by (intro map_cong refl) (auto simp: or_else_def list_all_iff split: option.splits dest!: map_of_SomeD)
  have "fs_items (put_profile (last us) ?st) = items"
    using all by (subst (asm) split) simp
  moreover have "fst (last us) \<in> pf_id ` set (fs_items ?st)"
  proof -
    have "fst (last us) \<in> set (map fst us)" using assms(5) by simp
    also have "\<dots> \<subseteq> pf_id ` set ?xs" using facts(3) by (simp add: us_def)
    finally show ?thesis using ids by (metis list.set_map)
  qed
  ultimately have "edit_profile None (fst (last us)) (snd (last us)) ?st = (None, \<lparr>fs_items = items, fs_disk = items\<rparr>)"
    using edit_profile_put [of "last us" ?st] by simp
  then show ?thesis
    using assms(5,6,7) by (simp add: edit_profiles_def with_profiles_def next_step_def)
qed

text \<open>When the write fails, only the last profile is taken back in memory; the file stays as it was.\<close>

lemma put_profile_ids: "pf_id (snd u) = fst u \<Longrightarrow> map pf_id (fs_items (put_profile u st)) = map pf_id (fs_items st)"
  by (auto simp: put_profile_def map_update list_update_same_conv split: option.splits dest: find_index_SomeD)

lemma fold_put_ids:
  "list_all (\<lambda>u. pf_id (snd u) = fst u) us \<Longrightarrow> map pf_id (fs_items (fold put_profile us st)) = map pf_id (fs_items st)"
  by (induction us arbitrary: st) (simp_all add: put_profile_ids)

lemma edit_profiles_failed:
  assumes "keeps_id f" "distinct (map pf_id (fs_items (as_profiles s)))"
  defines "us \<equiv> profile_updates f s"
  assumes "us \<noteq> []" "av_write env (as_step s) = Some e" "\<not> av_superseded env ProfileList (as_step s)"
  shows "edit_profiles env us s
     = (Throws e, (next_step s)\<lparr>as_profiles := fold put_profile (butlast us) (as_profiles s)\<rparr>)"
proof -
  note facts = updates_facts [OF assms(2,1), folded profile_updates_def, folded us_def]
  let ?st = "fold put_profile (butlast us) (as_profiles s)"
  have "fst (last us) \<in> set (map fst us)" using assms(4) by simp
  with facts(3) have "fst (last us) \<in> pf_id ` set (fs_items (as_profiles s))" by blast
  moreover have "map pf_id (fs_items ?st) = map pf_id (fs_items (as_profiles s))"
    using facts(2) by (intro fold_put_ids) (auto simp: list_all_iff in_set_butlastD)
  ultimately have found: "fst (last us) \<in> pf_id ` set (fs_items ?st)" by (metis list.set_map)
  then have "fst (edit_profile (Some e) (fst (last us)) (snd (last us)) ?st) = Some e"
    by (auto simp: edit_profile_def store_edit_def Let_def find_index_None_iff split: option.splits)
  moreover have "snd (edit_profile (Some e) (fst (last us)) (snd (last us)) ?st) = ?st"
    unfolding edit_profile_def by (rule store_edit_laws(2))
  ultimately have "edit_profile (Some e) (fst (last us)) (snd (last us)) ?st = (Some e, ?st)" by (metis prod.collapse)
  then show ?thesis using assms(4,5,6) by (simp add: edit_profiles_def with_profiles_def next_step_def)
qed

lemma profile_updates_empty:
  assumes "profile_updates f s = []"
  shows "map (replaced_by f) (fs_items (as_profiles s)) = fs_items (as_profiles s)"
proof -
  have "List.map_filter (\<lambda>p. map_option (Pair (pf_id p)) (f p)) xs = [] \<Longrightarrow> map (replaced_by f) xs = xs" for xs
    by (induction xs) (auto simp: List.map_filter_simps replaced_by_def split: option.splits)
  with assms show ?thesis by (simp add: profile_updates_def)
qed

subsection \<open>Properties: profiles that change together\<close>

definition stale_profiles :: "apply_state \<Rightarrow> profile list" where
  "stale_profiles s = filter (\<lambda>p. ensure_smart_auto_routing (as_health s) p \<noteq> p) (fs_items (as_profiles s))"

lemma resynced [simp]: "replaced_by (resynced_profile hm) = ensure_smart_auto_routing hm"
  by (rule ext) (simp add: replaced_by_def resynced_profile_def Let_def)

lemma length_resynced: "length (profile_updates (resynced_profile (as_health s)) s) = length (stale_profiles s)"
  by (simp add: profile_updates_def stale_profiles_def map_filter_def resynced_profile_def Let_def)

lemma next_step_fields [simp]:
  "as_reloads (next_step s) = as_reloads s" "as_profiles (next_step s) = as_profiles s" "as_health (next_step s) = as_health s"
  "as_subs (next_step s) = as_subs s" "as_files (next_step s) = as_files s" "as_step (next_step s) = Suc (as_step s)"
  "as_healthLoaded (next_step s) = as_healthLoaded s" "as_groups (next_step s) = as_groups s" "as_selected (next_step s) = as_selected s"
  by (simp_all add: next_step_def)

text \<open>
  C9. Synchronising the managed profiles, with a file that can be written and no other call at work: afterwards every profile is the
  normalised one, in memory and, when anything changed, in the file. But the core is reloaded only when
  exactly one profile changed. When two or more changed, the operation never ends, because each save of a
  profile supersedes the one before and its caller waits for it: no reload is asked for, and neither is
  anything else done that comes after it.
\<close>

theorem sync_ends_only_with_one_change:
  assumes "distinct (map pf_id (fs_items (as_profiles s)))" "av_write env (as_step s) = None"
    and "\<not> av_superseded env ProfileList (as_step s)"
  shows "case sync_managed_cloud_profiles env reason allow s of (out, t) \<Rightarrow>
     fs_items (as_profiles t) = map (ensure_smart_auto_routing (as_health s)) (fs_items (as_profiles s))
     \<and> fs_disk (as_profiles t) = (if stale_profiles s = [] then fs_disk (as_profiles s) else fs_items (as_profiles t))
     \<and> as_reloads t = as_reloads s @ (if length (stale_profiles s) = 1 then [(reason, allow)] else [])
     \<and> (out = Hangs \<longleftrightarrow> 2 \<le> length (stale_profiles s))"
proof -
  let ?us = "profile_updates (resynced_profile (as_health s)) s"
  have len: "length ?us = length (stale_profiles s)" by (rule length_resynced)
  show ?thesis
  proof (cases "?us = []")
    case True
    with len have none: "stale_profiles s = []" by simp
    have "map (ensure_smart_auto_routing (as_health s)) (fs_items (as_profiles s)) = fs_items (as_profiles s)"
      using profile_updates_empty [OF True] by simp
    with True none show ?thesis by (simp add: sync_managed_cloud_profiles_def)
  next
    case False
    note edit = edit_profiles_written [OF assms(1) updates_keep_id(1) False assms(2,3)]
    from False len have some: "stale_profiles s \<noteq> []" by auto
    show ?thesis
    proof (cases "length ?us = 1")
      case True
      with False some edit len show ?thesis
        by (cases "av_reload env (Suc (as_step s))") (simp_all add: sync_managed_cloud_profiles_def request_reload_def)
    next
      case many: False
      with False some edit len have "2 \<le> length (stale_profiles s)" by (cases "stale_profiles s") (auto simp: Suc_le_eq)
      with many False some edit len show ?thesis by (simp add: sync_managed_cloud_profiles_def)
    qed
  qed
qed

text \<open>What a removal does to a profile.\<close>

lemma not_pruned_no_mention: "\<not> prune_changes i (pf_outbounds p) \<Longrightarrow> \<not> profile_names i p"
proof -
  assume n: "\<not> prune_changes i (pf_outbounds p)"
  have len: "length (prune_outbounds i (pf_outbounds p)) = length (pf_outbounds p)"
    using n by (simp add: prune_changes_def)
  have ids: "ob_id ob \<noteq> i" if "ob \<in> set (pf_outbounds p)" for ob
  proof
    assume "ob_id ob = i"
    then have "prune_children i ob \<in> set (map (prune_children i) (pf_outbounds p))" "\<not> ob_id (prune_children i ob) \<noteq> i"
      using that by (simp_all add: prune_children_def)
    from length_filter_less [where P = "\<lambda>ob. ob_id ob \<noteq> i", OF this] len show False by (simp add: prune_outbounds_def)
  qed
  moreover have "px_id c \<noteq> i" if "ob \<in> set (pf_outbounds p)" "c \<in> set (ob_outbounds ob)" for ob c
  proof
    assume "px_id c = i"
    then have "length (filter (\<lambda>c. px_id c \<noteq> i) (ob_outbounds ob)) < length (ob_outbounds ob)"
      using that(2) by (intro length_filter_less) simp_all
    moreover have "length (filter (\<lambda>c. px_id c \<noteq> i) (ob_outbounds ob)) = length (ob_outbounds ob)"
      using n that(1) by (simp add: prune_changes_def prune_children_def list_ex_iff)
    ultimately show False by simp
  qed
  ultimately show ?thesis by (auto simp: profile_names_def list_ex_iff)
qed

lemma pruned_no_mention: "\<not> profile_names (subscription_id i) (replaced_by (pruned_profile hm (subscription_id i)) p)"
proof (cases "prune_changes (subscription_id i) (pf_outbounds p)")
  case False
  then show ?thesis using not_pruned_no_mention by (simp add: replaced_by_def pruned_profile_def)
next
  case True
  have "\<not> profile_names (subscription_id i) (p\<lparr>pf_outbounds := prune_outbounds (subscription_id i) (pf_outbounds p)\<rparr>)"
    by (auto simp: profile_names_def prune_outbounds_def prune_children_def list_ex_iff)
  with True show ?thesis
    using ensure_profile_names subscription_id_not_built by (auto simp: replaced_by_def pruned_profile_def)
qed

lemma reload_if_running_frame [simp]:
  "as_profiles (snd (reload_if_running env r s)) = as_profiles s" "as_subs (snd (reload_if_running env r s)) = as_subs s"
  "as_groups (snd (reload_if_running env r s)) = as_groups s"
  by (simp_all add: reload_if_running_def flow_catch_def request_reload_def flow_of_def split: option.splits)

text \<open>A call of a store that ends: its save was written and nothing came between.\<close>

lemma with_subs_Done:
  "with_subs op env s = (Done (), t) \<longleftrightarrow> \<not> av_superseded env SubsList (as_step s)
     \<and> fst (op (av_write env (as_step s)) (as_subs s)) = None
     \<and> t = (next_step s)\<lparr>as_subs := snd (op (av_write env (as_step s)) (as_subs s))\<rparr>"
  by (auto simp: with_subs_def flow_of_def case_prod_beta split: option.splits)

lemma with_profiles_Done:
  "with_profiles op env s = (Done (), t) \<longleftrightarrow> \<not> av_superseded env ProfileList (as_step s)
     \<and> fst (op (av_write env (as_step s)) (as_profiles s)) = None
     \<and> t = (next_step s)\<lparr>as_profiles := snd (op (av_write env (as_step s)) (as_profiles s))\<rparr>"
  by (auto simp: with_profiles_def flow_of_def case_prod_beta split: option.splits)

lemma deleted_subscription:
  assumes "store_uniq sb_id (as_subs s)"
    and "(if get_subscribe_by_id (as_subs s) i = None then (Done (), s)
          else with_subs (\<lambda>w. delete_subscribe w i) env s) = (Done (), t)"
  shows "get_subscribe_by_id (as_subs t) i = None \<and> as_profiles t = as_profiles s
     \<and> as_groups t = as_groups s \<and> as_health t = as_health s"
proof (cases "get_subscribe_by_id (as_subs s) i = None")
  case True
  with assms(2) show ?thesis by auto
next
  case False
  then have "fst (delete_subscribe (Some e) i (as_subs s)) = Some e" for e
    by (auto simp: get_subscribe_by_id_def store_get_def find_index_None_find delete_subscribe_def store_delete_def
        Let_def split: option.splits)
  then have w: "av_write env (as_step s) = None"
    using False assms(2) by (cases "av_write env (as_step s)") (auto simp: with_subs_Done)
  with False assms(2) have t: "t = (next_step s)\<lparr>as_subs := snd (delete_subscribe None i (as_subs s))\<rparr>"
    by (auto simp: with_subs_Done)
  have "get_subscribe_by_id (snd (delete_subscribe None i (as_subs s))) i = None"
    using assms(1) store_delete_laws(1) [of sb_id "as_subs s" omit_updating i]
    by (simp add: get_subscribe_by_id_def delete_subscribe_def)
  with t show ?thesis by simp
qed

text \<open>
  C10. Removing a node, when it does not throw and no other call comes between its saves, leaves nothing of it behind: its subscription is gone, no
  profile names it any more, neither as an outbound nor as a member of a group (the groups that the smart
  routing rebuilds included), and when a profile had to change, the file has all of them.
\<close>

theorem removal_is_complete:
  assumes "remove_subscription_for_node env i s = (out, t)" "\<And>e. out \<noteq> Throws e" "\<And>l k. \<not> av_superseded env l k"
    and "distinct (map pf_id (fs_items (as_profiles s)))" "store_uniq sb_id (as_subs s)"
  shows "get_subscribe_by_id (as_subs t) (subscription_id i) = None
     \<and> list_all (\<lambda>p. \<not> profile_names (subscription_id i) p) (fs_items (as_profiles t))
     \<and> (as_profiles t = as_profiles s \<or> fs_disk (as_profiles t) = fs_items (as_profiles t))
     \<and> as_groups t = remove_proxy_from_groups (as_groups s) (subscription_id i)"
proof -
  let ?i = "subscription_id i"
  let ?del = "if get_subscribe_by_id (as_subs s) ?i = None then (Done (), s) else with_subs (\<lambda>w. delete_subscribe w ?i) env s"
  obtain o1 s1 where del: "?del = (o1, s1)" by (cases ?del)
  have "o1 = Done ()"
  proof (cases o1)
    case Hangs
    with del assms(3) show ?thesis by (auto simp: with_subs_def flow_of_def split: if_splits prod.splits option.splits)
  qed (use assms(1,2) del in \<open>auto simp: remove_subscription_for_node_def Let_def\<close>)
  with del have del: "?del = (Done (), s1)" by simp
  note gone = deleted_subscription [OF assms(5) del]
  define s2 where "s2 = remove_subscription_file env (subscription_path i) s1"
  define s3 where "s3 = s2\<lparr>as_groups := remove_proxy_from_groups (as_groups s2) ?i\<rparr>"
  have s3: "as_profiles s3 = as_profiles s" "as_subs s3 = as_subs s1" "as_health s3 = as_health s"
      "as_groups s3 = remove_proxy_from_groups (as_groups s) ?i"
    using gone by (simp_all add: s3_def s2_def remove_subscription_file_def)
  let ?f = "pruned_profile (as_health s) ?i"
  let ?us = "profile_updates ?f s3"
  have run: "(if ?us = [] then (Done (), s3)
       else flow_then (edit_profiles env ?us s3) (\<lambda>_. reload_if_running env ''remove-subscription'')) = (out, t)"
    using assms(1) unfolding remove_subscription_for_node_def Let_def del flow_then_simps s2_def [symmetric] s3_def [symmetric]
    by (simp only: s3)
  have clean: "list_all (\<lambda>p. \<not> profile_names ?i p) (map (replaced_by ?f) ps)" for ps
    by (simp add: list_all_iff pruned_no_mention)
  show ?thesis
  proof (cases "?us = []")
    case True
    with run have t: "t = s3" by simp
    have "list_all (\<lambda>p. \<not> profile_names ?i p) (fs_items (as_profiles s3))"
      using profile_updates_empty [OF True] clean by metis
    then show ?thesis using gone by (simp add: t s3)
  next
    case False
    have w: "av_write env (as_step s3) = None"
    proof (cases "av_write env (as_step s3)")
      case (Some e)
      with False run assms(3,4) edit_profiles_failed [of ?f s3 env e] have "out = Throws e" by (simp add: s3)
      with assms(2) show ?thesis by blast
    qed simp
    let ?items = "map (replaced_by ?f) (fs_items (as_profiles s))"
    have "edit_profiles env ?us s3 = (if length ?us = 1 then Done () else Hangs,
        (next_step s3)\<lparr>as_profiles := \<lparr>fs_items = ?items, fs_disk = ?items\<rparr>\<rparr>)"
      using edit_profiles_written [of s3 ?f env] False w assms(3,4) by (simp add: s3)
    then have "as_profiles t = \<lparr>fs_items = ?items, fs_disk = ?items\<rparr>" "as_subs t = as_subs s1"
        "as_groups t = remove_proxy_from_groups (as_groups s) ?i"
      using run False s3 reload_if_running_frame [of env "''remove-subscription''"]
      by (auto split: if_splits dest!: arg_cong [where f = snd])
    then show ?thesis using gone clean by simp
  qed
qed

subsection \<open>Concrete runs\<close>

definition calm_env :: apply_env where
  "calm_env = \<lparr>av_write = (\<lambda>_. None), av_superseded = (\<lambda>_ _. False), av_now = (\<lambda>k. 1000 * int k), av_removed = (\<lambda>_. True), av_reload = (\<lambda>_. None),
     av_running = (\<lambda>_. True), av_cdn = (\<lambda>_. None), av_sample = (\<lambda>k j. ''id''), av_secret = ''s'', av_tr = (\<lambda>t. t)\<rparr>"

definition old_profile :: "string \<Rightarrow> profile" where
  "old_profile i = (let p = default_profile i ''P'' ''s'' (\<lambda>t. t) (\<lambda>_. ''r'')
     in p\<lparr>pf_outbounds := [(default_outbound ''sel'')\<lparr>ob_outbounds := [\<lparr>px_id = ''cloud-n1'', px_type = ''Subscription'',
            px_tag = ''n1'', px_meta = None\<rparr>]\<rparr>],
          pf_route := (pf_route p)\<lparr>rt_auto_detect_interface := True\<rparr>\<rparr>)"

definition apply_start :: "string list \<Rightarrow> apply_state" where
  "apply_start ps = \<lparr>as_health = [], as_healthLoaded = True, as_healthDisk = None,
     as_subs = \<lparr>fs_items = [new_subscription ''cloud-n1'' ''n1'' ''''], fs_disk = []\<rparr>,
     as_profiles = \<lparr>fs_items = map old_profile ps, fs_disk = []\<rparr>, as_selected = ''P'', as_files = [], as_groups = [],
     as_reloads = [], as_refreshed = 0, as_nodes = ([], []), as_step = 0\<rparr>"

lemma ensure_no_auto_detect: "\<not> rt_auto_detect_interface (pf_route (ensure_smart_auto_routing hm p))"
  by (simp add: ensure_eq add_smart_routing_def smart_base_def)

lemma old_profile_stale: "ensure_smart_auto_routing hm (old_profile i) \<noteq> old_profile i"
  using ensure_no_auto_detect [of hm "old_profile i"] by (auto simp: old_profile_def Let_def)

lemma old_profile_id [simp]: "pf_id (old_profile i) = i"
  by (simp add: old_profile_def Let_def default_profile_def)

lemma sync_ends_only_with_one_change_witness:
  "fst (sync_managed_cloud_profiles calm_env ''r'' False (apply_start [''A'', ''B''])) = Hangs
   \<and> as_reloads (snd (sync_managed_cloud_profiles calm_env ''r'' False (apply_start [''A'', ''B'']))) = []"
proof -
  have "stale_profiles (apply_start [''A'', ''B'']) = [old_profile ''A'', old_profile ''B'']"
    by (simp add: stale_profiles_def apply_start_def old_profile_stale)
  then show ?thesis
    using sync_ends_only_with_one_change [of "apply_start [''A'', ''B'']" calm_env "''r''" False]
    by (simp add: calm_env_def apply_start_def case_prod_beta)
qed

lemma removal_is_complete_witness:
  "as_reloads (snd (remove_subscription_for_node calm_env ''n1'' (apply_start [''A'']))) = [(''remove-subscription'', False)]
   \<and> profile_names (subscription_id ''n1'') (old_profile ''A'')
   \<and> list_all (\<lambda>p. \<not> profile_names (subscription_id ''n1'') p)
       (fs_items (as_profiles (snd (remove_subscription_for_node calm_env ''n1'' (apply_start [''A''])))))"
proof -
  let ?r = "remove_subscription_for_node calm_env ''n1'' (apply_start [''A''])"
  have run: "fst ?r = Done ()" "as_reloads (snd ?r) = [(''remove-subscription'', False)]"
      "profile_names (subscription_id ''n1'') (old_profile ''A'')"
    by code_simp+
  have "?r = (Done (), snd ?r)" using run(1) by (metis prod.collapse)
  from removal_is_complete [OF this] run(2,3) show ?thesis
    by (simp add: apply_start_def store_uniq_def calm_env_def)
qed

subsection \<open>Properties: the file and the filter of a subscription\<close>

lemma usable_has_version: "has_usable_address n \<Longrightarrow> ip_versions n \<noteq> []"
proof -
  have "\<not> is_public_ipv4 None" "\<not> is_public_ipv4 (Some '''')" by (simp_all add: is_public_ipv4_def)
  then show "has_usable_address n \<Longrightarrow> ip_versions n \<noteq> []"
    by (cases "cn_ipv4 n"; cases "cn_ipv6 n") (auto simp: has_usable_address_def ip_versions_def truthy_s_def)
qed

lemma load_fields [simp]:
  "as_subs (load_protocol_health s) = as_subs s" "as_files (load_protocol_health s) = as_files s"
  "as_step (load_protocol_health s) = as_step s" "as_profiles (load_protocol_health s) = as_profiles s"
  by (simp_all add: load_protocol_health_def)

lemma renewed_fields [simp]:
  "sb_id (apply_managed_exclude hm i (refreshed_subscription n now sub)) = sb_id sub"
  "sb_name (apply_managed_exclude hm i (refreshed_subscription n now sub)) = cn_label n"
  "sb_updateTime (apply_managed_exclude hm i (refreshed_subscription n now sub)) = now"
  by (simp_all add: apply_managed_exclude_def refreshed_subscription_def Let_def)

lemma share_header_get:
  "get_subscribe_by_id (as_subs s) i = Some sub \<Longrightarrow>
   get_subscribe_by_id (as_subs (share_header i h s)) i = Some (sub\<lparr>sb_header_response := h\<rparr>)"
  "as_step (share_header i h s) = as_step s" "as_files (share_header i h s) = as_files s"
proof -
  have "List.find (\<lambda>v. sb_id v = i) xs = Some sub \<Longrightarrow>
      List.find (\<lambda>v. sb_id v = i) (map_first (\<lambda>v. sb_id v = i) (\<lambda>v. v\<lparr>sb_header_response := h\<rparr>) xs)
        = Some (sub\<lparr>sb_header_response := h\<rparr>)" for xs
    by (induction xs) (auto split: if_splits)
  then show "get_subscribe_by_id (as_subs s) i = Some sub \<Longrightarrow>
      get_subscribe_by_id (as_subs (share_header i h s)) i = Some (sub\<lparr>sb_header_response := h\<rparr>)"
    by (simp add: get_subscribe_by_id_def store_get_def share_header_def)
qed (simp_all add: share_header_def)

lemma ensure_known_node:
  assumes "has_usable_address n" "cn_instanceId n = i" "get_subscribe_by_id (as_subs s) (subscription_id i) = Some sub"
    and "av_now env (as_step s) - sb_updateTime sub \<le> rewrite_after"
    and "ensure_subscription_for_node env n s = (out, t)"
  shows "as_files t = as_files s" "as_step t = Suc (as_step s)"
    and "out = Done () \<Longrightarrow> \<exists>sub'. get_subscribe_by_id (as_subs t) (subscription_id i) = Some sub'
       \<and> sb_name sub' = cn_label n \<and> sb_updateTime sub' = av_now env (as_step s)"
proof -
  let ?s1 = "load_protocol_health s" and ?i = "subscription_id i"
  let ?new = "apply_managed_exclude (as_health ?s1) i (refreshed_subscription n (av_now env (as_step s)) sub)"
  let ?s2 = "share_header ?i (sb_header_response ?new) ?s1"
  have id: "sb_id sub = ?i" using assms(3) by (auto simp: get_subscribe_by_id_def store_get_def dest: find_SomeD)
  have run: "with_subs (\<lambda>w. edit_subscribe w ?i ?new) env ?s2 = (out, t)"
    using assms usable_has_version [OF assms(1)]
    by (simp add: ensure_subscription_for_node_def Let_def must_write_def put_node_subscription_def)
  then show "as_files t = as_files s" "as_step t = Suc (as_step s)"
    by (auto simp: with_subs_def share_header_get split: prod.splits if_splits)
  assume "out = Done ()"
  have found: "get_subscribe_by_id (as_subs ?s2) ?i \<noteq> None" using share_header_get(1) [of ?s1 ?i sub] assms(3) by simp
  have w: "av_write env (as_step ?s2) = None"
  proof (cases "av_write env (as_step ?s2)")
    case (Some e)
    have "fst (edit_subscribe (Some e) ?i ?new (as_subs ?s2)) = Some e"
      using found by (auto simp: edit_subscribe_def store_edit_def get_subscribe_by_id_def store_get_def
          find_index_None_find Let_def split: option.splits)
    with run Some \<open>out = Done ()\<close> show ?thesis by (simp add: with_subs_Done)
  qed simp
  with run \<open>out = Done ()\<close> have t: "as_subs t = snd (edit_subscribe None ?i ?new (as_subs ?s2))"
    by (simp add: with_subs_Done)
  have "get_subscribe_by_id (as_subs t) ?i = Some ?new"
    using store_edit_laws(1) [of sb_id ?new ?i omit_updating "as_subs ?s2"] found id
    by (simp add: t edit_subscribe_def get_subscribe_by_id_def)
  then show "\<exists>sub'. get_subscribe_by_id (as_subs t) ?i = Some sub' \<and> sb_name sub' = cn_label n
       \<and> sb_updateTime sub' = av_now env (as_step s)" by simp
qed

text \<open>
  The file of a subscription can stay behind for ever: as long as a node is applied again at most five
  minutes after the last time, its proxies are never written, however often the node is applied and
  however its addresses, ports or passwords have changed in between, while the subscription takes the
  new name and says that it has just been updated.
\<close>

theorem renewed_subscription_keeps_old_file:
  assumes "list_all (\<lambda>n. cn_instanceId n = i \<and> has_usable_address n) ns"
    and "\<And>k. av_now env (Suc k) - av_now env k \<le> rewrite_after"
    and "get_subscribe_by_id (as_subs s) (subscription_id i) = Some sub"
    and "av_now env (as_step s) - sb_updateTime sub \<le> rewrite_after"
    and "flow_for (ensure_subscription_for_node env) ns s = (out, t)"
  shows "as_files t = as_files s
    \<and> (out = Done () \<longrightarrow> map_option sb_name (get_subscribe_by_id (as_subs t) (subscription_id i))
         = Some (last (sb_name sub # map cn_label ns)))"
  using assms(1,3-5)
proof (induction ns arbitrary: s sub)
  case Nil
  then show ?case by auto
next
  case (Cons n ns)
  obtain o1 s1 where step: "ensure_subscription_for_node env n s = (o1, s1)" by (cases "ensure_subscription_for_node env n s")
  have n: "has_usable_address n" "cn_instanceId n = i" using Cons.prems(1) by simp_all
  note known = ensure_known_node [OF n Cons.prems(2,3) step]
  show ?case
  proof (cases "o1 = Done ()")
    case False
    with Cons.prems(4) step known(1) show ?thesis by (cases o1) auto
  next
    case True
    from known(3) [OF True] obtain sub' where sub': "get_subscribe_by_id (as_subs s1) (subscription_id i) = Some sub'"
        "sb_name sub' = cn_label n" "sb_updateTime sub' = av_now env (as_step s)" by blast
    have "av_now env (as_step s1) - sb_updateTime sub' \<le> rewrite_after" using assms(2) known(2) sub'(3) by simp
    moreover have "flow_for (ensure_subscription_for_node env) ns s1 = (out, t)"
      using Cons.prems(4) step True by simp
    ultimately show ?thesis using Cons.IH [OF _ sub'(1)] Cons.prems(1) known(1) sub'(2) by auto
  qed
qed

text \<open>
  The exclusion filter of a subscription: applying the managed filter twice is applying it once, and
  from the first time on the user's part is taken from the header of the subscription. What the user
  enters as the filter afterwards, \<open>x\<close>, is overwritten without a trace.
\<close>

theorem user_filter_is_fixed_by_the_first_run:
  "apply_managed_exclude hm i (apply_managed_exclude hm i sub) = apply_managed_exclude hm i sub
   \<and> apply_managed_exclude hm' i ((apply_managed_exclude hm i sub)\<lparr>sb_exclude := x\<rparr>)
     = apply_managed_exclude hm' i (apply_managed_exclude hm i sub)"
proof -
  have keys: "managed_exclude_key \<noteq> user_exclude_key" by (simp add: managed_exclude_key_def user_exclude_key_def)
  have user: "preserved_user_exclude ((apply_managed_exclude hm i sub)\<lparr>sb_exclude := y\<rparr>) = preserved_user_exclude sub" for y
    using keys by (simp add: preserved_user_exclude_def [of "_\<lparr>sb_exclude := y\<rparr>"] apply_managed_exclude_def Let_def update_conv')
  have same: "apply_managed_exclude hm i sub = (apply_managed_exclude hm i sub)\<lparr>sb_exclude := sb_exclude (apply_managed_exclude hm i sub)\<rparr>"
    by simp
  have upd: "AList.update k v d = d" if "map_of d k = Some v" for k v and d :: "string dict"
    using that by (rule update_same)
  have "apply_managed_exclude hm i (apply_managed_exclude hm i sub) = apply_managed_exclude hm i sub"
    using user [of "sb_exclude (apply_managed_exclude hm i sub)"] keys
    by (simp add: apply_managed_exclude_def Let_def upd update_conv')
  moreover have "apply_managed_exclude hm' i ((apply_managed_exclude hm i sub)\<lparr>sb_exclude := x\<rparr>)
     = apply_managed_exclude hm' i (apply_managed_exclude hm i sub)"
    using user [of x] user [of "sb_exclude (apply_managed_exclude hm i sub)"] same
    by (simp add: apply_managed_exclude_def [of hm'] Let_def apply_managed_exclude_def [of hm])
  ultimately show ?thesis by blast
qed

definition moved_node :: "string \<Rightarrow> string \<Rightarrow> node" where
  "moved_node label ip = sample_node\<lparr>cn_instanceId := ''n1'', cn_label := label, cn_ipv4 := Some ip\<rparr>"

lemma renewed_subscription_keeps_old_file_witness:
  "as_files (snd (flow_for (ensure_subscription_for_node calm_env) [moved_node ''a'' ''1.2.3.4'', moved_node ''b'' ''5.6.7.8'']
      (apply_start []))) = []
   \<and> map_option sb_name (get_subscribe_by_id (as_subs (snd (flow_for (ensure_subscription_for_node calm_env)
      [moved_node ''a'' ''1.2.3.4'', moved_node ''b'' ''5.6.7.8''] (apply_start [])))) (subscription_id ''n1'')) = Some ''b''"
proof -
  let ?ns = "[moved_node ''a'' ''1.2.3.4'', moved_node ''b'' ''5.6.7.8'']"
  let ?r = "flow_for (ensure_subscription_for_node calm_env) ?ns (apply_start [])"
  have "list_all (\<lambda>n. cn_instanceId n = ''n1'' \<and> has_usable_address n) ?ns" by code_simp
  moreover have "get_subscribe_by_id (as_subs (apply_start [])) (subscription_id ''n1'') = Some (new_subscription ''cloud-n1'' ''n1'' '''')"
    by code_simp
  moreover have "fst ?r = Done ()" by code_simp
  then have "?r = (Done (), snd ?r)" by (metis prod.collapse)
  ultimately show ?thesis
    using renewed_subscription_keeps_old_file [of "''n1''" ?ns calm_env "apply_start []" "new_subscription ''cloud-n1'' ''n1'' ''''"]
    by (simp add: calm_env_def apply_start_def new_subscription_def rewrite_after_def moved_node_def)
qed

subsection \<open>Properties: health from a connectivity test\<close>

text \<open>
  A predicate that looks only at the health and the nodes is kept by everything that comes after the health is
  recorded: the calls of the other stores, the removal, the subscription and the synchronisation.
\<close>

definition stable :: "(apply_state \<Rightarrow> bool) \<Rightarrow> bool" where
  "stable P \<longleftrightarrow> (\<forall>s. P s \<longrightarrow> P (load_protocol_health s) \<and>
     (\<forall>subs profs files groups reloads refreshed sel k.
        P (s\<lparr>as_subs := subs, as_profiles := profs, as_files := files, as_groups := groups, as_reloads := reloads,
             as_refreshed := refreshed, as_selected := sel, as_step := k\<rparr>)))"

lemma stable_updates:
  assumes "stable P" "P t"
  shows "P (next_step t)" "P (t\<lparr>as_subs := x1\<rparr>)" "P (t\<lparr>as_profiles := x2\<rparr>)" "P (t\<lparr>as_files := x3\<rparr>)"
    "P (t\<lparr>as_groups := x4\<rparr>)" "P (t\<lparr>as_reloads := x5\<rparr>)" "P (t\<lparr>as_refreshed := x6\<rparr>)" "P (t\<lparr>as_selected := x7\<rparr>)"
    "P (load_protocol_health t)" "P (share_header i h t)"
proof -
  have u: "P (t\<lparr>as_subs := subs, as_profiles := profs, as_files := files, as_groups := groups, as_reloads := reloads,
      as_refreshed := refreshed, as_selected := sel, as_step := k\<rparr>)" for subs profs files groups reloads refreshed sel k
    using assms by (simp add: stable_def)
  have subs: "P (t\<lparr>as_subs := x\<rparr>)" for x
    using u [of "as_step t" "as_selected t" "as_refreshed t" "as_reloads t" "as_groups t" "as_files t" "as_profiles t" x] by simp
  then show "P (t\<lparr>as_subs := x1\<rparr>)" "P (share_header i h t)" by (simp_all add: share_header_def)
  show "P (t\<lparr>as_profiles := x2\<rparr>)"
    using u [of "as_step t" "as_selected t" "as_refreshed t" "as_reloads t" "as_groups t" "as_files t" x2 "as_subs t"] by simp
  show "P (t\<lparr>as_files := x3\<rparr>)"
    using u [of "as_step t" "as_selected t" "as_refreshed t" "as_reloads t" "as_groups t" x3 "as_profiles t" "as_subs t"] by simp
  show "P (t\<lparr>as_groups := x4\<rparr>)"
    using u [of "as_step t" "as_selected t" "as_refreshed t" "as_reloads t" x4 "as_files t" "as_profiles t" "as_subs t"] by simp
  show "P (t\<lparr>as_reloads := x5\<rparr>)"
    using u [of "as_step t" "as_selected t" "as_refreshed t" x5 "as_groups t" "as_files t" "as_profiles t" "as_subs t"] by simp
  show "P (t\<lparr>as_refreshed := x6\<rparr>)"
    using u [of "as_step t" "as_selected t" x6 "as_reloads t" "as_groups t" "as_files t" "as_profiles t" "as_subs t"] by simp
  show "P (t\<lparr>as_selected := x7\<rparr>)"
    using u [of "as_step t" x7 "as_refreshed t" "as_reloads t" "as_groups t" "as_files t" "as_profiles t" "as_subs t"] by simp
  show "P (next_step t)"
    using u [of "Suc (as_step t)" "as_selected t" "as_refreshed t" "as_reloads t" "as_groups t" "as_files t" "as_profiles t"
      "as_subs t"] by (simp add: next_step_def)
  show "P (load_protocol_health t)" using assms by (simp add: stable_def)
qed

lemma stable_calls:
  assumes "stable P" "P t"
  shows "P (snd (with_subs op env t))" "P (snd (with_profiles op' env t))"
    "P (snd (write_subscription_file env path c t))" "P (remove_subscription_file env path t)"
    "P (snd (request_reload env reason allow t))" "P (snd (reload_if_running env reason t))"
    "P (snd (edit_profiles env us t))"
proof -
  note up = stable_updates [OF assms(1)]
  show "P (snd (with_subs op env t))" and "P (snd (with_profiles op' env t))"
    using assms(2) by (auto simp: with_subs_def with_profiles_def case_prod_beta intro!: up)
  show "P (snd (write_subscription_file env path c t))" "P (remove_subscription_file env path t)"
    and reload: "P (snd (request_reload env reason allow t))"
    using assms(2) by (auto simp: write_subscription_file_def remove_subscription_file_def request_reload_def
        intro!: up split: option.splits)
  show "P (snd (reload_if_running env reason t))"
    using assms(2) by (auto simp: reload_if_running_def flow_catch_def request_reload_def flow_of_def intro!: up
        split: option.splits)
  show "P (snd (edit_profiles env us t))"
    using assms(2) by (auto simp: edit_profiles_def with_profiles_def case_prod_beta intro!: up split: flow.splits)
qed

lemma stable_remove:
  assumes "stable P" "P t"
  shows "P (snd (remove_subscription_for_node env i t))"
  using assms(2) unfolding remove_subscription_for_node_def Let_def
  by (auto intro!: flow_then_inv [of P] stable_calls [OF assms(1)] stable_updates [OF assms(1)])

lemma stable_ensure:
  assumes "stable P" "P t"
  shows "P (snd (ensure_subscription_for_node env n t))"
  using assms(2) unfolding ensure_subscription_for_node_def put_node_subscription_def Let_def
  by (auto intro!: flow_then_inv [of P] stable_calls [OF assms(1)] stable_remove [OF assms(1)] stable_updates [OF assms(1)] split: option.splits)

lemma stable_sync:
  assumes "stable P" "P t"
  shows "P (snd (sync_managed_cloud_profiles env r a t))"
  using assms(2) unfolding sync_managed_cloud_profiles_def Let_def
  by (auto intro!: flow_then_inv [of P] stable_calls [OF assms(1)])

lemma stable_apply_health:
  assumes "stable P" "P t"
  shows "P (snd (apply_protocol_health_to_node env n t))"
  using assms(2) unfolding apply_protocol_health_to_node_def Let_def
  by (auto intro!: flow_then_inv [of P] stable_ensure [OF assms(1)] stable_sync [OF assms(1)] stable_updates [OF assms(1)])

lemma stable_apply_node:
  assumes "stable P" "P t"
  shows "P (snd (apply_node_to_profile env n target t))"
  using assms(2) unfolding apply_node_to_profile_def Let_def
  by (auto intro!: flow_then_inv [of P] stable_ensure [OF assms(1)] stable_calls [OF assms(1)] stable_updates [OF assms(1)] split: option.splits prod.splits)

lemma stable_health: "as_healthLoaded s \<Longrightarrow> stable (\<lambda>t. as_healthLoaded t \<and> as_health t = as_health s)"
  by (simp add: stable_def load_protocol_health_def)

lemma stable_nodes: "stable (\<lambda>t. as_nodes t = x)"
  by (simp add: stable_def load_protocol_health_def)

definition recorded :: "string \<Rightarrow> apply_state \<Rightarrow> protocol \<Rightarrow> (health_state \<times> health_reason) option" where
  "recorded i s p = map_option (\<lambda>e. (he_state e, he_reason e)) (map_of (protocol_health_entry (as_health s) i) p)"

lemma set_entry_records:
  assumes "set_protocol_health_entry env i (p, st, why) s = (Done b, t)" "as_healthLoaded s"
  shows "recorded i t = (recorded i s)(p \<mapsto> (st, why)) \<and> as_healthLoaded t"
proof -
  from assms(2) have load: "load_protocol_health s = s" by (simp add: load_protocol_health_def)
  show ?thesis
    using assms
    by (auto simp: set_protocol_health_entry_def load Let_def save_protocol_health_def recorded_def fun_eq_iff next_step_def
        protocol_health_entry_def update_conv' split: option.splits if_splits)
qed

lemma set_entries_record:
  "set_health_entries env i cs b s = (Done b', t) \<Longrightarrow> as_healthLoaded s \<Longrightarrow> distinct (map fst cs) \<Longrightarrow>
   as_healthLoaded t \<and> (\<forall>p. recorded i t p = (case map_of cs p of None \<Rightarrow> recorded i s p | Some v \<Rightarrow> Some v))"
proof (induction cs arbitrary: b s)
  case Nil
  then show ?case by simp
next
  case (Cons c cs)
  obtain p st why where c: "c = (p, st, why)" by (cases c)
  from Cons.prems(1) obtain b1 s1 where s1: "set_protocol_health_entry env i c s = (Done b1, s1)"
      "set_health_entries env i cs (b1 \<or> b) s1 = (Done b', t)"
    by (auto simp: flow_then_Done)
  note rec = set_entry_records [OF s1(1) [unfolded c] Cons.prems(2)]
  have "map_of cs p = None" using Cons.prems(3) by (auto simp: c map_of_eq_None_iff)
  with Cons.IH [OF s1(2)] rec Cons.prems(3) show ?case by (auto simp: c split: option.splits)
qed

lemma next_health_keys: "distinct (map fst (next_health n r))"
  by (simp add: next_health_def)


definition tested_node :: node where
  "tested_node = sample_node\<lparr>cn_ssPort := Some 8388\<rparr>"

definition half_open :: conn_result where
  "half_open = \<lparr>cr_status = CsReachable, cr_targetStatus = Some [(''trojan'', ''open''), (''shadowsocks-tcp'', ''closed'')],
     cr_portsOpen = None\<rparr>"


subsection \<open>Properties: applying a node\<close>

lemma ensure_keeps_profiles:
  assumes "has_usable_address n"
  shows "as_profiles (snd (ensure_subscription_for_node env n s)) = as_profiles s
    \<and> as_selected (snd (ensure_subscription_for_node env n s)) = as_selected s"
proof -
  let ?P = "\<lambda>t. as_profiles t = as_profiles s \<and> as_selected t = as_selected s"
  have subs: "?P t \<Longrightarrow> ?P (snd (with_subs op env t))" for op t
    by (simp add: with_subs_def case_prod_beta)
  have put_file: "?P t \<Longrightarrow> ?P (snd (write_subscription_file env path c t))" for path c t
    by (simp add: write_subscription_file_def split: option.splits)
  have load: "?P (load_protocol_health s)" by (simp add: load_protocol_health_def)
  have put: "?P t \<Longrightarrow> ?P (snd (put_node_subscription env n existing t))" for existing t
    by (cases existing) (simp_all add: put_node_subscription_def Let_def subs share_header_def)
  let ?old = "get_subscribe_by_id (as_subs s) (subscription_id (cn_instanceId n))"
  have "?P (snd (flow_then (if must_write env (load_protocol_health s) ?old
      then write_subscription_file env (subscription_path (cn_instanceId n))
        (subscription_payload (av_cdn env (cn_instanceId n)) n) (load_protocol_health s)
      else (Done (), load_protocol_health s)) (\<lambda>_. put_node_subscription env n ?old)))"
    by (rule flow_then_inv [where P = ?P]) (simp_all add: load put_file put)
  then show ?thesis using assms usable_has_version [OF assms] by (simp add: ensure_subscription_for_node_def Let_def)
qed

definition joined :: "string \<Rightarrow> outbound \<Rightarrow> bool" where
  "joined i ob \<longleftrightarrow> (ob_type ob = OutSelector \<longrightarrow> list_ex (\<lambda>c. px_id c = i) (ob_outbounds ob))
     \<and> (ob_type ob = OutUrltest \<longrightarrow> list_ex (\<lambda>c. px_id c = i) (ob_outbounds ob))"

lemma connect_groups_joins:
  "list_all (joined (px_id e)) (connect_groups OutUrltest i t e (connect_groups OutSelector i' t' e obs))"
proof -
  have add: "list_ex (\<lambda>c. px_id c = px_id e) (ob_outbounds (add_entry e ob))" "ob_type (add_entry e ob) = ob_type ob" for ob
    by (simp_all add: add_entry_def)
  have sel: "list_all (\<lambda>ob. ob_type ob = OutSelector \<longrightarrow> list_ex (\<lambda>c. px_id c = px_id e) (ob_outbounds ob))
      (connect_groups OutSelector i' t' e obs)"
    by (auto simp: connect_groups_def list_all_iff add list_ex_iff [of "\<lambda>ob. ob_type ob = _"])
  then show ?thesis
    by (auto simp: connect_groups_def [of OutUrltest] joined_def list_all_iff add list_ex_iff [of "\<lambda>ob. ob_type ob = _"]
        split: if_splits)
qed

lemma joined_clean:
  "\<not> is_managed_outbound_id i \<Longrightarrow> joined i (clean_children ob) = joined i ob"
  by (auto simp: joined_def clean_children_def list_ex_iff)

lemma with_node_joins:
  assumes "\<not> is_managed_outbound_id (px_id e)"
  shows "list_all (joined (px_id e)) (filter (\<lambda>ob. \<not> is_managed_outbound_id (ob_id ob)) (pf_outbounds (with_node ids hm e p)))"
proof -
  let ?obs = "connect_groups OutUrltest (ids 1) (px_tag e @ ''-urltest'') e
    (connect_groups OutSelector (ids 0) (px_tag e) e (pf_outbounds p))"
  have "clean_outbounds (pf_outbounds (with_node ids hm e p)) = clean_outbounds ?obs"
    by (simp add: with_node_def clean_ensure(1))
  moreover have "list_all (joined (px_id e)) (clean_outbounds ?obs)"
    using connect_groups_joins [of e "ids 1" "px_tag e @ ''-urltest''" "ids 0" "px_tag e" "pf_outbounds p"] assms
    by (auto simp: clean_outbounds_def list_all_iff joined_clean)
  ultimately have "list_all (joined (px_id e)) (map clean_children
      (filter (\<lambda>ob. \<not> is_managed_outbound_id (ob_id ob)) (pf_outbounds (with_node ids hm e p))))"
    by (simp add: clean_outbounds_def)
  then show ?thesis using assms by (simp add: list_all_iff joined_clean)
qed

lemma with_node_id [simp]: "pf_id (with_node ids hm e p) = pf_id p"
  by (simp add: with_node_def)

text \<open>
  C15. Applying a node that has a usable address, when it is through: the profile it was put into is stored,
  saved and selected, and every group of the user in it (selector or urltest) has the subscription of the
  node as a member. This needs the identifiers drawn for a new profile to be unused and an instance id
  that is not the name of one of the legacy groups.
\<close>

theorem applied_node_joins_every_group:
  assumes "apply_node_to_profile env n target s = (Done i, t)" "has_usable_address n"
    and "\<not> is_managed_outbound_id (subscription_id (cn_instanceId n))"
    and "\<And>k j. get_profile_by_id (as_profiles s) (av_sample env k j) = None"
  shows "as_selected t = i \<and> fs_disk (as_profiles t) = fs_items (as_profiles t)
    \<and> (\<exists>p. get_profile_by_id (as_profiles t) i = Some p
        \<and> list_all (joined (subscription_id (cn_instanceId n)))
             (filter (\<lambda>ob. \<not> is_managed_outbound_id (ob_id ob)) (pf_outbounds p)))"
proof -
  let ?sid = "subscription_id (cn_instanceId n)"
  from assms(1) obtain s1 where s1: "ensure_subscription_for_node env n s = (Done (), s1)"
    by (cases "ensure_subscription_for_node env n s"; cases "fst (ensure_subscription_for_node env n s)")
      (auto simp: apply_node_to_profile_def)
  have same: "as_profiles s1 = as_profiles s" "as_selected s1 = as_selected s"
    using ensure_keeps_profiles [OF assms(2), of env s] s1 by simp_all
  from assms(1) s1 obtain sub where sub: "get_subscribe_by_id (as_subs s1) ?sid = Some sub"
    by (auto simp: apply_node_to_profile_def split: option.splits)
  then have e: "px_id (subscription_entry n sub) = ?sid"
    by (auto simp: subscription_entry_def get_subscribe_by_id_def store_get_def dest: find_SomeD)
  obtain base created where base: "base_profile env (str_or target (as_selected s1)) n s1 = (base, created)"
    by (cases "base_profile env (str_or target (as_selected s1)) n s1")
  define p where "p = with_node (\<lambda>k. av_sample env (as_step s1) (k + 1)) (as_health s1) (subscription_entry n sub) base"
  have joins: "list_all (joined ?sid) (filter (\<lambda>ob. \<not> is_managed_outbound_id (ob_id ob)) (pf_outbounds p))"
    using with_node_joins [of "subscription_entry n sub"] assms(3) by (simp add: p_def e)
  have stored: "if created then get_profile_by_id (as_profiles s) (pf_id p) = None
      else get_profile_by_id (as_profiles s) (pf_id p) \<noteq> None"
  proof (cases created)
    case True
    with base assms(4) show ?thesis
      by (auto simp: base_profile_def Let_def same p_def default_profile_def split: option.splits if_splits)
  next
    case False
    with base obtain j where "get_profile_by_id (as_profiles s) j = Some base"
      by (auto simp: base_profile_def Let_def same split: option.splits if_splits)
    moreover from this have "pf_id base = j" by (auto simp: get_profile_by_id_def store_get_def dest: find_SomeD)
    ultimately show ?thesis using False by (simp add: p_def)
  qed
  let ?op = "\<lambda>w. if created then add_profile w p else edit_profile w (pf_id p) p"
  have run: "flow_then (with_profiles ?op env s1) (\<lambda>_ s2. (Done (pf_id p), s2\<lparr>as_selected := pf_id p\<rparr>)) = (Done i, t)"
    using assms(1) unfolding apply_node_to_profile_def s1 flow_then_simps sub option.case Let_def base prod.case p_def [symmetric] .
  have w: "av_write env (as_step s1) = None"
  proof (cases "av_write env (as_step s1)")
    case (Some err)
    have "fst (?op (Some err) (as_profiles s)) = Some err"
      using stored by (cases created) (auto simp: add_profile_def edit_profile_def store_add_def store_edit_def Let_def
          get_profile_by_id_def store_get_def find_index_None_find split: option.splits)
    with run Some show ?thesis by (cases created) (auto simp: flow_then_Done with_profiles_Done same)
  qed simp
  have t: "i = pf_id p" "as_selected t = pf_id p" "as_profiles t = snd (?op None (as_profiles s))"
    using run w stored same
    by (auto simp: flow_then_Done with_profiles_Done)
  have "get_profile_by_id (snd (?op None (as_profiles s))) (pf_id p) = Some p"
    using stored store_add_laws(1) [of pf_id "as_profiles s" p "\<lambda>p. p"] store_edit_laws(1) [of pf_id p "pf_id p" "\<lambda>p. p" "as_profiles s"]
    by (cases created) (auto simp: get_profile_by_id_def add_profile_def edit_profile_def)
  moreover have "fs_disk (snd (?op None (as_profiles s))) = fs_items (snd (?op None (as_profiles s)))"
    using stored by (cases created) (auto simp: add_profile_def edit_profile_def store_add_def store_edit_def Let_def
        get_profile_by_id_def store_get_def find_index_None_find split: option.splits)
  ultimately show ?thesis using joins t by auto
qed

lemma applied_node_joins_every_group_witness:
  "as_selected (snd (apply_node_to_profile calm_env (moved_node ''a'' ''1.2.3.4'') ''A'' (apply_start [''A'']))) = ''A''
   \<and> (\<exists>p. get_profile_by_id (as_profiles (snd (apply_node_to_profile calm_env (moved_node ''a'' ''1.2.3.4'') ''A''
            (apply_start [''A''])))) ''A'' = Some p
        \<and> list_all (joined ''cloud-n1'') (filter (\<lambda>ob. \<not> is_managed_outbound_id (ob_id ob)) (pf_outbounds p)))"
proof -
  let ?n = "moved_node ''a'' ''1.2.3.4''"
  let ?r = "apply_node_to_profile calm_env ?n ''A'' (apply_start [''A''])"
  have "fst ?r = Done ''A''" by code_simp
  then have run: "?r = (Done ''A'', snd ?r)" by (metis prod.collapse)
  have "has_usable_address ?n" "\<not> is_managed_outbound_id (subscription_id (cn_instanceId ?n))"
    "subscription_id (cn_instanceId ?n) = ''cloud-n1''"
    by code_simp+
  moreover have "get_profile_by_id (as_profiles (apply_start [''A''])) (av_sample calm_env k j) = None" for k j
    by (simp add: calm_env_def apply_start_def get_profile_by_id_def store_get_def)
  ultimately show ?thesis
    using applied_node_joins_every_group [OF run] by simp
qed

end
