(* ===== verification/ManualNodes.thy ===== *)
theory ManualNodes
  imports NodeApply
begin

text \<open>
  \<open>stores/cloud/manualImport.ts\<close>: nodes the user enters or imports. They are kept in a list of their own and in a
  file, are merged into the list of instances, and must not collide with each other or with a cloud node.
\<close>

subsection \<open>Inputs, conflicts, errors\<close>

text \<open>A port is a number, not necessarily a whole one; \<^const>\<open>None\<close> is \<open>undefined\<close>.\<close>

record manual_input =
  mi_instanceId :: "string option"
  mi_label :: string
  mi_ipv4 :: "string option"
  mi_ipv6 :: "string option"
  mi_region :: "string option"
  mi_plan :: "string option"
  mi_ssPort :: "rat option"
  mi_ssPassword :: "string option"
  mi_hysteriaPort :: "rat option"
  mi_hysteriaPassword :: "string option"
  mi_hysteriaServerName :: "string option"
  mi_hysteriaInsecure :: "bool option"
  mi_vlessPort :: "rat option"
  mi_vlessUUID :: "string option"
  mi_vlessPublicKey :: "string option"
  mi_vlessShortId :: "string option"
  mi_vlessServerName :: "string option"
  mi_trojanPort :: "rat option"
  mi_trojanPassword :: "string option"
  mi_trojanServerName :: "string option"
  mi_trojanInsecure :: "bool option"
  mi_createdAt :: "string option"

definition bare_input :: "string \<Rightarrow> manual_input" where
  "bare_input l = \<lparr>mi_instanceId = None, mi_label = l, mi_ipv4 = None, mi_ipv6 = None, mi_region = None,
     mi_plan = None, mi_ssPort = None, mi_ssPassword = None, mi_hysteriaPort = None, mi_hysteriaPassword = None,
     mi_hysteriaServerName = None, mi_hysteriaInsecure = None, mi_vlessPort = None, mi_vlessUUID = None,
     mi_vlessPublicKey = None, mi_vlessShortId = None, mi_vlessServerName = None, mi_trojanPort = None,
     mi_trojanPassword = None, mi_trojanServerName = None, mi_trojanInsecure = None, mi_createdAt = None\<rparr>"

datatype conflict_type = ByLabel | ByIpv4 | ByIpv6

record manual_conflict =
  cf_type :: conflict_type
  cf_value :: string
  cf_existing :: node

record skip_entry =
  sk_identifier :: string
  sk_reason :: conflict_type
  sk_existingLabel :: string
  sk_existingProvider :: "string option"

text \<open>The codes of a \<open>ManualNodeError\<close> with what \<open>meta\<close> carries; a duplicate is a conflict, or the list of
  the skipped inputs when nothing was added.\<close>

datatype manual_error =
    LabelRequired | AddressRequired | ProtocolRequired
  | DuplicateNode manual_conflict | AllSkipped "skip_entry list"

subsection \<open>State\<close>

text \<open>\<open>ce_iso\<close> is the time of a step as text.\<close>

record cloud_env =
  ce_apply :: apply_env
  ce_iso :: "nat \<Rightarrow> string"

text \<open>The instances and the manual nodes are the two lists of \<^const>\<open>as_nodes\<close>; \<open>ms_disk\<close> is the content of
  the file of the manual nodes, when it can be read and parsed.\<close>

record manual_state =
  ms_apply :: apply_state
  ms_loaded :: bool
  ms_disk :: "node list option"
  ms_updatedAt :: "int option"

definition ms_instances :: "manual_state \<Rightarrow> node list" where
  "ms_instances s = fst (as_nodes (ms_apply s))"

definition ms_manual :: "manual_state \<Rightarrow> node list" where
  "ms_manual s = snd (as_nodes (ms_apply s))"

definition put_manual :: "node list \<Rightarrow> manual_state \<Rightarrow> manual_state" where
  "put_manual ns s = s\<lparr>ms_apply := (ms_apply s)\<lparr>as_nodes := (ms_instances s, ns)\<rparr>\<rparr>"

text \<open>Every assignment to the instances comes with a new \<open>instancesUpdatedAt\<close>.\<close>

definition put_instances :: "cloud_env \<Rightarrow> node list \<Rightarrow> manual_state \<Rightarrow> manual_state" where
  "put_instances env ns s =
     s\<lparr>ms_apply := (ms_apply s)\<lparr>as_nodes := (ns, ms_manual s)\<rparr>,
       ms_updatedAt := Some (av_now (ce_apply env) (as_step (ms_apply s)))\<rparr>"

definition on_apply :: "(apply_state \<Rightarrow> 'a flow \<times> apply_state) \<Rightarrow> manual_state \<Rightarrow> 'a flow \<times> manual_state" where
  "on_apply f s = (case f (ms_apply s) of (r, t) \<Rightarrow> (r, s\<lparr>ms_apply := t\<rparr>))"

definition ms_mark :: "string \<Rightarrow> node_status \<Rightarrow> manual_state \<Rightarrow> manual_state" where
  "ms_mark i st s = s\<lparr>ms_apply := (ms_apply s)\<lparr>as_nodes := mark_node_status i st (as_nodes (ms_apply s))\<rparr>\<rparr>"

subsection \<open>Loading and saving\<close>

definition is_manual :: "node \<Rightarrow> bool" where
  "is_manual n \<longleftrightarrow> cn_provider n = Some ''manual''"

definition listed_manual :: "node \<Rightarrow> node" where
  "listed_manual n = n\<lparr>cn_provider := Some (opt_or (cn_provider n) ''manual''),
     cn_statusText := Some (or_else (cn_statusText n) NsConnected)\<rparr>"

definition sync_manual_nodes_into_instances :: "cloud_env \<Rightarrow> manual_state \<Rightarrow> manual_state" where
  "sync_manual_nodes_into_instances env s =
     (let others = filter (\<lambda>n. \<not> is_manual n) (ms_instances s)
      in if ms_manual s = [] then
           (if list_ex is_manual (ms_instances s) then put_instances env others s else s)
         else put_instances env (others @ map listed_manual (ms_manual s)) s)"

definition loaded_manual :: "string \<Rightarrow> node \<Rightarrow> node" where
  "loaded_manual now n = n\<lparr>cn_provider := Some (opt_or (cn_provider n) ''manual''),
     cn_status := Some (opt_or (cn_status n) ''active''),
     cn_statusText := Some (or_else (cn_statusText n) NsConnected),
     cn_createdAt := Some (opt_or (cn_createdAt n) now)\<rparr>"

definition load_manual_nodes :: "cloud_env \<Rightarrow> manual_state \<Rightarrow> manual_state" where
  "load_manual_nodes env s = sync_manual_nodes_into_instances env
     (if ms_loaded s then s
      else put_manual (map (loaded_manual (ce_iso env (as_step (ms_apply s)))) (or_else (ms_disk s) []))
        (s\<lparr>ms_loaded := True\<rparr>))"

text \<open>The save is debounced, and no operation asks for a second one.\<close>

definition save_manual_nodes :: "cloud_env \<Rightarrow> manual_state \<Rightarrow> unit flow \<times> manual_state" where
  "save_manual_nodes env s =
     (let s' = s\<lparr>ms_apply := next_step (ms_apply s)\<rparr>
      in case av_write (ce_apply env) (as_step (ms_apply s)) of
           None \<Rightarrow> (Done (), s'\<lparr>ms_disk := Some (ms_manual s)\<rparr>)
         | Some e \<Rightarrow> (Throws e, s'))"

subsection \<open>Creating a node\<close>

text \<open>\<open>Math.trunc\<close> and the range of a port.\<close>

definition js_trunc :: "rat \<Rightarrow> int" where
  "js_trunc q = (if q < 0 then \<lceil>q\<rceil> else \<lfloor>q\<rfloor>)"

definition sanitize_port :: "rat option \<Rightarrow> int option" where
  "sanitize_port v = (case v of
      None \<Rightarrow> None
    | Some q \<Rightarrow> let p = js_trunc q in if p \<le> 0 \<or> 65535 < p then None else Some p)"

text \<open>\<open>value?.trim() || undefined\<close>.\<close>

definition trim_or_none :: "string option \<Rightarrow> string option" where
  "trim_or_none v = (case v of None \<Rightarrow> None | Some s \<Rightarrow> nonempty (js_trim s))"

definition conflict_with ::
    "string \<Rightarrow> string option \<Rightarrow> string option \<Rightarrow> string option \<Rightarrow> node \<Rightarrow> manual_conflict option" where
  "conflict_with label ipv4 ipv6 current n =
     (if Some (cn_instanceId n) = current then None
      else if label \<noteq> '''' \<and> cn_label n = label then
        Some \<lparr>cf_type = ByLabel, cf_value = label, cf_existing = n\<rparr>
      else if truthy_s ipv4 \<and> cn_ipv4 n = ipv4 then
        Some \<lparr>cf_type = ByIpv4, cf_value = the ipv4, cf_existing = n\<rparr>
      else if truthy_s ipv6 \<and> cn_ipv6 n = ipv6 then
        Some \<lparr>cf_type = ByIpv6, cf_value = the ipv6, cf_existing = n\<rparr>
      else None)"

fun first_some :: "('a \<Rightarrow> 'b option) \<Rightarrow> 'a list \<Rightarrow> 'b option" where
  "first_some f [] = None"
| "first_some f (x # xs) = (case f x of None \<Rightarrow> first_some f xs | Some y \<Rightarrow> Some y)"

definition find_manual_conflict ::
    "node list \<times> node list \<Rightarrow> manual_input \<Rightarrow> string option \<Rightarrow> manual_conflict option" where
  "find_manual_conflict nodes input current =
     (let with_node = conflict_with (js_trim (mi_label input)) (map_option js_trim (mi_ipv4 input))
            (map_option js_trim (mi_ipv6 input)) current
      in case first_some with_node (snd nodes) of
           Some c \<Rightarrow> Some c
         | None \<Rightarrow> first_some with_node (filter (\<lambda>n. \<not> is_manual n) (fst nodes)))"

definition has_protocol :: "node \<Rightarrow> bool" where
  "has_protocol n \<longleftrightarrow>
     truthy_n (cn_ssPort n) \<and> truthy_s (cn_ssPassword n)
     \<or> truthy_n (cn_hysteriaPort n) \<and> truthy_s (cn_hysteriaPassword n)
     \<or> truthy_n (cn_vlessPort n) \<and> truthy_s (cn_vlessUUID n) \<and> truthy_s (cn_vlessPublicKey n)
     \<or> truthy_n (cn_trojanPort n) \<and> truthy_s (cn_trojanPassword n)"

text \<open>The object built from an input whose label and addresses are trimmed already.\<close>

definition manual_node :: "string \<Rightarrow> string \<Rightarrow> string \<Rightarrow> string \<Rightarrow> string \<Rightarrow> manual_input \<Rightarrow> node" where
  "manual_node now sample label ipv4 ipv6 input =
     (let seed = opt_or (mi_instanceId input) (''manual-'' @ sample)
      in (bare_node (if starts_with seed ''cloud-'' then seed else ''cloud-'' @ seed) label)
       \<lparr>cn_provider := Some ''manual'', cn_status := Some ''active'', cn_statusText := Some NsConnected,
        cn_region := Some (opt_or (mi_region input) ''''), cn_plan := Some (opt_or (mi_plan input) ''''),
        cn_ipv4 := Some ipv4, cn_ipv6 := Some ipv6, cn_createdAt := Some (opt_or (mi_createdAt input) now),
        cn_ssPort := sanitize_port (mi_ssPort input), cn_ssPassword := trim_or_none (mi_ssPassword input),
        cn_hysteriaPort := sanitize_port (mi_hysteriaPort input),
        cn_hysteriaPassword := trim_or_none (mi_hysteriaPassword input),
        cn_hysteriaServerName := trim_or_none (mi_hysteriaServerName input),
        cn_hysteriaInsecure := mi_hysteriaInsecure input,
        cn_vlessPort := sanitize_port (mi_vlessPort input), cn_vlessUUID := trim_or_none (mi_vlessUUID input),
        cn_vlessPublicKey := trim_or_none (mi_vlessPublicKey input), cn_vlessShortId := trim_or_none (mi_vlessShortId input),
        cn_vlessServerName := trim_or_none (mi_vlessServerName input),
        cn_trojanPort := sanitize_port (mi_trojanPort input), cn_trojanPassword := trim_or_none (mi_trojanPassword input),
        cn_trojanServerName := trim_or_none (mi_trojanServerName input), cn_trojanInsecure := mi_trojanInsecure input\<rparr>)"

definition create_manual_node ::
    "string \<Rightarrow> string \<Rightarrow> node list \<times> node list \<Rightarrow> manual_input \<Rightarrow> string option \<Rightarrow> manual_error + node" where
  "create_manual_node now sample nodes input current =
     (let label = js_trim (mi_label input);
          ipv4 = js_trim (or_else (mi_ipv4 input) ''''); ipv6 = js_trim (or_else (mi_ipv6 input) '''')
      in if label = '''' then Inl LabelRequired
         else if ipv4 = '''' \<and> ipv6 = '''' then Inl AddressRequired
         else case find_manual_conflict nodes
                (input\<lparr>mi_label := label, mi_ipv4 := Some ipv4, mi_ipv6 := Some ipv6\<rparr>) current of
           Some c \<Rightarrow> Inl (DuplicateNode c)
         | None \<Rightarrow>
             let n = manual_node now sample label ipv4 ipv6 input
             in if has_protocol n then Inr n else Inl ProtocolRequired)"

subsection \<open>Adding and updating nodes\<close>

definition skip_of :: "manual_conflict \<Rightarrow> manual_input \<Rightarrow> skip_entry" where
  "skip_of c input =
     \<lparr>sk_identifier = str_or (cf_value c) (str_or (mi_label input)
        (opt_or (mi_ipv4 input) (opt_or (mi_ipv6 input) ''manual-node''))),
      sk_reason = cf_type c, sk_existingLabel = cn_label (cf_existing c),
      sk_existingProvider = cn_provider (cf_existing c)\<rparr>"

text \<open>The manual nodes as they are left come second; an error other than a duplicate ends the loop where it
  occurs.\<close>

fun add_manual_nodes_internal ::
    "(nat \<Rightarrow> string) \<Rightarrow> (nat \<Rightarrow> string) \<Rightarrow> node list \<Rightarrow> manual_input list \<Rightarrow> node list
       \<Rightarrow> (manual_error + node list \<times> skip_entry list) \<times> node list" where
  "add_manual_nodes_internal now sample insts [] manual = (Inr ([], []), manual)"
| "add_manual_nodes_internal now sample insts (i # is) manual =
     (case create_manual_node (now 0) (sample 0) (insts, manual) i None of
        Inr n \<Rightarrow>
          (case add_manual_nodes_internal (\<lambda>k. now (Suc k)) (\<lambda>k. sample (Suc k)) insts is (manual @ [n]) of
             (Inl e, m) \<Rightarrow> (Inl e, m)
           | (Inr (added, skipped), m) \<Rightarrow> (Inr (n # added, skipped), m))
      | Inl (DuplicateNode c) \<Rightarrow>
          (case add_manual_nodes_internal (\<lambda>k. now (Suc k)) (\<lambda>k. sample (Suc k)) insts is manual of
             (Inl e, m) \<Rightarrow> (Inl e, m)
           | (Inr (added, skipped), m) \<Rightarrow> (Inr (added, skip_of c i # skipped), m))
      | Inl e \<Rightarrow> (Inl e, manual))"

definition subscribe_added :: "cloud_env \<Rightarrow> node \<Rightarrow> manual_state \<Rightarrow> unit flow \<times> manual_state" where
  "subscribe_added env n s =
     flow_then (flow_catch (on_apply (ensure_subscription_for_node (ce_apply env) n) s) ())
       (\<lambda>_ t. (Done (), ms_mark (cn_instanceId n) NsConnected t))"

text \<open>A \<open>ManualNodeError\<close> is \<open>Done (Inl e)\<close>, any other exception \<^const>\<open>Throws\<close>.\<close>

definition add_manual_nodes ::
    "cloud_env \<Rightarrow> manual_input list \<Rightarrow> manual_state
       \<Rightarrow> (manual_error + node list \<times> skip_entry list) flow \<times> manual_state" where
  "add_manual_nodes env inputs s =
     (if inputs = [] then (Done (Inr ([], [])), s)
      else let s1 = load_manual_nodes env s; k = as_step (ms_apply s1)
        in case add_manual_nodes_internal (\<lambda>_. ce_iso env k) (av_sample (ce_apply env) k)
               (ms_instances s1) inputs (ms_manual s1) of
             (Inl e, m) \<Rightarrow> (Done (Inl e), put_manual m s1)
           | (Inr (added, skipped), m) \<Rightarrow>
               let s2 = put_manual m s1
               in if added = [] then
                    (Done (if skipped \<noteq> [] then Inl (AllSkipped skipped) else Inr (added, skipped)), s2)
                  else flow_then (save_manual_nodes env s2)
                    (\<lambda>_ s3. flow_then (flow_for (subscribe_added env) added s3)
                    (\<lambda>_ s4. (Done (Inr (added, skipped)), sync_manual_nodes_into_instances env s4))))"

text \<open>With one input the list of the added nodes is not empty when there is no error, so the second check of
  the code (\<open>!added.length\<close>) never applies.\<close>

definition add_manual_node :: "cloud_env \<Rightarrow> manual_input \<Rightarrow> manual_state \<Rightarrow> (manual_error + node) flow \<times> manual_state" where
  "add_manual_node env input s = flow_then (add_manual_nodes env [input] s)
     (\<lambda>r t. case r of
        Inl e \<Rightarrow> (Done (Inl e), t)
      | Inr ([], _) \<Rightarrow> (Throws ''duplicate'', t)
      | Inr (n # _, _) \<Rightarrow> (Done (Inr n), t))"

text \<open>\<open>a ?? b\<close>.\<close>

definition nullish :: "'a option \<Rightarrow> 'a option \<Rightarrow> 'a option" where
  "nullish a b = (case a of None \<Rightarrow> b | Some v \<Rightarrow> Some v)"

definition merged_input :: "string \<Rightarrow> string \<Rightarrow> manual_input \<Rightarrow> node \<Rightarrow> manual_input" where
  "merged_input now i u n = (bare_input (str_or (js_trim (mi_label u)) (cn_label n)))
     \<lparr>mi_instanceId := Some i,
      mi_ipv4 := nullish (mi_ipv4 u) (cn_ipv4 n), mi_ipv6 := nullish (mi_ipv6 u) (cn_ipv6 n),
      mi_region := nullish (mi_region u) (cn_region n), mi_plan := nullish (mi_plan u) (cn_plan n),
      mi_ssPort := nullish (mi_ssPort u) (map_option of_int (cn_ssPort n)),
      mi_ssPassword := nullish (mi_ssPassword u) (cn_ssPassword n),
      mi_hysteriaPort := nullish (mi_hysteriaPort u) (map_option of_int (cn_hysteriaPort n)),
      mi_hysteriaPassword := nullish (mi_hysteriaPassword u) (cn_hysteriaPassword n),
      mi_vlessPort := nullish (mi_vlessPort u) (map_option of_int (cn_vlessPort n)),
      mi_vlessUUID := nullish (mi_vlessUUID u) (cn_vlessUUID n),
      mi_vlessPublicKey := nullish (mi_vlessPublicKey u) (cn_vlessPublicKey n),
      mi_vlessShortId := nullish (mi_vlessShortId u) (cn_vlessShortId n),
      mi_trojanPort := nullish (mi_trojanPort u) (map_option of_int (cn_trojanPort n)),
      mi_trojanPassword := nullish (mi_trojanPassword u) (cn_trojanPassword n),
      mi_createdAt := Some (opt_or (cn_createdAt n) now)\<rparr>"

definition updated_node :: "node \<Rightarrow> node \<Rightarrow> node" where
  "updated_node current updated = updated\<lparr>cn_provider := Some ''manual'', cn_status := Some ''active'',
     cn_statusText := Some NsConnected,
     cn_createdAt := (if truthy_s (cn_createdAt current) then cn_createdAt current else cn_createdAt updated)\<rparr>"

definition update_manual_node ::
    "cloud_env \<Rightarrow> string \<Rightarrow> manual_input \<Rightarrow> manual_state \<Rightarrow> (manual_error + node) flow \<times> manual_state" where
  "update_manual_node env i updates s =
     (let s1 = load_manual_nodes env s; k = as_step (ms_apply s1); now = ce_iso env k
      in case find_index (\<lambda>n. cn_instanceId n = i) (ms_manual s1) of
           None \<Rightarrow> (Throws ''manual-node-not-found'', s1)
         | Some j \<Rightarrow>
             let current = ms_manual s1 ! j
             in case create_manual_node now (av_sample (ce_apply env) k 0) (as_nodes (ms_apply s1))
                    (merged_input now i updates current) (Some i) of
                  Inl e \<Rightarrow> (Done (Inl e), s1)
                | Inr updated \<Rightarrow>
                    let n = updated_node current updated
                    in flow_then (save_manual_nodes env (put_manual ((ms_manual s1)[j := n]) s1))
                         (\<lambda>_ s2. flow_then (on_apply (ensure_subscription_for_node (ce_apply env) n) s2)
                         (\<lambda>_ s3.
                            let s4 = sync_manual_nodes_into_instances env (ms_mark i NsConnected s3)
                            in (Done (Inr (ms_manual s4 ! j)), s4))))"

subsection \<open>Frames\<close>

lemma ms_put_manual [simp]:
  "ms_manual (put_manual ns s) = ns" "ms_instances (put_manual ns s) = ms_instances s"
  "ms_loaded (put_manual ns s) = ms_loaded s" "ms_disk (put_manual ns s) = ms_disk s"
  by (simp_all add: put_manual_def ms_manual_def ms_instances_def)

lemma ms_put_instances [simp]:
  "ms_instances (put_instances env ns s) = ns" "ms_manual (put_instances env ns s) = ms_manual s"
  "ms_loaded (put_instances env ns s) = ms_loaded s" "ms_disk (put_instances env ns s) = ms_disk s"
  by (simp_all add: put_instances_def ms_manual_def ms_instances_def)

lemma ms_loaded_field [simp]:
  "ms_manual (s\<lparr>ms_loaded := b\<rparr>) = ms_manual s" "ms_instances (s\<lparr>ms_loaded := b\<rparr>) = ms_instances s"
  by (simp_all add: ms_manual_def ms_instances_def)

lemma sync_manual_fields [simp]:
  "ms_manual (sync_manual_nodes_into_instances env s) = ms_manual s"
  "ms_loaded (sync_manual_nodes_into_instances env s) = ms_loaded s"
  "ms_disk (sync_manual_nodes_into_instances env s) = ms_disk s"
  by (simp_all add: sync_manual_nodes_into_instances_def Let_def)

lemma ms_instances_sync:
  "ms_instances (sync_manual_nodes_into_instances env s)
     = filter (\<lambda>n. \<not> is_manual n) (ms_instances s) @ map listed_manual (ms_manual s)"
  by (auto simp: sync_manual_nodes_into_instances_def Let_def list_ex_iff filter_id_conv)

lemma save_manual_fields [simp]:
  "as_nodes (ms_apply (snd (save_manual_nodes env s))) = as_nodes (ms_apply s)"
  "ms_loaded (snd (save_manual_nodes env s)) = ms_loaded s"
  by (simp_all add: save_manual_nodes_def Let_def next_step_def split: option.splits)

lemma on_apply_ensure_nodes [simp]:
  "as_nodes (ms_apply (snd (on_apply (ensure_subscription_for_node e n) s))) = as_nodes (ms_apply s)"
  "ms_loaded (snd (on_apply f s)) = ms_loaded s" "ms_disk (snd (on_apply f s)) = ms_disk s"
  using stable_ensure [OF stable_nodes [of "as_nodes (ms_apply s)"], of "ms_apply s" e n]
  by (simp_all add: on_apply_def case_prod_beta)

lemma snd_flow_catch [simp]: "snd (flow_catch r v) = snd r"
  by (cases r; cases "fst r") (auto simp: flow_catch_def)

subsection \<open>Properties: what is accepted\<close>

text \<open>Two nodes that the user could not tell apart, or that are the same machine.\<close>

definition clashes :: "node \<Rightarrow> node \<Rightarrow> bool" where
  "clashes n m \<longleftrightarrow> cn_label n \<noteq> '''' \<and> cn_label n = cn_label m
     \<or> truthy_s (cn_ipv4 n) \<and> cn_ipv4 n = cn_ipv4 m \<or> truthy_s (cn_ipv6 n) \<and> cn_ipv6 n = cn_ipv6 m"

lemma clashes_sym: "clashes n m \<Longrightarrow> clashes m n"
  by (auto simp: clashes_def)

lemma first_some_None: "first_some f xs = None \<longleftrightarrow> (\<forall>x \<in> set xs. f x = None)"
  by (induction xs) (auto split: option.splits)

lemma first_some_SomeD: "first_some f xs = Some y \<Longrightarrow> \<exists>x \<in> set xs. f x = Some y"
  by (induction xs) (auto split: option.splits)

lemma conflict_with_node:
  assumes "cn_label n = label" "cn_ipv4 n = ipv4" "cn_ipv6 n = ipv6"
  shows "conflict_with label ipv4 ipv6 current m = None
     \<longleftrightarrow> Some (cn_instanceId m) = current \<or> \<not> clashes n m"
    and "conflict_with label ipv4 ipv6 current m = Some c
     \<Longrightarrow> cf_existing c = m \<and> clashes n m \<and> Some (cn_instanceId m) \<noteq> current"
  using assms by (auto simp: conflict_with_def clashes_def truthy_s_def split: if_splits option.splits)

lemma manual_node_fields [simp]:
  "cn_label (manual_node now sample l i4 i6 input) = l" "cn_ipv4 (manual_node now sample l i4 i6 input) = Some i4"
  "cn_ipv6 (manual_node now sample l i4 i6 input) = Some i6" "is_manual (manual_node now sample l i4 i6 input)"
  by (simp_all add: manual_node_def Let_def is_manual_def bare_node_def)

text \<open>The nodes a manual node is compared with: the other manual ones and those of the providers.\<close>

definition rivals :: "node list \<times> node list \<Rightarrow> string option \<Rightarrow> node set" where
  "rivals nodes current =
     {m \<in> set (snd nodes) \<union> {m \<in> set (fst nodes). \<not> is_manual m}. Some (cn_instanceId m) \<noteq> current}"

text \<open>The node an input stands for, accepted or not.\<close>

definition input_node :: "string \<Rightarrow> string \<Rightarrow> manual_input \<Rightarrow> node" where
  "input_node now sample input = manual_node now sample (js_trim (mi_label input))
     (js_trim (or_else (mi_ipv4 input) '''')) (js_trim (or_else (mi_ipv6 input) '''')) input"

lemma find_conflict_node:
  fixes input :: manual_input and now sample :: string
  defines "n \<equiv> input_node now sample input"
  defines "normal \<equiv> input\<lparr>mi_label := js_trim (mi_label input), mi_ipv4 := Some (js_trim (or_else (mi_ipv4 input) '''')),
    mi_ipv6 := Some (js_trim (or_else (mi_ipv6 input) ''''))\<rparr>"
  shows "find_manual_conflict nodes normal current = None \<longleftrightarrow> (\<forall>m \<in> rivals nodes current. \<not> clashes n m)"
    and "find_manual_conflict nodes normal current = Some c \<Longrightarrow> cf_existing c \<in> rivals nodes current \<and> clashes n (cf_existing c)"
proof -
  let ?f = "conflict_with (cn_label n) (cn_ipv4 n) (cn_ipv6 n) current"
  have eq: "find_manual_conflict nodes normal current = (case first_some ?f (snd nodes) of
      Some c \<Rightarrow> Some c | None \<Rightarrow> first_some ?f (filter (\<lambda>n. \<not> is_manual n) (fst nodes)))"
    by (simp add: find_manual_conflict_def n_def normal_def input_node_def Let_def split: option.split)
  note at = conflict_with_node [OF refl refl refl, of n current]
  show some: "find_manual_conflict nodes normal current = Some c \<Longrightarrow> cf_existing c \<in> rivals nodes current \<and> clashes n (cf_existing c)"
    for c
    unfolding eq using at(2) by (auto simp: rivals_def split: option.splits dest!: first_some_SomeD)
  have "\<forall>m \<in> rivals nodes current. \<not> clashes n m" if "find_manual_conflict nodes normal current = None"
    using that unfolding eq by (auto simp: first_some_None at(1) rivals_def split: option.splits)
  then show "find_manual_conflict nodes normal current = None \<longleftrightarrow> (\<forall>m \<in> rivals nodes current. \<not> clashes n m)"
    using some by (cases "find_manual_conflict nodes normal current") auto
qed

lemma sanitized_range: "sanitize_port v = Some p \<Longrightarrow> 1 \<le> p \<and> p \<le> 65535"
  by (auto simp: sanitize_port_def Let_def split: option.splits if_splits)

text \<open>Every outcome of \<open>createManualNode\<close>, in the order of the checks.\<close>

lemma create_manual_cases:
  fixes input :: manual_input and now sample :: string
  defines "n \<equiv> input_node now sample input"
  shows "create_manual_node now sample nodes input current = Inr m \<longleftrightarrow>
      m = n \<and> cn_label n \<noteq> '''' \<and> \<not> (cn_ipv4 n = Some '''' \<and> cn_ipv6 n = Some '''')
      \<and> (\<forall>r \<in> rivals nodes current. \<not> clashes n r) \<and> has_protocol n"
    and "create_manual_node now sample nodes input current = Inl (DuplicateNode c) \<Longrightarrow>
      cf_existing c \<in> rivals nodes current \<and> clashes n (cf_existing c)"
    and "create_manual_node now sample nodes input current \<noteq> Inl (AllSkipped sk)"
  using find_conflict_node [where nodes = nodes and input = input and current = current and now = now and sample = sample] unfolding n_def
  by (auto simp: create_manual_node_def Let_def input_node_def split: option.splits if_splits)

lemma created_rivals:
  assumes "create_manual_node now sample nodes input current = Inr n"
  shows "\<forall>r \<in> rivals nodes current. \<not> clashes n r"
  using assms unfolding create_manual_cases(1) by blast

text \<open>
  C29. What an accepted manual node is good for. Its ports are real ports, its label is trimmed, and no other node has
  its label or one of its addresses. But it can be of no use: it has no proxy at all exactly when no address is
  public, or when its only protocol is VLESS without a short id, which the check of the input lets pass and the
  generation of the proxies demands.
\<close>

theorem accepted_node_proxies:
  assumes "create_manual_node now sample nodes input current = Inr n"
  shows "(\<forall>p. Some p \<in> {cn_ssPort n, cn_hysteriaPort n, cn_vlessPort n, cn_trojanPort n} \<longrightarrow> 1 \<le> p \<and> p \<le> 65535)
    \<and> js_trim (cn_label n) = cn_label n \<and> (\<forall>m \<in> rivals nodes current. \<not> clashes n m)
    \<and> (node_proxies d n = [] \<longleftrightarrow> ip_versions n = []
        \<or> \<not> has_ss n \<and> \<not> has_hysteria n \<and> \<not> has_trojan n \<and> \<not> truthy_s (cn_vlessShortId n))"
proof -
  have n: "n = input_node now sample input" and rivals: "\<forall>m \<in> rivals nodes current. \<not> clashes n m"
    and prot: "has_protocol n"
    using assms by (simp_all add: create_manual_cases)
  have ports: "1 \<le> p \<and> p \<le> 65535" if "Some p \<in> {cn_ssPort n, cn_hysteriaPort n, cn_vlessPort n, cn_trojanPort n}" for p
    using that sanitized_range by (auto simp: n input_node_def manual_node_def Let_def)
  have label: "js_trim (cn_label n) = cn_label n" by (simp add: n input_node_def)
  have old: "cn_vlessRelayPort n = None" "cn_port n = None" "cn_password n = None"
    by (simp_all add: n input_node_def manual_node_def Let_def bare_node_def)
  have "cdn_proxies d n = []" by (simp add: cdn_proxies_def cdn_host_def old Let_def split: option.splits)
  then have empty: "protocol_proxies d n = [] \<longleftrightarrow>
      ip_versions n = [] \<or> \<not> has_ss n \<and> \<not> has_hysteria n \<and> \<not> has_vless n \<and> \<not> has_trojan n"
    by (auto simp: protocol_proxies_def per_address_def)
  have legacy: "legacy_proxies n = [] \<longleftrightarrow> ip_versions n = [] \<or> \<not> has_ss n"
    by (auto simp: legacy_proxies_def old has_ss_def Let_def)
  have "node_proxies d n = [] \<longleftrightarrow> ip_versions n = []
      \<or> \<not> has_ss n \<and> \<not> has_hysteria n \<and> \<not> has_trojan n \<and> \<not> truthy_s (cn_vlessShortId n)"
    using prot empty legacy by (auto simp: node_proxies_def Let_def has_protocol_def has_ss_def has_hysteria_def
        has_vless_def has_trojan_def)
  with ports label rivals show ?thesis by blast
qed

definition vless_input :: manual_input where
  "vless_input = (bare_input '' home '')\<lparr>mi_ipv4 := Some ''203.0.113.7'', mi_vlessPort := Some 443,
     mi_vlessUUID := Some ''u'', mi_vlessPublicKey := Some ''k''\<rparr>"

lemma accepted_node_proxies_witness:
  "isl (create_manual_node ''t'' ''r'' ([], []) vless_input None) = False
   \<and> node_proxies None (projr (create_manual_node ''t'' ''r'' ([], []) vless_input None)) = []"
proof -
  let ?n = "input_node ''t'' ''r'' vless_input"
  have ok: "create_manual_node ''t'' ''r'' ([], []) vless_input None = Inr ?n"
    by (simp add: create_manual_cases rivals_def) (code_simp)
  have "\<not> has_ss ?n \<and> \<not> has_hysteria ?n \<and> \<not> has_trojan ?n \<and> \<not> truthy_s (cn_vlessShortId ?n)" by code_simp
  with accepted_node_proxies [OF ok, of None] ok show ?thesis by simp
qed

subsection \<open>Properties: nodes stay apart\<close>

text \<open>No manual node clashes with another one or with a node of a provider.\<close>

definition manual_apart :: "node list \<times> node list \<Rightarrow> bool" where
  "manual_apart nodes \<longleftrightarrow> list_all is_manual (snd nodes) \<and> sorted_wrt (\<lambda>n m. \<not> clashes n m) (snd nodes)
     \<and> (\<forall>n \<in> set (snd nodes). \<forall>m \<in> set (fst nodes). \<not> is_manual m \<longrightarrow> \<not> clashes n m)"

lemma sorted_wrt_snoc_apart:
  "sorted_wrt (\<lambda>n m. \<not> clashes n m) (xs @ [n]) \<longleftrightarrow>
     sorted_wrt (\<lambda>n m. \<not> clashes n m) xs \<and> (\<forall>m \<in> set xs. \<not> clashes n m)"
  by (auto simp: sorted_wrt_append dest: clashes_sym)

lemma add_internal_apart:
  "add_manual_nodes_internal now sample insts inputs manual = (r, m) \<Longrightarrow> manual_apart (insts, manual) \<Longrightarrow>
   manual_apart (insts, m)"
proof (induction inputs arbitrary: now sample manual r m)
  case Nil
  then show ?case by simp
next
  case (Cons i rest)
  show ?case
  proof (cases "create_manual_node (now 0) (sample 0) (insts, manual) i None")
    case (Inr n)
    then have "\<forall>m \<in> rivals (insts, manual) None. \<not> clashes n m" "is_manual n"
      by (simp_all add: create_manual_cases) (simp add: input_node_def)
    then have "manual_apart (insts, manual @ [n])"
      using Cons.prems(2) by (auto simp: manual_apart_def rivals_def sorted_wrt_snoc_apart)
    with Cons.IH Cons.prems(1) Inr show ?thesis by (fastforce split: prod.splits sum.splits)
  next
    case (Inl e)
    show ?thesis
    proof (cases "\<exists>c. e = DuplicateNode c")
      case True
      with Cons.IH Cons.prems Inl show ?thesis by (fastforce split: prod.splits sum.splits)
    next
      case False
      with Cons.prems Inl show ?thesis by (cases e) auto
    qed
  qed
qed

lemma listed_manual_id: "is_manual n \<Longrightarrow> is_manual (listed_manual n)"
  by (simp add: is_manual_def listed_manual_def str_or_def)

lemma apart_sync [simp]:
  "list_all is_manual (ms_manual s) \<Longrightarrow>
   manual_apart (as_nodes (ms_apply (sync_manual_nodes_into_instances env s))) = manual_apart (as_nodes (ms_apply s))"
proof -
  have split: "as_nodes (ms_apply t) = (ms_instances t, ms_manual t)" for t by (simp add: ms_instances_def ms_manual_def)
  assume "list_all is_manual (ms_manual s)"
  then show ?thesis
    unfolding split by (auto simp: manual_apart_def ms_instances_sync list_all_iff listed_manual_id)
qed

text \<open>A change that no comparison sees.\<close>

definition same_identity :: "node \<Rightarrow> node \<Rightarrow> bool" where
  "same_identity n m \<longleftrightarrow> cn_label n = cn_label m \<and> cn_ipv4 n = cn_ipv4 m \<and> cn_ipv6 n = cn_ipv6 m
     \<and> cn_provider n = cn_provider m \<and> cn_instanceId n = cn_instanceId m"

lemma mark_same:
  "list_all2 same_identity (fst (mark_node_status i st nodes)) (fst nodes)
   \<and> list_all2 same_identity (snd (mark_node_status i st nodes)) (snd nodes)"
proof -
  have "list_all2 same_identity xs xs" for xs by (rule list_all2_refl) (simp add: same_identity_def)
  moreover have "list_all2 same_identity (map_first p (\<lambda>n. n\<lparr>cn_statusText := Some st\<rparr>) xs) xs" for p xs
    by (induction xs) (auto simp: same_identity_def list_all2_refl)
  ultimately show ?thesis by (cases nodes) (simp add: mark_node_status_def)
qed

lemma apart_same:
  assumes "list_all2 same_identity (fst a) (fst b)" "list_all2 same_identity (snd a) (snd b)"
  shows "manual_apart a = manual_apart b"
proof -
  let ?key = "\<lambda>n. (cn_label n, cn_ipv4 n, cn_ipv6 n, cn_provider n)"
  let ?clash = "\<lambda>(l, a, b, p) (l', a', b', p'). l \<noteq> '''' \<and> l = l' \<or> truthy_s a \<and> a = a' \<or> truthy_s b \<and> b = b'"
  have k: "clashes n m = ?clash (?key n) (?key m)" "is_manual n = ((\<lambda>(_, _, _, p). p = Some ''manual'') (?key n))" for n m
    by (simp_all add: clashes_def is_manual_def)
  have keys: "map ?key (fst a) = map ?key (fst b)" "map ?key (snd a) = map ?key (snd b)"
    using assms by (auto simp: list_all2_conv_all_nth same_identity_def intro!: nth_equalityI)
  have "manual_apart c \<longleftrightarrow> list_all (\<lambda>(_, _, _, p). p = Some ''manual'') (map ?key (snd c))
      \<and> sorted_wrt (\<lambda>x y. \<not> ?clash x y) (map ?key (snd c))
      \<and> (\<forall>x \<in> set (map ?key (snd c)). \<forall>y \<in> set (map ?key (fst c)).
           (\<lambda>(_, _, _, p). p \<noteq> Some ''manual'') y \<longrightarrow> \<not> ?clash x y)" for c
    unfolding manual_apart_def k by (auto simp: list_all_iff sorted_wrt_map)
  then show ?thesis by (simp only: keys)
qed

lemma apart_mark [simp]: "manual_apart (mark_node_status i st nodes) = manual_apart nodes"
  using mark_same [of i st nodes] by (intro apart_same) simp_all

lemma manual_apart_parts: "manual_apart (as_nodes (ms_apply s)) \<longleftrightarrow> manual_apart (ms_instances s, ms_manual s)"
  by (simp add: ms_instances_def ms_manual_def)

lemma apart_put_manual: "manual_apart (ms_instances s, ns) \<Longrightarrow> manual_apart (as_nodes (ms_apply (put_manual ns s)))"
  by (simp add: put_manual_def)

lemma apart_all_manual: "manual_apart (as_nodes (ms_apply s)) \<Longrightarrow> list_all is_manual (ms_manual s)"
  by (simp add: manual_apart_def ms_manual_def)

lemma subscribe_added_apart:
  "manual_apart (as_nodes (ms_apply s)) \<Longrightarrow> manual_apart (as_nodes (ms_apply (snd (subscribe_added env n s))))"
  unfolding subscribe_added_def
  by (rule flow_then_inv [of "\<lambda>t. manual_apart (as_nodes (ms_apply t))"]) (simp_all add: ms_mark_def)

lemma load_apart:
  "ms_loaded s \<Longrightarrow> manual_apart (as_nodes (ms_apply s)) \<Longrightarrow>
   manual_apart (as_nodes (ms_apply (load_manual_nodes env s)))"
  by (simp add: load_manual_nodes_def apart_all_manual)

text \<open>One node is exchanged for another with its id.\<close>

lemma apart_exchange:
  assumes "manual_apart (insts, ms)" "j < length ms" "is_manual n" "distinct (map cn_instanceId ms)"
    and "\<forall>m \<in> rivals (insts, ms) (Some (cn_instanceId (ms ! j))). \<not> clashes n m"
    and "\<forall>m \<in> set insts. \<not> is_manual m \<longrightarrow> cn_instanceId m \<noteq> cn_instanceId (ms ! j)"
  shows "manual_apart (insts, ms[j := n])"
proof -
  have other: "\<not> clashes n (ms ! k)" if "k < length ms" "k \<noteq> j" for k
  proof -
    have "cn_instanceId (ms ! k) \<noteq> cn_instanceId (ms ! j)"
      using nth_eq_iff_index_eq [OF assms(4), of k j] assms(2) that by simp
    moreover have "ms ! k \<in> set ms" using that by simp
    ultimately show ?thesis using assms(5) by (simp add: rivals_def)
  qed
  have "sorted_wrt (\<lambda>n m. \<not> clashes n m) (ms[j := n])"
    unfolding sorted_wrt_iff_nth_less
  proof (intro allI impI)
    fix a b assume ab: "a < b" "b < length (ms[j := n])"
    then have old: "\<not> clashes (ms ! a) (ms ! b)"
      using assms(1) by (auto simp: manual_apart_def sorted_wrt_iff_nth_less)
    show "\<not> clashes (ms[j := n] ! a) (ms[j := n] ! b)"
      using ab old other [of a] other [of b] assms(2) by (cases "a = j"; cases "b = j") (auto dest: clashes_sym)
  qed
  moreover have "\<not> clashes m c" if "m \<in> set (ms[j := n])" "c \<in> set insts" "\<not> is_manual c" for m c
    using that assms(1,5,6) set_update_subset_insert [of ms j n] by (auto simp: manual_apart_def rivals_def)
  moreover have "list_all is_manual (ms[j := n])"
    using assms(1,3) set_update_subset_insert [of ms j n] by (auto simp: manual_apart_def list_all_iff)
  ultimately show ?thesis by (simp add: manual_apart_def)
qed

text \<open>
  C28. Nodes stay apart. However many inputs are added or however a node is updated, and however the operation
  ends, with a rejected input, a failed save or a subscription that is not written, no two manual nodes and no
  manual node and node of a provider share a label or an address, if they did not before. For an update the
  ids must tell the nodes apart, because the node with the id is left out of the comparison.
\<close>

theorem manual_nodes_stay_apart:
  assumes "ms_loaded s" and "manual_apart (as_nodes (ms_apply s))"
    and "distinct (map cn_instanceId (ms_manual s))"
    and "\<forall>m \<in> set (ms_instances s). \<not> is_manual m \<longrightarrow> cn_instanceId m \<noteq> i"
  shows "manual_apart (as_nodes (ms_apply (snd (add_manual_nodes env inputs s))))
    \<and> manual_apart (as_nodes (ms_apply (snd (update_manual_node env i u s))))"
proof -
  let ?P = "\<lambda>t. manual_apart (as_nodes (ms_apply t))"
  let ?s1 = "load_manual_nodes env s"
  have p1: "?P ?s1" using assms(1,2) by (rule load_apart)
  have s1: "ms_manual ?s1 = ms_manual s" "\<And>m. m \<in> set (ms_instances ?s1) \<Longrightarrow> \<not> is_manual m \<Longrightarrow> m \<in> set (ms_instances s)"
    using assms(1) apart_all_manual [OF assms(2)]
    by (auto simp: load_manual_nodes_def ms_instances_sync list_all_iff listed_manual_id)
  have sync: "?P (sync_manual_nodes_into_instances env t)" if "?P t" for t
    using that apart_all_manual [OF that] by simp
  have add: "?P (snd (add_manual_nodes env inputs s))" if "inputs \<noteq> []"
  proof -
    let ?k = "as_step (ms_apply ?s1)"
    obtain r m where rm: "add_manual_nodes_internal (\<lambda>_. ce_iso env ?k) (av_sample (ce_apply env) ?k)
        (ms_instances ?s1) inputs (ms_manual ?s1) = (r, m)" by fastforce
    from add_internal_apart [OF rm] p1 have "manual_apart (ms_instances ?s1, m)" by (simp add: manual_apart_parts)
    then have p2: "?P (put_manual m ?s1)" by (rule apart_put_manual)
    then have "?P (snd (flow_then (save_manual_nodes env (put_manual m ?s1))
        (\<lambda>_ s3. flow_then (flow_for (subscribe_added env) added s3)
           (\<lambda>_ s4. (Done (Inr (added, skipped)), sync_manual_nodes_into_instances env s4)))))" for added skipped
      by (intro flow_then_inv [of ?P] flow_for_inv [of ?P]) (simp_all add: subscribe_added_apart sync)
    with p2 that show ?thesis by (auto simp: add_manual_nodes_def Let_def rm split: sum.split)
  qed
  have "?P (snd (update_manual_node env i u s))"
  proof (cases "find_index (\<lambda>n. cn_instanceId n = i) (ms_manual ?s1)")
    case None
    with p1 show ?thesis by (simp add: update_manual_node_def Let_def)
  next
    case (Some j)
    let ?k = "as_step (ms_apply ?s1)"
    let ?in = "merged_input (ce_iso env ?k) i u (ms_manual ?s1 ! j)"
    from find_index_SomeD [OF Some] have j: "j < length (ms_manual ?s1)" "cn_instanceId (ms_manual ?s1 ! j) = i" by auto
    show ?thesis
    proof (cases "create_manual_node (ce_iso env ?k) (av_sample (ce_apply env) ?k 0) (as_nodes (ms_apply ?s1)) ?in (Some i)")
      case (Inl e)
      with p1 Some show ?thesis by (simp add: update_manual_node_def Let_def)
    next
      case (Inr up)
      let ?n = "updated_node (ms_manual ?s1 ! j) up"
      have "\<forall>m \<in> rivals (ms_instances ?s1, ms_manual ?s1) (Some i). \<not> clashes ?n m"
        using created_rivals [OF Inr] by (simp add: ms_instances_def ms_manual_def clashes_def updated_node_def)
      then have "manual_apart (ms_instances ?s1, (ms_manual ?s1)[j := ?n])"
        using p1 j s1 assms(3,4) by (intro apart_exchange) (auto simp: manual_apart_parts is_manual_def updated_node_def)
      then have p2: "?P (put_manual ((ms_manual ?s1)[j := ?n]) ?s1)" by (rule apart_put_manual)
      have "?P (snd (flow_then (save_manual_nodes env (put_manual ((ms_manual ?s1)[j := ?n]) ?s1))
          (\<lambda>_ s2. flow_then (on_apply (ensure_subscription_for_node (ce_apply env) ?n) s2)
          (\<lambda>_ s3. (Done (Inr (f s3)), sync_manual_nodes_into_instances env (ms_mark i NsConnected s3))))))" for f :: "manual_state \<Rightarrow> node"
        using p2 by (intro flow_then_inv [of ?P]) (simp_all add: sync ms_mark_def)
      from this [of "\<lambda>s3. ms_manual (sync_manual_nodes_into_instances env (ms_mark i NsConnected s3)) ! j"]
      show ?thesis by (simp add: update_manual_node_def Let_def Some Inr del: sync_manual_fields)
    qed
  qed
  moreover have "?P (snd (add_manual_nodes env inputs s))"
    using add assms(2) by (cases "inputs = []") (simp_all add: add_manual_nodes_def)
  ultimately show ?thesis by simp
qed

definition cloud_calm :: cloud_env where
  "cloud_calm = \<lparr>ce_apply = calm_env, ce_iso = (\<lambda>_. ''2024'')\<rparr>"

definition manual_start :: "node list \<Rightarrow> node list \<Rightarrow> manual_state" where
  "manual_start insts manual = \<lparr>ms_apply = (apply_start [''A''])\<lparr>as_nodes := (insts, manual)\<rparr>, ms_loaded = True,
     ms_disk = Some [], ms_updatedAt = None\<rparr>"

definition ss_input :: "string \<Rightarrow> string \<Rightarrow> manual_input" where
  "ss_input l ip = (bare_input l)\<lparr>mi_ipv4 := Some ip, mi_ssPort := Some 8388, mi_ssPassword := Some ''pw''\<rparr>"

definition trojan_node :: node where
  "trojan_node = (bare_node ''cloud-m1'' ''m1'')\<lparr>cn_provider := Some ''manual'', cn_ipv4 := Some ''203.0.113.9'',
     cn_trojanPort := Some 443, cn_trojanPassword := Some ''pw'', cn_trojanServerName := Some ''example.org'',
     cn_trojanInsecure := Some True\<rparr>"

lemma manual_nodes_stay_apart_witness:
  "map cn_label (ms_manual (snd (add_manual_nodes cloud_calm
       [ss_input ''a'' ''203.0.113.1'', ss_input '' a'' ''203.0.113.2'', ss_input ''b'' ''203.0.113.9''] (manual_start [] [trojan_node]))))
     = [''m1'', ''a'']
   \<and> manual_apart (as_nodes (ms_apply (snd (add_manual_nodes cloud_calm
       [ss_input ''a'' ''203.0.113.1'', ss_input '' a'' ''203.0.113.2'', ss_input ''b'' ''203.0.113.9''] (manual_start [] [trojan_node])))))"
proof -
  have "ms_loaded (manual_start [] [trojan_node])" "manual_apart (as_nodes (ms_apply (manual_start [] [trojan_node])))"
    "distinct (map cn_instanceId (ms_manual (manual_start [] [trojan_node])))"
    "\<forall>m \<in> set (ms_instances (manual_start [] [trojan_node])). \<not> is_manual m \<longrightarrow> cn_instanceId m \<noteq> ''cloud-m1''"
    by (simp_all add: manual_start_def manual_apart_def ms_manual_def ms_instances_def trojan_node_def is_manual_def)
  from conjunct1 [OF manual_nodes_stay_apart [OF this]] show ?thesis
    by (rule conjI [rotated]) code_simp
qed

subsection \<open>Properties: an import that stops, an update that forgets\<close>

lemma add_internal_stop:
  "add_manual_nodes_internal now sample insts inputs manual = (Inl e, m) \<Longrightarrow>
   \<exists>pre bad post added skipped. inputs = pre @ bad # post
     \<and> add_manual_nodes_internal now sample insts pre manual = (Inr (added, skipped), m) \<and> m = manual @ added
     \<and> create_manual_node (now (length pre)) (sample (length pre)) (insts, m) bad None = Inl e"
proof (induction inputs arbitrary: now sample manual)
  case Nil
  then show ?case by simp
next
  case (Cons i rest)
  let ?now = "\<lambda>k. now (Suc k)" and ?sample = "\<lambda>k. sample (Suc k)"
  consider (new) n where "create_manual_node (now 0) (sample 0) (insts, manual) i None = Inr n"
      "add_manual_nodes_internal ?now ?sample insts rest (manual @ [n]) = (Inl e, m)"
    | (dup) c where "create_manual_node (now 0) (sample 0) (insts, manual) i None = Inl (DuplicateNode c)"
      "add_manual_nodes_internal ?now ?sample insts rest manual = (Inl e, m)"
    | (stop) "create_manual_node (now 0) (sample 0) (insts, manual) i None = Inl e" "m = manual"
    using Cons.prems by (auto split: sum.splits prod.splits manual_error.splits)
  then show ?case
  proof cases
    case new
    from Cons.IH [OF new(2)] obtain pre bad post added skipped where ih: "rest = pre @ bad # post"
        "add_manual_nodes_internal ?now ?sample insts pre (manual @ [n]) = (Inr (added, skipped), m)"
        "m = (manual @ [n]) @ added"
        "create_manual_node (?now (length pre)) (?sample (length pre)) (insts, m) bad None = Inl e" by blast
    then show ?thesis
      using new(1) by (intro exI [of _ "i # pre"] exI [of _ bad] exI [of _ post] exI [of _ "n # added"] exI [of _ skipped]) simp
  next
    case dup
    from Cons.IH [OF dup(2)] obtain pre bad post added skipped where ih: "rest = pre @ bad # post"
        "add_manual_nodes_internal ?now ?sample insts pre manual = (Inr (added, skipped), m)" "m = manual @ added"
        "create_manual_node (?now (length pre)) (?sample (length pre)) (insts, m) bad None = Inl e" by blast
    then show ?thesis
      using dup(1) by (intro exI [of _ "i # pre"] exI [of _ bad] exI [of _ post] exI [of _ added] exI [of _ "skip_of c i # skipped"]) simp
  next
    case stop
    then show ?thesis by (intro exI [of _ "[]"] exI [of _ i] exI [of _ rest] exI [of _ "[]"]) simp
  qed
qed

lemma load_keeps:
  "ms_disk (load_manual_nodes env s) = ms_disk s"
  "as_subs (ms_apply (load_manual_nodes env s)) = as_subs (ms_apply s)"
  by (simp_all add: load_manual_nodes_def sync_manual_nodes_into_instances_def put_manual_def put_instances_def Let_def)

text \<open>
  An import that stops half-way. When an input is rejected for anything but a duplicate, the import ends with its
  error, but the nodes of the inputs before it stay in the list of the manual nodes: they are neither saved nor
  shown among the instances, have no subscription, and yet block their labels and addresses.
\<close>

theorem rejected_input_leaves_half_an_import:
  assumes "add_manual_nodes env inputs s = (Done (Inl e), t)" and "\<forall>sk. e \<noteq> AllSkipped sk"
  defines "s1 \<equiv> load_manual_nodes env s"
  defines "now \<equiv> \<lambda>_ :: nat. ce_iso env (as_step (ms_apply s1))" and "sample \<equiv> av_sample (ce_apply env) (as_step (ms_apply s1))"
  shows "\<exists>pre bad post added skipped. inputs = pre @ bad # post
      \<and> fst (add_manual_nodes_internal now sample (ms_instances s1) pre (ms_manual s1)) = Inr (added, skipped)
      \<and> create_manual_node (now (length pre)) (sample (length pre)) (ms_instances t, ms_manual t) bad None = Inl e
      \<and> ms_manual t = ms_manual s1 @ added
      \<and> ms_disk t = ms_disk s \<and> ms_instances t = ms_instances s1 \<and> as_subs (ms_apply t) = as_subs (ms_apply s)"
proof -
  have "inputs \<noteq> []" using assms(1) by (auto simp: add_manual_nodes_def)
  obtain r m where rm: "add_manual_nodes_internal now sample (ms_instances s1) inputs (ms_manual s1) = (r, m)" by fastforce
  have "r = Inl e" and t: "t = put_manual m s1"
    using assms(1,2) \<open>inputs \<noteq> []\<close> rm
    by (auto simp: add_manual_nodes_def Let_def s1_def now_def sample_def flow_then_Done split: sum.splits if_splits prod.splits)
  from add_internal_stop [OF rm [unfolded this(1)]] obtain pre bad post added skipped where
    stop: "inputs = pre @ bad # post"
      "add_manual_nodes_internal now sample (ms_instances s1) pre (ms_manual s1) = (Inr (added, skipped), m)"
      "m = ms_manual s1 @ added"
      "create_manual_node (now (length pre)) (sample (length pre)) (ms_instances s1, m) bad None = Inl e" by blast
  moreover have "ms_disk t = ms_disk s" "ms_instances t = ms_instances s1" "ms_manual t = m"
      "as_subs (ms_apply t) = as_subs (ms_apply s)"
    by (simp_all add: t s1_def load_keeps) (simp add: put_manual_def load_keeps)
  ultimately show ?thesis
    by (intro exI [of _ pre] exI [of _ bad] exI [of _ post] exI [of _ added] exI [of _ skipped]) simp
qed

lemma rejected_input_leaves_half_an_import_witness:
  "map cn_label (ms_manual (snd (add_manual_nodes cloud_calm [ss_input ''a'' ''203.0.113.1'', bare_input ''b'']
       (manual_start [] [])))) = [''a'']
   \<and> ms_disk (snd (add_manual_nodes cloud_calm [ss_input ''a'' ''203.0.113.1'', bare_input ''b''] (manual_start [] [])))
       = Some []"
proof -
  let ?r = "add_manual_nodes cloud_calm [ss_input ''a'' ''203.0.113.1'', bare_input ''b''] (manual_start [] [])"
  have "fst ?r = Done (Inl AddressRequired)" and labels: "map cn_label (ms_manual (snd ?r)) = [''a'']" by code_simp+
  then have "?r = (Done (Inl AddressRequired), snd ?r)" by (metis prod.collapse)
  from rejected_input_leaves_half_an_import [OF this] have "ms_disk (snd ?r) = ms_disk (manual_start [] [])" by auto
  with labels show ?thesis by (simp add: manual_start_def)
qed

lemma update_manual_node_result:
  assumes "update_manual_node env i u s = (Done (Inr n), t)"
    and "find_index (\<lambda>n. cn_instanceId n = i) (ms_manual (load_manual_nodes env s)) = Some j"
  defines "old \<equiv> ms_manual (load_manual_nodes env s) ! j"
  shows "\<exists>now sample. n = updated_node old (input_node now sample (merged_input now i u old))"
proof -
  let ?s1 = "load_manual_nodes env s"
  let ?k = "as_step (ms_apply ?s1)"
  let ?now = "ce_iso env ?k" and ?sample = "av_sample (ce_apply env) ?k 0"
  let ?in = "merged_input ?now i u old"
  from find_index_SomeD [OF assms(2)] have j: "j < length (ms_manual ?s1)" by simp
  obtain up where up: "create_manual_node ?now ?sample (as_nodes (ms_apply ?s1)) ?in (Some i) = Inr up"
    using assms(1,2) by (auto simp: update_manual_node_def Let_def old_def split: sum.splits)
  then have up_eq: "up = input_node ?now ?sample ?in" unfolding create_manual_cases(1) by blast
  let ?u = "updated_node old up"
  obtain s3 where s3: "ms_manual s3 = (ms_manual ?s1)[j := ?u]"
      "n = ms_manual (ms_mark i NsConnected s3) ! j"
  proof -
    from assms(1,2) up obtain s2 s3 where run: "save_manual_nodes env (put_manual ((ms_manual ?s1)[j := ?u]) ?s1) = (Done (), s2)"
        "on_apply (ensure_subscription_for_node (ce_apply env) ?u) s2 = (Done (), s3)"
        "n = ms_manual (ms_mark i NsConnected s3) ! j"
      by (auto simp: update_manual_node_def Let_def old_def flow_then_Done)
    have "as_nodes (ms_apply s3) = as_nodes (ms_apply (put_manual ((ms_manual ?s1)[j := ?u]) ?s1))"
      using on_apply_ensure_nodes(1) [of "ce_apply env" ?u s2] save_manual_fields(1) [of env "put_manual ((ms_manual ?s1)[j := ?u]) ?s1"]
      by (simp add: run)
    then have "ms_manual s3 = (ms_manual ?s1)[j := ?u]" by (simp add: put_manual_def ms_manual_def)
    then show ?thesis using run(3) by (rule that)
  qed
  have "map_first p f xs ! k \<in> {xs ! k, f (xs ! k)}" if "k < length xs" for k p and f :: "node \<Rightarrow> node" and xs
    using that by (induction xs arbitrary: k) (auto simp: nth_Cons split: nat.splits)
  from this [of j "(ms_manual ?s1)[j := ?u]" "\<lambda>n. cn_instanceId n = i" "\<lambda>n. n\<lparr>cn_statusText := Some NsConnected\<rparr>"]
  have "n \<in> {?u, ?u\<lparr>cn_statusText := Some NsConnected\<rparr>}"
    using s3 j by (auto simp: ms_mark_def mark_node_status_def ms_manual_def case_prod_beta split: if_splits)
  then have n: "n = ?u" by (auto simp: updated_node_def)
  show ?thesis using n up_eq by blast
qed

text \<open>
  What an update leaves of a node. The update merges what the user entered with the node as it is, but the merge
  has no place for the TLS settings: whatever is entered, an updated node has lost the server names and the
  permission for insecure certificates of Hysteria2, VLESS and Trojan, and its proxies name the default servers.
  Its id, its time of creation and the ports and secrets that are not entered stay.
\<close>

theorem update_forgets_tls_settings:
  assumes "update_manual_node env i u s = (Done (Inr n), t)"
    and "find_index (\<lambda>n. cn_instanceId n = i) (ms_manual (load_manual_nodes env s)) = Some j"
  defines "old \<equiv> ms_manual (load_manual_nodes env s) ! j"
  shows "(cn_hysteriaServerName n, cn_vlessServerName n, cn_trojanServerName n) = (None, None, None)
    \<and> (cn_hysteriaInsecure n, cn_trojanInsecure n) = (None, None)
    \<and> (truthy_s (cn_createdAt old) \<longrightarrow> cn_createdAt n = cn_createdAt old)
    \<and> (starts_with i ''cloud-'' \<longrightarrow> cn_instanceId n = i)
    \<and> (mi_trojanPort u = None \<longrightarrow> cn_trojanPort n = sanitize_port (map_option of_int (cn_trojanPort old)))
    \<and> (mi_trojanPassword u = None \<longrightarrow> cn_trojanPassword n = trim_or_none (cn_trojanPassword old))
    \<and> (\<forall>v. trojan_proxy n v = trojan_proxy (n\<lparr>cn_trojanServerName := Some default_trojan_server_name,
          cn_trojanInsecure := Some False\<rparr>) v)"
proof -
  obtain now sample where n: "n = updated_node old (input_node now sample (merged_input now i u old))"
    using update_manual_node_result [OF assms(1,2)] by (auto simp: old_def)
  have plain: "normalize_server_name None d = d" "normalize_server_name (Some default_trojan_server_name) default_trojan_server_name
      = default_trojan_server_name" for d
    by (simp_all add: normalize_server_name_def str_or_def) (code_simp)?
  show ?thesis
    unfolding n
    by (auto simp: updated_node_def input_node_def manual_node_def merged_input_def bare_input_def Let_def trim_or_none_def
        nullish_def trojan_proxy_def tls_json_def plain resolve_tls_insecure_def str_or_def starts_with_def bare_node_def
        proxy_head_def)
qed

lemma update_forgets_tls_settings_witness:
  "cn_trojanServerName trojan_node = Some ''example.org''
   \<and> map (\<lambda>n. (cn_label n, cn_trojanServerName n, cn_trojanInsecure n)) (ms_manual (snd (update_manual_node cloud_calm
       ''cloud-m1'' (bare_input ''renamed'') (manual_start [] [trojan_node])))) = [(''renamed'', None, None)]
   \<and> (\<exists>n t. update_manual_node cloud_calm ''cloud-m1'' (bare_input ''renamed'') (manual_start [] [trojan_node])
       = (Done (Inr n), t) \<and> cn_trojanServerName n = None)"
proof -
  let ?r = "update_manual_node cloud_calm ''cloud-m1'' (bare_input ''renamed'') (manual_start [] [trojan_node])"
  have nodes: "cn_trojanServerName trojan_node = Some ''example.org''"
    "map (\<lambda>n. (cn_label n, cn_trojanServerName n, cn_trojanInsecure n)) (ms_manual (snd ?r)) = [(''renamed'', None, None)]"
    by code_simp+
  have "case fst ?r of Done r \<Rightarrow> isl r = False | _ \<Rightarrow> False" by code_simp
  then obtain n where "fst ?r = Done (Inr n)" by (auto split: flow.splits simp: isl_def) (metis sum.exhaust)
  then have run: "?r = (Done (Inr n), snd ?r)" by (metis prod.collapse)
  have "find_index (\<lambda>n. cn_instanceId n = ''cloud-m1'')
      (ms_manual (load_manual_nodes cloud_calm (manual_start [] [trojan_node]))) = Some 0" by code_simp
  from update_forgets_tls_settings [OF run this] run nodes show ?thesis by blast
qed

text \<open>
  A node of the file that names a provider of its own is not recognised as manual, and every merge into the
  instances lists it once more.
\<close>

theorem foreign_manual_node_is_listed_again:
  assumes "n \<in> set (ms_manual s)" "cn_provider n = Some p" "p \<noteq> ''manual''" "p \<noteq> ''''"
  shows "length (filter (\<lambda>m. m = listed_manual n) (ms_instances (sync_manual_nodes_into_instances env
           (sync_manual_nodes_into_instances env s))))
       > length (filter (\<lambda>m. m = listed_manual n) (ms_instances (sync_manual_nodes_into_instances env s)))"
proof -
  have foreign: "\<not> is_manual (listed_manual n)" using assms(2-4) by (simp add: is_manual_def listed_manual_def str_or_def)
  let ?L = "map listed_manual (ms_manual s)" and ?c = "\<lambda>xs. length (filter (\<lambda>m. m = listed_manual n) xs)"
  have "(\<lambda>m. m = listed_manual n \<and> \<not> is_manual m) = (\<lambda>m. m = listed_manual n)" using foreign by auto
  then have "filter (\<lambda>m. m = listed_manual n) (filter (\<lambda>m. \<not> is_manual m) xs) = filter (\<lambda>m. m = listed_manual n) xs" for xs
    by (simp add: conj_commute)
  then have "?c (ms_instances (sync_manual_nodes_into_instances env (sync_manual_nodes_into_instances env s)))
      = ?c (ms_instances (sync_manual_nodes_into_instances env s)) + ?c ?L"
    by (simp add: ms_instances_sync)
  moreover have "listed_manual n \<in> set (filter (\<lambda>m. m = listed_manual n) ?L)" using assms(1) by auto
  then have "0 < ?c ?L" by (metis length_pos_if_in_set)
  ultimately show ?thesis by simp
qed

end
