(* ===== verification/ManualForm.thy ===== *)
theory ManualForm
  imports ManualNodes
begin

text \<open>
  \<open>views/CloudView/manualNodeForm.ts\<close>: the form in which a manual node is entered and edited. All its fields are
  texts; it is filled from a node and read back as the input of \<open>addManualNode\<close> and \<open>updateManualNode\<close>.
\<close>

subsection \<open>Numbers from text\<close>

text \<open>\<open>Number(s)\<close> for a text, \<^const>\<open>None\<close> when it is not finite: the empty text is 0, a prefix makes it a
  hexadecimal, octal or binary number, and everything else is a decimal with an optional sign, fraction and
  exponent. The value is the exact one, which a double rounds.\<close>

definition radix_digit :: "char \<Rightarrow> int" where
  "radix_digit c = (let n = of_char c :: int
     in if 48 \<le> n \<and> n \<le> 57 then n - 48 else if 65 \<le> n \<and> n \<le> 70 then n - 55
        else if 97 \<le> n \<and> n \<le> 102 then n - 87 else 99)"

definition radix_value :: "int \<Rightarrow> string \<Rightarrow> rat option" where
  "radix_value base ds = (if ds \<noteq> '''' \<and> list_all (\<lambda>c. radix_digit c < base) ds
     then Some (of_int (foldl (\<lambda>n c. base * n + radix_digit c) 0 ds)) else None)"

definition exponent_of :: "string \<Rightarrow> int option" where
  "exponent_of s = (case s of
      [] \<Rightarrow> Some 0
    | c # cs \<Rightarrow>
        if c \<noteq> CHR ''e'' \<and> c \<noteq> CHR ''E'' then None
        else let neg = (take 1 cs = ''-''); ds = (if take 1 cs = ''-'' \<or> take 1 cs = ''+'' then drop 1 cs else cs)
          in if ds = '''' \<or> \<not> list_all is_digit ds then None
             else Some (if neg then - digits_value ds else digits_value ds))"

definition decimal_value :: "string \<Rightarrow> rat option" where
  "decimal_value s =
     (let ds = takeWhile is_digit s; rest = dropWhile is_digit s; dot = (take 1 rest = ''.'');
          fs = (if dot then takeWhile is_digit (drop 1 rest) else '''');
          tail = (if dot then dropWhile is_digit (drop 1 rest) else rest)
      in if ds = '''' \<and> fs = '''' then None
         else case exponent_of tail of
           None \<Rightarrow> None
         | Some e \<Rightarrow> (let k = e - int (length fs); m = of_int (digits_value (ds @ fs))
             in Some (if 0 \<le> k then m * 10 ^ nat k else m / 10 ^ nat (- k))))"

definition text_number :: "string \<Rightarrow> rat option" where
  "text_number s = (let t = js_trim s; prefix = js_lower (take 2 t)
     in if t = '''' then Some 0
        else if prefix = ''0x'' then radix_value 16 (drop 2 t)
        else if prefix = ''0o'' then radix_value 8 (drop 2 t)
        else if prefix = ''0b'' then radix_value 2 (drop 2 t)
        else if take 1 t = ''-'' then map_option uminus (decimal_value (drop 1 t))
        else if take 1 t = ''+'' then decimal_value (drop 1 t)
        else decimal_value t)"

subsection \<open>The form\<close>

record manual_form =
  mf_label :: string
  mf_ipv4 :: string
  mf_ipv6 :: string
  mf_ssPort :: string
  mf_ssPassword :: string
  mf_hysteriaPort :: string
  mf_hysteriaPassword :: string
  mf_vlessPort :: string
  mf_vlessUUID :: string
  mf_vlessPublicKey :: string
  mf_vlessShortId :: string
  mf_trojanPort :: string
  mf_trojanPassword :: string

definition reset_manual_form :: manual_form where
  "reset_manual_form = \<lparr>mf_label = '''', mf_ipv4 = '''', mf_ipv6 = '''', mf_ssPort = '''', mf_ssPassword = '''',
     mf_hysteriaPort = '''', mf_hysteriaPassword = '''', mf_vlessPort = '''', mf_vlessUUID = '''',
     mf_vlessPublicKey = '''', mf_vlessShortId = '''', mf_trojanPort = '''', mf_trojanPassword = ''''\<rparr>"

definition to_optional_number :: "string \<Rightarrow> int option" where
  "to_optional_number v = (if v = '''' then None
     else case text_number v of
       None \<Rightarrow> None
     | Some q \<Rightarrow> let port = js_trunc q in if port \<le> 0 \<or> 65535 < port then None else Some port)"

definition form_port :: "string \<Rightarrow> rat option" where
  "form_port v = map_option of_int (to_optional_number v)"

definition form_input :: "manual_form \<Rightarrow> manual_input" where
  "form_input f = (bare_input (js_trim (mf_label f)))
     \<lparr>mi_ipv4 := nonempty (js_trim (mf_ipv4 f)), mi_ipv6 := nonempty (js_trim (mf_ipv6 f)),
      mi_ssPort := form_port (mf_ssPort f), mi_ssPassword := nonempty (js_trim (mf_ssPassword f)),
      mi_hysteriaPort := form_port (mf_hysteriaPort f),
      mi_hysteriaPassword := nonempty (js_trim (mf_hysteriaPassword f)),
      mi_vlessPort := form_port (mf_vlessPort f), mi_vlessUUID := nonempty (js_trim (mf_vlessUUID f)),
      mi_vlessPublicKey := nonempty (js_trim (mf_vlessPublicKey f)),
      mi_vlessShortId := nonempty (js_trim (mf_vlessShortId f)),
      mi_trojanPort := form_port (mf_trojanPort f), mi_trojanPassword := nonempty (js_trim (mf_trojanPassword f))\<rparr>"

text \<open>A port of the input is positive or missing, so it counts as true when it is there.\<close>

definition input_has_protocol :: "manual_input \<Rightarrow> bool" where
  "input_has_protocol u \<longleftrightarrow>
     mi_ssPort u \<noteq> None \<and> truthy_s (mi_ssPassword u)
     \<or> mi_hysteriaPort u \<noteq> None \<and> truthy_s (mi_hysteriaPassword u)
     \<or> mi_vlessPort u \<noteq> None \<and> truthy_s (mi_vlessUUID u) \<and> truthy_s (mi_vlessPublicKey u)
     \<or> mi_trojanPort u \<noteq> None \<and> truthy_s (mi_trojanPassword u)"

definition get_manual_input_from_form :: "manual_form \<Rightarrow> string + manual_input" where
  "get_manual_input_from_form f =
     (if js_trim (mf_label f) = '''' then Inl ''label-required''
      else if js_trim (mf_ipv4 f) = '''' \<and> js_trim (mf_ipv6 f) = '''' then Inl ''address-required''
      else if input_has_protocol (form_input f) then Inr (form_input f)
      else Inl ''protocol-required'')"

definition port_text :: "int option \<Rightarrow> string" where
  "port_text p = (if truthy_n p then int_text (the p) else '''')"

definition populate_manual_form_from_node :: "node \<Rightarrow> manual_form" where
  "populate_manual_form_from_node n =
     \<lparr>mf_label = cn_label n, mf_ipv4 = opt_or (cn_ipv4 n) '''', mf_ipv6 = opt_or (cn_ipv6 n) '''',
      mf_ssPort = (if truthy_n (cn_ssPort n) then port_text (cn_ssPort n) else port_text (cn_port n)),
      mf_ssPassword = opt_or (cn_ssPassword n) (opt_or (cn_password n) ''''),
      mf_hysteriaPort = port_text (cn_hysteriaPort n), mf_hysteriaPassword = opt_or (cn_hysteriaPassword n) '''',
      mf_vlessPort = port_text (cn_vlessPort n), mf_vlessUUID = opt_or (cn_vlessUUID n) '''',
      mf_vlessPublicKey = opt_or (cn_vlessPublicKey n) '''', mf_vlessShortId = opt_or (cn_vlessShortId n) '''',
      mf_trojanPort = port_text (cn_trojanPort n), mf_trojanPassword = opt_or (cn_trojanPassword n) ''''\<rparr>"

subsection \<open>Messages\<close>

text \<open>\<open>tr\<close> is the translation of a key with its parameters.\<close>

definition map_manual_error :: "(string \<Rightarrow> string dict \<Rightarrow> string) \<Rightarrow> string \<Rightarrow> string" where
  "map_manual_error tr e =
     (if e = ''label-required'' then tr ''cloud.errors.manualLabelRequired'' []
      else if e = ''address-required'' then tr ''cloud.errors.manualAddressRequired'' []
      else if e = ''protocol-required'' then tr ''cloud.errors.manualProtocolRequired'' []
      else if e = ''duplicate'' then tr ''cloud.errors.manualDuplicate'' []
      else if e = ''manual-node-not-found'' then tr ''cloud.errors.importInvalid'' []
      else e)"

definition format_skipped_import_entry :: "(string \<Rightarrow> string dict \<Rightarrow> string) \<Rightarrow> skip_entry \<Rightarrow> string" where
  "format_skipped_import_entry tr k = (case sk_reason k of
      ByIpv4 \<Rightarrow> tr ''cloud.manual.importSkippedIpv4'' [(''value'', sk_identifier k)]
    | ByIpv6 \<Rightarrow> tr ''cloud.manual.importSkippedIpv6'' [(''value'', sk_identifier k)]
    | ByLabel \<Rightarrow> tr ''cloud.manual.importSkippedLabel'' [(''value'', sk_identifier k)])"

subsection \<open>Facts\<close>

lemma lower_digit: "is_digit c \<Longrightarrow> lower_char c = c"
  by (simp add: lower_char_def is_digit_def Let_def)

lemma js_lower_digits: "list_all is_digit s \<Longrightarrow> js_lower s = s"
  unfolding js_lower_def by (rule map_idI) (simp add: lower_digit list_all_iff)

lemma digits_trim: "list_all is_digit s \<Longrightarrow> js_trim s = s"
proof -
  assume d: "list_all is_digit s"
  have "trim_left t = t" if "list_all is_digit t" for t
    using that by (cases t) (auto simp: trim_left_def digit_not_ws)
  moreover have "list_all is_digit (rev s)" using d by (simp add: list_all_iff)
  ultimately show ?thesis using d by (simp add: js_trim_def)
qed

lemma text_number_nat: "text_number (nat_text n) = Some (of_nat n)"
proof -
  let ?t = "nat_text n"
  have d: "list_all is_digit ?t" using nat_text_digits by (auto simp: list_all_iff)
  have "list_all is_digit (take 2 ?t)" using d by (auto simp: list_all_iff dest: in_set_takeD)
  then have low: "js_lower (take 2 ?t) = take 2 ?t" by (rule js_lower_digits)
  have pre: "take 2 ?t \<noteq> [CHR ''0'', x]" "take 1 ?t \<noteq> [x]" if "\<not> is_digit x" for x
  proof -
    have "is_digit y" if "y \<in> set (take k ?t)" for y k
      using that d by (auto simp: list_all_iff dest: in_set_takeD)
    then have "x \<notin> set (take k ?t)" for k using \<open>\<not> is_digit x\<close> by blast
    then show "take 2 ?t \<noteq> [CHR ''0'', x]" "take 1 ?t \<noteq> [x]" by (metis list.set_intros)+
  qed
  have dec: "decimal_value ?t = Some (of_nat n)"
  proof -
    have rest: "dropWhile is_digit ?t = []" using d by (simp add: list_all_iff)
    show ?thesis by (simp add: decimal_value_def takeWhile_digits_nat_text digits_value_nat_text exponent_of_def Let_def rest)
  qed
  show ?thesis
    using digits_trim [OF d] low pre [of "CHR ''x''"] pre [of "CHR ''o''"] pre [of "CHR ''b''"] pre [of "CHR ''-''"]
      pre [of "CHR ''+''"] dec by (simp add: text_number_def Let_def is_digit_def)
qed

lemma to_optional_number_port: "1 \<le> p \<Longrightarrow> p \<le> 65535 \<Longrightarrow> to_optional_number (port_text (Some p)) = Some p"
  by (simp add: to_optional_number_def port_text_def int_text_def text_number_nat js_trunc_def)

subsection \<open>Properties: editing a node\<close>

lemma trim_or_none_back [simp]:
  "trim_or_none (trim_or_none x) = trim_or_none x"
  "nonempty (js_trim (opt_or (trim_or_none x) '''')) = trim_or_none x"
proof -
  have empty: "js_trim '''' = ''''" by (simp add: js_trim_def trim_left_def)
  have "trim_or_none x = None \<or> (\<exists>s. trim_or_none x = Some (js_trim s) \<and> js_trim s \<noteq> '''')"
    by (cases x) (auto simp: trim_or_none_def nonempty_def)
  then show "trim_or_none (trim_or_none x) = trim_or_none x"
    "nonempty (js_trim (opt_or (trim_or_none x) '''')) = trim_or_none x"
    by (auto simp: trim_or_none_def [of None] trim_or_none_def [of "Some _"] nonempty_def str_or_def empty)
qed

lemma sanitize_back [simp]:
  "sanitize_port (map_option of_int (sanitize_port v)) = sanitize_port v"
  "form_port (port_text (sanitize_port v)) = map_option of_int (sanitize_port v)"
proof -
  have p: "1 \<le> p \<and> p \<le> 65535" if "sanitize_port v = Some p" for p using sanitized_range [OF that] .
  show "sanitize_port (map_option of_int (sanitize_port v)) = sanitize_port v"
    using p by (cases "sanitize_port v") (auto simp: sanitize_port_def js_trunc_def Let_def)
  show "form_port (port_text (sanitize_port v)) = map_option of_int (sanitize_port v)"
    using p to_optional_number_port
    by (cases "sanitize_port v") (auto simp: form_port_def port_text_def to_optional_number_def)
qed

lemma sanitized_truthy [simp]: "truthy_n (sanitize_port v) \<longleftrightarrow> sanitize_port v \<noteq> None"
  by (cases "sanitize_port v") (auto dest: sanitized_range)

definition without_tls :: "node \<Rightarrow> node" where
  "without_tls n = n\<lparr>cn_hysteriaServerName := None, cn_hysteriaInsecure := None, cn_vlessServerName := None,
     cn_trojanServerName := None, cn_trojanInsecure := None\<rparr>"

lemma input_node_fields [simp]:
  fixes input :: manual_input and now sample :: string
  defines "n \<equiv> input_node now sample input"
  shows "cn_instanceId n = (let seed = opt_or (mi_instanceId input) (''manual-'' @ sample)
      in if starts_with seed ''cloud-'' then seed else ''cloud-'' @ seed)"
    "cn_label n = js_trim (mi_label input)" "cn_ipv4 n = Some (js_trim (or_else (mi_ipv4 input) ''''))"
    "cn_ipv6 n = Some (js_trim (or_else (mi_ipv6 input) ''''))" "cn_provider n = Some ''manual''"
    "cn_status n = Some ''active''" "cn_statusText n = Some NsConnected" "cn_region n = Some (opt_or (mi_region input) '''')"
    "cn_plan n = Some (opt_or (mi_plan input) '''')" "cn_createdAt n = Some (opt_or (mi_createdAt input) now)"
    "cn_ssPort n = sanitize_port (mi_ssPort input)" "cn_ssPassword n = trim_or_none (mi_ssPassword input)"
    "cn_hysteriaPort n = sanitize_port (mi_hysteriaPort input)"
    "cn_hysteriaPassword n = trim_or_none (mi_hysteriaPassword input)"
    "cn_hysteriaServerName n = trim_or_none (mi_hysteriaServerName input)" "cn_hysteriaInsecure n = mi_hysteriaInsecure input"
    "cn_vlessPort n = sanitize_port (mi_vlessPort input)" "cn_vlessUUID n = trim_or_none (mi_vlessUUID input)"
    "cn_vlessPublicKey n = trim_or_none (mi_vlessPublicKey input)" "cn_vlessShortId n = trim_or_none (mi_vlessShortId input)"
    "cn_vlessServerName n = trim_or_none (mi_vlessServerName input)" "cn_trojanPort n = sanitize_port (mi_trojanPort input)"
    "cn_trojanPassword n = trim_or_none (mi_trojanPassword input)"
    "cn_trojanServerName n = trim_or_none (mi_trojanServerName input)" "cn_trojanInsecure n = mi_trojanInsecure input"
    "cn_replacedInstanceId n = None" "cn_lastDeployWarning n = None" "cn_port n = None" "cn_password n = None"
    "cn_vlessRelayPort n = None" "cn_connectivityStatus n = None" "cn_connectivityTesting n = None"
    "cn_lastConnectivityResult n = None" "cn_speedMs n = None" "cn_speedMbps n = None" "cn_speedError n = None"
    "cn_speedTesting n = None"
  by (simp_all add: n_def input_node_def manual_node_def Let_def bare_node_def)

lemma form_of_input_node:
  fixes input :: manual_input and now sample :: string
  defines "n \<equiv> input_node now sample input"
  defines "u \<equiv> form_input (populate_manual_form_from_node n)"
  shows "mi_label u = cn_label n" "mi_ssPort u = map_option of_int (cn_ssPort n)" "mi_ssPassword u = cn_ssPassword n"
    "mi_hysteriaPort u = map_option of_int (cn_hysteriaPort n)" "mi_hysteriaPassword u = cn_hysteriaPassword n"
    "mi_vlessPort u = map_option of_int (cn_vlessPort n)" "mi_vlessUUID u = cn_vlessUUID n"
    "mi_vlessPublicKey u = cn_vlessPublicKey n" "mi_vlessShortId u = cn_vlessShortId n"
    "mi_trojanPort u = map_option of_int (cn_trojanPort n)" "mi_trojanPassword u = cn_trojanPassword n"
    "mi_region u = None" "mi_plan u = None"
    "mi_ipv4 u = nonempty (the (cn_ipv4 n))" "mi_ipv6 u = nonempty (the (cn_ipv6 n))"
    "cn_label n = js_trim (mi_label input)"
proof -
  have ports: "form_port (port_text None) = None"
    by (simp add: form_port_def port_text_def to_optional_number_def)
  show "mi_label u = cn_label n" "mi_ssPort u = map_option of_int (cn_ssPort n)" "mi_ssPassword u = cn_ssPassword n"
    "mi_hysteriaPort u = map_option of_int (cn_hysteriaPort n)" "mi_hysteriaPassword u = cn_hysteriaPassword n"
    "mi_vlessPort u = map_option of_int (cn_vlessPort n)" "mi_vlessUUID u = cn_vlessUUID n"
    "mi_vlessPublicKey u = cn_vlessPublicKey n" "mi_vlessShortId u = cn_vlessShortId n"
    "mi_trojanPort u = map_option of_int (cn_trojanPort n)" "mi_trojanPassword u = cn_trojanPassword n"
    "mi_region u = None" "mi_plan u = None"
    "mi_ipv4 u = nonempty (the (cn_ipv4 n))" "mi_ipv6 u = nonempty (the (cn_ipv6 n))"
    "cn_label n = js_trim (mi_label input)"
    using ports
    by (simp_all add: u_def n_def form_input_def populate_manual_form_from_node_def bare_input_def str_or_def)
qed

text \<open>
  Opening a node in the edit form and saving it unchanged. The form accepts every node that was accepted when it
  was added, and what is stored is the same node, its id, time of creation, addresses, ports and secrets included,
  but for the TLS settings: the form has no fields for them, and they are gone.
\<close>

theorem unchanged_form_loses_tls_settings:
  assumes "create_manual_node now sample nodes input current = Inr n" and "truthy_s (cn_createdAt n)"
    and "find_index (\<lambda>m. cn_instanceId m = cn_instanceId n) (ms_manual (load_manual_nodes env s)) = Some j"
    and "ms_manual (load_manual_nodes env s) ! j = n"
  shows "\<exists>u. get_manual_input_from_form (populate_manual_form_from_node n) = Inr u
    \<and> (\<forall>m t. update_manual_node env (cn_instanceId n) u s = (Done (Inr m), t) \<longrightarrow> m = without_tls n)"
proof -
  have n: "n = input_node now sample input" and acc: "cn_label n \<noteq> ''''"
      "\<not> (cn_ipv4 n = Some '''' \<and> cn_ipv6 n = Some '''')" "has_protocol n"
    using assms(1) unfolding create_manual_cases(1) by blast+
  let ?f = "populate_manual_form_from_node n"
  let ?u = "form_input ?f"
  note form = form_of_input_node [of now sample input, folded n]
  have get: "get_manual_input_from_form ?f = Inr ?u"
  proof -
    have "js_trim (mf_label ?f) \<noteq> ''''" "\<not> (js_trim (mf_ipv4 ?f) = '''' \<and> js_trim (mf_ipv6 ?f) = '''')"
      using acc by (simp_all add: populate_manual_form_from_node_def n str_or_def)
    moreover have "input_has_protocol ?u"
      using acc(3) by (auto simp: input_has_protocol_def form has_protocol_def truthy_n_def split: option.splits)
    ultimately show ?thesis by (simp add: get_manual_input_from_form_def)
  qed
  have "m = without_tls n" if "update_manual_node env (cn_instanceId n) ?u s = (Done (Inr m), t)" for m t
  proof -
    from update_manual_node_result [OF that assms(3)] assms(4) obtain now' sample' where
      m: "m = updated_node n (input_node now' sample' (merged_input now' (cn_instanceId n) ?u n))" by auto
    have id: "starts_with (cn_instanceId n) ''cloud-''" "cn_instanceId n \<noteq> ''''"
      by (auto simp: n Let_def starts_with_def)
    have ip: "js_trim (or_else (nullish (nonempty a) (Some a)) '''') = js_trim a" for a
      by (cases "a = ''''") (simp_all add: nonempty_def nullish_def)
    have same: "nullish (map_option g x) (map_option g x) = map_option g x" "nullish y y = y" for g :: "int \<Rightarrow> rat" and x and y :: "string option"
      by (cases x; simp add: nullish_def) (cases y; simp add: nullish_def)
    have created: "opt_or (mi_createdAt input) now \<noteq> []" using assms(2) by (simp add: n)
    have same_text: "str_or x x = x" "str_or x '''' = x" for x by (simp_all add: str_or_def)
    note fields = input_node_fields(2-) [of now sample input, folded n]
    show ?thesis
      unfolding m
      by (rule node.equality)
        (use id created in \<open>simp_all add: updated_node_def merged_input_def bare_input_def without_tls_def form fields ip same same_text
          str_or_def [of "opt_or (mi_createdAt input) now"] str_or_def [of "cn_instanceId n"] trim_or_none_def [of None] nullish_def [of None]\<close>)
  qed
  with get show ?thesis by blast
qed

definition trojan_input :: manual_input where
  "trojan_input = (bare_input ''m1'')\<lparr>mi_ipv4 := Some ''203.0.113.9'', mi_ipv6 := Some ''2001:db8::9'',
     mi_trojanPort := Some 443, mi_trojanPassword := Some ''pw'', mi_trojanServerName := Some ''example.org''\<rparr>"

definition entered_node :: node where
  "entered_node = input_node ''2024'' ''r'' trojan_input"

lemma entered_node_found:
  "find_index (\<lambda>m. cn_instanceId m = ''cloud-manual-r'') (ms_manual (load_manual_nodes cloud_calm (manual_start [] [entered_node])))
     = Some 0"
  "ms_manual (load_manual_nodes cloud_calm (manual_start [] [entered_node])) ! 0 = entered_node"
  "cn_instanceId entered_node = ''cloud-manual-r''"
  by code_simp (simp add: load_manual_nodes_def manual_start_def ms_manual_def sync_manual_nodes_into_instances_def
    put_instances_def, code_simp)

lemma ended_with: "case fst r of Done x \<Rightarrow> \<not> isl x | _ \<Rightarrow> False \<Longrightarrow> \<exists>m. r = (Done (Inr m), snd r)"
  by (cases r) (auto split: flow.splits sum.splits simp: isl_def elim: sumE, metis sum.exhaust)

lemma unchanged_form_loses_tls_settings_witness:
  "cn_trojanServerName entered_node = Some ''example.org''
   \<and> (\<exists>u m. get_manual_input_from_form (populate_manual_form_from_node entered_node) = Inr u
        \<and> fst (update_manual_node cloud_calm ''cloud-manual-r'' u (manual_start [] [entered_node])) = Done (Inr m)
        \<and> m = without_tls entered_node \<and> cn_trojanServerName m = None)"
proof -
  let ?u = "projr (get_manual_input_from_form (populate_manual_form_from_node entered_node))"
  let ?r = "update_manual_node cloud_calm ''cloud-manual-r'' ?u (manual_start [] [entered_node])"
  have named: "cn_trojanServerName entered_node = Some ''example.org''" "truthy_s (cn_createdAt entered_node)" by code_simp+
  have "case fst ?r of Done x \<Rightarrow> \<not> isl x | _ \<Rightarrow> False" by code_simp
  from ended_with [OF this] obtain m where run: "?r = (Done (Inr m), snd ?r)" by blast
  have "create_manual_node ''2024'' ''r'' ([], []) trojan_input None = Inr entered_node"
    unfolding create_manual_cases(1) by (simp add: rivals_def entered_node_def) code_simp
  from unchanged_form_loses_tls_settings [OF this named(2), of cloud_calm "manual_start [] [entered_node]" 0]
  obtain u where u: "get_manual_input_from_form (populate_manual_form_from_node entered_node) = Inr u"
      "\<And>m t. update_manual_node cloud_calm ''cloud-manual-r'' u (manual_start [] [entered_node]) = (Done (Inr m), t)
        \<Longrightarrow> m = without_tls entered_node"
    using entered_node_found by auto
  from u(1) have "?u = u" by simp
  with run u have "fst ?r = Done (Inr m)" "m = without_tls entered_node" by (simp_all, metis fst_conv)
  with u(1) named(1) \<open>?u = u\<close> show ?thesis by (auto simp: without_tls_def)
qed

text \<open>
  What the user clears in the edit form stays. An empty field is read as missing, and the update takes the old value
  for what is missing: whatever else is changed, an address, a port or a secret can be replaced, never removed, so a
  protocol that was once configured cannot be taken off the node.
\<close>

theorem cleared_field_is_kept:
  assumes "get_manual_input_from_form f = Inr u" and "update_manual_node env i u s = (Done (Inr n), t)"
    and "find_index (\<lambda>m. cn_instanceId m = i) (ms_manual (load_manual_nodes env s)) = Some j"
  defines "old \<equiv> ms_manual (load_manual_nodes env s) ! j"
  shows "(js_trim (mf_ipv6 f) = '''' \<longrightarrow> cn_ipv6 n = Some (js_trim (or_else (cn_ipv6 old) '''')))
    \<and> (js_trim (mf_ipv4 f) = '''' \<longrightarrow> cn_ipv4 n = Some (js_trim (or_else (cn_ipv4 old) '''')))
    \<and> (mf_trojanPort f = '''' \<longrightarrow> cn_trojanPort n = sanitize_port (map_option of_int (cn_trojanPort old)))
    \<and> (js_trim (mf_trojanPassword f) = '''' \<longrightarrow> cn_trojanPassword n = trim_or_none (cn_trojanPassword old))
    \<and> (js_trim (mf_ssPassword f) = '''' \<longrightarrow> cn_ssPassword n = trim_or_none (cn_ssPassword old))"
proof -
  obtain now sample where n: "n = updated_node old (input_node now sample (merged_input now i u old))"
    using update_manual_node_result [OF assms(2,3)] by (auto simp: old_def)
  have u: "u = form_input f" using assms(1) by (auto simp: get_manual_input_from_form_def split: if_splits)
  show ?thesis
    by (simp add: n u updated_node_def input_node_def manual_node_def merged_input_def form_input_def bare_input_def
        nullish_def Let_def form_port_def to_optional_number_def)
qed

definition cleared_form :: manual_form where
  "cleared_form = (populate_manual_form_from_node entered_node)\<lparr>mf_ipv6 := '' '', mf_label := ''renamed''\<rparr>"

lemma cleared_field_is_kept_witness:
  "mf_ipv6 cleared_form = '' ''
   \<and> (\<exists>m. fst (update_manual_node cloud_calm ''cloud-manual-r'' (projr (get_manual_input_from_form cleared_form))
          (manual_start [] [entered_node])) = Done (Inr m)
        \<and> cn_label m = ''renamed'' \<and> cn_ipv6 m = Some ''2001:db8::9'')"
proof -
  let ?u = "projr (get_manual_input_from_form cleared_form)"
  let ?r = "update_manual_node cloud_calm ''cloud-manual-r'' ?u (manual_start [] [entered_node])"
  have run: "case fst ?r of Done x \<Rightarrow> \<not> isl x \<and> cn_label (projr x) = ''renamed'' | _ \<Rightarrow> False" by code_simp
  then have "case fst ?r of Done x \<Rightarrow> \<not> isl x | _ \<Rightarrow> False" by (auto split: flow.splits)
  from ended_with [OF this] obtain m where m: "?r = (Done (Inr m), snd ?r)" by blast
  have get: "get_manual_input_from_form cleared_form = Inr ?u" by code_simp
  have "js_trim (mf_ipv6 cleared_form) = ''''" "mf_ipv6 cleared_form = '' ''"
    "js_trim (or_else (cn_ipv6 entered_node) '''') = ''2001:db8::9''"
    by code_simp+
  note fields = this
  have "fst ?r = Done (Inr m)" by (subst m) (rule fst_conv)
  moreover from this have "cn_label m = ''renamed''" using run by simp
  moreover have "cn_ipv6 m = Some ''2001:db8::9''"
    using cleared_field_is_kept [OF get m entered_node_found(1)] fields(1,3) entered_node_found(2) by simp
  ultimately show ?thesis using fields(2) by blast
qed

end
