(* ===== verification/ManualParser.thy ===== *)
theory ManualParser
  imports ManualForm Json
begin

text \<open>
  \<open>views/CloudView/manualNodeParser.ts\<close>: the text that is pasted to import nodes, a JSON value or a text with share
  links. What the browser and the language offer to read it, \<open>JSON.parse\<close>, \<open>new URL\<close>, \<open>decodeURIComponent\<close> and
  \<open>atob\<close>, is a record of functions; \<^const>\<open>None\<close> means that they throw.
\<close>

record url_parts =
  ur_hostname :: string
  ur_port :: string
  ur_username :: string
  ur_hash :: string
  ur_params :: "string dict"

record web_env =
  we_json :: "string \<Rightarrow> json option"
  we_url :: "string \<Rightarrow> url_parts option"
  we_decode :: "string \<Rightarrow> string option"
  we_atob :: "string \<Rightarrow> string option"

subsection \<open>Values\<close>

definition to_optional_port :: "string \<Rightarrow> int option" where
  "to_optional_port v = (let t = js_trim v
     in if t = '''' then None
        else case parse_int t of
          None \<Rightarrow> None
        | Some p \<Rightarrow> if p \<le> 0 \<or> 65535 < p then None else Some p)"

definition decode_base64 :: "web_env \<Rightarrow> string \<Rightarrow> string" where
  "decode_base64 web v =
     (let normalized = map (\<lambda>c. if c = CHR ''_'' then CHR ''/'' else if c = CHR ''-'' then CHR ''+'' else c) v;
          padded = normalized @ replicate ((4 - length normalized mod 4) mod 4) CHR ''=''
      in or_else (we_atob web padded) '''')"

definition word_boolean :: "string \<Rightarrow> bool option" where
  "word_boolean s = (let t = js_lower (js_trim s)
     in if t = '''' then None
        else if t \<in> set [''1'', ''true'', ''yes'', ''on''] then Some True
        else if t \<in> set [''0'', ''false'', ''no'', ''off''] then Some False
        else None)"

definition parse_boolean_like :: "json \<Rightarrow> bool option" where
  "parse_boolean_like v = (case v of
      JBool b \<Rightarrow> Some b
    | JNum n \<Rightarrow> if n = 1 then Some True else if n = 0 then Some False else None
    | JStr s \<Rightarrow> word_boolean s
    | _ \<Rightarrow> None)"

definition normalize_host :: "string \<Rightarrow> string" where
  "normalize_host h =
     (let h1 = (if take 1 h = ''['' then drop 1 h else h)
      in if h1 \<noteq> '''' \<and> last h1 = CHR '']'' then butlast h1 else h1)"

definition assign_ip_fields :: "string \<Rightarrow> manual_input \<Rightarrow> manual_input" where
  "assign_ip_fields host u = (let h = normalize_host host
     in if h = '''' then u
        else if js_includes h '':'' then u\<lparr>mi_ipv6 := Some h\<rparr>
        else u\<lparr>mi_ipv4 := Some h\<rparr>)"

text \<open>The pair is the method and the password.\<close>

definition split_credential_pair :: "string \<Rightarrow> (string \<times> string) option" where
  "split_credential_pair v = (case index_of CHR '':'' v of
      None \<Rightarrow> None
    | Some k \<Rightarrow>
        if k = 0 then None
        else let m = js_trim (take k v); p = js_trim (drop (Suc k) v)
          in if m = '''' \<or> p = '''' then None else Some (m, p))"

definition parse_endpoint :: "web_env \<Rightarrow> string \<Rightarrow> (string \<times> int) option" where
  "parse_endpoint web v = (case we_url web (''ss://'' @ v) of
      None \<Rightarrow> None
    | Some url \<Rightarrow> (case to_optional_port (ur_port url) of
          None \<Rightarrow> None
        | Some p \<Rightarrow> if ur_hostname url = '''' then None else Some (ur_hostname url, p)))"

text \<open>\<open>a || b || undefined\<close>.\<close>

fun first_truthy :: "string option list \<Rightarrow> string option" where
  "first_truthy [] = None"
| "first_truthy (v # vs) = (if truthy_s v then v else first_truthy vs)"

definition some_port :: "int \<Rightarrow> rat option" where
  "some_port p = Some (of_int p)"

subsection \<open>Share links\<close>

text \<open>The decoding of the label is not guarded, so it may throw; a link that is not understood is
  \<open>Inr None\<close>.\<close>

definition ss_parts :: "web_env \<Rightarrow> string \<Rightarrow> (string \<times> string) option \<times> (string \<times> int) option" where
  "ss_parts web payload =
     (if js_includes payload ''@'' then
        let ps = js_split CHR ''@'' payload; decoded = decode_base64 web (ps ! 0)
        in (if decoded = '''' then None else split_credential_pair decoded,
            if ps ! 1 = '''' then None else parse_endpoint web (ps ! 1))
      else
        let decoded = decode_base64 web payload
        in if js_includes decoded ''@'' then
             let ps = js_split CHR ''@'' decoded
             in (split_credential_pair (ps ! 0), if ps ! 1 = '''' then None else parse_endpoint web (ps ! 1))
           else (None, None))"

definition before :: "char \<Rightarrow> string \<Rightarrow> string" where
  "before c s = (case index_of c s of None \<Rightarrow> s | Some k \<Rightarrow> take k s)"

definition parse_shadowsocks_url :: "web_env \<Rightarrow> string \<Rightarrow> string + manual_input option" where
  "parse_shadowsocks_url web text =
     (let payload = drop 5 text;
          label = (case index_of CHR ''#'' payload of
              None \<Rightarrow> Some ''''
            | Some h \<Rightarrow> we_decode web (drop (Suc h) payload))
      in case label of
           None \<Rightarrow> Inl ''URIError''
         | Some l \<Rightarrow>
             (case ss_parts web (before CHR ''?'' (before CHR ''#'' payload)) of
                (Some (_, password), Some (host, port)) \<Rightarrow>
                  Inr (Some (assign_ip_fields host ((bare_input (str_or l host))
                    \<lparr>mi_ssPort := some_port port, mi_ssPassword := Some password\<rparr>)))
              | _ \<Rightarrow> Inr None))"

definition url_label :: "web_env \<Rightarrow> url_parts \<Rightarrow> string option" where
  "url_label web url = (if ur_hash url = '''' then Some (ur_hostname url) else we_decode web (drop 1 (ur_hash url)))"

definition param :: "url_parts \<Rightarrow> string \<Rightarrow> string option" where
  "param url k = map_of (ur_params url) k"

definition boolean_param :: "url_parts \<Rightarrow> string \<Rightarrow> string \<Rightarrow> bool option" where
  "boolean_param url a b = (case nullish (param url a) (param url b) of None \<Rightarrow> None | Some s \<Rightarrow> word_boolean s)"

text \<open>What the three other kinds share: the host, the port, the secret and the label, none of which may be
  missing or malformed.\<close>

definition url_head :: "web_env \<Rightarrow> string \<Rightarrow> (url_parts \<Rightarrow> string) \<Rightarrow> (url_parts \<times> manual_input \<times> int \<times> string) option" where
  "url_head web text secret_of = (case we_url web text of
      None \<Rightarrow> None
    | Some url \<Rightarrow>
        (case (to_optional_port (ur_port url), url_label web url, we_decode web (secret_of url)) of
           (Some port, Some l, Some secret) \<Rightarrow>
             if ur_hostname url = '''' \<or> secret_of url = '''' then None
             else Some (url, assign_ip_fields (ur_hostname url) (bare_input l), port, secret)
         | _ \<Rightarrow> None))"

definition parse_trojan_url :: "web_env \<Rightarrow> string \<Rightarrow> manual_input option" where
  "parse_trojan_url web text = (case url_head web text ur_username of
      None \<Rightarrow> None
    | Some (url, u, port, password) \<Rightarrow> Some (u\<lparr>mi_trojanPort := some_port port, mi_trojanPassword := Some password,
        mi_trojanServerName := first_truthy [param url ''sni'', param url ''peer''],
        mi_trojanInsecure := boolean_param url ''allowInsecure'' ''insecure''\<rparr>))"

definition parse_vless_url :: "web_env \<Rightarrow> string \<Rightarrow> manual_input option" where
  "parse_vless_url web text = (case url_head web text ur_username of
      None \<Rightarrow> None
    | Some (url, u, port, uuid) \<Rightarrow> Some (u\<lparr>mi_vlessPort := some_port port, mi_vlessUUID := Some uuid,
        mi_vlessPublicKey := first_truthy [param url ''reality-public-key'', param url ''pbk''],
        mi_vlessShortId := first_truthy [param url ''reality-short-id'', param url ''sid''],
        mi_vlessServerName := first_truthy [param url ''sni'']\<rparr>))"

definition hysteria_secret :: "url_parts \<Rightarrow> string" where
  "hysteria_secret url =
     or_else (first_truthy [nonempty (ur_username url), param url ''auth'', param url ''password'']) ''''"

definition parse_hysteria_url :: "web_env \<Rightarrow> string \<Rightarrow> manual_input option" where
  "parse_hysteria_url web text = (case url_head web text hysteria_secret of
      None \<Rightarrow> None
    | Some (url, u, port, password) \<Rightarrow> Some (u\<lparr>mi_hysteriaPort := some_port port, mi_hysteriaPassword := Some password,
        mi_hysteriaServerName := first_truthy [param url ''sni''],
        mi_hysteriaInsecure := boolean_param url ''insecure'' ''allowInsecure''\<rparr>))"

definition parse_protocol_url :: "web_env \<Rightarrow> string \<Rightarrow> string + manual_input option" where
  "parse_protocol_url web text = (let lower = js_lower text
     in if starts_with lower ''ss://'' then parse_shadowsocks_url web text
        else if starts_with lower ''trojan://'' then Inr (parse_trojan_url web text)
        else if starts_with lower ''vless://'' then Inr (parse_vless_url web text)
        else if starts_with lower ''hysteria2://'' \<or> starts_with lower ''hy2://'' then Inr (parse_hysteria_url web text)
        else Inr None)"

subsection \<open>Finding the links\<close>

text \<open>\<open>raw.match(/((ss|trojan|vless|hysteria2|hy2):\/\/[\S]+)/gi)\<close>: a link starts with a scheme wherever it stands,
  upper or lower case, has at least one character behind it and goes on to the next white space.\<close>

definition link_schemes :: "string list" where
  "link_schemes = [''ss://'', ''trojan://'', ''vless://'', ''hysteria2://'', ''hy2://'']"

definition unspaced :: "string \<Rightarrow> string" where
  "unspaced s = takeWhile (\<lambda>c. \<not> js_ws c) s"

definition link_here :: "string \<Rightarrow> bool" where
  "link_here s \<longleftrightarrow> list_ex (\<lambda>p. starts_with (js_lower (unspaced s)) p \<and> length p < length (unspaced s)) link_schemes"

function protocol_links :: "string \<Rightarrow> string list" where
  "protocol_links [] = []"
| "protocol_links (c # cs) = (if link_here (c # cs)
     then unspaced (c # cs) # protocol_links (dropWhile (\<lambda>c. \<not> js_ws c) cs)
     else protocol_links cs)"
  by pat_completeness auto

termination
  by (relation "measure length") (auto simp: le_imp_less_Suc length_dropWhile_le)

text \<open>The first exception ends the loop.\<close>

fun parse_links :: "web_env \<Rightarrow> string list \<Rightarrow> string + manual_input list" where
  "parse_links web [] = Inr []"
| "parse_links web (l # ls) = (case parse_protocol_url web (js_trim l) of
      Inl e \<Rightarrow> Inl e
    | Inr v \<Rightarrow> (case parse_links web ls of
        Inl e \<Rightarrow> Inl e
      | Inr us \<Rightarrow> Inr (case v of None \<Rightarrow> us | Some u \<Rightarrow> u # us)))"

definition parse_protocol_list :: "web_env \<Rightarrow> string \<Rightarrow> string + manual_input list" where
  "parse_protocol_list web raw = parse_links web (protocol_links raw)"

subsection \<open>JSON\<close>

text \<open>\<open>a ?? b\<close> on JSON values, and a field that is a text.\<close>

definition json_or :: "json \<Rightarrow> json \<Rightarrow> json" where
  "json_or a b = (case a of JUndef \<Rightarrow> b | JNull \<Rightarrow> b | _ \<Rightarrow> a)"

definition text_field :: "json \<Rightarrow> string \<Rightarrow> string option" where
  "text_field r k = (case json_get k r of JStr s \<Rightarrow> Some s | _ \<Rightarrow> None)"

definition trimmed_field :: "json \<Rightarrow> string \<Rightarrow> string option" where
  "trimmed_field r k = (case text_field r k of None \<Rightarrow> None | Some s \<Rightarrow> nonempty (js_trim s))"

definition trimmed_field2 :: "json \<Rightarrow> string \<Rightarrow> string \<Rightarrow> string option" where
  "trimmed_field2 r a b = (case trimmed_field r a of None \<Rightarrow> trimmed_field r b | Some s \<Rightarrow> Some s)"

definition port_field :: "json \<Rightarrow> rat option" where
  "port_field v = map_option of_int (to_optional_port (json_text (json_or v (JStr ''''))))"

definition record_label :: "json \<Rightarrow> string" where
  "record_label r = js_trim (json_text (json_or (json_get ''label'' r) (json_or (json_get ''name'' r) (JStr ''''))))"

definition record_input :: "json \<Rightarrow> manual_input" where
  "record_input r = (bare_input (record_label r))
     \<lparr>mi_ipv4 := trimmed_field r ''ipv4'', mi_ipv6 := trimmed_field r ''ipv6'',
      mi_region := text_field r ''region'', mi_plan := text_field r ''plan'',
      mi_ssPort := port_field (json_or (json_get ''ssPort'' r) (json_get ''port'' r)),
      mi_ssPassword := trimmed_field2 r ''ssPassword'' ''password'',
      mi_hysteriaPort := port_field (json_get ''hysteriaPort'' r),
      mi_hysteriaPassword := trimmed_field r ''hysteriaPassword'',
      mi_hysteriaServerName := trimmed_field2 r ''hysteriaServerName'' ''hysteriaSni'',
      mi_hysteriaInsecure := parse_boolean_like (json_get ''hysteriaInsecure'' r),
      mi_vlessPort := port_field (json_get ''vlessPort'' r), mi_vlessUUID := trimmed_field r ''vlessUUID'',
      mi_vlessPublicKey := trimmed_field r ''vlessPublicKey'', mi_vlessShortId := trimmed_field r ''vlessShortId'',
      mi_vlessServerName := trimmed_field2 r ''vlessServerName'' ''vlessSni'',
      mi_trojanPort := port_field (json_get ''trojanPort'' r), mi_trojanPassword := trimmed_field r ''trojanPassword'',
      mi_trojanServerName := trimmed_field2 r ''trojanServerName'' ''trojanSni'',
      mi_trojanInsecure := parse_boolean_like (json_get ''trojanInsecure'' r)\<rparr>"

text \<open>Arrays among the entries count as objects, but they have no label; the index of an array is not one
  of the names that are read.\<close>

definition record_inputs :: "json \<Rightarrow> manual_input list" where
  "record_inputs data = map record_input
     (filter (\<lambda>r. is_plain_object r \<and> record_label r \<noteq> '''') (case data of JArr rs \<Rightarrow> rs | _ \<Rightarrow> [data]))"

definition parse_imported_nodes :: "web_env \<Rightarrow> string \<Rightarrow> string + manual_input list" where
  "parse_imported_nodes web raw =
     (let inputs = (case we_json web raw of None \<Rightarrow> [] | Some data \<Rightarrow> record_inputs data)
      in if inputs \<noteq> [] then Inr inputs
         else case parse_protocol_list web raw of
           Inl e \<Rightarrow> Inl e
         | Inr us \<Rightarrow> if us = [] then Inl ''invalid'' else Inr us)"

subsection \<open>Properties: what is read\<close>

definition real_port :: "rat option \<Rightarrow> bool" where
  "real_port v \<longleftrightarrow> (\<forall>q. v = Some q \<longrightarrow> (\<exists>p. q = of_int p \<and> 1 \<le> p \<and> p \<le> 65535))"

definition real_ports :: "manual_input \<Rightarrow> bool" where
  "real_ports u \<longleftrightarrow> real_port (mi_ssPort u) \<and> real_port (mi_hysteriaPort u) \<and> real_port (mi_vlessPort u)
     \<and> real_port (mi_trojanPort u)"

lemma optional_port_range: "to_optional_port v = Some p \<Longrightarrow> 1 \<le> p \<and> p \<le> 65535"
  by (auto simp: to_optional_port_def Let_def split: if_splits option.splits)

lemma port_field_real: "real_port (port_field v)"
  by (auto simp: real_port_def port_field_def dest: optional_port_range)

lemma real_port_simps [simp]: "real_port None" "1 \<le> p \<Longrightarrow> p \<le> 65535 \<Longrightarrow> real_port (some_port p)"
  by (auto simp: real_port_def some_port_def)

lemma assign_ip_ports [simp]:
  "real_ports (assign_ip_fields h u) = real_ports u" "mi_label (assign_ip_fields h u) = mi_label u"
  by (simp_all add: assign_ip_fields_def real_ports_def Let_def)

lemma bare_ports [simp]: "real_ports (bare_input l)"
  by (simp add: real_ports_def bare_input_def)

lemma url_head_real: "url_head web text f = Some (url, u, port, secret) \<Longrightarrow> real_ports u \<and> 1 \<le> port \<and> port \<le> 65535"
  by (auto simp: url_head_def split: option.splits if_splits dest: optional_port_range)

lemma endpoint_port: "parse_endpoint web v = Some (h, p) \<Longrightarrow> 1 \<le> p \<and> p \<le> 65535"
  by (auto simp: parse_endpoint_def split: option.splits if_splits dest: optional_port_range)

lemma protocol_url_real: "parse_protocol_url web text = Inr (Some u) \<Longrightarrow> real_ports u"
proof -
  have others: "parse_trojan_url web text = Some u \<Longrightarrow> real_ports u" "parse_vless_url web text = Some u \<Longrightarrow> real_ports u"
    "parse_hysteria_url web text = Some u \<Longrightarrow> real_ports u"
    by (auto simp: parse_trojan_url_def parse_vless_url_def parse_hysteria_url_def real_ports_def
        split: option.splits prod.splits dest!: url_head_real)
  have port: "ss_parts web payload = (c, Some (h, p)) \<Longrightarrow> 1 \<le> p \<and> p \<le> 65535" for payload c h p
    by (auto simp: ss_parts_def Let_def split: if_splits dest: endpoint_port)
  have "real_ports u" if "parse_shadowsocks_url web text = Inr (Some u)"
  proof -
    from that obtain payload m pw host p l where "ss_parts web payload = (Some (m, pw), Some (host, p))"
        and u: "u = assign_ip_fields host ((bare_input l)\<lparr>mi_ssPort := some_port p, mi_ssPassword := Some pw\<rparr>)"
      by (auto simp: parse_shadowsocks_url_def Let_def split: option.splits prod.splits)
    from port [OF this(1)] show ?thesis by (simp add: u) (simp add: real_ports_def bare_input_def)
  qed
  with others show "parse_protocol_url web text = Inr (Some u) \<Longrightarrow> ?thesis"
    by (auto simp: parse_protocol_url_def Let_def split: if_splits)
qed

lemma parse_links_real: "parse_links web ls = Inr us \<Longrightarrow> u \<in> set us \<Longrightarrow> real_ports u"
  by (induction ls arbitrary: us) (auto split: sum.splits option.splits dest: protocol_url_real)

text \<open>
  Whatever is pasted, an import that is read is not empty and every port in it is a whole number between 1 and
  65535, so none is lost when the node is created; and an input that comes from JSON has a label and trimmed, non-empty
  secrets.
\<close>

theorem imported_inputs_are_sound:
  assumes "parse_imported_nodes web raw = Inr us"
  shows "us \<noteq> [] \<and> (\<forall>u \<in> set us. real_ports u)
    \<and> (\<forall>data. we_json web raw = Some data \<longrightarrow> record_inputs data \<noteq> [] \<longrightarrow>
         us = record_inputs data \<and> (\<forall>u \<in> set us. mi_label u \<noteq> '''' \<and> js_trim (mi_label u) = mi_label u
           \<and> trim_or_none (mi_trojanPassword u) = mi_trojanPassword u \<and> trim_or_none (mi_ssPassword u) = mi_ssPassword u))"
proof -
  have json: "real_ports u \<and> mi_label u \<noteq> '''' \<and> js_trim (mi_label u) = mi_label u
      \<and> trim_or_none (mi_trojanPassword u) = mi_trojanPassword u \<and> trim_or_none (mi_ssPassword u) = mi_ssPassword u"
    if "u \<in> set (record_inputs data)" for u data
  proof -
    have field: "trim_or_none (trimmed_field r k) = trimmed_field r k" for r k
      by (auto simp: trim_or_none_def trimmed_field_def nonempty_def split: option.splits)
    have field2: "trim_or_none (trimmed_field2 r a b) = trimmed_field2 r a b" for r a b
      using field [of r a] field [of r b] by (cases "trimmed_field r a") (simp_all add: trimmed_field2_def)
    from that obtain r where "u = record_input r" "record_label r \<noteq> ''''" by (auto simp: record_inputs_def)
    then show ?thesis
      by (simp add: record_input_def real_ports_def port_field_real field field2 bare_input_def) (simp add: record_label_def)
  qed
  show ?thesis
    using assms json by (auto simp: parse_imported_nodes_def parse_protocol_list_def Let_def parse_links_real
        split: option.splits if_splits sum.splits)
qed

subsection \<open>Properties: links in a text\<close>

text \<open>A text that the pattern takes as one link.\<close>

definition is_link :: "string \<Rightarrow> bool" where
  "is_link l \<longleftrightarrow> list_all (\<lambda>c. \<not> js_ws c) l \<and> list_ex (\<lambda>p. starts_with (js_lower l) p \<and> length p < length l) link_schemes"

lemma unspaced_append: "list_all (\<lambda>c. \<not> js_ws c) l \<Longrightarrow> s = '''' \<or> js_ws (hd s) \<Longrightarrow> unspaced (l @ s) = l"
  by (cases s) (auto simp: unspaced_def takeWhile_append list_all_iff takeWhile_eq_all_conv)

lemma protocol_links_skip: "js_ws c \<Longrightarrow> protocol_links (c # s) = protocol_links s"
  by (auto simp: link_here_def unspaced_def link_schemes_def starts_with_def js_lower_def)

lemma protocol_links_spaces: "list_all js_ws w \<Longrightarrow> protocol_links (w @ s) = protocol_links s"
  by (induction w) (simp_all add: protocol_links_skip del: protocol_links.simps)

lemma protocol_links_link:
  assumes "is_link l" "s = '''' \<or> js_ws (hd s)"
  shows "protocol_links (l @ s) = l # protocol_links s"
proof -
  from assms(1) obtain c cs where l: "l = c # cs" by (cases l) (auto simp: is_link_def list_ex_iff)
  have u: "unspaced (c # cs @ s) = c # cs"
    using unspaced_append [of l s] assms by (simp add: l is_link_def)
  then have "link_here (c # cs @ s)" using assms(1) by (simp add: link_here_def is_link_def l)
  moreover have "dropWhile (\<lambda>c. \<not> js_ws c) (cs @ s) = s"
    using assms by (cases s) (auto simp: l is_link_def list_all_iff)
  ultimately show ?thesis by (simp add: l u)
qed

text \<open>
  Every link of a list is found. However the links are separated, by line ends, blanks or both, and whatever white space
  stands around the list, the scanner answers exactly these links, in their order, each as a whole.
\<close>

theorem listed_links_are_found:
  assumes "list_all is_link ls" and "list_all (\<lambda>w. w \<noteq> '''' \<and> list_all js_ws w) seps" and "length seps = length ls"
    and "list_all js_ws w"
  shows "protocol_links (w @ concat (map2 (@) ls seps)) = ls"
proof -
  have "protocol_links (concat (map2 (@) ls seps)) = ls"
    using assms(3,1,2)
  proof (induction seps ls rule: list_induct2)
    case Nil
    then show ?case by simp
  next
    case (Cons x xs l ls)
    let ?rest = "concat (map2 (@) ls xs)"
    have "x @ ?rest = '''' \<or> js_ws (hd (x @ ?rest))" using Cons.prems(2) by (cases x) auto
    then have "protocol_links (l @ (x @ ?rest)) = l # protocol_links (x @ ?rest)"
      using Cons.prems(1) by (intro protocol_links_link) simp_all
    also have "protocol_links (x @ ?rest) = protocol_links ?rest"
      using Cons.prems(2) by (intro protocol_links_spaces) simp
    finally show ?case using Cons by simp
  qed
  then show ?thesis using assms(4) by (simp add: protocol_links_spaces)
qed

definition two_links :: "string list" where
  "two_links = [''SS://YWVzOnB3@192.0.2.1:8388#a'', ''trojan://pw@192.0.2.2:443'']"

lemma listed_links_are_found_witness:
  "protocol_links ('' '' @ concat (map2 (@) two_links [[CHR 0x0D, CHR 0x0A], '' ''])) = two_links"
proof -
  have "list_all is_link two_links" "list_all (\<lambda>w. w \<noteq> '''' \<and> list_all js_ws w) [[CHR 0x0D, CHR 0x0A], '' '']"
    "length [[CHR 0x0D, CHR 0x0A], '' ''] = length two_links" "list_all js_ws '' ''"
    by code_simp+
  from listed_links_are_found [OF this] show ?thesis .
qed

subsection \<open>Properties: a link that stops the import\<close>

lemma unspaced_no_ws: "list_all (\<lambda>c. \<not> js_ws c) (unspaced s)"
  by (auto simp: unspaced_def list_all_iff dest: set_takeWhileD)

lemma protocol_links_no_ws: "l \<in> set (protocol_links s) \<Longrightarrow> list_all (\<lambda>c. \<not> js_ws c) l"
  by (induction s rule: protocol_links.induct) (auto simp: unspaced_no_ws split: if_splits)

lemma no_ws_trim: "list_all (\<lambda>c. \<not> js_ws c) l \<Longrightarrow> js_trim l = l"
proof -
  assume w: "list_all (\<lambda>c. \<not> js_ws c) l"
  have "trim_left t = t" if "list_all (\<lambda>c. \<not> js_ws c) t" for t
    using that by (cases t) (auto simp: trim_left_def)
  moreover have "list_all (\<lambda>c. \<not> js_ws c) (rev l)" using w by (simp add: list_all_iff)
  ultimately show ?thesis using w by (simp add: js_trim_def)
qed

lemma protocol_url_throws: "parse_protocol_url web l = Inl e \<Longrightarrow> e = ''URIError'' \<and> starts_with (js_lower l) ''ss://''"
  by (auto simp: parse_protocol_url_def parse_shadowsocks_url_def Let_def split: if_splits option.splits prod.splits)

lemma parse_links_throws:
  "l \<in> set ls \<Longrightarrow> parse_protocol_url web (js_trim l) = Inl e \<Longrightarrow> parse_links web ls = Inl ''URIError''"
proof (induction ls)
  case Nil
  then show ?case by simp
next
  case (Cons k ls)
  show ?case
  proof (cases "parse_protocol_url web (js_trim k)")
    case (Inl e')
    then show ?thesis using protocol_url_throws by fastforce
  next
    case (Inr v)
    with Cons show ?thesis by auto
  qed
qed

text \<open>
  One bad label stops the import. When the label of a Shadowsocks link cannot be decoded, the whole import throws, and none of the
  other links is imported, wherever the link stands in the text; a label that cannot be decoded in a link of any other
  kind never throws.
\<close>

theorem malformed_label_stops_the_import:
  assumes "l \<in> set (protocol_links raw)" and "starts_with (js_lower l) ''ss://''"
    and "index_of CHR ''#'' (drop 5 l) = Some h" and "we_decode web (drop (Suc h) (drop 5 l)) = None"
    and "case we_json web raw of None \<Rightarrow> True | Some data \<Rightarrow> record_inputs data = []"
  shows "parse_imported_nodes web raw = Inl ''URIError''
    \<and> (\<forall>k. \<not> starts_with (js_lower k) ''ss://'' \<longrightarrow> \<not> isl (parse_protocol_url web k))"
proof -
  have "js_trim l = l" using assms(1) by (intro no_ws_trim protocol_links_no_ws)
  then have "parse_protocol_url web (js_trim l) = Inl ''URIError''"
    using assms(2-4) by (simp add: parse_protocol_url_def parse_shadowsocks_url_def Let_def)
  with assms(1) have "parse_protocol_list web raw = Inl ''URIError''"
    unfolding parse_protocol_list_def by (rule parse_links_throws)
  then have "parse_imported_nodes web raw = Inl ''URIError''"
    using assms(5) by (cases "we_json web raw") (simp_all add: parse_imported_nodes_def)
  then show ?thesis using protocol_url_throws by (auto simp: isl_def)
qed

text \<open>Text that is not encoded, for the concrete runs: a label with a percent sign is malformed.\<close>

definition plain_web :: web_env where
  "plain_web = \<lparr>we_json = (\<lambda>_. None),
     we_url = (\<lambda>t. if t = ''trojan://pw@192.0.2.2:443''
       then Some \<lparr>ur_hostname = ''192.0.2.2'', ur_port = ''443'', ur_username = ''pw'', ur_hash = '''', ur_params = []\<rparr>
       else None),
     we_decode = (\<lambda>s. if CHR ''%'' \<in> set s then None else Some s), we_atob = Some\<rparr>"

lemma imported_inputs_are_sound_witness:
  "\<exists>us. parse_imported_nodes plain_web ''trojan://pw@192.0.2.2:443'' = Inr us \<and> us \<noteq> [] \<and> list_all real_ports us"
proof -
  let ?r = "parse_imported_nodes plain_web ''trojan://pw@192.0.2.2:443''"
  have "case ?r of Inl e \<Rightarrow> False | Inr us \<Rightarrow> length us = 1" by code_simp
  then obtain us where "?r = Inr us" by (auto split: sum.splits)
  with imported_inputs_are_sound [OF this] show ?thesis by (auto simp: list_all_iff)
qed

definition mixed_text :: string where
  "mixed_text = ''trojan://pw@192.0.2.2:443 ss://x@192.0.2.1:8388#100%''"

lemma malformed_label_stops_the_import_witness:
  "parse_imported_nodes plain_web ''trojan://pw@192.0.2.2:443'' \<noteq> Inl ''URIError''
   \<and> parse_imported_nodes plain_web mixed_text = Inl ''URIError''"
proof -
  let ?l = "''ss://x@192.0.2.1:8388#100%''"
  have hyps: "?l \<in> set (protocol_links mixed_text)" "starts_with (js_lower ?l) ''ss://''"
    "index_of CHR ''#'' (drop 5 ?l) = Some 16" "we_decode plain_web (drop (Suc 16) (drop 5 ?l)) = None"
    "case we_json plain_web mixed_text of None \<Rightarrow> True | Some data \<Rightarrow> record_inputs data = []"
    by code_simp+
  have "case parse_imported_nodes plain_web ''trojan://pw@192.0.2.2:443'' of Inl e \<Rightarrow> False | Inr us \<Rightarrow> length us = 1"
    by code_simp
  with malformed_label_stops_the_import [OF hyps] show ?thesis by (auto split: sum.splits)
qed

text \<open>A password with an \<open>@\<close>: the endpoint is read from the rest of the password.\<close>

lemma password_with_at_hides_the_host:
  assumes "decode_base64 web payload = m @ '':'' @ p @ ''@'' @ q @ ''@'' @ host" and "CHR ''@'' \<notin> set payload"
    and "CHR ''@'' \<notin> set (m @ '':'' @ p)" "CHR ''@'' \<notin> set q" "q \<noteq> ''''"
  shows "ss_parts web payload = (split_credential_pair (m @ '':'' @ p), parse_endpoint web q)"
proof -
  have at: "js_includes s ''@'' \<longleftrightarrow> CHR ''@'' \<in> set s" for s
    by (auto simp: includes_iff in_set_conv_decomp)
  have "js_split CHR ''@'' ((m @ '':'' @ p) @ CHR ''@'' # q @ CHR ''@'' # host) = (m @ '':'' @ p) # q # js_split CHR ''@'' host"
    unfolding js_split_concat_sep [OF assms(3)] js_split_concat_sep [OF assms(4)] ..
  then have "js_split CHR ''@'' (decode_base64 web payload) = (m @ '':'' @ p) # q # js_split CHR ''@'' host"
    using assms(1) by simp
  moreover have "CHR ''@'' \<in> set (decode_base64 web payload)" using assms(1) by simp
  ultimately show ?thesis using assms(2,5) by (simp add: ss_parts_def at Let_def)
qed

end
