(* ===== verification/Concurrent.thy ===== *)
theory Concurrent
  imports NodeApply
begin

text \<open>
  \<open>Promise.all\<close> over operations of \<open>stores/cloud/subscriptionApply.ts\<close>. The calls run in turn up to the debounced
  save they ask for; each request supersedes the one before, whose caller then waits for ever, and the last one
  goes through. What this takes for granted is that the file operations before the request take less than the
  half second of the debounce.
\<close>

subsection \<open>The calls\<close>

definition superseding :: "apply_env \<Rightarrow> apply_env" where
  "superseding env = env\<lparr>av_superseded := \<lambda>_ _. True\<rparr>"

text \<open>The first debounced save that a call asks for, when it asks for one.\<close>

definition asks_remove :: "saved_list \<Rightarrow> apply_env \<Rightarrow> string \<Rightarrow> apply_state \<Rightarrow> bool" where
  "asks_remove l env instance_id s =
     (let i = subscription_id instance_id; known = get_subscribe_by_id (as_subs s) i \<noteq> None
      in case l of
           SubsList \<Rightarrow> known
         | ProfileList \<Rightarrow> \<not> known \<and> profile_updates (pruned_profile (as_health s) i) s \<noteq> [])"

definition asks_ensure :: "saved_list \<Rightarrow> apply_env \<Rightarrow> node \<Rightarrow> apply_state \<Rightarrow> bool" where
  "asks_ensure l env n s =
     (let s1 = load_protocol_health s
      in if has_usable_address n \<and> ip_versions n \<noteq> []
         then l = SubsList
           \<and> (must_write env s1 (get_subscribe_by_id (as_subs s1) (subscription_id (cn_instanceId n)))
              \<longrightarrow> av_write env (as_step s1) = None)
         else asks_remove l env (cn_instanceId n) s1)"

type_synonym 'n call = "apply_env \<Rightarrow> 'n \<Rightarrow> apply_state \<Rightarrow> unit flow \<times> apply_state"
type_synonym 'n request = "saved_list \<Rightarrow> apply_env \<Rightarrow> 'n \<Rightarrow> apply_state \<Rightarrow> bool"

text \<open>The superseding environment leaves a call at its first request, with its changes in memory.\<close>

fun asked_later :: "'n call \<Rightarrow> 'n request \<Rightarrow> saved_list \<Rightarrow> apply_env \<Rightarrow> 'n list \<Rightarrow> apply_state \<Rightarrow> bool" where
  "asked_later op asks l env [] s = False"
| "asked_later op asks l env (n # ns) s =
     (asks l env n s \<or> asked_later op asks l env ns (snd (op (superseding env) n s)))"

definition overtaken :: "'n call \<Rightarrow> 'n request \<Rightarrow> apply_env \<Rightarrow> 'n \<Rightarrow> 'n list \<Rightarrow> apply_state \<Rightarrow> bool" where
  "overtaken op asks env n ns s =
     list_ex (\<lambda>l. asks l env n s \<and> asked_later op asks l env ns (snd (op (superseding env) n s)))
       [SubsList, ProfileList]"

text \<open>\<open>Promise.all(ns.map((n) => op(n).catch(...)))\<close>: an exception is caught, a call that waits for ever is not.\<close>

fun together :: "'n call \<Rightarrow> 'n request \<Rightarrow> apply_env \<Rightarrow> 'n list \<Rightarrow> apply_state \<Rightarrow> unit flow \<times> apply_state" where
  "together op asks env [] s = (Done (), s)"
| "together op asks env (n # ns) s =
     (case op (if overtaken op asks env n ns s then superseding env else env) n s of
        (r, t) \<Rightarrow> (case together op asks env ns t of
          (r', u) \<Rightarrow> (if r = Hangs then Hangs else r', u)))"

text \<open>\<open>Promise.all(ns.map((n) => op(n)))\<close>: the first exception is that of the whole, even if a call waits for ever.\<close>

fun first_throw :: "unit flow \<Rightarrow> unit flow \<Rightarrow> unit flow" where
  "first_throw (Throws e) r = Throws e"
| "first_throw (Done _) r = r"
| "first_throw Hangs r = (case r of Throws e \<Rightarrow> Throws e | _ \<Rightarrow> Hangs)"

fun together_or_throw :: "'n call \<Rightarrow> 'n request \<Rightarrow> apply_env \<Rightarrow> 'n list \<Rightarrow> apply_state \<Rightarrow> unit flow \<times> apply_state" where
  "together_or_throw op asks env [] s = (Done (), s)"
| "together_or_throw op asks env (n # ns) s =
     (case op (if overtaken op asks env n ns s then superseding env else env) n s of
        (r, t) \<Rightarrow> (case together_or_throw op asks env ns t of (r', u) \<Rightarrow> (first_throw r r', u)))"

definition remove_all_together :: "apply_env \<Rightarrow> string list \<Rightarrow> apply_state \<Rightarrow> unit flow \<times> apply_state" where
  "remove_all_together = together_or_throw remove_subscription_for_node asks_remove"

definition apply_call :: "node call" where
  "apply_call env n s = flow_then (apply_node_to_profile env n '''' s) (\<lambda>_ t. (Done (), t))"

definition ensure_all_together :: "apply_env \<Rightarrow> node list \<Rightarrow> apply_state \<Rightarrow> unit flow \<times> apply_state" where
  "ensure_all_together = together ensure_subscription_for_node asks_ensure"

definition apply_all_together :: "apply_env \<Rightarrow> node list \<Rightarrow> apply_state \<Rightarrow> unit flow \<times> apply_state" where
  "apply_all_together = together apply_call asks_ensure"

subsection \<open>Facts\<close>

lemma superseding_fields [simp]:
  "av_write (superseding env) = av_write env" "av_now (superseding env) = av_now env"
  "av_superseded (superseding env) l k" "av_cdn (superseding env) = av_cdn env"
  by (simp_all add: superseding_def)

lemma asks_when_usable:
  "has_usable_address n \<Longrightarrow> (\<And>k. av_write env k = None) \<Longrightarrow> asks_ensure SubsList env n s"
  by (simp add: asks_ensure_def Let_def usable_has_version)

lemma superseded_ensure_hangs:
  assumes "has_usable_address n" "\<And>k. av_write env k = None"
  shows "fst (ensure_subscription_for_node (superseding env) n s) = Hangs"
  using assms
  by (simp add: ensure_subscription_for_node_def Let_def usable_has_version write_subscription_file_def put_node_subscription_def
      with_subs_def split: option.split)

lemma superseded_apply_hangs:
  assumes "has_usable_address n" "\<And>k. av_write env k = None"
  shows "fst (apply_call (superseding env) n s) = Hangs"
  using superseded_ensure_hangs [OF assms, of s]
  by (cases "ensure_subscription_for_node (superseding env) n s") (simp add: apply_call_def apply_node_to_profile_def)

text \<open>What every call keeps, all of them keep.\<close>

lemma together_inv:
  assumes "\<And>e n s. P s \<Longrightarrow> P (snd (op e n s))" and "P s"
  shows "P (snd (together op asks env ns s))"
  using assms(2)
proof (induction ns arbitrary: s)
  case Nil
  then show ?case by simp
next
  case (Cons n ns)
  let ?r = "op (if overtaken op asks env n ns s then superseding env else env) n s"
  have "P (snd ?r)" using assms(1) Cons.prems by blast
  with Cons.IH have "P (snd (together op asks env ns (snd ?r)))" by blast
  then show ?case by (simp add: case_prod_beta del: if_split)
qed

lemma stable_together:
  assumes "stable P" "P s"
  shows "P (snd (ensure_all_together env ns s))" "P (snd (apply_all_together env ns s))"
proof -
  show "P (snd (ensure_all_together env ns s))"
    unfolding ensure_all_together_def using stable_ensure [OF assms(1)] assms(2) by (rule together_inv)
  have "P (snd (apply_call e n t))" if "P t" for e n t
    unfolding apply_call_def by (rule flow_then_inv [of P]) (use stable_apply_node [OF assms(1) that] in simp_all)
  then show "P (snd (apply_all_together env ns s))"
    unfolding apply_all_together_def using assms(2) by (rule together_inv)
qed

lemma together_or_throw_inv:
  assumes "\<And>e n s. P s \<Longrightarrow> P (snd (op e n s))" and "P s"
  shows "P (snd (together_or_throw op asks env ns s))"
  using assms(2)
proof (induction ns arbitrary: s)
  case Nil
  then show ?case by simp
next
  case (Cons n ns)
  let ?r = "op (if overtaken op asks env n ns s then superseding env else env) n s"
  have "P (snd ?r)" using assms(1) Cons.prems by blast
  with Cons.IH have "P (snd (together_or_throw op asks env ns (snd ?r)))" by blast
  then show ?case by (simp add: case_prod_beta del: if_split)
qed

lemma stable_remove_all: "stable P \<Longrightarrow> P s \<Longrightarrow> P (snd (remove_all_together env ids s))"
  unfolding remove_all_together_def by (rule together_or_throw_inv [of P]) (use stable_remove in blast)

text \<open>Two calls that ask for the same save: the first never ends.\<close>

lemma together_two_hang:
  assumes "asks l env n s" "asks l env m (snd (op (superseding env) n s))" "fst (op (superseding env) n s) = Hangs"
  shows "fst (together op asks env (n # m # ns) s) = Hangs"
proof -
  have "overtaken op asks env n (m # ns) s"
    using assms(1,2) by (cases l) (simp_all add: overtaken_def)
  with assms(3) show ?thesis by (simp add: case_prod_beta del: together.simps(2) add: together.simps(2) [of op asks env n "m # ns"])
qed

lemma two_usable_hang:
  assumes "has_usable_address n" "has_usable_address m" "\<And>k. av_write env k = None"
  shows "fst (ensure_all_together env (n # m # ns) s) = Hangs" "fst (apply_all_together env (n # m # ns) s) = Hangs"
  unfolding ensure_all_together_def apply_all_together_def
  by (rule together_two_hang [where l = SubsList]; simp add: assms asks_when_usable superseded_ensure_hangs superseded_apply_hangs)+

end
