(* ===== verification/ManualDialogs.thy ===== *)
theory ManualDialogs
  imports ManualParser Concurrent
begin

text \<open>
  \<open>views/CloudView/useCloudViewManualNodes.ts\<close>: what the dialogs for manual nodes do when they are confirmed. Each
  handler answers whether the dialog may close, and the messages it shows.
\<close>

datatype message = ShowError string | ShowWarning string | ShowSuccess string

type_synonym dialog_result = "(bool \<times> message list) flow \<times> manual_state"

fun manual_error_code :: "manual_error \<Rightarrow> string" where
  "manual_error_code LabelRequired = ''label-required''"
| "manual_error_code AddressRequired = ''address-required''"
| "manual_error_code ProtocolRequired = ''protocol-required''"
| "manual_error_code (DuplicateNode c) = ''duplicate''"
| "manual_error_code (AllSkipped sk) = ''duplicate''"

definition dialog_failed :: "(string \<Rightarrow> string dict \<Rightarrow> string) \<Rightarrow> string \<Rightarrow> manual_state \<Rightarrow> dialog_result" where
  "dialog_failed tr e s = (Done (False, [ShowError (map_manual_error tr e)]), s)"

text \<open>The node is stored by \<open>op\<close>, then applied to the selected profile; any exception ends in a message.\<close>

definition submit_node ::
    "(string \<Rightarrow> string dict \<Rightarrow> string) \<Rightarrow> cloud_env \<Rightarrow> string \<Rightarrow> manual_form
       \<Rightarrow> (manual_input \<Rightarrow> manual_state \<Rightarrow> (manual_error + node) flow \<times> manual_state) \<Rightarrow> manual_state \<Rightarrow> dialog_result" where
  "submit_node tr env done_key form op s = (case get_manual_input_from_form form of
      Inl e \<Rightarrow> dialog_failed tr e s
    | Inr input \<Rightarrow>
        (case op input s of
           (Hangs, t) \<Rightarrow> (Hangs, t)
         | (Throws e, t) \<Rightarrow> dialog_failed tr e t
         | (Done (Inl e), t) \<Rightarrow> dialog_failed tr (manual_error_code e) t
         | (Done (Inr n), t) \<Rightarrow>
             (case on_apply (apply_node_to_profile (ce_apply env) n '''') t of
                (Hangs, u) \<Rightarrow> (Hangs, u)
              | (Throws e, u) \<Rightarrow> dialog_failed tr e u
              | (Done _, u) \<Rightarrow> (Done (True, [ShowSuccess (tr done_key [])]), u))))"

definition handle_manual_submit ::
    "(string \<Rightarrow> string dict \<Rightarrow> string) \<Rightarrow> cloud_env \<Rightarrow> manual_form \<Rightarrow> manual_state \<Rightarrow> dialog_result" where
  "handle_manual_submit tr env form = submit_node tr env ''cloud.manual.addSuccess'' form (add_manual_node env)"

text \<open>\<open>i\<close> is the node that was opened for editing, empty without one.\<close>

definition handle_manual_update ::
    "(string \<Rightarrow> string dict \<Rightarrow> string) \<Rightarrow> cloud_env \<Rightarrow> string \<Rightarrow> manual_form \<Rightarrow> manual_state \<Rightarrow> dialog_result" where
  "handle_manual_update tr env i form s =
     (if i = '''' then (Done (False, []), s)
      else submit_node tr env ''cloud.manual.updateSuccess'' form (update_manual_node env i) s)"

definition import_invalid :: "(string \<Rightarrow> string dict \<Rightarrow> string) \<Rightarrow> manual_state \<Rightarrow> dialog_result" where
  "import_invalid tr s = (Done (False, [ShowError (tr ''cloud.errors.importInvalid'' [])]), s)"

definition import_messages :: "(string \<Rightarrow> string dict \<Rightarrow> string) \<Rightarrow> node list \<Rightarrow> skip_entry list \<Rightarrow> message list" where
  "import_messages tr added skipped =
     (if skipped = [] then []
      else [ShowWarning (tr ''cloud.manual.importSkippedList''
        [(''count'', nat_text (length skipped)),
         (''labels'', js_join ''; '' (map (format_skipped_import_entry tr) skipped))])])
     @ [ShowSuccess (tr ''cloud.manual.importSuccess'' [(''count'', nat_text (length added))])]"

definition handle_import_submit ::
    "(string \<Rightarrow> string dict \<Rightarrow> string) \<Rightarrow> web_env \<Rightarrow> cloud_env \<Rightarrow> string \<Rightarrow> manual_state \<Rightarrow> dialog_result" where
  "handle_import_submit tr web env text s =
     (let raw = js_trim text
      in if raw = '''' then (Done (False, [ShowError (tr ''cloud.errors.importEmpty'' [])]), s)
         else case parse_imported_nodes web raw of
           Inl e \<Rightarrow> import_invalid tr s
         | Inr inputs \<Rightarrow>
             if inputs = [] then import_invalid tr s
             else (case add_manual_nodes env inputs s of
                (Hangs, t) \<Rightarrow> (Hangs, t)
              | (Throws e, t) \<Rightarrow> dialog_failed tr e t
              | (Done (Inl e), t) \<Rightarrow> dialog_failed tr (manual_error_code e) t
              | (Done (Inr (added, skipped)), t) \<Rightarrow>
                  if added = [] then import_invalid tr t
                  else flow_then (on_apply (apply_all_together (ce_apply env) added) t)
                    (\<lambda>_ u. (Done (True, import_messages tr added skipped), u))))"

definition open_manual_form :: "node option \<Rightarrow> string \<times> manual_form" where
  "open_manual_form opened = (case opened of
      None \<Rightarrow> ('''', reset_manual_form)
    | Some n \<Rightarrow> (cn_instanceId n, populate_manual_form_from_node n))"

subsection \<open>Properties\<close>

text \<open>
  The import dialog hangs. When the pasted text adds two nodes or more with usable addresses, and all writes succeed, the
  nodes are stored and listed, but the handler never ends and the dialog never reports success: the nodes are applied
  to the profile all at once, each of them waits for a save of its subscription, and the next one supersedes it.
\<close>

theorem import_of_two_nodes_never_ends:
  assumes "js_trim text \<noteq> ''''" and "parse_imported_nodes web (js_trim text) = Inr inputs"
    and "add_manual_nodes env inputs s = (Done (Inr (a # b # rest, skipped)), t)"
    and "has_usable_address a" "has_usable_address b" and "\<And>k. av_write (ce_apply env) k = None"
  shows "fst (handle_import_submit tr web env text s) = Hangs
    \<and> as_nodes (ms_apply (snd (handle_import_submit tr web env text s))) = as_nodes (ms_apply t)
    \<and> ms_disk (snd (handle_import_submit tr web env text s)) = ms_disk t"
proof -
  have "inputs \<noteq> []" using assms(3) by (auto simp: add_manual_nodes_def)
  let ?r = "apply_all_together (ce_apply env) (a # b # rest) (ms_apply t)"
  have hang: "fst ?r = Hangs" by (rule two_usable_hang(2)) (use assms(4-6) in auto)
  then have "handle_import_submit tr web env text s = (Hangs, t\<lparr>ms_apply := snd ?r\<rparr>)"
    using assms(1-3) \<open>inputs \<noteq> []\<close> by (cases ?r) (simp add: handle_import_submit_def Let_def on_apply_def)
  moreover have "as_nodes (snd ?r) = as_nodes (ms_apply t)"
    by (rule stable_together(2) [OF stable_nodes]) simp
  ultimately show ?thesis by simp
qed

text \<open>Two links, of which the URLs are parsed as the browser does.\<close>

definition link_web :: web_env where
  "link_web = plain_web\<lparr>we_url := \<lambda>t.
     if t = ''trojan://pw@192.0.2.2:443'' then
       Some \<lparr>ur_hostname = ''192.0.2.2'', ur_port = ''443'', ur_username = ''pw'', ur_hash = '''', ur_params = []\<rparr>
     else if t = ''trojan://pw@192.0.2.3:443'' then
       Some \<lparr>ur_hostname = ''192.0.2.3'', ur_port = ''443'', ur_username = ''pw'', ur_hash = '''', ur_params = []\<rparr>
     else None\<rparr>"

definition pasted :: string where
  "pasted = ''trojan://pw@192.0.2.2:443 trojan://pw@192.0.2.3:443''"

text \<open>An environment whose identifiers differ, as those of the program do.\<close>

definition busy_env :: cloud_env where
  "busy_env = cloud_calm\<lparr>ce_apply := calm_env\<lparr>av_sample := \<lambda>k j. nat_text (100 * k + j)\<rparr>\<rparr>"

lemma import_of_two_nodes_never_ends_witness:
  "map cn_label (ms_manual (snd (handle_import_submit (\<lambda>k _. k) link_web busy_env pasted (manual_start [] []))))
     = [''192.0.2.2'', ''192.0.2.3'']
   \<and> fst (handle_import_submit (\<lambda>k _. k) link_web busy_env pasted (manual_start [] [])) = Hangs"
proof -
  let ?inputs = "projr (parse_imported_nodes link_web (js_trim pasted))"
  let ?r = "add_manual_nodes busy_env ?inputs (manual_start [] [])"
  have "case fst ?r of Done (Inr (a # b # rest, skipped)) \<Rightarrow> has_usable_address a \<and> has_usable_address b | _ \<Rightarrow> False"
    by code_simp
  then obtain a b rest skipped where fst: "fst ?r = Done (Inr (a # b # rest, skipped))" and ok: "has_usable_address a"
      "has_usable_address b"
    by (auto split: flow.splits sum.splits prod.splits list.splits)
  then have run: "?r = (Done (Inr (a # b # rest, skipped)), snd ?r)" by (metis prod.collapse)
  have "map cn_label (ms_manual (snd ?r)) = [''192.0.2.2'', ''192.0.2.3'']" by code_simp
  moreover have "js_trim pasted \<noteq> ''''" "parse_imported_nodes link_web (js_trim pasted) = Inr ?inputs"
    by code_simp+
  moreover have "av_write (ce_apply busy_env) k = None" for k by (simp add: busy_env_def cloud_calm_def calm_env_def)
  ultimately show ?thesis
    using import_of_two_nodes_never_ends [OF _ _ run ok, of pasted link_web "\<lambda>k _. k"] by (simp add: ms_manual_def)
qed

end
