(* ===== verification/Notifications.thy ===== *)
theory Notifications
  imports JsValues
begin

text \<open>
  \<open>utils/notification.ts\<close>: the notifications that the operations show, with their history and settings; and
  the cache in the browser storage of \<open>utils/offline.ts\<close>, one slot per kind of data.
\<close>

subsection \<open>Notifications\<close>

datatype note_type = NoteSuccess | NoteError | NoteWarning | NoteInfo

datatype note_category = AboutDeployment | AboutConnectivity | AboutRotation | AboutSystem | AboutQuota

record notification =
  nt_id :: string
  nt_type :: note_type
  nt_category :: note_category
  nt_title :: string
  nt_message :: string
  nt_timestamp :: int
  nt_read :: bool

record note_settings =
  ns_enabled :: bool
  ns_shown :: "note_category \<Rightarrow> bool"
  ns_playSound :: bool
  ns_desktop :: bool

text \<open>The toasts are those shown so far, the history is newest first; \<open>nc_stored\<close> are the settings in the
  storage of the browser.\<close>

record note_center =
  nc_settings :: note_settings
  nc_history :: "notification list"
  nc_toasts :: "(note_type \<times> string) list"
  nc_stored :: "note_settings option"

definition max_history_size :: nat where "max_history_size = 50"

definition default_note_settings :: note_settings where
  "default_note_settings =
     \<lparr>ns_enabled = True, ns_shown = (\<lambda>_. True), ns_playSound = False, ns_desktop = False\<rparr>"

definition note_center_init :: note_center where
  "note_center_init = \<lparr>nc_settings = default_note_settings, nc_history = [], nc_toasts = [], nc_stored = None\<rparr>"

definition toast_text :: "string \<Rightarrow> string \<Rightarrow> string" where
  "toast_text title msg = (if title = '''' then msg else title @ '': '' @ msg)"

text \<open>\<open>i\<close> and \<open>now\<close> are the identifier and the time of the record.\<close>

definition notify_with ::
    "bool \<Rightarrow> string \<Rightarrow> int \<Rightarrow> note_type \<times> note_category \<times> string \<times> string \<Rightarrow> note_center \<Rightarrow> note_center" where
  "notify_with skip_history i now what c = (case what of (ty, cat, title, msg) \<Rightarrow>
     if \<not> ns_enabled (nc_settings c) \<or> \<not> ns_shown (nc_settings c) cat then c
     else
       let shown = c\<lparr>nc_toasts := nc_toasts c @ [(ty, toast_text title msg)]\<rparr>
       in if skip_history then shown
          else shown\<lparr>nc_history := take max_history_size
            (\<lparr>nt_id = i, nt_type = ty, nt_category = cat, nt_title = title, nt_message = msg, nt_timestamp = now,
              nt_read = False\<rparr> # nc_history c)\<rparr>)"

definition notify :: "string \<Rightarrow> int \<Rightarrow> note_type \<times> note_category \<times> string \<times> string \<Rightarrow> note_center \<Rightarrow> note_center" where
  "notify = notify_with False"

definition deployment_complete :: "string \<Rightarrow> note_type \<times> note_category \<times> string \<times> string" where
  "deployment_complete l = (NoteSuccess, AboutDeployment, ''Deployment Complete'', ''Node '' @ l @ '' is ready'')"

definition deployment_failed :: "string \<Rightarrow> string \<Rightarrow> note_type \<times> note_category \<times> string \<times> string" where
  "deployment_failed l e = (NoteError, AboutDeployment, ''Deployment Failed'', l @ '': '' @ e)"

definition connectivity_blocked :: "string \<Rightarrow> note_type \<times> note_category \<times> string \<times> string" where
  "connectivity_blocked l = (NoteError, AboutConnectivity, ''Node Blocked'', l @ '' is completely blocked'')"

definition connectivity_restored :: "string \<Rightarrow> note_type \<times> note_category \<times> string \<times> string" where
  "connectivity_restored l = (NoteSuccess, AboutConnectivity, ''Connectivity Restored'', l @ '' is now reachable'')"

definition rotation_complete :: "string \<Rightarrow> note_type \<times> note_category \<times> string \<times> string" where
  "rotation_complete l = (NoteSuccess, AboutRotation, ''IP Rotation Complete'', l @ '' has a new IP address'')"

definition rotation_failed :: "string \<Rightarrow> string \<Rightarrow> note_type \<times> note_category \<times> string \<times> string" where
  "rotation_failed l e = (NoteError, AboutRotation, ''IP Rotation Failed'', l @ '': '' @ e)"

definition config_saved :: "note_type \<times> note_category \<times> string \<times> string" where
  "config_saved = (NoteSuccess, AboutSystem, ''Configuration Saved'', ''Cloud configuration saved successfully'')"

definition system_info :: "string \<Rightarrow> string \<Rightarrow> note_type \<times> note_category \<times> string \<times> string" where
  "system_info title msg = (NoteInfo, AboutSystem, title, msg)"

definition system_error :: "string \<Rightarrow> string \<Rightarrow> note_type \<times> note_category \<times> string \<times> string" where
  "system_error title msg = (NoteError, AboutSystem, title, msg)"

definition clear_notification_history :: "note_center \<Rightarrow> note_center" where
  "clear_notification_history c = c\<lparr>nc_history := []\<rparr>"

definition mark_notification_read :: "string \<Rightarrow> note_center \<Rightarrow> note_center" where
  "mark_notification_read i c =
     c\<lparr>nc_history := map_first (\<lambda>n. nt_id n = i) (\<lambda>n. n\<lparr>nt_read := True\<rparr>) (nc_history c)\<rparr>"

definition mark_all_notifications_read :: "note_center \<Rightarrow> note_center" where
  "mark_all_notifications_read c = c\<lparr>nc_history := map (\<lambda>n. n\<lparr>nt_read := True\<rparr>) (nc_history c)\<rparr>"

definition unread_count :: "note_center \<Rightarrow> nat" where
  "unread_count c = length (filter (\<lambda>n. \<not> nt_read n) (nc_history c))"

definition notifications_by_category :: "note_category \<Rightarrow> note_center \<Rightarrow> notification list" where
  "notifications_by_category cat c = filter (\<lambda>n. nt_category n = cat) (nc_history c)"

definition notifications_by_type :: "note_type \<Rightarrow> note_center \<Rightarrow> notification list" where
  "notifications_by_type ty c = filter (\<lambda>n. nt_type n = ty) (nc_history c)"

text \<open>The storage may refuse the write; that is only logged.\<close>

definition save_notification_settings :: "bool \<Rightarrow> note_center \<Rightarrow> note_center" where
  "save_notification_settings stored c = (if stored then c\<lparr>nc_stored := Some (nc_settings c)\<rparr> else c)"

definition load_notification_settings :: "note_center \<Rightarrow> note_center" where
  "load_notification_settings c = (case nc_stored c of None \<Rightarrow> c | Some s \<Rightarrow> c\<lparr>nc_settings := s\<rparr>)"

subsection \<open>The offline cache\<close>

text \<open>A slot holds the data and the time they were saved; \<^const>\<open>None\<close> is a slot that is missing or cannot be
  parsed. A write that the storage refuses is only logged.\<close>

type_synonym 'a cache_slot = "('a \<times> int) option"

definition save_to_offline_cache :: "bool \<Rightarrow> int \<Rightarrow> 'a \<Rightarrow> 'a cache_slot \<Rightarrow> 'a cache_slot" where
  "save_to_offline_cache stored now d slot = (if stored then Some (d, now) else slot)"

definition load_from_offline_cache :: "'a cache_slot \<Rightarrow> 'a option" where
  "load_from_offline_cache slot = map_option fst slot"

definition get_cache_age :: "int \<Rightarrow> 'a cache_slot \<Rightarrow> int option" where
  "get_cache_age now slot = map_option (\<lambda>x. now - snd x) slot"

subsection \<open>What the history keeps\<close>

lemma notify_history:
  assumes "ns_enabled (nc_settings c)" "ns_shown (nc_settings c) cat"
  shows "nc_history (notify i now (ty, cat, title, msg) c) =
    take max_history_size (\<lparr>nt_id = i, nt_type = ty, nt_category = cat, nt_title = title, nt_message = msg,
      nt_timestamp = now, nt_read = False\<rparr> # nc_history c)"
  using assms by (simp add: notify_def notify_with_def)

lemma history_bounded:
  "length (nc_history c) \<le> max_history_size \<Longrightarrow> length (nc_history (notify_with skip i now what c)) \<le> max_history_size"
  by (cases what) (simp add: notify_with_def Let_def)

lemma saved_settings_come_back:
  "nc_settings (load_notification_settings (save_notification_settings True c)) = nc_settings c"
  by (simp add: load_notification_settings_def save_notification_settings_def)

lemma offline_cache_roundtrip: "load_from_offline_cache (save_to_offline_cache True now d slot) = Some d"
  by (simp add: load_from_offline_cache_def save_to_offline_cache_def)

end
