(* ===== verification/CloudSession.thy ===== *)
theory CloudSession
  imports ManualNodes Concurrent NodeHistory Resilience Notifications
begin

text \<open>
  The state that \<open>stores/cloud/providerConfig.ts\<close> and \<open>stores/cloud/instanceSync.ts\<close> share: the provider with its
  configuration, regions and plans, the flags and timers, and below them the instances, subscriptions and
  profiles of \<open>ManualNodes\<close>. Work that is started and not awaited is recorded in \<open>cs_started\<close>; it is an operation of
  its own. Answers of the outside are asked for at a step, as in \<open>NodeSubscriptions\<close>.
\<close>

subsection \<open>State\<close>

record cloud_config =
  cc_provider :: "string option"
  cc_apiKey :: string
  cc_defaultRegion :: "string option"
  cc_defaultPlan :: "string option"
  cc_extra :: "string dict option"

datatype background =
    AutoApplyRun string | RefreshRun bool bool | RefreshTimer | ConnectivityTest string | AccountProbe string

record session =
  cs_manual :: manual_state
  cs_provider :: string
  cs_providers :: "(string \<times> string) list"
  cs_config :: cloud_config
  cs_configLoaded :: bool
  cs_savingConfig :: bool
  cs_regions :: "json list"
  cs_plans :: "json list"
  cs_regionsUpdatedAt :: "int option"
  cs_plansUpdatedAt :: "int option"
  cs_loadingRegions :: bool
  cs_loadingPlans :: bool
  cs_availability :: "string list dict"
  cs_account :: "json option"
  cs_loadingInstances :: bool
  cs_creatingInstance :: bool
  cs_destroyingInstance :: string
  cs_refreshing :: bool
  cs_autoRefresh :: bool
  cs_autoApply :: "nat dict"
  cs_history :: history_state
  cs_nodesCache :: "node list cache_slot"
  cs_regionsCache :: "json list cache_slot"
  cs_plansCache :: "json list cache_slot"
  cs_notes :: note_center
  cs_started :: "background list"

subsection \<open>Environment\<close>

record deploy_request =
  dr_label :: string
  dr_region :: string
  dr_plan :: string
  dr_extra :: "string dict option"

record probe_request =
  pb_tcpPorts :: "int list"
  pb_udpPorts :: "int list"
  pb_targets :: "(string \<times> int \<times> string) list"
  pb_icmp :: bool
  pb_tcpTimeoutMs :: int
  pb_udpTimeoutMs :: int

record speed_result =
  sr_status :: string
  sr_speedMbps :: rat
  sr_error :: "string option"

text \<open>The calls of the Go shell, by the step they are made at and, where they are retried, by the attempt;
  \<open>sv_bridge\<close> tells whether the optional ones exist.\<close>

record session_env =
  sv_cloud :: cloud_env
  sv_bridge :: bool
  sv_online :: "nat \<Rightarrow> bool"
  sv_stored :: "nat \<Rightarrow> bool"
  sv_get_config :: "nat \<Rightarrow> string + cloud_config"
  sv_save_config :: "cloud_config \<Rightarrow> nat \<Rightarrow> nat \<Rightarrow> string + unit"
  sv_list_providers :: "nat \<Rightarrow> string + (string \<times> string) list"
  sv_get_provider :: "nat \<Rightarrow> string + string"
  sv_set_provider :: "string \<Rightarrow> nat \<Rightarrow> string + string"
  sv_account :: "string \<Rightarrow> nat \<Rightarrow> string + json"
  sv_regions :: "nat \<Rightarrow> nat \<Rightarrow> string + json list"
  sv_plans :: "nat \<Rightarrow> nat \<Rightarrow> string + json list"
  sv_availability :: "string \<Rightarrow> nat \<Rightarrow> string + string list"
  sv_list :: "nat \<Rightarrow> nat \<Rightarrow> string + raw_node list"
  sv_create :: "deploy_request \<Rightarrow> nat \<Rightarrow> nat \<Rightarrow> string + raw_node"
  sv_create_many :: "deploy_request list \<Rightarrow> nat \<Rightarrow> string + json"
  sv_destroy :: "string \<Rightarrow> nat \<Rightarrow> string option"
  sv_repair :: "string \<Rightarrow> nat \<Rightarrow> nat \<Rightarrow> string + raw_node"
  sv_probe :: "string \<Rightarrow> probe_request \<Rightarrow> nat \<Rightarrow> nat \<Rightarrow> string + conn_result"
  sv_speed :: "json list \<Rightarrow> nat \<Rightarrow> string + speed_result"

abbreviation sv_apply :: "session_env \<Rightarrow> apply_env" where
  "sv_apply env \<equiv> ce_apply (sv_cloud env)"

definition cs_step :: "session \<Rightarrow> nat" where
  "cs_step s = as_step (ms_apply (cs_manual s))"

definition cs_now :: "session_env \<Rightarrow> session \<Rightarrow> int" where
  "cs_now env s = av_now (sv_apply env) (cs_step s)"

definition cs_tick :: "session \<Rightarrow> session" where
  "cs_tick s = s\<lparr>cs_manual := (cs_manual s)\<lparr>ms_apply := next_step (ms_apply (cs_manual s))\<rparr>\<rparr>"

definition cs_instances :: "session \<Rightarrow> node list" where
  "cs_instances s = ms_instances (cs_manual s)"

definition cs_manualNodes :: "session \<Rightarrow> node list" where
  "cs_manualNodes s = ms_manual (cs_manual s)"

subsection \<open>Lifting\<close>

definition on_manual :: "(manual_state \<Rightarrow> 'a flow \<times> manual_state) \<Rightarrow> session \<Rightarrow> 'a flow \<times> session" where
  "on_manual f s = (case f (cs_manual s) of (r, m) \<Rightarrow> (r, s\<lparr>cs_manual := m\<rparr>))"

definition on_store :: "(apply_state \<Rightarrow> 'a flow \<times> apply_state) \<Rightarrow> session \<Rightarrow> 'a flow \<times> session" where
  "on_store f = on_manual (on_apply f)"

definition put_cs_instances :: "session_env \<Rightarrow> node list \<Rightarrow> session \<Rightarrow> session" where
  "put_cs_instances env ns s = s\<lparr>cs_manual := put_instances (sv_cloud env) ns (cs_manual s)\<rparr>"

definition cs_load_manual :: "session_env \<Rightarrow> session \<Rightarrow> session" where
  "cs_load_manual env s = s\<lparr>cs_manual := load_manual_nodes (sv_cloud env) (cs_manual s)\<rparr>"

definition cs_sync_manual :: "session_env \<Rightarrow> session \<Rightarrow> session" where
  "cs_sync_manual env s = s\<lparr>cs_manual := sync_manual_nodes_into_instances (sv_cloud env) (cs_manual s)\<rparr>"

definition started :: "background \<Rightarrow> session \<Rightarrow> session" where
  "started b s = s\<lparr>cs_started := cs_started s @ [b]\<rparr>"

definition tell :: "session_env \<Rightarrow> note_type \<times> note_category \<times> string \<times> string \<Rightarrow> session \<Rightarrow> session" where
  "tell env what s = s\<lparr>cs_notes := notify (av_sample (sv_apply env) (cs_step s) 0) (cs_now env s) what (cs_notes s)\<rparr>"

text \<open>A call of the outside, and one that is retried: \<open>retryWithBackoff\<close> with the number of attempts and the
  delay that the caller gives.\<close>

definition flow_sum :: "string + 'a \<Rightarrow> 'a flow" where
  "flow_sum r = (case r of Inl e \<Rightarrow> Throws e | Inr v \<Rightarrow> Done v)"

definition calling :: "(nat \<Rightarrow> string + 'a) \<Rightarrow> session \<Rightarrow> 'a flow \<times> session" where
  "calling f s = (flow_sum (f (cs_step s)), cs_tick s)"

definition retrying :: "nat \<Rightarrow> int \<Rightarrow> (nat \<Rightarrow> nat \<Rightarrow> string + 'a) \<Rightarrow> session \<Rightarrow> 'a flow \<times> session" where
  "retrying attempts delay f s =
     (flow_sum (fst (retry_with_backoff
        (default_retry_options\<lparr>ro_maxAttempts := attempts, ro_baseDelay := delay\<rparr>) (f (cs_step s)))), cs_tick s)"

definition is_cache_valid :: "int \<Rightarrow> int option \<Rightarrow> int \<Rightarrow> bool" where
  "is_cache_valid now timestamp ttl = (case timestamp of None \<Rightarrow> False | Some t \<Rightarrow> t \<noteq> 0 \<and> now - t < ttl)"

definition blank_key :: "cloud_config \<Rightarrow> bool" where
  "blank_key c \<longleftrightarrow> cc_apiKey c = '''' \<or> js_trim (cc_apiKey c) = ''''"

subsection \<open>Timers\<close>

definition stop_auto_refresh :: "session \<Rightarrow> session" where
  "stop_auto_refresh s = s\<lparr>cs_autoRefresh := False\<rparr>"

definition stop_auto_apply :: "string \<Rightarrow> session \<Rightarrow> session" where
  "stop_auto_apply i s = s\<lparr>cs_autoApply := AList.delete i (cs_autoApply s)\<rparr>"

definition clear_all_timers :: "session \<Rightarrow> session" where
  "clear_all_timers s = fold (\<lambda>x. stop_auto_apply (fst x)) (cs_autoApply s) (stop_auto_refresh s)"

text \<open>The timer counts the runs that found no usable address; the first run starts at once.\<close>

definition schedule_auto_apply :: "string \<Rightarrow> session \<Rightarrow> session" where
  "schedule_auto_apply i s =
     (if map_of (cs_autoApply s) i \<noteq> None then s
      else started (AutoApplyRun i) (s\<lparr>cs_autoApply := AList.update i 0 (cs_autoApply s)\<rparr>))"

definition provider_requires_api_key :: "session \<Rightarrow> bool" where
  "provider_requires_api_key s \<longleftrightarrow> cs_provider s \<noteq> ''ssh''"

text \<open>What the timer of the automatic refresh does when it fires.\<close>

definition run_refresh :: "session \<Rightarrow> session" where
  "run_refresh s =
     (if provider_requires_api_key s \<and> blank_key (cs_config s) then stop_auto_refresh s
      else if cs_loadingInstances s \<or> cs_creatingInstance s \<or> cs_destroyingInstance s \<noteq> '''' then s
      else started (RefreshRun True False) s)"

definition start_auto_refresh :: "bool \<Rightarrow> session \<Rightarrow> session" where
  "start_auto_refresh at_once s =
     (if provider_requires_api_key s \<and> blank_key (cs_config s) then stop_auto_refresh s
      else if cs_autoRefresh s then s
      else let s1 = s\<lparr>cs_autoRefresh := True\<rparr> in if at_once then run_refresh s1 else s1)"

end
