(* ===== verification/ProviderConfig.thy ===== *)
theory ProviderConfig
  imports CloudSession
begin

text \<open>
  \<open>stores/cloud/providerConfig.ts\<close>: the configuration of the provider, its regions and plans with their caches, and
  the status of the account. \<open>switchProvider\<close>, which refreshes the instances, is in \<open>ProviderSwitch\<close>.
\<close>

subsection \<open>Configuration\<close>

text \<open>\<open>Object.assign(config, loaded)\<close> followed by the defaults: \<^const>\<open>None\<close> is a field that is missing in
  what was loaded. The key is always there.\<close>

definition assigned_config :: "string \<Rightarrow> cloud_config \<Rightarrow> cloud_config \<Rightarrow> cloud_config" where
  "assigned_config provider loaded c =
     \<lparr>cc_provider = Some (or_else (cc_provider loaded) provider), cc_apiKey = cc_apiKey loaded,
      cc_defaultRegion = nullish (cc_defaultRegion loaded) (cc_defaultRegion c),
      cc_defaultPlan = nullish (cc_defaultPlan loaded) (cc_defaultPlan c),
      cc_extra = Some (or_else (cc_extra loaded) [])\<rparr>"

definition load_config :: "session_env \<Rightarrow> session \<Rightarrow> unit flow \<times> session" where
  "load_config env s = flow_then (calling (sv_get_config env) s) (\<lambda>loaded s1.
     let c = assigned_config (cs_provider s1) loaded (cs_config s1);
         s2 = s1\<lparr>cs_config := c, cs_configLoaded := True\<rparr>
     in (Done (), if blank_key c then stop_auto_refresh s2 else start_auto_refresh True s2))"

text \<open>The name the backend answers is taken over when it is not empty; an error is only logged.\<close>

definition resync_provider :: "session_env \<Rightarrow> session \<Rightarrow> session" where
  "resync_provider env s = (case calling (sv_get_provider env) s of
      (Done name, s1) \<Rightarrow> (if name = '''' then s1 else s1\<lparr>cs_provider := name\<rparr>)
    | (_, s1) \<Rightarrow> s1)"

definition payload_of :: "session \<Rightarrow> cloud_config" where
  "payload_of s = (cs_config s)\<lparr>cc_provider := Some (cs_provider s), cc_extra := Some (or_else (cc_extra (cs_config s)) [])\<rparr>"

text \<open>\<open>saveConfig\<close> retries unless the backend reports that the provider does not match.\<close>

definition save_retries :: "string \<Rightarrow> nat \<Rightarrow> bool" where
  "save_retries e attempt \<longleftrightarrow> \<not> js_includes (js_lower e) ''provider mismatch''"

definition save_config :: "session_env \<Rightarrow> session \<Rightarrow> unit flow \<times> session" where
  "save_config env s =
     (let s1 = resync_provider env (s\<lparr>cs_savingConfig := True\<rparr>);
          payload = payload_of s1;
          opts = default_retry_options\<lparr>ro_maxAttempts := 3, ro_baseDelay := 1000, ro_shouldRetry := save_retries\<rparr>;
          saved = (flow_sum (fst (retry_with_backoff opts (sv_save_config env payload (cs_step s1)))), cs_tick s1)
      in flow_finally
           (flow_handle
             (flow_then saved (\<lambda>_ s2.
                (Done (), tell env config_saved
                   (if blank_key payload then stop_auto_refresh s2 else start_auto_refresh True s2))))
             (\<lambda>e s2. (Throws e, tell env (system_error ''Configuration Save Failed'' e) s2)))
           (\<lambda>s2. s2\<lparr>cs_savingConfig := False\<rparr>))"

subsection \<open>Regions and plans\<close>

definition use_regions :: "session_env \<Rightarrow> json list \<Rightarrow> session \<Rightarrow> session" where
  "use_regions env rs s = s\<lparr>cs_regions := rs, cs_regionsUpdatedAt := Some (cs_now env s)\<rparr>"

definition use_plans :: "session_env \<Rightarrow> json list \<Rightarrow> session \<Rightarrow> session" where
  "use_plans env ps s = s\<lparr>cs_plans := ps, cs_plansUpdatedAt := Some (cs_now env s)\<rparr>"

definition is_regions_cache_valid :: "session_env \<Rightarrow> session \<Rightarrow> bool" where
  "is_regions_cache_valid env s \<longleftrightarrow> is_cache_valid (cs_now env s) (cs_regionsUpdatedAt s) ttl_regions"

definition is_plans_cache_valid :: "session_env \<Rightarrow> session \<Rightarrow> bool" where
  "is_plans_cache_valid env s \<longleftrightarrow> is_cache_valid (cs_now env s) (cs_plansUpdatedAt s) ttl_plans"

definition request_regions :: "session_env \<Rightarrow> session \<Rightarrow> unit flow \<times> session" where
  "request_regions env s = flow_finally
     (flow_handle
       (flow_then (retrying 2 1000 (sv_regions env) (s\<lparr>cs_loadingRegions := True\<rparr>)) (\<lambda>rs s1.
          let s2 = use_regions env rs s1
          in (Done (), s2\<lparr>cs_regionsCache :=
               save_to_offline_cache (sv_stored env (cs_step s2)) (cs_now env s2) rs (cs_regionsCache s2)\<rparr>)))
       (\<lambda>e s1. case load_from_offline_cache (cs_regionsCache s1) of
           None \<Rightarrow> (Throws e, s1)
         | Some rs \<Rightarrow> (Done (), use_regions env rs s1)))
     (\<lambda>s1. s1\<lparr>cs_loadingRegions := False\<rparr>)"

definition fetch_regions :: "session_env \<Rightarrow> bool \<Rightarrow> session \<Rightarrow> unit flow \<times> session" where
  "fetch_regions env force s =
     (if \<not> force \<and> is_regions_cache_valid env s \<and> cs_regions s \<noteq> [] then (Done (), s)
      else case (if sv_online env (cs_step s) then None else load_from_offline_cache (cs_regionsCache s)) of
        Some rs \<Rightarrow> (Done (), use_regions env rs s)
      | None \<Rightarrow> request_regions env s)"

definition request_plans :: "session_env \<Rightarrow> session \<Rightarrow> unit flow \<times> session" where
  "request_plans env s = flow_finally
     (flow_handle
       (flow_then (retrying 2 1000 (sv_plans env) (s\<lparr>cs_loadingPlans := True\<rparr>)) (\<lambda>ps s1.
          let s2 = use_plans env ps s1
          in (Done (), s2\<lparr>cs_plansCache :=
               save_to_offline_cache (sv_stored env (cs_step s2)) (cs_now env s2) ps (cs_plansCache s2)\<rparr>)))
       (\<lambda>e s1. case load_from_offline_cache (cs_plansCache s1) of
           None \<Rightarrow> (Throws e, s1)
         | Some ps \<Rightarrow> (Done (), use_plans env ps s1)))
     (\<lambda>s1. s1\<lparr>cs_loadingPlans := False\<rparr>)"

definition fetch_plans :: "session_env \<Rightarrow> bool \<Rightarrow> session \<Rightarrow> unit flow \<times> session" where
  "fetch_plans env force s =
     (if \<not> force \<and> is_plans_cache_valid env s \<and> cs_plans s \<noteq> [] then (Done (), s)
      else case (if sv_online env (cs_step s) then None else load_from_offline_cache (cs_plansCache s)) of
        Some ps \<Rightarrow> (Done (), use_plans env ps s)
      | None \<Rightarrow> request_plans env s)"

text \<open>An empty list is there as well as any other.\<close>

definition put_availability :: "string \<Rightarrow> string list \<Rightarrow> session \<Rightarrow> session" where
  "put_availability region ids s = s\<lparr>cs_availability := AList.update region ids (cs_availability s)\<rparr>"

definition ensure_region_availability ::
    "session_env \<Rightarrow> string \<Rightarrow> bool \<Rightarrow> session \<Rightarrow> string list flow \<times> session" where
  "ensure_region_availability env region force s =
     (let known = map_of (cs_availability s) region
      in if region = '''' then (Done [], s)
         else if \<not> force \<and> known \<noteq> None then (Done (the known), s)
         else if blank_key (cs_config s) then (Done (or_else known []), put_availability region (or_else known []) s)
         else case calling (sv_availability env region) s of
           (Done ids, s1) \<Rightarrow> (Done ids, put_availability region ids s1)
         | (Throws e, s1) \<Rightarrow> (Throws e, put_availability region (or_else known []) s1)
         | (Hangs, s1) \<Rightarrow> (Hangs, s1))"

subsection \<open>Providers and the account\<close>

definition default_providers :: "(string \<times> string) list" where
  "default_providers = [(''vultr'', ''Vultr'')]"

definition load_providers :: "session_env \<Rightarrow> session \<Rightarrow> session" where
  "load_providers env s =
     (if \<not> sv_bridge env then s\<lparr>cs_providers := default_providers\<rparr>
      else case calling (sv_list_providers env) s of
        (Done ps, s1) \<Rightarrow> s1\<lparr>cs_providers := ps\<rparr>
      | (_, s1) \<Rightarrow> s1\<lparr>cs_providers := default_providers\<rparr>)"

definition get_current_provider :: "session_env \<Rightarrow> session \<Rightarrow> session" where
  "get_current_provider env s =
     (if \<not> sv_bridge env then s
      else case calling (sv_get_provider env) s of
        (Done name, s1) \<Rightarrow> s1\<lparr>cs_provider := name\<rparr>
      | (_, s1) \<Rightarrow> s1)"

text \<open>The answer counts only while the provider is still the current one.\<close>

definition refresh_account_status ::
    "session_env \<Rightarrow> string option \<Rightarrow> session \<Rightarrow> json option \<times> session" where
  "refresh_account_status env provider s =
     (let target = or_else provider (cs_provider s)
      in if target = '''' then (None, s)
         else if \<not> sv_bridge env then (None, s\<lparr>cs_account := None\<rparr>)
         else case calling (sv_account env target) s of
           (Done st, s1) \<Rightarrow> (Some st, if cs_provider s1 = target then s1\<lparr>cs_account := Some st\<rparr> else s1)
         | (_, s1) \<Rightarrow> (None, if cs_provider s1 = target then s1\<lparr>cs_account := None\<rparr> else s1))"

end
