(* ===== verification/InstanceRefresh.thy ===== *)
theory InstanceRefresh
  imports ProviderConfig
begin

text \<open>
  \<open>refreshInstances\<close> of \<open>stores/cloud/instanceSync.ts\<close>: the list of the provider is merged with what is known, nodes
  that are in use are retained, subscriptions are written and removed, and nodes that became ready are applied.
\<close>

subsection \<open>Replaced nodes\<close>

text \<open>The answer is the set of the ids whose migration succeeded; an error is only logged.\<close>

fun migrate_replaced ::
    "session_env \<Rightarrow> node list \<Rightarrow> string list \<Rightarrow> session \<Rightarrow> string list flow \<times> session" where
  "migrate_replaced env [] migrated s = (Done migrated, s)"
| "migrate_replaced env (n # ns) migrated s =
     (let old = js_trim (or_else (cn_replacedInstanceId n) '''')
      in if old = '''' \<or> old = cn_instanceId n then migrate_replaced env ns migrated s
         else case on_store (migrate_managed_node_identity (sv_apply env) old n) s of
           (Hangs, s1) \<Rightarrow> (Hangs, s1)
         | (Throws _, s1) \<Rightarrow> migrate_replaced env ns migrated s1
         | (Done _, s1) \<Rightarrow> migrate_replaced env ns (add_new old migrated)
             (s1\<lparr>cs_history := snd (migrate_node_history (cs_now env s1) old (cn_instanceId n) (cs_history s1))\<rparr>))"

text \<open>\<open>Promise.all\<close> over calls whose errors are caught; none of them can hang.\<close>

definition availability_of_all :: "session_env \<Rightarrow> node list \<Rightarrow> session \<Rightarrow> session" where
  "availability_of_all env ns s =
     fold (\<lambda>n t. snd (ensure_region_availability env (opt_or (cn_region n) '''') False t)) ns s"

subsection \<open>Merging\<close>

text \<open>The last node with an id wins, as in a \<open>Map\<close>.\<close>

definition node_by_id :: "node list \<Rightarrow> string \<Rightarrow> node option" where
  "node_by_id ns i = List.find (\<lambda>n. cn_instanceId n = i) (rev ns)"

definition previous_of :: "node list \<Rightarrow> node \<Rightarrow> node option" where
  "previous_of prev n = (case node_by_id prev (cn_instanceId n) of
      Some p \<Rightarrow> Some p
    | None \<Rightarrow> if truthy_s (cn_replacedInstanceId n) then node_by_id prev (the (cn_replacedInstanceId n)) else None)"

definition merged_status :: "node_status \<Rightarrow> node_status \<Rightarrow> node_status" where
  "merged_status previous provider =
     (if provider = NsConnected then NsConnected
      else if previous = NsUnknown \<and> provider \<noteq> NsUnknown then provider
      else if previous = NsPending \<and> provider = NsApplying then NsApplying
      else if previous \<noteq> NsError \<and> provider = NsError then NsError
      else previous)"

definition keep_set :: "'a option \<Rightarrow> 'a option \<Rightarrow> 'a option" where
  "keep_set old new = (case old of None \<Rightarrow> new | Some v \<Rightarrow> Some v)"

definition keep_true :: "bool option \<Rightarrow> bool option \<Rightarrow> bool option" where
  "keep_true old new = (if old = Some True then old else new)"

text \<open>The status and the results of tests that are there are taken over.\<close>

definition enriched_node :: "node list \<Rightarrow> node \<Rightarrow> node" where
  "enriched_node prev n =
     (let p = previous_of prev n;
          status = merged_status (or_else (Option.bind p cn_statusText) NsUnknown) (provider_status_to_node_status (cn_status n))
      in (case p of
            None \<Rightarrow> n
          | Some q \<Rightarrow> n
              \<lparr>cn_connectivityStatus := keep_set (cn_connectivityStatus q) (cn_connectivityStatus n),
               cn_connectivityTesting := keep_true (cn_connectivityTesting q) (cn_connectivityTesting n),
               cn_lastConnectivityResult := keep_set (cn_lastConnectivityResult q) (cn_lastConnectivityResult n),
               cn_speedMs := keep_set (cn_speedMs q) (cn_speedMs n),
               cn_speedMbps := keep_set (cn_speedMbps q) (cn_speedMbps n),
               cn_speedError := (if truthy_s (cn_speedError q) then cn_speedError q else cn_speedError n),
               cn_speedTesting := keep_true (cn_speedTesting q) (cn_speedTesting n)\<rparr>)\<lparr>cn_statusText := Some status\<rparr>)"

definition active_profile :: "session \<Rightarrow> profile option" where
  "active_profile s = (let a = ms_apply (cs_manual s) in get_profile_by_id (as_profiles a) (as_selected a))"

text \<open>A node whose subscription the active profile contains counts as connected.\<close>

definition profile_connected :: "string list \<Rightarrow> node \<Rightarrow> node" where
  "profile_connected ids n =
     (let old = or_else (cn_replacedInstanceId n) '''';
          there = subscription_id (cn_instanceId n) \<in> set ids \<or> old \<noteq> '''' \<and> subscription_id old \<in> set ids
      in if there \<and> cn_statusText n \<noteq> Some NsApplying \<and> cn_statusText n \<noteq> Some NsPending
         then n\<lparr>cn_statusText := Some NsConnected\<rparr> else n)"

definition enriched_nodes :: "session \<Rightarrow> node list \<Rightarrow> node list" where
  "enriched_nodes s ns =
     (let merged = map (enriched_node (cs_instances s)) ns
      in case active_profile s of
           None \<Rightarrow> merged
         | Some p \<Rightarrow> map (profile_connected (children_ids (Some p))) merged)"

subsection \<open>What is retained and what is removed\<close>

definition cloud_refs :: "string list \<Rightarrow> string list" where
  "cloud_refs ids = map (drop 6) (filter (\<lambda>i. starts_with i ''cloud-'') ids)"

definition in_use :: "session \<Rightarrow> string \<Rightarrow> bool" where
  "in_use s i \<longleftrightarrow> i \<noteq> '''' \<and>
     (i \<in> set (cloud_refs (map sb_id (fs_items (as_subs (ms_apply (cs_manual s))))))
      \<or> i \<in> set (cloud_refs (children_ids (active_profile s))))"

definition retained_nodes :: "session \<Rightarrow> string list \<Rightarrow> node list \<Rightarrow> node list" where
  "retained_nodes s migrated listed =
     map (\<lambda>n. n\<lparr>cn_statusText := Some (if cn_statusText n = Some NsError then NsError else NsUnknown)\<rparr>)
       (filter (\<lambda>p. cn_instanceId p \<noteq> '''' \<and> cn_instanceId p \<notin> set (map cn_instanceId listed)
          \<and> cn_instanceId p \<notin> set migrated \<and> in_use s (cn_instanceId p)) (cs_instances s))"

definition removed_nodes :: "session \<Rightarrow> string list \<Rightarrow> node list \<Rightarrow> node list" where
  "removed_nodes s migrated listed =
     filter (\<lambda>p. cn_instanceId p \<noteq> '''' \<and> cn_instanceId p \<notin> set migrated
        \<and> \<not> list_ex (\<lambda>n. cn_instanceId n = cn_instanceId p) listed \<and> \<not> in_use s (cn_instanceId p)) (cs_instances s)"

definition ready_now :: "node list \<Rightarrow> node \<Rightarrow> bool" where
  "ready_now prev n =
     (let old = List.find (\<lambda>m. cn_instanceId m = cn_instanceId n) prev;
          status = cn_statusText n;
          was_pending = (case old of None \<Rightarrow> True
            | Some q \<Rightarrow> cn_statusText q = Some NsPending \<or> cn_statusText q = Some NsApplying)
      in has_usable_address n
         \<and> (case old of None \<Rightarrow> True | Some q \<Rightarrow> \<not> truthy_s (cn_ipv4 q) \<and> \<not> truthy_s (cn_ipv6 q))
         \<and> (status = Some NsPending \<or> status = Some NsApplying \<or> status = Some NsConnected \<and> was_pending))"

subsection \<open>The refresh\<close>

definition is_instances_cache_valid :: "session_env \<Rightarrow> session \<Rightarrow> bool" where
  "is_instances_cache_valid env s \<longleftrightarrow> is_cache_valid (cs_now env s) (ms_updatedAt (cs_manual s)) ttl_instances"

definition use_cached_nodes :: "session_env \<Rightarrow> node list \<Rightarrow> session \<Rightarrow> session" where
  "use_cached_nodes env ns s = cs_sync_manual env (cs_load_manual env (put_cs_instances env ns s))"

definition replace_instance :: "session_env \<Rightarrow> node \<Rightarrow> session \<Rightarrow> session" where
  "replace_instance env n s = put_cs_instances env
     (map (\<lambda>m. if cn_instanceId m = cn_instanceId n then n else m) (cs_instances s)) s"

definition add_to_groups :: "node \<Rightarrow> session \<Rightarrow> session" where
  "add_to_groups n s = s\<lparr>cs_manual := (cs_manual s)\<lparr>ms_apply := (ms_apply (cs_manual s))
     \<lparr>as_groups := add_cloud_node_to_groups (as_groups (ms_apply (cs_manual s))) n\<rparr>\<rparr>\<rparr>"

text \<open>\<open>refreshProviderProxies().catch(...)\<close>, asked for only while the core runs.\<close>

definition refresh_proxies_if_running :: "session_env \<Rightarrow> session \<Rightarrow> session" where
  "refresh_proxies_if_running env s =
     (if av_running (sv_apply env) (cs_step s)
      then let t = cs_tick s; a = ms_apply (cs_manual t)
        in t\<lparr>cs_manual := (cs_manual t)\<lparr>ms_apply := a\<lparr>as_refreshed := Suc (as_refreshed a)\<rparr>\<rparr>\<rparr>
      else s)"

definition schedule_node :: "node \<Rightarrow> session \<Rightarrow> session" where
  "schedule_node n s =
     (if cn_instanceId n = '''' then s
      else if has_usable_address n \<and> cn_statusText n = Some NsConnected then stop_auto_apply (cn_instanceId n) s
      else schedule_auto_apply (cn_instanceId n) s)"

definition has_ip :: "node \<Rightarrow> bool" where
  "has_ip n \<longleftrightarrow> truthy_s (cn_ipv4 n) \<or> truthy_s (cn_ipv6 n)"

text \<open>The answer tells whether a node was applied, so that the core has to be reloaded.\<close>

fun apply_ready :: "session_env \<Rightarrow> node list \<Rightarrow> bool \<Rightarrow> session \<Rightarrow> bool flow \<times> session" where
  "apply_ready env [] reload s = (Done reload, s)"
| "apply_ready env (n # ns) reload s = (case on_store (apply_node_to_profile (sv_apply env) n '''') s of
      (Hangs, s1) \<Rightarrow> (Hangs, s1)
    | (Throws _, s1) \<Rightarrow> apply_ready env ns reload (replace_instance env (n\<lparr>cn_statusText := Some NsPending\<rparr>) s1)
    | (Done _, s1) \<Rightarrow> apply_ready env ns True
        (replace_instance env (n\<lparr>cn_statusText := Some NsConnected\<rparr>) (add_to_groups n s1)))"

definition has_cloud_subscription :: "session \<Rightarrow> bool" where
  "has_cloud_subscription s \<longleftrightarrow> list_ex (\<lambda>i. starts_with i ''cloud-'') (children_ids (active_profile s))"

definition apply_default :: "session_env \<Rightarrow> node list \<Rightarrow> bool \<Rightarrow> session \<Rightarrow> bool flow \<times> session" where
  "apply_default env ns reload s =
     (if has_cloud_subscription s then (Done reload, s)
      else case List.find (\<lambda>n. cn_instanceId n \<noteq> '''' \<and> has_ip n) ns of
        None \<Rightarrow> (Done reload, s)
      | Some n \<Rightarrow> (case on_store (apply_node_to_profile (sv_apply env) n '''') s of
            (Hangs, s1) \<Rightarrow> (Hangs, s1)
          | (Throws _, s1) \<Rightarrow> (Done reload, s1)
          | (Done _, s1) \<Rightarrow> (Done True, replace_instance env (n\<lparr>cn_statusText := Some NsConnected\<rparr>) s1)))"

definition apply_everything :: "session_env \<Rightarrow> session \<Rightarrow> string list flow \<times> session" where
  "apply_everything env s = flow_catch
     (on_store (apply_all_nodes_to_profile (sv_apply env) (Done ())) (cs_sync_manual env (cs_load_manual env s))) []"

definition finish_refresh :: "session_env \<Rightarrow> bool \<Rightarrow> string list \<Rightarrow> session \<Rightarrow> unit flow \<times> session" where
  "finish_refresh env reload applied s =
     (if applied \<noteq> [] then (Done (), s)
      else if reload then flow_catch (on_store (request_reload (sv_apply env) ''refresh-instances'' True) s) ()
      else (Done (), refresh_proxies_if_running env s))"

text \<open>From the list of the provider on.\<close>

definition merge_listed ::
    "session_env \<Rightarrow> node list \<Rightarrow> string list \<Rightarrow> session \<Rightarrow> node list \<times> session" where
  "merge_listed env listed migrated s =
     (let enriched = enriched_nodes s listed; merged = enriched @ retained_nodes s migrated enriched;
          s1 = put_cs_instances env merged s;
          s2 = s1\<lparr>cs_nodesCache :=
            save_to_offline_cache (sv_stored env (cs_step s1)) (cs_now env s1) merged (cs_nodesCache s1)\<rparr>
      in (enriched, cs_sync_manual env (cs_load_manual env s2)))"

definition apply_listed ::
    "session_env \<Rightarrow> node list \<Rightarrow> string list \<Rightarrow> session \<Rightarrow> unit flow \<times> session" where
  "apply_listed env listed migrated s =
     (let prev = cs_instances s; removed = map cn_instanceId (removed_nodes s migrated listed);
          (enriched, s1) = merge_listed env listed migrated s
      in flow_then (on_store (ensure_all_together (sv_apply env)
             (filter (\<lambda>n. cn_instanceId n \<noteq> '''' \<and> has_ip n) enriched)) (fold schedule_node enriched s1)) (\<lambda>_ s2.
         flow_then (apply_ready env (filter (ready_now prev) enriched) False s2) (\<lambda>reload s3.
         flow_then (on_store (remove_all_together (sv_apply env) removed) s3) (\<lambda>_ s4.
         flow_then (apply_default env enriched reload s4) (\<lambda>reload' s5.
         flow_then (apply_everything env s5) (\<lambda>applied. finish_refresh env reload' applied))))))"

definition refresh_body :: "session_env \<Rightarrow> session \<Rightarrow> unit flow \<times> session" where
  "refresh_body env s =
     flow_then (retrying 3 1000 (sv_list env)
         (s\<lparr>cs_history := load_node_history (cs_now env s) (cs_history s)\<rparr>)) (\<lambda>raws s1.
     let listed = filter (\<lambda>n. cn_instanceId n \<noteq> '''') (map (\<lambda>r. normalize_cloud_node r (cs_provider s1)) raws)
     in flow_then (migrate_replaced env listed [] s1) (\<lambda>migrated s2.
        apply_listed env listed migrated (availability_of_all env listed s2)))"

text \<open>\<open>silent\<close> and \<open>force\<close> are the parameters of the code.\<close>

definition refresh_instances :: "session_env \<Rightarrow> bool \<Rightarrow> bool \<Rightarrow> session \<Rightarrow> unit flow \<times> session" where
  "refresh_instances env silent force s =
     (if \<not> force \<and> is_instances_cache_valid env s \<and> cs_instances s \<noteq> [] then (Done (), s)
      else case (if sv_online env (cs_step s) then None else load_from_offline_cache (cs_nodesCache s)) of
        Some ns \<Rightarrow> (Done (), use_cached_nodes env ns s)
      | None \<Rightarrow>
          if cs_refreshing s then (Done (), s)
          else flow_finally
            (flow_handle
              (refresh_body env (s\<lparr>cs_refreshing := True, cs_loadingInstances := \<not> silent \<or> cs_loadingInstances s\<rparr>))
              (\<lambda>e t. case load_from_offline_cache (cs_nodesCache t) of
                  None \<Rightarrow> (Throws e, t)
                | Some ns \<Rightarrow> (Done (), use_cached_nodes env ns t)))
            (\<lambda>t. t\<lparr>cs_refreshing := False, cs_loadingInstances := silent \<and> cs_loadingInstances t\<rparr>))"

end
