(* ===== verification/RefreshLaws.thy ===== *)
theory RefreshLaws
  imports InstanceRefresh
begin

text \<open>
  What \<open>refreshInstances\<close> guarantees and what it does not: the nodes it keeps, and the lists with which it never ends.
\<close>

subsection \<open>Frames\<close>

lemma on_store_facts [simp]:
  "fst (on_store f s) = fst (f (ms_apply (cs_manual s)))"
  "snd (on_store f s) = s\<lparr>cs_manual := (cs_manual s)\<lparr>ms_apply := snd (f (ms_apply (cs_manual s)))\<rparr>\<rparr>"
  by (simp_all add: on_store_def on_manual_def on_apply_def case_prod_beta)

lemma on_store_pair: "on_store f s = (r, t) \<Longrightarrow> r = fst (f (ms_apply (cs_manual s)))
    \<and> t = s\<lparr>cs_manual := (cs_manual s)\<lparr>ms_apply := snd (f (ms_apply (cs_manual s)))\<rparr>\<rparr>"
  by (metis on_store_facts fst_conv snd_conv)

text \<open>What touches neither the flag of the refresh nor the cache of the nodes nor the regions.\<close>

definition quiet :: "session \<Rightarrow> session \<Rightarrow> bool" where
  "quiet s t \<longleftrightarrow> cs_refreshing t = cs_refreshing s \<and> cs_nodesCache t = cs_nodesCache s \<and> cs_regions t = cs_regions s"

lemma quiet_refl [simp]: "quiet s s"
  by (simp add: quiet_def)

lemma quiet_trans: "quiet s t \<Longrightarrow> quiet t u \<Longrightarrow> quiet s u"
  by (simp add: quiet_def)

text \<open>These steps are quiet, so they can be left out.\<close>

lemma quiet_simple [simp]:
  "quiet s (t\<lparr>cs_manual := m\<rparr>) = quiet s t" "quiet s (t\<lparr>cs_history := h\<rparr>) = quiet s t"
  "quiet s (cs_tick t) = quiet s t" "quiet s (put_cs_instances env ns t) = quiet s t"
  "quiet s (cs_load_manual env t) = quiet s t" "quiet s (cs_sync_manual env t) = quiet s t"
  "quiet s (replace_instance env n t) = quiet s t" "quiet s (add_to_groups n t) = quiet s t"
  "quiet s (refresh_proxies_if_running env t) = quiet s t" "quiet s (schedule_node n t) = quiet s t"
  "quiet s (snd (ensure_region_availability env r f t)) = quiet s t" "quiet s (snd (retrying k d g t)) = quiet s t"
  by (auto simp: quiet_def cs_tick_def put_cs_instances_def cs_load_manual_def cs_sync_manual_def replace_instance_def
      add_to_groups_def refresh_proxies_if_running_def schedule_node_def stop_auto_apply_def schedule_auto_apply_def
      started_def ensure_region_availability_def put_availability_def calling_def retrying_def Let_def
      split: flow.splits)

lemma quiet_on_store [simp]: "quiet s (snd (on_store f t)) = quiet s t"
  by simp

lemma quiet_store_pair: "on_store f s = (r, t) \<Longrightarrow> quiet u t = quiet u s"
  by (metis quiet_on_store snd_conv)

lemma quiet_fold: "(\<And>x t. quiet t (f x t)) \<Longrightarrow> quiet s (fold f xs s)"
  by (induction xs arbitrary: s) (auto intro: quiet_trans)

lemma quiet_then: "quiet s (snd r) \<Longrightarrow> (\<And>v t. quiet t (snd (f v t))) \<Longrightarrow> quiet s (snd (flow_then r f))"
  by (cases r; cases "fst r") (auto intro: quiet_trans)

lemma quiet_migrate: "quiet s (snd (migrate_replaced env ns ids s))"
proof (induction ns arbitrary: ids s)
  case Nil
  then show ?case by simp
next
  case (Cons n ns)
  show ?case
    by (auto simp: Let_def quiet_store_pair split: prod.split flow.split intro: Cons.IH intro!: quiet_trans [OF _ Cons.IH])
qed

lemma quiet_availability: "quiet s (availability_of_all env ns s)"
  unfolding availability_of_all_def by (rule quiet_fold) simp

lemma quiet_apply_ready: "quiet s (snd (apply_ready env ns b s))"
proof (induction ns arbitrary: b s)
  case Nil
  then show ?case by simp
next
  case (Cons n ns)
  show ?case
    by (auto simp: quiet_store_pair split: prod.split flow.split intro!: quiet_trans [OF _ Cons.IH])
qed

lemma quiet_apply_default: "quiet s (snd (apply_default env ns b s))"
  by (auto simp: apply_default_def quiet_store_pair split: option.split prod.split flow.split)

lemma quiet_catch: "quiet s (snd r) \<Longrightarrow> quiet s (snd (flow_catch r v))"
  by simp

lemma quiet_everything: "quiet s (snd (apply_everything env s))"
  unfolding apply_everything_def by (rule quiet_catch) simp

lemma quiet_finish: "quiet s (snd (finish_refresh env b ids s))"
  by (auto simp: finish_refresh_def)

subsection \<open>Properties: a refresh that never ends\<close>

lemma asked_later_usable:
  assumes "list_ex has_usable_address ns" "\<And>k. av_write env k = None"
  shows "asked_later ensure_subscription_for_node asks_ensure SubsList env ns s"
  using assms(1) by (induction ns arbitrary: s) (auto simp: asks_when_usable assms(2))

lemma usable_pair_hangs:
  assumes "2 \<le> length (filter has_usable_address ns)" "\<And>k. av_write env k = None"
  shows "fst (ensure_all_together env ns s) = Hangs"
  using assms(1) unfolding ensure_all_together_def
proof (induction ns arbitrary: s)
  case Nil
  then show ?case by simp
next
  case (Cons n ns)
  show ?case
  proof (cases "has_usable_address n")
    case False
    with Cons show ?thesis by (simp add: case_prod_beta del: if_split)
  next
    case True
    with Cons.prems have "filter has_usable_address ns \<noteq> []" by (cases "filter has_usable_address ns") simp_all
    then have "list_ex has_usable_address ns" by (auto simp: filter_empty_conv list_ex_iff)
    then have "overtaken ensure_subscription_for_node asks_ensure env n ns s"
      using True assms(2) by (simp add: overtaken_def asked_later_usable asks_when_usable)
    then show ?thesis by (simp add: superseded_ensure_hangs True assms(2) case_prod_beta)
  qed
qed

lemma migrate_ends: "fst (migrate_replaced env ns ids s) = Hangs \<or> (\<exists>v. fst (migrate_replaced env ns ids s) = Done v)"
  by (induction ns arbitrary: ids s) (auto simp: Let_def split: prod.split flow.split)

lemma usable_has_ip: "has_usable_address n \<Longrightarrow> has_ip n \<and> cn_instanceId n \<noteq> ''''"
  by (auto simp: has_usable_address_def has_ip_def is_public_ipv4_def split: option.splits if_splits)

lemma enriched_usable [simp]:
  "has_usable_address (enriched_node prev n) = has_usable_address n" "cn_instanceId (enriched_node prev n) = cn_instanceId n"
  "has_usable_address (profile_connected ids n) = has_usable_address n" "cn_instanceId (profile_connected ids n) = cn_instanceId n"
  by (simp_all add: enriched_node_def profile_connected_def has_usable_address_def Let_def split: option.split)

lemma enriched_all: "length (filter has_usable_address (enriched_nodes s ns)) = length (filter has_usable_address ns)"
  "map cn_instanceId (enriched_nodes s ns) = map cn_instanceId ns"
  by (simp_all add: enriched_nodes_def filter_map comp_def Let_def split: option.split)

lemma apply_listed_hangs:
  assumes "2 \<le> length (filter has_usable_address listed)" "\<And>k. av_write (sv_apply env) k = None"
  shows "fst (apply_listed env listed migrated s) = Hangs \<and> quiet (snd (merge_listed env listed migrated s)) (snd (apply_listed env listed migrated s))"
proof -
  obtain enriched s1 where m: "merge_listed env listed migrated s = (enriched, s1)" by fastforce
  then have "enriched = enriched_nodes s listed" by (simp add: merge_listed_def Let_def)
  then have "length (filter has_usable_address enriched) = length (filter has_usable_address listed)" by (simp add: enriched_all)
  moreover have "filter has_usable_address (filter (\<lambda>n. cn_instanceId n \<noteq> '''' \<and> has_ip n) enriched) = filter has_usable_address enriched"
    by (auto intro!: filter_cong dest: usable_has_ip)
  ultimately have two: "2 \<le> length (filter has_usable_address (filter (\<lambda>n. cn_instanceId n \<noteq> '''' \<and> has_ip n) enriched))"
    using assms(1) by simp
  let ?r = "on_store (ensure_all_together (sv_apply env) (filter (\<lambda>n. cn_instanceId n \<noteq> '''' \<and> has_ip n) enriched)) (fold schedule_node enriched s1)"
  have "fst ?r = Hangs" using usable_pair_hangs [OF two assms(2)] by simp
  moreover have "quiet s1 (snd ?r)" by (simp add: quiet_fold)
  ultimately show ?thesis
    by (cases ?r) (simp add: apply_listed_def m Let_def)
qed

text \<open>What the provider lists, as \<open>refreshInstances\<close> sees it.\<close>

definition listed_answer :: "session_env \<Rightarrow> session \<Rightarrow> node list option" where
  "listed_answer env s = (case fst (retry_with_backoff (default_retry_options\<lparr>ro_maxAttempts := 3, ro_baseDelay := 1000\<rparr>)
       (sv_list env (cs_step s))) of
      Inl e \<Rightarrow> None
    | Inr raws \<Rightarrow> Some (filter (\<lambda>n. cn_instanceId n \<noteq> '''') (map (\<lambda>r. normalize_cloud_node r (cs_provider s)) raws)))"

lemma refresh_body_listed:
  assumes "listed_answer env s = Some listed"
  shows "\<exists>s1. refresh_body env s = flow_then (migrate_replaced env listed [] s1) (\<lambda>migrated s2.
      apply_listed env listed migrated (availability_of_all env listed s2)) \<and> quiet s s1
      \<and> cs_manual s1 = (cs_manual s)\<lparr>ms_apply := next_step (ms_apply (cs_manual s))\<rparr>"
proof -
  let ?s0 = "s\<lparr>cs_history := load_node_history (cs_now env s) (cs_history s)\<rparr>"
  have step: "cs_step ?s0 = cs_step s" "cs_provider (cs_tick ?s0) = cs_provider s" by (simp_all add: cs_step_def cs_tick_def)
  obtain raws where "fst (retry_with_backoff (default_retry_options\<lparr>ro_maxAttempts := 3, ro_baseDelay := 1000\<rparr>)
      (sv_list env (cs_step s))) = Inr raws"
    and listed: "listed = filter (\<lambda>n. cn_instanceId n \<noteq> '''') (map (\<lambda>r. normalize_cloud_node r (cs_provider s)) raws)"
    using assms by (auto simp: listed_answer_def split: sum.splits)
  then have "retrying 3 1000 (sv_list env) ?s0 = (Done raws, cs_tick ?s0)"
    by (simp add: retrying_def step flow_sum_def)
  then have "refresh_body env s = flow_then (migrate_replaced env listed [] (cs_tick ?s0)) (\<lambda>migrated s2.
      apply_listed env listed migrated (availability_of_all env listed s2))"
    by (simp add: refresh_body_def Let_def step listed)
  then show ?thesis by (intro exI [of _ "cs_tick ?s0"]) (simp add: cs_tick_def)
qed

lemma listed_answer_flags: "listed_answer env (s\<lparr>cs_refreshing := a, cs_loadingInstances := b\<rparr>) = listed_answer env s"
proof -
  have "cs_provider (s\<lparr>cs_refreshing := a, cs_loadingInstances := b\<rparr>) = cs_provider s" by simp
  then show ?thesis by (simp only: listed_answer_def cs_step_def) simp
qed

lemma merge_refreshing: "cs_refreshing (snd (merge_listed env listed migrated s)) = cs_refreshing s"
  by (simp add: merge_listed_def Let_def cs_sync_manual_def cs_load_manual_def put_cs_instances_def)


subsection \<open>Properties: nodes in use stay\<close>

definition lists_node :: "string \<Rightarrow> node list \<Rightarrow> bool" where
  "lists_node i ns \<longleftrightarrow> list_ex (\<lambda>q. cn_instanceId q = i \<and> \<not> is_manual q) ns"

lemma lists_append [simp]: "lists_node i (xs @ ys) \<longleftrightarrow> lists_node i xs \<or> lists_node i ys"
  by (simp add: lists_node_def)

lemma lists_same: "list_all2 same_identity xs ys \<Longrightarrow> lists_node i xs = lists_node i ys"
  unfolding lists_node_def by (induction rule: list_all2_induct) (auto simp: same_identity_def is_manual_def)

lemma lists_mark [simp]: "lists_node i (fst (mark_node_status j st nodes)) = lists_node i (fst nodes)"
  using lists_same [OF conjunct1 [OF mark_same]] .

lemma lists_sync: "lists_node i (ms_instances s) \<Longrightarrow> lists_node i (ms_instances (sync_manual_nodes_into_instances env s))"
  by (auto simp: ms_instances_sync lists_node_def list_ex_iff)

lemma lists_cs_sync: "lists_node i (cs_instances s) \<Longrightarrow> lists_node i (cs_instances (cs_sync_manual env s))"
  by (simp add: cs_instances_def cs_sync_manual_def lists_sync)

lemma lists_cs_load: "lists_node i (cs_instances s) \<Longrightarrow> lists_node i (cs_instances (cs_load_manual env s))"
  by (simp add: cs_instances_def cs_load_manual_def load_manual_nodes_def lists_sync)

lemma lists_replace: "cn_instanceId n \<noteq> i \<Longrightarrow> lists_node i ns \<Longrightarrow>
    lists_node i (map (\<lambda>m. if cn_instanceId m = cn_instanceId n then n else m) ns)"
  by (auto simp: lists_node_def list_ex_iff)

text \<open>What the operations on all nodes keep, when marking a node keeps it.\<close>

lemma apply_nodes_inv:
  assumes "stable P" "\<And>t j st. P t \<Longrightarrow> P (t\<lparr>as_nodes := mark_node_status j st (as_nodes t)\<rparr>)" "P s"
  shows "P (snd (apply_nodes env seen ns s))"
  using assms(3)
proof (induction ns arbitrary: seen s)
  case Nil
  then show ?case by simp
next
  case (Cons n ns)
  have one: "P t" if "apply_node_to_profile env n '''' s = (r, t)" for r t
    using stable_apply_node [OF assms(1) Cons.prems, of env n "''''"] by (simp add: that)
  show ?case
    by (auto simp: Let_def split: prod.split flow.split
        intro: Cons.IH Cons.prems assms(2) one intro!: flow_then_inv [of P])
qed

lemma apply_all_inv:
  assumes "stable P" "\<And>t j st. P t \<Longrightarrow> P (t\<lparr>as_nodes := mark_node_status j st (as_nodes t)\<rparr>)" "P s"
  shows "P (snd (apply_all_nodes_to_profile env loaded s))"
proof -
  have snd_catch: "P (snd (flow_catch r v))" if "P (snd r)" for r :: "'b flow \<times> apply_state" and v using that by simp
  show ?thesis
    unfolding apply_all_nodes_to_profile_def Let_def
    by (intro flow_then_inv [of P])
      (auto intro: assms apply_nodes_inv stable_sync [OF assms(1)] stable_calls [OF assms(1)])
qed

definition keeps_node :: "string \<Rightarrow> session \<Rightarrow> bool" where
  "keeps_node i s \<longleftrightarrow> lists_node i (cs_instances s)
     \<and> (case cs_nodesCache s of None \<Rightarrow> False | Some c \<Rightarrow> lists_node i (fst c))"

lemma keeps_simple:
  assumes "keeps_node i s"
  shows "keeps_node i (cs_sync_manual env s)" "keeps_node i (cs_load_manual env s)" "keeps_node i (schedule_node n s)"
    "keeps_node i (add_to_groups n s)" "keeps_node i (refresh_proxies_if_running env s)"
    "cn_instanceId n \<noteq> i \<Longrightarrow> keeps_node i (replace_instance env n s)"
proof -
  show "keeps_node i (cs_sync_manual env s)" "keeps_node i (cs_load_manual env s)"
    using assms by (auto simp: keeps_node_def lists_cs_sync lists_cs_load) (simp_all add: cs_sync_manual_def cs_load_manual_def)
  show "keeps_node i (schedule_node n s)"
    using assms by (simp add: keeps_node_def cs_instances_def schedule_node_def stop_auto_apply_def schedule_auto_apply_def started_def)
  show "keeps_node i (add_to_groups n s)" "keeps_node i (refresh_proxies_if_running env s)"
    using assms by (simp_all add: keeps_node_def cs_instances_def add_to_groups_def refresh_proxies_if_running_def cs_tick_def
        next_step_def Let_def ms_instances_def)
  show "keeps_node i (replace_instance env n s)" if "cn_instanceId n \<noteq> i"
    using assms that by (simp add: keeps_node_def cs_instances_def replace_instance_def put_cs_instances_def lists_replace)
qed

lemma keeps_fold: "keeps_node i s \<Longrightarrow> keeps_node i (fold schedule_node ns s)"
  by (induction ns arbitrary: s) (auto intro: keeps_simple)

lemma keeps_on_store:
  assumes "keeps_node i s" "lists_node i (fst (as_nodes (snd (f (ms_apply (cs_manual s))))))"
  shows "keeps_node i (snd (on_store f s))"
  using assms by (simp add: keeps_node_def cs_instances_def ms_instances_def)

lemma keeps_stable:
  assumes "keeps_node i s" "\<And>P t. stable P \<Longrightarrow> P t \<Longrightarrow> P (snd (f t))"
  shows "keeps_node i (snd (on_store f s))"
proof -
  have "as_nodes (snd (f (ms_apply (cs_manual s)))) = as_nodes (ms_apply (cs_manual s))"
    by (rule assms(2) [OF stable_nodes]) simp
  with assms(1) show ?thesis by (intro keeps_on_store) (simp_all add: keeps_node_def cs_instances_def ms_instances_def)
qed

lemma keeps_apply_node:
  "keeps_node i s \<Longrightarrow> on_store (apply_node_to_profile env n t) s = (r, s1) \<Longrightarrow> keeps_node i s1"
  using keeps_stable [of i s "apply_node_to_profile env n t"] stable_apply_node by (metis snd_conv)

lemma keeps_apply_ready:
  "keeps_node i s \<Longrightarrow> \<forall>n \<in> set ns. cn_instanceId n \<noteq> i \<Longrightarrow> keeps_node i (snd (apply_ready env ns b s))"
proof (induction ns arbitrary: b s)
  case Nil
  then show ?case by simp
next
  case (Cons n ns)
  show ?case
    using Cons.prems
    by (auto split: prod.split flow.split intro!: Cons.IH keeps_simple intro: keeps_apply_node)
qed

lemma keeps_apply_default:
  "keeps_node i s \<Longrightarrow> \<forall>n \<in> set ns. cn_instanceId n \<noteq> i \<Longrightarrow> keeps_node i (snd (apply_default env ns b s))"
  by (auto simp: apply_default_def split: option.split prod.split flow.split intro!: keeps_simple dest: find_SomeD
      intro: keeps_apply_node)

lemma keeps_everything: "keeps_node i s \<Longrightarrow> keeps_node i (snd (apply_everything env s))"
proof -
  assume k: "keeps_node i s"
  let ?t = "cs_sync_manual env (cs_load_manual env s)"
  have t: "keeps_node i ?t" using k by (intro keeps_simple)
  have st: "stable (\<lambda>a. lists_node i (fst (as_nodes a)))" by (simp add: stable_def load_protocol_health_def)
  have "lists_node i (fst (as_nodes (snd (apply_all_nodes_to_profile (sv_apply env) (Done ()) (ms_apply (cs_manual ?t))))))"
    by (rule apply_all_inv [OF st]) (use t in \<open>simp_all add: keeps_node_def cs_instances_def ms_instances_def\<close>)
  then show ?thesis unfolding apply_everything_def using t by (simp del: on_store_facts add: keeps_on_store)
qed

lemma keeps_finish: "keeps_node i s \<Longrightarrow> keeps_node i (snd (finish_refresh env b ids s))"
proof -
  assume k: "keeps_node i s"
  have "keeps_node i (snd (on_store (request_reload (sv_apply env) ''refresh-instances'' True) s))"
    by (rule keeps_stable [OF k]) (rule stable_calls(5))
  then show ?thesis using k by (simp add: finish_refresh_def keeps_simple del: on_store_facts)
qed

lemma keeps_apply_listed:
  assumes "keeps_node i (snd (merge_listed env listed migrated s))" "i \<notin> cn_instanceId ` set listed"
  shows "keeps_node i (snd (apply_listed env listed migrated s))"
proof -
  obtain enriched s1 where m: "merge_listed env listed migrated s = (enriched, s1)" by fastforce
  then have e: "enriched = enriched_nodes s listed" by (simp add: merge_listed_def Let_def)
  have "cn_instanceId ` set enriched = cn_instanceId ` set listed" unfolding e
    using arg_cong [OF enriched_all(2) [of s listed], of set] by simp
  with assms(2) have "i \<notin> cn_instanceId ` set enriched" by simp
  then have ids: "\<forall>n \<in> set enriched. cn_instanceId n \<noteq> i" by blast
  have k1: "keeps_node i (fold schedule_node enriched s1)" using assms(1) by (simp add: m keeps_fold)
  have all: "keeps_node i t \<Longrightarrow> keeps_node i (snd (on_store (ensure_all_together (sv_apply env) ns) t))"
    "keeps_node i t \<Longrightarrow> keeps_node i (snd (on_store (remove_all_together (sv_apply env) js) t))" for t ns js
    using keeps_stable [of i t "ensure_all_together (sv_apply env) ns"] stable_together(1)
      keeps_stable [of i t "remove_all_together (sv_apply env) js"] stable_remove_all by blast+
  show ?thesis
    unfolding apply_listed_def m Let_def prod.case
    by (intro flow_then_inv [of "keeps_node i"] all k1 keeps_apply_ready keeps_apply_default keeps_everything keeps_finish)
      (use ids in auto)
qed

lemma migrate_none:
  assumes "\<forall>n \<in> set listed. js_trim (or_else (cn_replacedInstanceId n) '''') = ''''"
  shows "migrate_replaced env listed ids s = (Done ids, s)"
  using assms by (induction listed) simp_all

text \<open>Asking for the regions only lets time pass.\<close>

definition later :: "session \<Rightarrow> session \<Rightarrow> bool" where
  "later s t \<longleftrightarrow> quiet s t \<and> (\<exists>k. cs_manual t = (cs_manual s)\<lparr>ms_apply := (ms_apply (cs_manual s))\<lparr>as_step := k\<rparr>\<rparr>)"

lemma later_trans: "later s t \<Longrightarrow> later t u \<Longrightarrow> later s u"
  by (auto simp: later_def quiet_def)

lemma later_refl: "later s s"
  unfolding later_def by (auto intro!: exI [of _ "as_step (ms_apply (cs_manual s))"])

lemma later_tick: "later s (cs_tick s)"
  by (auto simp: later_def cs_tick_def next_step_def)

lemma later_availability: "later s (availability_of_all env ns s)"
proof -
  have one: "later t (snd (ensure_region_availability env r f t))" for t r f
  proof -
    have same: "later t (put_availability a b u) = later t u" for a b u
      by (simp add: later_def put_availability_def quiet_def)
    show ?thesis
      by (auto simp: ensure_region_availability_def calling_def Let_def same later_refl later_tick split: flow.splits)
  qed
  have "later t (fold (\<lambda>n u. snd (ensure_region_availability env (opt_or (cn_region n) '''') False u)) ns t)" for t
    by (induction ns arbitrary: t) (auto intro: later_refl later_trans [OF one])
  then show ?thesis by (simp add: availability_of_all_def)
qed

lemma later_lists:
  assumes "later s t"
  shows "cs_instances t = cs_instances s" "in_use t i = in_use s i" "active_profile t = active_profile s"
    "get_subscribe_by_id (as_subs (ms_apply (cs_manual t))) j = get_subscribe_by_id (as_subs (ms_apply (cs_manual s))) j"
  using assms by (auto simp: later_def cs_instances_def ms_instances_def in_use_def active_profile_def Let_def)

lemma flag_lists [simp]:
  "cs_instances (s\<lparr>cs_refreshing := b\<rparr>) = cs_instances s" "in_use (s\<lparr>cs_refreshing := b\<rparr>) i = in_use s i"
  "active_profile (s\<lparr>cs_refreshing := b\<rparr>) = active_profile s"
  by (simp_all add: cs_instances_def in_use_def active_profile_def)

lemma refresh_runs:
  assumes "force \<or> \<not> is_instances_cache_valid env s \<or> cs_instances s = []" and "sv_online env (cs_step s)"
    and "\<not> cs_refreshing s" and "listed_answer env s = Some listed"
    and "\<forall>n \<in> set listed. js_trim (or_else (cn_replacedInstanceId n) '''') = ''''"
  shows "\<exists>t. later (s\<lparr>cs_refreshing := True\<rparr>) t \<and> refresh_instances env silent force s = flow_finally
      (flow_handle (apply_listed env listed [] t)
        (\<lambda>e u. case load_from_offline_cache (cs_nodesCache u) of
            None \<Rightarrow> (Throws e, u) | Some ns \<Rightarrow> (Done (), use_cached_nodes env ns u)))
      (\<lambda>u. u\<lparr>cs_refreshing := False, cs_loadingInstances := silent \<and> cs_loadingInstances u\<rparr>)"
proof -
  let ?s = "s\<lparr>cs_refreshing := True, cs_loadingInstances := \<not> silent \<or> cs_loadingInstances s\<rparr>"
  have "listed_answer env ?s = Some listed" using assms(4) by (simp only: listed_answer_flags)
  from refresh_body_listed [OF this] obtain s1 where body: "refresh_body env ?s =
      flow_then (migrate_replaced env listed [] s1) (\<lambda>migrated s2. apply_listed env listed migrated (availability_of_all env listed s2))"
    and s1: "quiet ?s s1" "cs_manual s1 = (cs_manual s)\<lparr>ms_apply := next_step (ms_apply (cs_manual s))\<rparr>" by auto
  have "later (s\<lparr>cs_refreshing := True\<rparr>) s1" using s1 by (auto simp: later_def next_step_def quiet_def)
  then have "later (s\<lparr>cs_refreshing := True\<rparr>) (availability_of_all env listed s1)"
    using later_availability later_trans by blast
  moreover have "refresh_body env ?s = apply_listed env listed [] (availability_of_all env listed s1)"
    unfolding body migrate_none [OF assms(5)] by simp
  ultimately show ?thesis using assms(1-3)
    by (intro exI [of _ "availability_of_all env listed s1"]) (auto simp: refresh_instances_def)
qed


subsection \<open>Properties: manual nodes and a refresh\<close>

lemma superseded_remove:
  assumes "get_subscribe_by_id (as_subs s) (subscription_id i) \<noteq> None"
  shows "fst (remove_subscription_for_node (superseding env) i s) = Hangs"
    and "as_subs (snd (remove_subscription_for_node (superseding env) i s))
      = unsaved (as_subs s) (delete_subscribe None (subscription_id i) (as_subs s))"
proof -
  from assms obtain y where "get_subscribe_by_id (as_subs s) (subscription_id i) = Some y" by blast
  then show "fst (remove_subscription_for_node (superseding env) i s) = Hangs"
    "as_subs (snd (remove_subscription_for_node (superseding env) i s))
      = unsaved (as_subs s) (delete_subscribe None (subscription_id i) (as_subs s))"
    by (simp_all add: remove_subscription_for_node_def with_subs_def Let_def)
qed

lemma known_after_removal:
  assumes "get_subscribe_by_id st j \<noteq> None" "i \<noteq> j"
  shows "get_subscribe_by_id (unsaved st (delete_subscribe None i st)) j \<noteq> None"
proof (cases "find_index (\<lambda>v. sb_id v = i) (fs_items st)")
  case None
  with assms(1) show ?thesis
    by (simp add: unsaved_def get_subscribe_by_id_def delete_subscribe_def store_delete_def store_get_def)
next
  case (Some k)
  let ?xs = "fs_items st"
  from find_index_SomeD [OF Some] have k: "k < length ?xs" "sb_id (?xs ! k) = i" by auto
  have "List.find (\<lambda>v. sb_id v = j) (take k ?xs @ ?xs ! k # drop (Suc k) ?xs)
      = List.find (\<lambda>v. sb_id v = j) (take k ?xs @ drop (Suc k) ?xs)"
    using k(2) assms(2) by (simp add: find_append split: option.split)
  then have "List.find (\<lambda>v. sb_id v = j) (remove_at k ?xs) = List.find (\<lambda>v. sb_id v = j) ?xs"
    using k(1) by (simp add: remove_at_def flip: id_take_nth_drop)
  with assms(1) Some show ?thesis
    by (simp add: unsaved_def get_subscribe_by_id_def delete_subscribe_def store_delete_def store_get_def Let_def)
qed

lemma remove_never_throws:
  assumes "\<And>k. av_write env k = None"
  shows "fst (remove_subscription_for_node env i s) \<noteq> Throws e"
proof -
  have subs: "fst (with_subs (\<lambda>w. delete_subscribe w j) env t) \<noteq> Throws e" for j t
    by (auto simp: with_subs_def delete_subscribe_def store_delete_def assms Let_def split: option.splits)
  have profs: "fst (edit_profiles env ups t) \<noteq> Throws e" for ups t
    by (auto simp: edit_profiles_def with_profiles_def edit_profile_def store_edit_def assms Let_def split: option.splits flow.splits prod.splits)
  have reload: "fst (reload_if_running env r t) \<noteq> Throws e" for r t
    by (auto simp: reload_if_running_def flow_catch_def split: flow.splits prod.splits)
  have seq: "fst (flow_then r f) \<noteq> Throws e" if "fst r \<noteq> Throws e" "\<And>v t. fst (f v t) \<noteq> Throws e"
    for r :: "unit flow \<times> apply_state" and f :: "unit \<Rightarrow> apply_state \<Rightarrow> unit flow \<times> apply_state"
    using that by (cases r; cases "fst r") auto
  have inner: "fst (flow_then (edit_profiles env ups t) (\<lambda>_. reload_if_running env r)) \<noteq> Throws e" for ups t r
    using profs reload by (rule seq)
  show ?thesis
    unfolding remove_subscription_for_node_def Let_def by (rule seq) (simp_all add: subs inner)
qed

lemma remove_all_never_throws:
  assumes "\<And>k. av_write env k = None"
  shows "fst (remove_all_together env js s) \<noteq> Throws e"
proof -
  have sup: "av_write (superseding env) k = None" for k using assms by simp
  have first: "first_throw r r' \<noteq> Throws e" if "r \<noteq> Throws e" "r' \<noteq> Throws e" for r r'
    using that by (cases r) (auto split: flow.split)
  show ?thesis
    unfolding remove_all_together_def
  proof (induction js arbitrary: s)
    case Nil
    then show ?case by simp
  next
    case (Cons j js)
    show ?case
      unfolding together_or_throw.simps(2) case_prod_beta fst_conv
      by (rule first) (use Cons.IH remove_never_throws [OF assms] remove_never_throws [OF sup] in \<open>simp_all split: if_split\<close>)
  qed
qed

lemma two_known_removals_hang:
  assumes "get_subscribe_by_id (as_subs s) (subscription_id i) \<noteq> None"
    and "get_subscribe_by_id (as_subs s) (subscription_id j) \<noteq> None"
    and "subscription_id i \<noteq> subscription_id j" and "\<And>k. av_write env k = None"
  shows "fst (remove_all_together env (i # j # js) s) = Hangs"
proof -
  let ?r = "remove_subscription_for_node (superseding env) i s"
  note r = superseded_remove [OF assms(1), of env]
  have "get_subscribe_by_id (as_subs (snd ?r)) (subscription_id j) \<noteq> None"
    unfolding r(2) using assms(2,3) by (rule known_after_removal)
  then have "overtaken remove_subscription_for_node asks_remove env i (j # js) s"
    using assms(1) by (simp add: overtaken_def asks_remove_def Let_def)
  then have "fst (remove_all_together env (i # j # js) s)
      = first_throw Hangs (fst (remove_all_together env (j # js) (snd ?r)))"
    unfolding remove_all_together_def by (subst together_or_throw.simps(2)) (simp add: r(1) case_prod_beta del: together_or_throw.simps)
  then show ?thesis using remove_all_never_throws [OF assms(4), of "j # js" "snd ?r"]
    by (cases "fst (remove_all_together env (j # js) (snd ?r))") auto
qed

lemma merge_facts:
  "as_subs (ms_apply (cs_manual (snd (merge_listed env listed migrated s)))) = as_subs (ms_apply (cs_manual s))"
  "cs_refreshing (snd (merge_listed env listed migrated s)) = cs_refreshing s"
proof -
  have sync: "as_subs (ms_apply (sync_manual_nodes_into_instances c m)) = as_subs (ms_apply m)" for c m
    by (simp add: sync_manual_nodes_into_instances_def put_instances_def Let_def)
  have subs: "as_subs (ms_apply (cs_manual (cs_sync_manual env t))) = as_subs (ms_apply (cs_manual t))"
    "as_subs (ms_apply (cs_manual (cs_load_manual env t))) = as_subs (ms_apply (cs_manual t))"
    "as_subs (ms_apply (cs_manual (put_cs_instances env ns t))) = as_subs (ms_apply (cs_manual t))" for t ns
    by (simp_all add: cs_sync_manual_def cs_load_manual_def put_cs_instances_def load_keeps sync put_instances_def)
  show "as_subs (ms_apply (cs_manual (snd (merge_listed env listed migrated s)))) = as_subs (ms_apply (cs_manual s))"
    by (simp add: merge_listed_def Let_def subs)
  show "cs_refreshing (snd (merge_listed env listed migrated s)) = cs_refreshing s" by (rule merge_refreshing)
qed

text \<open>
  Manual nodes never count as in use, and two of them block refreshing. The ids of manual nodes start with \<open>cloud-\<close>, as the
  ids of their subscriptions do, but the comparison takes that prefix off the latter. So a refresh removes the
  subscriptions of all manual nodes that are listed; with two of them, which are saved at once, it never ends, and the
  flag that keeps refreshes apart stays set. The provider need not list a single server.
\<close>

theorem two_manual_nodes_block_refreshing:
  assumes "cs_instances s = m1 # m2 # rest" and "starts_with (cn_instanceId m1) ''cloud-''" "starts_with (cn_instanceId m2) ''cloud-''"
    and "cn_instanceId m1 \<noteq> cn_instanceId m2"
    and "\<forall>m \<in> {m1, m2}. get_subscribe_by_id (as_subs (ms_apply (cs_manual s))) (cn_instanceId m) \<noteq> None"
    and "\<forall>i \<in> set (map sb_id (fs_items (as_subs (ms_apply (cs_manual s)))) @ children_ids (active_profile s)).
      \<not> starts_with i ''cloud-cloud-''"
    and "\<not> is_instances_cache_valid env s" "sv_online env (cs_step s)" "\<not> cs_refreshing s"
    and "listed_answer env s = Some []" and "\<forall>k. av_write (sv_apply env) k = None"
  shows "fst (refresh_instances env silent force s) = Hangs \<and> cs_refreshing (snd (refresh_instances env silent force s))"
proof -
  have "force \<or> \<not> is_instances_cache_valid env s \<or> cs_instances s = []" using assms(7) by blast
  from refresh_runs [OF this assms(8-10), of silent] obtain t where t: "later (s\<lparr>cs_refreshing := True\<rparr>) t"
    and run: "refresh_instances env silent force s = flow_finally
      (flow_handle (apply_listed env [] [] t)
        (\<lambda>e u. case load_from_offline_cache (cs_nodesCache u) of
            None \<Rightarrow> (Throws e, u) | Some ns \<Rightarrow> (Done (), use_cached_nodes env ns u)))
      (\<lambda>u. u\<lparr>cs_refreshing := False, cs_loadingInstances := silent \<and> cs_loadingInstances u\<rparr>)" by auto
  note lists = later_lists [OF t, simplified]
  have prefix: "starts_with i ''cloud-'' \<Longrightarrow> starts_with j ''cloud-'' \<Longrightarrow> drop 6 j = i \<Longrightarrow> starts_with j ''cloud-cloud-''" for i j
    by (auto simp: starts_with_iff)
  have unused: "\<not> in_use s (cn_instanceId m)" if "starts_with (cn_instanceId m) ''cloud-''" for m :: node
  proof
    assume "in_use s (cn_instanceId m)"
    then obtain j where "j \<in> set (map sb_id (fs_items (as_subs (ms_apply (cs_manual s)))) @ children_ids (active_profile s))"
      "starts_with j ''cloud-''" "cn_instanceId m = drop 6 j"
      unfolding in_use_def cloud_refs_def set_map set_filter set_append by blast
    with prefix [OF that] assms(6) show False by fastforce
  qed
  have "cn_instanceId m \<noteq> ''''" if "starts_with (cn_instanceId m) ''cloud-''" for m :: node
    using that by (auto simp: starts_with_def)
  then have gone: "cn_instanceId m \<noteq> '''' \<and> \<not> in_use s (cn_instanceId m)" if "m \<in> {m1, m2}" for m
    using that assms(2,3) unused by blast
  have "removed_nodes t [] [] = filter (\<lambda>p. cn_instanceId p \<noteq> '''' \<and> \<not> in_use s (cn_instanceId p)) (m1 # m2 # rest)"
    by (simp only: removed_nodes_def lists assms(1)) simp
  with gone obtain js where js: "map cn_instanceId (removed_nodes t [] []) = cn_instanceId m1 # cn_instanceId m2 # js"
    by simp
  have "fst (merge_listed env [] [] t) = []"
    by (simp add: merge_listed_def Let_def enriched_nodes_def split: option.split)
  then obtain s1 where m: "merge_listed env [] [] t = ([], s1)" by (cases "merge_listed env [] [] t") simp
  have s1: "as_subs (ms_apply (cs_manual s1)) = as_subs (ms_apply (cs_manual t))" "cs_refreshing s1 = cs_refreshing t"
    using merge_facts [of env "[]" "[]" t] by (simp_all add: m)
  let ?r = "on_store (remove_all_together (sv_apply env) (map cn_instanceId (removed_nodes t [] []))) s1"
  have same: "subscription_id (cn_instanceId m) = cn_instanceId m" if "starts_with (cn_instanceId m) ''cloud-''" for m :: node
    using that by (simp add: subscription_id_def)
  have "fst ?r = Hangs"
    unfolding on_store_facts js
    by (rule two_known_removals_hang) (use assms(2-5,11) lists(4) in \<open>simp_all add: same s1(1)\<close>)
  moreover have "cs_refreshing (snd ?r)" using t s1(2) by (simp add: later_def quiet_def)
  ultimately obtain u where u: "?r = (Hangs, u)" "cs_refreshing u" by (cases ?r) auto
  have "on_store (ensure_all_together (sv_apply env) []) s1 = (Done (), s1)"
    by (simp add: ensure_all_together_def on_store_def on_manual_def on_apply_def)
  then have "apply_listed env [] [] t = (Hangs, u)"
    unfolding apply_listed_def m Let_def prod.case using u(1) by (simp del: on_store_facts)
  then show ?thesis unfolding run by (simp add: flow_finally_def flow_handle_def u(2))
qed

subsection \<open>Concrete runs\<close>

text \<open>Every call succeeds; the provider lists the given servers.\<close>

definition listing_env :: "raw_node list \<Rightarrow> session_env" where
  "listing_env raws = \<lparr>sv_cloud = cloud_calm, sv_bridge = True, sv_online = (\<lambda>_. True), sv_stored = (\<lambda>_. True),
     sv_get_config = (\<lambda>_. Inr \<lparr>cc_provider = None, cc_apiKey = ''key'', cc_defaultRegion = None, cc_defaultPlan = None,
       cc_extra = None\<rparr>),
     sv_save_config = (\<lambda>_ _ _. Inr ()), sv_list_providers = (\<lambda>_. Inr []), sv_get_provider = (\<lambda>_. Inr ''vultr''),
     sv_set_provider = (\<lambda>p _. Inr p), sv_account = (\<lambda>_ _. Inr JNull), sv_regions = (\<lambda>_ _. Inr []),
     sv_plans = (\<lambda>_ _. Inr []), sv_availability = (\<lambda>_ _. Inr []), sv_list = (\<lambda>_ _. Inr raws),
     sv_create = (\<lambda>r _ _. Inl ''no capacity''), sv_create_many = (\<lambda>_ _. Inr JNull), sv_destroy = (\<lambda>_ _. None),
     sv_repair = (\<lambda>_ _ _. Inl ''unsupported''),
     sv_probe = (\<lambda>_ _ _ _. Inr \<lparr>cr_status = CsReachable, cr_targetStatus = None, cr_portsOpen = None\<rparr>),
     sv_speed = (\<lambda>_ _. Inl ''timeout'')\<rparr>"

definition session_start :: "manual_state \<Rightarrow> session" where
  "session_start m = \<lparr>cs_manual = m, cs_provider = ''vultr'', cs_providers = [],
     cs_config = \<lparr>cc_provider = Some ''vultr'', cc_apiKey = ''key'', cc_defaultRegion = None, cc_defaultPlan = None, cc_extra = None\<rparr>,
     cs_configLoaded = True, cs_savingConfig = False, cs_regions = [], cs_plans = [], cs_regionsUpdatedAt = None,
     cs_plansUpdatedAt = None, cs_loadingRegions = False, cs_loadingPlans = False, cs_availability = [], cs_account = None,
     cs_loadingInstances = False, cs_creatingInstance = False, cs_destroyingInstance = '''', cs_refreshing = False,
     cs_autoRefresh = False, cs_autoApply = [],
     cs_history = \<lparr>hi_map = [], hi_loaded = True, hi_reading = False, hi_disk = []\<rparr>, cs_nodesCache = None,
     cs_regionsCache = None, cs_plansCache = None, cs_notes = note_center_init, cs_started = []\<rparr>"

definition server :: "string \<Rightarrow> string \<Rightarrow> node" where
  "server i ip = (bare_node i i)\<lparr>cn_provider := Some ''vultr'', cn_status := Some ''active'', cn_ipv4 := Some ip,
     cn_ssPort := Some 8388, cn_ssPassword := Some ''pw''\<rparr>"

definition raw_server :: "string \<Rightarrow> string \<Rightarrow> raw_node" where
  "raw_server i ip = \<lparr>rw_node = server i ip, rw_alias = [], rw_createdAt = None\<rparr>"

definition two_servers :: "raw_node list" where
  "two_servers = [raw_server ''n1'' ''203.0.113.1'', raw_server ''n2'' ''203.0.113.2'']"



definition two_manual :: "node list" where
  "two_manual = [trojan_node, trojan_node\<lparr>cn_instanceId := ''cloud-n1'', cn_label := ''n1'', cn_ipv4 := Some ''203.0.113.8''\<rparr>]"

definition manual_session :: session where
  "manual_session = (let m = manual_start two_manual two_manual
     in session_start (m\<lparr>ms_apply := (ms_apply m)\<lparr>as_subs :=
       \<lparr>fs_items = [new_subscription ''cloud-n1'' ''n1'' '''', new_subscription ''cloud-m1'' ''m1'' ''''], fs_disk = []\<rparr>\<rparr>\<rparr>))"

lemma two_manual_nodes_block_refreshing_witness:
  "fst (refresh_instances (listing_env []) False False manual_session) = Hangs
   \<and> cs_refreshing (snd (refresh_instances (listing_env []) False False manual_session))"
proof -
  have lists: "cs_instances manual_session = two_manual ! 0 # two_manual ! 1 # []"
    by (simp add: manual_session_def session_start_def cs_instances_def ms_instances_def manual_start_def two_manual_def Let_def)
  have ids: "starts_with (cn_instanceId (two_manual ! 0)) ''cloud-''" "starts_with (cn_instanceId (two_manual ! 1)) ''cloud-''"
    "cn_instanceId (two_manual ! 0) \<noteq> cn_instanceId (two_manual ! 1)" by code_simp+
  have "list_all (\<lambda>m. get_subscribe_by_id (as_subs (ms_apply (cs_manual manual_session))) (cn_instanceId m) \<noteq> None) two_manual"
    "list_all (\<lambda>i. \<not> starts_with i ''cloud-cloud-'') (map sb_id (fs_items (as_subs (ms_apply (cs_manual manual_session))))
       @ children_ids (active_profile manual_session))" by code_simp+
  then have known: "\<forall>m \<in> {two_manual ! 0, two_manual ! 1}. get_subscribe_by_id (as_subs (ms_apply (cs_manual manual_session))) (cn_instanceId m) \<noteq> None"
    "\<forall>i \<in> set (map sb_id (fs_items (as_subs (ms_apply (cs_manual manual_session)))) @ children_ids (active_profile manual_session)).
      \<not> starts_with i ''cloud-cloud-''"
    unfolding list_all_iff two_manual_def by auto
  have flags: "\<not> is_instances_cache_valid (listing_env []) manual_session" "sv_online (listing_env []) (cs_step manual_session)"
    "\<not> cs_refreshing manual_session" "listed_answer (listing_env []) manual_session = Some []" by code_simp+
  have "\<forall>k. av_write (sv_apply (listing_env [])) k = None" by (simp add: listing_env_def cloud_calm_def calm_env_def)
  from two_manual_nodes_block_refreshing [OF lists ids known flags this] show ?thesis by simp
qed

end
