(* ===== verification/ProviderSwitch.thy ===== *)
theory ProviderSwitch
  imports RefreshLaws
begin

text \<open>
  \<open>switchProvider\<close> of \<open>stores/cloud/providerConfig.ts\<close>: the configuration of the old provider is saved, that of the new one
  is loaded, and regions, plans and instances are fetched again.
\<close>

definition save_before_switch :: "session_env \<Rightarrow> session \<Rightarrow> unit flow \<times> session" where
  "save_before_switch env s =
     (if cc_apiKey (cs_config s) = '''' \<or> cs_provider s = '''' then (Done (), s)
      else case calling (sv_get_provider env) s of
        (Done name, s1) \<Rightarrow> (if name = cs_provider s1 then save_config env s1 else (Done (), s1))
      | (_, s1) \<Rightarrow> (Done (), s1))"

definition reset_config :: "string \<Rightarrow> session \<Rightarrow> session" where
  "reset_config provider s = stop_auto_refresh (s\<lparr>cs_config := \<lparr>cc_provider = Some provider, cc_apiKey = '''',
     cc_defaultRegion = Some '''', cc_defaultPlan = Some '''', cc_extra = Some []\<rparr>, cs_account := None\<rparr>)"

definition fetch_both :: "session_env \<Rightarrow> session \<Rightarrow> unit flow \<times> session" where
  "fetch_both env s = (case fetch_regions env False s of
      (r, s1) \<Rightarrow> (case fetch_plans env False s1 of (r', s2) \<Rightarrow> (first_throw r r', s2)))"

definition clear_defaults :: "session \<Rightarrow> session" where
  "clear_defaults s = s\<lparr>cs_config := (cs_config s)\<lparr>cc_defaultRegion := Some '''', cc_defaultPlan := Some ''''\<rparr>\<rparr>"

definition switched_to :: "string \<Rightarrow> session \<Rightarrow> session" where
  "switched_to name s = s\<lparr>cs_provider := name, cs_regions := [], cs_plans := [], cs_availability := []\<rparr>"

definition load_switched :: "session_env \<Rightarrow> string \<Rightarrow> session \<Rightarrow> unit flow \<times> session" where
  "load_switched env provider s =
     (if provider = ''ssh'' then refresh_instances env True True s
      else if cc_apiKey (cs_config s) = '''' then (Done (), s)
      else flow_then (fetch_both env s) (\<lambda>_. refresh_instances env True True))"

definition switch_provider :: "session_env \<Rightarrow> string \<Rightarrow> session \<Rightarrow> unit flow \<times> session" where
  "switch_provider env provider s = flow_then (save_before_switch env s) (\<lambda>_ s1.
     let s2 = reset_config provider s1
     in if \<not> sv_bridge env then (Done (), s2\<lparr>cs_provider := provider\<rparr>)
        else flow_then (calling (sv_set_provider env provider) s2) (\<lambda>name s3.
          flow_then (load_config env (switched_to name s3)) (\<lambda>_ s4.
          flow_then (load_switched env provider (clear_defaults s4)) (\<lambda>_ s5.
            (Done (), if cc_apiKey (cs_config s5) = '''' then s5 else started (AccountProbe provider) s5)))))"

subsection \<open>Properties: a switch that fails\<close>

lemma config_frame [simp]:
  "cs_provider (tell env w t) = cs_provider t" "cs_config (tell env w t) = cs_config t"
  "cs_provider (stop_auto_refresh t) = cs_provider t" "cs_config (stop_auto_refresh t) = cs_config t"
  "cs_provider (start_auto_refresh b t) = cs_provider t" "cs_config (start_auto_refresh b t) = cs_config t"
  "cs_provider (cs_tick t) = cs_provider t" "cs_config (cs_tick t) = cs_config t"
  by (simp_all add: tell_def stop_auto_refresh_def start_auto_refresh_def run_refresh_def started_def cs_tick_def Let_def)

lemma resync_same:
  assumes "\<And>k. sv_get_provider env k = Inr (cs_provider s)"
  shows "cs_provider (resync_provider env s) = cs_provider s" "cs_config (resync_provider env s) = cs_config s"
  by (simp_all add: resync_provider_def calling_def flow_sum_def assms)

lemma save_config_ends:
  assumes "\<And>k. sv_get_provider env k = Inr (cs_provider s)" "\<And>c k a. sv_save_config env c k a = Inr ()"
  shows "fst (save_config env s) = Done () \<and> cs_provider (snd (save_config env s)) = cs_provider s
    \<and> cs_config (snd (save_config env s)) = cs_config s"
proof -
  let ?s1 = "resync_provider env (s\<lparr>cs_savingConfig := True\<rparr>)"
  have r: "cs_provider ?s1 = cs_provider s" "cs_config ?s1 = cs_config s"
    using resync_same [of env "s\<lparr>cs_savingConfig := True\<rparr>"] assms(1) by simp_all
  have "fst (retry_with_backoff opts (sv_save_config env c k)) = Inr ()" if "ro_maxAttempts opts = 3" for opts c k
    using that by (simp add: retry_with_backoff_def eval_nat_numeral assms(2))
  then show ?thesis
    by (simp add: save_config_def Let_def flow_sum_def flow_handle_def flow_finally_def r)
qed

text \<open>
  A switch that fails leaves the old provider without its key. When the backend refuses the new provider, after the
  configuration of the old one has been saved, the exception is passed on and the old provider stays current, but the
  configuration in memory is blank, the automatic refresh is off, and the next save would send an empty key for the
  old provider.
\<close>

theorem failed_switch_blanks_the_key:
  assumes "cc_apiKey (cs_config s) \<noteq> ''''" "cs_provider s \<noteq> ''''" and "sv_bridge env"
    and "\<forall>k. sv_get_provider env k = Inr (cs_provider s)" and "\<forall>c k a. sv_save_config env c k a = Inr ()"
    and "\<forall>k. sv_set_provider env provider k = Inl e"
  shows "fst (switch_provider env provider s) = Throws e
    \<and> (let t = snd (switch_provider env provider s)
       in cs_provider t = cs_provider s \<and> \<not> cs_autoRefresh t
          \<and> cc_provider (payload_of t) = Some (cs_provider s) \<and> cc_apiKey (payload_of t) = '''')"
proof -
  let ?t = "snd (save_config env (cs_tick s))"
  have "fst (save_config env (cs_tick s)) = Done () \<and> cs_provider ?t = cs_provider s"
    using save_config_ends [of env "cs_tick s"] assms(4,5) by simp
  then obtain t1 where save: "save_config env (cs_tick s) = (Done (), t1)" "cs_provider t1 = cs_provider s"
    by (cases "save_config env (cs_tick s)") auto
  have "save_before_switch env s = (Done (), t1)"
    using assms(1,2,4) save by (simp add: save_before_switch_def calling_def flow_sum_def)
  then have "switch_provider env provider s = (Throws e, cs_tick (reset_config provider t1))"
    using assms(3,6) by (simp add: switch_provider_def Let_def calling_def flow_sum_def)
  then show ?thesis
    by (simp add: Let_def payload_of_def reset_config_def save(2)) (simp add: stop_auto_refresh_def cs_tick_def)
qed

subsection \<open>Properties: regions of another provider\<close>

lemma regions_refresh: "cs_regions (snd (refresh_instances env silent force s)) = cs_regions s"
proof -
  have merge: "cs_regions (snd (merge_listed env listed migrated t)) = cs_regions t" for listed migrated t
    by (simp add: merge_listed_def Let_def cs_sync_manual_def cs_load_manual_def put_cs_instances_def)
  have keep: "quiet t u \<Longrightarrow> cs_regions t = r \<Longrightarrow> cs_regions u = r" for r t u by (simp add: quiet_def)
  have listed: "cs_regions (snd (apply_listed env listed migrated t)) = cs_regions t" for listed migrated t
  proof -
    let ?P = "\<lambda>u. cs_regions u = cs_regions t"
    obtain enriched s1 where m: "merge_listed env listed migrated t = (enriched, s1)" by fastforce
    then have s1: "cs_regions s1 = cs_regions t" using merge [of listed migrated t] by simp
    have "?P (fold schedule_node enriched s1)" by (rule keep [OF quiet_fold s1]) simp
    then show ?thesis
      unfolding apply_listed_def m Let_def prod.case
      by (intro flow_then_inv [of ?P])
        (auto intro: keep [OF quiet_apply_ready] keep [OF quiet_apply_default] keep [OF quiet_everything] keep [OF quiet_finish])
  qed
  have body: "cs_regions (snd (refresh_body env t)) = cs_regions t" for t
    unfolding refresh_body_def Let_def
    by (intro flow_then_inv [of "\<lambda>u. cs_regions u = cs_regions t"])
      (auto simp: retrying_def cs_tick_def listed intro: keep [OF quiet_migrate] keep [OF quiet_availability])
  have cached: "cs_regions (use_cached_nodes env ns t) = cs_regions t" for ns t
    by (simp add: use_cached_nodes_def cs_sync_manual_def cs_load_manual_def put_cs_instances_def)
  have handle: "cs_regions (snd (flow_finally (flow_handle r (\<lambda>e t. case load_from_offline_cache (cs_nodesCache t) of
       None \<Rightarrow> (Throws e, t) | Some ns \<Rightarrow> (Done (), use_cached_nodes env ns t)))
       (\<lambda>t. t\<lparr>cs_refreshing := False, cs_loadingInstances := f t\<rparr>))) = cs_regions (snd r)" for r :: "unit flow \<times> session" and f
    by (cases r; cases "fst r") (auto simp: flow_finally_def flow_handle_def cached split: option.split)
  show ?thesis
    by (auto simp: refresh_instances_def cached handle body split: option.split)
qed

lemma cache_frame [simp]:
  "cs_regionsCache (tell env w t) = cs_regionsCache t" "cs_regionsCache (stop_auto_refresh t) = cs_regionsCache t"
  "cs_regionsCache (start_auto_refresh b t) = cs_regionsCache t" "cs_regionsCache (cs_tick t) = cs_regionsCache t"
  "cs_regions (stop_auto_refresh t) = cs_regions t" "cs_regions (start_auto_refresh b t) = cs_regions t"
  "cs_regions (cs_tick t) = cs_regions t"
  by (simp_all add: tell_def stop_auto_refresh_def start_auto_refresh_def run_refresh_def started_def cs_tick_def Let_def)

lemma save_before_switch_cache: "cs_regionsCache (snd (save_before_switch env s)) = cs_regionsCache s"
proof -
  have resync: "cs_regionsCache (resync_provider env t) = cs_regionsCache t" for t
    by (auto simp: resync_provider_def calling_def split: flow.splits)
  have "cs_regionsCache (snd (save_config env t)) = cs_regionsCache t" for t
    by (cases "fst (retry_with_backoff (default_retry_options\<lparr>ro_maxAttempts := 3, ro_baseDelay := 1000, ro_shouldRetry := save_retries\<rparr>)
        (sv_save_config env (payload_of (resync_provider env (t\<lparr>cs_savingConfig := True\<rparr>)))
          (cs_step (resync_provider env (t\<lparr>cs_savingConfig := True\<rparr>)))))")
      (simp_all add: save_config_def Let_def flow_sum_def flow_handle_def flow_finally_def resync)
  then show ?thesis by (auto simp: save_before_switch_def calling_def split: flow.splits)
qed

lemma failed_regions:
  assumes "\<And>k a. isl (sv_regions env k a)"
  shows "\<exists>e. retrying n d (sv_regions env) s = (Throws e, cs_tick s)"
proof -
  have all: "\<exists>e. fst (retry_loop opts (sv_regions env k) a left err) = Inl e" for opts k a left err
  proof (induction left arbitrary: a err)
    case 0
    then show ?case by simp
  next
    case (Suc left)
    from assms obtain e where "sv_regions env k a = Inl e" by (metis isl_def)
    with Suc show ?case by (simp add: case_prod_beta)
  qed
  obtain e where "fst (retry_with_backoff (default_retry_options\<lparr>ro_maxAttempts := n, ro_baseDelay := d\<rparr>) (sv_regions env (cs_step s))) = Inl e"
    unfolding retry_with_backoff_def using all by blast
  then show ?thesis by (simp add: retrying_def flow_sum_def)
qed

lemma fetch_cached_regions:
  assumes "\<And>k a. isl (sv_regions env k a)" "cs_regionsCache s = Some (rs, t0)" "cs_regions s = []"
  shows "fst (fetch_regions env False s) = Done () \<and> cs_regions (snd (fetch_regions env False s)) = rs"
proof -
  obtain e where e: "retrying 2 1000 (sv_regions env) (s\<lparr>cs_loadingRegions := True\<rparr>) = (Throws e, cs_tick (s\<lparr>cs_loadingRegions := True\<rparr>))"
    using failed_regions [OF assms(1), of 2 1000 "s\<lparr>cs_loadingRegions := True\<rparr>"] by blast
  have "request_regions env s = (Done (), (use_regions env rs (cs_tick (s\<lparr>cs_loadingRegions := True\<rparr>)))\<lparr>cs_loadingRegions := False\<rparr>)"
    by (simp add: request_regions_def e flow_handle_def flow_finally_def load_from_offline_cache_def assms(2))
  then show ?thesis
    by (simp add: fetch_regions_def assms(2,3) load_from_offline_cache_def use_regions_def)
qed

lemma regions_fetch_plans: "cs_regions (snd (fetch_plans env force s)) = cs_regions s"
proof -
  have "cs_regions (snd (request_plans env s)) = cs_regions s"
    by (auto simp: request_plans_def retrying_def flow_sum_def flow_handle_def flow_finally_def use_plans_def Let_def
        split: sum.split option.split)
  then show ?thesis by (auto simp: fetch_plans_def use_plans_def split: option.split)
qed

text \<open>
  Regions of the wrong provider. The cache in the browser has one slot for regions, whatever provider they belong to. When
  a switch to another cloud provider succeeds but its regions cannot be fetched, the regions the old provider left in
  the cache are offered for the new one, and no error is reported on that account.
\<close>

theorem switch_offers_regions_of_the_old_provider:
  assumes "fst (save_before_switch env s) = Done ()" and "sv_bridge env" and "provider \<noteq> ''ssh''"
    and "\<forall>k. sv_set_provider env provider k = Inr provider" and "\<forall>k. sv_get_config env k = Inr loaded"
    and "cc_apiKey loaded \<noteq> ''''" and "\<forall>k a. isl (sv_regions env k a)" and "cs_regionsCache s = Some (rs, saved_at)"
  shows "cs_regions (snd (switch_provider env provider s)) = rs"
proof -
  obtain s1 where s1: "save_before_switch env s = (Done (), s1)" "cs_regionsCache s1 = Some (rs, saved_at)"
    using assms(1,8) save_before_switch_cache [of env s] by (cases "save_before_switch env s") auto
  let ?s3 = "switched_to provider (cs_tick (reset_config provider s1))"
  obtain s4 where load: "load_config env ?s3 = (Done (), s4)"
    by (simp add: load_config_def calling_def flow_sum_def assms(5) Let_def)
  have s3: "cs_regionsCache ?s3 = Some (rs, saved_at)" "cs_regions ?s3 = []"
    by (simp_all add: switched_to_def reset_config_def s1(2))
  have "cs_regionsCache (snd (load_config env ?s3)) = Some (rs, saved_at) \<and> cs_regions (snd (load_config env ?s3)) = []
      \<and> cc_apiKey (cs_config (snd (load_config env ?s3))) \<noteq> ''''"
    using s3 assms(6)
    by (simp add: load_config_def calling_def flow_sum_def assms(5) Let_def assigned_config_def blank_key_def)
  then have s4: "cs_regionsCache s4 = Some (rs, saved_at)" "cs_regions s4 = []" "cc_apiKey (cs_config s4) \<noteq> ''''"
    by (simp_all add: load)
  let ?c = "clear_defaults s4"
  have c: "cs_regionsCache ?c = Some (rs, saved_at)" "cs_regions ?c = []" "cc_apiKey (cs_config ?c) \<noteq> ''''"
    using s4 by (simp_all add: clear_defaults_def)
  obtain r t1 where fr: "fetch_regions env False ?c = (r, t1)" "cs_regions t1 = rs"
    using fetch_cached_regions [OF _ c(1,2), of env] assms(7) by (cases "fetch_regions env False ?c") auto
  obtain r' t2 where fp: "fetch_plans env False t1 = (r', t2)" by fastforce
  then have t2: "cs_regions t2 = rs" using regions_fetch_plans [of env False t1] fr(2) by simp
  have "load_switched env provider ?c = flow_then (first_throw r r', t2) (\<lambda>_. refresh_instances env True True)"
    using assms(3) c(3) by (simp add: load_switched_def fetch_both_def fr(1) fp)
  then have ls: "cs_regions (snd (load_switched env provider ?c)) = rs"
    using t2 by (cases "first_throw r r'") (simp_all add: regions_refresh)
  have run: "switch_provider env provider s = flow_then (load_switched env provider ?c) (\<lambda>_ s5.
      (Done (), if cc_apiKey (cs_config s5) = '''' then s5 else started (AccountProbe provider) s5))"
    unfolding switch_provider_def s1(1)
    by (simp add: Let_def assms(2,4) calling_def flow_sum_def load)
  show "cs_regions (snd (switch_provider env provider s)) = rs"
    unfolding run using ls
    by (cases "load_switched env provider ?c"; cases "fst (load_switched env provider ?c)") (auto simp: started_def)
qed

subsection \<open>Concrete runs\<close>

definition refusing_env :: session_env where
  "refusing_env = (listing_env [])\<lparr>sv_set_provider := \<lambda>_ _. Inl ''unsupported''\<rparr>"

lemma failed_switch_blanks_the_key_witness:
  "fst (switch_provider refusing_env ''aws'' (session_start (manual_start [] []))) = Throws ''unsupported''
   \<and> cc_apiKey (payload_of (snd (switch_provider refusing_env ''aws'' (session_start (manual_start [] []))))) = ''''"
proof -
  have "cc_apiKey (cs_config (session_start (manual_start [] []))) \<noteq> ''''" "cs_provider (session_start (manual_start [] [])) \<noteq> ''''"
    "sv_bridge refusing_env" "\<forall>k. sv_get_provider refusing_env k = Inr (cs_provider (session_start (manual_start [] [])))"
    "\<forall>c k a. sv_save_config refusing_env c k a = Inr ()" "\<forall>k. sv_set_provider refusing_env ''aws'' k = Inl ''unsupported''"
    by (simp_all add: session_start_def refusing_env_def listing_env_def)
  from failed_switch_blanks_the_key [OF this] show ?thesis by (simp add: Let_def)
qed

definition regionless_env :: session_env where
  "regionless_env = (listing_env [])\<lparr>sv_regions := \<lambda>_ _. Inl ''timeout''\<rparr>"

definition cached_session :: session where
  "cached_session = (session_start (manual_start [] []))\<lparr>cs_regionsCache := Some ([JStr ''nrt''], 5)\<rparr>"

lemma switch_offers_regions_of_the_old_provider_witness:
  "cs_provider cached_session = ''vultr'' \<and> cs_regions (snd (switch_provider regionless_env ''aws'' cached_session)) = [JStr ''nrt'']"
proof -
  have "fst (save_before_switch regionless_env cached_session) = Done ()" by code_simp
  moreover have "sv_bridge regionless_env" "''aws'' \<noteq> ''ssh''" "\<forall>k. sv_set_provider regionless_env ''aws'' k = Inr ''aws''"
    "\<forall>k. sv_get_config regionless_env k = Inr \<lparr>cc_provider = None, cc_apiKey = ''key'', cc_defaultRegion = None,
       cc_defaultPlan = None, cc_extra = None\<rparr>"
    "\<forall>k a. isl (sv_regions regionless_env k a)" "cs_regionsCache cached_session = Some ([JStr ''nrt''], 5)"
    by (simp_all add: regionless_env_def listing_env_def cached_session_def)
  moreover have "cs_provider cached_session = ''vultr''" by (simp add: cached_session_def session_start_def)
  ultimately show ?thesis by (simp add: switch_offers_regions_of_the_old_provider)
qed

end
