(* ===== verification/InstanceOps.thy ===== *)
theory InstanceOps
  imports InstanceRefresh
begin

text \<open>
  The other operations of \<open>stores/cloud/instanceSync.ts\<close>: creating, destroying, rotating and repairing instances, the
  scheduled application of a node, and the tests of connectivity and speed.
\<close>

subsection \<open>Instances in place\<close>

text \<open>An assignment to the instances that leaves their time.\<close>

definition set_instances :: "node list \<Rightarrow> session \<Rightarrow> session" where
  "set_instances ns s = s\<lparr>cs_manual := (cs_manual s)\<lparr>ms_apply := (ms_apply (cs_manual s))
     \<lparr>as_nodes := (ns, cs_manualNodes s)\<rparr>\<rparr>\<rparr>"

definition set_manual_nodes :: "node list \<Rightarrow> session \<Rightarrow> session" where
  "set_manual_nodes ns s = s\<lparr>cs_manual := put_manual ns (cs_manual s)\<rparr>"

definition put_front :: "session_env \<Rightarrow> node \<Rightarrow> session \<Rightarrow> session" where
  "put_front env n s = put_cs_instances env
     (n # filter (\<lambda>m. cn_instanceId m \<noteq> cn_instanceId n) (cs_instances s)) s"

definition find_node :: "session \<Rightarrow> string \<Rightarrow> node option" where
  "find_node s i = (case List.find (\<lambda>n. cn_instanceId n = i) (cs_instances s) of
      Some n \<Rightarrow> Some n
    | None \<Rightarrow> List.find (\<lambda>n. cn_instanceId n = i) (cs_manualNodes s))"

text \<open>\<open>patchNode\<close>, and a change of the object that \<open>find\<close> answers: the first instance with the id, or the first manual
  node.\<close>

definition patch_node :: "string \<Rightarrow> (node \<Rightarrow> node) \<Rightarrow> session \<Rightarrow> session" where
  "patch_node i f s =
     (if list_ex (\<lambda>n. cn_instanceId n = i) (cs_instances s)
      then set_instances (map_first (\<lambda>n. cn_instanceId n = i) f (cs_instances s)) s
      else set_manual_nodes (map_first (\<lambda>n. cn_instanceId n = i) f (cs_manualNodes s)) s)"

subsection \<open>Creating\<close>

definition with_status :: "node_status \<Rightarrow> node \<Rightarrow> node" where
  "with_status st n = n\<lparr>cn_statusText := Some st\<rparr>"

text \<open>From the moment the new node is listed and has an address.\<close>

definition deploy_node :: "session_env \<Rightarrow> node \<Rightarrow> session \<Rightarrow> unit flow \<times> session" where
  "deploy_node env c s = flow_then (on_store (ensure_subscription_for_node (sv_apply env) c) s) (\<lambda>_ s1.
     case on_store (apply_node_to_profile (sv_apply env) c '''') s1 of
       (Hangs, s2) \<Rightarrow> (Hangs, s2)
     | (Throws e, s2) \<Rightarrow>
         (Done (), tell env (deployment_failed (cn_label c) e) (replace_instance env (with_status NsPending c) s2))
     | (Done _, s2) \<Rightarrow>
         (case on_store (request_reload (sv_apply env) ''create-instance'' True)
             (tell env (deployment_complete (cn_label c))
               (replace_instance env (with_status NsConnected c) (add_to_groups c s2))) of
            (Hangs, s3) \<Rightarrow> (Hangs, s3)
          | (Throws _, s3) \<Rightarrow> (Done (), s3)
          | (Done _, s3) \<Rightarrow> (Done (), started (ConnectivityTest (cn_instanceId c)) s3)))"

definition list_new_node :: "session_env \<Rightarrow> node \<Rightarrow> session \<Rightarrow> unit flow \<times> session" where
  "list_new_node env n s = flow_then (ensure_region_availability env (opt_or (cn_region n) '''') False s) (\<lambda>_ s1.
     let c = with_status NsApplying n;
         s2 = start_auto_refresh True (cs_sync_manual env (put_front env c s1))
     in if \<not> has_ip c then
          (Done (), started RefreshTimer (set_instances
             (map (\<lambda>m. if cn_instanceId m = cn_instanceId c then with_status NsPending c else m) (cs_instances s2)) s2))
        else deploy_node env c s2)"

definition create_instance :: "session_env \<Rightarrow> deploy_request \<Rightarrow> session \<Rightarrow> node flow \<times> session" where
  "create_instance env req s = flow_finally
     (flow_then (retrying 3 2000 (sv_create env req) (s\<lparr>cs_creatingInstance := True\<rparr>)) (\<lambda>raw s1.
        let n = normalize_cloud_node raw (cs_provider s1)
        in flow_then (if cn_instanceId n = '''' then (Done (), s1) else list_new_node env n s1) (\<lambda>_ s2. (Done n, s2))))
     (\<lambda>t. t\<lparr>cs_creatingInstance := False\<rparr>)"

definition ssh_request :: "string dict \<Rightarrow> string option \<Rightarrow> deploy_request" where
  "ssh_request extra label = \<lparr>dr_label = opt_or label (''ssh-'' @ opt_or (map_of extra ''host'') ''node''),
     dr_region = '''', dr_plan = '''', dr_extra = Some extra\<rparr>"

text \<open>An SSH server is not polled: it counts as connected at once, and the call is not retried.\<close>

definition create_ssh_instance ::
    "session_env \<Rightarrow> string dict \<Rightarrow> string option \<Rightarrow> session \<Rightarrow> node flow \<times> session" where
  "create_ssh_instance env extra label s = flow_finally
     (flow_then (calling (\<lambda>k. sv_create env (ssh_request extra label) k 1) (s\<lparr>cs_creatingInstance := True\<rparr>)) (\<lambda>raw s1.
        let n = normalize_cloud_node raw ''ssh''; c = with_status NsConnected n
        in if cn_instanceId n = '''' then (Done n, s1)
           else flow_then (on_store (ensure_subscription_for_node (sv_apply env) c)
                  (cs_sync_manual env (put_front env c s1))) (\<lambda>_ s2.
             case on_store (apply_node_to_profile (sv_apply env) c '''') s2 of
               (Hangs, s3) \<Rightarrow> (Hangs, s3)
             | (Throws _, s3) \<Rightarrow> (Done n, replace_instance env (with_status NsPending c) s3)
             | (Done _, s3) \<Rightarrow> (Done n, replace_instance env c (tell env (deployment_complete (cn_label c)) s3)))))
     (\<lambda>t. t\<lparr>cs_creatingInstance := False\<rparr>)"

definition create_multiple_instances ::
    "session_env \<Rightarrow> deploy_request list \<Rightarrow> session \<Rightarrow> json flow \<times> session" where
  "create_multiple_instances env reqs s = flow_then (calling (sv_create_many env reqs) s) (\<lambda>results s1.
     flow_then (refresh_instances env True False s1) (\<lambda>_ s2. (Done results, s2)))"

subsection \<open>Destroying, rotating, repairing\<close>

definition forget_instance :: "session_env \<Rightarrow> string \<Rightarrow> session \<Rightarrow> unit flow \<times> session" where
  "forget_instance env i s =
     flow_then (on_store (remove_subscription_for_node (sv_apply env) i)
         (put_cs_instances env (filter (\<lambda>n. cn_instanceId n \<noteq> i) (cs_instances s)) s))
       (\<lambda>_ s1. (Done (), cs_sync_manual env s1))"

definition destroy_instance :: "session_env \<Rightarrow> string \<Rightarrow> session \<Rightarrow> unit flow \<times> session" where
  "destroy_instance env i s =
     (let s1 = cs_load_manual env (stop_auto_apply i (s\<lparr>cs_destroyingInstance := i\<rparr>))
      in flow_finally
           (flow_then
             (case find_index (\<lambda>n. cn_instanceId n = i) (cs_manualNodes s1) of
                Some k \<Rightarrow> on_manual (save_manual_nodes (sv_cloud env)) (set_manual_nodes (remove_at k (cs_manualNodes s1)) s1)
              | None \<Rightarrow> calling (\<lambda>k. case sv_destroy env i k of None \<Rightarrow> Inr () | Some e \<Rightarrow> Inl e) s1)
             (\<lambda>_. forget_instance env i))
           (\<lambda>t. t\<lparr>cs_destroyingInstance := ''''\<rparr>))"

definition is_manual_id :: "session \<Rightarrow> string \<Rightarrow> bool" where
  "is_manual_id s i \<longleftrightarrow> list_ex (\<lambda>n. cn_instanceId n = i) (cs_manualNodes s)"

definition rotate_ip :: "session_env \<Rightarrow> string \<Rightarrow> session \<Rightarrow> node flow \<times> session" where
  "rotate_ip env i s = (case find_node s i of
      None \<Rightarrow> (Throws ''Node not found for IP rotation'', s)
    | Some n \<Rightarrow>
        if is_manual_id s i then
          (Throws ''Manual nodes cannot rotate IP automatically. Please edit the node to update IP address.'', s)
        else flow_handle
          (flow_then (destroy_instance env i
               (tell env (system_info ''IP Rotation Started'' (''Rotating IP for '' @ cn_label n @ ''...'')) s)) (\<lambda>_ s1.
           flow_then (create_instance env
               \<lparr>dr_label = cn_label n, dr_region = opt_or (cn_region n) '''', dr_plan = opt_or (cn_plan n) '''', dr_extra = None\<rparr> s1)
             (\<lambda>new s2. (Done new, tell env (rotation_complete (cn_label n)) s2))))
          (\<lambda>e t. (Throws e, tell env (rotation_failed (cn_label n) e) t)))"

definition redeploy_instance :: "session_env \<Rightarrow> string \<Rightarrow> session \<Rightarrow> node flow \<times> session" where
  "redeploy_instance env i s =
     (if find_node s i = None then (Throws ''Node not found for redeploy'', s)
      else if is_manual_id s i then
        (Throws ''Manual nodes cannot be redeployed automatically. Please edit or re-import the node.'', s)
      else flow_then (retrying 1 1000 (sv_repair env i) s) (\<lambda>raw s1.
        let n = normalize_cloud_node raw (cs_provider s1);
            c = with_status (if cn_instanceId n = i then NsConnected else NsPending) n
        in if cn_instanceId n = '''' then (Done n, s1)
           else flow_then (ensure_region_availability env (opt_or (cn_region n) '''') False s1) (\<lambda>_ s2.
             flow_then (on_store (ensure_subscription_for_node (sv_apply env) c)
                 (cs_sync_manual env (put_front env c s2)))
               (\<lambda>_ s3. (Done n, start_auto_refresh True s3)))))"

end
