(* ===== verification/NodeTests.thy ===== *)
theory NodeTests
  imports InstanceOps
begin

text \<open>
  The scheduled application of a node and the tests of connectivity and speed of \<open>stores/cloud/instanceSync.ts\<close>.
\<close>

subsection \<open>Scheduled application\<close>

text \<open>One run of the timer of a node; while the node has no usable address every third run refreshes, and the
  sixty-first gives up. The timer is stopped when the run ends after an application, whether it succeeded or not.\<close>

definition apply_scheduled :: "session_env \<Rightarrow> node \<Rightarrow> session \<Rightarrow> unit flow \<times> session" where
  "apply_scheduled env n s =
     flow_then (on_store (ensure_subscription_for_node (sv_apply env) n) s) (\<lambda>_ s1.
     flow_then (on_store (apply_node_to_profile (sv_apply env) n '''') s1) (\<lambda>_ s2.
       let s3 = s2\<lparr>cs_manual := ms_mark (cn_instanceId n) NsConnected (cs_manual s2)\<rparr>
       in (Done (), refresh_proxies_if_running env (put_cs_instances env (cs_instances s3) s3))))"

definition auto_apply_run :: "session_env \<Rightarrow> string \<Rightarrow> session \<Rightarrow> unit flow \<times> session" where
  "auto_apply_run env i s = (case List.find (\<lambda>n. cn_instanceId n = i) (cs_instances s) of
      None \<Rightarrow> (Done (), stop_auto_apply i s)
    | Some n \<Rightarrow>
        if \<not> has_usable_address n then
          let attempts = Suc (or_else (map_of (cs_autoApply s) i) 0);
              s1 = s\<lparr>cs_autoApply := AList.update i attempts (cs_autoApply s)\<rparr>
          in flow_then
               (if attempts mod 3 = 0 then flow_catch (refresh_instances env True False s1) () else (Done (), s1))
               (\<lambda>_ s2. (Done (), if 60 < attempts then stop_auto_apply i s2 else s2))
        else flow_finally (flow_catch (apply_scheduled env n s) ()) (stop_auto_apply i))"

subsection \<open>Connectivity\<close>

definition probe_protocol ::
    "int option \<Rightarrow> (string \<times> string) list \<Rightarrow> probe_request \<Rightarrow> probe_request" where
  "probe_protocol port kinds p =
     (if \<not> truthy_n port then p
      else fold (\<lambda>(name, network) q. q
        \<lparr>pb_tcpPorts := (if network = ''tcp'' then add_unique_port (pb_tcpPorts q) port else pb_tcpPorts q),
         pb_udpPorts := (if network = ''udp'' then add_unique_port (pb_udpPorts q) port else pb_udpPorts q),
         pb_targets := pb_targets q @ [(name, the port, network)]\<rparr>) kinds p)"

definition build_connectivity_probe :: "node \<Rightarrow> probe_request" where
  "build_connectivity_probe n =
     probe_protocol (cn_trojanPort n) [(''trojan'', ''tcp'')]
       (probe_protocol (cn_vlessPort n) [(''vless-reality'', ''tcp'')]
         (probe_protocol (cn_hysteriaPort n) [(''hysteria2'', ''udp'')]
           (probe_protocol (cn_ssPort n) [(''shadowsocks-tcp'', ''tcp''), (''shadowsocks-udp'', ''udp'')]
             \<lparr>pb_tcpPorts = [], pb_udpPorts = [], pb_targets = [], pb_icmp = True, pb_tcpTimeoutMs = 3000,
              pb_udpTimeoutMs = 1800\<rparr>)))"

definition get_reachable_endpoints :: "conn_result \<Rightarrow> string list" where
  "get_reachable_endpoints r =
     (let targets = map fst (filter (\<lambda>(_, st). is_reachable_target_status (Some st)) (or_else (cr_targetStatus r) []))
      in if targets \<noteq> [] then targets
         else map (\<lambda>(port, _). ''port:'' @ port) (filter snd (or_else (cr_portsOpen r) [])))"

definition record_connectivity ::
    "session_env \<Rightarrow> string \<Rightarrow> conn_status \<Rightarrow> conn_result option \<Rightarrow> session \<Rightarrow> session" where
  "record_connectivity env i st r s =
     s\<lparr>cs_history := record_connectivity_sample (cs_now env s) i st r (cs_history s)\<rparr>"

definition test_ip :: "node \<Rightarrow> string" where
  "test_ip n = opt_or (cn_ipv4 n) (opt_or (cn_ipv6 n) '''')"

definition test_node_connectivity :: "session_env \<Rightarrow> string \<Rightarrow> session \<Rightarrow> unit flow \<times> session" where
  "test_node_connectivity env i s = (case find_node s i of
      None \<Rightarrow> (Done (), s)
    | Some n \<Rightarrow>
        if test_ip n = '''' then (Done (), patch_node i (\<lambda>m. m\<lparr>cn_connectivityStatus := Some CsUnknown\<rparr>) s)
        else flow_handle
          (flow_then (retrying 2 1000 (sv_probe env (test_ip n) (build_connectivity_probe n))
               (patch_node i (\<lambda>m. m\<lparr>cn_connectivityTesting := Some True, cn_connectivityStatus := Some CsTesting\<rparr>) s)) (\<lambda>r s1.
             let s2 = record_connectivity env i (cr_status r) (Some r) (patch_node i (\<lambda>m. m
                   \<lparr>cn_connectivityStatus := Some (cr_status r), cn_lastConnectivityResult := Some r,
                    cn_connectivityTesting := Some False\<rparr>) s1)
             in flow_then (on_store (update_protocol_health_from_connectivity (sv_apply env) n r) s2) (\<lambda>_ s3.
                (Done (), if cr_status r = CsBlocked then tell env (connectivity_blocked (cn_label n)) s3
                   else if cr_status r = CsReachable then tell env (connectivity_restored (cn_label n)) s3
                   else s3))))
          (\<lambda>e t. (Done (), tell env (system_error ''Connectivity Test Failed''
               (''Failed to test connectivity for '' @ cn_label n @ '': '' @ e))
             (record_connectivity env i CsUnknown None
               (patch_node i (\<lambda>m. m\<lparr>cn_connectivityStatus := Some CsUnknown, cn_connectivityTesting := Some False\<rparr>) t)))))"

text \<open>The core is given fifteen chances to run, two seconds apart.\<close>

fun wait_for_core :: "session_env \<Rightarrow> nat \<Rightarrow> session \<Rightarrow> bool \<times> session" where
  "wait_for_core env 0 s = (False, s)"
| "wait_for_core env (Suc k) s =
     (if av_running (sv_apply env) (cs_step s) then (True, s) else wait_for_core env k (cs_tick s))"

text \<open>The verdict: reachable, or some endpoint answers.\<close>

definition verdict :: "conn_result \<Rightarrow> node_status \<times> conn_status \<times> bool" where
  "verdict r =
     (if cr_status r = CsReachable then (NsConnected, CsReachable, True)
      else if get_reachable_endpoints r \<noteq> [] then (NsConnected, CsIcmpBlocked, True)
      else (NsError, CsBlocked, False))"

text \<open>The node is the object in the list, as the wizard, the only caller, passes it.\<close>

definition verify_node_connectivity :: "session_env \<Rightarrow> node \<Rightarrow> session \<Rightarrow> bool flow \<times> session" where
  "verify_node_connectivity env n s = (case wait_for_core env 15 s of
      (False, s1) \<Rightarrow> (Done False, tell env (system_error ''verification failed'' (cn_label n @ '': core not running''))
        (patch_node (cn_instanceId n) (with_status NsPending) s1))
    | (True, s1) \<Rightarrow> (let i = cn_instanceId n in flow_finally
        (if test_ip n = '''' then (Done False, s1)
         else flow_handle
           (flow_then (calling (\<lambda>k. sv_probe env (test_ip n) (build_connectivity_probe n) k 1) s1) (\<lambda>r s2.
              flow_then (on_store (update_protocol_health_from_connectivity (sv_apply env) n r)
                (record_connectivity env i (cr_status r) (Some r)
                  (patch_node i (\<lambda>m. m\<lparr>cn_lastConnectivityResult := Some r\<rparr>) s2))) (\<lambda>_ s3.
              case verdict r of (st, cst, ok) \<Rightarrow>
                (Done ok, tell env ((if ok then connectivity_restored else connectivity_blocked) (cn_label n))
                  (patch_node i (\<lambda>m. (with_status st m)\<lparr>cn_connectivityStatus := Some cst\<rparr>) s3)))))
           (\<lambda>e t. (Done False, record_connectivity env i CsUnknown None
                (patch_node i (\<lambda>m. m\<lparr>cn_connectivityStatus := Some CsUnknown\<rparr>) t))))
        (\<lambda>t. put_cs_instances env (cs_instances t) t)))"

subsection \<open>Speed\<close>

definition is_speed_timeout_error :: "string option \<Rightarrow> bool" where
  "is_speed_timeout_error e \<longleftrightarrow> truthy_s e \<and>
     list_ex (js_includes (js_lower (the e))) [''timeout'', ''timed out'', ''deadline exceeded'']"

definition get_speed_failure_status :: "string option \<Rightarrow> string" where
  "get_speed_failure_status e = (if is_speed_timeout_error e then ''timeout'' else ''error'')"

text \<open>\<open>Math.round(x * 100) / 100\<close>.\<close>

definition round_hundredths :: "rat \<Rightarrow> rat" where
  "round_hundredths q = of_int \<lfloor>q * 100 + 1 / 2\<rfloor> / 100"

text \<open>The outbounds with a tag in the file of the node's subscription; whatever goes wrong, there are none.\<close>

definition has_tag :: "json \<Rightarrow> bool" where
  "has_tag j = json_truthy (json_get ''tag'' j)"

definition get_node_outbounds :: "string \<Rightarrow> session \<Rightarrow> json list" where
  "get_node_outbounds i s = (case map_of (as_files (ms_apply (cs_manual s))) (subscription_path i) of
      None \<Rightarrow> []
    | Some content \<Rightarrow> (case json_get ''outbounds'' content of JArr js \<Rightarrow> filter has_tag js | _ \<Rightarrow> []))"

definition patch_speed :: "string \<Rightarrow> bool \<Rightarrow> rat option \<Rightarrow> string option \<Rightarrow> session \<Rightarrow> session" where
  "patch_speed i testing mbps err =
     patch_node i (\<lambda>n. n\<lparr>cn_speedTesting := Some testing, cn_speedMbps := mbps, cn_speedError := err\<rparr>)"

definition record_speed ::
    "session_env \<Rightarrow> string \<Rightarrow> rat option \<Rightarrow> string \<Rightarrow> string option \<Rightarrow> session \<Rightarrow> session" where
  "record_speed env i mbps st err s = s\<lparr>cs_history := record_speed_sample (cs_now env s) i mbps st err (cs_history s)\<rparr>"

definition speed_failed :: "session_env \<Rightarrow> string \<Rightarrow> string \<Rightarrow> string \<Rightarrow> session \<Rightarrow> session" where
  "speed_failed env i st err s = record_speed env i None st (Some err) (patch_speed i False (Some (- 1)) (Some err) s)"

definition measure_speed :: "session_env \<Rightarrow> string \<Rightarrow> session \<Rightarrow> session" where
  "measure_speed env i s =
     (let outbounds = get_node_outbounds i s
      in if outbounds = [] then speed_failed env i ''error'' ''no outbound config'' s
         else case calling (sv_speed env outbounds) s of
           (Done r, s1) \<Rightarrow>
             if sr_status r = ''ok'' \<or> sr_status r = ''partial'' then
               (let mbps = round_hundredths (sr_speedMbps r); partial = (sr_status r = ''partial'')
                in record_speed env i (Some mbps) (if partial then ''partial'' else ''ok'') (if partial then sr_error r else None)
                     (patch_speed i False (Some mbps) (if partial then Some (opt_or (sr_error r) ''partial sample'') else None) s1))
             else (let err = str_or (js_trim (or_else (sr_error r) '''')) ''speed test failed''
               in speed_failed env i (get_speed_failure_status (Some err)) err s1)
         | (Throws e, s1) \<Rightarrow> speed_failed env i (get_speed_failure_status (Some e)) e s1
         | (Hangs, s1) \<Rightarrow> s1)"

definition test_node_speed :: "session_env \<Rightarrow> string \<Rightarrow> session \<Rightarrow> session" where
  "test_node_speed env i s =
     (if find_node s i = None then s else measure_speed env i (patch_speed i True None None s))"

text \<open>All nodes are marked first, then measured one after the other.\<close>

definition test_all_nodes_speed :: "session_env \<Rightarrow> session \<Rightarrow> session" where
  "test_all_nodes_speed env s =
     (let ids = map cn_instanceId (cs_instances s @ cs_manualNodes s)
      in fold (measure_speed env) ids (fold (\<lambda>i. patch_speed i True None None) ids s))"

end
