(* ===== verification/OpsLaws.thy ===== *)
theory OpsLaws
  imports NodeTests RefreshLaws
begin

text \<open>
  What the operations on instances guarantee and what they do not.
\<close>

subsection \<open>Properties: servers that are lost\<close>

lemma retrying_fails:
  "fst (retry_with_backoff (default_retry_options\<lparr>ro_maxAttempts := n, ro_baseDelay := d\<rparr>) (f (cs_step s))) = Inl e
   \<Longrightarrow> retrying n d f s = (Throws e, cs_tick s)"
  by (simp add: retrying_def flow_sum_def)

lemma retrying_answers:
  "fst (retry_with_backoff (default_retry_options\<lparr>ro_maxAttempts := n, ro_baseDelay := d\<rparr>) (f (cs_step s))) = Inr v
   \<Longrightarrow> retrying n d f s = (Done v, cs_tick s)"
  by (simp add: retrying_def flow_sum_def)

lemma instances_frame [simp]:
  "cs_instances (cs_tick s) = cs_instances s" "cs_instances (tell env w s) = cs_instances s"
  "cs_instances (s\<lparr>cs_creatingInstance := b\<rparr>) = cs_instances s" "cs_instances (s\<lparr>cs_destroyingInstance := i\<rparr>) = cs_instances s"
  "cs_instances (put_availability r ids s) = cs_instances s" "cs_instances (stop_auto_apply i s) = cs_instances s"
  "cs_instances (put_cs_instances env ns s) = ns"
  by (simp_all add: cs_instances_def cs_tick_def tell_def put_availability_def stop_auto_apply_def next_step_def ms_instances_def
      put_cs_instances_def put_instances_def)

text \<open>
  A server that was created can be lost. When the provider has created the server, but the list of plans of its region
  cannot be fetched, \<open>createInstance\<close> throws before the server is listed: the instances are those of before, and no
  subscription exists for the server that now runs and is paid for.
\<close>

theorem created_server_is_lost:
  assumes "fst (retry_with_backoff (default_retry_options\<lparr>ro_maxAttempts := 3, ro_baseDelay := 2000\<rparr>)
      (sv_create env req (cs_step s))) = Inr raw"
    and "n = normalize_cloud_node raw (cs_provider s)" "cn_instanceId n \<noteq> ''''" "truthy_s (cn_region n)"
    and "map_of (cs_availability s) (the (cn_region n)) = None" and "\<not> blank_key (cs_config s)"
    and "\<forall>k. sv_availability env (the (cn_region n)) k = Inl e"
  shows "fst (create_instance env req s) = Throws e \<and> cs_instances (snd (create_instance env req s)) = cs_instances s
    \<and> as_subs (ms_apply (cs_manual (snd (create_instance env req s)))) = as_subs (ms_apply (cs_manual s))"
proof -
  let ?s = "s\<lparr>cs_creatingInstance := True\<rparr>" and ?r = "the (cn_region n)"
  have step: "cs_step ?s = cs_step s" by (simp add: cs_step_def)
  have call: "retrying 3 2000 (sv_create env req) ?s = (Done raw, cs_tick ?s)"
    by (rule retrying_answers) (simp add: step assms(1))
  obtain r where "cn_region n = Some r" "r \<noteq> ''''" using assms(4) by (cases "cn_region n") auto
  then have region: "opt_or (cn_region n) '''' = ?r" "?r \<noteq> ''''" by (simp_all add: str_or_def)
  have same: "cs_availability (cs_tick ?s) = cs_availability s" "cs_config (cs_tick ?s) = cs_config s" "cs_provider (cs_tick ?s) = cs_provider s"
    by (simp_all add: cs_tick_def)
  have "ensure_region_availability env ?r False (cs_tick ?s) = (Throws e, put_availability ?r [] (cs_tick (cs_tick ?s)))"
    using assms(5-7) region(2) by (simp add: ensure_region_availability_def Let_def calling_def flow_sum_def same)
  then have "create_instance env req s = (Throws e, (put_availability ?r [] (cs_tick (cs_tick ?s)))\<lparr>cs_creatingInstance := False\<rparr>)"
    using assms(3) by (simp add: create_instance_def call Let_def same assms(2) [symmetric])
      (simp add: list_new_node_def region(1) flow_finally_def)
  then show ?thesis by simp (simp add: put_availability_def cs_tick_def next_step_def)
qed

lemma destroy_forgets:
  assumes "destroy_instance env i s = (Done (), t)" "\<not> is_manual_id s i" "ms_loaded (cs_manual s)"
  shows "i \<notin> cn_instanceId ` set (cs_instances t)"
proof -
  let ?s1 = "cs_load_manual env (stop_auto_apply i (s\<lparr>cs_destroyingInstance := i\<rparr>))"
  have manual: "cs_manualNodes ?s1 = cs_manualNodes s"
    using assms(3) by (simp add: cs_manualNodes_def cs_load_manual_def load_manual_nodes_def stop_auto_apply_def)
  have none: "find_index (\<lambda>n. cn_instanceId n = i) (cs_manualNodes ?s1) = None"
    using assms(2) by (auto simp: manual is_manual_id_def find_index_None_iff list_ex_iff)
  let ?f = "calling (\<lambda>k. case sv_destroy env i k of None \<Rightarrow> Inr () | Some e \<Rightarrow> Inl e) ?s1"
  obtain u where u: "flow_then ?f (\<lambda>_. forget_instance env i) = (Done (), u)" "t = u\<lparr>cs_destroyingInstance := ''''\<rparr>"
    using assms(1) by (cases "flow_then ?f (\<lambda>_. forget_instance env i)"; cases "fst (flow_then ?f (\<lambda>_. forget_instance env i))")
      (auto simp: destroy_instance_def Let_def none flow_finally_def)
  then obtain v where v: "forget_instance env i v = (Done (), u)" "v = cs_tick ?s1"
    by (auto simp: flow_then_Done calling_def)
  let ?p = "put_cs_instances env (filter (\<lambda>n. cn_instanceId n \<noteq> i) (cs_instances v)) v"
  let ?r = "on_store (remove_subscription_for_node (sv_apply env) i) ?p"
  obtain w where w: "snd ?r = w" "u = cs_sync_manual env w"
    using v(1) by (cases ?r; cases "fst ?r") (auto simp: forget_instance_def)
  have "as_nodes (snd (remove_subscription_for_node (sv_apply env) i (ms_apply (cs_manual ?p)))) = as_nodes (ms_apply (cs_manual ?p))"
    by (rule stable_remove [OF stable_nodes]) simp
  then have nodes: "ms_instances (cs_manual w) = filter (\<lambda>n. cn_instanceId n \<noteq> i) (cs_instances v)"
      "ms_manual (cs_manual w) = cs_manualNodes s"
    using manual by (simp_all add: ms_instances_def ms_manual_def put_cs_instances_def put_instances_def cs_manualNodes_def v(2)
        cs_tick_def next_step_def flip: w(1))
  have "i \<notin> cn_instanceId ` set (ms_manual (cs_manual w))"
    using assms(2) by (auto simp: nodes is_manual_id_def list_ex_iff)
  then show ?thesis
    by (auto simp: u(2) w(2) cs_instances_def cs_sync_manual_def ms_instances_sync nodes(1) listed_manual_def)
qed

text \<open>
  C13. A rotation can end with no server at all. \<open>rotateIP\<close> destroys the server before it creates the new one. When the creation
  fails, the exception is reported, but the old server is gone for good: it is no longer among the instances, and
  nothing brings it back.
\<close>

theorem failed_rotation_loses_the_server:
  assumes "find_node s i = Some n" and "\<not> is_manual_id s i" and "ms_loaded (cs_manual s)"
    and "destroy_instance env i (tell env (system_info ''IP Rotation Started'' (''Rotating IP for '' @ cn_label n @ ''...'')) s) = (Done (), t)"
    and "fst (retry_with_backoff (default_retry_options\<lparr>ro_maxAttempts := 3, ro_baseDelay := 2000\<rparr>) (sv_create env
      \<lparr>dr_label = cn_label n, dr_region = opt_or (cn_region n) '''', dr_plan = opt_or (cn_plan n) '''', dr_extra = None\<rparr> (cs_step t))) = Inl e"
  shows "fst (rotate_ip env i s) = Throws e \<and> i \<notin> cn_instanceId ` set (cs_instances (snd (rotate_ip env i s)))"
proof -
  let ?s1 = "tell env (system_info ''IP Rotation Started'' (''Rotating IP for '' @ cn_label n @ ''...'')) s"
  let ?req = "\<lparr>dr_label = cn_label n, dr_region = opt_or (cn_region n) '''', dr_plan = opt_or (cn_plan n) '''', dr_extra = None\<rparr>"
  have "\<not> is_manual_id ?s1 i" "ms_loaded (cs_manual ?s1)" using assms(2,3) by (simp_all add: is_manual_id_def cs_manualNodes_def tell_def)
  with assms(4) have gone: "i \<notin> cn_instanceId ` set (cs_instances t)" by (rule destroy_forgets)
  have step: "cs_step (t\<lparr>cs_creatingInstance := True\<rparr>) = cs_step t" by (simp add: cs_step_def)
  have "retrying 3 2000 (sv_create env ?req) (t\<lparr>cs_creatingInstance := True\<rparr>) = (Throws e, cs_tick (t\<lparr>cs_creatingInstance := True\<rparr>))"
    by (rule retrying_fails) (simp add: step assms(5))
  then have "create_instance env ?req t = (Throws e, (cs_tick (t\<lparr>cs_creatingInstance := True\<rparr>))\<lparr>cs_creatingInstance := False\<rparr>)"
    by (simp add: create_instance_def flow_finally_def)
  then have run: "rotate_ip env i s = (Throws e, tell env (rotation_failed (cn_label n) e)
      ((cs_tick (t\<lparr>cs_creatingInstance := True\<rparr>))\<lparr>cs_creatingInstance := False\<rparr>))"
    using assms(1,2,4) by (simp add: rotate_ip_def flow_handle_def)
  show ?thesis using gone by (simp add: run)
qed

subsection \<open>Properties: lists that are fresh\<close>

text \<open>While the list of instances is less than two minutes old, a refresh that is not forced does nothing. None of the
  refreshes that follow a creation or a repair is forced.\<close>

lemma fresh_list_is_not_refreshed:
  "is_instances_cache_valid env s \<Longrightarrow> cs_instances s \<noteq> [] \<Longrightarrow> refresh_instances env silent False s = (Done (), s)"
  by (simp add: refresh_instances_def)

text \<open>So servers that are created together are not listed.\<close>

lemma servers_created_together_stay_hidden:
  assumes "sv_create_many env reqs (cs_step s) = Inr results" "is_instances_cache_valid env (cs_tick s)" "cs_instances s \<noteq> []"
  shows "create_multiple_instances env reqs s = (Done results, cs_tick s)"
  using fresh_list_is_not_refreshed [OF assms(2)] assms(1,3)
  by (simp add: create_multiple_instances_def calling_def flow_sum_def)

text \<open>The automatic refresh that a creation starts is skipped, because the creation is still in progress.\<close>

lemma creation_starts_no_refresh: "cs_creatingInstance s \<Longrightarrow> cs_started (start_auto_refresh True s) = cs_started s"
  by (simp add: start_auto_refresh_def run_refresh_def stop_auto_refresh_def Let_def)

text \<open>The configuration of an SSH provider, which has no key, stops the automatic refresh that would not need one.\<close>

lemma ssh_is_never_refreshed:
  assumes "sv_get_config env (cs_step s) = Inr loaded" "blank_key loaded"
  shows "\<not> cs_autoRefresh (snd (load_config env s))"
  using assms by (simp add: load_config_def calling_def flow_sum_def Let_def blank_key_def assigned_config_def stop_auto_refresh_def)

subsection \<open>Properties: the verdict on a node\<close>

lemma health_keeps_nodes: "as_nodes (snd (update_protocol_health_from_connectivity env n r s)) = as_nodes s"
proof -
  have loaded: "as_nodes (load_protocol_health t) = as_nodes t" for t by (simp add: load_protocol_health_def)
  have saved: "as_nodes (snd (save_protocol_health e t)) = as_nodes t" for e t
    by (simp add: save_protocol_health_def next_step_def split: option.split)
  have entry: "as_nodes (snd (set_protocol_health_entry e i c t)) = as_nodes t" for e i c t
  proof (cases c)
    case (fields p st why)
    show ?thesis
      unfolding fields set_protocol_health_entry_def Let_def prod.case
      by (auto simp: loaded saved intro!: flow_then_inv [of "\<lambda>u. as_nodes u = as_nodes t"])
  qed
  have entries: "as_nodes (snd (set_health_entries e i cs b t)) = as_nodes t" for e i cs b t
  proof (induction cs arbitrary: b t)
    case Nil
    then show ?case by simp
  next
    case (Cons c cs)
    show ?case unfolding set_health_entries.simps
      by (rule flow_then_inv [of "\<lambda>u. as_nodes u = as_nodes t"]) (simp_all add: entry Cons.IH)
  qed
  have health: "as_nodes (snd (apply_protocol_health_to_node env n t)) = as_nodes t" for t
    by (rule stable_apply_health [OF stable_nodes]) simp
  show ?thesis
    unfolding update_protocol_health_from_connectivity_def
    by (rule flow_then_inv [of "\<lambda>u. as_nodes u = as_nodes s"]) (simp_all add: entries loaded health)
qed

lemma find_map_first:
  assumes "\<And>x. p (f x) = p x"
  shows "List.find p (map_first p f xs) = map_option f (List.find p xs)"
  by (induction xs) (simp_all add: assms)

lemma patched_instance:
  assumes "\<And>m. cn_instanceId (f m) = cn_instanceId m" "List.find (\<lambda>m. cn_instanceId m = i) (cs_instances s) = Some n"
  shows "List.find (\<lambda>m. cn_instanceId m = i) (cs_instances (patch_node i f s)) = Some (f n)"
proof -
  have "list_ex (\<lambda>m. cn_instanceId m = i) (cs_instances s)" using find_SomeD [OF assms(2)] by (auto simp: list_ex_iff)
  then have "cs_instances (patch_node i f s) = map_first (\<lambda>m. cn_instanceId m = i) f (cs_instances s)"
    by (simp add: patch_node_def set_instances_def cs_instances_def ms_instances_def)
  then show ?thesis by (simp add: find_map_first assms)
qed

text \<open>
  The verdict on a node. When the core runs and the test of a listed node is answered, \<open>verifyNodeConnectivity\<close> answers
  true exactly when the node is reachable or some target or port of it is open, and the node in the list gets the
  matching status: connected and reachable, connected with blocked ICMP, or error and blocked. The answer of the test
  is kept with the node.
\<close>

theorem verification_verdict:
  assumes "find_node s (cn_instanceId n) = Some n" and "list_ex (\<lambda>m. cn_instanceId m = cn_instanceId n) (cs_instances s)"
    and "av_running (sv_apply env) (cs_step s)" and "test_ip n \<noteq> ''''"
    and "sv_probe env (test_ip n) (build_connectivity_probe n) (cs_step s) 1 = Inr r"
    and "\<forall>a. fst (update_protocol_health_from_connectivity (sv_apply env) n r a) = Done ()"
    and "ok = (cr_status r = CsReachable \<or> get_reachable_endpoints r \<noteq> [])"
  shows "fst (verify_node_connectivity env n s) = Done ok
    \<and> (\<exists>m. List.find (\<lambda>m. cn_instanceId m = cn_instanceId n) (cs_instances (snd (verify_node_connectivity env n s))) = Some m
         \<and> cn_lastConnectivityResult m = Some r
         \<and> cn_statusText m = Some (if ok then NsConnected else NsError)
         \<and> cn_connectivityStatus m = Some (if cr_status r = CsReachable then CsReachable else if ok then CsIcmpBlocked else CsBlocked))"
proof -
  let ?i = "cn_instanceId n"
  obtain n0 where n0: "List.find (\<lambda>m. cn_instanceId m = ?i) (cs_instances s) = Some n0"
    using assms(2) by (cases "List.find (\<lambda>m. cn_instanceId m = ?i) (cs_instances s)") (auto simp: list_ex_iff find_eq_None_iff)
  obtain st cst v where verdict: "verdict r = (st, cst, v)" by (cases "verdict r")
  let ?f = "\<lambda>m. m\<lparr>cn_lastConnectivityResult := Some r\<rparr>" and ?g = "\<lambda>m. (with_status st m)\<lparr>cn_connectivityStatus := Some cst\<rparr>"
  let ?s1 = "record_connectivity env ?i (cr_status r) (Some r) (patch_node ?i ?f (cs_tick s))"
  let ?u = "on_store (update_protocol_health_from_connectivity (sv_apply env) n r) ?s1"
  obtain s3 where s3: "?u = (Done (), s3)" using assms(6) by (cases ?u) (metis fst_conv on_store_facts(1))
  then have inst: "cs_instances s3 = cs_instances ?s1"
    using health_keeps_nodes [of "sv_apply env" n r "ms_apply (cs_manual ?s1)"] on_store_pair [OF s3]
    by (simp add: cs_instances_def ms_instances_def)
  let ?t = "tell env ((if v then connectivity_restored else connectivity_blocked) (cn_label n)) (patch_node ?i ?g s3)"
  have step: "wait_for_core env 15 s = (True, s)" using assms(3) by (simp add: eval_nat_numeral)
  have call: "calling (\<lambda>k. sv_probe env (test_ip n) (build_connectivity_probe n) k 1) s = (Done r, cs_tick s)"
    unfolding calling_def flow_sum_def assms(5) by simp
  have run: "verify_node_connectivity env n s = (Done v, put_cs_instances env (cs_instances ?t) ?t)"
    unfolding verify_node_connectivity_def step Let_def prod.case bool.case call flow_then_simps s3 verdict flow_handle_def
      flow_finally_def flow.case if_not_P [OF assms(4)] by simp
  have "List.find (\<lambda>m. cn_instanceId m = ?i) (cs_instances ?s1) = Some (?f n0)"
    using patched_instance [of ?f ?i "cs_tick s" n0] n0 by (simp add: record_connectivity_def cs_instances_def [of "_\<lparr>cs_history := _\<rparr>"])
      (simp add: cs_instances_def)
  then have "List.find (\<lambda>m. cn_instanceId m = ?i) (cs_instances (patch_node ?i ?g s3)) = Some (?g (?f n0))"
    by (intro patched_instance) (simp_all add: inst with_status_def)
  then have "List.find (\<lambda>m. cn_instanceId m = ?i) (cs_instances (snd (verify_node_connectivity env n s))) = Some (?g (?f n0))"
    by (simp add: run)
  moreover have "v = ok" using verdict by (auto simp: verdict_def assms(7) split: if_splits)
  ultimately show ?thesis using verdict by (auto simp: run verdict_def with_status_def split: if_splits)
qed

subsection \<open>Concrete runs\<close>

definition new_server :: raw_node where
  "new_server = (raw_server ''n9'' ''203.0.113.9'')\<lparr>rw_node := (server ''n9'' ''203.0.113.9'')\<lparr>cn_region := Some ''ewr''\<rparr>\<rparr>"

text \<open>The provider creates servers, but does not tell the plans of a region.\<close>

definition silent_region_env :: session_env where
  "silent_region_env = (listing_env [])\<lparr>sv_create := (\<lambda>_ _ _. Inr new_server),
     sv_availability := (\<lambda>_ _. Inl ''rate limited'')\<rparr>"

definition small_request :: deploy_request where
  "small_request = \<lparr>dr_label = ''n9'', dr_region = ''ewr'', dr_plan = ''small'', dr_extra = None\<rparr>"

lemma created_server_is_lost_witness:
  "fst (create_instance silent_region_env small_request (session_start (manual_start [] []))) = Throws ''rate limited''
   \<and> cs_instances (snd (create_instance silent_region_env small_request (session_start (manual_start [] [])))) = []"
proof -
  let ?s = "session_start (manual_start [] [])"
  let ?raw = new_server
  let ?n = "normalize_cloud_node ?raw (cs_provider ?s)"
  have "fst (retry_with_backoff (default_retry_options\<lparr>ro_maxAttempts := 3, ro_baseDelay := 2000\<rparr>)
      (sv_create silent_region_env small_request (cs_step ?s))) = Inr ?raw"
    unfolding silent_region_env_def by code_simp
  moreover have "cn_instanceId ?n \<noteq> ''''" "truthy_s (cn_region ?n)" "map_of (cs_availability ?s) (the (cn_region ?n)) = None"
    "\<not> blank_key (cs_config ?s)" by code_simp+
  moreover have "\<forall>k. sv_availability silent_region_env (the (cn_region ?n)) k = Inl ''rate limited''"
    by (simp add: silent_region_env_def)
  ultimately have "fst (create_instance silent_region_env small_request ?s) = Throws ''rate limited''
      \<and> cs_instances (snd (create_instance silent_region_env small_request ?s)) = cs_instances ?s"
    using created_server_is_lost [of silent_region_env small_request ?s ?raw ?n] by blast
  then show ?thesis by (simp add: session_start_def cs_instances_def ms_instances_def manual_start_def)
qed

text \<open>The provider destroys servers, but creates none.\<close>

lemma failed_rotation_loses_the_server_witness:
  "\<exists>e. fst (rotate_ip (listing_env []) ''n1'' (session_start (manual_start [server ''n1'' ''203.0.113.1''] []))) = Throws e
     \<and> ''n1'' \<notin> cn_instanceId ` set (cs_instances (snd (rotate_ip (listing_env []) ''n1'' (session_start (manual_start [server ''n1'' ''203.0.113.1''] [])))))"
proof -
  let ?env = "listing_env []" and ?n = "server ''n1'' ''203.0.113.1''" and ?s = "session_start (manual_start [server ''n1'' ''203.0.113.1''] [])"
  let ?s1 = "tell ?env (system_info ''IP Rotation Started'' (''Rotating IP for '' @ cn_label ?n @ ''...'')) ?s"
  have "case destroy_instance ?env ''n1'' ?s1 of (Done _, _) \<Rightarrow> True | _ \<Rightarrow> False" by code_simp
  then obtain t where "destroy_instance ?env ''n1'' ?s1 = (Done (), t)"
    by (auto split: prod.splits flow.splits)
  moreover have "find_node ?s ''n1'' = Some ?n" "\<not> is_manual_id ?s ''n1''" "ms_loaded (cs_manual ?s)"
    by (simp_all add: find_node_def session_start_def cs_instances_def cs_manualNodes_def ms_instances_def manual_start_def
        server_def bare_node_def is_manual_id_def ms_manual_def)
  moreover have "sv_create ?env req k = (\<lambda>_. Inl ''no capacity'')" for req k by (simp add: listing_env_def)
  moreover have "fst (retry_with_backoff (default_retry_options\<lparr>ro_maxAttempts := 3, ro_baseDelay := 2000\<rparr>)
      (\<lambda>_. Inl ''no capacity'' :: string + raw_node)) = Inl ''no capacity''" by code_simp
  ultimately have "fst (rotate_ip ?env ''n1'' ?s) = Throws ''no capacity''
      \<and> ''n1'' \<notin> cn_instanceId ` set (cs_instances (snd (rotate_ip ?env ''n1'' ?s)))"
    by (intro failed_rotation_loses_the_server [of ?s "''n1''" ?n ?env t]) simp_all
  then show ?thesis by blast
qed

text \<open>The node does not answer a ping, but a target is open: the test says blocked, the node is usable.\<close>

definition half_blocked_env :: session_env where
  "half_blocked_env = (listing_env [])\<lparr>sv_cloud := cloud_calm\<lparr>ce_apply := calm_env\<lparr>av_running := (\<lambda>_. True)\<rparr>\<rparr>,
     sv_probe := (\<lambda>_ _ _ _. Inr \<lparr>cr_status = CsBlocked, cr_targetStatus = Some [(''ssh'', ''open'')], cr_portsOpen = None\<rparr>)\<rparr>"

definition portless_server :: node where
  "portless_server = (server ''n1'' ''203.0.113.1'')\<lparr>cn_ssPort := None\<rparr>"

lemma verification_verdict_witness:
  "fst (verify_node_connectivity half_blocked_env portless_server
      (session_start (manual_start [portless_server] []))) = Done True
   \<and> map_option cn_connectivityStatus (List.find (\<lambda>m. cn_instanceId m = ''n1'') (cs_instances (snd
      (verify_node_connectivity half_blocked_env portless_server
        (session_start (manual_start [portless_server] [])))))) = Some (Some CsIcmpBlocked)"
proof -
  let ?env = half_blocked_env and ?n = portless_server and ?s = "session_start (manual_start [portless_server] [])"
  let ?r = "\<lparr>cr_status = CsBlocked, cr_targetStatus = Some [(''ssh'', ''open'')], cr_portsOpen = None\<rparr>"
  have "next_health ?n ?r = []" by code_simp
  then have "\<forall>a. fst (update_protocol_health_from_connectivity (sv_apply ?env) ?n ?r a) = Done ()"
    by (simp add: update_protocol_health_from_connectivity_def)
  moreover have "find_node ?s (cn_instanceId ?n) = Some ?n" "list_ex (\<lambda>m. cn_instanceId m = cn_instanceId ?n) (cs_instances ?s)"
    by (simp_all add: find_node_def session_start_def cs_instances_def ms_instances_def manual_start_def portless_server_def server_def bare_node_def)
  moreover have "av_running (sv_apply ?env) (cs_step ?s)"
    "sv_probe ?env (test_ip ?n) (build_connectivity_probe ?n) (cs_step ?s) 1 = Inr ?r"
    by (simp_all add: half_blocked_env_def)
  moreover have "test_ip ?n \<noteq> ''''" "True = (cr_status ?r = CsReachable \<or> get_reachable_endpoints ?r \<noteq> [])" by code_simp+
  ultimately have "fst (verify_node_connectivity ?env ?n ?s) = Done True
    \<and> (\<exists>m. List.find (\<lambda>m. cn_instanceId m = cn_instanceId ?n) (cs_instances (snd (verify_node_connectivity ?env ?n ?s))) = Some m
         \<and> cn_lastConnectivityResult m = Some ?r \<and> cn_statusText m = Some (if True then NsConnected else NsError)
         \<and> cn_connectivityStatus m = Some (if cr_status ?r = CsReachable then CsReachable else if True then CsIcmpBlocked else CsBlocked))"
    by (intro verification_verdict)
  then show ?thesis by (auto simp: portless_server_def server_def bare_node_def)
qed

end
