(* ===== verification/SystemProxy.thy ===== *)
theory SystemProxy
  imports KernelConfig Flow
begin

text \<open>
  The proxy of the operating system, as \<open>utils/helper.ts\<close> sets and reads it: by the commands of Windows, macOS and
  two desktops of Linux. The model has the commands word for word; what a command does to the settings, and what a
  query prints, are parameters.
\<close>

subsection \<open>The machine\<close>

text \<open>\<open>mc_desktop\<close> is what \<open>echo $XDG_CURRENT_DESKTOP\<close> prints; a command that fails leaves the settings alone, as its
  error is ignored.\<close>

record 'os machine =
  mc_os :: string
  mc_desktop :: "string + string"
  mc_run :: "string list \<Rightarrow> 'os \<Rightarrow> 'os"
  mc_query :: "string list \<Rightarrow> 'os \<Rightarrow> string + string"

definition newline :: char where "newline = CHR 0x0A"

definition internet_settings :: string where
  "internet_settings = js_join [CHR 0x5C]
     [''HKCU'', ''Software'', ''Microsoft'', ''Windows'', ''CurrentVersion'', ''Internet Settings'']"

subsection \<open>Setting\<close>

definition windows_commands :: "string \<Rightarrow> bool \<Rightarrow> proxy_type \<Rightarrow> string list list" where
  "windows_commands server enabled ty =
     [[''reg'', ''add'', internet_settings, ''/v'', ''ProxyEnable'', ''/t'', ''REG_DWORD'', ''/d'', if enabled then ''1'' else ''0'', ''/f''],
      [''reg'', ''add'', internet_settings, ''/v'', ''ProxyServer'', ''/d'',
       if enabled then (if ty = ProxySocks then ''socks='' @ server else server) else '''', ''/f'']]"

text \<open>\<open>server.split(':')\<close> into two; a part that is missing is printed as \<open>undefined\<close>.\<close>

definition server_name :: "string \<Rightarrow> string" where
  "server_name server = hd (js_split CHR '':'' server)"

definition server_port :: "string \<Rightarrow> string" where
  "server_port server = (case js_split CHR '':'' server of _ # p # _ \<Rightarrow> p | _ \<Rightarrow> ''undefined'')"

definition darwin_commands :: "string \<Rightarrow> bool \<Rightarrow> proxy_type \<Rightarrow> string \<Rightarrow> string list list" where
  "darwin_commands server enabled ty device =
     (let http = enabled \<and> ty \<noteq> ProxySocks; socks = enabled \<and> ty \<noteq> ProxyHttp;
          state = (\<lambda>b. if b then ''on'' else ''off''); address = [server_name server, server_port server]
      in [[''networksetup'', ''-setwebproxystate'', device, state http],
          [''networksetup'', ''-setsecurewebproxystate'', device, state http],
          [''networksetup'', ''-setsocksfirewallproxystate'', device, state socks]]
         @ (if http then [[''networksetup'', ''-setwebproxy'', device] @ address,
                          [''networksetup'', ''-setsecurewebproxy'', device] @ address] else [])
         @ (if socks then [[''networksetup'', ''-setsocksfirewallproxy'', device] @ address] else []))"

definition kde_key :: "string \<Rightarrow> string list" where
  "kde_key k = [''--file'', ''kioslaverc'', ''--group'', ''Proxy Settings'', ''--key'', k]"

definition kde_commands :: "string \<Rightarrow> bool \<Rightarrow> proxy_type \<Rightarrow> string list list" where
  "kde_commands server enabled ty =
     (let http = enabled \<and> ty \<noteq> ProxySocks; socks = enabled \<and> ty \<noteq> ProxyHttp;
          write = (\<lambda>k v. ''kwriteconfig5'' # kde_key k @ [v])
      in [write ''ProxyType'' (if enabled then ''1'' else ''0''),
          write ''httpProxy'' (if http then ''http://'' @ server else ''''),
          write ''httpsProxy'' (if http then ''http://'' @ server else ''''),
          write ''socksProxy'' (if socks then ''socks://'' @ server else '''')])"

definition gnome_schema :: "string \<Rightarrow> string" where
  "gnome_schema p = ''org.gnome.system.proxy'' @ p"

definition gnome_commands :: "string \<Rightarrow> bool \<Rightarrow> proxy_type \<Rightarrow> string list list" where
  "gnome_commands server enabled ty =
     (let http = enabled \<and> ty \<noteq> ProxySocks; socks = enabled \<and> ty \<noteq> ProxyHttp;
          write = (\<lambda>s k v. [''gsettings'', ''set'', gnome_schema s, k, v]);
          host = (\<lambda>b. if b then server_name server else ''''); port = (\<lambda>b. if b then server_port server else ''0'')
      in [write '''' ''mode'' (if enabled then ''manual'' else ''none''),
          write ''.http'' ''host'' (host http), write ''.http'' ''port'' (port http),
          write ''.https'' ''host'' (host http), write ''.https'' ''port'' (port http),
          write ''.socks'' ''host'' (host socks), write ''.socks'' ''port'' (port socks)])"

text \<open>The commands of one call run together; they write different settings.\<close>

definition set_system_proxy :: "'os machine \<Rightarrow> bool \<Rightarrow> string \<Rightarrow> proxy_type \<Rightarrow> 'os \<Rightarrow> unit flow \<times> 'os" where
  "set_system_proxy mc enabled server ty m =
     (if mc_os mc = ''windows'' then (Done (), fold (mc_run mc) (windows_commands server enabled ty) m)
      else if mc_os mc = ''darwin'' then
        (Done (), fold (mc_run mc) (darwin_commands server enabled ty ''Ethernet'' @ darwin_commands server enabled ty ''Wi-Fi'') m)
      else if mc_os mc = ''linux'' then
        (case mc_desktop mc of
           Inl e \<Rightarrow> (Throws e, m)
         | Inr d \<Rightarrow>
             if js_includes d ''KDE'' then (Done (), fold (mc_run mc) (kde_commands server enabled ty) m)
             else if js_includes d ''GNOME'' then (Done (), fold (mc_run mc) (gnome_commands server enabled ty) m)
             else (Done (), m))
      else (Done (), m))"

subsection \<open>Reading\<close>

text \<open>A word, white space, and then what follows.\<close>

definition after_word :: "string \<Rightarrow> string \<Rightarrow> string option" where
  "after_word w s = (if \<not> starts_with s w then None
     else let r = drop (length w) s; t = dropWhile js_ws r in if t = r then None else Some t)"

text \<open>The first position at which a pattern matches.\<close>

fun first_match :: "(string \<Rightarrow> 'a option) \<Rightarrow> string \<Rightarrow> 'a option" where
  "first_match p [] = p []"
| "first_match p (c # cs) = (case p (c # cs) of None \<Rightarrow> first_match p cs | Some v \<Rightarrow> Some v)"

definition dword_zero :: "string \<Rightarrow> bool" where
  "dword_zero out = (first_match (\<lambda>s. case after_word ''REG_DWORD'' s of
      Some t \<Rightarrow> if starts_with t ''0x0'' then Some () else None | None \<Rightarrow> None) out \<noteq> None)"

definition registry_server :: "string \<Rightarrow> string option" where
  "registry_server out = first_match (\<lambda>s. case after_word ''ProxyServer'' s of
      None \<Rightarrow> None
    | Some t \<Rightarrow> (case after_word ''REG_SZ'' t of
        None \<Rightarrow> None
      | Some u \<Rightarrow> nonempty (takeWhile (\<lambda>c. \<not> js_ws c) u))) out"

definition windows_proxy :: "'os machine \<Rightarrow> 'os \<Rightarrow> string + string" where
  "windows_proxy mc m = (case mc_query mc [''reg'', ''query'', internet_settings, ''/v'', ''ProxyEnable'', ''/t'', ''REG_DWORD''] m of
      Inl e \<Rightarrow> Inl e
    | Inr out1 \<Rightarrow> if dword_zero out1 then Inr ''''
        else (case mc_query mc [''reg'', ''query'', internet_settings, ''/v'', ''ProxyServer'', ''/t'', ''REG_SZ''] m of
            Inl e \<Rightarrow> Inl e
          | Inr out2 \<Rightarrow> Inr (case registry_server out2 of
                None \<Rightarrow> '''' | Some v \<Rightarrow> if starts_with v ''socks'' then v else ''http://'' @ v)))"

definition scutil_keys :: "string list" where
  "scutil_keys = [''HTTPEnable'', ''HTTPPort'', ''HTTPProxy'', ''SOCKSEnable'', ''SOCKSPort'', ''SOCKSProxy'']"

text \<open>A key, a colon and a value up to a brace or the end of the line: the key, the trimmed value and how many
  characters were read. When only white space follows the colon, its last character before the line ends is the value.\<close>

definition value_char :: "char \<Rightarrow> bool" where
  "value_char c \<longleftrightarrow> c \<noteq> CHR ''}'' \<and> c \<noteq> newline"

definition scutil_entry :: "string \<Rightarrow> (string \<times> string \<times> nat) option" where
  "scutil_entry s = (case List.find (starts_with s) scutil_keys of
      None \<Rightarrow> None
    | Some k \<Rightarrow> (case dropWhile js_ws (drop (length k) s) of
        c # r \<Rightarrow>
          (if c \<noteq> CHR '':'' then None
           else let t = dropWhile js_ws r; v = takeWhile value_char t
             in if v \<noteq> '''' then Some (k, js_trim v, length s - length (dropWhile value_char t))
                else let w = takeWhile js_ws r
                  in if list_ex value_char w
                     then Some (k, '''', length s - length r + length (dropWhile (\<lambda>c. \<not> value_char c) (rev w)))
                     else None)
      | [] \<Rightarrow> None))"

text \<open>The matches of the pattern from left to right; the number counts the characters a match has still to skip.\<close>

fun scutil_entries :: "nat \<Rightarrow> string \<Rightarrow> (string \<times> string) list" where
  "scutil_entries k [] = []"
| "scutil_entries (Suc k) (c # cs) = scutil_entries k cs"
| "scutil_entries 0 (c # cs) = (case scutil_entry (c # cs) of
      None \<Rightarrow> scutil_entries 0 cs
    | Some (key, v, n) \<Rightarrow> (key, v) # scutil_entries (n - 1) cs)"

definition darwin_proxy :: "'os machine \<Rightarrow> 'os \<Rightarrow> string + string" where
  "darwin_proxy mc m = (case mc_query mc [''scutil'', ''--proxy''] m of
      Inl e \<Rightarrow> Inl e
    | Inr out \<Rightarrow>
        let value = map_of (rev (scutil_entries 0 out)); shown = (\<lambda>k. or_else (value k) ''undefined'')
        in Inr (if value ''HTTPEnable'' = Some ''1'' then ''http://'' @ shown ''HTTPProxy'' @ '':'' @ shown ''HTTPPort''
                else if value ''SOCKSEnable'' = Some ''1'' then ''socks5://'' @ shown ''SOCKSProxy'' @ '':'' @ shown ''SOCKSPort''
                else ''''))"

definition unquoted :: "string \<Rightarrow> string" where
  "unquoted s = filter (\<lambda>c. c \<noteq> CHR 0x27 \<and> c \<noteq> CHR 0x22 \<and> c \<noteq> newline) s"

fun colon_for_space :: "string \<Rightarrow> string" where
  "colon_for_space [] = []"
| "colon_for_space (c # cs) = (if c = CHR '' '' then CHR '':'' # cs else c # colon_for_space cs)"

definition kde_proxy :: "'os machine \<Rightarrow> 'os \<Rightarrow> string + string" where
  "kde_proxy mc m = (let read = (\<lambda>k. mc_query mc (''kreadconfig5'' # kde_key k) m)
     in case read ''ProxyType'' of
          Inl e \<Rightarrow> Inl e
        | Inr out \<Rightarrow> if \<not> js_includes out ''1'' then Inr ''''
            else (case read ''httpProxy'' of
                Inl e \<Rightarrow> Inl e
              | Inr out1 \<Rightarrow> if unquoted out1 \<noteq> '''' then Inr (colon_for_space (unquoted out1))
                  else (case read ''socksProxy'' of
                      Inl e \<Rightarrow> Inl e
                    | Inr out2 \<Rightarrow> Inr (colon_for_space (unquoted out2)))))"

definition gnome_address :: "'os machine \<Rightarrow> string \<Rightarrow> string \<Rightarrow> 'os \<Rightarrow> string + string option" where
  "gnome_address mc part scheme m = (let read = (\<lambda>k. mc_query mc [''gsettings'', ''get'', gnome_schema part, k] m)
     in case read ''host'' of
          Inl e \<Rightarrow> Inl e
        | Inr out1 \<Rightarrow> (case read ''port'' of
            Inl e \<Rightarrow> Inl e
          | Inr out2 \<Rightarrow> Inr (if unquoted out1 \<noteq> '''' \<and> unquoted out2 \<noteq> ''0''
              then Some (scheme @ unquoted out1 @ '':'' @ unquoted out2) else None)))"

definition gnome_proxy :: "'os machine \<Rightarrow> 'os \<Rightarrow> string + string" where
  "gnome_proxy mc m = (case mc_query mc [''gsettings'', ''get'', gnome_schema '''', ''mode''] m of
      Inl e \<Rightarrow> Inl e
    | Inr out \<Rightarrow>
        if js_includes out ''none'' \<or> \<not> js_includes out ''manual'' then Inr ''''
        else (case gnome_address mc ''.http'' ''http://'' m of
            Inl e \<Rightarrow> Inl e
          | Inr (Some a) \<Rightarrow> Inr a
          | Inr None \<Rightarrow> (case gnome_address mc ''.socks'' ''socks5://'' m of
              Inl e \<Rightarrow> Inl e
            | Inr a \<Rightarrow> Inr (or_else a ''''))))"

text \<open>An error of a query is only printed.\<close>

definition get_system_proxy :: "'os machine \<Rightarrow> 'os \<Rightarrow> string" where
  "get_system_proxy mc m = (case
      (if mc_os mc = ''windows'' then windows_proxy mc m
       else if mc_os mc = ''darwin'' then darwin_proxy mc m
       else if mc_os mc = ''linux'' then
         (case mc_desktop mc of
            Inl e \<Rightarrow> Inl e
          | Inr d \<Rightarrow> if js_includes d ''KDE'' then kde_proxy mc m
              else if js_includes d ''GNOME'' then gnome_proxy mc m else Inr '''')
       else Inr '''') of
      Inl _ \<Rightarrow> '''' | Inr v \<Rightarrow> v)"

text \<open>The proxy for downloads: that of the running core, else that of the system, asked for at most once a second.\<close>

definition get_system_or_kernel_proxy ::
    "'os machine \<Rightarrow> int \<Rightarrow> bool \<Rightarrow> core_config \<Rightarrow> 'os \<Rightarrow> (string \<times> int) option \<Rightarrow> string \<times> (string \<times> int) option" where
  "get_system_or_kernel_proxy mc now running cc m cache =
     (let asked = (case cache of
          Some (p, t0) \<Rightarrow> if now - t0 < 1000 then (p, cache) else (get_system_proxy mc m, Some (get_system_proxy mc m, now))
        | None \<Rightarrow> (get_system_proxy mc m, Some (get_system_proxy mc m, now)))
      in if running then (case get_proxy_port cc of
             Some (port, ty) \<Rightarrow>
               ((if ty = ProxySocks then ''socks5://127.0.0.1:'' else ''http://127.0.0.1:'') @ int_text port, cache)
           | None \<Rightarrow> asked)
         else asked)"

end
