(* ===== verification/ProxyControl.thy ===== *)
theory ProxyControl
  imports SystemProxy
begin

text \<open>
  The proxy store of \<open>stores/env.ts\<close> and the automation of \<open>hooks/systemProxyControlCore.ts\<close> and
  \<open>hooks/useSystemProxyControl.ts\<close>: the client enters its core as the proxy of the system, remembers the proxy that
  was there before, and restores it.
\<close>

subsection \<open>State\<close>

datatype proxy_kind = PxUnsupported | PxDisabled | PxManaged | PxExternal

datatype toast = ToastInfo string | ToastSuccess string | ToastWarn string | ToastError string

record 'os proxy_state =
  sp_os :: 'os
  sp_config :: core_config
  sp_autoSet :: bool
  sp_initialized :: bool
  sp_backup :: string
  sp_managed :: bool
  sp_proxy :: bool
  sp_kind :: proxy_kind
  sp_server :: string
  sp_toasts :: "toast list"

record 'os proxy_env =
  pe_machine :: "'os machine"
  pe_supported :: bool

definition put_toast :: "toast \<Rightarrow> 'os proxy_state \<Rightarrow> 'os proxy_state" where
  "put_toast x s = s\<lparr>sp_toasts := sp_toasts s @ [x]\<rparr>"

definition current_proxy :: "'os proxy_env \<Rightarrow> 'os proxy_state \<Rightarrow> string" where
  "current_proxy env s = get_system_proxy (pe_machine env) (sp_os s)"

definition put_system_proxy ::
    "'os proxy_env \<Rightarrow> bool \<Rightarrow> string \<Rightarrow> proxy_type \<Rightarrow> 'os proxy_state \<Rightarrow> unit flow \<times> 'os proxy_state" where
  "put_system_proxy env enable server ty s = (case set_system_proxy (pe_machine env) enable server ty (sp_os s) of
      (r, m) \<Rightarrow> (r, s\<lparr>sp_os := m\<rparr>))"

subsection \<open>Which proxies are ours\<close>

definition app_proxy_servers :: "core_config \<Rightarrow> string list" where
  "app_proxy_servers cc = filter (\<lambda>x. \<not> ends_with x '':0'')
     [''http://127.0.0.1:'' @ int_text (cc_port cc), ''http://127.0.0.1:'' @ int_text (cc_mixed_port cc),
      ''socks5://127.0.0.1:'' @ int_text (cc_mixed_port cc), ''socks5://127.0.0.1:'' @ int_text (cc_socks_port cc),
      ''socks=127.0.0.1:'' @ int_text (cc_mixed_port cc), ''socks=127.0.0.1:'' @ int_text (cc_socks_port cc)]"

definition is_app_managed :: "core_config \<Rightarrow> string \<Rightarrow> bool" where
  "is_app_managed cc p \<longleftrightarrow> p \<noteq> '''' \<and> p \<in> set (app_proxy_servers cc)"

text \<open>\<open>^[a-z0-9]+://\<close> is cut off.\<close>

definition without_scheme :: "string \<Rightarrow> string" where
  "without_scheme s =
     (let scheme = takeWhile (\<lambda>c. (97 \<le> (of_char c :: nat) \<and> (of_char c :: nat) \<le> 122) \<or> is_digit c) s;
          r = drop (length scheme) s
      in if scheme \<noteq> '''' \<and> starts_with r ''://'' then drop 3 r else s)"

definition parse_saved_proxy :: "string \<Rightarrow> (string \<times> proxy_type) option" where
  "parse_saved_proxy p =
     (let v = js_trim p
      in if v = '''' then None
         else if starts_with v ''socks='' then Some (drop 6 v, ProxySocks)
         else if list_ex (starts_with v) [''socks://'', ''socks4://'', ''socks5://''] then Some (without_scheme v, ProxySocks)
         else if list_ex (starts_with v) [''http://'', ''https://''] then Some (without_scheme v, ProxyHttp)
         else Some (v, ProxyHttp))"

subsection \<open>Operations of the store\<close>

definition set_system_proxy_internal :: "'os proxy_env \<Rightarrow> bool \<Rightarrow> 'os proxy_state \<Rightarrow> bool flow \<times> 'os proxy_state" where
  "set_system_proxy_internal env override s =
     (if \<not> pe_supported env then (Throws ''settings.systemProxy.restoreUnavailable'', s)
      else case get_proxy_port (sp_config s) of
        None \<Rightarrow> (Throws ''home.overview.needPort'', s)
      | Some (port, ty) \<Rightarrow>
          let current = current_proxy env s; external = (current \<noteq> '''' \<and> \<not> is_app_managed (sp_config s) current)
          in if external \<and> \<not> override then (Done False, s)
             else
               let s1 = (if external \<and> sp_backup s = '''' then s\<lparr>sp_backup := current\<rparr> else s);
                   address = ''127.0.0.1:'' @ int_text port
               in flow_then (put_system_proxy env True address ty s1) (\<lambda>_ s2.
                    (Done True, s2\<lparr>sp_managed := True, sp_proxy := True, sp_kind := PxManaged,
                       sp_server := (if ty = ProxySocks then ''socks='' @ address else ''http://'' @ address)\<rparr>)))"

definition update_system_proxy_status :: "'os proxy_env \<Rightarrow> 'os proxy_state \<Rightarrow> 'os proxy_state" where
  "update_system_proxy_status env s =
     (if \<not> pe_supported env then s\<lparr>sp_proxy := False, sp_kind := PxUnsupported, sp_server := ''''\<rparr>
      else let p = current_proxy env s; ours = is_app_managed (sp_config s) p
        in s\<lparr>sp_server := p, sp_proxy := p \<noteq> '''' \<and> ours,
             sp_kind := (if p = '''' then PxDisabled else if ours then PxManaged else PxExternal)\<rparr>)"

definition set_system_proxy_if_safe :: "'os proxy_env \<Rightarrow> 'os proxy_state \<Rightarrow> bool flow \<times> 'os proxy_state" where
  "set_system_proxy_if_safe env = set_system_proxy_internal env False"

definition force_system_proxy :: "'os proxy_env \<Rightarrow> 'os proxy_state \<Rightarrow> unit flow \<times> 'os proxy_state" where
  "force_system_proxy env s = flow_then (set_system_proxy_internal env True s) (\<lambda>_ s1. (Done (), s1))"

definition clear_system_proxy :: "'os proxy_env \<Rightarrow> 'os proxy_state \<Rightarrow> unit flow \<times> 'os proxy_state" where
  "clear_system_proxy env s =
     (if \<not> pe_supported env then (Done (), s)
      else flow_then (put_system_proxy env False '''' ProxyMixed s) (\<lambda>_ s1.
        (Done (), s1\<lparr>sp_managed := False, sp_proxy := False, sp_kind := PxDisabled, sp_server := ''''\<rparr>)))"

definition restore_previous_system_proxy :: "'os proxy_env \<Rightarrow> bool \<Rightarrow> 'os proxy_state \<Rightarrow> bool flow \<times> 'os proxy_state" where
  "restore_previous_system_proxy env clear s =
     (if \<not> pe_supported env then (Done False, s)
      else
        let backup = js_trim (sp_backup s);
            forget = (\<lambda>s. s\<lparr>sp_managed := False, sp_backup := (if clear then '''' else sp_backup s)\<rparr>)
        in if backup = '''' then
             (if \<not> sp_managed s then (Done False, s)
              else flow_then (put_system_proxy env False '''' ProxyMixed s) (\<lambda>_ s1.
                (Done True, (forget s1)\<lparr>sp_proxy := False, sp_kind := PxDisabled, sp_server := ''''\<rparr>)))
           else (case parse_saved_proxy backup of
               None \<Rightarrow> (Done False, s)
             | Some (server, ty) \<Rightarrow> flow_then (put_system_proxy env True server ty s) (\<lambda>_ s1.
                 (Done True, update_system_proxy_status env (forget s1)))))"

definition restore_after_unexpected_exit :: "'os proxy_env \<Rightarrow> 'os proxy_state \<Rightarrow> bool flow \<times> 'os proxy_state" where
  "restore_after_unexpected_exit env s =
     (if \<not> pe_supported env \<or> \<not> sp_managed s then (Done False, s)
      else if \<not> is_app_managed (sp_config s) (current_proxy env s) then
        (Done False, update_system_proxy_status env (s\<lparr>sp_managed := False, sp_backup := ''''\<rparr>))
      else restore_previous_system_proxy env True s)"

definition switch_system_proxy :: "'os proxy_env \<Rightarrow> bool \<Rightarrow> 'os proxy_state \<Rightarrow> unit flow \<times> 'os proxy_state" where
  "switch_system_proxy env enable = (if enable then force_system_proxy env else clear_system_proxy env)"

subsection \<open>Automation\<close>

text \<open>\<open>confirms\<close> is the answer to the question that the operation may ask.\<close>
definition enable_automation ::
    "'os proxy_env \<Rightarrow> bool \<Rightarrow> bool \<Rightarrow> bool \<Rightarrow> 'os proxy_state \<Rightarrow> bool flow \<times> 'os proxy_state" where
  "enable_automation env force_prompt kernel_running confirms s =
     (let s1 = update_system_proxy_status env s
      in if \<not> pe_supported env then (Done False, put_toast (ToastInfo ''settings.systemProxy.status.unsupported'') s1)
         else if sp_autoSet s1 then (Done True, s1)
         else
           let enable = (force_prompt \<longrightarrow> confirms); s2 = s1\<lparr>sp_initialized := True, sp_autoSet := enable\<rparr>
           in if \<not> enable then (Done False, put_toast (ToastInfo ''settings.systemProxy.firstLaunchDisabled'') s2)
              else if \<not> kernel_running then (Done True, put_toast (ToastSuccess ''settings.systemProxy.firstLaunchEnabled'') s2)
              else case set_system_proxy_if_safe env s2 of
                (Done applied, s3) \<Rightarrow> (Done True, put_toast
                   (if applied then ToastSuccess ''settings.systemProxy.firstLaunchEnabled''
                    else ToastWarn ''settings.systemProxy.autoSkippedExisting'') (update_system_proxy_status env s3))
              | (Throws e, s3) \<Rightarrow> (Done False, put_toast (ToastError e) s3)
              | (Hangs, s3) \<Rightarrow> (Hangs, s3))"

definition disable_automation :: "'os proxy_env \<Rightarrow> bool \<Rightarrow> 'os proxy_state \<Rightarrow> bool flow \<times> 'os proxy_state" where
  "disable_automation env confirms s =
     (let s1 = update_system_proxy_status env s; off = (\<lambda>s. s\<lparr>sp_autoSet := False, sp_initialized := True\<rparr>)
      in if \<not> pe_supported env then (Done False, off s1)
         else if \<not> confirms then (Done True, s1)
         else case restore_previous_system_proxy env True (off s1) of
           (Done ended, s2) \<Rightarrow> (Done True, put_toast
              (if ended then ToastSuccess ''settings.systemProxy.restoreSuccess''
               else ToastInfo ''settings.systemProxy.firstLaunchDisabled'') (update_system_proxy_status env s2))
         | (Throws e, s2) \<Rightarrow> (Done False, put_toast (ToastError ''settings.systemProxy.restoreFailed'') s2)
         | (Hangs, s2) \<Rightarrow> (Hangs, s2))"

definition maybe_prompt_before_connect :: "'os proxy_env \<Rightarrow> bool \<Rightarrow> 'os proxy_state \<Rightarrow> bool flow \<times> 'os proxy_state" where
  "maybe_prompt_before_connect env confirms s =
     (let s1 = update_system_proxy_status env s
      in if \<not> pe_supported env then (Done False, s1)
         else if sp_autoSet s1 then (Done True, s1)
         else if sp_initialized s1 \<or> sp_kind s1 \<noteq> PxDisabled then (Done False, s1)
         else enable_automation env True False confirms s1)"

definition set_automation_enabled ::
    "'os proxy_env \<Rightarrow> bool \<Rightarrow> bool \<Rightarrow> bool \<Rightarrow> bool \<Rightarrow> 'os proxy_state \<Rightarrow> bool flow \<times> 'os proxy_state" where
  "set_automation_enabled env enabled force_prompt kernel_running confirms s =
     flow_then (if enabled then enable_automation env force_prompt kernel_running confirms s
                else disable_automation env confirms s) (\<lambda>_ s1. (Done (sp_autoSet s1), s1))"

definition handle_proxy_status_action :: "'os proxy_env \<Rightarrow> bool \<Rightarrow> bool \<Rightarrow> 'os proxy_state \<Rightarrow> bool flow \<times> 'os proxy_state" where
  "handle_proxy_status_action env kernel_running confirms s =
     set_automation_enabled env (\<not> sp_autoSet s) True kernel_running confirms s"

end
