(* ===== verification/ProxyLaws.thy ===== *)
theory ProxyLaws
  imports ProxyControl
begin

text \<open>
  What the automation of the system proxy guarantees, and the cases in which the client does not know its own proxy.
\<close>

subsection \<open>Properties: the proxy of the user\<close>

text \<open>The operations that the client performs by itself, and a change of the ports of the core.\<close>

datatype proxy_op =
    OpStatus | OpSetIfSafe | OpRestore bool | OpAfterExit | OpEnable bool bool bool | OpDisable bool | OpPrompt bool
  | OpPorts core_config

fun run_proxy_op :: "'os proxy_env \<Rightarrow> proxy_op \<Rightarrow> 'os proxy_state \<Rightarrow> 'os proxy_state" where
  "run_proxy_op env OpStatus s = update_system_proxy_status env s"
| "run_proxy_op env OpSetIfSafe s = snd (set_system_proxy_if_safe env s)"
| "run_proxy_op env (OpRestore clear) s = snd (restore_previous_system_proxy env clear s)"
| "run_proxy_op env OpAfterExit s = snd (restore_after_unexpected_exit env s)"
| "run_proxy_op env (OpEnable force running confirms) s = snd (enable_automation env force running confirms s)"
| "run_proxy_op env (OpDisable confirms) s = snd (disable_automation env confirms s)"
| "run_proxy_op env (OpPrompt confirms) s = snd (maybe_prompt_before_connect env confirms s)"
| "run_proxy_op env (OpPorts cc) s = s\<lparr>sp_config := cc\<rparr>"

definition foreign :: "'os proxy_env \<Rightarrow> 'os \<Rightarrow> 'os proxy_state \<Rightarrow> bool" where
  "foreign env m s \<longleftrightarrow> sp_os s = m \<and> \<not> sp_managed s \<and> sp_backup s = '''' \<and> get_system_proxy (pe_machine env) m \<noteq> ''''
     \<and> \<not> is_app_managed (sp_config s) (get_system_proxy (pe_machine env) m)"

lemma foreign_frame [simp]:
  "foreign env m (put_toast x s) = foreign env m s" "foreign env m (update_system_proxy_status env s) = foreign env m s"
  "foreign env m (s\<lparr>sp_initialized := a, sp_autoSet := b\<rparr>) = foreign env m s"
  "foreign env m (s\<lparr>sp_autoSet := a, sp_initialized := b\<rparr>) = foreign env m s"
  by (simp_all add: foreign_def put_toast_def update_system_proxy_status_def Let_def)

lemma foreign_set:
  assumes "foreign env m s"
  shows "snd (set_system_proxy_if_safe env s) = s"
  using assms
  by (auto simp: set_system_proxy_if_safe_def set_system_proxy_internal_def current_proxy_def foreign_def Let_def
      split: option.split)

lemma foreign_restore:
  assumes "foreign env m s"
  shows "restore_previous_system_proxy env clear s = (Done False, s)"
  using assms by (simp add: restore_previous_system_proxy_def foreign_def Let_def js_trim_def trim_left_def)

lemma foreign_enable:
  assumes "foreign env m s"
  shows "foreign env m (snd (enable_automation env force running confirms s))"
proof -
  have "foreign env m (snd (case r of (Done applied, s3) \<Rightarrow> (Done True, put_toast
       (if applied then ToastSuccess ''settings.systemProxy.firstLaunchEnabled''
        else ToastWarn ''settings.systemProxy.autoSkippedExisting'') (update_system_proxy_status env s3))
      | (Throws e, s3) \<Rightarrow> (Done False, put_toast (ToastError e) s3) | (Hangs, s3) \<Rightarrow> (Hangs, s3)))"
    if "foreign env m (snd r)" for r
    using that by (auto split: prod.split flow.split)
  then show ?thesis using assms by (simp add: enable_automation_def Let_def foreign_set [where m = m])
qed

lemma foreign_step:
  assumes "foreign env m s" "\<And>cc. x = OpPorts cc \<Longrightarrow> \<not> is_app_managed cc (get_system_proxy (pe_machine env) m)"
  shows "foreign env m (run_proxy_op env x s)"
proof (cases x)
  case (OpDisable confirms)
  then show ?thesis using assms(1)
    by (simp add: disable_automation_def Let_def foreign_restore [where m = m])
next
  case OpAfterExit
  then show ?thesis using assms(1) by (simp add: restore_after_unexpected_exit_def) (simp add: foreign_def)
next
  case (OpPorts cc)
  then show ?thesis using assms by (simp add: foreign_def)
next
  case (OpPrompt confirms)
  then show ?thesis using assms(1) by (simp add: maybe_prompt_before_connect_def Let_def foreign_enable)
qed (use assms(1) in \<open>simp_all add: foreign_set foreign_restore foreign_enable\<close>)

text \<open>
  C30. The proxy of the user is left alone. While the system uses a proxy that is not one of the client's, and the client has
  not been told to override it, no sequence of starts, stops, status checks and switches of the automation, with
  whatever answers the user gives and whatever ports the core has meanwhile, changes a setting of the system or makes the client
  believe that it manages the proxy.
\<close>

theorem external_proxy_is_left_alone:
  assumes "current_proxy env s \<noteq> ''''" and "\<not> sp_managed s" and "sp_backup s = ''''"
    and "\<forall>cc. cc = sp_config s \<or> OpPorts cc \<in> set ops \<longrightarrow> \<not> is_app_managed cc (current_proxy env s)"
  shows "sp_os (fold (run_proxy_op env) ops s) = sp_os s \<and> \<not> sp_managed (fold (run_proxy_op env) ops s)
    \<and> sp_backup (fold (run_proxy_op env) ops s) = ''''"
proof -
  have "foreign env (sp_os s) s" using assms by (simp add: foreign_def current_proxy_def)
  then have "foreign env (sp_os s) (fold (run_proxy_op env) ops s)"
    if "\<forall>cc. OpPorts cc \<in> set ops \<longrightarrow> \<not> is_app_managed cc (current_proxy env s)" for ops
    using that by (induction ops arbitrary: s rule: rev_induct) (auto intro!: foreign_step simp: current_proxy_def)
  then show ?thesis using assms(4) by (simp add: foreign_def)
qed

subsection \<open>Properties: after a crash\<close>

text \<open>
  A crash is never repaired at the next start. When the client starts, the ports of the core are not known yet, so the
  proxy it set itself, which still points to the dead core, is taken for the user's: \<open>restoreSystemProxyAfterUnexpectedExit\<close>
  changes nothing in the system, and throws away the proxy it had saved.
\<close>

theorem crash_is_not_repaired_at_start:
  assumes "pe_supported env" and "sp_managed s" and "sp_config s = initial_config"
  shows "fst (restore_after_unexpected_exit env s) = Done False
    \<and> (let t = snd (restore_after_unexpected_exit env s) in sp_os t = sp_os s \<and> \<not> sp_managed t \<and> sp_backup t = ''''
       \<and> (current_proxy env s \<noteq> '''' \<longrightarrow> sp_kind t = PxExternal))"
proof -
  have "app_proxy_servers initial_config = []" by code_simp
  then have "\<not> is_app_managed initial_config p" for p by (simp add: is_app_managed_def)
  then show ?thesis using assms
    by (auto simp: restore_after_unexpected_exit_def update_system_proxy_status_def Let_def current_proxy_def)
qed

subsection \<open>Properties: SOCKS on KDE\<close>

text \<open>What the client relies on: a value that was written is printed with a line feed, and nothing else changes.\<close>

definition kde_settings :: "'os machine \<Rightarrow> bool" where
  "kde_settings mc \<longleftrightarrow> mc_os mc = ''linux'' \<and> (\<exists>d. mc_desktop mc = Inr d \<and> js_includes d ''KDE'')
     \<and> (\<forall>m k v. mc_query mc (''kreadconfig5'' # kde_key k) (mc_run mc (''kwriteconfig5'' # kde_key k @ [v]) m) = Inr (v @ [newline]))
     \<and> (\<forall>m k k' v. k \<noteq> k' \<longrightarrow> mc_query mc (''kreadconfig5'' # kde_key k) (mc_run mc (''kwriteconfig5'' # kde_key k' @ [v]) m)
          = mc_query mc (''kreadconfig5'' # kde_key k) m)"

definition plain :: "string \<Rightarrow> bool" where
  "plain s \<longleftrightarrow> list_all (\<lambda>c. c \<noteq> CHR 0x27 \<and> c \<noteq> CHR 0x22 \<and> c \<noteq> newline \<and> c \<noteq> CHR '' '' \<and> c \<noteq> CHR '':'') s"

lemma unquoted_append [simp]: "unquoted (s @ t) = unquoted s @ unquoted t"
  by (simp add: unquoted_def)

lemma unquoted_plain [simp]: "plain s \<Longrightarrow> unquoted s = s"
  by (induction s) (simp_all add: unquoted_def plain_def)

lemma colon_for_space_id: "CHR '' '' \<notin> set s \<Longrightarrow> colon_for_space s = s"
  by (induction s) auto

lemma plain_no_space: "plain s \<Longrightarrow> CHR '' '' \<notin> set s"
  by (induction s) (auto simp: plain_def)

lemma plain_digits: "list_all is_digit s \<Longrightarrow> plain s"
  by (induction s) (auto simp: plain_def is_digit_def newline_def)

lemma digits_text: "0 \<le> n \<Longrightarrow> list_all is_digit (int_text n)"
  using nat_text_digits by (auto simp: int_text_def list_all_iff)

text \<open>
  A SOCKS proxy on KDE. When the core offers a SOCKS port only, the client enters \<open>socks://127.0.0.1\<close> with the port into the
  settings of KDE, but recognises only \<open>socks5://\<close> and \<open>socks=\<close>. It takes its own proxy for the user's: the status
  becomes external, and it refuses to set the proxy again.
\<close>

theorem own_socks_proxy_is_foreign_on_kde:
  assumes "pe_supported env" and "kde_settings (pe_machine env)" and "get_proxy_port (sp_config s) = Some (p, ProxySocks)"
    and "0 < p" and "current_proxy env s = ''''"
  shows "fst (set_system_proxy_if_safe env s) = Done True
    \<and> (let t = snd (set_system_proxy_if_safe env s)
       in sp_managed t \<and> current_proxy env t = ''socks://127.0.0.1:'' @ int_text p
          \<and> sp_kind (update_system_proxy_status env t) = PxExternal \<and> set_system_proxy_if_safe env t = (Done False, t))"
proof -
  let ?mc = "pe_machine env" and ?a = "''127.0.0.1:'' @ int_text p"
  obtain d where linux: "mc_os ?mc = ''linux''" "mc_desktop ?mc = Inr d" "js_includes d ''KDE''"
    using assms(2) by (auto simp: kde_settings_def)
  have kept: "mc_query ?mc (''kreadconfig5'' # kde_key k) (mc_run ?mc (''kwriteconfig5'' # kde_key k @ [v]) m) = Inr (v @ [newline])"
    and other: "k \<noteq> k' \<Longrightarrow> mc_query ?mc (''kreadconfig5'' # kde_key k) (mc_run ?mc (''kwriteconfig5'' # kde_key k' @ [v]) m)
      = mc_query ?mc (''kreadconfig5'' # kde_key k) m" for k k' v m
    using assms(2) by (auto simp: kde_settings_def)
  let ?m = "fold (mc_run ?mc) (kde_commands ?a True ProxySocks) (sp_os s)"
  have address: "unquoted ?a = ?a" "CHR '' '' \<notin> set ?a"
    using digits_text [of p] assms(4) unquoted_plain [OF plain_digits, of "int_text p"] plain_no_space [OF plain_digits, of "int_text p"]
    by (simp_all add: unquoted_def newline_def)
  have read: "get_system_proxy ?mc ?m = ''socks://'' @ ?a"
    using address unquoted_append [of "''socks://''" ?a]
    by (simp add: get_system_proxy_def linux kde_proxy_def kde_commands_def Let_def kept other colon_for_space_id)
      (simp add: unquoted_def newline_def colon_for_space_id starts_with_def)
  have set: "set_system_proxy_if_safe env s = (Done True, s\<lparr>sp_os := ?m, sp_managed := True, sp_proxy := True,
      sp_kind := PxManaged, sp_server := ''socks='' @ ?a\<rparr>)"
    using assms(1,3,5)
    by (simp add: set_system_proxy_if_safe_def set_system_proxy_internal_def Let_def put_system_proxy_def set_system_proxy_def linux)
  have foreign: "\<not> is_app_managed cc (''socks://'' @ ?a)" for cc
    by (simp add: is_app_managed_def app_proxy_servers_def)
  have again: "set_system_proxy_if_safe env t = (Done False, t)"
    if "sp_config t = sp_config s" "get_system_proxy ?mc (sp_os t) = ''socks://'' @ ?a" for t :: "'a proxy_state"
    using that foreign assms(1,3) by (simp add: set_system_proxy_if_safe_def set_system_proxy_internal_def Let_def current_proxy_def)
  obtain m where m: "m = ?m" by simp
  obtain t where t: "t = s\<lparr>sp_os := m, sp_managed := True, sp_proxy := True, sp_kind := PxManaged, sp_server := ''socks='' @ ?a\<rparr>"
    by simp
  have own: "get_system_proxy ?mc m = ''socks://'' @ ?a" using read m by simp
  moreover have "sp_os t = m" "sp_config t = sp_config s" "sp_managed t" by (simp_all add: t)
  ultimately have "current_proxy env t = ''socks://127.0.0.1:'' @ int_text p" "set_system_proxy_if_safe env t = (Done False, t)"
      "sp_kind (update_system_proxy_status env t) = PxExternal"
    using assms(1) foreign [of "sp_config s"] by (simp_all add: current_proxy_def again update_system_proxy_status_def Let_def)
  moreover have "set_system_proxy_if_safe env s = (Done True, t)" using set m t by simp
  ultimately show ?thesis using \<open>sp_managed t\<close> by simp
qed

subsection \<open>Properties: setting and restoring on GNOME\<close>

text \<open>What the client relies on: texts are printed in single quotes, numbers as they are, and nothing else changes.\<close>

definition gnome_settings :: "'os machine \<Rightarrow> bool" where
  "gnome_settings mc \<longleftrightarrow> mc_os mc = ''linux'' \<and> (\<exists>d. mc_desktop mc = Inr d \<and> js_includes d ''GNOME'' \<and> \<not> js_includes d ''KDE'')
     \<and> (\<forall>m s k v. mc_query mc [''gsettings'', ''get'', s, k] (mc_run mc [''gsettings'', ''set'', s, k, v] m)
          = Inr (if k = ''port'' then v @ [newline] else CHR 0x27 # v @ [CHR 0x27, newline]))
     \<and> (\<forall>m s k s' k' v. (s, k) \<noteq> (s', k') \<longrightarrow>
          mc_query mc [''gsettings'', ''get'', s, k] (mc_run mc [''gsettings'', ''set'', s', k', v] m)
            = mc_query mc [''gsettings'', ''get'', s, k] m)"

definition proxy_text :: "proxy_type \<Rightarrow> string \<Rightarrow> string \<Rightarrow> string" where
  "proxy_text ty h p = (if ty = ProxySocks then ''socks5://'' else ''http://'') @ h @ '':'' @ p"

definition real_address :: "string \<Rightarrow> string \<Rightarrow> bool" where
  "real_address h p \<longleftrightarrow> h \<noteq> '''' \<and> plain h \<and> p \<noteq> '''' \<and> p \<noteq> ''0'' \<and> list_all is_digit p"

lemma plain_no_colon: "plain s \<Longrightarrow> CHR '':'' \<notin> set s"
  by (induction s) (auto simp: plain_def)

lemma split_address:
  assumes "real_address h p"
  shows "server_name (h @ '':'' @ p) = h" "server_port (h @ '':'' @ p) = p"
  using assms plain_no_colon [of h] plain_no_colon [OF plain_digits, of p]
  by (simp_all add: real_address_def server_name_def server_port_def js_split_concat_sep js_split_no_occurrence)

lemma gnome_reads_back:
  assumes "gnome_settings mc" "real_address h p"
  shows "fst (set_system_proxy mc True (h @ '':'' @ p) ty m) = Done ()"
    "get_system_proxy mc (snd (set_system_proxy mc True (h @ '':'' @ p) ty m)) = proxy_text ty h p"
proof -
  obtain d where linux: "mc_os mc = ''linux''" "mc_desktop mc = Inr d" "\<not> js_includes d ''KDE''" "js_includes d ''GNOME''"
    using assms(1) by (auto simp: gnome_settings_def)
  have kept: "mc_query mc [''gsettings'', ''get'', s, k] (mc_run mc [''gsettings'', ''set'', s, k, v] m)
        = Inr (if k = ''port'' then v @ [newline] else CHR 0x27 # v @ [CHR 0x27, newline])"
    and other: "(s, k) \<noteq> (s', k') \<Longrightarrow> mc_query mc [''gsettings'', ''get'', s, k] (mc_run mc [''gsettings'', ''set'', s', k', v] m)
      = mc_query mc [''gsettings'', ''get'', s, k] m" for s k s' k' v m
    using assms(1) unfolding gnome_settings_def by blast+
  have parts: "unquoted h = h" "unquoted p = p" "h \<noteq> ''''" "p \<noteq> ''0''"
    using assms(2) by (simp_all add: real_address_def plain_digits)
  have quotes: "unquoted (CHR 0x27 # v @ [CHR 0x27, newline]) = unquoted v" "unquoted [newline] = ''''"
    "unquoted [CHR 0x27, CHR 0x27, newline] = ''''" "unquoted [CHR ''0'', newline] = ''0''" for v
    by (simp_all add: unquoted_def newline_def)
  have run: "set_system_proxy mc True (h @ '':'' @ p) ty m = (Done (), fold (mc_run mc) (gnome_commands (h @ '':'' @ p) True ty) m)"
    using linux by (simp add: set_system_proxy_def)
  have address: "server_name (h @ '':'' @ p) = h" "server_port (h @ '':'' @ p) = p" using split_address [OF assms(2)] by auto
  have mode: "js_includes (CHR 0x27 # ''manual'' @ [CHR 0x27, newline]) ''none'' = False"
    "js_includes (CHR 0x27 # ''manual'' @ [CHR 0x27, newline]) ''manual''"
    by code_simp+
  have schema: "gnome_schema s = gnome_schema s' \<longleftrightarrow> s = s'" for s s' by (simp add: gnome_schema_def)
  show "fst (set_system_proxy mc True (h @ '':'' @ p) ty m) = Done ()" by (simp only: run fst_conv)
  show "get_system_proxy mc (snd (set_system_proxy mc True (h @ '':'' @ p) ty m)) = proxy_text ty h p"
    unfolding run snd_conv get_system_proxy_def linux gnome_proxy_def gnome_address_def gnome_commands_def Let_def address
    using parts mode by (cases ty) (simp_all add: kept other schema quotes linux proxy_text_def or_else_def)
qed

lemma not_port_zero:
  assumes "0 < n"
  shows "\<not> ends_with (x @ CHR '':'' # int_text n) '':0''"
proof
  assume ends: "ends_with (x @ CHR '':'' # int_text n) '':0''"
  obtain c cs where t: "rev (int_text n) = c # cs" using assms by (cases "rev (int_text n)") (auto simp: int_text_def)
  have digits: "list_all is_digit (c # cs)" using digits_text [of n] assms unfolding t [symmetric] by simp
  have "c = CHR ''0'' \<and> take 1 (cs @ CHR '':'' # rev x) = [CHR '':'']"
    using ends by (simp add: ends_with_def starts_with_def t)
  then have "cs = []" "c = CHR ''0''" using digits by (cases cs; auto simp: is_digit_def)+
  then have "int_text n = ''0''" using t by (simp add: rev_swap)
  moreover have "digits_value (int_text n) = n" using assms by (simp add: int_text_def digits_value_nat_text)
  ultimately show False using assms by (simp add: digits_value_def digit_value_def)
qed

lemma own_proxy_is_known:
  assumes "get_proxy_port cc = Some (n, ty)" "0 < n"
  shows "is_app_managed cc (proxy_text ty ''127.0.0.1'' (int_text n))"
  using assms not_port_zero [OF assms(2), of "''http://127.0.0.1''"] not_port_zero [OF assms(2), of "''socks5://127.0.0.1''"]
  by (auto simp: get_proxy_port_def is_app_managed_def app_proxy_servers_def proxy_text_def split: if_splits)

lemma trim_same:
  assumes "s \<noteq> ''''" "\<not> js_ws (hd s)" "\<not> js_ws (last s)"
  shows "js_trim s = s"
proof -
  have "trim_left s = s" using assms by (cases s) (simp_all add: trim_left_def)
  moreover have "trim_left (rev s) = rev s" using assms by (cases s rule: rev_cases) (simp_all add: trim_left_def)
  ultimately show ?thesis by (simp add: js_trim_def)
qed

lemma parse_proxy_text:
  assumes "real_address h p"
  shows "js_trim (proxy_text ty h p) = proxy_text ty h p"
    "parse_saved_proxy (proxy_text ty h p) = Some (h @ '':'' @ p, if ty = ProxySocks then ProxySocks else ProxyHttp)"
proof -
  have "last p \<in> set p" "list_all is_digit p" "p \<noteq> ''''" using assms by (auto simp: real_address_def)
  then have "\<not> js_ws (last (proxy_text ty h p))" using digit_not_ws by (auto simp: proxy_text_def list_all_iff)
  then show trim: "js_trim (proxy_text ty h p) = proxy_text ty h p"
    by (intro trim_same) (simp_all add: proxy_text_def js_ws_def)
  show "parse_saved_proxy (proxy_text ty h p) = Some (h @ '':'' @ p, if ty = ProxySocks then ProxySocks else ProxyHttp)"
    unfolding parse_saved_proxy_def trim Let_def
    by (simp add: proxy_text_def starts_with_def without_scheme_def is_digit_def Let_def)
qed


subsection \<open>Concrete runs\<close>

text \<open>Two desktops whose tools write into a dictionary and print from it.\<close>

definition gnome_machine :: "(string list \<times> string) list machine" where
  "gnome_machine = \<lparr>mc_os = ''linux'', mc_desktop = Inr ''ubuntu:GNOME'',
     mc_run = (\<lambda>c m. AList.update (drop 2 (butlast c)) (last c) m),
     mc_query = (\<lambda>c m. let v = or_else (map_of m (drop 2 c)) ''''
       in Inr (if last c = ''port'' then v @ [newline] else CHR 0x27 # v @ [CHR 0x27, newline]))\<rparr>"

definition kde_machine :: "(string list \<times> string) list machine" where
  "kde_machine = \<lparr>mc_os = ''linux'', mc_desktop = Inr ''KDE'',
     mc_run = (\<lambda>c m. AList.update (drop 1 (butlast c)) (last c) m),
     mc_query = (\<lambda>c m. Inr (or_else (map_of m (drop 1 c)) '''' @ [newline]))\<rparr>"

lemma gnome_machine_settings: "gnome_settings gnome_machine"
proof -
  have "js_includes ''ubuntu:GNOME'' ''GNOME''" "\<not> js_includes ''ubuntu:GNOME'' ''KDE''" by code_simp+
  then show ?thesis by (auto simp: gnome_settings_def gnome_machine_def update_conv' or_else_def Let_def)
qed

lemma kde_machine_settings: "kde_settings kde_machine"
proof -
  have "js_includes ''KDE'' ''KDE''" by code_simp
  then show ?thesis by (auto simp: kde_settings_def kde_machine_def update_conv' or_else_def Let_def kde_key_def)
qed

definition proxy_start :: "core_config \<Rightarrow> bool \<Rightarrow> string \<Rightarrow> 'os \<Rightarrow> 'os proxy_state" where
  "proxy_start cc managed backup m = \<lparr>sp_os = m, sp_config = cc, sp_autoSet = False, sp_initialized = False, sp_backup = backup,
     sp_managed = managed, sp_proxy = False, sp_kind = PxDisabled, sp_server = '''', sp_toasts = []\<rparr>"

definition company_proxy :: "(string list \<times> string) list" where
  "company_proxy = snd (set_system_proxy gnome_machine True ''proxy.corp:3128'' ProxyHttp [])"

abbreviation gnome_env :: "(string list \<times> string) list proxy_env" where
  "gnome_env \<equiv> \<lparr>pe_machine = gnome_machine, pe_supported = True\<rparr>"

abbreviation kde_env :: "(string list \<times> string) list proxy_env" where
  "kde_env \<equiv> \<lparr>pe_machine = kde_machine, pe_supported = True\<rparr>"

abbreviation mixed_config :: core_config where
  "mixed_config \<equiv> initial_config\<lparr>cc_mixed_port := 20122\<rparr>"

lemma company_address: "real_address ''proxy.corp'' ''3128''"
  by code_simp

lemma company_current: "current_proxy gnome_env (proxy_start cc b k company_proxy) = ''http://proxy.corp:3128''"
  using gnome_reads_back(2) [OF gnome_machine_settings company_address, of ProxyHttp "[]"]
  by (simp add: current_proxy_def proxy_start_def company_proxy_def proxy_text_def)

lemma company_foreign: "\<not> is_app_managed cc ''http://proxy.corp:3128''"
  by (simp add: is_app_managed_def app_proxy_servers_def)

lemma external_proxy_is_left_alone_witness:
  "sp_os (fold (run_proxy_op gnome_env) [OpSetIfSafe, OpEnable True True True, OpPorts mixed_config, OpSetIfSafe, OpRestore True, OpAfterExit]
     (proxy_start initial_config False '''' company_proxy)) = company_proxy"
proof -
  let ?ops = "[OpSetIfSafe, OpEnable True True True, OpPorts mixed_config, OpSetIfSafe, OpRestore True, OpAfterExit]"
  let ?s = "proxy_start initial_config False '''' company_proxy"
  have "\<forall>cc. cc = sp_config ?s \<or> OpPorts cc \<in> set ?ops \<longrightarrow> \<not> is_app_managed cc (current_proxy gnome_env ?s)"
    unfolding company_current by (simp add: company_foreign)
  moreover have "current_proxy gnome_env ?s \<noteq> ''''" "\<not> sp_managed ?s" "sp_backup ?s = ''''"
    unfolding company_current by (simp_all add: proxy_start_def)
  ultimately have "sp_os (fold (run_proxy_op gnome_env) ?ops ?s) = sp_os ?s"
    using external_proxy_is_left_alone [of gnome_env ?s ?ops] by blast
  then show ?thesis by (simp add: proxy_start_def)
qed

text \<open>The core had set its own port before the crash, over the proxy of the company.\<close>

definition dead_proxy :: "(string list \<times> string) list" where
  "dead_proxy = snd (set_system_proxy gnome_machine True ''127.0.0.1:20122'' ProxyMixed [])"

lemma crash_is_not_repaired_at_start_witness:
  "current_proxy gnome_env (proxy_start initial_config True ''http://proxy.corp:3128'' dead_proxy) = ''http://127.0.0.1:20122''
   \<and> (let t = snd (restore_after_unexpected_exit gnome_env (proxy_start initial_config True ''http://proxy.corp:3128'' dead_proxy))
      in sp_os t = dead_proxy \<and> sp_backup t = '''')"
proof -
  let ?s = "proxy_start initial_config True ''http://proxy.corp:3128'' dead_proxy"
  have "real_address ''127.0.0.1'' ''20122''" by code_simp
  from gnome_reads_back(2) [OF gnome_machine_settings this, of ProxyMixed "[]"]
  have "current_proxy gnome_env ?s = ''http://127.0.0.1:20122''"
    by (simp add: current_proxy_def proxy_start_def dead_proxy_def proxy_text_def)
  moreover have "pe_supported gnome_env" "sp_managed ?s" "sp_config ?s = initial_config" by (simp_all add: proxy_start_def)
  ultimately show ?thesis using crash_is_not_repaired_at_start [of gnome_env ?s] by (simp add: Let_def) (simp add: proxy_start_def)
qed

lemma own_socks_proxy_is_foreign_on_kde_witness:
  "sp_kind (update_system_proxy_status kde_env (snd (set_system_proxy_if_safe kde_env
     (proxy_start (initial_config\<lparr>cc_socks_port := 20120\<rparr>) False '''' [])))) = PxExternal"
proof -
  let ?s = "proxy_start (initial_config\<lparr>cc_socks_port := 20120\<rparr>) False '''' [] :: (string list \<times> string) list proxy_state"
  have "get_proxy_port (sp_config ?s) = Some (20120, ProxySocks)"
    by (simp add: proxy_start_def get_proxy_port_def initial_config_def)
  moreover have "current_proxy kde_env ?s = ''''" by code_simp
  ultimately show ?thesis
    using own_socks_proxy_is_foreign_on_kde [of kde_env ?s 20120] kde_machine_settings by (simp add: Let_def)
qed


end
