(* ===== verification/NodeScores.thy ===== *)
theory NodeScores
  imports CloudNode "HOL-Library.Multiset"
begin

text \<open>
  \<open>utils/healthCheck.ts\<close> and \<open>utils/recommendation.ts\<close>: how healthy a node is, and which node and region to choose. Scores
  are rational numbers; a date that cannot be parsed is \<open>NaN\<close>, which is \<^const>\<open>None\<close> here, and every comparison
  with it is false.
\<close>

subsection \<open>Numbers and dates\<close>

text \<open>\<open>ve_date\<close> is \<open>new Date(text).getTime()\<close>; the others print a number, as it is and with one decimal.\<close>

record score_env =
  ve_now :: int
  ve_date :: "string \<Rightarrow> int option"
  ve_number :: "rat \<Rightarrow> string"
  ve_fixed :: "rat \<Rightarrow> string"

definition js_round :: "rat \<Rightarrow> int" where
  "js_round q = \<lfloor>q + 1 / 2\<rfloor>"

definition clamp_score :: "int \<Rightarrow> int" where
  "clamp_score n = max 0 (min 100 n)"

text \<open>The age in days, of a node that has a date.\<close>

definition age_days :: "score_env \<Rightarrow> string \<Rightarrow> rat option" where
  "age_days env created = map_option (\<lambda>t. of_int (ve_now env - t) / 86400000) (ve_date env created)"

definition age_holds :: "score_env \<Rightarrow> node \<Rightarrow> (rat \<Rightarrow> bool) \<Rightarrow> bool" where
  "age_holds env n p \<longleftrightarrow> truthy_s (cn_createdAt n)
     \<and> (case age_days env (the (cn_createdAt n)) of None \<Rightarrow> False | Some d \<Rightarrow> p d)"

subsection \<open>Health of a node\<close>

record health_metrics =
  hm_latency :: "rat option"
  hm_uptime :: "rat option"

record health_result =
  hr_nodeId :: string
  hr_healthy :: bool
  hr_score :: int
  hr_issues :: "string list"
  hr_recommendations :: "string list"
  hr_lastCheck :: int

text \<open>Each check adds issues and recommendations and takes points.\<close>

type_synonym check = "string list \<times> string list \<times> int"

definition passed :: check where
  "passed = ([], [], 0)"

definition check_connectivity :: "node \<Rightarrow> check" where
  "check_connectivity n =
     (if cn_connectivityStatus n = Some CsBlocked then
        ([''Node is completely blocked''], [''Consider rotating IP or deploying to different region''], 50)
      else if cn_connectivityStatus n = Some CsIcmpBlocked then ([''ICMP is blocked but ports are accessible''], [], 10)
      else if cn_connectivityStatus n = Some CsUnknown then
        ([''Connectivity status unknown''], [''Run connectivity test''], 20)
      else passed)"

definition check_latency :: "score_env \<Rightarrow> health_metrics option \<Rightarrow> check" where
  "check_latency env metrics = (case Option.bind metrics hm_latency of
      Some l \<Rightarrow>
        if l > 500 then ([''High latency: '' @ ve_number env l @ ''ms''], [''Consider deploying closer region''], 20)
        else if l > 200 then ([''Elevated latency: '' @ ve_number env l @ ''ms''], [], 10)
        else passed
    | _ \<Rightarrow> passed)"

definition has_some_protocol :: "node \<Rightarrow> bool" where
  "has_some_protocol n \<longleftrightarrow>
     truthy_n (cn_ssPort n) \<and> truthy_s (cn_ssPassword n)
     \<or> truthy_n (cn_hysteriaPort n) \<and> truthy_s (cn_hysteriaPassword n)
     \<or> truthy_n (cn_vlessPort n) \<and> truthy_s (cn_vlessUUID n)
     \<or> truthy_n (cn_trojanPort n) \<and> truthy_s (cn_trojanPassword n)"

definition check_protocols :: "node \<Rightarrow> check" where
  "check_protocols n = (if has_some_protocol n then passed else ([''No protocols configured''], [], 30))"

definition check_address :: "node \<Rightarrow> check" where
  "check_address n = (if \<not> truthy_s (cn_ipv4 n) \<and> \<not> truthy_s (cn_ipv6 n)
     then ([''No IP addresses available''], [], 40) else passed)"

definition check_age :: "score_env \<Rightarrow> node \<Rightarrow> check" where
  "check_age env n = (if age_holds env n (\<lambda>d. d > 90)
     then ([''Node is '' @ int_text (js_round (the (age_days env (the (cn_createdAt n))))) @ '' days old''],
           [''Consider rotating IP periodically''], 5)
     else passed)"

definition check_uptime :: "score_env \<Rightarrow> health_metrics option \<Rightarrow> check" where
  "check_uptime env metrics = (case Option.bind metrics hm_uptime of
      Some u \<Rightarrow>
        if u < 95 then ([''Low uptime: '' @ ve_fixed env u @ ''%''], [''Check node stability''], js_round ((100 - u) / 2))
        else passed
    | _ \<Rightarrow> passed)"

definition health_checks :: "score_env \<Rightarrow> node \<Rightarrow> health_metrics option \<Rightarrow> check list" where
  "health_checks env n metrics = [check_connectivity n, check_latency env metrics, check_protocols n, check_address n,
     check_age env n, check_uptime env metrics]"

definition check_node_health :: "score_env \<Rightarrow> node \<Rightarrow> health_metrics option \<Rightarrow> health_result" where
  "check_node_health env n metrics =
     (let cs = health_checks env n metrics; score = 100 - sum_list (map (snd \<circ> snd) cs)
      in \<lparr>hr_nodeId = cn_instanceId n, hr_healthy = score \<ge> 70, hr_score = clamp_score score,
          hr_issues = concat (map fst cs), hr_recommendations = concat (map (fst \<circ> snd) cs), hr_lastCheck = ve_now env\<rparr>)"

definition check_all_nodes_health :: "score_env \<Rightarrow> node list \<Rightarrow> health_result list" where
  "check_all_nodes_health env ns = map (\<lambda>n. check_node_health env n None) ns"

definition get_unhealthy_nodes :: "health_result list \<Rightarrow> health_result list" where
  "get_unhealthy_nodes rs = filter (\<lambda>r. \<not> hr_healthy r) rs"

record health_summary =
  hs_total :: nat
  hs_healthy :: nat
  hs_unhealthy :: nat
  hs_avgScore :: int
  hs_criticalIssues :: nat

definition get_health_summary :: "health_result list \<Rightarrow> health_summary" where
  "get_health_summary rs =
     (let total = length rs; healthy = length (filter hr_healthy rs)
      in \<lparr>hs_total = total, hs_healthy = healthy, hs_unhealthy = total - healthy,
          hs_avgScore = js_round (if total > 0 then of_int (sum_list (map hr_score rs)) / of_nat total else 0),
          hs_criticalIssues = length (filter (\<lambda>r. hr_score r < 50) rs)\<rparr>)"

definition get_remediation_actions :: "health_result \<Rightarrow> string list" where
  "get_remediation_actions r =
     (let has = (\<lambda>i. i \<in> set (hr_issues r))
      in (if has ''Node is completely blocked'' then [''Rotate IP address'', ''Deploy new node in different region''] else [])
         @ (if list_ex (\<lambda>i. js_includes i ''High latency'') (hr_issues r)
            then [''Test connectivity to verify latency'', ''Consider deploying to closer region''] else [])
         @ (if has ''No protocols configured'' then [''Configure at least one protocol''] else [])
         @ (if has ''Connectivity status unknown'' then [''Run connectivity test''] else []))"

subsection \<open>Recommendation of a node\<close>

record node_score =
  no_node :: node
  no_score :: "int option"
  no_reasons :: "string list"
  no_antiBlocking :: int

record criteria =
  cr_preferLowLatency :: bool
  cr_preferLowRisk :: bool
  cr_preferReachable :: bool
  cr_avoidBlocked :: bool
  cr_preferRecent :: bool

definition low_risk_regions :: "string list" where
  "low_risk_regions = [''bom'', ''sgp'', ''nrt'', ''icn'', ''tpe'', ''syd'']"

definition high_risk_regions :: "string list" where
  "high_risk_regions = [''ewr'', ''ord'', ''dfw'', ''mia'', ''atl'', ''yto'', ''cdg'']"

text \<open>Regions of medium risk score like those that are not in the table.\<close>

definition risk_score :: "string \<Rightarrow> rat" where
  "risk_score region = (if region \<in> set low_risk_regions then 100 else if region \<in> set high_risk_regions then 50 else 75)"

definition vless_complete :: "node \<Rightarrow> bool" where
  "vless_complete n \<longleftrightarrow> truthy_n (cn_vlessPort n) \<and> truthy_s (cn_vlessUUID n) \<and> truthy_s (cn_vlessPublicKey n)
     \<and> truthy_s (cn_vlessShortId n)"

definition hysteria_complete :: "node \<Rightarrow> bool" where
  "hysteria_complete n \<longleftrightarrow> truthy_n (cn_hysteriaPort n) \<and> truthy_s (cn_hysteriaPassword n)"

definition count_protocols :: "node \<Rightarrow> nat" where
  "count_protocols n = length (filter id
     [truthy_n (cn_ssPort n) \<and> truthy_s (cn_ssPassword n), hysteria_complete n, vless_complete n,
      truthy_n (cn_trojanPort n) \<and> truthy_s (cn_trojanPassword n)])"

text \<open>The score of the last connectivity test; the first argument is the score of a node that was not tested.\<close>

definition status_score :: "rat \<Rightarrow> conn_status option \<Rightarrow> rat" where
  "status_score untested st =
     (if st = Some CsReachable then 100 else if st = Some CsIcmpBlocked then 75 else if st = Some CsBlocked then 0 else untested)"

definition anti_blocking_score :: "score_env \<Rightarrow> node \<Rightarrow> int" where
  "anti_blocking_score env n =
     clamp_score (js_round
       (risk_score (opt_or (cn_region n) '''') * (35 / 100)
        + min 100 (of_nat (count_protocols n) * 25) * (30 / 100)
        + min 100 ((if hysteria_complete n then 20 else 0) + (if vless_complete n then 15 else 0)) * (20 / 100)
        + status_score 40 (cn_connectivityStatus n) * (15 / 100)
        + (if age_holds env n (\<lambda>d. d \<ge> 2 \<and> d \<le> 45) then 6
           else if age_holds env n (\<lambda>d. d > 120) then - 6 else 0)))"

definition anti_blocking_reasons :: "score_env \<Rightarrow> node \<Rightarrow> string list" where
  "anti_blocking_reasons env n =
     (if count_protocols n \<ge> 3 then [''Protocol diversity is strong'']
      else if count_protocols n \<le> 1 then [''Protocol diversity is weak''] else [])
     @ (if hysteria_complete n then [''Hysteria2 (UDP/QUIC) available''] else [])
     @ (if vless_complete n then [''VLESS-Reality available''] else [])
     @ (case cn_connectivityStatus n of
          Some CsReachable \<Rightarrow> [''Latest connectivity test is reachable'']
        | Some CsIcmpBlocked \<Rightarrow> [''Ports reachable even when ICMP is blocked'']
        | Some CsBlocked \<Rightarrow> [''Latest connectivity test is blocked'']
        | _ \<Rightarrow> [])
     @ (if age_holds env n (\<lambda>d. d \<ge> 2 \<and> d \<le> 45) then [''Node age is in stable window'']
        else if age_holds env n (\<lambda>d. d > 120) then [''Node is relatively old''] else [])"

definition known_latency :: "rat dict \<Rightarrow> string \<Rightarrow> rat" where
  "known_latency latencies region = (case map_of latencies region of
      None \<Rightarrow> 9999 | Some l \<Rightarrow> if l = 0 then 9999 else l)"

definition latency_score :: "rat \<Rightarrow> rat" where
  "latency_score l = max 0 (100 - l * (3 / 10))"

definition latency_reason :: "rat \<Rightarrow> string list" where
  "latency_reason l =
     (if l < 50 then [''Excellent latency (<50ms)''] else if l < 100 then [''Good latency (<100ms)'']
      else if l < 200 then [''Acceptable latency (<200ms)''] else [])"

text \<open>The weights of latency, risk, connectivity and recency, which sum up to 1.\<close>

definition raw_weights :: "criteria \<Rightarrow> rat \<times> rat \<times> rat \<times> rat" where
  "raw_weights c =
     (if cr_preferLowLatency c then 28 / 100 else 20 / 100, if cr_preferLowRisk c then 42 / 100 else 35 / 100,
      if cr_preferReachable c then 20 / 100 else 15 / 100, if cr_preferRecent c then 10 / 100 else 5 / 100)"

definition weights :: "criteria \<Rightarrow> rat \<times> rat \<times> rat \<times> rat" where
  "weights c = (case raw_weights c of (a, b, d, e) \<Rightarrow>
     let total = a + b + d + e in (a / total, b / total, d / total, e / total))"

definition recency_score :: "score_env \<Rightarrow> node \<Rightarrow> rat option" where
  "recency_score env n =
     (if truthy_s (cn_createdAt n) then map_option (\<lambda>d. max 0 (100 - d * 10)) (age_days env (the (cn_createdAt n))) else Some 0)"

definition calculate_node_score :: "score_env \<Rightarrow> criteria \<Rightarrow> rat dict \<Rightarrow> node \<Rightarrow> node_score" where
  "calculate_node_score env c latencies n = (case weights c of (wl, wa, wc, wr) \<Rightarrow>
     let latency = known_latency latencies (opt_or (cn_region n) '''');
         anti = anti_blocking_score env n; st = cn_connectivityStatus n;
         avoided = (st = Some CsBlocked \<and> cr_avoidBlocked c);
         first = (latency_score latency * wl + of_int anti * wa) * (if avoided then 1 / 10 else 1);
         reasons = latency_reason latency @ take 3 (anti_blocking_reasons env n)
           @ (case st of Some CsReachable \<Rightarrow> [''Currently reachable''] | Some CsIcmpBlocked \<Rightarrow> [''ICMP blocked but ports open'']
               | Some CsBlocked \<Rightarrow> [''Currently blocked''] | _ \<Rightarrow> [])
           @ (if avoided then [''Blocked nodes avoided''] else [])
           @ (if age_holds env n (\<lambda>d. d < 1) then [''Recently created''] else [])
     in \<lparr>no_node = n,
         no_score = map_option (\<lambda>r. js_round (first + status_score 50 st * wc + r * wr)) (recency_score env n),
         no_reasons = reasons, no_antiBlocking = anti\<rparr>)"

text \<open>\<open>sort\<close> is stable. Its order is up to the browser when the comparison of two scores is \<open>NaN\<close>.\<close>

definition get_recommended_nodes :: "score_env \<Rightarrow> criteria \<Rightarrow> rat dict \<Rightarrow> node list \<Rightarrow> node_score list option" where
  "get_recommended_nodes env c latencies ns =
     (let scored = map (calculate_node_score env c latencies) ns
      in if list_ex (\<lambda>s. no_score s = None) scored \<and> length ns \<ge> 2 then None
         else Some (sort_key (\<lambda>s. - the (no_score s)) scored))"

definition get_best_node :: "score_env \<Rightarrow> criteria \<Rightarrow> rat dict \<Rightarrow> node list \<Rightarrow> node_score option option" where
  "get_best_node env c latencies ns =
     map_option (\<lambda>r. case r of [] \<Rightarrow> None | s # _ \<Rightarrow> Some s) (get_recommended_nodes env c latencies ns)"

definition region_score :: "rat dict \<Rightarrow> string \<Rightarrow> rat" where
  "region_score latencies region =
     risk_score region * (60 / 100) + latency_score (known_latency latencies region) * (40 / 100)"

text \<open>The first region with the highest score.\<close>

fun best_region :: "rat dict \<Rightarrow> string list \<Rightarrow> string option \<Rightarrow> rat \<Rightarrow> string option" where
  "best_region latencies [] best high = best"
| "best_region latencies (r # rs) best high =
     (if region_score latencies r > high then best_region latencies rs (Some r) (region_score latencies r)
      else best_region latencies rs best high)"

definition get_recommended_region :: "string list \<Rightarrow> rat dict \<Rightarrow> string option" where
  "get_recommended_region regions latencies = best_region latencies regions None (- 1)"

end
