(* ===== verification/ScoreLaws.thy ===== *)
theory ScoreLaws
  imports NodeScores
begin

text \<open>
  What the health check, the ranking of nodes and the choice of a region guarantee.
\<close>

subsection \<open>Numbers\<close>

lemma js_round_mono: "p \<le> q \<Longrightarrow> js_round p \<le> js_round q"
  by (simp add: js_round_def floor_mono)

lemma js_round_less: "p + 1 \<le> q \<Longrightarrow> js_round p < js_round q"
  by (simp add: js_round_def) linarith

lemma js_round_int: "js_round (of_int n) = n"
  by (simp add: js_round_def) linarith

lemma clamp_range [simp]: "0 \<le> clamp_score n" "clamp_score n \<le> 100"
  by (simp_all add: clamp_score_def)

subsection \<open>Properties: health\<close>

lemma penalty_signs:
  "0 \<le> snd (snd (check_connectivity n))" "0 \<le> snd (snd (check_latency env metrics))" "0 \<le> snd (snd (check_protocols n))"
  "0 \<le> snd (snd (check_address n))" "0 \<le> snd (snd (check_age env n))"
  by (simp_all add: check_connectivity_def check_latency_def check_protocols_def check_address_def check_age_def passed_def
      split: option.split)

lemma uptime_penalty: "0 \<le> snd (snd (check_uptime env metrics))"
proof -
  have "0 \<le> js_round ((100 - u) / 2)" if "u < 95" for u
    using that js_round_mono [of "of_int 0" "(100 - u) / 2"] js_round_int [of 0] by simp
  then show ?thesis by (simp add: check_uptime_def passed_def split: option.split)
qed

lemma score_below:
  assumes "c \<in> set (health_checks env n metrics)"
  shows "100 - sum_list (map (snd \<circ> snd) (health_checks env n metrics)) \<le> 100 - snd (snd c)"
  using assms penalty_signs(1,3,4) [of n] penalty_signs(2) [of env metrics] penalty_signs(5) [of env n] uptime_penalty [of env metrics]
  unfolding health_checks_def by auto

lemma healthy_from_70:
  "hr_healthy (check_node_health env n metrics) = (70 \<le> hr_score (check_node_health env n metrics))"
  by (simp add: check_node_health_def Let_def clamp_score_def) linarith

text \<open>
  C33. The score of a node and its verdict agree. The score is between 0 and 100, a node counts as healthy exactly from 70 on, whatever
  the measurements say, and a node that is blocked, or that has no address, is never healthy.
\<close>

theorem health_score_bounds:
  "0 \<le> hr_score (check_node_health env n metrics) \<and> hr_score (check_node_health env n metrics) \<le> 100
   \<and> hr_healthy (check_node_health env n metrics) = (70 \<le> hr_score (check_node_health env n metrics))
   \<and> (cn_connectivityStatus n = Some CsBlocked \<or> \<not> truthy_s (cn_ipv4 n) \<and> \<not> truthy_s (cn_ipv6 n)
      \<longrightarrow> \<not> hr_healthy (check_node_health env n metrics))"
proof -
  let ?s = "100 - sum_list (map (snd \<circ> snd) (health_checks env n metrics))"
  have "?s \<le> 100 - snd (snd (check_connectivity n))" "?s \<le> 100 - snd (snd (check_address n))"
    by (rule score_below; simp add: health_checks_def)+
  then have "?s < 70" if "cn_connectivityStatus n = Some CsBlocked \<or> \<not> truthy_s (cn_ipv4 n) \<and> \<not> truthy_s (cn_ipv6 n)"
    using that by (auto simp: check_connectivity_def check_address_def)
  then have "cn_connectivityStatus n = Some CsBlocked \<or> \<not> truthy_s (cn_ipv4 n) \<and> \<not> truthy_s (cn_ipv6 n)
      \<longrightarrow> \<not> hr_healthy (check_node_health env n metrics)"
    by (force simp: check_node_health_def Let_def)
  moreover have "0 \<le> hr_score (check_node_health env n metrics)" "hr_score (check_node_health env n metrics) \<le> 100"
    by (simp_all add: check_node_health_def Let_def)
  ultimately show ?thesis using healthy_from_70 by blast
qed

text \<open>The nodes of a summary are healthy or unhealthy, and those with critical issues are unhealthy.\<close>

lemma summary_counts:
  "hs_healthy (get_health_summary (check_all_nodes_health env ns)) + hs_unhealthy (get_health_summary (check_all_nodes_health env ns))
     = length ns
   \<and> hs_criticalIssues (get_health_summary (check_all_nodes_health env ns))
     \<le> hs_unhealthy (get_health_summary (check_all_nodes_health env ns))"
proof -
  let ?rs = "check_all_nodes_health env ns"
  have "length (filter hr_healthy ?rs) + length (filter (\<lambda>r. \<not> hr_healthy r) ?rs) = length ns"
    using sum_length_filter_compl [of hr_healthy ?rs] by (simp add: check_all_nodes_health_def)
  moreover have "filter (\<lambda>r. hr_score r < 50) ?rs = filter (\<lambda>r. hr_score r < 50) (filter (\<lambda>r. \<not> hr_healthy r) ?rs)"
    by (auto simp: check_all_nodes_health_def healthy_from_70 intro!: filter_cong)
  moreover have "length (filter (\<lambda>r. hr_score r < 50) (filter (\<lambda>r. \<not> hr_healthy r) ?rs)) \<le> length (filter (\<lambda>r. \<not> hr_healthy r) ?rs)"
    by (rule length_filter_le)
  ultimately show ?thesis by (simp add: get_health_summary_def Let_def check_all_nodes_health_def)
qed

subsection \<open>Properties: ranking\<close>

definition dates_past :: "score_env \<Rightarrow> node list \<Rightarrow> bool" where
  "dates_past env ns \<longleftrightarrow> (\<forall>n \<in> set ns. \<forall>t. truthy_s (cn_createdAt n) \<longrightarrow> ve_date env (the (cn_createdAt n)) = Some t \<longrightarrow> t \<le> ve_now env)"

definition latencies_ok :: "rat dict \<Rightarrow> bool" where
  "latencies_ok latencies \<longleftrightarrow> (\<forall>x \<in> set latencies. 0 \<le> snd x)"

lemma weight_facts:
  assumes "weights c = (wl, wa, wc, wr)"
  shows "0 \<le> wl" "0 \<le> wa" "0 \<le> wc" "0 \<le> wr" "wl + wa + wc + wr = 1" "10 * wl + 10 * wa + 100 * wr + 1 \<le> 23 * wa + 75 * wc"
  using assms
  by (cases "cr_preferLowLatency c"; cases "cr_preferLowRisk c"; cases "cr_preferReachable c"; cases "cr_preferRecent c";
      auto simp: weights_def raw_weights_def Let_def)+

lemma latency_range:
  assumes "latencies_ok latencies"
  shows "0 \<le> latency_score (known_latency latencies r)" "latency_score (known_latency latencies r) \<le> 100"
proof -
  have "0 \<le> known_latency latencies r"
    using assms by (auto simp: known_latency_def latencies_ok_def split: option.split dest!: map_of_SomeD)
  then show "0 \<le> latency_score (known_latency latencies r)" "latency_score (known_latency latencies r) \<le> 100"
    by (simp_all add: latency_score_def)
qed

lemma recency_range:
  assumes "recency_score env n = Some r" "dates_past env ns" "n \<in> set ns"
  shows "0 \<le> r" "r \<le> 100"
  using assms by (auto simp: recency_score_def age_days_def dates_past_def split: if_splits)

lemma status_range: "0 \<le> u \<Longrightarrow> u \<le> 100 \<Longrightarrow> 0 \<le> status_score u st \<and> status_score u st \<le> 100"
  by (simp add: status_score_def)

lemma anti_range [simp]: "0 \<le> anti_blocking_score env n" "anti_blocking_score env n \<le> 100"
  by (simp_all add: anti_blocking_score_def)

lemma anti_of_usable:
  assumes "cn_connectivityStatus n \<in> {Some CsReachable, Some CsIcmpBlocked}"
  shows "23 \<le> anti_blocking_score env n"
proof -
  define age where "age = (if age_holds env n (\<lambda>d. d \<ge> 2 \<and> d \<le> 45) then 6 else if age_holds env n (\<lambda>d. d > 120) then - 6 else (0 :: rat))"
  define bonus where "bonus = min 100 ((if hysteria_complete n then 20 else 0) + (if vless_complete n then 15 else (0 :: rat)))"
  define protocols where "protocols = min 100 (of_nat (count_protocols n) * (25 :: rat))"
  have parts: "- 6 \<le> age" "0 \<le> bonus" "0 \<le> protocols" "50 \<le> risk_score r" "75 \<le> status_score 40 (cn_connectivityStatus n)" for r
    using assms by (auto simp: age_def bonus_def protocols_def risk_score_def status_score_def)
  have "22 + 3 / 4 \<le> risk_score (opt_or (cn_region n) '''') * (35 / 100) + protocols * (30 / 100) + bonus * (20 / 100)
      + status_score 40 (cn_connectivityStatus n) * (15 / 100) + age" (is "_ \<le> ?q")
    using parts(1-3) parts(4) [of "opt_or (cn_region n) ''''"] parts(5) by linarith
  then have "23 \<le> js_round ?q" using js_round_mono [of "22 + 3 / 4" ?q] by (simp add: js_round_def)
  then show ?thesis by (simp add: anti_blocking_score_def age_def bonus_def protocols_def clamp_score_def)
qed

lemma node_score_value:
  assumes "weights c = (wl, wa, wc, wr)"
  shows "no_score (calculate_node_score env c latencies n) = map_option (\<lambda>r. js_round
    ((latency_score (known_latency latencies (opt_or (cn_region n) '''')) * wl + of_int (anti_blocking_score env n) * wa)
       * (if cn_connectivityStatus n = Some CsBlocked \<and> cr_avoidBlocked c then 1 / 10 else 1)
     + status_score 50 (cn_connectivityStatus n) * wc + r * wr)) (recency_score env n)"
    "no_node (calculate_node_score env c latencies n) = n"
  by (simp_all add: calculate_node_score_def assms Let_def)

lemma weighted:
  fixes x w :: rat
  assumes "0 \<le> x" "x \<le> 100" "0 \<le> w"
  shows "0 \<le> x * w" "x * w \<le> 100 * w"
  using assms by (simp_all add: mult_right_mono)

lemma anti_weighted: "0 \<le> w \<Longrightarrow> 0 \<le> of_int (anti_blocking_score env n) * w \<and> of_int (anti_blocking_score env n) * w \<le> 100 * w"
  for w :: rat
  using weighted [of "of_int (anti_blocking_score env n)" w] by simp

text \<open>
  Scores of nodes are percentages. When no node was created in the future and no latency is negative, the score of every node whose
  date can be read is between 0 and 100, whatever is preferred, and so is its score against blocking.
\<close>

theorem node_scores_are_percentages:
  assumes "dates_past env [n]" and "latencies_ok latencies"
    and "no_score (calculate_node_score env c latencies n) = Some k"
  shows "0 \<le> k \<and> k \<le> 100 \<and> no_antiBlocking (calculate_node_score env c latencies n) \<in> {0..100}"
proof -
  obtain wl wa wc wr where w: "weights c = (wl, wa, wc, wr)" by (cases "weights c")
  obtain r where r: "recency_score env n = Some r" using assms(3) by (auto simp: node_score_value(1) [OF w])
  let ?l = "latency_score (known_latency latencies (opt_or (cn_region n) ''''))" and ?a = "of_int (anti_blocking_score env n) :: rat"
  let ?f = "if cn_connectivityStatus n = Some CsBlocked \<and> cr_avoidBlocked c then 1 / 10 else (1 :: rat)"
  let ?q = "(?l * wl + ?a * wa) * ?f + status_score 50 (cn_connectivityStatus n) * wc + r * wr"
  have k: "k = js_round ?q" using assms(3) by (simp add: node_score_value(1) [OF w] r)
  have first: "0 \<le> ?l * wl + ?a * wa" "?l * wl + ?a * wa \<le> 100 * wl + 100 * wa"
    using weighted [OF latency_range [OF assms(2)] weight_facts(1) [OF w], of "opt_or (cn_region n) ''''"]
      anti_weighted [OF weight_facts(2) [OF w], of env n] by auto
  have "status_score 50 (cn_connectivityStatus n) * wc \<in> {0..100 * wc}" "r * wr \<in> {0..100 * wr}"
    using weighted [OF _ _ weight_facts(3) [OF w]] status_range [of 50 "cn_connectivityStatus n"]
      weighted [OF recency_range [OF r assms(1)] weight_facts(4) [OF w]] by simp_all
  moreover have "100 * wl + 100 * wa + 100 * wc + 100 * wr = 100" using weight_facts(5) [OF w] by linarith
  moreover have "0 \<le> (?l * wl + ?a * wa) * ?f" "(?l * wl + ?a * wa) * ?f \<le> 100 * wl + 100 * wa"
    using first by auto
  ultimately have "0 \<le> ?q" "?q \<le> 100" by auto
  then have "0 \<le> k" "k \<le> 100"
    using js_round_mono [of "of_int 0" ?q] js_round_mono [of ?q "of_int 100"] by (simp_all add: k js_round_int del: of_int_0 of_int_numeral)
  then show ?thesis by (simp add: calculate_node_score_def w Let_def)
qed

lemma sorted_rank: "sorted (map (\<lambda>s. - the (no_score s)) rs) \<Longrightarrow> i < j \<Longrightarrow> j < length rs
    \<Longrightarrow> the (no_score (rs ! j)) \<le> the (no_score (rs ! i))"
  using sorted_nth_mono [of "map (\<lambda>s. - the (no_score s)) rs" i j] by simp

lemma recommended_shape:
  assumes "get_recommended_nodes env c latencies ns = Some rs"
  shows "mset rs = mset (map (calculate_node_score env c latencies) ns)" "sorted (map (\<lambda>s. - the (no_score s)) rs)"
    "2 \<le> length ns \<Longrightarrow> \<forall>s \<in> set rs. no_score s \<noteq> None"
proof -
  have rs: "rs = sort_key (\<lambda>s. - the (no_score s)) (map (calculate_node_score env c latencies) ns)"
    using assms by (simp add: get_recommended_nodes_def Let_def split: if_splits)
  then show "mset rs = mset (map (calculate_node_score env c latencies) ns)" "sorted (map (\<lambda>s. - the (no_score s)) rs)" by simp_all
  show "2 \<le> length ns \<Longrightarrow> \<forall>s \<in> set rs. no_score s \<noteq> None"
    using assms by (auto simp: rs get_recommended_nodes_def Let_def list_ex_iff split: if_splits)
qed

lemma nodes_of_scores: "map no_node (map (calculate_node_score env c latencies) ns) = ns"
  by (cases "weights c") (simp add: node_score_value(2) o_def cong: map_cong)

text \<open>
  The ranking is a ranking. When every date can be read, the recommended nodes are exactly the given ones, each as often as
  it was given, in the order of falling scores, and the best node is one that no other surpasses.
\<close>

theorem recommendation_is_a_ranking:
  assumes "\<forall>n \<in> set ns. recency_score env n \<noteq> None"
  shows "\<exists>rs. get_recommended_nodes env c latencies ns = Some rs \<and> mset (map no_node rs) = mset ns
    \<and> (\<forall>i j. i < j \<and> j < length rs \<longrightarrow> the (no_score (rs ! j)) \<le> the (no_score (rs ! i)))
    \<and> get_best_node env c latencies ns = Some (if ns = [] then None else Some (hd rs))
    \<and> (\<forall>s \<in> set rs. the (no_score s) \<le> the (no_score (hd rs)))"
proof -
  obtain wl wa wc wr where w: "weights c = (wl, wa, wc, wr)" by (cases "weights c")
  have "\<not> list_ex (\<lambda>s. no_score s = None) (map (calculate_node_score env c latencies) ns)"
    using assms by (auto simp: list_ex_iff node_score_value(1) [OF w])
  then obtain rs where rs: "get_recommended_nodes env c latencies ns = Some rs" by (simp add: get_recommended_nodes_def)
  note shape = recommended_shape [OF this]
  have "mset (map no_node rs) = mset (map no_node (map (calculate_node_score env c latencies) ns))"
    using shape(1) by (metis mset_map)
  then have perm: "mset (map no_node rs) = mset ns" by (simp only: nodes_of_scores)
  have order: "i < j \<Longrightarrow> j < length rs \<Longrightarrow> the (no_score (rs ! j)) \<le> the (no_score (rs ! i))" for i j
    using sorted_rank [OF shape(2)] by blast
  have "the (no_score s) \<le> the (no_score (hd rs))" if "s \<in> set rs" for s
    using that shape(2) by (cases rs) auto
  moreover have "get_best_node env c latencies ns = Some (if ns = [] then None else Some (hd rs))"
    using perm rs by (cases rs) (auto simp: get_best_node_def)
  ultimately show ?thesis using rs perm order by blast
qed

text \<open>
  C32. Blocked nodes come last. When blocked nodes are to be avoided, no preference, no latency and no date puts a blocked
  node before one that the last test reached, even if only its ports were reached.
\<close>

theorem avoided_nodes_come_last:
  assumes "cr_avoidBlocked c" and "dates_past env ns" and "latencies_ok latencies"
    and "get_recommended_nodes env c latencies ns = Some rs" and "i < j" and "j < length rs"
    and "cn_connectivityStatus (no_node (rs ! j)) \<in> {Some CsReachable, Some CsIcmpBlocked}"
  shows "cn_connectivityStatus (no_node (rs ! i)) \<noteq> Some CsBlocked"
proof
  assume blocked: "cn_connectivityStatus (no_node (rs ! i)) = Some CsBlocked"
  obtain wl wa wc wr where w: "weights c = (wl, wa, wc, wr)" by (cases "weights c")
  note shape = recommended_shape [OF assms(4)]
  have "length rs = length ns" using arg_cong [OF shape(1), of size] by simp
  then have defined: "\<forall>s \<in> set rs. no_score s \<noteq> None" using shape(3) assms(5,6) by simp
  have member: "\<exists>n \<in> set ns. rs ! k = calculate_node_score env c latencies n" if "k < length rs" for k
    using arg_cong [OF shape(1), of set_mset] nth_mem [OF that] by auto
  obtain b where b: "b \<in> set ns" "rs ! i = calculate_node_score env c latencies b" using member [of i] assms(5,6) by auto
  obtain u where u: "u \<in> set ns" "rs ! j = calculate_node_score env c latencies u" using member [of j] assms(6) by auto
  have status: "cn_connectivityStatus b = Some CsBlocked" "cn_connectivityStatus u \<in> {Some CsReachable, Some CsIcmpBlocked}"
    using blocked assms(7) by (simp_all add: b(2) u(2) node_score_value(2) [OF w])
  have "no_score (rs ! i) \<noteq> None" "no_score (rs ! j) \<noteq> None" using defined assms(5,6) by simp_all
  then obtain rb ru where r: "recency_score env b = Some rb" "recency_score env u = Some ru"
    by (auto simp: b(2) u(2) node_score_value(1) [OF w])
  let ?l = "\<lambda>n. latency_score (known_latency latencies (opt_or (cn_region n) ''''))" and ?a = "\<lambda>n. of_int (anti_blocking_score env n) :: rat"
  let ?qb = "(?l b * wl + ?a b * wa) * (1 / 10) + 0 * wc + rb * wr" and ?qu = "(?l u * wl + ?a u * wa) + status_score 50 (cn_connectivityStatus u) * wc + ru * wr"
  note lw = weighted [OF latency_range [OF assms(3)] weight_facts(1) [OF w]] and aw = anti_weighted [OF weight_facts(2) [OF w]]
  have tenth: "x \<le> 100 * wl \<Longrightarrow> y \<le> 100 * wa \<Longrightarrow> z \<le> 100 * wr \<Longrightarrow> (x + y) * (1 / 10) + 0 * wc + z \<le> 10 * wl + 10 * wa + 100 * wr" for x y z
    by (simp add: field_simps)
  have "?qb \<le> 10 * wl + 10 * wa + 100 * wr"
    by (rule tenth [OF lw(2) conjunct2 [OF aw] weighted(2) [OF recency_range [OF r(1) assms(2) b(1)] weight_facts(4) [OF w]]])
  moreover have "23 * wa \<le> ?a u * wa"
    using anti_of_usable [OF status(2), of env] weight_facts(2) [OF w] by (intro mult_right_mono) simp_all
  moreover have "75 * wc \<le> status_score 50 (cn_connectivityStatus u) * wc"
    using status(2) weight_facts(3) [OF w] by (intro mult_right_mono) (auto simp: status_score_def)
  ultimately have "?qb + 1 \<le> ?qu"
    using weight_facts(6) [OF w] lw(1) [of "opt_or (cn_region u) ''''"]
      weighted(1) [OF recency_range [OF r(2) assms(2) u(1)] weight_facts(4) [OF w]] by linarith
  then have "js_round ?qb < js_round ?qu" by (rule js_round_less)
  moreover have "no_score (rs ! i) = Some (js_round ?qb)" "no_score (rs ! j) = Some (js_round ?qu)"
    using status assms(1) by (auto simp: b(2) u(2) node_score_value(1) [OF w] r status_score_def)
  ultimately show False using sorted_rank [OF shape(2) assms(5,6)] by simp
qed

subsection \<open>Properties: the choice of a region\<close>

lemma find_cong_on: "(\<And>x. x \<in> set xs \<Longrightarrow> p x = q x) \<Longrightarrow> List.find p xs = List.find q xs"
  by (induction xs) auto

lemma greatest_member:
  fixes f :: "'a \<Rightarrow> 'b :: linorder"
  assumes "xs \<noteq> []"
  shows "\<exists>m \<in> set xs. \<forall>x \<in> set xs. f x \<le> f m"
proof -
  have "Max (f ` set xs) \<in> f ` set xs" using assms by (intro Max_in) simp_all
  then obtain m where "m \<in> set xs" "Max (f ` set xs) = f m" by blast
  moreover have "f x \<le> Max (f ` set xs)" if "x \<in> set xs" for x using that by (intro Max_ge) simp_all
  ultimately show ?thesis by auto
qed

lemma best_region_find:
  "best_region latencies rs best high =
     (case List.find (\<lambda>r. high < region_score latencies r \<and> (\<forall>r' \<in> set rs. region_score latencies r' \<le> region_score latencies r)) rs of
        None \<Rightarrow> best | Some r \<Rightarrow> Some r)"
proof (induction rs arbitrary: best high)
  case Nil
  then show ?case by simp
next
  case (Cons r rs)
  let ?s = "region_score latencies"
  let ?top = "\<lambda>h x. h < ?s x \<and> (\<forall>r' \<in> set rs. ?s r' \<le> ?s x)" and ?all = "\<lambda>x. high < ?s x \<and> (\<forall>r' \<in> set (r # rs). ?s r' \<le> ?s x)"
  consider (low) "\<not> high < ?s r" | (first) "high < ?s r" "\<forall>r' \<in> set rs. ?s r' \<le> ?s r" | (later) "high < ?s r" "\<exists>r' \<in> set rs. ?s r < ?s r'"
    by force
  then show ?case
  proof cases
    case low
    then have "List.find (?top high) rs = List.find ?all rs" by (intro find_cong_on) auto
    with low show ?thesis using Cons.IH [of best high] by simp
  next
    case first
    then have "List.find (?top (?s r)) rs = None" by (auto simp: find_None_iff)
    with first show ?thesis using Cons.IH [of "Some r" "?s r"] by simp
  next
    case later
    then have "List.find (?top (?s r)) rs = List.find ?all rs" by (intro find_cong_on) force
    moreover obtain x where "List.find (?top (?s r)) rs = Some x"
    proof -
      obtain m where "m \<in> set rs" "\<forall>r' \<in> set rs. ?s r' \<le> ?s m"
        using later(2) greatest_member [of rs ?s] by (cases rs) auto
      with later(2) have "?top (?s r) m" by force
      then show ?thesis using that \<open>m \<in> set rs\<close> by (cases "List.find (?top (?s r)) rs") (auto simp: find_None_iff)
    qed
    ultimately have found: "List.find (?top (?s r)) rs = Some x" "List.find ?all rs = Some x" by simp_all
    have "best_region latencies (r # rs) best high = Some x" using later(1) Cons.IH [of "Some r" "?s r"] found(1) by simp
    moreover have "\<not> ?all r" using later(2) by (auto simp: not_le)
    then have "List.find ?all (r # rs) = Some x" using found(2) by (simp only: List.find.simps if_False)
    ultimately show ?thesis by (simp only: option.case)
  qed
qed

text \<open>
  C34. The region that is recommended. The loop over the regions computes what it is meant to: the first region whose score
  no other region exceeds, and nothing only when there is no region.
\<close>

theorem recommended_region_is_the_first_best:
  "get_recommended_region regions latencies =
     List.find (\<lambda>r. list_all (\<lambda>r'. region_score latencies r' \<le> region_score latencies r) regions) regions
   \<and> (get_recommended_region regions latencies = None \<longleftrightarrow> regions = [])"
proof -
  let ?s = "region_score latencies"
  have positive: "- 1 < ?s r" for r
  proof -
    have "0 < risk_score r" "0 \<le> latency_score (known_latency latencies r)"
      by (simp_all add: risk_score_def latency_score_def)
    then show ?thesis by (simp add: region_score_def)
  qed
  then have found: "get_recommended_region regions latencies = List.find (\<lambda>r. \<forall>r' \<in> set regions. ?s r' \<le> ?s r) regions"
    by (simp add: get_recommended_region_def best_region_find split: option.split)
  have "\<exists>m \<in> set regions. \<forall>r' \<in> set regions. ?s r' \<le> ?s m" if "regions \<noteq> []"
    using greatest_member [OF that, of ?s] .
  then show ?thesis using found by (auto simp: find_None_iff list_all_iff)
qed

subsection \<open>Concrete runs\<close>

definition score_day :: score_env where
  "score_day = \<lparr>ve_now = 864000000, ve_date = (\<lambda>t. if t = ''today'' then Some 864000000 else None), ve_number = (\<lambda>_. ''''),
     ve_fixed = (\<lambda>_. '''')\<rparr>"

definition careful :: criteria where
  "careful = \<lparr>cr_preferLowLatency = False, cr_preferLowRisk = False, cr_preferReachable = False, cr_avoidBlocked = True,
     cr_preferRecent = True\<rparr>"

definition tested :: "string \<Rightarrow> conn_status \<Rightarrow> node" where
  "tested i st = (bare_node i i)\<lparr>cn_connectivityStatus := Some st, cn_createdAt := Some ''today''\<rparr>"

definition three_tested :: "node list" where
  "three_tested = [tested ''b'' CsBlocked, tested ''a'' CsIcmpBlocked, tested ''c'' CsReachable]"

lemma three_dates: "dates_past score_day three_tested"
  by (simp add: dates_past_def three_tested_def tested_def score_day_def)

lemma node_scores_are_percentages_witness:
  "no_score (calculate_node_score score_day careful [] (tested ''c'' CsReachable)) = Some 49 \<and> (49 :: int) \<le> 100"
proof -
  have "no_score (calculate_node_score score_day careful [] (tested ''c'' CsReachable)) = Some 49" by code_simp
  moreover have "dates_past score_day [tested ''c'' CsReachable]" "latencies_ok []"
    by (simp_all add: dates_past_def tested_def score_day_def latencies_ok_def)
  ultimately show ?thesis using node_scores_are_percentages [of score_day _ "[]" careful] by blast
qed

lemma recommendation_is_a_ranking_witness:
  "\<exists>rs. get_recommended_nodes score_day careful [] three_tested = Some rs \<and> mset (map no_node rs) = mset three_tested"
proof -
  have "list_all (\<lambda>n. recency_score score_day n \<noteq> None) three_tested" by code_simp
  then show ?thesis using recommendation_is_a_ranking [of three_tested score_day careful "[]"] by (auto simp: list_all_iff)
qed

lemma avoided_nodes_come_last_witness:
  "\<exists>rs. get_recommended_nodes score_day careful [] three_tested = Some rs
     \<and> map (cn_connectivityStatus \<circ> no_node) rs = [Some CsReachable, Some CsIcmpBlocked, Some CsBlocked]
     \<and> cn_connectivityStatus (no_node (rs ! 0)) \<noteq> Some CsBlocked"
proof -
  have "map_option (map (cn_connectivityStatus \<circ> no_node)) (get_recommended_nodes score_day careful [] three_tested)
      = Some [Some CsReachable, Some CsIcmpBlocked, Some CsBlocked]" by code_simp
  then obtain rs where rs: "get_recommended_nodes score_day careful [] three_tested = Some rs"
    "map (cn_connectivityStatus \<circ> no_node) rs = [Some CsReachable, Some CsIcmpBlocked, Some CsBlocked]" by auto
  have len: "length rs = 3" using arg_cong [OF rs(2), of length] by simp
  have status: "cn_connectivityStatus (no_node (rs ! 1)) = Some CsIcmpBlocked"
    using arg_cong [OF rs(2), of "\<lambda>xs. xs ! 1"] len by simp
  have flags: "cr_avoidBlocked careful" "latencies_ok []" by (simp_all add: careful_def latencies_ok_def)
  have "cn_connectivityStatus (no_node (rs ! 0)) \<noteq> Some CsBlocked"
    by (rule avoided_nodes_come_last [OF flags(1) three_dates flags(2) rs(1), of 0 1]) (unfold len status, simp_all)
  then show ?thesis using rs by (intro exI [of _ rs] conjI)
qed

lemma health_score_bounds_witness:
  "cn_connectivityStatus (tested ''b'' CsBlocked) = Some CsBlocked \<and> \<not> hr_healthy (check_node_health score_day (tested ''b'' CsBlocked) None)"
proof -
  have "cn_connectivityStatus (tested ''b'' CsBlocked) = Some CsBlocked" by (simp add: tested_def)
  then show ?thesis using health_score_bounds [of score_day "tested ''b'' CsBlocked" None] by blast
qed

text \<open>One unreadable date, and the order is up to the browser.\<close>

lemma unreadable_date_spoils_the_ranking:
  "get_recommended_nodes score_day careful [] (three_tested @ [(tested ''d'' CsReachable)\<lparr>cn_createdAt := Some ''yesterday''\<rparr>]) = None"
  by code_simp

end
