(* ===== verification/ProfileUpgrade.thy ===== *)
theory ProfileUpgrade
  imports Json
begin

text \<open>
  \<open>utils/profilesUpgrader.ts\<close>: profiles of version 1.8 are turned into those of 1.9.0, and these into the format from
  1.9.4 on. The parts of the old profile that decide something are records; what is only passed on, and the result, are
  JSON values. The stores of rule sets and subscriptions, \<open>JSON.stringify\<close> and the parser of addresses are parameters.
\<close>

subsection \<open>The old profile\<close>

record legacy_rule =
  lr_id :: string
  lr_type :: string
  lr_payload :: "string option"
  lr_proxy :: "string option"
  lr_server :: "string option"
  lr_invert :: json
  lr_detour :: json
  lr_name :: json
  lr_format :: json

text \<open>The proxies of a group have an id, a tag and a type, which is \<open>built-in\<close> or the id of a subscription.\<close>

record legacy_group =
  lg_id :: string
  lg_tag :: string
  lg_type :: string
  lg_proxies :: "(string \<times> string \<times> string) list"
  lg_use :: "string list"
  lg_url :: json
  lg_tolerance :: json
  lg_filter :: json

record legacy_profile =
  lp_id :: json
  lp_name :: json
  lp_general :: json
  lp_advanced :: json
  lp_tun :: json
  lp_dns :: json
  lp_rules :: "legacy_rule list"
  lp_dnsRules :: "legacy_rule list"
  lp_groups :: "legacy_group list"
  lp_mixin :: json
  lp_script :: json

record upgrade_env =
  up_ruleset :: "string option \<Rightarrow> (string \<times> string \<times> string) option"
  up_subscription :: "string \<Rightarrow> string option"
  up_stringify :: "json \<Rightarrow> string"
  up_url :: "string \<Rightarrow> string + string \<times> string \<times> string"
  up_fakeip :: json

definition json_or_text :: "json \<Rightarrow> string \<Rightarrow> json" where
  "json_or_text v s = (if json_truthy v then v else JStr s)"

text \<open>The tags of the two groups, in English and Chinese, in the bytes of their encoding.\<close>

definition block_tags :: "string list" where
  "block_tags = (let sign = [CHR 0xF0, CHR 0x9F, CHR 0x9B, CHR 0x91, CHR '' '']
     in [sign @ [CHR 0xE5, CHR 0x85, CHR 0xA8, CHR 0xE7, CHR 0x90, CHR 0x83, CHR 0xE6, CHR 0x8B, CHR 0xA6, CHR 0xE6, CHR 0x88, CHR 0xAA],
         sign @ ''Block''])"

definition direct_tags :: "string list" where
  "direct_tags = (let sign = [CHR 0xF0, CHR 0x9F, CHR 0x8E, CHR 0xAF, CHR '' '']
     in [sign @ [CHR 0xE5, CHR 0x85, CHR 0xA8, CHR 0xE7, CHR 0x90, CHR 0x83, CHR 0xE7, CHR 0x9B, CHR 0xB4, CHR 0xE8, CHR 0xBF, CHR 0x9E],
         sign @ ''Direct''])"

subsection \<open>Rule sets\<close>

text \<open>An entry has the id of its rule, its tag, and the rule set.\<close>

type_synonym set_entry = "string \<times> json \<times> json"

definition rule_set_json :: "legacy_rule \<Rightarrow> string \<Rightarrow> json \<Rightarrow> json \<Rightarrow> json \<Rightarrow> string \<Rightarrow> json" where
  "rule_set_json r ty tag format url path = JObj
     [(''id'', JStr (lr_id r)), (''type'', JStr ty), (''tag'', tag), (''format'', format), (''url'', url),
      (''download_detour'', lr_detour r), (''update_interval'', JStr ''''), (''rules'', JStr ''''), (''path'', JStr path)]"

definition local_rule_set :: "upgrade_env \<Rightarrow> legacy_rule \<Rightarrow> set_entry" where
  "local_rule_set env r =
     (let found = up_ruleset env (lr_payload r);
          part = (\<lambda>f dflt. JStr (case found of None \<Rightarrow> dflt | Some x \<Rightarrow> str_or (f x) dflt));
          tag = part fst (lr_id r)
      in (lr_id r, tag, rule_set_json r ''local'' tag (part (fst \<circ> snd) ''binary'') (part (snd \<circ> snd) '''') (opt_or (lr_payload r) '''')))"

definition remote_rule_set :: "legacy_rule \<Rightarrow> set_entry" where
  "remote_rule_set r =
     (lr_id r, lr_name r, rule_set_json r ''remote'' (lr_name r) (lr_format r) (json_opt (lr_payload r)) '''')"

definition all_rule_sets :: "upgrade_env \<Rightarrow> legacy_profile \<Rightarrow> set_entry list" where
  "all_rule_sets env p =
     (let rules = lp_rules p @ lp_dnsRules p
      in map remote_rule_set (filter (\<lambda>r. lr_type r = ''rule_set_url'') rules)
         @ map (local_rule_set env) (filter (\<lambda>r. lr_type r = ''rule_set'') rules))"

text \<open>Of the rule sets with the same tag the first is kept; the dictionary leads from the id of each to that of the kept one.\<close>

fun distinct_sets :: "set_entry list \<Rightarrow> set_entry list \<Rightarrow> string dict \<Rightarrow> set_entry list \<times> string dict" where
  "distinct_sets [] kept ids = (kept, ids)"
| "distinct_sets ((i, tag, j) # es) kept ids = (case List.find (\<lambda>x. fst (snd x) = tag) kept of
      None \<Rightarrow> distinct_sets es (kept @ [(i, tag, j)]) (AList.update i i ids)
    | Some x \<Rightarrow> distinct_sets es kept (AList.update i (fst x) ids))"

subsection \<open>Groups\<close>

definition emptied :: "legacy_group \<Rightarrow> legacy_group" where
  "emptied g = g\<lparr>lg_proxies := [], lg_use := []\<rparr>"

definition without_proxy :: "string \<Rightarrow> legacy_group \<Rightarrow> legacy_group" where
  "without_proxy i g = g\<lparr>lg_proxies := filter (\<lambda>x. fst x \<noteq> i) (lg_proxies g)\<rparr>"

definition retired :: "legacy_group \<Rightarrow> (legacy_group \<Rightarrow> bool) \<Rightarrow> legacy_group list \<Rightarrow> legacy_group list" where
  "retired g here gs = map (without_proxy (lg_id g)) (map_first here emptied gs)"

definition is_block :: "legacy_group \<Rightarrow> bool" where
  "is_block g \<longleftrightarrow> lg_tag g \<in> set block_tags"

definition is_direct :: "legacy_group \<Rightarrow> bool" where
  "is_direct g \<longleftrightarrow> lg_tag g \<in> set direct_tags"

text \<open>The group that blocks is dissolved and dropped; the group that connects directly is dissolved only when there was one
  that blocks, and has to exist then.\<close>

definition upgrade_groups :: "legacy_group list \<Rightarrow> string + legacy_group list" where
  "upgrade_groups gs = (case List.find is_block gs of
      None \<Rightarrow> Inr gs
    | Some b \<Rightarrow> let gs1 = retired b is_block gs
        in (case List.find is_direct gs1 of
            None \<Rightarrow> Inl ''TypeError''
          | Some d \<Rightarrow> Inr (filter (\<lambda>g. lg_id g \<noteq> lg_id b) (retired d is_direct gs1))))"

definition proxy_children :: "string \<times> string \<times> string \<Rightarrow> json list" where
  "proxy_children x = (case x of (i, tag, ty) \<Rightarrow>
     if tag = ''block'' \<or> tag = ''direct'' then []
     else [JObj [(''id'', JStr (if ty = ''built-in'' then i else ty)), (''tag'', JStr tag),
       (''type'', JStr (if ty = ''built-in'' then ''Built-in'' else ''Subscription''))]])"

definition use_children :: "upgrade_env \<Rightarrow> string \<Rightarrow> json list" where
  "use_children env u = (case up_subscription env u of
      None \<Rightarrow> []
    | Some name \<Rightarrow> [JObj [(''id'', JStr u), (''tag'', JStr name), (''type'', JStr ''Subscription'')]])"

definition group_outbound :: "upgrade_env \<Rightarrow> legacy_group \<Rightarrow> json list" where
  "group_outbound env g =
     (if lg_type g \<noteq> ''selector'' \<and> lg_type g \<noteq> ''urltest'' then []
      else [JObj [(''id'', JStr (lg_id g)), (''tag'', JStr (lg_tag g)),
        (''type'', JStr (if is_direct g then ''direct'' else lg_type g)),
        (''outbounds'', JArr (concat (map proxy_children (lg_proxies g)) @ concat (map (use_children env) (lg_use g)))),
        (''interrupt_exist_connections'', JBool True), (''url'', lg_url g), (''interval'', JStr ''3m''),
        (''tolerance'', lg_tolerance g), (''include'', lg_filter g), (''exclude'', JStr '''')]])"

subsection \<open>Rules\<close>

definition is_set_rule :: "legacy_rule \<Rightarrow> bool" where
  "is_set_rule r \<longleftrightarrow> lr_type r = ''rule_set_url'' \<or> lr_type r = ''rule_set''"

definition kept_set :: "string dict \<Rightarrow> legacy_rule \<Rightarrow> json" where
  "kept_set ids r = json_opt (map_of ids (lr_id r))"

definition legacy_rule_action :: "string option \<Rightarrow> legacy_rule \<Rightarrow> string" where
  "legacy_rule_action reject r =
     (if lr_proxy r = Some ''block'' then ''reject'' else if lr_proxy r = Some ''dns-out'' then ''hijack-dns''
      else if lr_proxy r = reject then ''reject'' else ''route'')"

definition rule_outbound :: "string option \<Rightarrow> string option \<Rightarrow> legacy_rule \<Rightarrow> json" where
  "rule_outbound reject direct r =
     (if lr_proxy r = Some ''dns-out'' \<or> lr_proxy r = reject then JStr ''''
      else json_opt (if lr_proxy r = Some ''direct'' then direct else lr_proxy r))"

definition legacy_route_rule :: "string dict \<Rightarrow> string option \<Rightarrow> string option \<Rightarrow> legacy_rule \<Rightarrow> json list" where
  "legacy_route_rule ids reject direct r =
     (if lr_type r = ''final'' then []
      else [JObj [(''id'', JStr (lr_id r)), (''type'', JStr (if is_set_rule r then ''rule_set'' else lr_type r)),
        (''payload'', if is_set_rule r then kept_set ids r else json_opt (lr_payload r)), (''invert'', lr_invert r),
        (''action'', JStr (legacy_rule_action reject r)), (''outbound'', rule_outbound reject direct r), (''sniffer'', JArr []),
        (''strategy'', JStr ''default''), (''server'', JStr '''')]])"

text \<open>The rule for fake addresses gets the filter of the old profile in place of the default one.\<close>

definition fakeip_payload :: "upgrade_env \<Rightarrow> json \<Rightarrow> json" where
  "fakeip_payload env filter_list =
     (let rules = (case json_get ''rules'' (up_fakeip env) of
          JArr (JObj r # rs) \<Rightarrow> JArr (JObj (AList.update ''domain_suffix'' filter_list r) # rs) | j \<Rightarrow> j)
      in JStr (up_stringify env (JObj (AList.update ''rules'' rules (obj_fields (up_fakeip env))))))"

definition legacy_dns_rule :: "upgrade_env \<Rightarrow> string dict \<Rightarrow> json \<Rightarrow> nat \<Rightarrow> legacy_rule \<Rightarrow> json" where
  "legacy_dns_rule env ids dns k r =
     (let block = lr_server r = Some ''block''; fake = lr_type r = ''fakeip''
      in JObj [(''id'', JNum (int k)),
        (''type'', JStr (if is_set_rule r then ''rule_set'' else if fake then ''inline'' else lr_type r)),
        (''action'', JStr (if block then ''reject'' else ''route'')),
        (''server'', if fake then JStr ''fakeip'' else if block then JStr '''' else json_opt (lr_server r)),
        (''invert'', lr_invert r),
        (''payload'', if is_set_rule r then kept_set ids r
           else if fake then fakeip_payload env (json_get ''fake-ip-filter'' dns) else json_opt (lr_payload r))])"

subsection \<open>The parts of the new profile\<close>

definition upgraded_listen :: "legacy_profile \<Rightarrow> json \<Rightarrow> json" where
  "upgraded_listen p port = (let a = lp_advanced p
     in JObj [(''listen'', JObj [
          (''listen'', JStr (if json_truthy (json_get ''allow-lan'' (lp_general p)) then ''0.0.0.0'' else ''127.0.0.1'')),
          (''listen_port'', port), (''tcp_fast_open'', json_get ''tcp-fast-open'' a),
          (''tcp_multi_path'', json_get ''tcp-multi-path'' a), (''udp_fragment'', json_get ''udp-fragment'' a)]),
        (''users'', JArr [])])"

definition port_or :: "json \<Rightarrow> int \<Rightarrow> json" where
  "port_or v n = (if json_truthy v then v else JNum n)"

definition upgraded_inbound :: "string \<Rightarrow> string \<Rightarrow> json \<Rightarrow> json \<Rightarrow> json" where
  "upgraded_inbound i ty enable block =
     JObj [(''id'', JStr i), (''type'', JStr ty), (''tag'', JStr i), (''enable'', enable), (ty, block)]"

definition upgraded_tun :: "json \<Rightarrow> json" where
  "upgraded_tun t = JObj [(''interface_name'', json_or_text (json_get ''interface-name'' t) ''''),
     (''address'', let a = json_get ''address'' t
        in if json_truthy a then a else JArr [json_get ''inet4-address'' t, json_get ''inet6-address'' t]),
     (''mtu'', json_get ''mtu'' t), (''auto_route'', json_get ''auto-route'' t), (''strict_route'', json_get ''strict-route'' t),
     (''route_address'', JArr []), (''route_exclude_address'', JArr []),
     (''endpoint_independent_nat'', json_get ''endpoint-independent-nat'' t), (''stack'', JStr ''mixed'')]"

definition upgraded_inbounds :: "legacy_profile \<Rightarrow> json" where
  "upgraded_inbounds p = (let a = lp_advanced p; t = lp_tun p
     in JArr [upgraded_inbound ''mixed-in'' ''mixed'' (JBool True) (upgraded_listen p (port_or (json_get ''mixed-port'' (lp_general p)) 20122)),
          upgraded_inbound ''tun-in'' ''tun'' (json_get ''enable'' t) (upgraded_tun t),
          upgraded_inbound ''http-in'' ''http'' (JBool (json_get ''port'' a \<noteq> JNum 0)) (upgraded_listen p (port_or (json_get ''port'' a) 20121)),
          upgraded_inbound ''socks-in'' ''socks'' (JBool (json_get ''socks-port'' a \<noteq> JNum 0))
            (upgraded_listen p (port_or (json_get ''socks-port'' a) 20120))])"

definition upgraded_log :: "legacy_profile \<Rightarrow> json" where
  "upgraded_log p = JObj [(''disabled'', JBool False), (''level'', json_get ''log-level'' (lp_general p)), (''output'', JStr ''''),
     (''timestamp'', JBool False)]"

definition upgraded_experimental :: "legacy_profile \<Rightarrow> json" where
  "upgraded_experimental p = (let a = lp_advanced p; c = json_get ''profile'' a
     in JObj [
       (''clash_api'', JObj [(''external_controller'', json_or_text (json_get ''external-controller'' a) ''127.0.0.1:20123''),
          (''external_ui'', json_or_text (json_get ''external-ui'' a) ''''),
          (''external_ui_download_url'', json_or_text (json_get ''external-ui-url'' a) ''''), (''external_ui_download_detour'', JStr ''''),
          (''secret'', json_get ''secret'' a), (''default_mode'', json_get ''mode'' (lp_general p))]),
       (''cache_file'', JObj [(''enabled'', json_get ''store-cache'' c), (''path'', JStr ''cache.db''), (''cache_id'', JStr ''''),
          (''store_fakeip'', json_get ''store-fake-ip'' c), (''store_rdrc'', json_get ''store-rdrc'' c), (''rdrc_timeout'', JStr ''7d'')])])"

definition upgraded_server :: "string \<Rightarrow> string \<Rightarrow> json \<Rightarrow> string \<Rightarrow> json \<Rightarrow> json" where
  "upgraded_server i tag address resolver detour = JObj [(''id'', JStr i), (''tag'', JStr tag), (''address'', address),
     (''address_resolver'', JStr resolver), (''detour'', detour), (''strategy'', JStr ''default''), (''client_subnet'', JStr '''')]"

definition upgraded_dns :: "upgrade_env \<Rightarrow> string dict \<Rightarrow> legacy_profile \<Rightarrow> json" where
  "upgraded_dns env ids p = (let d = lp_dns p; at_key = (\<lambda>k. json_get k d)
     in JObj [
       (''servers'', JArr [
          upgraded_server ''remote-dns'' ''remote-dns'' (at_key ''remote-dns'') ''remote-resolver-dns'' (at_key ''remote-dns-detour''),
          upgraded_server ''local-dns'' ''local-dns'' (at_key ''local-dns'') ''resolver-dns'' (at_key ''local-dns-detour''),
          upgraded_server ''resolver-dns'' ''resolver-dns'' (at_key ''resolver-dns'') '''' (at_key ''local-dns-detour''),
          upgraded_server ''remote-resolver-dns'' ''remote-resolver-dns'' (at_key ''remote-resolver-dns'') '''' (JStr ''''),
          upgraded_server ''fakeip'' ''fakeip-dns'' (JStr ''fakeip'') '''' (JStr '''')]),
       (''rules'', JArr (map (\<lambda>(k, r). legacy_dns_rule env ids d k r) (enumerate 0 (lp_dnsRules p)))),
       (''fakeip'', JObj [(''enabled'', at_key ''fakeip''), (''inet4_range'', at_key ''fake-ip-range-v4''),
          (''inet6_range'', at_key ''fake-ip-range-v6'')]),
       (''disable_cache'', at_key ''disable-cache''), (''disable_expire'', at_key ''disable-expire''),
       (''independent_cache'', at_key ''independent-cache''), (''client_subnet'', at_key ''client-subnet''),
       (''final'', at_key ''final-dns''), (''strategy'', at_key ''strategy'')])"

definition upgraded_route :: "string dict \<Rightarrow> set_entry list \<Rightarrow> string option \<Rightarrow> string option \<Rightarrow> legacy_profile \<Rightarrow> json" where
  "upgraded_route ids kept reject direct p = JObj [
     (''rule_set'', JArr (map (snd \<circ> snd) kept)),
     (''rules'', JArr (concat (map (legacy_route_rule ids reject direct) (lp_rules p)))),
     (''auto_detect_interface'', JBool False), (''find_process'', JBool False),
     (''default_interface'', json_get ''interface-name'' (lp_general p)),
     (''final'', JStr (case List.find (\<lambda>r. lr_type r = ''final'') (lp_rules p) of
        None \<Rightarrow> '''' | Some r \<Rightarrow> opt_or (lr_proxy r) ''''))]"

definition transform_profile_v189_to_190 :: "upgrade_env \<Rightarrow> legacy_profile \<Rightarrow> string + json" where
  "transform_profile_v189_to_190 env p = (case upgrade_groups (lp_groups p) of
      Inl e \<Rightarrow> Inl e
    | Inr gs \<Rightarrow> (case distinct_sets (all_rule_sets env p) [] [] of (kept, ids) \<Rightarrow>
        let reject = map_option lg_id (List.find is_block (lp_groups p));
            direct = map_option lg_id (List.find is_direct (lp_groups p))
        in Inr (JObj [(''id'', lp_id p), (''name'', lp_name p), (''log'', upgraded_log p),
             (''experimental'', upgraded_experimental p), (''inbounds'', upgraded_inbounds p),
             (''outbounds'', JArr (concat (map (group_outbound env) gs))),
             (''route'', upgraded_route ids kept reject direct p), (''dns'', upgraded_dns env ids p),
             (''mixin'', lp_mixin p), (''script'', lp_script p)])))"

subsection \<open>From 1.9.0 to 1.9.4\<close>

text \<open>The schemes of an address, the type of the server and whether the address has a path.\<close>

definition dns_schemes :: "(string \<times> string \<times> bool) list" where
  "dns_schemes = [(''tcp://'', ''tcp'', False), (''tls://'', ''tls'', False), (''quic://'', ''quic'', False),
     (''https://'', ''https'', True), (''h3://'', ''h3'', True)]"

definition dns_server_json ::
    "json \<Rightarrow> string \<Rightarrow> json \<Rightarrow> string \<Rightarrow> string \<Rightarrow> string \<Rightarrow> json \<Rightarrow> json \<Rightarrow> json" where
  "dns_server_json s ty server port path iface r4 r6 = JObj [(''id'', json_get ''id'' s), (''tag'', json_get ''tag'' s), (''type'', JStr ty),
     (''detour'', json_get ''detour'' s), (''domain_resolver'', json_get ''address_resolver'' s), (''hosts_path'', JArr []),
     (''predefined'', JObj []), (''server'', server), (''server_port'', JStr port), (''path'', JStr path),
     (''interface'', JStr iface), (''inet4_range'', r4), (''inet6_range'', r6)]"

definition upgrade_server :: "upgrade_env \<Rightarrow> json \<Rightarrow> json \<Rightarrow> string + json list" where
  "upgrade_server env fakeip s = (case json_get ''address'' s of
      JStr a \<Rightarrow>
        (let simple = (\<lambda>ty r4 r6. Inr [dns_server_json s ty (JStr a) '''' '''' '''' r4 r6])
         in if a = ''local'' then simple ''local'' (JStr '''') (JStr '''')
            else (case List.find (\<lambda>x. starts_with a (fst x)) dns_schemes of
                Some (_, ty, with_path) \<Rightarrow> (case up_url env a of
                    Inl e \<Rightarrow> Inl e
                  | Inr (host, port, path) \<Rightarrow>
                      Inr [dns_server_json s ty (JStr host) port (if with_path then path else '''') '''' (JStr '''') (JStr '''')])
              | None \<Rightarrow>
                  if starts_with a ''dhcp://'' then (case up_url env a of
                      Inl e \<Rightarrow> Inl e
                    | Inr (host, _, _) \<Rightarrow> Inr [dns_server_json s ''dhcp'' (JStr a) '''' '''' host (JStr '''') (JStr '''')])
                  else if a = ''fakeip'' then
                    if fakeip = JUndef \<or> fakeip = JNull then Inl ''TypeError''
                    else simple ''fakeip'' (json_get ''inet4_range'' fakeip) (json_get ''inet6_range'' fakeip)
                  else if starts_with a ''rcode://'' then Inr []
                  else simple ''udp'' (JStr '''') (JStr '''')))
    | _ \<Rightarrow> Inl ''TypeError'')"

fun upgrade_servers :: "upgrade_env \<Rightarrow> json \<Rightarrow> json list \<Rightarrow> string + json list" where
  "upgrade_servers env fakeip [] = Inr []"
| "upgrade_servers env fakeip (s # ss) = (case upgrade_server env fakeip s of
      Inl e \<Rightarrow> Inl e
    | Inr new \<Rightarrow> map_sum id (\<lambda>rest. new @ rest) (upgrade_servers env fakeip ss))"

definition is_outbound_rule :: "json \<Rightarrow> bool" where
  "is_outbound_rule r \<longleftrightarrow> json_get ''type'' r = JStr ''outbound''"

definition upgrade_dns_rule :: "json \<Rightarrow> json" where
  "upgrade_dns_rule r = JObj (map (\<lambda>k. (k, json_get k r)) [''id'', ''type'', ''payload'', ''action'', ''invert'', ''server'']
     @ [(''strategy'', JStr ''default''), (''disable_cache'', JBool False), (''client_subnet'', JStr '''')])"

text \<open>The arrays are those of the format before; the profile is changed in place.\<close>

definition transform_profile_v194 :: "upgrade_env \<Rightarrow> json \<Rightarrow> string + json" where
  "transform_profile_v194 env config =
     (let dns = json_get ''dns'' config; route = json_get ''route'' config
      in case (json_get ''rules'' dns, json_get ''servers'' dns, route) of
        (JArr rules, JArr servers, JObj route_fields) \<Rightarrow>
          (let server = (case List.find is_outbound_rule rules of
               None \<Rightarrow> JStr '''' | Some r \<Rightarrow> json_or_text (json_get ''server'' r) '''')
           in case upgrade_servers env (json_get ''fakeip'' dns) servers of
                Inl e \<Rightarrow> Inl e
              | Inr new \<Rightarrow> Inr (JObj (AList.update ''dns''
                  (JObj (AList.delete ''fakeip'' (AList.update ''rules''
                     (JArr (map upgrade_dns_rule (filter (\<lambda>r. \<not> is_outbound_rule r) rules)))
                     (AList.update ''servers'' (JArr new) (obj_fields dns)))))
                  (AList.update ''route''
                     (JObj (AList.update ''default_domain_resolver'' (JObj [(''server'', server), (''client_subnet'', JStr '''')]) route_fields))
                     (obj_fields config)))))
      | _ \<Rightarrow> Inl ''TypeError'')"

end
