(* ===== verification/UpgradeLaws.thy ===== *)
theory UpgradeLaws
  imports ProfileUpgrade
begin

text \<open>
  What the upgrade of an old profile guarantees, and where it fails.
\<close>

subsection \<open>Properties: rule sets\<close>

definition array_items :: "json \<Rightarrow> json list" where
  "array_items j = (case j of JArr js \<Rightarrow> js | _ \<Rightarrow> [])"

lemma array_items_JArr [simp]: "array_items (JArr js) = js"
  by (simp add: array_items_def)

lemma json_get_Cons [simp]: "json_get k (JObj ((k', v) # fs)) = (if k = k' then v else json_get k (JObj fs))"
  by (simp add: json_get_def or_else_def)

definition resolved :: "set_entry list \<Rightarrow> string dict \<Rightarrow> bool" where
  "resolved kept ids \<longleftrightarrow> ran (map_of ids) \<subseteq> fst ` set kept"

lemma resolved_update: "resolved kept ids \<Longrightarrow> v \<in> fst ` set kept \<Longrightarrow> resolved kept (AList.update k v ids)"
  unfolding resolved_def update_conv' by (auto simp: ran_def split: if_splits)

lemma distinct_sets_facts:
  assumes "distinct_sets es kept ids = (kept', ids')" "resolved kept ids" "distinct (map (fst \<circ> snd) kept)"
  shows "resolved kept' ids' \<and> distinct (map (fst \<circ> snd) kept') \<and> fst ` set es \<union> dom (map_of ids) \<subseteq> dom (map_of ids')
    \<and> set kept' \<subseteq> set kept \<union> set es"
  using assms
proof (induction es kept ids rule: distinct_sets.induct)
  case (1 kept ids)
  then show ?case by auto
next
  case (2 i tag j es kept ids)
  show ?case
  proof (cases "List.find (\<lambda>x. fst (snd x) = tag) kept")
    case None
    then have "tag \<notin> (fst \<circ> snd) ` set kept" by (auto simp: find_None_iff)
    moreover have "resolved (kept @ [(i, tag, j)]) (AList.update i i ids)"
      by (rule resolved_update) (use "2.prems"(2) in \<open>auto simp: resolved_def\<close>)
    ultimately show ?thesis
      using None "2.prems" "2.IH"(1) by (auto simp: update_conv' dom_def split: if_splits)
  next
    case (Some x)
    then have "x \<in> set kept" by (auto simp: find_Some_iff)
    then have "resolved kept (AList.update i (fst x) ids)"
      using "2.prems"(2) by (auto intro: resolved_update)
    then show ?thesis
      using Some "2.prems" "2.IH"(2) by (auto simp: update_conv' dom_def split: if_splits)
  qed
qed

lemma rule_set_ids: "e \<in> set (all_rule_sets env p) \<Longrightarrow> json_get ''id'' (snd (snd e)) = JStr (fst e)"
  by (auto simp: all_rule_sets_def Let_def remote_rule_set_def local_rule_set_def rule_set_json_def)

lemma rule_set_tags: "e \<in> set (all_rule_sets env p) \<Longrightarrow> json_get ''tag'' (snd (snd e)) = fst (snd e)"
  by (auto simp: all_rule_sets_def Let_def remote_rule_set_def local_rule_set_def rule_set_json_def)

lemma fst_local_rule_set: "fst (local_rule_set env r) = lr_id r"
  by (simp add: local_rule_set_def Let_def)

lemma fst_remote_rule_set: "fst (remote_rule_set r) = lr_id r"
  by (simp add: remote_rule_set_def)

lemma set_rules_listed: "r \<in> set (lp_rules p @ lp_dnsRules p) \<Longrightarrow> is_set_rule r \<Longrightarrow> lr_id r \<in> fst ` set (all_rule_sets env p)"
proof -
  assume r: "r \<in> set (lp_rules p @ lp_dnsRules p)" "is_set_rule r"
  have "fst ` set (all_rule_sets env p) = lr_id ` {x \<in> set (lp_rules p @ lp_dnsRules p). is_set_rule x}"
    unfolding all_rule_sets_def Let_def set_append set_map image_Un image_image is_set_rule_def
    by (simp only: fst_local_rule_set fst_remote_rule_set set_filter) auto
  then show ?thesis using r by blast
qed

text \<open>
  C35. Rule sets of an upgraded profile resolve. Every rule of the route and of DNS that names a rule set names one that the new
  profile has, also when several rules of the old profile used the same one, and no two rule sets have the same tag.
\<close>

theorem upgraded_rule_sets_resolve:
  assumes "transform_profile_v189_to_190 env p = Inr q"
    and "r \<in> set (array_items (json_get ''rules'' (json_get ''route'' q))) \<union> set (array_items (json_get ''rules'' (json_get ''dns'' q)))"
    and "json_get ''type'' r = JStr ''rule_set''"
  shows "(\<exists>s \<in> set (array_items (json_get ''rule_set'' (json_get ''route'' q))). json_get ''id'' s = json_get ''payload'' r)
    \<and> distinct (map (json_get ''tag'') (array_items (json_get ''rule_set'' (json_get ''route'' q))))"
proof -
  obtain gs where gs: "upgrade_groups (lp_groups p) = Inr gs"
    using assms(1) by (cases "upgrade_groups (lp_groups p)") (simp_all add: transform_profile_v189_to_190_def)
  obtain kept ids where ks: "distinct_sets (all_rule_sets env p) [] [] = (kept, ids)" by fastforce
  from distinct_sets_facts [OF ks] have k: "resolved kept ids" "distinct (map (fst \<circ> snd) kept)"
    "fst ` set (all_rule_sets env p) \<subseteq> dom (map_of ids)" "set kept \<subseteq> set (all_rule_sets env p)" by (auto simp: resolved_def)
  let ?reject = "map_option lg_id (List.find is_block (lp_groups p))" and ?direct = "map_option lg_id (List.find is_direct (lp_groups p))"
  have q: "json_get ''route'' q = upgraded_route ids kept ?reject ?direct p" "json_get ''dns'' q = upgraded_dns env ids p"
    using assms(1) by (auto simp: transform_profile_v189_to_190_def gs ks Let_def)
  have sets: "array_items (json_get ''rule_set'' (json_get ''route'' q)) = map (snd \<circ> snd) kept" by (simp add: q upgraded_route_def)
  have payload: "json_get ''payload'' r = kept_set ids o' \<and> is_set_rule o' \<and> o' \<in> set (lp_rules p @ lp_dnsRules p)"
    if "r \<in> set (legacy_route_rule ids ?reject ?direct o') \<and> o' \<in> set (lp_rules p)
        \<or> (\<exists>k. r = legacy_dns_rule env ids (lp_dns p) k o') \<and> o' \<in> set (lp_dnsRules p)" for o'
    using that assms(3) by (auto simp: legacy_route_rule_def legacy_dns_rule_def Let_def is_set_rule_def split: if_splits)
  have "\<exists>o'. r \<in> set (legacy_route_rule ids ?reject ?direct o') \<and> o' \<in> set (lp_rules p)
        \<or> (\<exists>k. r = legacy_dns_rule env ids (lp_dns p) k o') \<and> o' \<in> set (lp_dnsRules p)"
    using assms(2) unfolding q upgraded_route_def upgraded_dns_def by (auto simp: Let_def in_set_enumerate_eq)
  then obtain o' where o': "json_get ''payload'' r = kept_set ids o'" "is_set_rule o'" "o' \<in> set (lp_rules p @ lp_dnsRules p)"
    using payload by blast
  obtain v where v: "map_of ids (lr_id o') = Some v" using set_rules_listed [OF o'(3,2)] k(3) by blast
  then have "v \<in> fst ` set kept" using k(1) by (auto simp: resolved_def ran_def)
  then obtain e where e: "e \<in> set kept" "v = fst e" by blast
  have "json_get ''payload'' r = JStr v" by (simp add: o'(1) kept_set_def v json_opt_def)
  moreover have "json_get ''id'' (snd (snd e)) = JStr v" using rule_set_ids [of e env p] k(4) e by blast
  ultimately have "\<exists>s \<in> set (map (snd \<circ> snd) kept). json_get ''id'' s = json_get ''payload'' r"
    using e(1) by (intro bexI [of _ "snd (snd e)"]) simp_all
  moreover have "map (json_get ''tag'') (map (snd \<circ> snd) kept) = map (fst \<circ> snd) kept"
    using rule_set_tags k(4) by auto
  ultimately show ?thesis using k(2) by (simp only: sets)
qed

text \<open>An example: two rules of different kinds use rule sets with the same tag, one of them in DNS.\<close>

definition example_upgrade_env :: upgrade_env where
  "example_upgrade_env = \<lparr>up_ruleset = (\<lambda>_. Some (''geo'', ''source'', ''u'')), up_subscription = (\<lambda>_. None), up_stringify = (\<lambda>_. ''{}''),
     up_url = (\<lambda>a. Inr (''dns.example'', ''853'', ''/q'')), up_fakeip = JObj []\<rparr>"

definition example_legacy_rule :: "string \<Rightarrow> string \<Rightarrow> legacy_rule" where
  "example_legacy_rule i ty = \<lparr>lr_id = i, lr_type = ty, lr_payload = Some ''p'', lr_proxy = Some ''direct'', lr_server = Some ''local-dns'',
     lr_invert = JBool False, lr_detour = JStr '''', lr_name = JStr ''geo'', lr_format = JStr ''binary''\<rparr>"

definition example_legacy_group :: "string \<Rightarrow> string \<Rightarrow> legacy_group" where
  "example_legacy_group i tag = \<lparr>lg_id = i, lg_tag = tag, lg_type = ''selector'', lg_proxies = [(''x'', ''X'', ''built-in'')], lg_use = [],
     lg_url = JStr '''', lg_tolerance = JNum 50, lg_filter = JStr ''''\<rparr>"

definition example_legacy_profile :: "legacy_group list \<Rightarrow> legacy_profile" where
  "example_legacy_profile gs = \<lparr>lp_id = JStr ''P'', lp_name = JStr ''n'', lp_general = JObj [], lp_advanced = JObj [], lp_tun = JObj [],
     lp_dns = JObj [], lp_rules = [example_legacy_rule ''a'' ''rule_set_url''], lp_dnsRules = [example_legacy_rule ''b'' ''rule_set''],
     lp_groups = gs, lp_mixin = JObj [], lp_script = JObj []\<rparr>"

lemmas example_upgrade_simps = example_upgrade_env_def example_legacy_rule_def example_legacy_group_def example_legacy_profile_def
  transform_profile_v189_to_190_def upgraded_route_def upgraded_dns_def legacy_route_rule_def legacy_dns_rule_def all_rule_sets_def
  remote_rule_set_def local_rule_set_def rule_set_json_def is_set_rule_def kept_set_def Let_def

lemma example_upgrade_result:
  "\<exists>q. transform_profile_v189_to_190 example_upgrade_env (example_legacy_profile []) = Inr q
     \<and> (\<exists>r \<in> set (array_items (json_get ''rules'' (json_get ''dns'' q))).
          json_get ''type'' r = JStr ''rule_set'' \<and> json_get ''payload'' r = JStr ''a'')"
  by (simp add: example_upgrade_simps upgrade_groups_def str_or_def json_opt_def)

theorem upgraded_rule_sets_resolve_witness:
  "\<exists>q. transform_profile_v189_to_190 example_upgrade_env (example_legacy_profile []) = Inr q
     \<and> (\<exists>s \<in> set (array_items (json_get ''rule_set'' (json_get ''route'' q))). json_get ''id'' s = JStr ''a'')"
proof -
  obtain q r where q: "transform_profile_v189_to_190 example_upgrade_env (example_legacy_profile []) = Inr q"
    and r: "r \<in> set (array_items (json_get ''rules'' (json_get ''dns'' q)))" "json_get ''type'' r = JStr ''rule_set''"
      "json_get ''payload'' r = JStr ''a''" using example_upgrade_result by blast
  have "r \<in> set (array_items (json_get ''rules'' (json_get ''route'' q))) \<union> set (array_items (json_get ''rules'' (json_get ''dns'' q)))"
    using r(1) by blast
  from upgraded_rule_sets_resolve [OF q this r(2)] show ?thesis using q r(3) by auto
qed

subsection \<open>Properties: groups\<close>

lemma retired_facts:
  "map lg_id (retired g here gs) = map lg_id gs" "map lg_tag (retired g here gs) = map lg_tag gs"
  "h \<in> set (retired g here gs) \<Longrightarrow> x \<in> set (lg_proxies h) \<Longrightarrow> fst x \<noteq> lg_id g"
proof -
  have "map lg_id (map_first here emptied gs) = map lg_id gs \<and> map lg_tag (map_first here emptied gs) = map lg_tag gs"
    by (induction gs) (simp_all add: emptied_def)
  then show "map lg_id (retired g here gs) = map lg_id gs" "map lg_tag (retired g here gs) = map lg_tag gs"
    by (simp_all add: retired_def without_proxy_def o_def)
  show "h \<in> set (retired g here gs) \<Longrightarrow> x \<in> set (lg_proxies h) \<Longrightarrow> fst x \<noteq> lg_id g"
    by (auto simp: retired_def without_proxy_def)
qed

lemma find_by_tag: "map lg_tag gs = map lg_tag hs \<Longrightarrow> (List.find is_direct gs = None) = (List.find is_direct hs = None)"
proof (induction gs arbitrary: hs)
  case Nil
  then show ?case by simp
next
  case (Cons g gs)
  then obtain h hs' where "hs = h # hs'" "lg_tag g = lg_tag h" "map lg_tag gs = map lg_tag hs'" by (cases hs) auto
  then show ?case using Cons.IH [of hs'] by (simp add: is_direct_def)
qed

text \<open>
  A profile that blocks but has no direct group cannot be upgraded. The code asks whether there is a group that blocks where it means to ask
  for the direct group: without one the upgrade throws, and with it the start that reads the profiles; a direct group without one that
  blocks is left as it was.
\<close>

theorem upgrade_needs_a_direct_group:
  assumes "List.find is_direct (lp_groups p) = None" and "List.find is_block (lp_groups p) = Some b"
  shows "transform_profile_v189_to_190 env p = Inl ''TypeError''"
proof -
  have "List.find is_direct (retired b is_block (lp_groups p)) = None"
    using find_by_tag [OF retired_facts(2)] assms(1) by blast
  then show ?thesis by (simp add: transform_profile_v189_to_190_def upgrade_groups_def assms(2) Let_def)
qed

theorem upgrade_needs_a_direct_group_witness:
  "transform_profile_v189_to_190 example_upgrade_env (example_legacy_profile [example_legacy_group ''B'' (block_tags ! 1)])
     = Inl ''TypeError''"
  by (rule upgrade_needs_a_direct_group [where b = "example_legacy_group ''B'' (block_tags ! 1)"])
    (simp_all add: example_upgrade_simps is_direct_def is_block_def direct_tags_def block_tags_def)

lemma no_block_no_change: "List.find is_block gs = None \<Longrightarrow> upgrade_groups gs = Inr gs"
  by (simp add: upgrade_groups_def)

text \<open>When both groups exist, no group that is left names one of them, and the one that blocks is gone.\<close>

lemma upgraded_groups:
  assumes "upgrade_groups gs = Inr hs" "List.find is_block gs = Some b" "h \<in> set hs"
  shows "lg_id h \<noteq> lg_id b \<and> (\<exists>d. is_direct d \<and> (\<forall>x \<in> set (lg_proxies h). fst x \<noteq> lg_id d))"
proof -
  obtain d where d: "List.find is_direct (retired b is_block gs) = Some d"
    using assms by (cases "List.find is_direct (retired b is_block gs)") (simp_all add: upgrade_groups_def Let_def)
  then have "h \<in> set (retired d is_direct (retired b is_block gs))" "lg_id h \<noteq> lg_id b"
    using assms by (simp_all add: upgrade_groups_def Let_def) auto
  then show ?thesis using retired_facts(3) [of h d is_direct] d by (auto simp: find_Some_iff)
qed

text \<open>The rule for the rest is copied as it is: the word \<open>direct\<close>, which in a rule is replaced by the direct group, names nothing.\<close>

lemma final_is_not_translated:
  assumes "List.find (\<lambda>r. lr_type r = ''final'') (lp_rules p) = Some r" "lr_proxy r = Some ''direct''"
  shows "json_get ''final'' (upgraded_route ids kept reject direct p) = JStr ''direct''"
    and "lr_proxy r \<noteq> reject \<Longrightarrow> rule_outbound reject direct r = json_opt direct"
  using assms by (simp_all add: upgraded_route_def rule_outbound_def str_or_def)

subsection \<open>Properties: the format from 1.9.4 on\<close>

definition current_server_types :: "string list" where
  "current_server_types = [''local'', ''tcp'', ''tls'', ''quic'', ''https'', ''h3'', ''dhcp'', ''fakeip'', ''udp'']"

lemma numeral_length_rcode: "length ''rcode://'' = 8"
  by simp

lemma upgraded_server_type:
  assumes "upgrade_server env f s = Inr new" "x \<in> set new"
  shows "\<exists>ty \<in> set current_server_types. json_get ''type'' x = JStr ty" "json_get ''id'' x = json_get ''id'' s"
    and "json_get ''address'' s = JStr a \<Longrightarrow> \<not> starts_with a ''rcode://''"
proof -
  obtain a' where a: "json_get ''address'' s = JStr a'" using assms(1)
    by (cases "json_get ''address'' s") (simp_all add: upgrade_server_def)
  show "\<exists>ty \<in> set current_server_types. json_get ''type'' x = JStr ty" "json_get ''id'' x = json_get ''id'' s"
    using assms by (auto simp: upgrade_server_def a Let_def dns_server_json_def current_server_types_def dns_schemes_def
      split: if_splits sum.splits)
  show "\<not> starts_with a ''rcode://''" if "json_get ''address'' s = JStr a"
  proof
    assume "starts_with a ''rcode://''"
    then have "a = ''rcode://'' @ drop 8 a" unfolding starts_with_def by (metis append_take_drop_id numeral_length_rcode)
    then obtain b where "a = ''rcode://'' @ b" by blast
    then show False using assms that by (simp add: upgrade_server_def Let_def dns_schemes_def starts_with_def)
  qed
qed

lemma upgrade_servers_from:
  "upgrade_servers env f ss = Inr new \<Longrightarrow> x \<in> set new \<Longrightarrow> \<exists>s \<in> set ss. \<exists>n. upgrade_server env f s = Inr n \<and> x \<in> set n"
  by (induction ss arbitrary: new) (auto split: sum.splits simp: map_sum_def)

lemma obj_get_update: "json_get k (JObj (AList.update k' v fs)) = (if k = k' then v else json_get k (JObj fs))"
  by (simp add: json_get_def update_conv' or_else_def)

lemma obj_get_delete: "json_get k (JObj (AList.delete k' fs)) = (if k = k' then JUndef else json_get k (JObj fs))"
  by (simp add: json_get_def delete_conv' or_else_def)

lemma json_get_fields: "json_get k (JObj (obj_fields j)) = json_get k j"
  by (simp add: json_get_def)

lemma transformed_parts:
  assumes "transform_profile_v194 env p = Inr q"
  obtains rules servers new where "json_get ''rules'' (json_get ''dns'' p) = JArr rules"
    "json_get ''servers'' (json_get ''dns'' p) = JArr servers"
    "upgrade_servers env (json_get ''fakeip'' (json_get ''dns'' p)) servers = Inr new"
    "json_get ''servers'' (json_get ''dns'' q) = JArr new"
    "json_get ''rules'' (json_get ''dns'' q) = JArr (map upgrade_dns_rule (filter (\<lambda>r. \<not> is_outbound_rule r) rules))"
    "json_get ''fakeip'' (json_get ''dns'' q) = JUndef"
    "json_get ''server'' (json_get ''default_domain_resolver'' (json_get ''route'' q))
       = (case List.find is_outbound_rule rules of None \<Rightarrow> JStr '''' | Some r \<Rightarrow> json_or_text (json_get ''server'' r) '''')"
  using assms unfolding transform_profile_v194_def Let_def
  by (simp split: json.splits sum.splits)
    (auto simp: obj_get_update obj_get_delete json_get_fields)

lemma upgrade_dns_rule_type: "json_get ''type'' (upgrade_dns_rule r) = json_get ''type'' r" "json_get ''server'' (upgrade_dns_rule r) = json_get ''server'' r"
  by (simp_all add: upgrade_dns_rule_def)

text \<open>
  C36. A profile in the format from 1.9.4 on is recognised as such. After the second upgrade it has no more the block whose presence asks for the
  upgrade, so that it is not upgraded again; every server has one of the types of the new format and comes from an old server of the same id;
  no rule of the kind that named the resolver of the outbounds is left, and its server is the resolver of the route, with the empty name when
  there was none.
\<close>

theorem upgraded_dns_is_current:
  assumes "transform_profile_v194 env p = Inr q"
  shows "json_get ''fakeip'' (json_get ''dns'' q) = JUndef
    \<and> list_all (\<lambda>s. json_get ''type'' s \<in> JStr ` set current_server_types
        \<and> json_get ''id'' s \<in> json_get ''id'' ` set (array_items (json_get ''servers'' (json_get ''dns'' p))))
        (array_items (json_get ''servers'' (json_get ''dns'' q)))
    \<and> map (json_get ''server'') (array_items (json_get ''rules'' (json_get ''dns'' q)))
        = map (json_get ''server'') (filter (\<lambda>r. \<not> is_outbound_rule r) (array_items (json_get ''rules'' (json_get ''dns'' p))))
    \<and> \<not> list_ex is_outbound_rule (array_items (json_get ''rules'' (json_get ''dns'' q)))
    \<and> json_get ''server'' (json_get ''default_domain_resolver'' (json_get ''route'' q))
        = (case List.find is_outbound_rule (array_items (json_get ''rules'' (json_get ''dns'' p))) of
            None \<Rightarrow> JStr '''' | Some r \<Rightarrow> json_or_text (json_get ''server'' r) '''')"
proof (rule transformed_parts [OF assms], goal_cases)
  case (1 rules servers new)
  have "list_all (\<lambda>s. json_get ''type'' s \<in> JStr ` set current_server_types \<and> json_get ''id'' s \<in> json_get ''id'' ` set servers) new"
    unfolding list_all_iff using upgrade_servers_from [OF 1(3)] upgraded_server_type(1,2) by (metis image_eqI)
  moreover have "\<not> list_ex is_outbound_rule (map upgrade_dns_rule (filter (\<lambda>r. \<not> is_outbound_rule r) rules))"
    by (auto simp: list_ex_iff is_outbound_rule_def upgrade_dns_rule_type)
  moreover have "map (json_get ''server'') (map upgrade_dns_rule rs) = map (json_get ''server'') rs" for rs
    by (simp add: upgrade_dns_rule_type)
  ultimately show ?case by (simp add: 1 upgrade_dns_rule_type)
qed

definition example_v190 :: json where
  "example_v190 = JObj [(''dns'', JObj [(''fakeip'', JObj [(''inet4_range'', JStr ''198.18.0.0/15'')]),
       (''servers'', JArr [JObj [(''id'', JStr ''a''), (''address'', JStr ''tls://dns.example'')],
          JObj [(''id'', JStr ''b''), (''address'', JStr ''fakeip'')], JObj [(''id'', JStr ''c''), (''address'', JStr ''rcode://success'')]]),
       (''rules'', JArr [JObj [(''type'', JStr ''outbound''), (''server'', JStr ''a'')],
          JObj [(''type'', JStr ''domain''), (''server'', JStr ''c'')]])]),
     (''route'', JObj [])]"

lemma example_v190_upgraded: "\<exists>q. transform_profile_v194 example_upgrade_env example_v190 = Inr q"
  by (simp add: transform_profile_v194_def example_v190_def example_upgrade_env_def upgrade_server_def dns_schemes_def starts_with_def
      Let_def)

theorem upgraded_dns_is_current_witness:
  "\<exists>q. transform_profile_v194 example_upgrade_env example_v190 = Inr q
     \<and> json_get ''server'' (json_get ''default_domain_resolver'' (json_get ''route'' q)) = JStr ''a''"
proof -
  obtain q where q: "transform_profile_v194 example_upgrade_env example_v190 = Inr q" using example_v190_upgraded by blast
  then show ?thesis using upgraded_dns_is_current [OF q] by (simp add: example_v190_def is_outbound_rule_def json_or_text_def)
qed

text \<open>A server that only answered with a code is dropped, but the rules that name it stay.\<close>

lemma rules_of_dropped_servers_dangle:
  assumes "transform_profile_v194 env p = Inr q"
    and "r \<in> set (array_items (json_get ''rules'' (json_get ''dns'' p)))" "\<not> is_outbound_rule r"
    and "\<And>s. s \<in> set (array_items (json_get ''servers'' (json_get ''dns'' p))) \<Longrightarrow> json_get ''id'' s = json_get ''server'' r
      \<Longrightarrow> \<exists>a. json_get ''address'' s = JStr a \<and> starts_with a ''rcode://''"
  shows "json_get ''server'' r \<in> json_get ''server'' ` set (array_items (json_get ''rules'' (json_get ''dns'' q)))"
    and "json_get ''server'' r \<notin> json_get ''id'' ` set (array_items (json_get ''servers'' (json_get ''dns'' q)))"
proof (rule_tac [!] transformed_parts [OF assms(1)], goal_cases)
  case (1 rules servers new)
  have "json_get ''server'' (upgrade_dns_rule r) = json_get ''server'' r" by (rule upgrade_dns_rule_type)
  then show ?case using assms(2,3) by (force simp: 1 image_image)
next
  case (2 rules servers new)
  show ?case
  proof
    assume "json_get ''server'' r \<in> json_get ''id'' ` set (array_items (json_get ''servers'' (json_get ''dns'' q)))"
    then obtain x where x: "x \<in> set new" "json_get ''id'' x = json_get ''server'' r" by (auto simp: 2)
    obtain s n where s: "s \<in> set servers" "upgrade_server env (json_get ''fakeip'' (json_get ''dns'' p)) s = Inr n" "x \<in> set n"
      using upgrade_servers_from [OF 2(3) x(1)] by blast
    then show False using assms(4) [of s] upgraded_server_type(2,3) [OF s(2,3)] x(2) by (auto simp: 2)
  qed
qed

end
