(* ===== verification/ShareLinks.thy ===== *)
theory ShareLinks
  imports ManualParser
begin

text \<open>
  \<open>views/CloudView/cloudNodeDisplay.ts\<close>: the share links of a node and the progress of its deployment. The browser's
  \<open>btoa\<close>, \<open>encodeURIComponent\<close> and \<open>URLSearchParams.toString\<close> are functions of a record, the translations a function
  of the key and the values to be filled in.
\<close>

record link_env =
  le_btoa :: "string \<Rightarrow> string"
  le_encode :: "string \<Rightarrow> string"
  le_query :: "(string \<times> string) list \<Rightarrow> string"

text \<open>The deployment of a CDN worker with the readiness of the custom host.\<close>

record share_deployment = cdn_deployment +
  sd_customHostStatus :: "string option"

subsection \<open>Addresses and names\<close>

definition resolve_server_name :: "string option \<Rightarrow> string \<Rightarrow> string" where
  "resolve_server_name v fallback = str_or (trimmed v) fallback"

definition link_insecure :: "bool option \<Rightarrow> bool" where
  "link_insecure flag = or_else flag False"

definition wrap_host :: "string \<Rightarrow> string" where
  "wrap_host h = (if CHR '':'' \<notin> set h then h else if starts_with h ''['' then h else ''['' @ h @ '']'')"

definition display_public_ipv4 :: "string option \<Rightarrow> bool" where
  "display_public_ipv4 ip =
     (if \<not> truthy_s ip then False
      else let octets = js_split CHR ''.'' (the ip) in
        if length octets \<noteq> 4 then False
        else let first = parse_int (octets ! 0); second = parse_int (octets ! 1) in
          if num_eq first 100 \<and> num_between 64 second 127 then False
          else if num_eq first 10 then False
          else if num_eq first 192 \<and> num_eq second 168 then False
          else if num_eq first 172 \<and> num_between 16 second 31 then False
          else True)"

definition preferred_address :: "node \<Rightarrow> string option" where
  "preferred_address n =
     (if truthy_s (cn_ipv4 n) \<and> display_public_ipv4 (cn_ipv4 n) then cn_ipv4 n
      else if truthy_s (cn_ipv6 n) then cn_ipv6 n else None)"

definition shown_port :: "node \<Rightarrow> int option" where
  "shown_port n = (if truthy_n (cn_ssPort n) then cn_ssPort n else cn_port n)"

definition shown_password :: "node \<Rightarrow> string option" where
  "shown_password n = (if truthy_s (cn_ssPassword n) then cn_ssPassword n else cn_password n)"

definition has_shadowsocks :: "node \<Rightarrow> bool" where
  "has_shadowsocks n \<longleftrightarrow> truthy_n (shown_port n) \<and> truthy_s (shown_password n)"

definition has_cdn_relay :: "node \<Rightarrow> bool" where
  "has_cdn_relay n \<longleftrightarrow> truthy_n (cn_vlessRelayPort n) \<and> truthy_s (cn_vlessUUID n)"

subsection \<open>Links\<close>

text \<open>\<open>String\<close> of a present number, and a present text.\<close>

definition link_port :: "int option \<Rightarrow> string" where
  "link_port p = int_text (or_else p 0)"

definition link_url :: "link_env \<Rightarrow> string \<Rightarrow> string \<Rightarrow> string \<Rightarrow> string \<Rightarrow> (string \<times> string) list \<Rightarrow> string \<Rightarrow> string" where
  "link_url env scheme user host port params label =
     scheme @ ''://'' @ user @ ''@'' @ host @ '':'' @ port @ ''?'' @ le_query env params @ ''#'' @ le_encode env label"

definition ss_credentials :: "node \<Rightarrow> string \<Rightarrow> string" where
  "ss_credentials n h = ''aes-256-gcm:'' @ opt_or (shown_password n) '''' @ ''@'' @ wrap_host h @ '':'' @ link_port (shown_port n)"

definition build_shadowsocks_link :: "link_env \<Rightarrow> node \<Rightarrow> string option" where
  "build_shadowsocks_link env n = (case preferred_address n of
      None \<Rightarrow> None
    | Some h \<Rightarrow> if \<not> has_shadowsocks n then None
        else Some (''ss://'' @ le_btoa env (ss_credentials n h) @ ''#'' @ le_encode env (cn_label n)))"

definition hysteria_params :: "node \<Rightarrow> (string \<times> string) list" where
  "hysteria_params n = [(''sni'', resolve_server_name (cn_hysteriaServerName n) ''www.bing.com'')]
     @ (if link_insecure (cn_hysteriaInsecure n) then [(''insecure'', ''1'')] else [])"

definition build_hysteria_link :: "link_env \<Rightarrow> node \<Rightarrow> string option" where
  "build_hysteria_link env n = (if \<not> has_hysteria n then None else case preferred_address n of
      None \<Rightarrow> None
    | Some h \<Rightarrow> Some (link_url env ''hysteria2'' (le_encode env (opt_or (cn_hysteriaPassword n) '''')) (wrap_host h)
        (link_port (cn_hysteriaPort n)) (hysteria_params n) (cn_label n)))"

definition vless_params :: "node \<Rightarrow> (string \<times> string) list" where
  "vless_params n = [(''encryption'', ''none''), (''flow'', ''xtls-rprx-vision''), (''security'', ''reality''),
     (''reality-public-key'', opt_or (cn_vlessPublicKey n) ''''), (''reality-short-id'', opt_or (cn_vlessShortId n) ''''),
     (''sni'', resolve_server_name (cn_vlessServerName n) ''www.microsoft.com''), (''fp'', ''chrome'')]"

definition build_vless_link :: "link_env \<Rightarrow> node \<Rightarrow> string option" where
  "build_vless_link env n = (if \<not> has_vless n then None else case preferred_address n of
      None \<Rightarrow> None
    | Some h \<Rightarrow> Some (link_url env ''vless'' (opt_or (cn_vlessUUID n) '''') (wrap_host h)
        (link_port (cn_vlessPort n)) (vless_params n) (cn_label n)))"

definition trojan_params :: "node \<Rightarrow> (string \<times> string) list" where
  "trojan_params n = [(''security'', ''tls''), (''sni'', resolve_server_name (cn_trojanServerName n) ''www.microsoft.com'')]
     @ (if link_insecure (cn_trojanInsecure n) then [(''allowInsecure'', ''1''), (''insecure'', ''1'')] else [])"

definition build_trojan_link :: "link_env \<Rightarrow> node \<Rightarrow> string option" where
  "build_trojan_link env n = (if \<not> has_trojan n then None else case preferred_address n of
      None \<Rightarrow> None
    | Some h \<Rightarrow> Some (link_url env ''trojan'' (le_encode env (opt_or (cn_trojanPassword n) '''')) (wrap_host h)
        (link_port (cn_trojanPort n)) (trojan_params n) (cn_label n)))"

definition cdn_link_host :: "share_deployment \<Rightarrow> string" where
  "cdn_link_host d =
     (if trimmed (cd_customHost d) \<noteq> '''' \<and> sd_customHostStatus d = Some ''active'' then trimmed (cd_customHost d)
      else trimmed (cd_workerHost d))"

definition cdn_params :: "string \<Rightarrow> (string \<times> string) list" where
  "cdn_params host = [(''encryption'', ''none''), (''security'', ''tls''), (''type'', ''ws''), (''sni'', host), (''host'', host),
     (''path'', ''/?ed=2560''), (''fp'', ''chrome'')]"

definition build_vless_cdn_link :: "link_env \<Rightarrow> share_deployment option \<Rightarrow> node \<Rightarrow> string option" where
  "build_vless_cdn_link env d n = (case d of
      None \<Rightarrow> None
    | Some dep \<Rightarrow> let host = cdn_link_host dep
        in if \<not> has_cdn_relay n \<or> host = '''' then None
           else Some (link_url env ''vless'' (opt_or (cn_vlessUUID n) '''') host ''443'' (cdn_params host) (cn_label n @ ''-CDN'')))"

definition build_node_protocol_links :: "link_env \<Rightarrow> node \<Rightarrow> share_deployment option \<Rightarrow> (string \<times> string) list" where
  "build_node_protocol_links env n d =
     List.map_filter (\<lambda>(l, u). map_option (Pair l) u)
       [(''Shadowsocks'', build_shadowsocks_link env n), (''Hysteria2'', build_hysteria_link env n),
        (''VLESS-Reality'', build_vless_link env n), (''Trojan'', build_trojan_link env n),
        (''VLESS-CDN'', build_vless_cdn_link env d n)]"

text \<open>What \<open>copyNodeConfig\<close> puts on the clipboard; with no link it shows an error instead.\<close>

definition copied_config :: "link_env \<Rightarrow> node \<Rightarrow> share_deployment option \<Rightarrow> string option" where
  "copied_config env n d = (let links = build_node_protocol_links env n d
     in if links = [] then None else Some (js_join [CHR 0x0A] (map (\<lambda>(l, u). l @ '': '' @ u) links)))"

subsection \<open>Progress\<close>

datatype step_state = StepDone | StepCurrent | StepPending

type_synonym translate = "string \<Rightarrow> string dict \<Rightarrow> string"

definition should_show_deployment_progress :: "node \<Rightarrow> bool" where
  "should_show_deployment_progress n \<longleftrightarrow> cn_statusText n \<noteq> Some NsConnected \<and> cn_statusText n \<noteq> Some NsError"

definition ready_words :: "string list" where
  "ready_words = [''active'', ''running'', ''ok'', ''started'', ''poweron'', ''power on'', ''power_on'']"

definition instance_ready :: "node \<Rightarrow> bool" where
  "instance_ready n = list_ex (js_includes (js_lower (opt_or (cn_status n) ''''))) ready_words"

definition raw_steps :: "node \<Rightarrow> (string \<times> bool) list" where
  "raw_steps n =
     [(''cloud.progress.submitted'', True), (''cloud.progress.provisioning'', instance_ready n),
      (''cloud.progress.waitingIp'', display_public_ipv4 (cn_ipv4 n) \<or> truthy_s (cn_ipv6 n)),
      (''cloud.progress.configuring'', has_shadowsocks n \<or> has_hysteria n \<or> has_vless n \<or> has_trojan n),
      (''cloud.progress.ready'', cn_statusText n = Some NsConnected)]"

definition step_state_at :: "nat option \<Rightarrow> nat \<Rightarrow> bool \<Rightarrow> step_state" where
  "step_state_at first k finished =
     (if finished \<or> first = None then StepDone else if first = Some k then StepCurrent else StepPending)"

definition get_deployment_steps :: "translate \<Rightarrow> node \<Rightarrow> (string \<times> step_state) list" where
  "get_deployment_steps tr n =
     (let raw = raw_steps n; first = find_index (\<lambda>x. \<not> snd x) raw
      in map (\<lambda>(k, label, finished). (tr label [], step_state_at first k finished)) (enumerate 0 raw))"

definition get_deployment_summary :: "translate \<Rightarrow> node \<Rightarrow> string" where
  "get_deployment_summary tr n =
     (let steps = get_deployment_steps tr n; current = find_index (\<lambda>x. snd x = StepCurrent) steps; total = length steps
      in tr ''cloud.progress.summary''
           [(''current'', int_text (int (case current of None \<Rightarrow> total | Some k \<Rightarrow> k + 1))), (''total'', int_text (int total)),
            (''label'', fst (steps ! (case current of None \<Rightarrow> total - 1 | Some k \<Rightarrow> k)))])"

end
