(* ===== verification/ShareLaws.thy ===== *)
theory ShareLaws
  imports ShareLinks
begin

text \<open>
  The share links of a node and the import that reads them: each link is read back, but the links of a node do not make
  the node again; and the progress that is shown for a deployment.
\<close>

subsection \<open>What is relied on\<close>

text \<open>The browser reads a link back: the parts of the address are those it was put together from.\<close>

definition reads_url ::
    "web_env \<Rightarrow> link_env \<Rightarrow> string \<Rightarrow> string \<Rightarrow> string \<Rightarrow> string \<Rightarrow> (string \<times> string) list \<Rightarrow> string \<Rightarrow> bool" where
  "reads_url web env scheme user host port params label \<longleftrightarrow>
     we_url web (link_url env scheme user host port params label)
       = Some \<lparr>ur_hostname = host, ur_port = port, ur_username = user, ur_hash = ''#'' @ le_encode env label, ur_params = params\<rparr>"

text \<open>Decoding undoes encoding, for the texts of a node with the address \<open>h\<close>.\<close>

definition browser_reads :: "web_env \<Rightarrow> link_env \<Rightarrow> node \<Rightarrow> string \<Rightarrow> bool" where
  "browser_reads web env n h \<longleftrightarrow>
     (\<forall>s. we_decode web (le_encode env s) = Some s \<and> (s \<noteq> '''' \<longrightarrow> le_encode env s \<noteq> ''''))
     \<and> we_decode web (opt_or (cn_vlessUUID n) '''') = Some (opt_or (cn_vlessUUID n) '''')
     \<and> (let c = ss_credentials n h in decode_base64 web (le_btoa env c) = c \<and> {CHR ''@'', CHR ''#'', CHR ''?''} \<inter> set (le_btoa env c) = {})
     \<and> we_url web (''ss://'' @ wrap_host h @ '':'' @ link_port (shown_port n))
         = Some \<lparr>ur_hostname = wrap_host h, ur_port = link_port (shown_port n), ur_username = '''', ur_hash = '''', ur_params = []\<rparr>
     \<and> reads_url web env ''hysteria2'' (le_encode env (opt_or (cn_hysteriaPassword n) '''')) (wrap_host h) (link_port (cn_hysteriaPort n))
         (hysteria_params n) (cn_label n)
     \<and> reads_url web env ''vless'' (opt_or (cn_vlessUUID n) '''') (wrap_host h) (link_port (cn_vlessPort n)) (vless_params n) (cn_label n)
     \<and> reads_url web env ''trojan'' (le_encode env (opt_or (cn_trojanPassword n) '''')) (wrap_host h) (link_port (cn_trojanPort n))
         (trojan_params n) (cn_label n)"

definition clean_text :: "string \<Rightarrow> bool" where
  "clean_text s \<longleftrightarrow> s \<noteq> '''' \<and> js_trim s = s"

definition port_ok :: "int option \<Rightarrow> bool" where
  "port_ok p \<longleftrightarrow> (case p of None \<Rightarrow> True | Some k \<Rightarrow> 0 \<le> k \<and> k \<le> 65535)"

text \<open>A node whose texts have no white space around them, whose ports are ports, and whose Shadowsocks password has no \<open>@\<close>.\<close>

definition shareable :: "node \<Rightarrow> string \<Rightarrow> bool" where
  "shareable n h \<longleftrightarrow> preferred_address n = Some h \<and> clean_text (cn_label n) \<and> clean_text h
     \<and> CHR ''@'' \<notin> set h \<and> CHR ''['' \<notin> set h \<and> CHR '']'' \<notin> set h
     \<and> list_all port_ok [shown_port n, cn_hysteriaPort n, cn_vlessPort n, cn_trojanPort n]
     \<and> list_all (\<lambda>v. truthy_s v \<longrightarrow> clean_text (the v)) [shown_password n, cn_hysteriaPassword n, cn_vlessUUID n,
         cn_vlessPublicKey n, cn_vlessShortId n, cn_trojanPassword n]
     \<and> CHR ''@'' \<notin> set (opt_or (shown_password n) '''')"

subsection \<open>Reading one link\<close>

text \<open>The input with the label and the address of the node.\<close>

definition link_input :: "node \<Rightarrow> string \<Rightarrow> manual_input" where
  "link_input n h = assign_ip_fields h (bare_input (cn_label n))"

lemma int_text_clean: "0 \<le> k \<Longrightarrow> list_all (\<lambda>c. \<not> js_ws c) (int_text k)"
  using nat_text_digits digit_not_ws by (auto simp: int_text_def list_all_iff)

lemma link_port_digits: "port_ok p \<Longrightarrow> c \<in> set (link_port p) \<Longrightarrow> is_digit c"
  using nat_text_digits by (cases p) (auto simp: link_port_def or_else_def port_ok_def int_text_def)

lemma link_port_read:
  assumes "port_ok p" "truthy_n p"
  shows "to_optional_port (link_port p) = Some (the p)" "link_port p \<noteq> ''''"
proof -
  obtain k where k: "p = Some k" "0 < k" "k \<le> 65535" using assms by (cases p) (auto simp: port_ok_def)
  then have "js_trim (int_text k) = int_text k" by (intro no_ws_trim int_text_clean) simp
  moreover have "int_text k \<noteq> ''''" using k by (simp add: int_text_def)
  ultimately show "to_optional_port (link_port p) = Some (the p)" "link_port p \<noteq> ''''"
    using k by (simp_all add: to_optional_port_def link_port_def parse_int_int_text or_else_def)
qed

lemma plain_host: "CHR ''['' \<notin> set h \<Longrightarrow> CHR '']'' \<notin> set h \<Longrightarrow> h \<noteq> '''' \<Longrightarrow> normalize_host h = h"
proof -
  assume "CHR ''['' \<notin> set h" "CHR '']'' \<notin> set h" "h \<noteq> ''''"
  then have "take 1 h \<noteq> ''[''" "last h \<noteq> CHR '']''" by (cases h, auto) (metis last_in_set)
  then show ?thesis by (simp add: normalize_host_def)
qed

lemma wrap_host_facts:
  assumes "clean_text h" "CHR ''['' \<notin> set h" "CHR '']'' \<notin> set h"
  shows "normalize_host (wrap_host h) = h" "wrap_host h \<noteq> ''''" "assign_ip_fields (wrap_host h) u = assign_ip_fields h u"
proof -
  have h: "h \<noteq> ''''" using assms(1) by (simp add: clean_text_def)
  have nb: "\<not> starts_with h ''[''" using assms(2) h by (cases h) (auto simp: starts_with_def)
  have own: "normalize_host h = h" using assms h by (intro plain_host)
  then show w: "normalize_host (wrap_host h) = h" using nb by (simp add: wrap_host_def) (simp add: normalize_host_def)
  show "wrap_host h \<noteq> ''''" using h by (simp add: wrap_host_def)
  show "assign_ip_fields (wrap_host h) u = assign_ip_fields h u" by (simp add: assign_ip_fields_def w own)
qed

lemma url_head_reads:
  assumes "reads_url web env scheme user (wrap_host h) (link_port p) params (cn_label n)" "shareable n h"
    "port_ok p" "truthy_n p" "\<forall>s. we_decode web (le_encode env s) = Some s"
    "secret \<lparr>ur_hostname = wrap_host h, ur_port = link_port p, ur_username = user, ur_hash = ''#'' @ le_encode env (cn_label n),
       ur_params = params\<rparr> = user" "we_decode web user = Some pw" "user \<noteq> ''''"
  shows "url_head web (link_url env scheme user (wrap_host h) (link_port p) params (cn_label n)) secret
    = Some (\<lparr>ur_hostname = wrap_host h, ur_port = link_port p, ur_username = user, ur_hash = ''#'' @ le_encode env (cn_label n),
        ur_params = params\<rparr>, link_input n h, the p, pw)"
  using assms(1) wrap_host_facts [of h] assms(2) link_port_read(1) [OF assms(3,4)] assms(5-8)
  by (simp add: url_head_def reads_url_def url_label_def link_input_def shareable_def)

lemma server_name_read: "dflt \<noteq> '''' \<Longrightarrow> resolve_server_name v dflt \<noteq> ''''"
  by (simp add: resolve_server_name_def str_or_def)

lemma one_is_true: "word_boolean ''1'' = Some True"
  by code_simp

lemma scheme_tests:
  "parse_protocol_url web (''hysteria2://'' @ r) = Inr (parse_hysteria_url web (''hysteria2://'' @ r))"
  "parse_protocol_url web (''trojan://'' @ r) = Inr (parse_trojan_url web (''trojan://'' @ r))"
  "parse_protocol_url web (''vless://'' @ r) = Inr (parse_vless_url web (''vless://'' @ r))"
  "parse_protocol_url web (''ss://'' @ r) = parse_shadowsocks_url web (''ss://'' @ r)"
  by (simp_all add: parse_protocol_url_def js_lower_def starts_with_def lower_char_def Let_def)

text \<open>The inputs that the links are read as.\<close>

definition shadowsocks_input :: "node \<Rightarrow> string \<Rightarrow> manual_input" where
  "shadowsocks_input n h = (link_input n h)\<lparr>mi_ssPort := some_port (the (shown_port n)), mi_ssPassword := shown_password n\<rparr>"

definition insecure_read :: "bool option \<Rightarrow> bool option" where
  "insecure_read flag = (if link_insecure flag then Some True else None)"

definition hysteria_input :: "node \<Rightarrow> string \<Rightarrow> manual_input" where
  "hysteria_input n h = (link_input n h)\<lparr>mi_hysteriaPort := some_port (the (cn_hysteriaPort n)),
     mi_hysteriaPassword := cn_hysteriaPassword n,
     mi_hysteriaServerName := Some (resolve_server_name (cn_hysteriaServerName n) ''www.bing.com''),
     mi_hysteriaInsecure := insecure_read (cn_hysteriaInsecure n)\<rparr>"

definition vless_input :: "node \<Rightarrow> string \<Rightarrow> manual_input" where
  "vless_input n h = (link_input n h)\<lparr>mi_vlessPort := some_port (the (cn_vlessPort n)), mi_vlessUUID := cn_vlessUUID n,
     mi_vlessPublicKey := cn_vlessPublicKey n, mi_vlessShortId := cn_vlessShortId n,
     mi_vlessServerName := Some (resolve_server_name (cn_vlessServerName n) ''www.microsoft.com'')\<rparr>"

definition trojan_input :: "node \<Rightarrow> string \<Rightarrow> manual_input" where
  "trojan_input n h = (link_input n h)\<lparr>mi_trojanPort := some_port (the (cn_trojanPort n)), mi_trojanPassword := cn_trojanPassword n,
     mi_trojanServerName := Some (resolve_server_name (cn_trojanServerName n) ''www.microsoft.com''),
     mi_trojanInsecure := insecure_read (cn_trojanInsecure n)\<rparr>"

lemma hysteria_reads:
  assumes "browser_reads web env n h" "shareable n h" "build_hysteria_link env n = Some l"
  shows "parse_protocol_url web l = Inr (Some (hysteria_input n h))"
proof -
  let ?pw = "opt_or (cn_hysteriaPassword n) ''''" and ?p = "cn_hysteriaPort n"
  let ?l = "link_url env ''hysteria2'' (le_encode env ?pw) (wrap_host h) (link_port ?p) (hysteria_params n) (cn_label n)"
  from assms(2,3) have l: "l = ?l" and has: "has_hysteria n"
    by (auto simp: build_hysteria_link_def shareable_def split: if_splits)
  then have pw: "cn_hysteriaPassword n = Some ?pw" "?pw \<noteq> ''''" "truthy_n ?p"
    by (auto simp: has_hysteria_def truthy_s_def str_or_def split: option.splits)
  have "url_head web ?l hysteria_secret = Some (\<lparr>ur_hostname = wrap_host h, ur_port = link_port ?p, ur_username = le_encode env ?pw,
      ur_hash = ''#'' @ le_encode env (cn_label n), ur_params = hysteria_params n\<rparr>, link_input n h, the ?p, ?pw)"
    using assms(1,2) pw by (intro url_head_reads) (auto simp: browser_reads_def shareable_def hysteria_secret_def or_else_def nonempty_def)
  moreover have "?l = ''hysteria2://'' @ drop 12 ?l" by (simp add: link_url_def)
  ultimately show ?thesis
    using scheme_tests(1) [of web "drop 12 ?l"] pw(1)
    by (simp add: l parse_hysteria_url_def hysteria_input_def hysteria_params_def param_def boolean_param_def nullish_def
        insecure_read_def server_name_read one_is_true)
qed

lemma trojan_reads:
  assumes "browser_reads web env n h" "shareable n h" "build_trojan_link env n = Some l"
  shows "parse_protocol_url web l = Inr (Some (trojan_input n h))"
proof -
  let ?pw = "opt_or (cn_trojanPassword n) ''''" and ?p = "cn_trojanPort n"
  let ?l = "link_url env ''trojan'' (le_encode env ?pw) (wrap_host h) (link_port ?p) (trojan_params n) (cn_label n)"
  from assms(2,3) have l: "l = ?l" and has: "has_trojan n"
    by (auto simp: build_trojan_link_def shareable_def split: if_splits)
  then have pw: "cn_trojanPassword n = Some ?pw" "?pw \<noteq> ''''" "truthy_n ?p"
    by (auto simp: has_trojan_def truthy_s_def str_or_def split: option.splits)
  have "url_head web ?l ur_username = Some (\<lparr>ur_hostname = wrap_host h, ur_port = link_port ?p, ur_username = le_encode env ?pw,
      ur_hash = ''#'' @ le_encode env (cn_label n), ur_params = trojan_params n\<rparr>, link_input n h, the ?p, ?pw)"
    using assms(1,2) pw by (intro url_head_reads) (auto simp: browser_reads_def shareable_def)
  moreover have "?l = ''trojan://'' @ drop 9 ?l" by (simp add: link_url_def)
  ultimately show ?thesis
    using scheme_tests(2) [of web "drop 9 ?l"] pw(1)
    by (simp add: l parse_trojan_url_def trojan_input_def trojan_params_def param_def boolean_param_def nullish_def
        insecure_read_def server_name_read one_is_true)
qed

lemma vless_reads:
  assumes "browser_reads web env n h" "shareable n h" "build_vless_link env n = Some l"
  shows "parse_protocol_url web l = Inr (Some (vless_input n h))"
proof -
  let ?id = "opt_or (cn_vlessUUID n) ''''" and ?p = "cn_vlessPort n"
  let ?l = "link_url env ''vless'' ?id (wrap_host h) (link_port ?p) (vless_params n) (cn_label n)"
  from assms(2,3) have l: "l = ?l" and has: "has_vless n"
    by (auto simp: build_vless_link_def shareable_def split: if_splits)
  then have pw: "cn_vlessUUID n = Some ?id" "?id \<noteq> ''''" "truthy_n ?p" "truthy_s (cn_vlessPublicKey n)" "truthy_s (cn_vlessShortId n)"
    by (auto simp: has_vless_def truthy_s_def str_or_def split: option.splits)
  then obtain k i where ki: "cn_vlessPublicKey n = Some k" "k \<noteq> ''''" "cn_vlessShortId n = Some i" "i \<noteq> ''''"
    by (auto simp: truthy_s_def split: option.splits)
  have "url_head web ?l ur_username = Some (\<lparr>ur_hostname = wrap_host h, ur_port = link_port ?p, ur_username = ?id,
      ur_hash = ''#'' @ le_encode env (cn_label n), ur_params = vless_params n\<rparr>, link_input n h, the ?p, ?id)"
    using assms(1,2) pw by (intro url_head_reads) (auto simp: browser_reads_def shareable_def)
  moreover have "?l = ''vless://'' @ drop 8 ?l" by (simp add: link_url_def)
  ultimately show ?thesis
    using scheme_tests(3) [of web "drop 8 ?l"] pw(1) ki
    by (simp add: l parse_vless_url_def vless_input_def vless_params_def param_def server_name_read str_or_def)
qed

lemma index_of_fresh: "c \<notin> set s \<Longrightarrow> index_of c (s @ c # t) = Some (length s)"
  by (induction s) (auto simp: index_of_def)

lemma before_fresh: "c \<notin> set s \<Longrightarrow> before c s = s" "c \<notin> set s \<Longrightarrow> before c (s @ c # t) = s"
  by (auto simp: before_def index_of_fresh split: option.splits) (auto simp: index_of_def dest: find_index_SomeD)

lemma includes_char: "js_includes s [c] \<longleftrightarrow> c \<in> set s"
  by (auto simp: includes_iff in_set_conv_decomp)

lemma credentials_split:
  assumes "clean_text pw"
  shows "split_credential_pair (''aes-256-gcm:'' @ pw) = Some (''aes-256-gcm'', pw)"
proof -
  have i: "index_of CHR '':'' (''aes-256-gcm:'' @ pw) = Some 11" using index_of_fresh [of "CHR '':''" "''aes-256-gcm''" pw] by simp
  have "js_trim ''aes-256-gcm'' = ''aes-256-gcm''" by code_simp
  then show ?thesis using assms unfolding split_credential_pair_def i by (simp add: clean_text_def Let_def)
qed

lemma shadowsocks_reads:
  assumes "browser_reads web env n h" "shareable n h" "build_shadowsocks_link env n = Some l"
  shows "parse_protocol_url web l = Inr (Some (shadowsocks_input n h))"
proof -
  let ?pw = "opt_or (shown_password n) ''''" and ?p = "shown_port n" and ?c = "ss_credentials n h"
  let ?b = "le_btoa env ?c" and ?f = "le_encode env (cn_label n)" and ?e = "wrap_host h @ '':'' @ link_port (shown_port n)"
  from assms(2,3) have l: "l = ''ss://'' @ ?b @ ''#'' @ ?f" and has: "has_shadowsocks n"
    by (auto simp: build_shadowsocks_link_def shareable_def split: if_splits)
  then have pw: "shown_password n = Some ?pw" "?pw \<noteq> ''''" "truthy_n ?p"
    by (auto simp: has_shadowsocks_def truthy_s_def str_or_def split: option.splits)
  have "truthy_s (shown_password n)" "the (shown_password n) = ?pw" using has pw(1) by (simp_all add: has_shadowsocks_def) (metis option.sel)
  then have clean: "clean_text ?pw" "CHR ''@'' \<notin> set ?pw" using assms(2) by (simp_all add: shareable_def)
  have "CHR ''@'' \<notin> set (link_port ?p)" using link_port_digits [of ?p] assms(2) by (force simp: shareable_def is_digit_def)
  then have clean3: "CHR ''@'' \<notin> set ?e" using assms(2) by (simp add: shareable_def wrap_host_def)
  have b: "decode_base64 web ?b = ?c" "CHR ''@'' \<notin> set ?b" "CHR ''#'' \<notin> set ?b" "CHR ''?'' \<notin> set ?b"
    using assms(1) by (auto simp: browser_reads_def Let_def)
  have c: "?c = (''aes-256-gcm:'' @ ?pw) @ CHR ''@'' # ?e" by (simp add: ss_credentials_def)
  have fresh: "CHR ''@'' \<notin> set (''aes-256-gcm:'' @ ?pw)" using clean(2) by simp
  have "js_split CHR ''@'' ?c = [''aes-256-gcm:'' @ ?pw, ?e]"
    unfolding c js_split_concat_sep [OF fresh] js_split_no_occurrence [OF clean3] ..
  moreover have "CHR ''@'' \<in> set ?c" by (simp add: c)
  moreover have "parse_endpoint web ?e = Some (wrap_host h, the ?p)"
    using assms(1) wrap_host_facts [of h] assms(2) link_port_read(1) [of ?p] pw(3)
    by (simp add: parse_endpoint_def browser_reads_def shareable_def)
  ultimately have parts: "ss_parts web ?b = (Some (''aes-256-gcm'', ?pw), Some (wrap_host h, the ?p))"
    using b credentials_split [OF clean(1)] by (simp add: ss_parts_def includes_char Let_def)
  have payload: "drop 5 (''ss://'' @ ?b @ ''#'' @ ?f) = ?b @ CHR ''#'' # ?f" by simp
  have label: "cn_label n \<noteq> ''''" using assms(2) by (simp add: shareable_def clean_text_def)
  have "we_decode web ?f = Some (cn_label n)" using assms(1) by (simp add: browser_reads_def)
  then have "parse_shadowsocks_url web (''ss://'' @ ?b @ ''#'' @ ?f) = Inr (Some (assign_ip_fields (wrap_host h)
      ((bare_input (cn_label n))\<lparr>mi_ssPort := some_port (the ?p), mi_ssPassword := Some ?pw\<rparr>)))"
    unfolding parse_shadowsocks_url_def payload Let_def
    by (simp add: index_of_fresh [OF b(3)] before_fresh b parts str_or_def label)
  moreover have "assign_ip_fields (wrap_host h) ((bare_input (cn_label n))\<lparr>mi_ssPort := some_port (the ?p), mi_ssPassword := Some ?pw\<rparr>)
      = shadowsocks_input n h"
    using wrap_host_facts(3) [of h] assms(2) pw(1)
    by (simp add: shareable_def shadowsocks_input_def link_input_def assign_ip_fields_def Let_def)
  ultimately show ?thesis using scheme_tests(4) [of web "?b @ ''#'' @ ?f"] l by simp
qed

subsection \<open>Reading a copied configuration\<close>

definition protocol_inputs :: "node \<Rightarrow> string \<Rightarrow> manual_input list" where
  "protocol_inputs n h =
     (if has_shadowsocks n then [shadowsocks_input n h] else []) @ (if has_hysteria n then [hysteria_input n h] else [])
     @ (if has_vless n then [vless_input n h] else []) @ (if has_trojan n then [trojan_input n h] else [])"

definition no_spaces :: "string \<Rightarrow> bool" where
  "no_spaces s \<longleftrightarrow> list_all (\<lambda>c. \<not> js_ws c) s"

lemma slash_of_lower: "CHR ''/'' \<in> set (js_lower s) \<Longrightarrow> CHR ''/'' \<in> set s"
proof -
  have "c = CHR ''/''" if "lower_char c = CHR ''/''" for c
  proof (rule ccontr)
    let ?m = "of_char c :: nat"
    assume "c \<noteq> CHR ''/''"
    then have r: "65 \<le> ?m \<and> ?m \<le> 90 \<or> 192 \<le> ?m \<and> ?m \<le> 222 \<and> ?m \<noteq> 215" and e: "char_of (?m + 32) = CHR ''/''"
      using that by (auto simp: lower_char_def Let_def split: if_splits)
    have "(of_char (char_of (?m + 32) :: char) :: nat) = 47" unfolding e by simp
    then show False using r by auto
  qed
  then show "CHR ''/'' \<in> set (js_lower s) \<Longrightarrow> CHR ''/'' \<in> set s" by (force simp: js_lower_def)
qed

lemma no_link_without_slash: "CHR ''/'' \<notin> set (unspaced s) \<Longrightarrow> \<not> link_here s"
  using slash_of_lower [of "unspaced s"]
  by (auto simp: link_here_def link_schemes_def list_ex_iff starts_with_iff)

lemma protocol_links_word:
  "no_spaces w \<Longrightarrow> CHR ''/'' \<notin> set w \<Longrightarrow> protocol_links (w @ CHR '' '' # s) = protocol_links s"
proof (induction w)
  case Nil
  have "js_ws CHR '' ''" by code_simp
  then show ?case by (simp add: protocol_links_skip del: protocol_links.simps)
next
  case (Cons c w)
  have "unspaced ((c # w) @ CHR '' '' # s) = c # w"
    using Cons.prems by (intro unspaced_append) (simp_all add: no_spaces_def js_ws_def)
  then have "\<not> link_here (c # w @ CHR '' '' # s)" using Cons.prems by (intro no_link_without_slash) simp
  then show ?case using Cons by (simp add: no_spaces_def)
qed

lemma copied_links_are_found:
  assumes "list_all (\<lambda>(l, u). no_spaces l \<and> CHR ''/'' \<notin> set l \<and> is_link u) links"
  shows "protocol_links (js_join [CHR 0x0A] (map (\<lambda>(l, u). l @ '': '' @ u) links)) = map snd links"
  using assms
proof (induction links)
  case Nil
  then show ?case by simp
next
  case (Cons x links)
  obtain l u where x: "x = (l, u)" by fastforce
  have word: "protocol_links (l @ '': '' @ s) = protocol_links s" for s
    using protocol_links_word [of "l @ '':''" s] Cons.prems by (simp add: x no_spaces_def js_ws_def)
  have u: "is_link u" using Cons.prems by (simp add: x)
  show ?case
  proof (cases links)
    case Nil
    then show ?thesis using protocol_links_link [OF u, of "''''"] word [of u] by (simp add: x)
  next
    case (Cons y ys)
    let ?rest = "js_join [CHR 0x0A] (map (\<lambda>(l, u). l @ '': '' @ u) links)"
    have nl: "js_ws CHR 0x0A" by code_simp
    have "protocol_links (u @ CHR 0x0A # ?rest) = u # protocol_links (CHR 0x0A # ?rest)"
      using nl by (intro protocol_links_link [OF u]) simp
    moreover have "protocol_links (CHR 0x0A # ?rest) = protocol_links ?rest" by (rule protocol_links_skip [OF nl])
    moreover have "protocol_links ?rest = map snd links" using Cons.IH Cons.prems by simp
    moreover have "js_join [CHR 0x0A] (map (\<lambda>(l, u). l @ '': '' @ u) (x # links)) = l @ '': '' @ u @ CHR 0x0A # ?rest"
      by (simp add: x Cons)
    ultimately show ?thesis using word [of "u @ CHR 0x0A # ?rest"] by (simp add: x)
  qed
qed

text \<open>The links of the protocols, with the inputs they are read as.\<close>

definition link_labels :: "string list" where
  "link_labels = [''Shadowsocks'', ''Hysteria2'', ''VLESS-Reality'', ''Trojan'', ''VLESS-CDN'']"

lemma link_labels_plain: "l \<in> set link_labels \<Longrightarrow> no_spaces l \<and> CHR ''/'' \<notin> set l"
  by (auto simp: link_labels_def no_spaces_def js_ws_def)

lemma built_links:
  assumes "browser_reads web env n h" "shareable n h"
  obtains us where "build_node_protocol_links env n d = us @ (case build_vless_cdn_link env d n of None \<Rightarrow> [] | Some u \<Rightarrow> [(''VLESS-CDN'', u)])"
    "list_all2 (\<lambda>(l, u) i. l \<in> set link_labels
        \<and> list_ex (\<lambda>p. starts_with u p \<and> length p < length u) link_schemes \<and> parse_protocol_url web u = Inr (Some i)) us (protocol_inputs n h)"
proof -
  let ?some = "\<lambda>l u. case u of None \<Rightarrow> [] | Some v \<Rightarrow> [(l, v)]"
  let ?us = "?some ''Shadowsocks'' (build_shadowsocks_link env n) @ ?some ''Hysteria2'' (build_hysteria_link env n)
    @ ?some ''VLESS-Reality'' (build_vless_link env n) @ ?some ''Trojan'' (build_trojan_link env n)"
  let ?ok = "\<lambda>(l, u) i. l \<in> set link_labels
        \<and> list_ex (\<lambda>p. starts_with u p \<and> length p < length u) link_schemes \<and> parse_protocol_url web u = Inr (Some i)"
  have h: "preferred_address n = Some h" using assms(2) by (simp add: shareable_def)
  have "list_all2 ?ok (?some ''Shadowsocks'' (build_shadowsocks_link env n)) (if has_shadowsocks n then [shadowsocks_input n h] else [])"
    using shadowsocks_reads [OF assms]
    by (auto simp: build_shadowsocks_link_def h link_labels_def link_schemes_def starts_with_def)
  moreover have "list_all2 ?ok (?some ''Hysteria2'' (build_hysteria_link env n)) (if has_hysteria n then [hysteria_input n h] else [])"
    using hysteria_reads [OF assms] by (auto simp: build_hysteria_link_def h link_labels_def link_schemes_def starts_with_def link_url_def)
  moreover have "list_all2 ?ok (?some ''VLESS-Reality'' (build_vless_link env n)) (if has_vless n then [vless_input n h] else [])"
    using vless_reads [OF assms] by (auto simp: build_vless_link_def h link_labels_def link_schemes_def starts_with_def link_url_def)
  moreover have "list_all2 ?ok (?some ''Trojan'' (build_trojan_link env n)) (if has_trojan n then [trojan_input n h] else [])"
    using trojan_reads [OF assms] by (auto simp: build_trojan_link_def h link_labels_def link_schemes_def starts_with_def link_url_def)
  ultimately have "list_all2 ?ok ?us (protocol_inputs n h)" unfolding protocol_inputs_def by (intro list_all2_appendI)
  moreover have "build_node_protocol_links env n d = ?us @ (case build_vless_cdn_link env d n of None \<Rightarrow> [] | Some u \<Rightarrow> [(''VLESS-CDN'', u)])"
    by (simp add: build_node_protocol_links_def map_filter_simps split: option.split)
  ultimately show ?thesis by (rule that [rotated])
qed

lemma parse_links_read:
  "list_all2 (\<lambda>u i. js_trim u = u \<and> parse_protocol_url web u = Inr (Some i)) us is \<Longrightarrow> parse_links web us = Inr is"
  by (induction us "is" rule: list_all2_induct) simp_all

subsection \<open>Adding the inputs\<close>

lemma add_internal_append:
  "list_all (\<lambda>i. \<exists>c. \<forall>now sample. create_manual_node now sample (insts, manual) i None = Inl (DuplicateNode c) \<and> cf_type c = ByLabel) is \<Longrightarrow>
   \<exists>ks. length ks = length is \<and> list_all (\<lambda>k. sk_reason k = ByLabel) ks
     \<and> add_manual_nodes_internal now sample insts (is @ rest) manual
       = (case add_manual_nodes_internal (\<lambda>k. now (k + length is)) (\<lambda>k. sample (k + length is)) insts rest manual of
           (Inl e, m) \<Rightarrow> (Inl e, m) | (Inr (added, skipped), m) \<Rightarrow> (Inr (added, ks @ skipped), m))"
proof (induction "is" arbitrary: now sample)
  case Nil
  then show ?case by (simp split: prod.split sum.split)
next
  case (Cons i "is")
  obtain c where c: "create_manual_node (now 0) (sample 0) (insts, manual) i None = Inl (DuplicateNode c)" "cf_type c = ByLabel"
    using Cons.prems by auto
  obtain ks where ks: "length ks = length is" "list_all (\<lambda>k. sk_reason k = ByLabel) ks"
    "add_manual_nodes_internal (\<lambda>k. now (Suc k)) (\<lambda>k. sample (Suc k)) insts (is @ rest) manual
       = (case add_manual_nodes_internal (\<lambda>k. now (Suc (k + length is))) (\<lambda>k. sample (Suc (k + length is))) insts rest manual of
           (Inl e, m) \<Rightarrow> (Inl e, m) | (Inr (added, skipped), m) \<Rightarrow> (Inr (added, ks @ skipped), m))"
    using Cons.IH [of "\<lambda>k. now (Suc k)" "\<lambda>k. sample (Suc k)"] Cons.prems by auto
  have "sk_reason (skip_of c i) = ByLabel" using c(2) by (simp add: skip_of_def)
  then show ?case using c(1) ks by (intro exI [of _ "skip_of c i # ks"]) (simp split: prod.split sum.split)
qed

text \<open>No node has the label or the address.\<close>

definition apart_from :: "string \<Rightarrow> string \<Rightarrow> node list \<Rightarrow> bool" where
  "apart_from label h ns \<longleftrightarrow> list_all (\<lambda>m. cn_label m \<noteq> label \<and> cn_ipv4 m \<noteq> Some h \<and> cn_ipv6 m \<noteq> Some h) ns"

text \<open>An input for the node with the given label and the single address \<open>h\<close>.\<close>

definition input_at :: "string \<Rightarrow> string \<Rightarrow> manual_input \<Rightarrow> bool" where
  "input_at label h i \<longleftrightarrow> mi_label i = label
     \<and> (mi_ipv4 i = Some h \<and> mi_ipv6 i = None \<or> mi_ipv4 i = None \<and> mi_ipv6 i = Some h)"

lemma conflict_apart:
  assumes "input_at label h i" "clean_text h" "clean_text label" "apart_from label h ms" "m \<in> set ms"
  shows "conflict_with label (Some (js_trim (or_else (mi_ipv4 i) ''''))) (Some (js_trim (or_else (mi_ipv6 i) ''''))) None m = None"
  using assms by (auto simp: input_at_def apart_from_def conflict_with_def clean_text_def list_all_iff or_else_def js_trim_def trim_left_def)

lemma js_trim_Nil [simp]: "js_trim '''' = ''''"
  by (simp add: js_trim_def trim_left_def)

lemma create_at:
  assumes i: "input_at label h i" and c: "clean_text h" "clean_text label"
    and free: "apart_from label h (manual @ filter (\<lambda>m. \<not> is_manual m) insts)"
  shows "create_manual_node now sample (insts, manual) i None =
    (let n = manual_node now sample label (or_else (mi_ipv4 i) '''') (or_else (mi_ipv6 i) '''') i in if has_protocol n then Inr n else Inl ProtocolRequired)"
proof -
  have trims: "js_trim label = label" "js_trim (or_else (mi_ipv4 i) '''') = or_else (mi_ipv4 i) ''''"
    "js_trim (or_else (mi_ipv6 i) '''') = or_else (mi_ipv6 i) ''''" "or_else (mi_ipv4 i) '''' \<noteq> '''' \<or> or_else (mi_ipv6 i) '''' \<noteq> ''''"
    using i c by (auto simp: input_at_def clean_text_def or_else_def)
  have none: "conflict_with label (Some (or_else (mi_ipv4 i) '''')) (Some (or_else (mi_ipv6 i) '''')) None m = None"
    if "m \<in> set (manual @ filter (\<lambda>m. \<not> is_manual m) insts)" for m
    using conflict_apart [OF i c free that] by (simp add: trims)
  have "first_some (conflict_with label (Some (or_else (mi_ipv4 i) '''')) (Some (or_else (mi_ipv6 i) '''')) None) ms = None"
    if "set ms \<subseteq> set (manual @ filter (\<lambda>m. \<not> is_manual m) insts)" for ms
    using none that by (subst first_some_None) blast
  then have "find_manual_conflict (insts, manual)
      (i\<lparr>mi_label := label, mi_ipv4 := Some (or_else (mi_ipv4 i) ''''), mi_ipv6 := Some (or_else (mi_ipv6 i) '''')\<rparr>) None = None"
    by (simp add: find_manual_conflict_def trims)
  then show ?thesis using i c trims by (simp add: create_manual_node_def input_at_def clean_text_def Let_def)
qed

lemma create_again:
  assumes i: "input_at label h i" and c: "clean_text h" "clean_text label"
    and free: "apart_from label h manual" and n: "cn_label n = label"
  shows "\<exists>c. \<forall>now sample. create_manual_node now sample (insts, manual @ [n]) i None = Inl (DuplicateNode c) \<and> cf_type c = ByLabel"
proof -
  have trims: "js_trim label = label" "js_trim (or_else (mi_ipv4 i) '''') = or_else (mi_ipv4 i) ''''"
    "js_trim (or_else (mi_ipv6 i) '''') = or_else (mi_ipv6 i) ''''" "or_else (mi_ipv4 i) '''' \<noteq> '''' \<or> or_else (mi_ipv6 i) '''' \<noteq> ''''"
    using i c by (auto simp: input_at_def clean_text_def or_else_def)
  let ?f = "conflict_with label (Some (or_else (mi_ipv4 i) '''')) (Some (or_else (mi_ipv6 i) '''')) None"
  have "?f m = None" if "m \<in> set manual" for m using conflict_apart [OF i c free that] by (simp add: trims)
  then have "first_some ?f (manual @ [n]) = ?f n" by (induction manual) (simp_all split: option.split)
  moreover have "?f n = Some \<lparr>cf_type = ByLabel, cf_value = label, cf_existing = n\<rparr>"
    using n c(2) by (simp add: conflict_with_def clean_text_def)
  ultimately have "find_manual_conflict (insts, manual @ [n])
      (i\<lparr>mi_label := label, mi_ipv4 := Some (or_else (mi_ipv4 i) ''''), mi_ipv6 := Some (or_else (mi_ipv6 i) '''')\<rparr>) None
    = Some \<lparr>cf_type = ByLabel, cf_value = label, cf_existing = n\<rparr>"
    by (simp add: find_manual_conflict_def trims)
  then show ?thesis using i c trims
    by (intro exI [of _ "\<lparr>cf_type = ByLabel, cf_value = label, cf_existing = n\<rparr>"])
      (simp add: create_manual_node_def input_at_def clean_text_def Let_def)
qed

text \<open>The protocols of a node, in the order of its links.\<close>

definition node_protocols :: "node \<Rightarrow> protocol list" where
  "node_protocols n = (if has_shadowsocks n then [Shadowsocks] else []) @ (if has_hysteria n then [Hysteria2] else [])
     @ (if has_vless n then [Vless] else []) @ (if has_trojan n then [Trojan] else [])"

lemma sanitize_some_port: "0 < p \<Longrightarrow> p \<le> 65535 \<Longrightarrow> sanitize_port (some_port p) = Some p"
  by (simp add: sanitize_port_def some_port_def js_trunc_def)

lemma trim_clean: "clean_text s \<Longrightarrow> trim_or_none (Some s) = Some s"
  by (simp add: trim_or_none_def clean_text_def nonempty_def)

lemma link_input_at:
  assumes "shareable n h"
  shows "input_at (cn_label n) h (link_input n h)"
proof -
  have h: "h \<noteq> ''''" using assms by (simp add: shareable_def clean_text_def)
  have "normalize_host h = h" using assms h by (intro plain_host) (simp_all add: shareable_def)
  then show ?thesis using h by (simp add: link_input_def input_at_def assign_ip_fields_def bare_input_def)
qed

lemma input_at_fields [simp]:
  "input_at l h (i\<lparr>mi_ssPort := p, mi_ssPassword := v\<rparr>) = input_at l h i"
  "input_at l h (i\<lparr>mi_hysteriaPort := p, mi_hysteriaPassword := v, mi_hysteriaServerName := w, mi_hysteriaInsecure := b\<rparr>) = input_at l h i"
  "input_at l h (i\<lparr>mi_vlessPort := p, mi_vlessUUID := v, mi_vlessPublicKey := k, mi_vlessShortId := j, mi_vlessServerName := w\<rparr>)
     = input_at l h i"
  "input_at l h (i\<lparr>mi_trojanPort := p, mi_trojanPassword := v, mi_trojanServerName := w, mi_trojanInsecure := b\<rparr>) = input_at l h i"
  by (simp_all add: input_at_def)

lemma protocol_inputs_at:
  assumes "shareable n h" "i \<in> set (protocol_inputs n h)"
  shows "input_at (cn_label n) h i"
proof -
  have "i \<in> {shadowsocks_input n h, hysteria_input n h, vless_input n h, trojan_input n h}"
    using assms(2) by (auto simp: protocol_inputs_def split: if_splits)
  then show ?thesis using link_input_at [OF assms(1)]
    by (auto simp: shadowsocks_input_def hysteria_input_def vless_input_def trojan_input_def)
qed

lemma port_of_shared: "port_ok p \<Longrightarrow> truthy_n p \<Longrightarrow> sanitize_port (some_port (the p)) = p \<and> p \<noteq> None"
  by (cases p) (auto simp: port_ok_def sanitize_some_port)

lemma text_of_shared: "truthy_s v \<Longrightarrow> clean_text (the v) \<Longrightarrow> trim_or_none v = v"
  by (cases v) (auto simp: trim_clean)

lemma bare_input_fields [simp]:
  "mi_ssPort (link_input n h) = None" "mi_hysteriaPort (link_input n h) = None" "mi_vlessPort (link_input n h) = None"
  "mi_trojanPort (link_input n h) = None" "mi_ssPassword (link_input n h) = None" "mi_hysteriaPassword (link_input n h) = None"
  "mi_vlessUUID (link_input n h) = None" "mi_trojanPassword (link_input n h) = None"
  by (simp_all add: link_input_def assign_ip_fields_def bare_input_def Let_def)

lemma no_port: "sanitize_port None = None" "trim_or_none None = None"
  by (simp_all add: sanitize_port_def trim_or_none_def)

lemma manual_node_ports [simp]:
  "cn_ssPort (manual_node now sample l a b i) = sanitize_port (mi_ssPort i)"
  "cn_hysteriaPort (manual_node now sample l a b i) = sanitize_port (mi_hysteriaPort i)"
  "cn_vlessPort (manual_node now sample l a b i) = sanitize_port (mi_vlessPort i)"
  "cn_trojanPort (manual_node now sample l a b i) = sanitize_port (mi_trojanPort i)"
  "cn_ssPassword (manual_node now sample l a b i) = trim_or_none (mi_ssPassword i)"
  "cn_hysteriaPassword (manual_node now sample l a b i) = trim_or_none (mi_hysteriaPassword i)"
  "cn_vlessUUID (manual_node now sample l a b i) = trim_or_none (mi_vlessUUID i)"
  "cn_vlessPublicKey (manual_node now sample l a b i) = trim_or_none (mi_vlessPublicKey i)"
  "cn_vlessShortId (manual_node now sample l a b i) = trim_or_none (mi_vlessShortId i)"
  "cn_trojanPassword (manual_node now sample l a b i) = trim_or_none (mi_trojanPassword i)"
  "cn_port (manual_node now sample l a b i) = None" "cn_password (manual_node now sample l a b i) = None"
  by (simp_all add: manual_node_def bare_node_def Let_def)

lemma first_created:
  assumes "shareable n h" "protocol_inputs n h = i # is"
  shows "has_protocol (manual_node now sample l a b i) \<and> node_protocols (manual_node now sample l a b i) = take 1 (node_protocols n)"
proof -
  note sh = assms(1) [unfolded shareable_def]
  consider (ss) "has_shadowsocks n" "i = shadowsocks_input n h"
    | (hy) "\<not> has_shadowsocks n" "has_hysteria n" "i = hysteria_input n h"
    | (vl) "\<not> has_shadowsocks n" "\<not> has_hysteria n" "has_vless n" "i = vless_input n h"
    | (tr) "\<not> has_shadowsocks n" "\<not> has_hysteria n" "\<not> has_vless n" "has_trojan n" "i = trojan_input n h"
    using assms(2) by (auto simp: protocol_inputs_def split: if_splits)
  then show ?thesis
  proof cases
    case ss
    then have "sanitize_port (some_port (the (shown_port n))) = shown_port n" "trim_or_none (shown_password n) = shown_password n"
      using sh port_of_shared text_of_shared by (auto simp: has_shadowsocks_def)
    then show ?thesis using ss
      by (simp add: shadowsocks_input_def no_port has_protocol_def node_protocols_def has_hysteria_def has_vless_def has_trojan_def)
        (simp add: has_shadowsocks_def shown_port_def shown_password_def no_port)
  next
    case hy
    then have "sanitize_port (some_port (the (cn_hysteriaPort n))) = cn_hysteriaPort n" "trim_or_none (cn_hysteriaPassword n) = cn_hysteriaPassword n"
      using sh port_of_shared text_of_shared by (auto simp: has_hysteria_def)
    then show ?thesis using hy
      by (simp add: hysteria_input_def no_port has_protocol_def node_protocols_def has_vless_def has_trojan_def)
        (simp add: has_hysteria_def has_shadowsocks_def shown_port_def shown_password_def no_port)
  next
    case vl
    then have "sanitize_port (some_port (the (cn_vlessPort n))) = cn_vlessPort n" "trim_or_none (cn_vlessUUID n) = cn_vlessUUID n"
      "trim_or_none (cn_vlessPublicKey n) = cn_vlessPublicKey n" "trim_or_none (cn_vlessShortId n) = cn_vlessShortId n"
      using sh port_of_shared text_of_shared by (auto simp: has_vless_def)
    then show ?thesis using vl
      by (simp add: vless_input_def no_port has_protocol_def node_protocols_def has_trojan_def)
        (simp add: has_vless_def has_hysteria_def has_shadowsocks_def shown_port_def shown_password_def no_port)
  next
    case tr
    then have "sanitize_port (some_port (the (cn_trojanPort n))) = cn_trojanPort n" "trim_or_none (cn_trojanPassword n) = cn_trojanPassword n"
      using sh port_of_shared text_of_shared by (auto simp: has_trojan_def)
    then show ?thesis using tr
      by (simp add: trojan_input_def no_port has_protocol_def node_protocols_def)
        (simp add: has_trojan_def has_vless_def has_hysteria_def has_shadowsocks_def shown_port_def shown_password_def no_port)
  qed
qed

text \<open>What the import reads from a copied configuration.\<close>

definition copied :: "web_env \<Rightarrow> link_env \<Rightarrow> node \<Rightarrow> share_deployment option \<Rightarrow> string \<Rightarrow> bool" where
  "copied web env n d raw \<longleftrightarrow> copied_config env n d = Some raw \<and> we_json web raw = None
     \<and> list_all (\<lambda>(l, u). no_spaces u) (build_node_protocol_links env n d)"

lemma scheme_is_link:
  assumes "list_ex (\<lambda>p. starts_with u p \<and> length p < length u) link_schemes" "no_spaces u"
  shows "is_link u"
proof -
  obtain p where p: "p \<in> set link_schemes" "starts_with u p" "length p < length u" using assms(1) by (auto simp: list_ex_iff)
  have "\<forall>p \<in> set link_schemes. js_lower p = p" by code_simp
  then have "starts_with (js_lower u) p" using p(1,2) by (auto simp: starts_with_iff js_lower_def)
  then show ?thesis using p(1,3) assms(2) by (auto simp: is_link_def no_spaces_def list_ex_iff)
qed

lemma trimmed_links:
  "list_all2 P xs is \<Longrightarrow> list_all (\<lambda>(l, u). no_spaces u) xs \<Longrightarrow> (\<And>x i. P x i \<Longrightarrow> parse_protocol_url web (snd x) = Inr (Some i))
     \<Longrightarrow> list_all2 (\<lambda>u i. js_trim u = u \<and> parse_protocol_url web u = Inr (Some i)) (map snd xs) is"
  by (induction xs "is" rule: list_all2_induct) (auto simp: no_spaces_def no_ws_trim)

lemma partner: "list_all2 P xs ys \<Longrightarrow> x \<in> set xs \<Longrightarrow> \<exists>y. P x y"
  by (induction xs ys rule: list_all2_induct) auto

lemma copied_inputs:
  assumes "browser_reads web env n h" "shareable n h" "copied web env n d raw"
    and cdn: "case build_vless_cdn_link env d n of None \<Rightarrow> cs = []
      | Some u \<Rightarrow> \<exists>i. cs = [i] \<and> starts_with u ''vless://'' \<and> 8 < length u \<and> parse_protocol_url web u = Inr (Some i)"
  shows "parse_imported_nodes web raw = Inr (protocol_inputs n h @ cs)"
proof -
  let ?ok = "\<lambda>(l, u) i. l \<in> set link_labels
        \<and> list_ex (\<lambda>p. starts_with u p \<and> length p < length u) link_schemes \<and> parse_protocol_url web u = Inr (Some i)"
  let ?links = "build_node_protocol_links env n d"
  obtain us where us: "?links = us @ (case build_vless_cdn_link env d n of None \<Rightarrow> [] | Some u \<Rightarrow> [(''VLESS-CDN'', u)])"
    "list_all2 (\<lambda>(l, u) i. l \<in> set link_labels
        \<and> list_ex (\<lambda>p. starts_with u p \<and> length p < length u) link_schemes \<and> parse_protocol_url web u = Inr (Some i)) us (protocol_inputs n h)"
    using built_links [OF assms(1,2)] .
  have "list_all2 ?ok us (protocol_inputs n h)" by (rule us(2))
  moreover have "list_all2 ?ok (case build_vless_cdn_link env d n of None \<Rightarrow> [] | Some u \<Rightarrow> [(''VLESS-CDN'', u)]) cs"
    using cdn by (auto simp: link_schemes_def link_labels_def split: option.splits)
  ultimately have ok: "list_all2 ?ok ?links (protocol_inputs n h @ cs)" unfolding us(1) by (rule list_all2_appendI)
  have spaces: "list_all (\<lambda>(l, u). no_spaces u) ?links" using assms(3) by (simp add: copied_def)
  have each: "\<exists>i. ?ok x i" if "x \<in> set ?links" for x
    by (rule partner [OF ok that])
  have "no_spaces l \<and> CHR ''/'' \<notin> set l \<and> is_link u" if x: "(l, u) \<in> set ?links" for l u
  proof -
    obtain i where i: "?ok (l, u) i" using each [OF x] by blast
    have "no_spaces u" using spaces x by (auto simp: list_all_iff)
    then show ?thesis using i link_labels_plain [of l] scheme_is_link [of u] by simp
  qed
  then have good: "list_all (\<lambda>(l, u). no_spaces l \<and> CHR ''/'' \<notin> set l \<and> is_link u) ?links"
    by (auto simp: list_all_iff)
  have raw: "raw = js_join [CHR 0x0A] (map (\<lambda>(l, u). l @ '': '' @ u) ?links)" "?links \<noteq> []"
    using assms(3) by (auto simp: copied_def copied_config_def Let_def split: if_splits)
  have found: "protocol_links raw = map snd ?links" unfolding raw(1) by (rule copied_links_are_found [OF good])
  have "list_all2 (\<lambda>u i. js_trim u = u \<and> parse_protocol_url web u = Inr (Some i)) (map snd ?links) (protocol_inputs n h @ cs)"
    by (rule trimmed_links [OF ok spaces]) auto
  from parse_links_read [OF this] have "parse_protocol_list web raw = Inr (protocol_inputs n h @ cs)"
    by (simp add: parse_protocol_list_def found)
  moreover have "protocol_inputs n h @ cs \<noteq> []" using ok raw(2) by auto
  moreover have "we_json web raw = None" using assms(3) by (simp add: copied_def)
  ultimately show ?thesis by (simp add: parse_imported_nodes_def)
qed

subsection \<open>Properties: links read back\<close>


subsection \<open>Properties: a copied configuration does not make the node again\<close>

lemma import_of_inputs:
  assumes "shareable n h" "protocol_inputs n h \<noteq> []"
    and "apart_from (cn_label n) h (manual @ filter (\<lambda>m. \<not> is_manual m) insts)"
  obtains n' ks where "node_protocols n' = take 1 (node_protocols n)" "cn_label n' = cn_label n"
    "cn_ipv4 n' \<in> {Some h, Some ''''}" "cn_ipv6 n' \<in> {Some h, Some ''''}"
    "length ks = length (protocol_inputs n h) - 1" "list_all (\<lambda>k. sk_reason k = ByLabel) ks"
    "add_manual_nodes_internal now sample insts (protocol_inputs n h @ rest) manual
       = (case add_manual_nodes_internal (\<lambda>k. now (k + length (protocol_inputs n h))) (\<lambda>k. sample (k + length (protocol_inputs n h)))
            insts rest (manual @ [n']) of
           (Inl e, m) \<Rightarrow> (Inl e, m) | (Inr (added, skipped), m) \<Rightarrow> (Inr (n' # added, ks @ skipped), m))"
proof -
  obtain i "is" where i: "protocol_inputs n h = i # is" using assms(2) by (cases "protocol_inputs n h") auto
  have clean: "clean_text h" "clean_text (cn_label n)" using assms(1) by (simp_all add: shareable_def)
  have at: "input_at (cn_label n) h j" if "j \<in> set (i # is)" for j using protocol_inputs_at [OF assms(1)] that i by simp
  let ?n = "manual_node (now 0) (sample 0) (cn_label n) (or_else (mi_ipv4 i) '''') (or_else (mi_ipv6 i) '''') i"
  have made: "create_manual_node (now 0) (sample 0) (insts, manual) i None = Inr ?n"
    using create_at [OF at [of i] clean assms(3)] first_created [OF assms(1) i] by (simp add: Let_def)
  have free: "apart_from (cn_label n) h manual" using assms(3) by (simp add: apart_from_def)
  have "list_all (\<lambda>j. \<exists>c. \<forall>now sample. create_manual_node now sample (insts, manual @ [?n]) j None = Inl (DuplicateNode c) \<and> cf_type c = ByLabel) is"
    unfolding list_all_iff using create_again [OF at clean free, of _ ?n] by auto
  from add_internal_append [OF this, of "\<lambda>k. now (Suc k)" "\<lambda>k. sample (Suc k)" rest] obtain ks where ks: "length ks = length is" "list_all (\<lambda>k. sk_reason k = ByLabel) ks"
    "add_manual_nodes_internal (\<lambda>k. now (Suc k)) (\<lambda>k. sample (Suc k)) insts (is @ rest) (manual @ [?n])
       = (case add_manual_nodes_internal (\<lambda>k. now (Suc (k + length is))) (\<lambda>k. sample (Suc (k + length is))) insts rest (manual @ [?n]) of
           (Inl e, m) \<Rightarrow> (Inl e, m) | (Inr (added, skipped), m) \<Rightarrow> (Inr (added, ks @ skipped), m))"
    by auto
  show ?thesis
  proof (rule that [of ?n ks])
    show "node_protocols ?n = take 1 (node_protocols n)" using first_created [OF assms(1) i] by simp
    show "cn_ipv4 ?n \<in> {Some h, Some ''''}" "cn_ipv6 ?n \<in> {Some h, Some ''''}"
      using at [of i] by (auto simp: input_at_def or_else_def)
  qed (use ks made i in \<open>simp_all split: prod.split sum.split\<close>)
qed

lemma length_protocols: "length (protocol_inputs n h) = length (node_protocols n)"
  by (simp add: protocol_inputs_def node_protocols_def)


text \<open>The input that the link through the CDN is read as: a VLESS node at the host of the worker, without a key.\<close>

definition cdn_input :: "node \<Rightarrow> string \<Rightarrow> manual_input" where
  "cdn_input n host = (assign_ip_fields host (bare_input (cn_label n @ ''-CDN'')))
     \<lparr>mi_vlessPort := some_port 443, mi_vlessUUID := cn_vlessUUID n, mi_vlessServerName := Some host\<rparr>"

lemma cdn_reads:
  assumes "browser_reads web env n h" "shareable n h" "build_vless_cdn_link env (Some dep) n = Some u"
    and "cdn_link_host dep = host" "CHR '':'' \<notin> set host" "CHR ''['' \<notin> set host" "CHR '']'' \<notin> set host"
    and "reads_url web env ''vless'' (opt_or (cn_vlessUUID n) '''') host ''443'' (cdn_params host) (cn_label n @ ''-CDN'')"
  shows "parse_protocol_url web u = Inr (Some (cdn_input n host))" "starts_with u ''vless://''" "8 < length u" "host \<noteq> ''''"
proof -
  let ?id = "opt_or (cn_vlessUUID n) ''''"
  let ?l = "link_url env ''vless'' ?id host ''443'' (cdn_params host) (cn_label n @ ''-CDN'')"
  from assms(3,4) have u: "u = ?l" "has_cdn_relay n" and host: "host \<noteq> ''''"
    by (auto simp: build_vless_cdn_link_def Let_def split: if_splits)
  then have id: "cn_vlessUUID n = Some ?id" "?id \<noteq> ''''" by (auto simp: has_cdn_relay_def truthy_s_def str_or_def split: option.splits)
  have port: "to_optional_port ''443'' = Some 443" by code_simp
  have texts: "we_decode web ?id = Some ?id" "we_decode web (le_encode env (cn_label n @ ''-CDN'')) = Some (cn_label n @ ''-CDN'')"
    using assms(1) unfolding browser_reads_def by blast+
  have own: "normalize_host host = host" using assms host by (intro plain_host)
  have "url_head web ?l ur_username = Some (\<lparr>ur_hostname = host, ur_port = ''443'', ur_username = ?id,
      ur_hash = ''#'' @ le_encode env (cn_label n @ ''-CDN''), ur_params = cdn_params host\<rparr>,
      assign_ip_fields host (bare_input (cn_label n @ ''-CDN'')), 443, ?id)"
    using assms(8) port id(2) host texts by (simp add: url_head_def reads_url_def url_label_def)
  moreover have "?l = ''vless://'' @ drop 8 ?l" by (simp add: link_url_def)
  ultimately show "parse_protocol_url web u = Inr (Some (cdn_input n host))"
    using scheme_tests(3) [of web "drop 8 ?l"] id host
    by (simp add: u parse_vless_url_def cdn_input_def cdn_params_def param_def assign_ip_fields_def own bare_input_def Let_def)
  show "starts_with u ''vless://''" "8 < length u" "host \<noteq> ''''" using host by (simp_all add: u link_url_def starts_with_def)
qed

lemma trimmed_clean: "trimmed v \<noteq> '''' \<Longrightarrow> clean_text (trimmed v)"
  by (cases v) (simp_all add: trimmed_def clean_text_def)

lemma clean_hd: "clean_text s \<Longrightarrow> \<not> js_ws (hd s)"
proof -
  assume s: "clean_text s"
  have "length (js_trim s) \<le> length (trim_left s)"
    using length_dropWhile_le [of js_ws "rev (trim_left s)"] by (simp add: js_trim_def trim_left_def)
  moreover have "length (trim_left s) \<le> length s" by (simp add: trim_left_def length_dropWhile_le)
  ultimately have "length (trim_left s) = length s" using s by (simp add: clean_text_def)
  moreover have "suffix (trim_left s) s" by (rule trim_left_suffix)
  ultimately have "trim_left s = s" by (metis suffix_def append_eq_append_conv append_Nil)
  then show ?thesis using trim_left_no_ws [of s] s by (simp add: clean_text_def)
qed

lemma clean_cdn: "clean_text s \<Longrightarrow> clean_text (s @ ''-CDN'')"
proof -
  assume s: "clean_text s"
  then obtain c t where t: "s = c # t" by (cases s) (simp_all add: clean_text_def)
  have "\<not> js_ws c" using clean_hd [OF s] by (simp add: t)
  moreover have "\<not> js_ws CHR ''N''" by code_simp
  ultimately show ?thesis by (simp add: clean_text_def t js_trim_def trim_left_def)
qed

text \<open>
  A node with a CDN worker cannot be imported at all. The link through the worker is read as a VLESS node without a key, which is no protocol: the
  import of the copied configuration ends with that error, after the first protocol was entered into the list.
\<close>

theorem copied_cdn_link_fails_the_import:
  assumes "browser_reads web env n h" and "shareable n h" and "copied web env n (Some dep) raw" and "node_protocols n \<noteq> []"
    and "build_vless_cdn_link env (Some dep) n = Some u" and "cdn_link_host dep = host"
    and "CHR '':'' \<notin> set host" "CHR ''['' \<notin> set host" "CHR '']'' \<notin> set host" and "host \<noteq> h"
    and "reads_url web env ''vless'' (opt_or (cn_vlessUUID n) '''') host ''443'' (cdn_params host) (cn_label n @ ''-CDN'')"
    and "apart_from (cn_label n) h (manual @ filter (\<lambda>m. \<not> is_manual m) insts)"
    and "apart_from (cn_label n @ ''-CDN'') host (manual @ filter (\<lambda>m. \<not> is_manual m) insts)"
  shows "\<exists>us n'. parse_imported_nodes web raw = Inr us
    \<and> add_manual_nodes_internal now sample insts us manual = (Inl ProtocolRequired, manual @ [n'])
    \<and> node_protocols n' = take 1 (node_protocols n)"
proof -
  note cdn = cdn_reads [OF assms(1,2,5,6-9,11)]
  have read: "parse_imported_nodes web raw = Inr (protocol_inputs n h @ [cdn_input n host])"
    using copied_inputs [OF assms(1-3), of "[cdn_input n host]"] assms(5) cdn by simp
  have "protocol_inputs n h \<noteq> []" using assms(4) length_protocols [of n h] by auto
  from import_of_inputs [OF assms(2) this assms(12), of now sample "[cdn_input n host]"] obtain n' ks where n':
    "node_protocols n' = take 1 (node_protocols n)" "cn_label n' = cn_label n"
    "cn_ipv4 n' \<in> {Some h, Some ''''}" "cn_ipv6 n' \<in> {Some h, Some ''''}"
    "add_manual_nodes_internal now sample insts (protocol_inputs n h @ [cdn_input n host]) manual
       = (case add_manual_nodes_internal (\<lambda>k. now (k + length (protocol_inputs n h))) (\<lambda>k. sample (k + length (protocol_inputs n h)))
            insts [cdn_input n host] (manual @ [n']) of
           (Inl e, m) \<Rightarrow> (Inl e, m) | (Inr (added, skipped), m) \<Rightarrow> (Inr (n' # added, ks @ skipped), m))" by blast
  have "normalize_host host = host" using assms(8,9) cdn(4) by (intro plain_host)
  then have at: "input_at (cn_label n @ ''-CDN'') host (cdn_input n host)"
    using assms(7) cdn(4) by (simp add: input_at_def cdn_input_def assign_ip_fields_def includes_char bare_input_def)
  have clean: "clean_text host" "clean_text (cn_label n @ ''-CDN'')"
    using cdn(4) assms(2,6) clean_cdn [of "cn_label n"] trimmed_clean by (auto simp: cdn_link_host_def shareable_def split: if_splits)
  have "apart_from (cn_label n @ ''-CDN'') host ((manual @ [n']) @ filter (\<lambda>m. \<not> is_manual m) insts)"
    using assms(10,13) n'(2-4) cdn(4) by (auto simp: apart_from_def)
  note made = create_at [OF at clean this]
  have "\<not> has_protocol (manual_node t s l a b (cdn_input n host))" for t s l a b
    by (simp add: has_protocol_def cdn_input_def assign_ip_fields_def bare_input_def no_port Let_def)
  then have "create_manual_node t s (insts, manual @ [n']) (cdn_input n host) None = Inl ProtocolRequired" for t s
    using made by (simp only: Let_def if_False)
  then have "add_manual_nodes_internal now sample insts (protocol_inputs n h @ [cdn_input n host]) manual
      = (Inl ProtocolRequired, manual @ [n'])" by (simp add: n'(5))
  then show ?thesis using read n'(1) by blast
qed

subsection \<open>A concrete node\<close>

definition shared_node :: node where
  "shared_node = (bare_node ''i'' ''tokyo'')\<lparr>cn_ipv4 := Some ''203.0.113.5'', cn_ssPort := Some 8388, cn_ssPassword := Some ''pw'',
     cn_hysteriaPort := Some 443, cn_hysteriaPassword := Some ''hy'', cn_vlessUUID := Some ''id'', cn_vlessRelayPort := Some 8080\<rparr>"

definition shared_links :: link_env where
  "shared_links = \<lparr>le_btoa = (\<lambda>_. ''QUJD''), le_encode = (\<lambda>s. s), le_query = (\<lambda>ps. concat (map (\<lambda>(k, v). k @ ''='' @ v @ ''&'') ps))\<rparr>"

definition shared_parts :: "string \<Rightarrow> string \<Rightarrow> string \<Rightarrow> string \<Rightarrow> (string \<times> string) list \<Rightarrow> string \<Rightarrow> string \<times> url_parts" where
  "shared_parts scheme user host port params label = (link_url shared_links scheme user host port params label,
     \<lparr>ur_hostname = host, ur_port = port, ur_username = user, ur_hash = ''#'' @ label, ur_params = params\<rparr>)"

definition worker_host :: string where "worker_host = ''w.workers.dev''"

definition shared_deployment :: share_deployment where
  "shared_deployment = \<lparr>cd_workerHost = Some worker_host, cd_customHost = None, cd_pathSecret = Some ''k'', sd_customHostStatus = None\<rparr>"

definition shared_web :: web_env where
  "shared_web = \<lparr>we_json = (\<lambda>_. None),
     we_url = map_of [
       (''ss://203.0.113.5:8388'', \<lparr>ur_hostname = ''203.0.113.5'', ur_port = ''8388'', ur_username = '''', ur_hash = '''', ur_params = []\<rparr>),
       shared_parts ''hysteria2'' ''hy'' ''203.0.113.5'' ''443'' (hysteria_params shared_node) ''tokyo'',
       shared_parts ''vless'' ''id'' ''203.0.113.5'' ''0'' (vless_params shared_node) ''tokyo'',
       shared_parts ''trojan'' '''' ''203.0.113.5'' ''0'' (trojan_params shared_node) ''tokyo'',
       shared_parts ''vless'' ''id'' worker_host ''443'' (cdn_params worker_host) ''tokyo-CDN''],
     we_decode = Some, we_atob = (\<lambda>_. Some (ss_credentials shared_node ''203.0.113.5''))\<rparr>"

lemma shared_node_facts:
  "shareable shared_node ''203.0.113.5''" "node_protocols shared_node = [Shadowsocks, Hysteria2]"
  "build_vless_cdn_link shared_links None shared_node = None"
  by code_simp+

lemma shared_ports:
  "link_port (shown_port shared_node) = ''8388''" "link_port (cn_hysteriaPort shared_node) = ''443''"
  "link_port (cn_vlessPort shared_node) = ''0''" "link_port (cn_trojanPort shared_node) = ''0''"
  by (simp_all add: shared_node_def bare_node_def shown_port_def link_port_def int_text_def nat_text.simps or_else_def)
    code_simp+

lemma shared_host: "wrap_host ''203.0.113.5'' = ''203.0.113.5''"
  by (simp add: wrap_host_def)

lemma shared_texts:
  "opt_or (cn_hysteriaPassword shared_node) '''' = ''hy''" "opt_or (cn_vlessUUID shared_node) '''' = ''id''"
  "opt_or (cn_trojanPassword shared_node) '''' = ''''" "cn_label shared_node = ''tokyo''" "le_encode shared_links s = s"
  by (simp_all add: shared_node_def bare_node_def str_or_def shared_links_def)

lemma shared_reads:
  "we_url shared_web ''ss://203.0.113.5:8388''
    = Some \<lparr>ur_hostname = ''203.0.113.5'', ur_port = ''8388'', ur_username = '''', ur_hash = '''', ur_params = []\<rparr>"
  "reads_url shared_web shared_links ''hysteria2'' ''hy'' ''203.0.113.5'' ''443'' (hysteria_params shared_node) ''tokyo''"
  "reads_url shared_web shared_links ''vless'' ''id'' ''203.0.113.5'' ''0'' (vless_params shared_node) ''tokyo''"
  "reads_url shared_web shared_links ''trojan'' '''' ''203.0.113.5'' ''0'' (trojan_params shared_node) ''tokyo''"
  "reads_url shared_web shared_links ''vless'' ''id'' worker_host ''443'' (cdn_params worker_host) ''tokyo-CDN''"
  by (simp_all add: reads_url_def shared_web_def shared_parts_def link_url_def shared_texts worker_host_def)

lemma shared_browser: "browser_reads shared_web shared_links shared_node ''203.0.113.5''"
proof -
  have "we_decode shared_web s = Some s" for s by (simp add: shared_web_def)
  moreover have "decode_base64 shared_web (le_btoa shared_links c) = ss_credentials shared_node ''203.0.113.5''"
    "{CHR ''@'', CHR ''#'', CHR ''?''} \<inter> set (le_btoa shared_links c) = {}" for c
    by (simp_all add: decode_base64_def shared_web_def or_else_def shared_links_def)
  moreover have "we_url shared_web (''ss://'' @ ''203.0.113.5'' @ '':'' @ ''8388'')
    = Some \<lparr>ur_hostname = ''203.0.113.5'', ur_port = ''8388'', ur_username = '''', ur_hash = '''', ur_params = []\<rparr>"
    using shared_reads(1) by simp
  ultimately show ?thesis
    unfolding browser_reads_def Let_def shared_ports shared_host shared_texts using shared_reads(2-4) by blast
qed


definition shared_text :: "share_deployment option \<Rightarrow> string" where
  "shared_text d = or_else (copied_config shared_links shared_node d) ''''"

lemma shared_copied: "copied shared_web shared_links shared_node None (shared_text None)"
  "copied shared_web shared_links shared_node (Some shared_deployment) (shared_text (Some shared_deployment))"
proof -
  have address: "preferred_address shared_node = Some ''203.0.113.5''" by code_simp
  have has: "has_shadowsocks shared_node" "has_hysteria shared_node" "\<not> has_vless shared_node" "\<not> has_trojan shared_node"
    "has_cdn_relay shared_node" by code_simp+
  have host: "cdn_link_host shared_deployment = worker_host" by code_simp
  let ?links = "\<lambda>d. build_node_protocol_links shared_links shared_node d"
  have links: "?links None = [(''Shadowsocks'', ''ss://QUJD#tokyo''),
      (''Hysteria2'', ''hysteria2://hy@203.0.113.5:443?sni=www.bing.com&#tokyo'')]"
    "?links (Some shared_deployment) = ?links None @ [(''VLESS-CDN'',
       link_url shared_links ''vless'' ''id'' worker_host ''443'' (cdn_params worker_host) ''tokyo-CDN'')]"
    by (simp_all add: build_node_protocol_links_def map_filter_simps build_shadowsocks_link_def build_hysteria_link_def build_vless_link_def
        build_trojan_link_def build_vless_cdn_link_def address has host shared_ports shared_host shared_texts link_url_def Let_def
        worker_host_def)
      (simp_all add: shared_links_def hysteria_params_def shared_node_def bare_node_def resolve_server_name_def trimmed_def str_or_def
        link_insecure_def or_else_def)
  have "list_all (\<lambda>(l, u). no_spaces u) (?links (Some shared_deployment))"
    unfolding links by (simp add: no_spaces_def js_ws_def link_url_def shared_links_def cdn_params_def worker_host_def)
  then show "copied shared_web shared_links shared_node None (shared_text None)"
    "copied shared_web shared_links shared_node (Some shared_deployment) (shared_text (Some shared_deployment))"
    by (simp_all add: copied_def shared_text_def copied_config_def Let_def links or_else_def shared_web_def)
qed


theorem copied_cdn_link_fails_the_import_witness:
  "\<exists>us n'. parse_imported_nodes shared_web (shared_text (Some shared_deployment)) = Inr us
     \<and> add_manual_nodes_internal (\<lambda>_. ''t'') (\<lambda>_. ''s'') [] us [] = (Inl ProtocolRequired, [n'])
     \<and> node_protocols n' = [Shadowsocks]"
proof -
  have link: "build_vless_cdn_link shared_links (Some shared_deployment) shared_node
      = Some (link_url shared_links ''vless'' ''id'' worker_host ''443'' (cdn_params worker_host) ''tokyo-CDN'')" by code_simp
  have host: "cdn_link_host shared_deployment = worker_host" "CHR '':'' \<notin> set worker_host" "CHR ''['' \<notin> set worker_host"
    "CHR '']'' \<notin> set worker_host" "worker_host \<noteq> ''203.0.113.5''" by code_simp+
  have url: "reads_url shared_web shared_links ''vless'' (opt_or (cn_vlessUUID shared_node) '''') worker_host ''443'' (cdn_params worker_host)
      (cn_label shared_node @ ''-CDN'')" using shared_reads(5) by (simp add: shared_texts)
  have apart: "apart_from l h ([] @ filter (\<lambda>m. \<not> is_manual m) [])" for l h by (simp add: apart_from_def)
  have "node_protocols shared_node \<noteq> []" by (simp add: shared_node_facts(2))
  from copied_cdn_link_fails_the_import [OF shared_browser shared_node_facts(1) shared_copied(2) this link host url apart apart,
      of "\<lambda>_. ''t''" "\<lambda>_. ''s''"]
  show ?thesis by (auto simp: shared_node_facts(2))
qed

subsection \<open>The progress of a deployment\<close>

text \<open>At most one step is current: the first that is not done; every later one that is not done is pending.\<close>

lemma deployment_steps:
  "length (get_deployment_steps tr n) = 5"
  "k < 5 \<Longrightarrow> snd (get_deployment_steps tr n ! k)
    = (if snd (raw_steps n ! k) then StepDone else if \<forall>j < k. snd (raw_steps n ! j) then StepCurrent else StepPending)"
proof -
  show "length (get_deployment_steps tr n) = 5" by (simp add: get_deployment_steps_def raw_steps_def Let_def)
  assume k: "k < 5"
  let ?raw = "raw_steps n"
  have len: "length ?raw = 5" by (simp add: raw_steps_def)
  have "snd (get_deployment_steps tr n ! k) = step_state_at (find_index (\<lambda>x. \<not> snd x) ?raw) k (snd (?raw ! k))"
    using k len by (simp add: get_deployment_steps_def Let_def nth_enumerate_eq split: prod.split)
  also have "\<dots> = (if snd (?raw ! k) then StepDone else if \<forall>j < k. snd (?raw ! j) then StepCurrent else StepPending)"
  proof (cases "find_index (\<lambda>x. \<not> snd x) ?raw")
    case None
    then have "snd (?raw ! k)" using k len find_index_None_iff [of "\<lambda>x. \<not> snd x" ?raw] by auto
    then show ?thesis by (simp add: step_state_at_def)
  next
    case (Some i)
    note i = find_index_SomeD [OF Some]
    have "(\<forall>j < k. snd (?raw ! j)) \<longleftrightarrow> i = k" if "\<not> snd (?raw ! k)"
      using i that by (metis linorder_neqE_nat)
    then show ?thesis by (auto simp: step_state_at_def Some)
  qed
  finally show "snd (get_deployment_steps tr n ! k)
    = (if snd (?raw ! k) then StepDone else if \<forall>j < k. snd (?raw ! j) then StepCurrent else StepPending)" .
qed

text \<open>An inactive server counts as ready, and so does the address a provider reports before there is one.\<close>

lemma inactive_counts_as_ready: "instance_ready ((bare_node i l)\<lparr>cn_status := Some ''inactive''\<rparr>)"
  by (simp add: instance_ready_def ready_words_def bare_node_def js_lower_def lower_char_def str_or_def starts_with_def Let_def)

lemma zero_address_is_shown: "display_public_ipv4 (Some ''0.0.0.0'') \<and> \<not> is_public_ipv4 (Some ''0.0.0.0'')"
  by code_simp

text \<open>The link through the CDN lacks the secret that the subscription of the same node sends to the worker.\<close>

lemma shared_cdn_link_has_no_secret:
  "map_of (cdn_params (cdn_link_host shared_deployment)) ''path'' = Some ''/?ed=2560''
   \<and> cdn_path (Some (cdn_deployment.truncate shared_deployment)) = ''/?ed=2560&k=k''"
  by code_simp

end
