(* ===== verification/CdnStore.thy ===== *)
theory CdnStore
  imports ShareLinks
begin

text \<open>
  \<open>stores/cdn.ts\<close>: the front to the CDN workers. Every operation asks the Go shell, which answers later with its whole
  state, so an operation is a step that begins it and one that ends it, and others come in between. The calls that are
  under way are kept beside the store. That the shell has no state to answer (\<open>null\<close>) is the answer \<open>cdn_empty_state\<close>.
\<close>

subsection \<open>State\<close>

record cdn_domain =
  dm_zoneName :: string
  dm_subdomain :: string

text \<open>What the shell answers (\<open>CdnState\<close>).\<close>

record cdn_state =
  ct_status :: string
  ct_lastError :: "string option"
  ct_accountId :: "string option"
  ct_accountEmail :: "string option"
  ct_workersSubdomain :: "string option"
  ct_workersDevExample :: "string option"
  ct_deployments :: "share_deployment dict option"
  ct_customDomain :: "cdn_domain option"

type_synonym zone = "string \<times> string"

datatype cdn_call =
    CallRefresh | CallVerify string | CallClear | CallDeploy string | CallDelete string | CallZones | CallDomain string string | CallNoDomain

record cdn_store =
  cx_state :: cdn_state
  cx_verifying :: bool
  cx_deployingFor :: "string option"
  cx_deletingFor :: "string option"
  cx_initialized :: bool
  cx_zones :: "zone list"
  cx_zonesLoading :: bool
  cx_zonesLoadedAt :: "int option"
  cx_savingCustomDomain :: bool
  cx_unsubscribed :: bool
  cx_calls :: "cdn_call list"

definition cdn_empty_state :: cdn_state where
  "cdn_empty_state = \<lparr>ct_status = ''disabled'', ct_lastError = None, ct_accountId = None, ct_accountEmail = None,
     ct_workersSubdomain = None, ct_workersDevExample = None, ct_deployments = Some [], ct_customDomain = None\<rparr>"

definition cdn_initial :: cdn_store where
  "cdn_initial = \<lparr>cx_state = cdn_empty_state, cx_verifying = False, cx_deployingFor = None, cx_deletingFor = None,
     cx_initialized = False, cx_zones = [], cx_zonesLoading = False, cx_zonesLoadedAt = None, cx_savingCustomDomain = False,
     cx_unsubscribed = False, cx_calls = []\<rparr>"

subsection \<open>What the views read\<close>

definition cdn_is_configured :: "cdn_store \<Rightarrow> bool" where
  "cdn_is_configured s \<longleftrightarrow> ct_status (cx_state s) \<noteq> ''disabled''"

definition cdn_is_verified :: "cdn_store \<Rightarrow> bool" where
  "cdn_is_verified s \<longleftrightarrow> ct_status (cx_state s) = ''verified''"

definition cdn_last_error :: "cdn_store \<Rightarrow> string" where
  "cdn_last_error s = or_else (ct_lastError (cx_state s)) ''''"

definition cdn_account_id :: "cdn_store \<Rightarrow> string" where
  "cdn_account_id s = or_else (ct_accountId (cx_state s)) ''''"

definition cdn_account_email :: "cdn_store \<Rightarrow> string" where
  "cdn_account_email s = or_else (ct_accountEmail (cx_state s)) ''''"

definition cdn_workers_subdomain :: "cdn_store \<Rightarrow> string" where
  "cdn_workers_subdomain s = or_else (ct_workersSubdomain (cx_state s)) ''''"

definition cdn_workers_dev_example :: "cdn_store \<Rightarrow> string" where
  "cdn_workers_dev_example s = or_else (ct_workersDevExample (cx_state s)) ''''"

definition cdn_deployments :: "cdn_store \<Rightarrow> share_deployment dict" where
  "cdn_deployments s = or_else (ct_deployments (cx_state s)) []"

definition cdn_host_pattern :: "cdn_store \<Rightarrow> string" where
  "cdn_host_pattern s = (case ct_customDomain (cx_state s) of
      None \<Rightarrow> '''' | Some d \<Rightarrow> dm_subdomain d @ ''-<node>.'' @ dm_zoneName d)"

definition deployment_for :: "cdn_store \<Rightarrow> string \<Rightarrow> share_deployment option" where
  "deployment_for s i = map_of (cdn_deployments s) i"

subsection \<open>Beginning\<close>

text \<open>The answer is \<^const>\<open>False\<close> when the operation is refused, because one of its kind is under way.\<close>

definition cdn_calling :: "cdn_call \<Rightarrow> cdn_store \<Rightarrow> bool \<times> cdn_store" where
  "cdn_calling c s = (True, s\<lparr>cx_calls := cx_calls s @ [c]\<rparr>)"

definition cdn_refresh :: "cdn_store \<Rightarrow> bool \<times> cdn_store" where
  "cdn_refresh s = cdn_calling CallRefresh s"

definition cdn_ensure_loaded :: "cdn_store \<Rightarrow> bool \<times> cdn_store" where
  "cdn_ensure_loaded s = (if cx_initialized s then (False, s) else cdn_refresh s)"

definition cdn_verify :: "string \<Rightarrow> cdn_store \<Rightarrow> bool \<times> cdn_store" where
  "cdn_verify token s = (if cx_verifying s then (False, s) else cdn_calling (CallVerify token) (s\<lparr>cx_verifying := True\<rparr>))"

definition cdn_clear :: "cdn_store \<Rightarrow> bool \<times> cdn_store" where
  "cdn_clear s = cdn_calling CallClear s"

definition cdn_deploy :: "string \<Rightarrow> cdn_store \<Rightarrow> bool \<times> cdn_store" where
  "cdn_deploy i s = (if truthy_s (cx_deployingFor s) then (False, s)
     else cdn_calling (CallDeploy i) (s\<lparr>cx_deployingFor := Some i\<rparr>))"

definition cdn_remove :: "string \<Rightarrow> cdn_store \<Rightarrow> bool \<times> cdn_store" where
  "cdn_remove i s = (if truthy_s (cx_deletingFor s) then (False, s)
     else cdn_calling (CallDelete i) (s\<lparr>cx_deletingFor := Some i\<rparr>))"

definition cdn_refresh_zones :: "cdn_store \<Rightarrow> bool \<times> cdn_store" where
  "cdn_refresh_zones s = (if cx_zonesLoading s then (False, s) else cdn_calling CallZones (s\<lparr>cx_zonesLoading := True\<rparr>))"

definition cdn_set_custom_domain :: "string \<Rightarrow> string \<Rightarrow> cdn_store \<Rightarrow> bool \<times> cdn_store" where
  "cdn_set_custom_domain zone sub s = (if cx_savingCustomDomain s then (False, s)
     else cdn_calling (CallDomain zone sub) (s\<lparr>cx_savingCustomDomain := True\<rparr>))"

definition cdn_clear_custom_domain :: "cdn_store \<Rightarrow> bool \<times> cdn_store" where
  "cdn_clear_custom_domain s = (if cx_savingCustomDomain s then (False, s)
     else cdn_calling CallNoDomain (s\<lparr>cx_savingCustomDomain := True\<rparr>))"

subsection \<open>Ending\<close>

text \<open>The shell answers with its state, for some calls with whether they succeeded, and for one with the zones; \<open>None\<close> for a
  call that is rejected. The outcome is that of the operation.\<close>

datatype cdn_answer = AnswerState bool cdn_state | AnswerZones "zone list" | AnswerRejected

definition cdn_done :: "cdn_call \<Rightarrow> cdn_store \<Rightarrow> cdn_store" where
  "cdn_done c s = s\<lparr>cx_calls := remove1 c (cx_calls s)\<rparr>"

text \<open>What runs in \<open>finally\<close>.\<close>

fun cdn_finally :: "cdn_call \<Rightarrow> cdn_store \<Rightarrow> cdn_store" where
  "cdn_finally (CallVerify _) s = s\<lparr>cx_verifying := False\<rparr>"
| "cdn_finally (CallDeploy _) s = s\<lparr>cx_deployingFor := None\<rparr>"
| "cdn_finally (CallDelete _) s = s\<lparr>cx_deletingFor := None\<rparr>"
| "cdn_finally CallZones s = s\<lparr>cx_zonesLoading := False\<rparr>"
| "cdn_finally (CallDomain _ _) s = s\<lparr>cx_savingCustomDomain := False\<rparr>"
| "cdn_finally CallNoDomain s = s\<lparr>cx_savingCustomDomain := False\<rparr>"
| "cdn_finally _ s = s"

definition forget_zones :: "cdn_store \<Rightarrow> cdn_store" where
  "forget_zones s = s\<lparr>cx_zones := [], cx_zonesLoadedAt := None\<rparr>"

fun cdn_take :: "int \<Rightarrow> cdn_call \<Rightarrow> cdn_answer \<Rightarrow> cdn_store \<Rightarrow> cdn_store" where
  "cdn_take now CallRefresh (AnswerState ok t) s = s\<lparr>cx_state := t, cx_initialized := True\<rparr>"
| "cdn_take now (CallVerify _) (AnswerState ok t) s = (if ok then forget_zones (s\<lparr>cx_state := t\<rparr>) else s\<lparr>cx_state := t\<rparr>)"
| "cdn_take now CallClear (AnswerState ok t) s = forget_zones (s\<lparr>cx_state := t\<rparr>)"
| "cdn_take now CallZones (AnswerZones zs) s = s\<lparr>cx_zones := zs, cx_zonesLoadedAt := Some now\<rparr>"
| "cdn_take now _ (AnswerState ok t) s = s\<lparr>cx_state := t\<rparr>"
| "cdn_take now _ _ s = s"

definition cdn_end :: "int \<Rightarrow> cdn_call \<Rightarrow> cdn_answer \<Rightarrow> cdn_store \<Rightarrow> cdn_store" where
  "cdn_end now c a s = cdn_done c (cdn_finally c (cdn_take now c a s))"

subsection \<open>Events of the shell\<close>

definition cdn_event :: "cdn_state option \<Rightarrow> cdn_store \<Rightarrow> cdn_store" where
  "cdn_event next s = (if cx_unsubscribed s then s else case next of None \<Rightarrow> s | Some t \<Rightarrow> s\<lparr>cx_state := t\<rparr>)"

definition cdn_dispose :: "cdn_store \<Rightarrow> cdn_store" where
  "cdn_dispose s = s\<lparr>cx_unsubscribed := True\<rparr>"

subsection \<open>Steps\<close>

inductive cdn_step :: "cdn_store \<Rightarrow> cdn_store \<Rightarrow> bool" where
  StepRefresh: "cdn_step s (snd (cdn_ensure_loaded s))"
| StepForcedRefresh: "cdn_step s (snd (cdn_refresh s))"
| StepVerify: "cdn_step s (snd (cdn_verify token s))"
| StepClear: "cdn_step s (snd (cdn_clear s))"
| StepDeploy: "i \<noteq> '''' \<Longrightarrow> cdn_step s (snd (cdn_deploy i s))"
| StepRemove: "i \<noteq> '''' \<Longrightarrow> cdn_step s (snd (cdn_remove i s))"
| StepZones: "cdn_step s (snd (cdn_refresh_zones s))"
| StepDomain: "cdn_step s (snd (cdn_set_custom_domain zone sub s))"
| StepNoDomain: "cdn_step s (snd (cdn_clear_custom_domain s))"
| StepEnd: "c \<in> set (cx_calls s) \<Longrightarrow> cdn_step s (cdn_end now c a s)"
| StepEvent: "cdn_step s (cdn_event next s)"
| StepDispose: "cdn_step s (cdn_dispose s)"

definition is_verify :: "cdn_call \<Rightarrow> bool" where "is_verify c = (case c of CallVerify _ \<Rightarrow> True | _ \<Rightarrow> False)"
definition is_deploy :: "cdn_call \<Rightarrow> bool" where "is_deploy c = (case c of CallDeploy _ \<Rightarrow> True | _ \<Rightarrow> False)"
definition is_delete :: "cdn_call \<Rightarrow> bool" where "is_delete c = (case c of CallDelete _ \<Rightarrow> True | _ \<Rightarrow> False)"
definition is_domain :: "cdn_call \<Rightarrow> bool" where
  "is_domain c = (case c of CallDomain _ _ \<Rightarrow> True | CallNoDomain \<Rightarrow> True | _ \<Rightarrow> False)"

text \<open>The flags tell what is under way: one call at most of each kind, and for deploying and deleting the node it is for.\<close>

definition cdn_inv :: "cdn_store \<Rightarrow> bool" where
  "cdn_inv s \<longleftrightarrow>
     length (filter is_verify (cx_calls s)) = (if cx_verifying s then 1 else 0)
     \<and> filter is_deploy (cx_calls s) = (case cx_deployingFor s of None \<Rightarrow> [] | Some i \<Rightarrow> [CallDeploy i])
     \<and> filter is_delete (cx_calls s) = (case cx_deletingFor s of None \<Rightarrow> [] | Some i \<Rightarrow> [CallDelete i])
     \<and> filter (\<lambda>c. c = CallZones) (cx_calls s) = (if cx_zonesLoading s then [CallZones] else [])
     \<and> length (filter is_domain (cx_calls s)) = (if cx_savingCustomDomain s then 1 else 0)
     \<and> cx_deployingFor s \<noteq> Some '''' \<and> cx_deletingFor s \<noteq> Some ''''"

end
