(* ===== verification/CdnLaws.thy ===== *)
theory CdnLaws
  imports CdnStore
begin

text \<open>
  What the store of the CDN guarantees however its calls interleave, and the case its invalidation of the zones misses.
\<close>

subsection \<open>Properties: one call of each kind\<close>

lemma filter_remove1_iff: "filter P (remove1 c xs) = (if P c then remove1 c (filter P xs) else filter P xs)"
  by (induction xs) auto

lemma length_filter_remove1: "P c \<Longrightarrow> c \<in> set xs \<Longrightarrow> length (filter P (remove1 c xs)) = length (filter P xs) - 1"
  by (simp add: filter_remove1_iff length_remove1)

lemma cdn_inv_initial: "cdn_inv cdn_initial"
  by (simp add: cdn_inv_def cdn_initial_def)

lemmas cdn_kinds = is_verify_def is_deploy_def is_delete_def is_domain_def

lemmas cdn_begins = cdn_refresh_def cdn_ensure_loaded_def cdn_verify_def cdn_clear_def cdn_deploy_def cdn_remove_def
  cdn_refresh_zones_def cdn_set_custom_domain_def cdn_clear_custom_domain_def cdn_calling_def

text \<open>A call that is under way holds its flag.\<close>

lemma cdn_flags:
  assumes "cdn_inv s" "c \<in> set (cx_calls s)"
  shows "is_verify c \<Longrightarrow> cx_verifying s" "is_domain c \<Longrightarrow> cx_savingCustomDomain s" "c = CallZones \<Longrightarrow> cx_zonesLoading s"
    "c = CallDeploy i \<Longrightarrow> cx_deployingFor s = Some i" "c = CallDelete i \<Longrightarrow> cx_deletingFor s = Some i"
proof -
  have one: "filter P (cx_calls s) \<noteq> []" if "P c" for P using assms(2) that by (auto simp: filter_empty_conv)
  show "cx_verifying s" if "is_verify c"
    using one [of is_verify] that assms(1) by (cases "cx_verifying s") (simp_all add: cdn_inv_def)
  show "cx_savingCustomDomain s" if "is_domain c"
    using one [of is_domain] that assms(1) by (cases "cx_savingCustomDomain s") (simp_all add: cdn_inv_def)
  show "cx_zonesLoading s" if "c = CallZones"
    using one [of "\<lambda>c. c = CallZones"] that assms(1) by (cases "cx_zonesLoading s") (simp_all add: cdn_inv_def)
  have deploys: "filter is_deploy (cx_calls s) = (case cx_deployingFor s of None \<Rightarrow> [] | Some i \<Rightarrow> [CallDeploy i])"
    and deletes: "filter is_delete (cx_calls s) = (case cx_deletingFor s of None \<Rightarrow> [] | Some i \<Rightarrow> [CallDelete i])"
    using assms(1) by (simp_all add: cdn_inv_def)
  show "cx_deployingFor s = Some i" if "c = CallDeploy i"
  proof -
    have "CallDeploy i \<in> set (filter is_deploy (cx_calls s))" using assms(2) that by (simp add: is_deploy_def)
    then show ?thesis unfolding deploys by (auto split: option.splits)
  qed
  show "cx_deletingFor s = Some i" if "c = CallDelete i"
  proof -
    have "CallDelete i \<in> set (filter is_delete (cx_calls s))" using assms(2) that by (simp add: is_delete_def)
    then show ?thesis unfolding deletes by (auto split: option.splits)
  qed
qed

lemma cdn_take_frame [simp]:
  "cx_calls (cdn_take now c a s) = cx_calls s" "cx_verifying (cdn_take now c a s) = cx_verifying s"
  "cx_deployingFor (cdn_take now c a s) = cx_deployingFor s" "cx_deletingFor (cdn_take now c a s) = cx_deletingFor s"
  "cx_zonesLoading (cdn_take now c a s) = cx_zonesLoading s" "cx_savingCustomDomain (cdn_take now c a s) = cx_savingCustomDomain s"
  by (induction now c a s rule: cdn_take.induct) (simp_all add: forget_zones_def)

lemma cdn_inv_same: "cdn_inv s \<Longrightarrow> cx_calls t = cx_calls s \<Longrightarrow> cx_verifying t = cx_verifying s \<Longrightarrow> cx_deployingFor t = cx_deployingFor s
    \<Longrightarrow> cx_deletingFor t = cx_deletingFor s \<Longrightarrow> cx_zonesLoading t = cx_zonesLoading s
    \<Longrightarrow> cx_savingCustomDomain t = cx_savingCustomDomain s \<Longrightarrow> cdn_inv t"
  by (simp add: cdn_inv_def)

lemma cdn_inv_end:
  assumes "cdn_inv s" "c \<in> set (cx_calls s)"
  shows "cdn_inv (cdn_end now c a s)"
proof -
  let ?t = "cdn_take now c a s"
  have t: "cdn_inv ?t" "c \<in> set (cx_calls ?t)" using assms by (simp_all add: cdn_inv_same [OF assms(1)])
  have "cdn_inv (cdn_done c (cdn_finally c t))" if "cdn_inv t" "c \<in> set (cx_calls t)" for t
    using that cdn_flags [OF that]
    by (cases c) (simp_all add: cdn_inv_def cdn_done_def filter_remove1_iff length_remove1 is_verify_def is_deploy_def is_delete_def is_domain_def)
  from this [OF t] show ?thesis by (simp add: cdn_end_def)
qed

lemma cdn_inv_step: "cdn_step s t \<Longrightarrow> cdn_inv s \<Longrightarrow> cdn_inv t"
proof (induction rule: cdn_step.induct)
  case (StepEnd c s now a)
  then show ?case by (intro cdn_inv_end)
qed (auto simp: cdn_begins cdn_inv_def cdn_kinds cdn_event_def cdn_dispose_def truthy_s_def split: option.splits)

text \<open>
  C39. Calls of one kind never overlap. Whatever is clicked, answered, rejected or pushed by the shell, and in whatever order, at most one token is
  verified, one worker deployed and one deleted, one list of zones fetched and one domain changed at a time; the flags the views
  show tell exactly that, and when no call is under way, none of them is left set.
\<close>

theorem cdn_calls_never_overlap:
  assumes "cdn_step\<^sup>*\<^sup>* cdn_initial s"
  shows "length (filter is_verify (cx_calls s)) = (if cx_verifying s then 1 else 0)
    \<and> filter is_deploy (cx_calls s) = (case cx_deployingFor s of None \<Rightarrow> [] | Some i \<Rightarrow> [CallDeploy i])
    \<and> filter is_delete (cx_calls s) = (case cx_deletingFor s of None \<Rightarrow> [] | Some i \<Rightarrow> [CallDelete i])
    \<and> length (filter (\<lambda>c. c = CallZones) (cx_calls s)) = (if cx_zonesLoading s then 1 else 0)
    \<and> length (filter is_domain (cx_calls s)) = (if cx_savingCustomDomain s then 1 else 0)"
proof -
  have "cdn_inv s" using assms
  proof (induction rule: rtranclp_induct)
    case base
    then show ?case by (rule cdn_inv_initial)
  next
    case (step s t)
    then show ?case by (blast intro: cdn_inv_step)
  qed
  then show ?thesis by (simp add: cdn_inv_def)
qed

lemma cdn_calls_never_overlap_witness:
  "\<exists>s. cdn_step\<^sup>*\<^sup>* cdn_initial s \<and> cx_deployingFor s = Some ''a'' \<and> filter is_deploy (cx_calls s) = [CallDeploy ''a'']"
proof -
  let ?s = "snd (cdn_deploy ''b'' (snd (cdn_deploy ''a'' cdn_initial)))"
  have run: "cdn_step\<^sup>*\<^sup>* cdn_initial ?s"
    by (rule rtranclp.rtrancl_into_rtrancl [OF r_into_rtranclp [where r = cdn_step]]; rule StepDeploy; simp)
  have "cx_deployingFor ?s = Some ''a''" by code_simp
  then show ?thesis using run cdn_calls_never_overlap [OF run] by (intro exI [of _ ?s]) simp
qed

subsection \<open>Properties: zones of another account\<close>

text \<open>
  Zones of the old token come back. A list of zones that was asked for before a new token was verified arrives after it: the verification empties the
  list and the answer fills it again and marks it as loaded, and in between a new request is refused.
\<close>

theorem zones_of_the_old_token_come_back:
  assumes "cdn_step\<^sup>*\<^sup>* cdn_initial s" and "CallZones \<in> set (cx_calls s)"
  shows "let s1 = cdn_end t1 (CallVerify token) (AnswerState True st) s; s2 = cdn_end t2 CallZones (AnswerZones zs) s1
    in cx_zones s1 = [] \<and> cx_zonesLoadedAt s1 = None \<and> cdn_refresh_zones s1 = (False, s1)
       \<and> cx_zones s2 = zs \<and> cx_zonesLoadedAt s2 = Some t2"
proof -
  have "cdn_inv s" using assms(1)
    by (induction rule: rtranclp_induct) (auto intro: cdn_inv_initial cdn_inv_step)
  then have "cx_zonesLoading s" using cdn_flags(3) assms(2) by blast
  then show ?thesis by (simp add: cdn_end_def cdn_done_def forget_zones_def cdn_refresh_zones_def Let_def)
qed

end
