(* ===== verification/CloudActions.thy ===== *)
theory CloudActions
  imports NodeTests NodeScores CdnStore
begin

text \<open>
  \<open>views/CloudView/useCloudViewActions.ts\<close>: what the buttons and menus of the cloud view do, over the operations of the session
  and the CDN store. What the view shows is recorded in order; an operation of the session that never ends leaves the
  handler and its flag where they are. The selection does not change while a batch runs.
\<close>

datatype shown = ShownInfo string | ShownSuccess string | ShownError string | ShownFailure string

record actions =
  ua_session :: session
  ua_cdn :: cdn_store
  ua_selected :: "string list"
  ua_batch :: bool
  ua_applying :: string
  ua_rotating :: string
  ua_redeploying :: string
  ua_speedAll :: bool
  ua_balanced :: bool
  ua_lbLoading :: bool
  ua_clipboard :: "string option"
  ua_shown :: "shown list"

text \<open>The answer of the user to a question, how the clipboard and the core end, and how numbers and regions are written.\<close>

record actions_env =
  ue_session :: session_env
  ue_tr :: translate
  ue_confirms :: bool
  ue_clip_error :: "string option"
  ue_core_error :: "string option"
  ue_links :: link_env
  ue_region :: "string \<Rightarrow> string"
  ue_number :: "rat \<Rightarrow> string"

definition say :: "shown \<Rightarrow> actions \<Rightarrow> actions" where
  "say m a = a\<lparr>ua_shown := ua_shown a @ [m]\<rparr>"

definition on_session :: "(session \<Rightarrow> 'a flow \<times> session) \<Rightarrow> actions \<Rightarrow> 'a flow \<times> actions" where
  "on_session f a = (case f (ua_session a) of (r, s) \<Rightarrow> (r, a\<lparr>ua_session := s\<rparr>))"

text \<open>\<open>try { ... } catch (error) { handleError(error) } finally { ... }\<close>.\<close>

definition guarded :: "unit flow \<times> actions \<Rightarrow> (actions \<Rightarrow> actions) \<Rightarrow> unit flow \<times> actions" where
  "guarded r cleanup = flow_finally (flow_handle r (\<lambda>e a. (Done (), say (ShownFailure e) a))) cleanup"

definition tr0 :: "actions_env \<Rightarrow> string \<Rightarrow> string" where
  "tr0 env k = ue_tr env k []"

subsection \<open>Clipboard and selection\<close>

definition put_clipboard :: "actions_env \<Rightarrow> string \<Rightarrow> actions \<Rightarrow> unit flow \<times> actions" where
  "put_clipboard env t a = (case ue_clip_error env of
      Some e \<Rightarrow> (Throws e, a) | None \<Rightarrow> (Done (), a\<lparr>ua_clipboard := Some t\<rparr>))"

definition copy_text :: "actions_env \<Rightarrow> string \<Rightarrow> actions \<Rightarrow> unit flow \<times> actions" where
  "copy_text env v a = (if v = '''' then (Done (), a)
     else guarded (flow_then (put_clipboard env v a) (\<lambda>_ b. (Done (), say (ShownSuccess ''common.copied'') b))) id)"

definition toggle_node_selection :: "string \<Rightarrow> actions \<Rightarrow> actions" where
  "toggle_node_selection i a = a\<lparr>ua_selected :=
     (if i \<in> set (ua_selected a) then filter (\<lambda>j. j \<noteq> i) (ua_selected a) else ua_selected a @ [i])\<rparr>"

definition clear_selection :: "actions \<Rightarrow> actions" where
  "clear_selection a = a\<lparr>ua_selected := []\<rparr>"

definition copy_node_config :: "actions_env \<Rightarrow> node \<Rightarrow> actions \<Rightarrow> unit flow \<times> actions" where
  "copy_node_config env n a = (case copied_config (ue_links env) n (deployment_for (ua_cdn a) (cn_instanceId n)) of
      None \<Rightarrow> (Done (), say (ShownError (tr0 env ''cloud.errors.noProtocols'')) a)
    | Some t \<Rightarrow> copy_text env t a)"

definition protocol_line :: "string \<Rightarrow> string \<Rightarrow> int option \<Rightarrow> string option \<Rightarrow> string \<Rightarrow> string list" where
  "protocol_line name ipv4 port secret word =
     (if truthy_n port \<and> truthy_s secret
      then [name @ '': '' @ ipv4 @ '':'' @ link_port port @ '' ('' @ word @ opt_or secret '''' @ '')''] else [])"

definition node_config_text :: "(string \<Rightarrow> string) \<Rightarrow> node \<Rightarrow> string" where
  "node_config_text region n =
     (let ipv4 = opt_or (cn_ipv4 n) ''N/A''; ipv6 = opt_or (cn_ipv6 n) ''N/A'';
          protocols = protocol_line ''Shadowsocks'' ipv4 (cn_ssPort n) (cn_ssPassword n) ''''
            @ protocol_line ''Hysteria2'' ipv4 (cn_hysteriaPort n) (cn_hysteriaPassword n) ''''
            @ protocol_line ''VLESS'' ipv4 (cn_vlessPort n) (cn_vlessUUID n) ''UUID: ''
            @ protocol_line ''Trojan'' ipv4 (cn_trojanPort n) (cn_trojanPassword n) ''''
      in js_trim (js_join [CHR 0x0A]
        ['''', ''Node: '' @ cn_label n, ''Region: '' @ (if truthy_s (cn_region n) then region (the (cn_region n)) else ''N/A''),
         ''IPv4: '' @ ipv4, ''IPv6: '' @ ipv6, '''', ''Protocols:'', js_join [CHR 0x0A] protocols, '''']))"

definition handle_copy_node_config :: "actions_env \<Rightarrow> node \<Rightarrow> actions \<Rightarrow> unit flow \<times> actions" where
  "handle_copy_node_config env n a =
     flow_handle (flow_then (put_clipboard env (node_config_text (ue_region env) n) a)
         (\<lambda>_ b. (Done (), say (ShownSuccess (tr0 env ''cloud.quickActions.configCopied'')) b)))
       (\<lambda>_ b. (Done (), say (ShownError (tr0 env ''cloud.quickActions.copyFailed'')) b))"

subsection \<open>Recommendations\<close>

text \<open>The measured latencies of the regions that answered; a later one replaces an earlier one.\<close>

definition latency_map :: "(string \<times> rat \<times> string) list \<Rightarrow> rat dict" where
  "latency_map results = fold (\<lambda>(code, latency, status) m. if status = ''ok'' then AList.update code latency m else m) results []"

text \<open>The best five, or \<^const>\<open>None\<close> when there is nothing to rank or the order is up to the browser.\<close>

definition top_nodes :: "score_env \<Rightarrow> (string \<times> rat \<times> string) list \<Rightarrow> node list \<Rightarrow> node_score list option" where
  "top_nodes env results ns = map_option (take 5) (get_recommended_nodes env
     \<lparr>cr_preferLowLatency = True, cr_preferLowRisk = True, cr_preferReachable = True, cr_avoidBlocked = False, cr_preferRecent = False\<rparr>
     (latency_map results) ns)"

text \<open>The list itself goes to the log; \<open>None\<close> for a ranking that cannot be told.\<close>

definition handle_show_recommendations :: "actions_env \<Rightarrow> score_env \<Rightarrow> (string \<times> rat \<times> string) list \<Rightarrow> actions \<Rightarrow> actions option" where
  "handle_show_recommendations env scores results a =
     (let ns = cs_instances (ua_session a)
      in if ns = [] then Some (say (ShownInfo (tr0 env ''cloud.recommendations.noNodes'')) a)
         else map_option (\<lambda>top. if top = [] then say (ShownInfo (tr0 env ''cloud.recommendations.noneAvailable'')) a
             else say (ShownSuccess (tr0 env ''cloud.recommendations.title'' @ '': Check console for details'')) a)
           (top_nodes scores results ns))"

subsection \<open>Batches\<close>

text \<open>One after the other; an exception is counted and the next one goes on.\<close>

fun batch_loop :: "(string \<Rightarrow> session \<Rightarrow> 'a flow \<times> session) \<Rightarrow> string list \<Rightarrow> nat \<times> nat \<Rightarrow> session \<Rightarrow> (nat \<times> nat) flow \<times> session" where
  "batch_loop f [] counts s = (Done counts, s)"
| "batch_loop f (i # is) (ok, failed) s = (case f i s of
      (Done _, t) \<Rightarrow> batch_loop f is (Suc ok, failed) t
    | (Throws _, t) \<Rightarrow> batch_loop f is (ok, Suc failed) t
    | (Hangs, t) \<Rightarrow> (Hangs, t))"

definition run_batch ::
    "actions_env \<Rightarrow> string \<Rightarrow> (string \<Rightarrow> session \<Rightarrow> 'a flow \<times> session) \<Rightarrow> actions \<Rightarrow> unit flow \<times> actions" where
  "run_batch env done_key f a = guarded
     (flow_then (on_session (batch_loop f (ua_selected a) (0, 0)) (a\<lparr>ua_batch := True\<rparr>)) (\<lambda>(ok, failed) b.
        flow_then (on_session (refresh_instances (ue_session env) True False)
          (clear_selection (say (if ok > 0
            then ShownSuccess (ue_tr env done_key [(''success'', nat_text ok), (''fail'', nat_text failed)])
            else ShownError (tr0 env ''cloud.batch.allFailed'')) b))) (\<lambda>_ c. (Done (), c))))
     (\<lambda>c. c\<lparr>ua_batch := False\<rparr>)"

text \<open>A refused question ends the handler with the exception of \<open>confirm\<close>.\<close>

definition confirmed_batch ::
    "actions_env \<Rightarrow> string \<Rightarrow> (string \<Rightarrow> session \<Rightarrow> 'a flow \<times> session) \<Rightarrow> actions \<Rightarrow> unit flow \<times> actions" where
  "confirmed_batch env done_key f a =
     (if ua_selected a = [] then (Done (), say (ShownInfo (tr0 env ''cloud.batch.noSelection'')) a)
      else if \<not> ue_confirms env then (Throws (tr0 env ''common.canceled''), a)
      else run_batch env done_key f a)"

definition handle_batch_rotate_ip :: "actions_env \<Rightarrow> actions \<Rightarrow> unit flow \<times> actions" where
  "handle_batch_rotate_ip env = confirmed_batch env ''cloud.batch.rotateComplete'' (rotate_ip (ue_session env))"

definition handle_batch_destroy :: "actions_env \<Rightarrow> actions \<Rightarrow> unit flow \<times> actions" where
  "handle_batch_destroy env = confirmed_batch env ''cloud.batch.destroyComplete'' (destroy_instance (ue_session env))"

subsection \<open>One node\<close>

definition mark_session :: "string \<Rightarrow> node_status \<Rightarrow> actions \<Rightarrow> actions" where
  "mark_session i st a = a\<lparr>ua_session := (ua_session a)\<lparr>cs_manual := ms_mark i st (cs_manual (ua_session a))\<rparr>\<rparr>"

text \<open>The core is started or restarted; the refresh at the end is not awaited.\<close>

definition handle_use_node :: "actions_env \<Rightarrow> node \<Rightarrow> actions \<Rightarrow> unit flow \<times> actions" where
  "handle_use_node env n a =
     (let i = cn_instanceId n; begun = (mark_session i NsApplying a)\<lparr>ua_applying := i\<rparr>
      in flow_finally (flow_handle
           (flow_then (on_session (on_store (apply_node_to_profile (sv_apply (ue_session env)) n '''')) begun) (\<lambda>_ b.
            flow_then (flow_of (ue_core_error env), b) (\<lambda>_ c.
              (Done (), say (ShownInfo (tr0 env ''cloud.nodes.applyTip'')) (say (ShownSuccess (tr0 env ''cloud.nodes.applied''))
                 (let d = mark_session i NsConnected c in d\<lparr>ua_session := started (RefreshRun True False) (ua_session d)\<rparr>))))))
           (\<lambda>e b. (Done (), say (ShownFailure e) (mark_session i NsError b))))
         (\<lambda>b. b\<lparr>ua_applying := ''''\<rparr>))"

definition handle_rotate_ip :: "actions_env \<Rightarrow> node \<Rightarrow> actions \<Rightarrow> unit flow \<times> actions" where
  "handle_rotate_ip env n a =
     (if is_manual n then (Done (), say (ShownError (tr0 env ''cloud.nodes.rotateIPBlocked'')) a)
      else if \<not> ue_confirms env then (Done (), a)
      else guarded (flow_then (on_session (rotate_ip (ue_session env) (cn_instanceId n)) (a\<lparr>ua_rotating := cn_instanceId n\<rparr>))
          (\<lambda>_ b. (Done (), say (ShownSuccess (tr0 env ''cloud.nodes.rotateIPSuccess'')) b)))
        (\<lambda>b. b\<lparr>ua_rotating := ''''\<rparr>))"

definition handle_repair_node :: "actions_env \<Rightarrow> node \<Rightarrow> actions \<Rightarrow> unit flow \<times> actions" where
  "handle_repair_node env n a =
     (if is_manual n then (Done (), say (ShownError (tr0 env ''cloud.nodes.repairBlocked'')) a)
      else if \<not> ue_confirms env then (Done (), a)
      else guarded (flow_then (on_session (redeploy_instance (ue_session env) (cn_instanceId n)) (a\<lparr>ua_redeploying := cn_instanceId n\<rparr>))
          (\<lambda>m b. (Done (), say (ShownSuccess (tr0 env
             (if cn_instanceId m = cn_instanceId n then ''cloud.nodes.repairSuccess'' else ''cloud.nodes.redeploySuccess''))) b)))
        (\<lambda>b. b\<lparr>ua_redeploying := ''''\<rparr>))"

definition handle_destroy :: "actions_env \<Rightarrow> node \<Rightarrow> actions \<Rightarrow> unit flow \<times> actions" where
  "handle_destroy env n a =
     (if \<not> ue_confirms env then (Done (), a)
      else guarded (flow_then (on_session (destroy_instance (ue_session env) (cn_instanceId n)) a)
        (\<lambda>_ b. (Done (), say (ShownSuccess ''common.success'') b))) id)"

text \<open>The node is the object of the row, from before the test.\<close>

definition handle_quick_test :: "actions_env \<Rightarrow> node \<Rightarrow> actions \<Rightarrow> actions" where
  "handle_quick_test env n a =
     (let b = say (ShownInfo (tr0 env ''cloud.quickActions.testingConnectivity'')) a;
          c = b\<lparr>ua_session := test_node_speed (ue_session env) (cn_instanceId n) (ua_session b)\<rparr>;
          status = (case cn_speedMs n of
              None \<Rightarrow> tr0 env ''cloud.speed.timeout''
            | Some ms \<Rightarrow> if 0 \<le> ms then ue_number env ms @ ''ms'' else tr0 env ''cloud.speed.timeout'')
      in say (ShownSuccess (ue_tr env ''cloud.quickActions.testComplete'' [(''status'', status)])) c)"

definition handle_test_all_speed :: "actions_env \<Rightarrow> actions \<Rightarrow> actions" where
  "handle_test_all_speed env a =
     (let b = a\<lparr>ua_speedAll := True, ua_session := test_all_nodes_speed (ue_session env) (ua_session a)\<rparr>
      in (say (ShownSuccess (tr0 env ''cloud.speed.testAllComplete'')) b)\<lparr>ua_speedAll := False\<rparr>)"

text \<open>\<open>outcome\<close> is how the start or the stop of the balancer ends, \<open>enabled\<close> whether it is enabled then.\<close>

definition handle_toggle_load_balance :: "actions_env \<Rightarrow> string option \<Rightarrow> bool \<Rightarrow> actions \<Rightarrow> unit flow \<times> actions" where
  "handle_toggle_load_balance env outcome enabled a = guarded
     (flow_then (flow_of outcome, a\<lparr>ua_lbLoading := True, ua_balanced := enabled\<rparr>) (\<lambda>_ b.
        (Done (), if ua_balanced a \<or> enabled then b else say (ShownError (tr0 env ''cloud.loadBalance.startFailed'')) b)))
     (\<lambda>b. b\<lparr>ua_lbLoading := False\<rparr>)"

subsection \<open>CDN workers\<close>

text \<open>The call is answered before another begins.\<close>

definition run_cdn :: "actions_env \<Rightarrow> bool \<times> cdn_store \<Rightarrow> cdn_call \<Rightarrow> cdn_answer \<Rightarrow> actions \<Rightarrow> unit flow \<times> actions" where
  "run_cdn env begun c answer a =
     (let report = (\<lambda>ok b. (Done (), if ok then say (ShownSuccess ''common.success'') b
            else if cdn_last_error (ua_cdn b) \<noteq> '''' then say (ShownError (cdn_last_error (ua_cdn b))) b else b))
      in if \<not> fst begun then report False a
         else let b = a\<lparr>ua_cdn := cdn_end 0 c answer (snd begun)\<rparr>
           in case answer of AnswerState ok _ \<Rightarrow> report ok b | _ \<Rightarrow> (Throws ''rejected'', b))"

definition handle_deploy_cdn :: "actions_env \<Rightarrow> node \<Rightarrow> cdn_answer \<Rightarrow> actions \<Rightarrow> unit flow \<times> actions" where
  "handle_deploy_cdn env n answer a =
     (if \<not> has_cdn_relay n then (Done (), say (ShownError (tr0 env ''cdn.node.requiresRelay'')) a)
      else if \<not> cdn_is_verified (ua_cdn a) then (Done (), say (ShownError (tr0 env ''cdn.error.tokenNotVerified'')) a)
      else run_cdn env (cdn_deploy (cn_instanceId n) (ua_cdn a)) (CallDeploy (cn_instanceId n)) answer a)"

definition handle_delete_cdn :: "actions_env \<Rightarrow> node \<Rightarrow> cdn_answer \<Rightarrow> actions \<Rightarrow> unit flow \<times> actions" where
  "handle_delete_cdn env n answer a =
     (if \<not> ue_confirms env then (Done (), a)
      else run_cdn env (cdn_remove (cn_instanceId n) (ua_cdn a)) (CallDelete (cn_instanceId n)) answer a)"

subsection \<open>Menu of a row\<close>

definition rotate_hidden :: "node \<Rightarrow> bool" where
  "rotate_hidden n \<longleftrightarrow> is_manual n \<or> cn_connectivityStatus n \<noteq> Some CsBlocked"

definition deploy_hidden :: "cdn_store \<Rightarrow> node \<Rightarrow> bool" where
  "deploy_hidden s n \<longleftrightarrow> \<not> has_cdn_relay n \<or> deployment_for s (cn_instanceId n) \<noteq> None"

definition delete_hidden :: "cdn_store \<Rightarrow> node \<Rightarrow> bool" where
  "delete_hidden s n \<longleftrightarrow> deployment_for s (cn_instanceId n) = None"

end
