(* ===== verification/ActionLaws.thy ===== *)
theory ActionLaws
  imports CloudActions OpsLaws ShareLaws
begin

text \<open>
  What the handlers of the cloud view guarantee: batches try every node and free their button, unless an operation of the
  session never ends; and the quick test of a node that never reports what it measured.
\<close>

subsection \<open>Properties: the quick test\<close>

text \<open>No test of the speed gives a node a \<open>speedMs\<close>.\<close>

definition speeds_ms :: "session \<Rightarrow> rat option list \<times> rat option list" where
  "speeds_ms s = (map cn_speedMs (cs_instances s), map cn_speedMs (cs_manualNodes s))"

lemma map_first_same: "(\<And>x. g (f x) = g x) \<Longrightarrow> map g (map_first P f xs) = map g xs"
  by (induction xs) simp_all

lemma speeds_frame [simp]:
  "speeds_ms (cs_tick s) = speeds_ms s" "speeds_ms (record_speed env i v st e s) = speeds_ms s"
  by (simp_all add: speeds_ms_def cs_instances_def cs_manualNodes_def ms_instances_def ms_manual_def cs_tick_def next_step_def
      record_speed_def)

lemma speeds_patch [simp]: "speeds_ms (patch_speed i b v e s) = speeds_ms s"
  by (auto simp: speeds_ms_def patch_speed_def patch_node_def set_instances_def set_manual_nodes_def put_manual_def cs_instances_def
      cs_manualNodes_def ms_instances_def ms_manual_def map_first_same)

lemma speeds_calling: "calling f s = (r, t) \<Longrightarrow> speeds_ms t = speeds_ms s"
  by (auto simp: calling_def)

lemma speeds_test: "speeds_ms (test_node_speed env i s) = speeds_ms s"
  by (auto simp: test_node_speed_def measure_speed_def speed_failed_def Let_def dest: speeds_calling split: prod.split flow.split)

text \<open>
  The quick test always reports a timeout. The message after the test shows the \<open>speedMs\<close> of the node, but the test only ever sets its
  \<open>speedMbps\<close>: for a node without a \<open>speedMs\<close> the message is that of a timeout, whatever was measured, and no node gets a
  \<open>speedMs\<close> from it.
\<close>

theorem quick_test_always_reports_a_timeout:
  assumes "cn_speedMs n = None"
  shows "ua_shown (handle_quick_test env n a) = ua_shown a @
      [ShownInfo (ue_tr env ''cloud.quickActions.testingConnectivity'' []),
       ShownSuccess (ue_tr env ''cloud.quickActions.testComplete'' [(''status'', ue_tr env ''cloud.speed.timeout'' [])])]
    \<and> map cn_speedMs (cs_instances (ua_session (handle_quick_test env n a))) = map cn_speedMs (cs_instances (ua_session a))
    \<and> map cn_speedMs (cs_manualNodes (ua_session (handle_quick_test env n a))) = map cn_speedMs (cs_manualNodes (ua_session a))"
  using assms speeds_test [of "ue_session env" "cn_instanceId n" "ua_session a"]
  by (simp add: handle_quick_test_def say_def tr0_def Let_def speeds_ms_def)

subsection \<open>Properties: batches\<close>

lemma batch_loop_counts: "batch_loop f is (ok, failed) s = (Done (k, l), t) \<Longrightarrow> k + l = ok + failed + length is"
proof (induction "is" arbitrary: ok failed s)
  case Nil
  then show ?case by simp
next
  case (Cons i "is")
  obtain r u where r: "f i s = (r, u)" by fastforce
  show ?case
  proof (cases r)
    case (Done v)
    then show ?thesis using Cons.prems Cons.IH [of "Suc ok" failed u] r by simp
  next
    case (Throws e)
    then show ?thesis using Cons.prems Cons.IH [of ok "Suc failed" u] r by simp
  next
    case Hangs
    then show ?thesis using Cons.prems r by simp
  qed
qed

lemma batch_loop_never_throws: "fst (batch_loop f is c s) \<noteq> Throws e"
proof (induction "is" arbitrary: c s)
  case Nil
  then show ?case by simp
next
  case (Cons i "is")
  obtain r u where r: "f i s = (r, u)" by fastforce
  then show ?case using Cons by (cases c; cases r) simp_all
qed

text \<open>What the view shows at the end of a batch.\<close>

definition batch_verdict :: "actions_env \<Rightarrow> string \<Rightarrow> nat \<Rightarrow> nat \<Rightarrow> shown" where
  "batch_verdict env key ok failed =
     (if ok > 0 then ShownSuccess (ue_tr env key [(''success'', nat_text ok), (''fail'', nat_text failed)])
      else ShownError (ue_tr env ''cloud.batch.allFailed'' []))"

text \<open>A batch never ends with its button blocked, or it ends with one verdict over all selected nodes, nothing selected and the
  button free.\<close>

definition batch_ended :: "actions_env \<Rightarrow> string \<Rightarrow> actions \<Rightarrow> unit flow \<times> actions \<Rightarrow> bool" where
  "batch_ended env key a r = (case r of
      (Hangs, b) \<Rightarrow> ua_batch b
    | (Throws _, _) \<Rightarrow> False
    | (Done _, b) \<Rightarrow> \<not> ua_batch b \<and> ua_selected b = []
        \<and> (\<exists>ok failed errors. ok + failed = length (ua_selected a) \<and> length errors \<le> 1
             \<and> ua_shown b = ua_shown a @ batch_verdict env key ok failed # map ShownFailure errors))"

lemma on_session_frame [simp]:
  "ua_batch (snd (on_session f a)) = ua_batch a" "ua_shown (snd (on_session f a)) = ua_shown a"
  "ua_selected (snd (on_session f a)) = ua_selected a"
  by (simp_all add: on_session_def split: prod.split)

lemma run_batch_ended: "batch_ended env key a (run_batch env key f a)"
proof -
  let ?a = "a\<lparr>ua_batch := True\<rparr>"
  obtain r b where loop: "on_session (batch_loop f (ua_selected a) (0, 0)) ?a = (r, b)" by fastforce
  have frame: "ua_batch b" "ua_shown b = ua_shown a" "ua_selected b = ua_selected a"
    using on_session_frame [of "batch_loop f (ua_selected a) (0, 0)" ?a] by (simp_all add: loop)
  show ?thesis
  proof (cases r)
    case (Throws e)
    then have "fst (batch_loop f (ua_selected a) (0, 0) (ua_session ?a)) = Throws e"
      using loop by (auto simp: on_session_def split: prod.splits)
    then show ?thesis using batch_loop_never_throws by blast
  next
    case Hangs
    then show ?thesis using frame by (simp add: run_batch_def loop guarded_def flow_handle_def flow_finally_def batch_ended_def)
  next
    case (Done v)
    obtain ok failed where v: "v = (ok, failed)" by fastforce
    obtain u where "batch_loop f (ua_selected a) (0, 0) (ua_session ?a) = (Done (ok, failed), u)"
      using loop Done v by (auto simp: on_session_def split: prod.splits)
    from batch_loop_counts [OF this] have counts: "ok + failed = length (ua_selected a)" by simp
    let ?c = "clear_selection (say (batch_verdict env key ok failed) b)"
    obtain q c where refresh: "on_session (refresh_instances (ue_session env) True False) ?c = (q, c)" by fastforce
    have "ua_batch ?c" "ua_shown ?c = ua_shown a @ [batch_verdict env key ok failed]" "ua_selected ?c = []"
      using frame by (simp_all add: clear_selection_def say_def)
    with on_session_frame [of "refresh_instances (ue_session env) True False" ?c]
    have c: "ua_batch c" "ua_shown c = ua_shown a @ [batch_verdict env key ok failed]" "ua_selected c = []"
      unfolding refresh snd_conv by metis+
    have run: "run_batch env key f a = guarded (flow_then (q, c) (\<lambda>_ c. (Done (), c))) (\<lambda>c. c\<lparr>ua_batch := False\<rparr>)"
      using refresh by (cases "ok > 0") (simp_all add: run_batch_def loop Done v batch_verdict_def tr0_def)
    show ?thesis
    proof (cases q)
      case (Done w)
      then have "batch_ended env key a (Done (), c\<lparr>ua_batch := False\<rparr>)"
        using c counts unfolding batch_ended_def
        by simp (intro exI [of _ ok] exI [of _ failed] conjI exI [of _ "[]"], simp_all)
      then show ?thesis using Done by (simp add: run guarded_def flow_handle_def flow_finally_def)
    next
      case (Throws e)
      then have "batch_ended env key a (Done (), (say (ShownFailure e) c)\<lparr>ua_batch := False\<rparr>)"
        using c counts unfolding batch_ended_def
        by (simp add: say_def) (intro exI [of _ ok] exI [of _ failed] conjI exI [of _ "[e]"], simp_all)
      then show ?thesis using Throws by (simp add: run guarded_def flow_handle_def flow_finally_def)
    next
      case Hangs
      then show ?thesis using c by (simp add: run guarded_def flow_handle_def flow_finally_def batch_ended_def)
    qed
  qed
qed


definition quiet_actions :: "session \<Rightarrow> string list \<Rightarrow> actions" where
  "quiet_actions s sel = \<lparr>ua_session = s, ua_cdn = cdn_initial, ua_selected = sel, ua_batch = False, ua_applying = '''', ua_rotating = '''',
     ua_redeploying = '''', ua_speedAll = False, ua_balanced = False, ua_lbLoading = False, ua_clipboard = None, ua_shown = []\<rparr>"

definition quiet_actions_env :: actions_env where
  "quiet_actions_env = \<lparr>ue_session = listing_env [], ue_tr = (\<lambda>k _. k), ue_confirms = True, ue_clip_error = None, ue_core_error = None,
     ue_links = shared_links, ue_region = (\<lambda>r. r), ue_number = (\<lambda>_. ''1'')\<rparr>"


lemma quick_test_always_reports_a_timeout_witness:
  "ua_shown (handle_quick_test quiet_actions_env (server ''n1'' ''203.0.113.1'') (quiet_actions (session_start (manual_start [] [])) []))
     = [ShownInfo ''cloud.quickActions.testingConnectivity'', ShownSuccess ''cloud.quickActions.testComplete'']"
proof -
  have "cn_speedMs (server ''n1'' ''203.0.113.1'') = None" by (simp add: server_def bare_node_def)
  from quick_test_always_reports_a_timeout [OF this, of quiet_actions_env "quiet_actions (session_start (manual_start [] [])) []"]
  show ?thesis by (simp add: quiet_actions_env_def quiet_actions_def)
qed

subsection \<open>Using a node\<close>

text \<open>Whatever happens, the mark of the row is removed, unless applying the node never ends.\<close>

lemma use_node_frees_the_row: "fst (handle_use_node env n a) \<noteq> Hangs \<Longrightarrow> ua_applying (snd (handle_use_node env n a)) = ''''"
  by (auto simp: handle_use_node_def flow_finally_def Let_def split: prod.splits flow.splits)

text \<open>An unverified token or a node without a relay never reaches the store of the CDN.\<close>

lemma deploy_needs_token: "\<not> has_cdn_relay n \<or> \<not> cdn_is_verified (ua_cdn a) \<Longrightarrow> ua_cdn (snd (handle_deploy_cdn env n r a)) = ua_cdn a"
  by (auto simp: handle_deploy_cdn_def say_def)

end
