(* ===== verification/Spec2Isabelle.thy ===== *)
theory Spec2Isabelle
  imports Interfaces FileStore ProfileStore SubscribeStore RulesetStore ScheduledTasks Debounce AsyncPool
    KernelStart KernelLifecycle ProxyGroups Resilience CloudStore NodeHistory SmartRouting Generator
    KernelConfig LoadBalance NodeApply ManualDialogs ProviderSwitch OpsLaws
    ProxyLaws ScoreLaws UpgradeLaws ShareLaws CdnLaws ActionLaws
begin

text \<open>
  PrivateDeploy is a desktop client that deploys proxy nodes in the cloud and runs a proxy core
  (\<open>sing-box\<close>) on the user's machine. Its Go shell offers files, processes and cloud APIs; what the
  program decides is in the TypeScript front end under \<open>src/frontend/src\<close>, which these theories model.
  All paths below are relative to that directory.

  \<^bold>\<open>Parts and how they interact.\<close> The user's configuration is a list of profiles
  (\<open>stores/profiles.ts\<close>), subscriptions (\<open>stores/subscribes.ts\<close>) and rulesets (\<open>stores/rulesets.ts\<close>), each a
  list in memory saved to a file through a debounced function (\<open>utils/others.ts\<close>). The cloud module
  (\<open>stores/cloud\<close>) turns every deployed node into a subscription, enters it into the profiles and adds
  managed groups and rules to them. To run the core, the generator (\<open>utils/generator.ts\<close>) turns the
  selected profile into the core's JSON configuration, which the load balancer may extend, and the core is
  started with repairs and retries; its life cycle, its configuration and its groups are then followed.

  \<^bold>\<open>Foundations.\<close> \<open>Prelude\<close>: lists as JavaScript arrays, dictionaries in insertion order.
  \<open>JsValues\<close>: strings (Latin-1 code units), truthiness, numbers. \<open>Json\<close>: JSON values, \<open>deepClone\<close> and
  \<open>deepAssign\<close>. \<open>Flow\<close>: how an asynchronous operation ends, with a value, with an exception, or never.
  \<open>Interfaces\<close>: the locales \<open>normalizer\<close>, \<open>keyed_store\<close> and \<open>durable_store\<close>, the contracts of a normal
  form and of a saved list against an abstract map; they are interpreted on the code's own definitions in
  \<open>SmartRouting\<close>, \<open>ProfileStore\<close>, \<open>SubscribeStore\<close>, \<open>RulesetStore\<close>.

  \<^bold>\<open>Data.\<close> \<open>Profile\<close>: \<open>types/profile.d.ts\<close>, \<open>enums/kernel.ts\<close>, \<open>constant/profile.ts\<close> as records and
  datatypes, with the default objects. \<open>CloudNode\<close>: nodes, protocol health, identifiers and the helpers of
  \<open>stores/cloud/helpers.ts\<close>.

  \<^bold>\<open>Stores and their saving.\<close> \<open>FileStore\<close>: add, delete, edit with roll-back, as the three stores share
  them. \<open>ProfileStore\<close>: pruning of references and the start-up passes; the store refines a map.
  \<open>SubscribeStore\<close>, \<open>RulesetStore\<close>: updates from their sources. \<open>ScheduledTasks\<close>: tasks and cron jobs as a
  step relation. \<open>Debounce\<close>, \<open>AsyncPool\<close>: the two concurrency helpers of \<open>utils/others.ts\<close> as state
  machines. \<open>Resilience\<close>: retries and the offline queue.

  \<^bold>\<open>Cloud.\<close> \<open>SmartRouting\<close>: \<open>ensureSmartAutoRouting\<close>; normalisation is idempotent, keeps what is the
  user's, and every managed reference resolves. \<open>NodeProxies\<close>: the proxies of a node and which of them the
  groups select. \<open>NodeSubscriptions\<close>: the operations of \<open>stores/cloud/subscriptionApply.ts\<close> over health,
  subscriptions, profiles, files and groups; \<open>NodeApply\<close>: what they guarantee. \<open>CloudStore\<close>: reloads of
  the core. \<open>NodeHistory\<close>: samples per node. \<open>LoadBalance\<close>: the balancer and its configuration hook.

  \<^bold>\<open>Nodes of the user.\<close> \<open>ManualNodes\<close>: the list of nodes that are entered by hand (\<open>stores/cloud/manualImport.ts\<close>),
  which must collide neither with each other nor with a cloud node. \<open>ManualForm\<close>, \<open>ManualParser\<close>, \<open>ManualDialogs\<close>:
  the form, the reader of share links and JSON, and the handlers of the dialogs
  (\<open>views/CloudView/manualNodeForm.ts\<close>, \<open>manualNodeParser.ts\<close>, \<open>useCloudViewManualNodes.ts\<close>). \<open>Concurrent\<close>: operations of
  \<open>NodeSubscriptions\<close> called together through \<open>Promise.all\<close>, where a debounced save that a later call asks for
  leaves the earlier call waiting for ever; it takes for granted that the file operations before such a request
  end within the half second of the debounce.

  \<^bold>\<open>Session with the provider.\<close> \<open>CloudSession\<close>: the state that \<open>stores/cloud/providerConfig.ts\<close> and
  \<open>stores/cloud/instanceSync.ts\<close> share, on top of that of \<open>ManualNodes\<close>. \<open>ProviderConfig\<close>, \<open>ProviderSwitch\<close>: the
  configuration, regions and plans of a provider and the switch to another. \<open>InstanceRefresh\<close>, \<open>InstanceOps\<close>,
  \<open>NodeTests\<close>: \<open>refreshInstances\<close>; creating, destroying, rotating, redeploying; scheduled application and the tests of
  nodes. \<open>RefreshLaws\<close>, \<open>OpsLaws\<close>: what they guarantee and how they fail. \<open>Notifications\<close>:
  \<open>utils/notification.ts\<close> and the cache of \<open>utils/offline.ts\<close>. Operations that are started and not awaited are recorded in
  \<open>cs_started\<close>; each is an operation of its own, and what overlaps with the refresh that starts it is not modelled.

  \<^bold>\<open>Core.\<close> \<open>Generator\<close>: \<open>generateConfig\<close> and \<open>generateConfigFile\<close>; references resolve, the mixin has the
  promised priority, what is written has the promised shape. \<open>KernelConfig\<close>: the way back
  (\<open>utils/restorer.ts\<close>) and the runtime configuration (\<open>stores/kernelApiConfig.ts\<close>). \<open>KernelStart\<close>: start
  attempts and repairs. \<open>KernelLifecycle\<close>: start, stop, exit and health check as interleaved steps.
  \<open>ProxyGroups\<close>: the groups that are shown.

  \<^bold>\<open>System proxy.\<close> \<open>SystemProxy\<close>: the commands of \<open>utils/helper.ts\<close> that set and read the proxy of the
  operating system; \<open>ProxyControl\<close>: \<open>stores/env.ts\<close> and the automation of \<open>hooks/systemProxyControlCore.ts\<close> over them.
  \<open>ProxyLaws\<close>: the proxy of the user survives, and where the client takes its own for the user's. What the machine answers
  to a command is a parameter; for KDE and GNOME the laws name what is relied on, that a written key is read back.

  \<^bold>\<open>Scores of nodes.\<close> \<open>NodeScores\<close>: \<open>utils/healthCheck.ts\<close> and \<open>utils/recommendation.ts\<close> over rational numbers, where the
  code computes with doubles, so that scores at the edge of a rounding may differ by one; \<open>ScoreLaws\<close>: bounds, the ranking
  and the choice of a region.

  \<^bold>\<open>Old profiles.\<close> \<open>ProfileUpgrade\<close>: the two upgrades of \<open>utils/profilesUpgrader.ts\<close>; \<open>UpgradeLaws\<close>: the references of an
  upgraded profile resolve, it is not upgraded again, and which old profiles break the upgrade.

  \<^bold>\<open>Handlers of the cloud view.\<close> \<open>ShareLinks\<close>: the share links of a node and the progress of its deployment
  (\<open>views/CloudView/cloudNodeDisplay.ts\<close>); \<open>ShareLaws\<close>: a link is read back by \<open>ManualParser\<close> as what it was built from,
  and what an import of all links of a node comes to. Relied on is that the browser reads back what it wrote: \<open>atob\<close> after
  \<open>btoa\<close>, \<open>decodeURIComponent\<close> after \<open>encodeURIComponent\<close>, \<open>URL\<close> the parts of a link; a concrete browser is built as
  well. \<open>CdnStore\<close>: \<open>stores/cdn.ts\<close>, every call of the shell a step that begins and one that ends; \<open>CdnLaws\<close>: calls
  of one kind never overlap. \<open>CloudActions\<close>: the handlers of \<open>views/CloudView/useCloudViewActions.ts\<close> over the session and
  that store; \<open>ActionLaws\<close>: batches.

  \<^bold>\<open>Correspondence.\<close> Interfaces are records, unions datatypes, \<open>undefined\<close> is \<^const>\<open>None\<close> or the JSON value
  \<open>JUndef\<close>; objects used as maps are association lists in insertion order. Exceptions are the left of a sum
  or the error of a \<open>flow\<close>. Integers are unbounded: no modelled number leaves the range in which doubles
  are exact. Everything outside the front end (files, requests, clocks, processes, random identifiers,
  regular expressions, plugins, user scripts) is an argument of the definitions, gathered in environment
  records, with no hypothesis beyond what a property names. In \<open>NodeSubscriptions\<close> such an answer depends on
  a step counter, so that two writes may end differently, and a parameter says which of the debounced saves are
  superseded by a call from elsewhere. Shared objects are modelled where the code depends
  on them (the header of a subscription, the tags of outbounds during generation, blocks of an inbound).

  \<^bold>\<open>Bounds.\<close> No definition needs fuel: loops are structural recursions over the lists they visit, and the
  retry loops recurse on the attempts left, at most \<open>maxAttempts\<close> (three for API calls, five for starts).
  Unbounded behaviour, the debounced function, the pool, the scheduler and the core, is a step relation.

  \<^bold>\<open>Not modelled.\<close> Views (but for the handlers above), components and translations; the test of several selected
  nodes at once and charts of the cloud view; the bridge to Go and generated bindings; plugins and
  application settings, whose logic is glue; the REST and web socket calls; the parts of the restorer its
  only caller overwrites. Of \<open>stores/cloud/instanceSync.ts\<close> the tests of all nodes at once and the display of
  progress.
\<close>

end
